(* ===== verification/Prelude.thy ===== *)
theory Prelude
  imports Main "HOL-Library.Word" "HOL-Library.AList"
begin

text \<open>
  The shared vocabulary of the development: identifiers, Rust's unsigned integers with their
  checked, saturating and casting operations, operations that return a Rust \<open>Result\<close> and
  thread the state, and storage maps with an iteration order.
  Collections: \<open>sat_simps\<close> reads the integer operations as natural numbers and
  \<open>op_simps\<close> reads results.
\<close>

named_theorems sat_simps
named_theorems op_simps

section \<open>Identifiers\<close>

text \<open>
  An account identifier and a block hash are opaque in the pallets: only equality and, for
  accounts, the order (the \<open>Ord\<close> instance used by \<open>sort\<close>) are used.
\<close>

datatype account_id = AccountId nat

datatype hash = Hash nat

instantiation account_id :: linorder
begin

fun less_eq_account_id :: "account_id \<Rightarrow> account_id \<Rightarrow> bool" where
  "less_eq_account_id (AccountId a) (AccountId b) = (a \<le> b)"

fun less_account_id :: "account_id \<Rightarrow> account_id \<Rightarrow> bool" where
  "less_account_id (AccountId a) (AccountId b) = (a < b)"

instance
proof
  fix x y z :: account_id
  show "(x < y) = (x \<le> y \<and> \<not> y \<le> x)"
    by (cases x; cases y) auto
  show "x \<le> x"
    by (cases x) simp
  show "x \<le> y \<Longrightarrow> y \<le> z \<Longrightarrow> x \<le> z"
    by (cases x; cases y; cases z) auto
  show "x \<le> y \<Longrightarrow> y \<le> x \<Longrightarrow> x = y"
    by (cases x; cases y) auto
  show "x \<le> y \<or> y \<le> x"
    by (cases x; cases y) auto
qed

end

section \<open>Unsigned integers\<close>

type_synonym u32 = "32 word"
type_synonym u64 = "64 word"
type_synonym u128 = "128 word"

definition checked_add :: "'l::len word \<Rightarrow> 'l word \<Rightarrow> 'l word option" where
  "checked_add a b = (if unat a + unat b < 2 ^ LENGTH('l) then Some (a + b) else None)"

definition checked_sub :: "'l::len word \<Rightarrow> 'l word \<Rightarrow> 'l word option" where
  "checked_sub a b = (if unat b \<le> unat a then Some (a - b) else None)"

definition checked_mul :: "'l::len word \<Rightarrow> 'l word \<Rightarrow> 'l word option" where
  "checked_mul a b = (if unat a * unat b < 2 ^ LENGTH('l) then Some (a * b) else None)"

definition checked_div :: "'l::len word \<Rightarrow> 'l word \<Rightarrow> 'l word option" where
  "checked_div a b = (if b = 0 then None else Some (a div b))"

definition sat_add :: "'l::len word \<Rightarrow> 'l word \<Rightarrow> 'l word" where
  "sat_add a b = (if unat a + unat b < 2 ^ LENGTH('l) then a + b else - 1)"

definition sat_sub :: "'l::len word \<Rightarrow> 'l word \<Rightarrow> 'l word" where
  "sat_sub a b = (if unat b \<le> unat a then a - b else 0)"

definition sat_mul :: "'l::len word \<Rightarrow> 'l word \<Rightarrow> 'l word" where
  "sat_mul a b = (if unat a * unat b < 2 ^ LENGTH('l) then a * b else - 1)"

text \<open>\<open>saturated_into\<close>: the value if it fits the target type, its maximum otherwise.\<close>

definition sat_into :: "'a::len word \<Rightarrow> 'b::len word" where
  "sat_into a = (if unat a < 2 ^ LENGTH('b) then of_nat (unat a) else - 1)"

lemma unat_max: "unat (- 1 :: 'l::len word) = 2 ^ LENGTH('l) - 1"
proof -
  have "unat (- 1 :: 'l word) = mask LENGTH('l)"
    by (simp add: unsigned_minus_1_eq_mask)
  then show ?thesis
    by (simp add: mask_eq_exp_minus_1)
qed

lemma unat_lt: "unat a < 2 ^ LENGTH('l)" for a :: "'l::len word"
  by (rule unsigned_less)

lemma unat_le_max: "unat a \<le> 2 ^ LENGTH('l) - 1" for a :: "'l::len word"
  using unat_lt [of a] by linarith

lemma unat_sat_add [sat_simps]:
  "unat (sat_add a b) = min (unat a + unat b) (2 ^ LENGTH('l) - 1)"
  for a b :: "'l::len word"
  by (auto simp: sat_add_def unat_max unat_word_ariths min_def)

lemma unat_sat_sub [sat_simps]: "unat (sat_sub a b) = unat a - unat b"
  for a b :: "'l::len word"
  by (auto simp: sat_sub_def word_le_nat_alt unat_sub)

lemma unat_sat_mul [sat_simps]:
  "unat (sat_mul a b) = min (unat a * unat b) (2 ^ LENGTH('l) - 1)"
  for a b :: "'l::len word"
proof (cases "unat a * unat b < 2 ^ LENGTH('l)")
  case True
  then show ?thesis
    by (simp add: sat_mul_def unat_word_ariths)
next
  case False
  then show ?thesis
    by (simp add: sat_mul_def unat_max min.absorb2)
qed

lemma unat_sat_into [sat_simps]:
  "unat (sat_into a :: 'b::len word) = min (unat a) (2 ^ LENGTH('b) - 1)"
  by (auto simp: sat_into_def unat_max unsigned_of_nat take_bit_nat_eq_self_iff min_def
      simp del: of_nat_unat)

lemma checked_add_Some [sat_simps]:
  "checked_add a b = Some c \<longleftrightarrow> unat c = unat a + unat b"
  for a b c :: "'l::len word"
proof
  show "checked_add a b = Some c \<Longrightarrow> unat c = unat a + unat b"
    by (auto simp: checked_add_def unat_word_ariths split: if_splits)
next
  assume c: "unat c = unat a + unat b"
  moreover have "unat c < 2 ^ LENGTH('l)"
    by (rule unat_lt)
  ultimately show "checked_add a b = Some c"
    by (auto simp: checked_add_def unat_word_ariths word_unat_eq_iff)
qed

lemma checked_add_None: "checked_add a b = None \<longleftrightarrow> 2 ^ LENGTH('l) \<le> unat a + unat b"
  for a b :: "'l::len word"
  by (auto simp: checked_add_def)

lemma checked_sub_Some: "checked_sub a b = Some c \<longleftrightarrow> unat b \<le> unat a \<and> c = a - b"
  for a b c :: "'l::len word"
  by (auto simp: checked_sub_def)

lemma unat_sub_le [sat_simps]: "b \<le> a \<Longrightarrow> unat (a - b) = unat a - unat b"
  for a b :: "'l::len word"
  by (simp add: unat_sub)

lemma sat_add_zero [simp]: "sat_add a 0 = a" "sat_add 0 a = a"
  for a :: "'l::len word"
  by (simp_all add: sat_add_def)

lemma sat_sub_zero [simp]: "sat_sub a 0 = a"
  for a :: "'l::len word"
  by (simp add: sat_sub_def)

lemma sat_sub_le: "sat_sub a b \<le> a"
  for a b :: "'l::len word"
  by (simp add: word_le_nat_alt sat_simps)

lemma le_sat_add: "a \<le> sat_add a b"
  for a b :: "'l::len word"
  using unat_le_max [of a] by (simp add: word_le_nat_alt sat_simps)

text \<open>Where \<open>checked_add\<close> succeeds, the saturating addition is the exact one.\<close>

lemma checked_add_sat_add: "checked_add a b = Some c \<Longrightarrow> sat_add a b = c"
  for a b c :: "'l::len word"
  by (auto simp: checked_add_def sat_add_def split: if_splits)

section \<open>Operations that return a result\<close>

type_synonym ('e, 's, 'a) op = "'s \<Rightarrow> ('e + 'a) \<times> 's"

text \<open>
  \<open>each_op\<close> is a loop whose body ends with the question-mark operator: the first error stops it, with
  the state reached so far. \<open>each_ignore\<close> is a loop whose body drops the result
  (\<open>let _ = ...\<close>).
\<close>

fun each_op :: "('x \<Rightarrow> ('e, 's, unit) op) \<Rightarrow> 'x list \<Rightarrow> ('e, 's, unit) op" where
  "each_op f [] s = (Inr (), s)"
| "each_op f (x # xs) s =
     (case f x s of (Inl e, s') \<Rightarrow> (Inl e, s') | (Inr u, s') \<Rightarrow> each_op f xs s')"

fun each_ignore :: "('x \<Rightarrow> ('e, 's, unit) op) \<Rightarrow> 'x list \<Rightarrow> 's \<Rightarrow> 's" where
  "each_ignore f [] s = s"
| "each_ignore f (x # xs) s = each_ignore f xs (snd (f x s))"

text \<open>\<open>r?; g\<close>: an error is returned as it is; otherwise the state is updated and \<open>Ok(())\<close> returned.\<close>

definition then_do :: "('e + unit) \<times> 's \<Rightarrow> ('s \<Rightarrow> 's) \<Rightarrow> ('e + unit) \<times> 's" where
  "then_do r g = (case r of (Inl e, s) \<Rightarrow> (Inl e, s) | (Inr u, s) \<Rightarrow> (Inr (), g s))"

lemma then_do_ok [op_simps]: "fst r = Inr () \<Longrightarrow> then_do r g = (Inr (), g (snd r))"
  by (cases r) (simp add: then_do_def)

lemma then_do_fst [op_simps]: "fst (then_do r g) = fst r"
  by (cases r; cases "fst r") (auto simp: then_do_def)

lemma then_do_invariant: "P (snd r) \<Longrightarrow> (\<And>s. P s \<Longrightarrow> P (g s)) \<Longrightarrow> P (snd (then_do r g))"
  by (cases r; cases "fst r") (auto simp: then_do_def)

lemma each_op_invariant:
  assumes "\<And>x s. x \<in> set xs \<Longrightarrow> P s \<Longrightarrow> P (snd (f x s))" and "P s"
  shows "P (snd (each_op f xs s))"
  using assms
proof (induction xs arbitrary: s)
  case Nil
  then show ?case by simp
next
  case (Cons x xs)
  have step: "P (snd (f x s))"
    using Cons.prems by simp
  show ?case
  proof (cases "f x s")
    case (Pair r s')
    with step Cons show ?thesis
      by (cases r) auto
  qed
qed

lemma each_ignore_invariant:
  assumes "\<And>x s. x \<in> set xs \<Longrightarrow> P s \<Longrightarrow> P (snd (f x s))" and "P s"
  shows "P (each_ignore f xs s)"
  using assms by (induction xs arbitrary: s) auto

section \<open>Bounded vectors\<close>

text \<open>\<open>BoundedVec::try_push\<close> and \<open>BoundedVec::truncate_from\<close> for the bound \<open>n\<close>.\<close>

definition bv_try_push :: "u32 \<Rightarrow> 'x \<Rightarrow> 'x list \<Rightarrow> 'x list option" where
  "bv_try_push n x xs = (if length xs < unat n then Some (xs @ [x]) else None)"

definition bv_truncate :: "u32 \<Rightarrow> 'x list \<Rightarrow> 'x list" where
  "bv_truncate n xs = take (unat n) xs"

lemma length_bv_truncate [simp]: "length (bv_truncate n xs) \<le> unat n"
  by (simp add: bv_truncate_def)

section \<open>Storage maps\<close>

text \<open>
  A FRAME storage map holds at most one value per key and can be iterated. The model keeps
  the entries in a list; a key keeps its place when its value is overwritten. The order of
  the list stands for the iteration order of the storage, which the code does not rely on.
\<close>

type_synonym ('k, 'v) smap = "('k \<times> 'v) list"

definition sm_get :: "('k, 'v) smap \<Rightarrow> 'k \<Rightarrow> 'v option" where
  "sm_get m k = map_of m k"

definition sm_put :: "'k \<Rightarrow> 'v \<Rightarrow> ('k, 'v) smap \<Rightarrow> ('k, 'v) smap" where
  "sm_put k v m = AList.update k v m"

definition sm_del :: "'k \<Rightarrow> ('k, 'v) smap \<Rightarrow> ('k, 'v) smap" where
  "sm_del k m = AList.delete k m"

definition sm_keys :: "('k, 'v) smap \<Rightarrow> 'k list" where
  "sm_keys m = map fst m"

definition sm_wf :: "('k, 'v) smap \<Rightarrow> bool" where
  "sm_wf m \<longleftrightarrow> distinct (map fst m)"

text \<open>\<open>ValueQuery\<close> reads a default where there is no entry; \<open>contains_key\<close>.\<close>

definition sm_val :: "'v \<Rightarrow> ('k, 'v) smap \<Rightarrow> 'k \<Rightarrow> 'v" where
  "sm_val d m k = (case sm_get m k of None \<Rightarrow> d | Some v \<Rightarrow> v)"

definition sm_has :: "('k, 'v) smap \<Rightarrow> 'k \<Rightarrow> bool" where
  "sm_has m k \<longleftrightarrow> sm_get m k \<noteq> None"

text \<open>The contract of a storage map, and what follows from it for every client.\<close>

locale storage_map =
  fixes empty :: "'m"
    and lookup :: "'m \<Rightarrow> 'k \<Rightarrow> 'v option"
    and insert_at :: "'k \<Rightarrow> 'v \<Rightarrow> 'm \<Rightarrow> 'm"
    and remove_at :: "'k \<Rightarrow> 'm \<Rightarrow> 'm"
    and keys :: "'m \<Rightarrow> 'k list"
    and wf :: "'m \<Rightarrow> bool"
  assumes lookup_empty: "lookup empty k = None"
    and lookup_insert: "lookup (insert_at k v m) k' = (if k' = k then Some v else lookup m k')"
    and lookup_remove: "lookup (remove_at k m) k' = (if k' = k then None else lookup m k')"
    and set_keys: "set (keys m) = {k. lookup m k \<noteq> None}"
    and wf_empty: "wf empty"
    and wf_insert: "wf m \<Longrightarrow> wf (insert_at k v m)"
    and wf_remove: "wf m \<Longrightarrow> wf (remove_at k m)"
    and distinct_keys: "wf m \<Longrightarrow> distinct (keys m)"
begin

lemma count_insert:
  assumes "wf m"
  shows "length (keys (insert_at k v m)) =
    (if lookup m k = None then Suc (length (keys m)) else length (keys m))"
proof -
  have card: "length (keys m') = card {k. lookup m' k \<noteq> None}" if "wf m'" for m'
    using that by (metis distinct_card distinct_keys set_keys)
  have fin: "finite {k. lookup m k \<noteq> None}"
    by (metis List.finite_set set_keys)
  have "{k'. lookup (insert_at k v m) k' \<noteq> None} = insert k {k. lookup m k \<noteq> None}"
    by (auto simp: lookup_insert)
  with assms fin show ?thesis
    by (simp add: card wf_insert card_insert_if)
qed

lemma count_remove_le:
  assumes "wf m"
  shows "length (keys (remove_at k m)) \<le> length (keys m)"
proof -
  have card: "length (keys m') = card {k. lookup m' k \<noteq> None}" if "wf m'" for m'
    using that by (metis distinct_card distinct_keys set_keys)
  have fin: "finite {k. lookup m k \<noteq> None}"
    by (metis List.finite_set set_keys)
  have "{k'. lookup (remove_at k m) k' \<noteq> None} \<subseteq> {k. lookup m k \<noteq> None}"
    by (auto simp: lookup_remove split: if_splits)
  with assms fin show ?thesis
    by (simp add: card wf_remove card_mono)
qed

end

interpretation smap: storage_map "[]" sm_get sm_put sm_del sm_keys sm_wf
proof unfold_locales
  fix m :: "('k \<times> 'v) list" and k k' v
  show "sm_get ([] :: ('k \<times> 'v) list) k = None"
    by (simp add: sm_get_def)
  show "sm_get (sm_put k v m) k' = (if k' = k then Some v else sm_get m k')"
    by (simp add: sm_get_def sm_put_def update_conv')
  show "sm_get (sm_del k m) k' = (if k' = k then None else sm_get m k')"
    by (simp add: sm_get_def sm_del_def delete_conv')
  show "set (sm_keys m) = {k. sm_get m k \<noteq> None}"
    by (auto simp: sm_keys_def sm_get_def map_of_eq_None_iff dom_map_of_conv_image_fst)
  show "sm_wf ([] :: ('k \<times> 'v) list)"
    by (simp add: sm_wf_def)
  show "sm_wf m \<Longrightarrow> sm_wf (sm_put k v m)"
    by (simp add: sm_wf_def sm_put_def distinct_update)
  show "sm_wf m \<Longrightarrow> sm_wf (sm_del k m)"
    by (simp add: sm_wf_def sm_del_def distinct_delete)
  show "sm_wf m \<Longrightarrow> distinct (sm_keys m)"
    by (simp add: sm_wf_def sm_keys_def)
qed

lemmas sm_simps [simp] = smap.lookup_empty smap.lookup_insert smap.lookup_remove

lemma sm_val_empty [simp]: "sm_val d [] k = d"
  by (simp add: sm_val_def)

lemma sm_val_put [simp]: "sm_val d (sm_put k v m) k' = (if k' = k then v else sm_val d m k')"
  by (simp add: sm_val_def)

lemma sm_val_del [simp]: "sm_val d (sm_del k m) k' = (if k' = k then d else sm_val d m k')"
  by (simp add: sm_val_def)

lemma sm_has_put [simp]: "sm_has (sm_put k v m) k' \<longleftrightarrow> k' = k \<or> sm_has m k'"
  by (simp add: sm_has_def)

lemma sm_has_del [simp]: "sm_has (sm_del k m) k' \<longleftrightarrow> k' \<noteq> k \<and> sm_has m k'"
  by (simp add: sm_has_def)

lemma sm_has_empty [simp]: "\<not> sm_has [] k"
  by (simp add: sm_has_def)

text \<open>The sum of the amounts of a storage map, and its value at one key.\<close>

definition sm_sum :: "('k, 'l::len word) smap \<Rightarrow> nat" where
  "sm_sum m = sum_list (map (\<lambda>p. unat (snd p)) m)"

lemma sm_sum_empty [simp]: "sm_sum [] = 0"
  by (simp add: sm_sum_def)

lemma sm_sum_put: "sm_sum (sm_put k v m) + unat (sm_val 0 m k) = sm_sum m + unat v"
  by (induction m) (auto simp: sm_sum_def sm_put_def sm_val_def sm_get_def)

lemma sm_val_le_sum: "unat (sm_val 0 m k) \<le> sm_sum m"
  by (induction m) (auto simp: sm_sum_def sm_val_def sm_get_def)

end
