(* ===== verification/Pallet_Types.thy ===== *)
theory Pallet_Types
  imports Prelude
begin

text \<open>
  The error and reason enumerations of the pallets, the data the pallets share, the origin of
  a call, and two interfaces: the balances of the chain (a parameter, its code is the
  \<open>pallet-balances\<close> crate) and \<open>ValidatorHandler\<close>, through which \<open>pallet-cerulea-pos\<close>
  notifies the validator registry.
\<close>

section \<open>Origins and errors\<close>

datatype origin = Signed account_id | Root | Unsigned

datatype pos_error =
    ValidatorAlreadyRegistered | ValidatorNotRegistered | InvalidScore | TooManyValidators
  | ScoreTooLow | MaxSlashingCountReached | InsufficientStake | InvalidStakeAmount
  | StakeOperationFailed | SlashingBoundsExceeded | RewardBoundsExceeded | ArithmeticOverflow
  | ArithmeticUnderflow | LeaveCooldownActive | CooldownActive | ValidatorNotInSet
  | ValidatorAlreadyExists

datatype dvf_error =
    BlockAlreadyFinalized | InvalidValidator | InvalidSignature | DoubleVote
  | NonCheckpointBlock | EmptyJustification | DuplicateValidator | ThresholdNotReached
  | RoundMismatch | BlockHashMismatch | ValidatorSetIdMismatch | NotAllowedInGovernanceMode
  | NotEnoughValidators | ValidatorNotFound | NotValidator

datatype poi_error =
    InferenceAlreadySubmitted | InferenceNotFound | InvalidChallenge | ConfidenceTooLow
  | ChallengeWindowExpired | InferenceTooOld | CannotChallengeSelf | ChallengeAlreadyExists
  | WeightLimitExceeded | PoiValidatorNotFound

datatype (plugins only: code size) dcf_error =
    DcfValidatorNotFound | DcfInvalidWeight | DcfInvalidEpochConfig | DcfNotEnoughValidators
  | DcfNotAllowedInGovernanceMode | DcfNotValidator | DcfAlreadyVoted | DcfProposalNotApproved
  | DcfProposalAlreadyExecuted | DcfInvalidScore | DcfValidatorAlreadyExists
  | DcfValidatorNotInSet | DcfLeaveCooldownActive | DcfValidatorInCooldown
  | DcfValidatorHasPendingLeaveRequest | DcfValidatorRejoinStakeReservationFailed
  | DcfValidatorRejoinCooldownNotExpired | DcfConcurrentLeaveRequestNotAllowed
  | DcfAuthorValidationFailed | DcfInsufficientStake | DcfTrustScoreCalculationFailed
  | DcfInvalidValidatorMetadata | DcfStakeOperationFailed | DcfInvalidCooldownPeriod
  | DcfInvalidMisbehaviorEvidence | DcfEpochTransitionFailed | DcfParameterOutOfRange
  | DcfInvalidParameterType | DcfUnauthorizedParameterUpdate | DcfInvalidGovernanceConfig
  | DcfArithmeticOverflow | DcfArithmeticUnderflow | DcfSlashingBoundsExceeded
  | DcfRewardBoundsExceeded | DcfStorageVersionMismatch | DcfMigrationFailed
  | DcfStorageValidationFailed | DcfPerBlockRateLimitExceeded | DcfPerAccountRateLimitExceeded
  | DcfMinimumIntervalViolation | DcfWeightLimitExceeded | DcfInvalidRateLimitConfig
  | DcfGenesisValidationFailed | PrivateChainModeDisabled | AllowlistUpdatesDisabled
  | AllowlistFull | NotInAllowlist | ProposerNotInAllowlist | TargetNotInAllowlist
  | DcfTooManyValidators

datatype dispatch_error =
    BadOrigin | PosErr pos_error | DvfErr dvf_error | PoiErr poi_error | DcfErr dcf_error
  | OtherErr string

type_synonym ('w, 'a) call = "(dispatch_error, 'w, 'a) op"

text \<open>\<open>ensure_signed\<close> and \<open>ensure_root\<close>.\<close>

fun ensure_signed :: "origin \<Rightarrow> dispatch_error + account_id" where
  "ensure_signed (Signed who) = Inr who"
| "ensure_signed _ = Inl BadOrigin"

fun ensure_root :: "origin \<Rightarrow> dispatch_error + unit" where
  "ensure_root Root = Inr ()"
| "ensure_root _ = Inl BadOrigin"

fun ensure_none :: "origin \<Rightarrow> dispatch_error + unit" where
  "ensure_none Unsigned = Inr ()"
| "ensure_none _ = Inl BadOrigin"

section \<open>Data shared by the pallets\<close>

datatype reward_reason =
  ExceptionalPerformance | BlockAuthorship | ManualReward | InferenceQuality | EpochPerformance

datatype slash_reason =
    Misbehavior | PoorPerformance | ManualSlash | ConsensusViolation | Downtime
  | InvalidInference | InvalidBlock | Governance

record slashing_record =
  sr_block_number :: u32
  sr_amount :: u128
  sr_reason :: slash_reason
  sr_epoch :: u32

record epoch_stats =
  es_epoch :: u32
  stake_score :: u64
  inference_score :: u64
  final_score :: u64
  authored_blocks :: u32
  missed_blocks :: u32

datatype ejection_reason =
    ScoreBelowThreshold | MaxSlashingReached | ManualEjection | ExcessValidators
  | RepeatedMisbehavior | EjectInsufficientStake

datatype validator_status = Active | Inactive | Leaving | Ejected

datatype validator_action = Join | Leave

section \<open>Balances\<close>

text \<open>
  The operations of the \<open>Currency\<close> and \<open>ReservableCurrency\<close> traits the pallets call, over an
  unknown state of balances. \<open>unreserve\<close> and \<open>slash\<close> return, as the traits document, the part
  of the amount that could \<^emph>\<open>not\<close> be unreserved or slashed. \<open>reserved_balance\<close> is only used to
  state what the traits promise.
\<close>

record 'c currency =
  free_balance :: "'c \<Rightarrow> account_id \<Rightarrow> u128"
  reserved_balance :: "'c \<Rightarrow> account_id \<Rightarrow> u128"
  reserve :: "account_id \<Rightarrow> u128 \<Rightarrow> 'c \<Rightarrow> 'c option"
  unreserve :: "account_id \<Rightarrow> u128 \<Rightarrow> 'c \<Rightarrow> u128 \<times> 'c"
  deposit_creating :: "account_id \<Rightarrow> u128 \<Rightarrow> 'c \<Rightarrow> 'c"
  slash_balance :: "account_id \<Rightarrow> u128 \<Rightarrow> 'c \<Rightarrow> u128 \<times> 'c"

text \<open>
  What the documentation of \<open>unreserve\<close> and \<open>slash\<close> promises: an account that holds the whole
  amount in reserve (in its free balance, for \<open>slash\<close>) leaves no remainder, and \<open>unreserve\<close>
  then lowers the reserve by the amount.
\<close>

definition unreserve_spec :: "'c currency \<Rightarrow> bool" where
  "unreserve_spec C \<longleftrightarrow> (\<forall>c who n. n \<le> reserved_balance C c who \<longrightarrow>
     fst (unreserve C who n c) = 0 \<and>
     reserved_balance C (snd (unreserve C who n c)) who = reserved_balance C c who - n)"

definition slash_spec :: "'c currency \<Rightarrow> bool" where
  "slash_spec C \<longleftrightarrow> (\<forall>c who n. n \<le> free_balance C c who \<longrightarrow>
     fst (slash_balance C who n c) = 0)"

text \<open>
  A concrete bookkeeping of free and reserved balances, which the witnesses use.
\<close>

definition book_currency :: "(account_id \<Rightarrow> u128 \<times> u128) currency" where
  "book_currency = \<lparr>
     free_balance = (\<lambda>c who. fst (c who)),
     reserved_balance = (\<lambda>c who. snd (c who)),
     reserve = (\<lambda>who n c. if n \<le> fst (c who)
       then Some (c(who := (fst (c who) - n, snd (c who) + n))) else None),
     unreserve = (\<lambda>who n c. let m = min n (snd (c who))
       in (n - m, c(who := (fst (c who) + m, snd (c who) - m)))),
     deposit_creating = (\<lambda>who n c. c(who := (fst (c who) + n, snd (c who)))),
     slash_balance = (\<lambda>who n c. let m = min n (fst (c who))
       in (n - m, c(who := (fst (c who) - m, snd (c who)))))\<rparr>"

lemma book_unreserve_spec: "unreserve_spec book_currency"
  by (simp add: unreserve_spec_def book_currency_def Let_def min_def)

lemma book_slash_spec: "slash_spec book_currency"
  by (simp add: slash_spec_def book_currency_def Let_def min_def)

section \<open>The validator handler\<close>

text \<open>The trait \<open>ValidatorHandler\<close>: an implementation acts on the whole state \<open>'w\<close> of the chain.\<close>

record 'w validator_handler =
  on_joined :: "account_id \<Rightarrow> u128 \<Rightarrow> ('w, unit) call"
  on_leave_requested :: "account_id \<Rightarrow> ('w, unit) call"
  on_left :: "account_id \<Rightarrow> ('w, unit) call"
  on_stake_increased :: "account_id \<Rightarrow> u128 \<Rightarrow> ('w, unit) call"
  on_stake_decreased :: "account_id \<Rightarrow> u128 \<Rightarrow> ('w, unit) call"
  on_slashed :: "account_id \<Rightarrow> u128 \<Rightarrow> u64 \<Rightarrow> ('w, unit) call"
  on_rewarded :: "account_id \<Rightarrow> u128 \<Rightarrow> u64 \<Rightarrow> ('w, unit) call"
  get_validator_score :: "'w \<Rightarrow> account_id \<Rightarrow> u64"
  get_active_validators :: "'w \<Rightarrow> account_id list"

text \<open>The implementation for the unit type does nothing.\<close>

definition unit_handler :: "'w validator_handler" where
  "unit_handler = \<lparr>
     on_joined = (\<lambda>v s w. (Inr (), w)),
     on_leave_requested = (\<lambda>v w. (Inr (), w)),
     on_left = (\<lambda>v w. (Inr (), w)),
     on_stake_increased = (\<lambda>v n w. (Inr (), w)),
     on_stake_decreased = (\<lambda>v n w. (Inr (), w)),
     on_slashed = (\<lambda>v n p w. (Inr (), w)),
     on_rewarded = (\<lambda>v n b w. (Inr (), w)),
     get_validator_score = (\<lambda>w v. 0),
     get_active_validators = (\<lambda>w. [])\<rparr>"

end
