(* ===== verification/Pos_Pallet.thy ===== *)
theory Pos_Pallet
  imports Pallet_Types
begin

text \<open>
  \<open>pallet-cerulea-pos\<close>: validator registration, scores, stakes, slashing and epoch-bounded
  rewards. The storage of the pallet is a record that the registry pallet extends with its own
  storage; every call is a function on that state which returns a result and the state it
  leaves, also where it returns an error.
\<close>

section \<open>Configuration, storage and events\<close>

record pos_config =
  MinValidatorScore :: u32
  PosMaxValidators :: u32
  MaxSlashingCount :: u32
  MinStake :: u128
  LeaveCooldown :: u32
  ValidatorReward :: u128
  SlashPercent :: u32
  MaxSlashPerEpoch :: u128
  MaxSlashPerValidator :: u128
  MaxRewardPerEpoch :: u128
  MaxRewardPerValidator :: u128
  SlashPenaltyDivisor :: u64
  MaxSlashPenalty :: u64
  RewardBoostDivisor :: u64
  MaxRewardBoost :: u64
  HighPerformanceScore :: u64
  TopPerformerPercentage :: u32

datatype pos_event =
    ValidatorRegistered account_id
  | ScoreSubmitted account_id u32
  | ValidatorSlashed account_id u32
  | ValidatorRemoved account_id string
  | StakeBonded account_id u128
  | StakeUnbonded account_id u128
  | ScoreBoosted account_id u32 u32 u32
  | ScoreSlashed account_id u32 u32 u32
  | ValidatorStakeSlashed account_id u128 u128 u128
  | ValidatorActivated account_id
  | ValidatorDeactivated account_id
  | StakeUpdated account_id u128 u128
  | ValidatorStakeReserved account_id u128
  | ValidatorStakeUnreserved account_id u128
  | ValidatorStakeIncreased account_id u128
  | ValidatorStakeDecreased account_id u128
  | EpochRewardsDistributed u32 u128
  | PosValidatorJoined account_id u128
  | PosValidatorLeft account_id
  | PosValidatorLeaveRequested account_id u32
  | PosValidatorLeaveCancelled account_id

record 'c pos_world =
  balances :: 'c
  block_number :: u32
  Validators :: "(account_id, bool) smap"
  ValidatorScores :: "(account_id, u32) smap"
  PosCurrentEpoch :: u32
  SlashingCount :: "(account_id, u32) smap"
  ValidatorSlashingHistory :: "(account_id, slashing_record list) smap"
  Stake :: "(account_id, u128) smap"
  EpochTotalRewarded :: u128
  EpochTotalSlashed :: u128
  ValidatorEpochRewarded :: "(account_id, u128) smap"
  ValidatorEpochSlashed :: "(account_id, u128) smap"
  pos_events :: "pos_event list"

definition pos_deposit_event :: "pos_event \<Rightarrow> ('c, 'z) pos_world_scheme \<Rightarrow> ('c, 'z) pos_world_scheme" where
  "pos_deposit_event e w = w\<lparr>pos_events := pos_events w @ [e]\<rparr>"

record pos_genesis =
  g_validators :: "account_id list"
  g_validator_scores :: "u32 list"
  g_current_epoch :: u32
  g_slashing_count :: "(account_id \<times> u32) list"

definition pos_genesis_build :: "pos_genesis \<Rightarrow> ('c, 'z) pos_world_scheme \<Rightarrow> ('c, 'z) pos_world_scheme" where
  "pos_genesis_build g w =
     w\<lparr>Validators := fold (\<lambda>v. sm_put v True) (g_validators g) (Validators w),
       ValidatorScores := fold (\<lambda>(v, s). sm_put v s) (zip (g_validators g) (g_validator_scores g))
         (ValidatorScores w),
       PosCurrentEpoch := g_current_epoch g,
       SlashingCount := fold (\<lambda>(v, n). sm_put v n) (g_slashing_count g) (SlashingCount w)\<rparr>"

section \<open>Registration and scores\<close>

definition register_validator ::
  "pos_config \<Rightarrow> origin \<Rightarrow> (('c, 'z) pos_world_scheme, unit) call" where
  "register_validator cfg orig w =
     (case ensure_signed orig of Inl e \<Rightarrow> (Inl e, w) | Inr who \<Rightarrow>
      if \<not> length (sm_keys (Validators w)) < unat (PosMaxValidators cfg)
      then (Inl (PosErr TooManyValidators), w)
      else if sm_has (Validators w) who
      then (Inl (PosErr ValidatorAlreadyRegistered), w)
      else (Inr (), pos_deposit_event (ValidatorRegistered who)
              (w\<lparr>Validators := sm_put who True (Validators w)\<rparr>)))"

definition submit_score ::
  "pos_config \<Rightarrow> origin \<Rightarrow> account_id \<Rightarrow> u32 \<Rightarrow> (('c, 'z) pos_world_scheme, unit) call" where
  "submit_score cfg orig validator score w =
     (case ensure_signed orig of Inl e \<Rightarrow> (Inl e, w) | Inr _ \<Rightarrow>
      if \<not> sm_has (Validators w) validator
      then (Inl (PosErr ValidatorNotRegistered), w)
      else if \<not> score \<ge> MinValidatorScore cfg
      then (Inl (PosErr ScoreTooLow), w)
      else (Inr (), pos_deposit_event (ScoreSubmitted validator score)
              (w\<lparr>ValidatorScores := sm_put validator score (ValidatorScores w)\<rparr>)))"

definition removed_for_slashing :: string where
  "removed_for_slashing = ''Max slashing count reached''"

definition slash_validator_call ::
  "pos_config \<Rightarrow> origin \<Rightarrow> account_id \<Rightarrow> (('c, 'z) pos_world_scheme, unit) call" where
  "slash_validator_call cfg orig validator w =
     (case ensure_signed orig of Inl e \<Rightarrow> (Inl e, w) | Inr _ \<Rightarrow>
      if \<not> sm_has (Validators w) validator
      then (Inl (PosErr ValidatorNotRegistered), w)
      else
        (let count = sm_val 0 (SlashingCount w) validator + 1;
             w1 = (if count \<ge> MaxSlashingCount cfg
                   then pos_deposit_event (ValidatorRemoved validator removed_for_slashing)
                     (w\<lparr>Validators := sm_del validator (Validators w),
                        ValidatorScores := sm_del validator (ValidatorScores w),
                        SlashingCount := sm_del validator (SlashingCount w)\<rparr>)
                   else w\<lparr>SlashingCount := sm_put validator count (SlashingCount w)\<rparr>)
         in (Inr (), pos_deposit_event (ValidatorSlashed validator count) w1)))"

definition boost_score ::
  "origin \<Rightarrow> account_id \<Rightarrow> u32 \<Rightarrow> (('c, 'z) pos_world_scheme, unit) call" where
  "boost_score orig validator weight w =
     (case ensure_signed orig of Inl e \<Rightarrow> (Inl e, w) | Inr _ \<Rightarrow>
      if \<not> sm_has (Validators w) validator
      then (Inl (PosErr ValidatorNotRegistered), w)
      else
        (let current_score = sm_val 0 (ValidatorScores w) validator;
             new_score = sat_add current_score weight
         in (Inr (), pos_deposit_event (ScoreBoosted validator current_score new_score weight)
               (pos_deposit_event (ScoreSubmitted validator new_score)
                 (w\<lparr>ValidatorScores := sm_put validator new_score (ValidatorScores w)\<rparr>)))))"

definition slash_score ::
  "origin \<Rightarrow> account_id \<Rightarrow> u32 \<Rightarrow> (('c, 'z) pos_world_scheme, unit) call" where
  "slash_score orig validator weight w =
     (case ensure_signed orig of Inl e \<Rightarrow> (Inl e, w) | Inr _ \<Rightarrow>
      if \<not> sm_has (Validators w) validator
      then (Inl (PosErr ValidatorNotRegistered), w)
      else
        (let current_score = sm_val 0 (ValidatorScores w) validator;
             new_score = sat_sub current_score weight
         in (Inr (), pos_deposit_event (ScoreSlashed validator current_score new_score weight)
               (pos_deposit_event (ScoreSubmitted validator new_score)
                 (w\<lparr>ValidatorScores := sm_put validator new_score (ValidatorScores w)\<rparr>)))))"

section \<open>Stakes\<close>

definition bond_stake ::
  "pos_config \<Rightarrow> origin \<Rightarrow> u128 \<Rightarrow> (('c, 'z) pos_world_scheme, unit) call" where
  "bond_stake cfg orig amount w =
     (case ensure_signed orig of Inl e \<Rightarrow> (Inl e, w) | Inr who \<Rightarrow>
      if \<not> amount \<ge> MinStake cfg then (Inl (PosErr InsufficientStake), w)
      else if \<not> sm_has (Validators w) who then (Inl (PosErr ValidatorNotRegistered), w)
      else
        (let current_stake = sm_val 0 (Stake w) who
         in case checked_add current_stake amount of
              None \<Rightarrow> (Inl (PosErr InvalidStakeAmount), w)
            | Some new_stake \<Rightarrow>
                (Inr (), pos_deposit_event (StakeUpdated who current_stake new_stake)
                  (pos_deposit_event (StakeBonded who amount)
                    (w\<lparr>Stake := sm_put who new_stake (Stake w)\<rparr>)))))"

definition unbond_stake ::
  "pos_config \<Rightarrow> origin \<Rightarrow> u128 \<Rightarrow> (('c, 'z) pos_world_scheme, unit) call" where
  "unbond_stake cfg orig amount w =
     (case ensure_signed orig of Inl e \<Rightarrow> (Inl e, w) | Inr who \<Rightarrow>
      if \<not> sm_has (Validators w) who then (Inl (PosErr ValidatorNotRegistered), w)
      else
        (let current_stake = sm_val 0 (Stake w) who
         in if \<not> current_stake \<ge> amount then (Inl (PosErr InsufficientStake), w)
            else case checked_sub current_stake amount of
              None \<Rightarrow> (Inl (PosErr InvalidStakeAmount), w)
            | Some new_stake \<Rightarrow>
                if \<not> new_stake \<ge> MinStake cfg then (Inl (PosErr InsufficientStake), w)
                else (Inr (), pos_deposit_event (StakeUpdated who current_stake new_stake)
                  (pos_deposit_event (StakeUnbonded who amount)
                    (w\<lparr>Stake := sm_put who new_stake (Stake w)\<rparr>)))))"

text \<open>\<open>Stake::mutate\<close> on a \<open>ValueQuery\<close> map writes an entry back even where there was none.\<close>

definition increase_validator_stake ::
  "'c currency \<Rightarrow> ('c, 'z) pos_world_scheme validator_handler \<Rightarrow> origin \<Rightarrow> u128
     \<Rightarrow> (('c, 'z) pos_world_scheme, unit) call" where
  "increase_validator_stake C H orig additional_amount w =
     (case ensure_signed orig of Inl e \<Rightarrow> (Inl e, w) | Inr who \<Rightarrow>
      if \<not> sm_has (Validators w) who then (Inl (PosErr ValidatorNotInSet), w)
      else if \<not> free_balance C (balances w) who \<ge> additional_amount
      then (Inl (PosErr InsufficientStake), w)
      else case reserve C who additional_amount (balances w) of
        None \<Rightarrow> (Inl (PosErr InsufficientStake), w)
      | Some b \<Rightarrow>
        then_do (on_stake_increased H who additional_amount
           (w\<lparr>balances := b,
              Stake := sm_put who (sat_add (sm_val 0 (Stake w) who) additional_amount) (Stake w)\<rparr>))
         (\<lambda>w1. pos_deposit_event (ValidatorStakeIncreased who additional_amount)
           (pos_deposit_event (ValidatorStakeReserved who additional_amount) w1)))"

definition decrease_validator_stake ::
  "pos_config \<Rightarrow> 'c currency \<Rightarrow> ('c, 'z) pos_world_scheme validator_handler \<Rightarrow> origin \<Rightarrow> u128
     \<Rightarrow> (('c, 'z) pos_world_scheme, unit) call" where
  "decrease_validator_stake cfg C H orig decrease_amount w =
     (case ensure_signed orig of Inl e \<Rightarrow> (Inl e, w) | Inr who \<Rightarrow>
      if \<not> sm_has (Validators w) who then (Inl (PosErr ValidatorNotInSet), w)
      else
        (let current_stake = sm_val 0 (Stake w) who
         in if \<not> sat_sub current_stake decrease_amount \<ge> MinStake cfg
            then (Inl (PosErr InsufficientStake), w)
            else
              (let (unreserved, b) = unreserve C who decrease_amount (balances w)
               in then_do (on_stake_decreased H who unreserved
                    (w\<lparr>balances := b,
                       Stake := sm_put who (sat_sub (sm_val 0 (Stake w) who) unreserved) (Stake w)\<rparr>))
                  (\<lambda>w1. pos_deposit_event (ValidatorStakeDecreased who unreserved)
                    (pos_deposit_event (ValidatorStakeUnreserved who unreserved) w1)))))"

section \<open>Rewards\<close>

definition score_boost_of :: "pos_config \<Rightarrow> u128 \<Rightarrow> u64" where
  "score_boost_of cfg reward_amount =
     min (case checked_div (sat_into reward_amount) (RewardBoostDivisor cfg) of None \<Rightarrow> 0 | Some q \<Rightarrow> q)
       (MaxRewardBoost cfg)"

text \<open>An amount of zero asks for the configured default reward.\<close>

definition effective_reward :: "pos_config \<Rightarrow> u128 \<Rightarrow> u128" where
  "effective_reward cfg amount = (if amount > 0 then amount else ValidatorReward cfg)"

text \<open>The payment and its entry in the totals of the epoch.\<close>

definition reward_booked ::
  "'c currency \<Rightarrow> account_id \<Rightarrow> u128 \<Rightarrow> ('c, 'z) pos_world_scheme \<Rightarrow> ('c, 'z) pos_world_scheme" where
  "reward_booked C validator reward_amount w =
     w\<lparr>balances := deposit_creating C validator reward_amount (balances w),
       EpochTotalRewarded := sat_add (EpochTotalRewarded w) reward_amount,
       ValidatorEpochRewarded := sm_put validator
         (sat_add (sm_val 0 (ValidatorEpochRewarded w) validator) reward_amount)
         (ValidatorEpochRewarded w)\<rparr>"

definition execute_reward_validator_with_reason ::
  "pos_config \<Rightarrow> 'c currency \<Rightarrow> ('c, 'z) pos_world_scheme validator_handler \<Rightarrow> account_id \<Rightarrow> u128
     \<Rightarrow> reward_reason \<Rightarrow> (('c, 'z) pos_world_scheme, unit) call" where
  "execute_reward_validator_with_reason cfg C H validator amount reason w =
     (if \<not> sm_has (Validators w) validator then (Inl (PosErr ValidatorNotInSet), w)
      else
        (let pre_balance = free_balance C (balances w) validator;
             reward_amount = effective_reward cfg amount
         in case checked_add (EpochTotalRewarded w) reward_amount of
              None \<Rightarrow> (Inl (PosErr ArithmeticOverflow), w)
            | Some new_epoch_total \<Rightarrow>
              if \<not> new_epoch_total \<le> MaxRewardPerEpoch cfg
              then (Inl (PosErr RewardBoundsExceeded), w)
              else case checked_add (sm_val 0 (ValidatorEpochRewarded w) validator) reward_amount of
                None \<Rightarrow> (Inl (PosErr ArithmeticOverflow), w)
              | Some new_validator_total \<Rightarrow>
                if \<not> new_validator_total \<le> MaxRewardPerValidator cfg
                then (Inl (PosErr RewardBoundsExceeded), w)
                else case checked_add pre_balance reward_amount of
                  None \<Rightarrow> (Inl (PosErr ArithmeticOverflow), w)
                | Some _ \<Rightarrow>
                  on_rewarded H validator reward_amount (score_boost_of cfg reward_amount)
                    (reward_booked C validator reward_amount w)))"

definition execute_reward_validator ::
  "pos_config \<Rightarrow> 'c currency \<Rightarrow> ('c, 'z) pos_world_scheme validator_handler \<Rightarrow> account_id \<Rightarrow> u128
     \<Rightarrow> (('c, 'z) pos_world_scheme, unit) call" where
  "execute_reward_validator cfg C H validator amount =
     execute_reward_validator_with_reason cfg C H validator amount ManualReward"

text \<open>\<open>distribute_rewards\<close>: what each validator of the sorted list is paid, then the payments.\<close>

definition validator_scores_of ::
  "('c, 'z) pos_world_scheme validator_handler \<Rightarrow> ('c, 'z) pos_world_scheme
     \<Rightarrow> (account_id \<times> u64) list" where
  "validator_scores_of H w =
     sort_key (\<lambda>(v, s). - int (unat s))
       (map (\<lambda>v. (v, get_validator_score H w v)) (get_active_validators H w))"

definition len_u128 :: "'x list \<Rightarrow> u128" where
  "len_u128 xs = ucast (of_nat (length xs) :: u32)"

definition share_of :: "u128 \<Rightarrow> 'x list \<Rightarrow> u128" where
  "share_of pool xs = (if xs \<noteq> [] then pool div len_u128 xs else 0)"

definition high_performers_of :: "pos_config \<Rightarrow> (account_id \<times> u64) list \<Rightarrow> (account_id \<times> u64) list" where
  "high_performers_of cfg vs = filter (\<lambda>(v, s). s \<ge> HighPerformanceScore cfg) vs"

definition top_performers_of :: "pos_config \<Rightarrow> (account_id \<times> u64) list \<Rightarrow> (account_id \<times> u64) list" where
  "top_performers_of cfg vs =
     (let total_validators = length vs;
          top_performer_count = (total_validators * unat (TopPerformerPercentage cfg)) div 100
      in take (min top_performer_count total_validators) vs)"

definition total_reward_of ::
  "pos_config \<Rightarrow> u128 \<Rightarrow> u128 \<Rightarrow> u128 \<Rightarrow> (account_id \<times> u64) list \<Rightarrow> account_id \<times> u64 \<Rightarrow> u128" where
  "total_reward_of cfg base_pool perf_pool top_pool vs = (\<lambda>(validator, score).
     let r0 = share_of base_pool vs;
         r1 = (if score \<ge> HighPerformanceScore cfg
               then sat_add r0 (share_of perf_pool (high_performers_of cfg vs)) else r0);
         r2 = (if \<exists>p \<in> set (top_performers_of cfg vs). fst p = validator
               then sat_add r1 (share_of top_pool (top_performers_of cfg vs)) else r1)
     in r2)"

definition distribute_rewards ::
  "pos_config \<Rightarrow> 'c currency \<Rightarrow> ('c, 'z) pos_world_scheme validator_handler \<Rightarrow> u128 \<Rightarrow> u128 \<Rightarrow> u128
     \<Rightarrow> (('c, 'z) pos_world_scheme, unit) call" where
  "distribute_rewards cfg C H base_pool perf_pool top_pool w =
     (if get_active_validators H w = [] then (Inr (), w)
      else
        (let vs = validator_scores_of H w
         in then_do (each_op (\<lambda>p. execute_reward_validator cfg C H (fst p)
                    (total_reward_of cfg base_pool perf_pool top_pool vs p)) vs w)
              (\<lambda>w1. pos_deposit_event
                 (EpochRewardsDistributed (PosCurrentEpoch w1) (base_pool + perf_pool + top_pool)) w1)))"

definition reward_validator_call ::
  "pos_config \<Rightarrow> 'c currency \<Rightarrow> ('c, 'z) pos_world_scheme validator_handler \<Rightarrow> origin \<Rightarrow> account_id
     \<Rightarrow> u128 \<Rightarrow> (('c, 'z) pos_world_scheme, unit) call" where
  "reward_validator_call cfg C H orig validator amount w =
     (case ensure_root orig of Inl e \<Rightarrow> (Inl e, w) | Inr _ \<Rightarrow>
      execute_reward_validator cfg C H validator amount w)"

definition reward_multiple_validators ::
  "pos_config \<Rightarrow> 'c currency \<Rightarrow> ('c, 'z) pos_world_scheme validator_handler \<Rightarrow> origin
     \<Rightarrow> account_id list \<Rightarrow> u128 \<Rightarrow> (('c, 'z) pos_world_scheme, unit) call" where
  "reward_multiple_validators cfg C H orig vs amount w =
     (case ensure_root orig of Inl e \<Rightarrow> (Inl e, w) | Inr _ \<Rightarrow>
      (Inr (), each_ignore (\<lambda>v. execute_reward_validator cfg C H v amount) vs w))"

definition reward_all_active_validators ::
  "pos_config \<Rightarrow> 'c currency \<Rightarrow> ('c, 'z) pos_world_scheme validator_handler \<Rightarrow> origin \<Rightarrow> u128
     \<Rightarrow> (('c, 'z) pos_world_scheme, unit) call" where
  "reward_all_active_validators cfg C H orig amount w =
     (case ensure_root orig of Inl e \<Rightarrow> (Inl e, w) | Inr _ \<Rightarrow>
      (Inr (), each_ignore (\<lambda>v. execute_reward_validator cfg C H v amount)
        (get_active_validators H w) w))"

definition distribute_epoch_rewards ::
  "pos_config \<Rightarrow> 'c currency \<Rightarrow> ('c, 'z) pos_world_scheme validator_handler \<Rightarrow> origin \<Rightarrow> u128
     \<Rightarrow> (('c, 'z) pos_world_scheme, unit) call" where
  "distribute_epoch_rewards cfg C H orig total_reward_pool w =
     (case ensure_root orig of Inl e \<Rightarrow> (Inl e, w) | Inr _ \<Rightarrow>
      distribute_rewards cfg C H
        ((total_reward_pool * 60) div 100)
        ((total_reward_pool * 25) div 100)
        ((total_reward_pool * 15) div 100) w)"

section \<open>Slashing\<close>

definition score_penalty_of :: "pos_config \<Rightarrow> u128 \<Rightarrow> u64" where
  "score_penalty_of cfg slashed_amount =
     min (case checked_div (sat_into slashed_amount) (SlashPenaltyDivisor cfg) of None \<Rightarrow> 0 | Some q \<Rightarrow> q)
       (MaxSlashPenalty cfg)"

text \<open>An amount of zero asks for \<open>SlashPercent\<close> of the free balance.\<close>

definition effective_slash :: "pos_config \<Rightarrow> u128 \<Rightarrow> u128 \<Rightarrow> dispatch_error + u128" where
  "effective_slash cfg pre_balance amount =
     (if amount = 0 then
        (case checked_mul pre_balance (sat_into (SlashPercent cfg)) of
           None \<Rightarrow> Inl (PosErr ArithmeticOverflow)
         | Some numerator \<Rightarrow>
             (case checked_div numerator 100 of
                None \<Rightarrow> Inl (PosErr ArithmeticUnderflow) | Some q \<Rightarrow> Inr q))
      else Inr amount)"

definition slash_booked ::
  "'c \<Rightarrow> account_id \<Rightarrow> u128 \<Rightarrow> ('c, 'z) pos_world_scheme \<Rightarrow> ('c, 'z) pos_world_scheme" where
  "slash_booked b validator slashed_amount w =
     w\<lparr>balances := b,
       EpochTotalSlashed := sat_add (EpochTotalSlashed w) slashed_amount,
       ValidatorEpochSlashed := sm_put validator
         (sat_add (sm_val 0 (ValidatorEpochSlashed w) validator) slashed_amount)
         (ValidatorEpochSlashed w)\<rparr>"

definition execute_slash_validator_with_reason ::
  "pos_config \<Rightarrow> 'c currency \<Rightarrow> ('c, 'z) pos_world_scheme validator_handler \<Rightarrow> account_id \<Rightarrow> u128
     \<Rightarrow> slash_reason \<Rightarrow> (('c, 'z) pos_world_scheme, unit) call" where
  "execute_slash_validator_with_reason cfg C H validator amount reason w =
     (if \<not> sm_has (Validators w) validator then (Inl (PosErr ValidatorNotInSet), w)
      else case effective_slash cfg (free_balance C (balances w) validator) amount of
        Inl e \<Rightarrow> (Inl e, w)
      | Inr slash_amount \<Rightarrow>
        (case checked_add (EpochTotalSlashed w) slash_amount of
           None \<Rightarrow> (Inl (PosErr ArithmeticOverflow), w)
         | Some new_epoch_total \<Rightarrow>
           if \<not> new_epoch_total \<le> MaxSlashPerEpoch cfg
           then (Inl (PosErr SlashingBoundsExceeded), w)
           else case checked_add (sm_val 0 (ValidatorEpochSlashed w) validator) slash_amount of
             None \<Rightarrow> (Inl (PosErr ArithmeticOverflow), w)
           | Some new_validator_total \<Rightarrow>
             if \<not> new_validator_total \<le> MaxSlashPerValidator cfg
             then (Inl (PosErr SlashingBoundsExceeded), w)
             else
               (let (actual_slashed, b) = slash_balance C validator slash_amount (balances w);
                    slashed_amount = min actual_slashed slash_amount
                in on_slashed H validator slashed_amount (score_penalty_of cfg slashed_amount)
                     (slash_booked b validator slashed_amount w))))"

definition execute_slash_validator ::
  "pos_config \<Rightarrow> 'c currency \<Rightarrow> ('c, 'z) pos_world_scheme validator_handler \<Rightarrow> account_id \<Rightarrow> u128
     \<Rightarrow> (('c, 'z) pos_world_scheme, unit) call" where
  "execute_slash_validator cfg C H validator amount =
     execute_slash_validator_with_reason cfg C H validator amount ManualSlash"

definition slash_validator ::
  "pos_config \<Rightarrow> 'c currency \<Rightarrow> ('c, 'z) pos_world_scheme validator_handler \<Rightarrow> origin \<Rightarrow> account_id
     \<Rightarrow> u128 \<Rightarrow> (('c, 'z) pos_world_scheme, unit) call" where
  "slash_validator cfg C H orig validator amount w =
     (case ensure_root orig of Inl e \<Rightarrow> (Inl e, w) | Inr _ \<Rightarrow>
      execute_slash_validator cfg C H validator amount w)"

definition slash_validator_percentage ::
  "pos_config \<Rightarrow> 'c currency \<Rightarrow> ('c, 'z) pos_world_scheme validator_handler \<Rightarrow> origin \<Rightarrow> account_id
     \<Rightarrow> u32 \<Rightarrow> (('c, 'z) pos_world_scheme, unit) call" where
  "slash_validator_percentage cfg C H orig validator percentage w =
     (case ensure_root orig of Inl e \<Rightarrow> (Inl e, w) | Inr _ \<Rightarrow>
      if \<not> percentage \<le> 100 then (Inl (PosErr InvalidStakeAmount), w)
      else execute_slash_validator cfg C H validator
             (sat_mul (sm_val 0 (Stake w) validator) (sat_into percentage) div 100) w)"

definition slash_multiple_validators ::
  "pos_config \<Rightarrow> 'c currency \<Rightarrow> ('c, 'z) pos_world_scheme validator_handler \<Rightarrow> origin
     \<Rightarrow> account_id list \<Rightarrow> u128 \<Rightarrow> (('c, 'z) pos_world_scheme, unit) call" where
  "slash_multiple_validators cfg C H orig vs amount w =
     (case ensure_root orig of Inl e \<Rightarrow> (Inl e, w) | Inr _ \<Rightarrow>
      (Inr (), each_ignore (\<lambda>v. execute_slash_validator cfg C H v amount) vs w))"

definition calculate_slash_amount :: "pos_config \<Rightarrow> ('c, 'z) pos_world_scheme \<Rightarrow> account_id \<Rightarrow> u128" where
  "calculate_slash_amount cfg w validator =
     sat_mul (sm_val 0 (Stake w) validator) (sat_into (SlashPercent cfg)) div 100"

definition get_slashing_history :: "('c, 'z) pos_world_scheme \<Rightarrow> account_id \<Rightarrow> slashing_record list" where
  "get_slashing_history w validator = sm_val [] (ValidatorSlashingHistory w) validator"

definition slash_validator_stake ::
  "pos_config \<Rightarrow> account_id \<Rightarrow> u128 \<Rightarrow> (('c, 'z) pos_world_scheme, unit) call" where
  "slash_validator_stake cfg validator amount w =
     (if \<not> sm_has (Validators w) validator then (Inl (PosErr ValidatorNotRegistered), w)
      else
        (let current_stake = sm_val 0 (Stake w) validator;
             new_stake = sat_sub current_stake amount;
             w1 = pos_deposit_event (ValidatorStakeSlashed validator current_stake new_stake amount)
                    (w\<lparr>Stake := sm_put validator new_stake (Stake w)\<rparr>);
             count = sm_val 0 (SlashingCount w1) validator + 1;
             w2 = pos_deposit_event (ValidatorSlashed validator count)
                    (w1\<lparr>SlashingCount := sm_put validator count (SlashingCount w1)\<rparr>)
         in (Inr (),
             if count \<ge> MaxSlashingCount cfg
             then pos_deposit_event (ValidatorRemoved validator removed_for_slashing)
                    (w2\<lparr>Validators := sm_del validator (Validators w2),
                        ValidatorScores := sm_del validator (ValidatorScores w2),
                        SlashingCount := sm_del validator (SlashingCount w2)\<rparr>)
             else w2)))"

section \<open>Other operations on validators\<close>

definition calculate_epoch_economic_impact :: "('c, 'z) pos_world_scheme \<Rightarrow> u128 \<times> u128" where
  "calculate_epoch_economic_impact w = (EpochTotalRewarded w, EpochTotalSlashed w)"

definition reset_epoch_totals :: "('c, 'z) pos_world_scheme \<Rightarrow> ('c, 'z) pos_world_scheme" where
  "reset_epoch_totals w =
     w\<lparr>EpochTotalSlashed := 0, EpochTotalRewarded := 0,
       ValidatorEpochSlashed := [], ValidatorEpochRewarded := []\<rparr>"

definition reward_validator ::
  "account_id \<Rightarrow> u128 \<Rightarrow> (('c, 'z) pos_world_scheme, unit) call" where
  "reward_validator validator amount w =
     (if \<not> sm_has (Validators w) validator then (Inl (PosErr ValidatorNotRegistered), w)
      else
        (let current_stake = sm_val 0 (Stake w) validator;
             new_stake = sat_add current_stake amount
         in (Inr (), pos_deposit_event (StakeUpdated validator current_stake new_stake)
               (pos_deposit_event (StakeBonded validator amount)
                 (w\<lparr>Stake := sm_put validator new_stake (Stake w)\<rparr>)))))"

definition activate_validator :: "account_id \<Rightarrow> (('c, 'z) pos_world_scheme, unit) call" where
  "activate_validator validator w =
     (if \<not> sm_has (Validators w) validator then (Inl (PosErr ValidatorNotRegistered), w)
      else if \<not> sm_val False (Validators w) validator
      then (Inr (), pos_deposit_event (ValidatorActivated validator)
              (w\<lparr>Validators := sm_put validator True (Validators w)\<rparr>))
      else (Inr (), w))"

definition deactivate_validator :: "account_id \<Rightarrow> (('c, 'z) pos_world_scheme, unit) call" where
  "deactivate_validator validator w =
     (if \<not> sm_has (Validators w) validator then (Inl (PosErr ValidatorNotRegistered), w)
      else if sm_val False (Validators w) validator
      then (Inr (), pos_deposit_event (ValidatorDeactivated validator)
              (w\<lparr>Validators := sm_put validator False (Validators w)\<rparr>))
      else (Inr (), w))"

definition force_eject_validator ::
  "'c currency \<Rightarrow> ('c, 'z) pos_world_scheme validator_handler \<Rightarrow> account_id
     \<Rightarrow> (('c, 'z) pos_world_scheme, unit) call" where
  "force_eject_validator C H validator w =
     (let stake_amount = sm_val 0 (Stake w) validator;
          w1 = (if stake_amount > 0
                then pos_deposit_event (ValidatorStakeUnreserved validator stake_amount)
                       (w\<lparr>balances := snd (unreserve C validator stake_amount (balances w))\<rparr>)
                else w);
          w2 = w1\<lparr>Validators := sm_del validator (Validators w1),
                  Stake := sm_del validator (Stake w1)\<rparr>;
          w3 = snd (on_left H validator w2)
      in (Inr (), pos_deposit_event (PosValidatorLeft validator) w3))"

end
