(* ===== verification/Pos_Rewards.thy ===== *)
theory Pos_Rewards
  imports Pos_Pallet
begin

text \<open>
  What the reward and slash operations of \<open>pallet-cerulea-pos\<close> guarantee: the bounds per epoch
  and per validator, the totals that are kept, and what a distribution pays. The operations
  rely on a \<open>ValidatorHandler\<close>; the locale \<open>pos_client\<close> states what they need of it.
\<close>

section \<open>The contract of the validator handler\<close>

text \<open>
  A handler may change its own storage; the storage of this pallet and the balances are out of
  its reach, and only \<open>on_joined\<close> may refuse.
\<close>

locale pos_client =
  fixes H :: "('c, 'z) pos_world_scheme validator_handler"
  assumes left_frame: "pos_world.truncate (snd (on_left H v w)) = pos_world.truncate w"
    and increased_frame: "pos_world.truncate (snd (on_stake_increased H v n w)) = pos_world.truncate w"
    and decreased_frame: "pos_world.truncate (snd (on_stake_decreased H v n w)) = pos_world.truncate w"
    and slashed_frame: "pos_world.truncate (snd (on_slashed H v n p w)) = pos_world.truncate w"
    and rewarded_frame: "pos_world.truncate (snd (on_rewarded H v n b w)) = pos_world.truncate w"
    and increased_ok: "fst (on_stake_increased H v n w) = Inr ()"
    and decreased_ok: "fst (on_stake_decreased H v n w) = Inr ()"
    and slashed_ok: "fst (on_slashed H v n p w) = Inr ()"
    and rewarded_ok: "fst (on_rewarded H v n b w) = Inr ()"
begin

lemmas frames = left_frame increased_frame decreased_frame slashed_frame rewarded_frame

lemmas accepts = increased_ok decreased_ok slashed_ok rewarded_ok

end

lemma pos_frame_fields:
  assumes "pos_world.truncate w' = pos_world.truncate w"
  shows "balances w' = balances w" "block_number w' = block_number w"
    "Validators w' = Validators w" "ValidatorScores w' = ValidatorScores w"
    "PosCurrentEpoch w' = PosCurrentEpoch w" "SlashingCount w' = SlashingCount w"
    "Stake w' = Stake w"
    "EpochTotalRewarded w' = EpochTotalRewarded w" "EpochTotalSlashed w' = EpochTotalSlashed w"
    "ValidatorEpochRewarded w' = ValidatorEpochRewarded w"
    "ValidatorEpochSlashed w' = ValidatorEpochSlashed w" "pos_events w' = pos_events w"
  using assms by (simp_all add: pos_world.truncate_def)

interpretation unit_h: pos_client unit_handler
  by unfold_locales (simp_all add: unit_handler_def)

section \<open>The totals of the epoch\<close>

text \<open>
  The invariant of the totals: no bound is passed, and the total of the epoch is the sum of
  what its validators were paid (were slashed).
\<close>

definition totals_ok :: "u128 \<Rightarrow> u128 \<Rightarrow> u128 \<Rightarrow> (account_id, u128) smap \<Rightarrow> bool" where
  "totals_ok max_epoch max_validator tot m \<longleftrightarrow>
     tot \<le> max_epoch \<and> (\<forall>v. sm_val 0 m v \<le> max_validator) \<and> unat tot = sm_sum m"

definition reward_totals_ok :: "pos_config \<Rightarrow> ('c, 'z) pos_world_scheme \<Rightarrow> bool" where
  "reward_totals_ok cfg w \<longleftrightarrow> totals_ok (MaxRewardPerEpoch cfg) (MaxRewardPerValidator cfg)
     (EpochTotalRewarded w) (ValidatorEpochRewarded w)"

definition slash_totals_ok :: "pos_config \<Rightarrow> ('c, 'z) pos_world_scheme \<Rightarrow> bool" where
  "slash_totals_ok cfg w \<longleftrightarrow> totals_ok (MaxSlashPerEpoch cfg) (MaxSlashPerValidator cfg)
     (EpochTotalSlashed w) (ValidatorEpochSlashed w)"

lemma totals_ok_zero: "totals_ok e v 0 []"
  by (simp add: totals_ok_def)

text \<open>Booking an amount \<open>x\<close> that is at most the amount \<open>n\<close> the bounds were checked for.\<close>

lemma totals_ok_book:
  assumes inv: "totals_ok e p tot m"
    and total: "checked_add tot n = Some t" "t \<le> e"
    and single: "checked_add (sm_val 0 m v) n = Some s" "s \<le> p"
    and x: "x \<le> n"
  shows "totals_ok e p (sat_add tot x) (sm_put v (sat_add (sm_val 0 m v) x) m)"
proof -
  have t: "unat t = unat tot + unat n" and s: "unat s = unat (sm_val 0 m v) + unat n"
    using total(1) single(1) by (simp_all add: sat_simps)
  have x': "unat x \<le> unat n"
    using x by (simp add: word_le_nat_alt)
  have t': "unat (sat_add tot x) = unat tot + unat x"
    using unat_le_max [of t] t x' by (simp add: sat_simps)
  have s': "unat (sat_add (sm_val 0 m v) x) = unat (sm_val 0 m v) + unat x"
    using unat_le_max [of s] s x' by (simp add: sat_simps)
  have "sat_add tot x \<le> e"
    using t' t total(2) x' by (simp add: word_le_nat_alt)
  moreover have "sat_add (sm_val 0 m v) x \<le> p"
    using s' s single(2) x' by (simp add: word_le_nat_alt)
  moreover have "unat (sat_add tot x) = sm_sum (sm_put v (sat_add (sm_val 0 m v) x) m)"
    using inv t' s' sm_sum_put [of v "sat_add (sm_val 0 m v) x" m] by (simp add: totals_ok_def)
  ultimately show ?thesis
    using inv by (simp add: totals_ok_def)
qed

section \<open>Rewards\<close>

text \<open>A reward is refused with the state unchanged, or booked and then announced.\<close>

definition reward_allowed ::
  "pos_config \<Rightarrow> 'c currency \<Rightarrow> account_id \<Rightarrow> u128 \<Rightarrow> ('c, 'z) pos_world_scheme \<Rightarrow> bool" where
  "reward_allowed cfg C v n w \<longleftrightarrow>
     sm_has (Validators w) v
     \<and> unat (EpochTotalRewarded w) + unat n \<le> unat (MaxRewardPerEpoch cfg)
     \<and> unat (sm_val 0 (ValidatorEpochRewarded w) v) + unat n \<le> unat (MaxRewardPerValidator cfg)
     \<and> unat (free_balance C (balances w) v) + unat n < 2 ^ 128"

lemma checked_le:
  "(\<exists>t. checked_add a n = Some t \<and> t \<le> e) \<longleftrightarrow> unat a + unat n \<le> unat e"
  for a n e :: "'l::len word"
proof
  assume le: "unat a + unat n \<le> unat e"
  then have lt: "unat a + unat n < 2 ^ LENGTH('l)"
    by (rule le_less_trans [OF _ unat_lt])
  then have "checked_add a n = Some (a + n)" "unat (a + n) = unat a + unat n"
    by (simp_all add: checked_add_def unat_word_ariths)
  with le show "\<exists>t. checked_add a n = Some t \<and> t \<le> e"
    by (simp add: word_le_nat_alt)
next
  show "\<exists>t. checked_add a n = Some t \<and> t \<le> e \<Longrightarrow> unat a + unat n \<le> unat e"
    by (auto simp: sat_simps word_le_nat_alt)
qed

lemma reward_allowed_checks:
  "reward_allowed cfg C v n w \<longleftrightarrow> sm_has (Validators w) v
     \<and> (\<exists>t. checked_add (EpochTotalRewarded w) n = Some t \<and> t \<le> MaxRewardPerEpoch cfg)
     \<and> (\<exists>t. checked_add (sm_val 0 (ValidatorEpochRewarded w) v) n = Some t
           \<and> t \<le> MaxRewardPerValidator cfg)
     \<and> (\<exists>t. checked_add (free_balance C (balances w) v) n = Some t)"
  by (simp only: checked_le reward_allowed_def) (simp add: checked_add_def)

lemma reward_paid:
  assumes "reward_allowed cfg C v (effective_reward cfg amount) w"
  shows "execute_reward_validator cfg C H v amount w =
    on_rewarded H v (effective_reward cfg amount) (score_boost_of cfg (effective_reward cfg amount))
      (reward_booked C v (effective_reward cfg amount) w)"
  using assms unfolding reward_allowed_checks
  by (auto simp: execute_reward_validator_def execute_reward_validator_with_reason_def Let_def)

lemma reward_refused:
  assumes "\<not> reward_allowed cfg C v (effective_reward cfg amount) w"
  shows "\<exists>e. execute_reward_validator cfg C H v amount w = (Inl (PosErr e), w)"
  using assms unfolding reward_allowed_checks
  by (auto simp: execute_reward_validator_def execute_reward_validator_with_reason_def Let_def
      split: option.splits)

lemma reward_keeps_totals:
  assumes inv: "reward_totals_ok cfg w" and allowed: "reward_allowed cfg C v n w"
  shows "reward_totals_ok cfg (reward_booked C v n w)"
proof -
  from allowed obtain t s where "checked_add (EpochTotalRewarded w) n = Some t"
    "t \<le> MaxRewardPerEpoch cfg"
    "checked_add (sm_val 0 (ValidatorEpochRewarded w) v) n = Some s" "s \<le> MaxRewardPerValidator cfg"
    unfolding reward_allowed_checks by blast
  with inv show ?thesis
    unfolding reward_totals_ok_def reward_booked_def
    by (simp add: totals_ok_book)
qed

section \<open>Slashes\<close>

definition slash_allowed ::
  "pos_config \<Rightarrow> account_id \<Rightarrow> u128 \<Rightarrow> ('c, 'z) pos_world_scheme \<Rightarrow> bool" where
  "slash_allowed cfg v n w \<longleftrightarrow>
     sm_has (Validators w) v
     \<and> unat (EpochTotalSlashed w) + unat n \<le> unat (MaxSlashPerEpoch cfg)
     \<and> unat (sm_val 0 (ValidatorEpochSlashed w) v) + unat n \<le> unat (MaxSlashPerValidator cfg)"

lemma slash_allowed_checks:
  "slash_allowed cfg v n w \<longleftrightarrow> sm_has (Validators w) v
     \<and> (\<exists>t. checked_add (EpochTotalSlashed w) n = Some t \<and> t \<le> MaxSlashPerEpoch cfg)
     \<and> (\<exists>t. checked_add (sm_val 0 (ValidatorEpochSlashed w) v) n = Some t
           \<and> t \<le> MaxSlashPerValidator cfg)"
  by (simp only: checked_le slash_allowed_def)

lemma slash_done:
  assumes "effective_slash cfg (free_balance C (balances w) v) amount = Inr n"
    and "slash_allowed cfg v n w" and "slash_balance C v n (balances w) = (r, b)"
  shows "execute_slash_validator cfg C H v amount w =
    on_slashed H v (min r n) (score_penalty_of cfg (min r n)) (slash_booked b v (min r n) w)"
  using assms unfolding slash_allowed_checks
  by (auto simp: execute_slash_validator_def execute_slash_validator_with_reason_def Let_def)

lemma slash_refused:
  assumes "effective_slash cfg (free_balance C (balances w) v) amount = Inr n"
    and "\<not> slash_allowed cfg v n w"
  shows "\<exists>e. execute_slash_validator cfg C H v amount w = (Inl (PosErr e), w)"
  using assms unfolding slash_allowed_checks
  by (auto simp: execute_slash_validator_def execute_slash_validator_with_reason_def Let_def
      split: option.splits)

lemma slash_keeps_totals:
  assumes inv: "slash_totals_ok cfg w" and allowed: "slash_allowed cfg v n w" and x: "x \<le> n"
  shows "slash_totals_ok cfg (slash_booked b v x w)"
proof -
  from allowed obtain t s where "checked_add (EpochTotalSlashed w) n = Some t"
    "t \<le> MaxSlashPerEpoch cfg"
    "checked_add (sm_val 0 (ValidatorEpochSlashed w) v) n = Some s" "s \<le> MaxSlashPerValidator cfg"
    unfolding slash_allowed_checks by blast
  with inv x show ?thesis
    unfolding slash_totals_ok_def slash_booked_def
    by (simp add: totals_ok_book [where n = n])
qed

end
