(* ===== verification/Pos_Safety.thy ===== *)
theory Pos_Safety
  imports Pos_Rewards
begin

text \<open>
  The calls of \<open>pallet-cerulea-pos\<close> as one dispatch function, the states that sequences of calls
  reach, and the invariants of those states: the bounds of the epoch and the slashing count.
\<close>

section \<open>Dispatch\<close>

datatype pos_call =
    Register_validator
  | Submit_score account_id u32
  | Slash_validator_call account_id
  | Bond_stake u128
  | Unbond_stake u128
  | Boost_score account_id u32
  | Slash_score account_id u32
  | Increase_validator_stake u128
  | Decrease_validator_stake u128
  | Slash_validator account_id u128
  | Slash_validator_percentage account_id u32
  | Slash_multiple_validators "account_id list" u128
  | Reward_validator_call account_id u128
  | Reward_multiple_validators "account_id list" u128
  | Reward_all_active_validators u128
  | Distribute_epoch_rewards u128

fun pos_dispatch ::
  "pos_config \<Rightarrow> 'c currency \<Rightarrow> ('c, 'z) pos_world_scheme validator_handler \<Rightarrow> origin \<Rightarrow> pos_call
     \<Rightarrow> (('c, 'z) pos_world_scheme, unit) call" where
  "pos_dispatch cfg C H orig Register_validator w = register_validator cfg orig w"
| "pos_dispatch cfg C H orig (Submit_score v s) w = submit_score cfg orig v s w"
| "pos_dispatch cfg C H orig (Slash_validator_call v) w = slash_validator_call cfg orig v w"
| "pos_dispatch cfg C H orig (Bond_stake n) w = bond_stake cfg orig n w"
| "pos_dispatch cfg C H orig (Unbond_stake n) w = unbond_stake cfg orig n w"
| "pos_dispatch cfg C H orig (Boost_score v s) w = boost_score orig v s w"
| "pos_dispatch cfg C H orig (Slash_score v s) w = slash_score orig v s w"
| "pos_dispatch cfg C H orig (Increase_validator_stake n) w = increase_validator_stake C H orig n w"
| "pos_dispatch cfg C H orig (Decrease_validator_stake n) w = decrease_validator_stake cfg C H orig n w"
| "pos_dispatch cfg C H orig (Slash_validator v n) w = slash_validator cfg C H orig v n w"
| "pos_dispatch cfg C H orig (Slash_validator_percentage v p) w =
     slash_validator_percentage cfg C H orig v p w"
| "pos_dispatch cfg C H orig (Slash_multiple_validators vs n) w =
     slash_multiple_validators cfg C H orig vs n w"
| "pos_dispatch cfg C H orig (Reward_validator_call v n) w = reward_validator_call cfg C H orig v n w"
| "pos_dispatch cfg C H orig (Reward_multiple_validators vs n) w =
     reward_multiple_validators cfg C H orig vs n w"
| "pos_dispatch cfg C H orig (Reward_all_active_validators n) w =
     reward_all_active_validators cfg C H orig n w"
| "pos_dispatch cfg C H orig (Distribute_epoch_rewards n) w =
     distribute_epoch_rewards cfg C H orig n w"

section \<open>The invariant\<close>

definition slashing_counts_ok :: "pos_config \<Rightarrow> ('c, 'z) pos_world_scheme \<Rightarrow> bool" where
  "slashing_counts_ok cfg w \<longleftrightarrow>
     (\<forall>v n. sm_get (SlashingCount w) v = Some n \<longrightarrow> n < MaxSlashingCount cfg)"

definition pos_ok :: "pos_config \<Rightarrow> ('c, 'z) pos_world_scheme \<Rightarrow> bool" where
  "pos_ok cfg w \<longleftrightarrow> reward_totals_ok cfg w \<and> slash_totals_ok cfg w \<and> slashing_counts_ok cfg w"

lemmas pos_ok_defs = pos_ok_def reward_totals_ok_def slash_totals_ok_def slashing_counts_ok_def

text \<open>The invariant reads five storage items; a step that keeps them keeps it.\<close>

lemma pos_ok_cong:
  assumes "EpochTotalRewarded w' = EpochTotalRewarded w" "EpochTotalSlashed w' = EpochTotalSlashed w"
    "ValidatorEpochRewarded w' = ValidatorEpochRewarded w"
    "ValidatorEpochSlashed w' = ValidatorEpochSlashed w" "SlashingCount w' = SlashingCount w"
  shows "pos_ok cfg w' = pos_ok cfg w"
  using assms by (simp add: pos_ok_defs)

lemma pos_ok_truncate:
  "pos_world.truncate w' = pos_world.truncate w \<Longrightarrow> pos_ok cfg w' = pos_ok cfg w"
  by (rule pos_ok_cong; rule pos_frame_fields; assumption)

lemma pos_ok_event [simp]: "pos_ok cfg (pos_deposit_event e w) = pos_ok cfg w"
  by (simp add: pos_ok_defs pos_deposit_event_def)

lemma pos_ok_frame [simp]:
  "pos_ok cfg (w\<lparr>Validators := x1\<rparr>) = pos_ok cfg w"
  "pos_ok cfg (w\<lparr>ValidatorScores := x2\<rparr>) = pos_ok cfg w"
  "pos_ok cfg (w\<lparr>Stake := x3\<rparr>) = pos_ok cfg w"
  "pos_ok cfg (w\<lparr>balances := x4\<rparr>) = pos_ok cfg w"
  "pos_ok cfg (w\<lparr>block_number := x5\<rparr>) = pos_ok cfg w"
  by (simp_all add: pos_ok_defs)

lemma pos_ok_reward_booked:
  "pos_ok cfg w \<Longrightarrow> reward_allowed cfg C v n w \<Longrightarrow> pos_ok cfg (reward_booked C v n w)"
  using reward_keeps_totals [of cfg w C v n]
  by (simp add: pos_ok_def) (simp add: reward_booked_def slash_totals_ok_def slashing_counts_ok_def)

lemma pos_ok_slash_booked:
  "pos_ok cfg w \<Longrightarrow> slash_allowed cfg v n w \<Longrightarrow> x \<le> n \<Longrightarrow> pos_ok cfg (slash_booked b v x w)"
  using slash_keeps_totals [of cfg w v n x b]
  by (simp add: pos_ok_def) (simp add: slash_booked_def reward_totals_ok_def slashing_counts_ok_def)

section \<open>Every operation keeps the invariant\<close>

lemma register_validator_ok: "pos_ok cfg w \<Longrightarrow> pos_ok cfg (snd (register_validator cfg orig w))"
  by (cases orig) (simp_all add: register_validator_def)

lemma submit_score_ok: "pos_ok cfg w \<Longrightarrow> pos_ok cfg (snd (submit_score cfg orig v s w))"
  by (cases orig) (simp_all add: submit_score_def)

lemma slash_validator_call_ok:
  "pos_ok cfg w \<Longrightarrow> pos_ok cfg (snd (slash_validator_call cfg orig v w))"
  by (cases orig) (auto simp: slash_validator_call_def Let_def pos_ok_defs pos_deposit_event_def
      split: if_splits)

lemma boost_score_ok: "pos_ok cfg w \<Longrightarrow> pos_ok cfg (snd (boost_score orig v s w))"
  by (cases orig) (simp_all add: boost_score_def Let_def)

lemma slash_score_ok: "pos_ok cfg w \<Longrightarrow> pos_ok cfg (snd (slash_score orig v s w))"
  by (cases orig) (simp_all add: slash_score_def Let_def)

lemma bond_stake_ok: "pos_ok cfg w \<Longrightarrow> pos_ok cfg (snd (bond_stake cfg orig n w))"
  by (cases orig) (simp_all add: bond_stake_def Let_def split: option.split)

lemma unbond_stake_ok: "pos_ok cfg w \<Longrightarrow> pos_ok cfg (snd (unbond_stake cfg orig n w))"
  by (cases orig) (simp_all add: unbond_stake_def Let_def split: option.split)

lemma slash_validator_stake_ok:
  "pos_ok cfg w \<Longrightarrow> pos_ok cfg (snd (slash_validator_stake cfg v n w))"
  by (auto simp: slash_validator_stake_def Let_def pos_ok_defs pos_deposit_event_def
      split: if_splits)

lemma reward_validator_ok: "pos_ok cfg w \<Longrightarrow> pos_ok cfg (snd (reward_validator v n w))"
  by (simp add: reward_validator_def Let_def)

lemma activate_validator_ok: "pos_ok cfg w \<Longrightarrow> pos_ok cfg (snd (activate_validator v w))"
  by (simp add: activate_validator_def)

lemma deactivate_validator_ok: "pos_ok cfg w \<Longrightarrow> pos_ok cfg (snd (deactivate_validator v w))"
  by (simp add: deactivate_validator_def)

lemma reset_epoch_totals_ok: "pos_ok cfg w \<Longrightarrow> pos_ok cfg (reset_epoch_totals w)"
  by (simp add: pos_ok_defs reset_epoch_totals_def totals_ok_zero)

context pos_client
begin

lemma ok_frames [simp]:
  "pos_ok cfg (snd (on_left H v w)) = pos_ok cfg w"
  "pos_ok cfg (snd (on_stake_increased H v n w)) = pos_ok cfg w"
  "pos_ok cfg (snd (on_stake_decreased H v n w)) = pos_ok cfg w"
  "pos_ok cfg (snd (on_slashed H v n p w)) = pos_ok cfg w"
  "pos_ok cfg (snd (on_rewarded H v n b w)) = pos_ok cfg w"
  by (rule pos_ok_truncate, rule frames)+

lemma reward_ok:
  assumes "pos_ok cfg w"
  shows "pos_ok cfg (snd (execute_reward_validator cfg C H v amount w))"
proof (cases "reward_allowed cfg C v (effective_reward cfg amount) w")
  case True
  with assms show ?thesis
    by (simp add: reward_paid pos_ok_reward_booked)
next
  case False
  with assms show ?thesis
    using reward_refused [of cfg C v amount w H] by auto
qed

lemma slash_ok:
  assumes "pos_ok cfg w"
  shows "pos_ok cfg (snd (execute_slash_validator cfg C H v amount w))"
proof (cases "effective_slash cfg (free_balance C (balances w) v) amount")
  case (Inl e)
  with assms show ?thesis
    by (simp add: execute_slash_validator_def execute_slash_validator_with_reason_def)
next
  case (Inr n)
  obtain r b where rb: "slash_balance C v n (balances w) = (r, b)"
    by (cases "slash_balance C v n (balances w)")
  show ?thesis
  proof (cases "slash_allowed cfg v n w")
    case True
    with assms Inr rb show ?thesis
      by (simp add: slash_done pos_ok_slash_booked [where n = n])
  next
    case False
    with assms Inr show ?thesis
      using slash_refused [of cfg C w v amount n H] by auto
  qed
qed

lemma increase_stake_ok:
  assumes "pos_ok cfg w"
  shows "pos_ok cfg (snd (increase_validator_stake C H orig n w))"
  using assms
  by (cases orig)
    (auto simp: increase_validator_stake_def Let_def split: option.split intro!: then_do_invariant [where P = "pos_ok cfg"])

lemma decrease_stake_ok:
  assumes "pos_ok cfg w"
  shows "pos_ok cfg (snd (decrease_validator_stake cfg C H orig n w))"
  using assms
  by (cases orig)
    (auto simp: decrease_validator_stake_def Let_def split: option.split prod.split
      intro!: then_do_invariant [where P = "pos_ok cfg"])

lemma distribute_ok:
  assumes "pos_ok cfg w"
  shows "pos_ok cfg (snd (distribute_rewards cfg C H b p t w))"
proof -
  have "pos_ok cfg (snd (each_op (\<lambda>p. execute_reward_validator cfg C H (fst p) (f p)) xs w))" for f xs
    by (rule each_op_invariant) (auto simp: reward_ok assms)
  with assms show ?thesis
    by (auto simp: distribute_rewards_def Let_def intro!: then_do_invariant [where P = "pos_ok cfg"])
qed

lemma reward_each_ok:
  "pos_ok cfg w \<Longrightarrow> pos_ok cfg (each_ignore (\<lambda>v. execute_reward_validator cfg C H v n) vs w)"
  by (rule each_ignore_invariant) (auto simp: reward_ok)

lemma slash_each_ok:
  "pos_ok cfg w \<Longrightarrow> pos_ok cfg (each_ignore (\<lambda>v. execute_slash_validator cfg C H v n) vs w)"
  by (rule each_ignore_invariant) (auto simp: slash_ok)

lemma force_eject_ok: "pos_ok cfg w \<Longrightarrow> pos_ok cfg (snd (force_eject_validator C H v w))"
  by (simp add: force_eject_validator_def Let_def)

lemmas call_ok =
  register_validator_ok submit_score_ok slash_validator_call_ok boost_score_ok slash_score_ok
  bond_stake_ok unbond_stake_ok increase_stake_ok decrease_stake_ok

lemma dispatch_ok:
  assumes "pos_ok cfg w"
  shows "pos_ok cfg (snd (pos_dispatch cfg C H orig call w))"
proof (cases call)
qed (use assms in \<open>cases orig;
    simp add: call_ok slash_validator_def slash_validator_percentage_def slash_multiple_validators_def
      reward_validator_call_def reward_multiple_validators_def reward_all_active_validators_def
      distribute_epoch_rewards_def reward_ok slash_ok reward_each_ok slash_each_ok distribute_ok\<close>)+

end

section \<open>Reachable states\<close>

text \<open>
  A chain starts from the genesis configuration. Then calls are dispatched, the other pallets use
  the functions this pallet exports (\<open>reset_epoch_totals\<close> at the end of an epoch,
  \<open>slash_validator_stake\<close>, \<open>reward_validator\<close>, \<open>activate_validator\<close>, \<open>deactivate_validator\<close>,
  \<open>force_eject_validator\<close>), the registry pallet writes \<open>Validators\<close> and \<open>Stake\<close>, balances change,
  blocks pass, and the other pallets change their own storage.
\<close>

definition pos_fresh :: "('c, 'z) pos_world_scheme \<Rightarrow> bool" where
  "pos_fresh w \<longleftrightarrow> Validators w = [] \<and> ValidatorScores w = [] \<and> SlashingCount w = [] \<and> Stake w = []
     \<and> EpochTotalRewarded w = 0 \<and> EpochTotalSlashed w = 0
     \<and> ValidatorEpochRewarded w = [] \<and> ValidatorEpochSlashed w = []"

inductive pos_reachable ::
  "pos_config \<Rightarrow> 'c currency \<Rightarrow> ('c, 'z) pos_world_scheme validator_handler \<Rightarrow> ('c, 'z) pos_world_scheme
     \<Rightarrow> bool" for cfg C H where
  genesis: "pos_fresh w \<Longrightarrow> \<forall>p \<in> set (g_slashing_count g). snd p < MaxSlashingCount cfg \<Longrightarrow>
    pos_reachable cfg C H (pos_genesis_build g w)"
| call: "pos_reachable cfg C H w \<Longrightarrow> pos_reachable cfg C H (snd (pos_dispatch cfg C H orig call w))"
| epoch_end: "pos_reachable cfg C H w \<Longrightarrow> pos_reachable cfg C H (reset_epoch_totals w)"
| stake_slash: "pos_reachable cfg C H w \<Longrightarrow> pos_reachable cfg C H (snd (slash_validator_stake cfg v n w))"
| stake_reward: "pos_reachable cfg C H w \<Longrightarrow> pos_reachable cfg C H (snd (reward_validator v n w))"
| activation: "pos_reachable cfg C H w \<Longrightarrow> pos_reachable cfg C H (snd (activate_validator v w))"
| deactivation: "pos_reachable cfg C H w \<Longrightarrow> pos_reachable cfg C H (snd (deactivate_validator v w))"
| ejection: "pos_reachable cfg C H w \<Longrightarrow> pos_reachable cfg C H (snd (force_eject_validator C H v w))"
| registry: "pos_reachable cfg C H w \<Longrightarrow> pos_reachable cfg C H (w\<lparr>Validators := vs, Stake := st\<rparr>)"
| chain: "pos_reachable cfg C H w \<Longrightarrow> pos_reachable cfg C H (w\<lparr>balances := b, block_number := n\<rparr>)"
| others: "pos_reachable cfg C H w \<Longrightarrow> pos_world.truncate w' = pos_world.truncate w \<Longrightarrow>
    pos_reachable cfg C H w'"

lemma genesis_slashing_counts:
  assumes "\<forall>p \<in> set ps. snd p < (k :: u32)" and "sm_get (fold (\<lambda>(v, n). sm_put v n) ps m) v = Some n"
    and "\<And>n. sm_get m v = Some n \<Longrightarrow> n < k"
  shows "n < k"
  using assms
proof (induction ps arbitrary: m)
  case Nil
  then show ?case by simp
next
  case (Cons p ps)
  obtain v' n' where p: "p = (v', n')"
    by (cases p)
  show ?case
  proof (rule Cons.IH)
    show "\<forall>p \<in> set ps. snd p < k"
      using Cons.prems by simp
    show "sm_get (fold (\<lambda>(v, n). sm_put v n) ps (sm_put v' n' m)) v = Some n"
      using Cons.prems p by simp
    show "\<And>n. sm_get (sm_put v' n' m) v = Some n \<Longrightarrow> n < k"
      using Cons.prems p by (auto split: if_splits)
  qed
qed

lemma genesis_ok:
  assumes "pos_fresh w" and "\<forall>p \<in> set (g_slashing_count g). snd p < MaxSlashingCount cfg"
  shows "pos_ok cfg (pos_genesis_build g w)"
  using assms genesis_slashing_counts [OF assms(2), where m = "[]"]
  by (auto simp: pos_ok_defs pos_genesis_build_def pos_fresh_def totals_ok_zero)

context pos_client
begin

lemma reachable_ok: "pos_reachable cfg C H w \<Longrightarrow> pos_ok cfg w"
proof (induction rule: pos_reachable.induct)
  case (others w w')
  then show ?case
    using pos_ok_truncate by blast
qed (simp_all add: genesis_ok dispatch_ok reset_epoch_totals_ok slash_validator_stake_ok
    reward_validator_ok activate_validator_ok deactivate_validator_ok force_eject_ok)

end

end
