(* ===== verification/Distribution.thy ===== *)
theory Distribution
  imports Pos_Safety "HOL-Library.Multiset"
begin

text \<open>
  The epoch distribution of \<open>pallet-cerulea-pos\<close>: the shares that are computed never exceed the
  pools, and what a successful distribution adds to the totals of the epoch.
\<close>

section \<open>Payments of a list of validators\<close>

context pos_client
begin

lemma reward_success:
  assumes "execute_reward_validator cfg C H v amount w = (Inr (), w')"
  shows "reward_allowed cfg C v (effective_reward cfg amount) w"
    and "pos_world.truncate w' = pos_world.truncate (reward_booked C v (effective_reward cfg amount) w)"
proof -
  show allowed: "reward_allowed cfg C v (effective_reward cfg amount) w"
    using assms reward_refused [of cfg C v amount w H] by auto
  have "w' = snd (execute_reward_validator cfg C H v amount w)"
    using assms by simp
  then show "pos_world.truncate w' = pos_world.truncate (reward_booked C v (effective_reward cfg amount) w)"
    by (simp add: reward_paid [OF allowed] rewarded_frame)
qed

lemma reward_success_total:
  assumes "execute_reward_validator cfg C H v amount w = (Inr (), w')"
  shows "unat (EpochTotalRewarded w') = unat (EpochTotalRewarded w) + unat (effective_reward cfg amount)"
proof -
  have fits: "unat (EpochTotalRewarded w) + unat (effective_reward cfg amount) \<le> 2 ^ 128 - 1"
    using reward_success(1) [OF assms] unat_le_max [of "MaxRewardPerEpoch cfg"]
    by (simp add: reward_allowed_def)
  have "EpochTotalRewarded w' = sat_add (EpochTotalRewarded w) (effective_reward cfg amount)"
    using pos_frame_fields(8) [OF reward_success(2) [OF assms]] by (simp add: reward_booked_def)
  with fits show ?thesis
    by (simp add: sat_simps)
qed

lemma reward_each_total:
  "each_op (\<lambda>p. execute_reward_validator cfg C H (fst p) (f p)) ps w = (Inr (), w') \<Longrightarrow>
     unat (EpochTotalRewarded w')
       = unat (EpochTotalRewarded w) + sum_list (map (\<lambda>p. unat (effective_reward cfg (f p))) ps)"
proof (induction ps arbitrary: w)
  case Nil
  then show ?case by simp
next
  case (Cons p ps)
  obtain r w1 where first: "execute_reward_validator cfg C H (fst p) (f p) w = (r, w1)"
    by (cases "execute_reward_validator cfg C H (fst p) (f p) w")
  with Cons.prems have ok: "r = Inr ()"
    by (cases r) auto
  with first Cons.prems have rest:
    "each_op (\<lambda>p. execute_reward_validator cfg C H (fst p) (f p)) ps w1 = (Inr (), w')"
    by simp
  from Cons.IH [OF rest] reward_success_total [of cfg C "fst p" "f p" w w1] first ok show ?case
    by simp
qed

lemma distribute_total:
  assumes "distribute_rewards cfg C H b p t w = (Inr (), w')" and "get_active_validators H w \<noteq> []"
  shows "unat (EpochTotalRewarded w') = unat (EpochTotalRewarded w)
    + sum_list (map (\<lambda>x. unat (effective_reward cfg
        (total_reward_of cfg b p t (validator_scores_of H w) x))) (validator_scores_of H w))"
proof -
  let ?vs = "validator_scores_of H w"
  let ?pay = "each_op (\<lambda>x. execute_reward_validator cfg C H (fst x) (total_reward_of cfg b p t ?vs x)) ?vs w"
  obtain r w1 where pay: "?pay = (r, w1)"
    by (cases ?pay)
  with assms have "r = Inr ()" "EpochTotalRewarded w' = EpochTotalRewarded w1"
    by (cases r; auto simp: distribute_rewards_def Let_def then_do_def pos_deposit_event_def)+
  with reward_each_total pay show ?thesis
    by simp
qed

end

section \<open>The shares\<close>

lemma len_u128_exact: "length xs < 2 ^ 32 \<Longrightarrow> unat (len_u128 xs) = length xs"
  by (simp add: len_u128_def unsigned_ucast_eq unsigned_of_nat take_bit_nat_eq_self_iff)

lemma share_total:
  assumes "length xs < 2 ^ 32"
  shows "length xs * unat (share_of pool xs) \<le> unat pool"
  using assms by (cases "xs = []") (simp_all add: share_of_def unat_div len_u128_exact mult.commute div_times_less_eq_dividend)

text \<open>A sum of a constant over the entries that satisfy a test.\<close>

lemma sum_list_if_const:
  "sum_list (map (\<lambda>x. if P x then (c :: nat) else 0) xs) = length (filter P xs) * c"
  by (induction xs) auto

lemma count_by_account:
  assumes "distinct (map fst xs)"
  shows "length (filter (\<lambda>x. \<exists>p \<in> set ys. fst p = fst x) xs) \<le> length ys"
proof -
  let ?zs = "filter (\<lambda>x. \<exists>p \<in> set ys. fst p = fst x) xs"
  have "distinct (map fst ?zs)"
    using assms by (rule distinct_map_filter)
  then have "length ?zs = card (fst ` set ?zs)"
    using distinct_card [of "map fst ?zs"] by simp
  also have "\<dots> \<le> card (fst ` set ys)"
    by (intro card_mono) force+
  also have "\<dots> \<le> length ys"
    using card_image_le [of "set ys" fst] card_length [of ys] by (meson List.finite_set le_trans)
  finally show ?thesis .
qed

lemma total_reward_le:
  "unat (total_reward_of cfg b p t vs x) \<le> unat (share_of b vs)
     + (if snd x \<ge> HighPerformanceScore cfg then unat (share_of p (high_performers_of cfg vs)) else 0)
     + (if \<exists>y \<in> set (top_performers_of cfg vs). fst y = fst x
        then unat (share_of t (top_performers_of cfg vs)) else 0)"
  by (cases x) (auto simp: total_reward_of_def Let_def sat_simps intro: le_trans [OF min.cobounded1])

text \<open>All shares together are covered by the three pools.\<close>

lemma shares_within_pools:
  assumes "length vs < 2 ^ 32" and "distinct (map fst vs)"
  shows "sum_list (map (\<lambda>x. unat (total_reward_of cfg b p t vs x)) vs) \<le> unat b + unat p + unat t"
proof -
  let ?high = "high_performers_of cfg vs" and ?top = "top_performers_of cfg vs"
  have high: "length ?high < 2 ^ 32"
    using assms(1) by (simp add: high_performers_of_def le_less_trans [OF length_filter_le])
  have top: "length ?top < 2 ^ 32"
    using assms(1) by (simp add: top_performers_of_def Let_def min_def)
  have "sum_list (map (\<lambda>x. unat (total_reward_of cfg b p t vs x)) vs)
      \<le> sum_list (map (\<lambda>x. unat (share_of b vs)
          + (if snd x \<ge> HighPerformanceScore cfg then unat (share_of p ?high) else 0)
          + (if \<exists>y \<in> set ?top. fst y = fst x then unat (share_of t ?top) else 0)) vs)"
    by (intro sum_list_mono total_reward_le)
  also have "\<dots> = length vs * unat (share_of b vs)
      + length (filter (\<lambda>x. snd x \<ge> HighPerformanceScore cfg) vs) * unat (share_of p ?high)
      + length (filter (\<lambda>x. \<exists>y \<in> set ?top. fst y = fst x) vs) * unat (share_of t ?top)"
    by (simp add: sum_list_addf sum_list_if_const sum_list_triv)
  also have "length (filter (\<lambda>x. snd x \<ge> HighPerformanceScore cfg) vs) = length ?high"
    by (simp add: high_performers_of_def case_prod_unfold)
  also have "length vs * unat (share_of b vs) + length ?high * unat (share_of p ?high)
      + length (filter (\<lambda>x. \<exists>y \<in> set ?top. fst y = fst x) vs) * unat (share_of t ?top)
      \<le> unat b + unat p + unat t"
    using share_total [OF assms(1), of b] share_total [OF high, of p] share_total [OF top, of t]
      mult_le_mono1 [OF count_by_account [OF assms(2), of ?top], of "unat (share_of t ?top)"]
    by linarith
  finally show ?thesis .
qed

lemma validator_scores_accounts:
  "set (map fst (validator_scores_of H w)) = set (get_active_validators H w)"
  "length (validator_scores_of H w) = length (get_active_validators H w)"
  "distinct (get_active_validators H w) \<Longrightarrow> distinct (map fst (validator_scores_of H w))"
proof -
  let ?xs = "map (\<lambda>v. (v, get_validator_score H w v)) (get_active_validators H w)"
  show "set (map fst (validator_scores_of H w)) = set (get_active_validators H w)"
    by (force simp: validator_scores_of_def)
  show "length (validator_scores_of H w) = length (get_active_validators H w)"
    by (simp add: validator_scores_of_def)
  have "mset (map fst (validator_scores_of H w)) = image_mset fst (mset (validator_scores_of H w))"
    by (rule mset_map)
  also have "\<dots> = mset (map fst ?xs)"
    by (simp only: validator_scores_of_def mset_sort mset_map)
  also have "map fst ?xs = get_active_validators H w"
    by (simp add: comp_def)
  finally show "distinct (get_active_validators H w) \<Longrightarrow> distinct (map fst (validator_scores_of H w))"
    by (metis mset_eq_imp_distinct_iff)
qed

end
