(* ===== verification/Dvf_State.thy ===== *)
theory Dvf_State
  imports Pos_Pallet
begin

text \<open>
  The data, configuration and storage of \<open>pallet-cerulea-dvf\<close>. The storage extends that of
  \<open>pallet-cerulea-pos\<close>, since the pallet reads and writes both.
\<close>

section \<open>Data\<close>

record dvf_validator_state =
  last_active_epoch :: u32
  current :: epoch_stats
  vs_history :: "epoch_stats list"
  uptime :: u32
  inference_success_count :: u32
  participation_rate :: u32
  inference_count :: u64
  last_active_block :: u32
  vs_name :: "8 word list option"
  trust_score :: u64

record validator_metadata_info =
  md_name :: "8 word list"
  md_website :: "8 word list option"
  md_contact :: "8 word list option"
  md_description :: "8 word list option"
  md_location :: "8 word list option"
  md_commission_rate :: "u32 option"
  md_min_stake_required :: "u128 option"
  md_created_at :: u64
  md_updated_at :: u64

record performance_record =
  pr_epoch :: u32
  pr_blocks_authored :: u32
  pr_blocks_missed :: u32
  pr_uptime_percentage :: u32
  pr_inference_score :: u64
  pr_stake_score :: u64
  pr_final_score :: u64
  pr_participation_rate :: u32
  pr_timestamp :: u64

record finality_info =
  is_finalized :: bool
  finalized_by_checkpoint :: "u32 option"
  finalized_checkpoint_hash :: "hash option"

record 'sig dvf_vote =
  epoch_id :: u32
  validator_set_id :: u32
  round_id :: u32
  vote_block_number :: u32
  vote_block_hash :: hash
  validator_account :: account_id
  signature :: 'sig

record 'sig dvf_justification =
  round_number :: u32
  just_block_hash :: hash
  votes :: "'sig dvf_vote list"

text \<open>The fields whose encoding a vote signs.\<close>

type_synonym vote_payload = "u32 \<times> u32 \<times> u32 \<times> u32 \<times> hash \<times> account_id"

definition payload_of :: "'sig dvf_vote \<Rightarrow> vote_payload" where
  "payload_of v = (epoch_id v, validator_set_id v, round_id v, vote_block_number v,
     vote_block_hash v, validator_account v)"

section \<open>Configuration\<close>

text \<open>
  \<open>verify\<close> is signature verification over the encoded payload and \<open>threshold_of\<close> the
  multiplication of a weight by the configured \<open>Perbill\<close> finality threshold; both are library
  code and parameters of the model.
\<close>

record 'sig dvf_config =
  verify :: "'sig \<Rightarrow> vote_payload \<Rightarrow> account_id \<Rightarrow> bool"
  threshold_of :: "u128 \<Rightarrow> u128"
  FinalityCheckpointInterval :: u32
  VoteRetentionRounds :: u32
  DvfMaxValidators :: u32
  MaxInactiveEpochs :: u32
  UnderperformanceCheckInterval :: u32
  MaxValidatorHistorySize :: u32
  MaxValidatorNameSize :: u32

section \<open>Storage and events\<close>

datatype dvf_event =
    BlockFinalized u32 hash u32 u128
  | WeightsFrozen u32 u128
  | ValidatorSetChanged u32 u32
  | VoteValidationFailed account_id u32 string
  | ValidatorJoined account_id u128
  | ValidatorLeft account_id
  | ValidatorLeaveRequested account_id u32
  | ValidatorLeaveCancelled account_id
  | ValidatorAdded account_id
  | DvfValidatorRemoved account_id
  | ValidatorForcedToLeave account_id
  | ValidatorStatusChanged account_id validator_status validator_status u32
  | ValidatorEjected account_id ejection_reason
  | CooldownExpired account_id

record ('c, 'sig) dvf_world = "'c pos_world" +
  EpochVotingWeight :: "(account_id, u128) smap"
  TotalVotingWeight :: u128
  CurrentRound :: u32
  FinalizedBlockNumber :: u32
  FinalizedBlockHash :: "hash option"
  VoteRecords :: "(u32 \<times> account_id, 'sig dvf_vote) smap"
  VoteTallies :: "(hash, u128) smap"
  ValidatorSetId :: u32
  PreviousValidatorSet :: "account_id list"
  ValidatorSetIdChangedAt :: "u32 option"
  ValidatorSet :: "account_id list"
  ActiveValidators :: "account_id list"
  PendingValidatorActions :: "(account_id, validator_action) smap"
  ValidatorJoinTime :: "(account_id, u32) smap"
  ValidatorLeaveRequests :: "(account_id, u32) smap"
  RecentlyRemovedValidators :: "(account_id, u32) smap"
  ValidatorStates :: "(account_id, dvf_validator_state) smap"
  ValidatorNames :: "(account_id, 8 word list) smap"
  ValidatorUptime :: "(account_id, u32) smap"
  ValidatorMetadata :: "(account_id, validator_metadata_info) smap"
  ValidatorPerformanceHistory :: "(account_id, performance_record list) smap"
  ValidatorLastSeen :: "(account_id, u32) smap"
  ValidatorBlocksAuthored :: "(account_id, u32) smap"
  ValidatorBlocksMissed :: "(account_id, u32) smap"
  dvf_events :: "dvf_event list"

definition dvf_deposit_event ::
  "dvf_event \<Rightarrow> ('c, 'sig, 'z) dvf_world_scheme \<Rightarrow> ('c, 'sig, 'z) dvf_world_scheme" where
  "dvf_deposit_event e w = w\<lparr>dvf_events := dvf_events w @ [e]\<rparr>"

end
