(* ===== verification/Dvf_Registry.thy ===== *)
theory Dvf_Registry
  imports Dvf_State
begin

text \<open>
  The validator registry of \<open>pallet-cerulea-dvf\<close>: its implementation of \<open>ValidatorHandler\<close>, the
  calls by which accounts join and leave, and the block hook that expires leave requests and
  cooldowns and ejects underperforming validators.
\<close>

section \<open>The validator handler of the pallet\<close>

text \<open>The entry of a validator that is seen for the first time.\<close>

definition initial_state :: "u32 \<Rightarrow> u128 \<Rightarrow> u32 \<Rightarrow> dvf_validator_state" where
  "initial_state epoch stake block = \<lparr>
     last_active_epoch = epoch,
     current = \<lparr>es_epoch = epoch, stake_score = sat_into stake, inference_score = 0,
       final_score = 50, authored_blocks = 0, missed_blocks = 0\<rparr>,
     vs_history = [],
     uptime = 0,
     inference_success_count = 0,
     participation_rate = 0,
     inference_count = 0,
     last_active_block = block,
     vs_name = None,
     trust_score = 5000\<rparr>"

definition ensure_state ::
  "account_id \<Rightarrow> u128 \<Rightarrow> ('c, 'sig, 'z) dvf_world_scheme \<Rightarrow> ('c, 'sig, 'z) dvf_world_scheme" where
  "ensure_state v stake w =
     (if sm_has (ValidatorStates w) v then w
      else w\<lparr>ValidatorStates := sm_put v (initial_state (PosCurrentEpoch w) stake (block_number w))
               (ValidatorStates w)\<rparr>)"

definition remove_active ::
  "account_id \<Rightarrow> ('c, 'sig, 'z) dvf_world_scheme \<Rightarrow> ('c, 'sig, 'z) dvf_world_scheme" where
  "remove_active v w =
     (if v \<in> set (ActiveValidators w)
      then w\<lparr>ActiveValidators := remove1 v (ActiveValidators w)\<rparr> else w)"

definition remove_from_set ::
  "account_id \<Rightarrow> ('c, 'sig, 'z) dvf_world_scheme \<Rightarrow> ('c, 'sig, 'z) dvf_world_scheme" where
  "remove_from_set v w =
     (if v \<in> set (ValidatorSet w)
      then w\<lparr>ValidatorSet := remove1 v (ValidatorSet w)\<rparr> else w)"

definition dvf_on_joined ::
  "'sig dvf_config \<Rightarrow> account_id \<Rightarrow> u128 \<Rightarrow> (('c, 'sig, 'z) dvf_world_scheme, unit) call" where
  "dvf_on_joined cfg v stake w =
     (if v \<notin> set (ValidatorSet w) then
        (if \<not> length (ValidatorSet w) < unat (DvfMaxValidators cfg)
         then (Inl (PosErr TooManyValidators), w)
         else case bv_try_push (DvfMaxValidators cfg) v (ValidatorSet w) of
           None \<Rightarrow> (Inl (PosErr TooManyValidators), w)
         | Some vs \<Rightarrow> (Inr (), ensure_state v stake (w\<lparr>ValidatorSet := vs\<rparr>)))
      else (Inr (), ensure_state v stake w))"

definition dvf_on_leave_requested ::
  "account_id \<Rightarrow> (('c, 'sig, 'z) dvf_world_scheme, unit) call" where
  "dvf_on_leave_requested v w =
     (Inr (), remove_active v
        (w\<lparr>ValidatorLeaveRequests := sm_put v (block_number w) (ValidatorLeaveRequests w)\<rparr>))"

definition dvf_on_left :: "account_id \<Rightarrow> (('c, 'sig, 'z) dvf_world_scheme, unit) call" where
  "dvf_on_left v w =
     (let w1 = remove_active v (remove_from_set v w)
      in (Inr (), w1\<lparr>ValidatorJoinTime := sm_del v (ValidatorJoinTime w1),
            ValidatorLeaveRequests := sm_del v (ValidatorLeaveRequests w1),
            RecentlyRemovedValidators := sm_put v (block_number w1) (RecentlyRemovedValidators w1)\<rparr>))"

text \<open>\<open>ValidatorStates::mutate\<close> with a body that only acts on an existing entry.\<close>

definition mutate_state ::
  "account_id \<Rightarrow> (dvf_validator_state \<Rightarrow> dvf_validator_state) \<Rightarrow> ('c, 'sig, 'z) dvf_world_scheme
     \<Rightarrow> ('c, 'sig, 'z) dvf_world_scheme" where
  "mutate_state v f w =
     (case sm_get (ValidatorStates w) v of
        None \<Rightarrow> w
      | Some st \<Rightarrow> w\<lparr>ValidatorStates := sm_put v (f st) (ValidatorStates w)\<rparr>)"

definition add_stake_score :: "u64 \<Rightarrow> dvf_validator_state \<Rightarrow> dvf_validator_state" where
  "add_stake_score n st =
     st\<lparr>current := (current st)\<lparr>stake_score := sat_add (stake_score (current st)) n\<rparr>\<rparr>"

definition sub_stake_score :: "u64 \<Rightarrow> dvf_validator_state \<Rightarrow> dvf_validator_state" where
  "sub_stake_score n st =
     st\<lparr>current := (current st)\<lparr>stake_score := sat_sub (stake_score (current st)) n\<rparr>\<rparr>"

definition dvf_on_stake_increased ::
  "account_id \<Rightarrow> u128 \<Rightarrow> (('c, 'sig, 'z) dvf_world_scheme, unit) call" where
  "dvf_on_stake_increased v amount w =
     (Inr (), mutate_state v (add_stake_score (sat_into amount)) w)"

definition dvf_on_stake_decreased ::
  "account_id \<Rightarrow> u128 \<Rightarrow> (('c, 'sig, 'z) dvf_world_scheme, unit) call" where
  "dvf_on_stake_decreased v amount w =
     (Inr (), mutate_state v (sub_stake_score (sat_into amount)) w)"

definition dvf_on_slashed ::
  "account_id \<Rightarrow> u128 \<Rightarrow> u64 \<Rightarrow> (('c, 'sig, 'z) dvf_world_scheme, unit) call" where
  "dvf_on_slashed v amount penalty w =
     (Inr (), mutate_state v (\<lambda>st. (sub_stake_score (sat_into amount) st)
        \<lparr>trust_score := sat_sub (trust_score st) penalty\<rparr>) w)"

definition dvf_on_rewarded ::
  "account_id \<Rightarrow> u128 \<Rightarrow> u64 \<Rightarrow> (('c, 'sig, 'z) dvf_world_scheme, unit) call" where
  "dvf_on_rewarded v amount boost w =
     (Inr (), mutate_state v (\<lambda>st. (add_stake_score (sat_into amount) st)
        \<lparr>trust_score := sat_add (trust_score st) boost\<rparr>) w)"

definition dvf_get_validator_score :: "('c, 'sig, 'z) dvf_world_scheme \<Rightarrow> account_id \<Rightarrow> u64" where
  "dvf_get_validator_score w v =
     (case sm_get (ValidatorStates w) v of None \<Rightarrow> 0 | Some st \<Rightarrow> final_score (current st))"

definition dvf_handler ::
  "'sig dvf_config \<Rightarrow> ('c, 'sig, 'z) dvf_world_scheme validator_handler" where
  "dvf_handler cfg = \<lparr>
     on_joined = dvf_on_joined cfg,
     on_leave_requested = dvf_on_leave_requested,
     on_left = dvf_on_left,
     on_stake_increased = dvf_on_stake_increased,
     on_stake_decreased = dvf_on_stake_decreased,
     on_slashed = dvf_on_slashed,
     on_rewarded = dvf_on_rewarded,
     get_validator_score = dvf_get_validator_score,
     get_active_validators = ActiveValidators\<rparr>"

section \<open>Joining and leaving\<close>

definition join_validator_set ::
  "pos_config \<Rightarrow> origin \<Rightarrow> (('c, 'sig, 'z) dvf_world_scheme, unit) call" where
  "join_validator_set pcfg orig w =
     (case ensure_signed orig of Inl e \<Rightarrow> (Inl e, w) | Inr who \<Rightarrow>
      if who \<in> set (ActiveValidators w) then (Inl (DvfErr NotAllowedInGovernanceMode), w)
      else if sm_get (PendingValidatorActions w) who = Some Join
      then (Inl (DvfErr NotAllowedInGovernanceMode), w)
      else if \<not> sm_val 0 (Stake w) who \<ge> MinStake pcfg then (Inl (DvfErr NotEnoughValidators), w)
      else case sm_get (ValidatorStates w) who of
        None \<Rightarrow> (Inl (DvfErr ValidatorNotFound), w)
      | Some state \<Rightarrow>
          if \<not> final_score (current state) \<ge> ucast (MinValidatorScore pcfg)
          then (Inl (DvfErr NotValidator), w)
          else (Inr (), dvf_deposit_event (ValidatorJoined who (MinStake pcfg))
                 (w\<lparr>PendingValidatorActions := sm_put who Join (PendingValidatorActions w)\<rparr>)))"

definition leave_validator_set ::
  "origin \<Rightarrow> (('c, 'sig, 'z) dvf_world_scheme, unit) call" where
  "leave_validator_set orig w =
     (case ensure_signed orig of Inl e \<Rightarrow> (Inl e, w) | Inr who \<Rightarrow>
      if who \<notin> set (ActiveValidators w) then (Inl (DvfErr NotValidator), w)
      else if sm_get (PendingValidatorActions w) who = Some Leave
      then (Inl (DvfErr NotAllowedInGovernanceMode), w)
      else (Inr (), dvf_deposit_event (ValidatorLeft who)
             (w\<lparr>PendingValidatorActions := sm_put who Leave (PendingValidatorActions w)\<rparr>)))"

definition validate_rejoin_eligibility ::
  "pos_config \<Rightarrow> account_id \<Rightarrow> (('c, 'sig, 'z) dvf_world_scheme, unit) call" where
  "validate_rejoin_eligibility pcfg who w =
     (case sm_get (RecentlyRemovedValidators w) who of
        Some left_at_block \<Rightarrow>
          if sat_sub (block_number w) left_at_block < LeaveCooldown pcfg
          then (Inl (PosErr CooldownActive), w)
          else
            (let w1 = w\<lparr>RecentlyRemovedValidators := sm_del who (RecentlyRemovedValidators w)\<rparr>
             in if sm_has (ValidatorLeaveRequests w1) who
                then (Inl (PosErr LeaveCooldownActive), w1) else (Inr (), w1))
      | None \<Rightarrow>
          if sm_has (ValidatorLeaveRequests w) who
          then (Inl (PosErr LeaveCooldownActive), w) else (Inr (), w))"

definition join_validators ::
  "pos_config \<Rightarrow> 'sig dvf_config \<Rightarrow> 'c currency \<Rightarrow> origin
     \<Rightarrow> (('c, 'sig, 'z) dvf_world_scheme, unit) call" where
  "join_validators pcfg cfg C orig w =
     (case ensure_signed orig of Inl e \<Rightarrow> (Inl e, w) | Inr who \<Rightarrow>
      (let min_stake = MinStake pcfg in
       if \<not> free_balance C (balances w) who \<ge> min_stake then (Inl (PosErr InsufficientStake), w)
       else case validate_rejoin_eligibility pcfg who w of
         (Inl e, w1) \<Rightarrow> (Inl e, w1)
       | (Inr u, w1) \<Rightarrow>
         if who \<in> set (ValidatorSet w1) then (Inl (PosErr ValidatorAlreadyExists), w1)
         else case reserve C who min_stake (balances w1) of
           None \<Rightarrow> (Inl (PosErr InsufficientStake), w1)
         | Some b \<Rightarrow>
           (let w2 = w1\<lparr>balances := b, Stake := sm_put who min_stake (Stake w1),
                       ValidatorJoinTime := sm_put who (block_number w1) (ValidatorJoinTime w1)\<rparr>
            in if \<not> length (ValidatorSet w2) < unat (DvfMaxValidators cfg)
               then (Inl (PosErr TooManyValidators), w2)
               else case bv_try_push (DvfMaxValidators cfg) who (ValidatorSet w2) of
                 None \<Rightarrow> (Inl (PosErr TooManyValidators), w2)
               | Some vs \<Rightarrow>
                 (Inr (), dvf_deposit_event (ValidatorJoined who min_stake)
                    (ensure_state who min_stake
                      (w2\<lparr>ValidatorSet := vs, Validators := sm_put who True (Validators w2)\<rparr>))))))"

definition leave_validators ::
  "pos_config \<Rightarrow> origin \<Rightarrow> (('c, 'sig, 'z) dvf_world_scheme, unit) call" where
  "leave_validators pcfg orig w =
     (case ensure_signed orig of Inl e \<Rightarrow> (Inl e, w) | Inr who \<Rightarrow>
      if who \<notin> set (ValidatorSet w) then (Inl (PosErr ValidatorNotInSet), w)
      else if sm_has (ValidatorLeaveRequests w) who then (Inl (PosErr LeaveCooldownActive), w)
      else
        (let current_block = block_number w;
             w1 = remove_active who
               (w\<lparr>ValidatorLeaveRequests := sm_put who current_block (ValidatorLeaveRequests w)\<rparr>)
         in (Inr (), dvf_deposit_event
               (ValidatorLeaveRequested who (current_block + LeaveCooldown pcfg))
               (w1\<lparr>Validators := sm_put who False (Validators w1)\<rparr>))))"

definition cancel_leave_request ::
  "pos_config \<Rightarrow> 'sig dvf_config \<Rightarrow> origin \<Rightarrow> (('c, 'sig, 'z) dvf_world_scheme, unit) call" where
  "cancel_leave_request pcfg cfg orig w =
     (case ensure_signed orig of Inl e \<Rightarrow> (Inl e, w) | Inr who \<Rightarrow>
      (case sm_get (ValidatorLeaveRequests w) who of
         None \<Rightarrow> (Inl (PosErr ValidatorNotInSet), w)
       | Some leave_request_block \<Rightarrow>
         if sat_sub (block_number w) leave_request_block \<ge> LeaveCooldown pcfg
         then (Inl (PosErr LeaveCooldownActive), w)
         else
           (let w1 = w\<lparr>ValidatorLeaveRequests := sm_del who (ValidatorLeaveRequests w)\<rparr>;
                w2 = (if who \<in> set (ValidatorSet w1) then
                        (let w' = (if who \<notin> set (ActiveValidators w1)
                                     \<and> length (ActiveValidators w1) < unat (DvfMaxValidators cfg)
                                   then w1\<lparr>ActiveValidators := ActiveValidators w1 @ [who]\<rparr> else w1)
                         in w'\<lparr>Validators := sm_put who True (Validators w')\<rparr>)
                      else w1)
            in (Inr (), dvf_deposit_event (ValidatorLeaveCancelled who) w2))))"

section \<open>The block hook\<close>

definition expired :: "pos_config \<Rightarrow> u32 \<Rightarrow> (account_id, u32) smap \<Rightarrow> account_id list" where
  "expired pcfg current_block m =
     map fst (filter (\<lambda>(v, b). sat_sub current_block b \<ge> LeaveCooldown pcfg) m)"

definition cleanup_recently_removed_validators ::
  "pos_config \<Rightarrow> u32 \<Rightarrow> ('c, 'sig, 'z) dvf_world_scheme \<Rightarrow> ('c, 'sig, 'z) dvf_world_scheme" where
  "cleanup_recently_removed_validators pcfg current_block w =
     fold (\<lambda>v w. dvf_deposit_event (CooldownExpired v)
             (w\<lparr>RecentlyRemovedValidators := sm_del v (RecentlyRemovedValidators w)\<rparr>))
       (expired pcfg current_block (RecentlyRemovedValidators w)) w"

definition finish_leave ::
  "'c currency \<Rightarrow> u32 \<Rightarrow> account_id \<Rightarrow> ('c, 'sig, 'z) dvf_world_scheme \<Rightarrow> ('c, 'sig, 'z) dvf_world_scheme" where
  "finish_leave C current_block v w =
     (let stake_amount = sm_val 0 (Stake w) v;
          w1 = (if stake_amount > 0
                then w\<lparr>balances := snd (unreserve C v stake_amount (balances w))\<rparr> else w);
          w2 = remove_active v (remove_from_set v w1)
      in dvf_deposit_event (ValidatorLeft v)
           (w2\<lparr>Validators := sm_del v (Validators w2),
              ValidatorJoinTime := sm_del v (ValidatorJoinTime w2),
              Stake := sm_del v (Stake w2),
              ValidatorLeaveRequests := sm_del v (ValidatorLeaveRequests w2),
              RecentlyRemovedValidators := sm_put v current_block (RecentlyRemovedValidators w2)\<rparr>))"

definition process_expired_leave_requests ::
  "pos_config \<Rightarrow> 'c currency \<Rightarrow> u32 \<Rightarrow> ('c, 'sig, 'z) dvf_world_scheme
     \<Rightarrow> ('c, 'sig, 'z) dvf_world_scheme" where
  "process_expired_leave_requests pcfg C current_block w =
     fold (finish_leave C current_block) (expired pcfg current_block (ValidatorLeaveRequests w)) w"

definition eject_validator ::
  "account_id \<Rightarrow> ejection_reason \<Rightarrow> (('c, 'sig, 'z) dvf_world_scheme, unit) call" where
  "eject_validator v reason w =
     (let old_status = (if v \<in> set (ActiveValidators w) then Active else Inactive);
          w1 = remove_active v w
      in (Inr (), dvf_deposit_event (ValidatorEjected v reason)
            (dvf_deposit_event (ValidatorStatusChanged v old_status Ejected (block_number w1)) w1)))"

definition check_validator ::
  "pos_config \<Rightarrow> 'sig dvf_config \<Rightarrow> account_id \<Rightarrow> ('c, 'sig, 'z) dvf_world_scheme
     \<Rightarrow> ('c, 'sig, 'z) dvf_world_scheme" where
  "check_validator pcfg cfg v w =
     (case sm_get (ValidatorStates w) v of
        None \<Rightarrow> w
      | Some state \<Rightarrow>
          (let w1 = (if final_score (current state) < ucast (MinValidatorScore pcfg)
                     then snd (eject_validator v ScoreBelowThreshold w) else w);
               inactive_epochs = sat_sub (PosCurrentEpoch w) (last_active_epoch state)
           in if inactive_epochs > MaxInactiveEpochs cfg
              then snd (eject_validator v ScoreBelowThreshold w1) else w1))"

definition check_and_handle_underperforming_validators ::
  "pos_config \<Rightarrow> 'sig dvf_config \<Rightarrow> ('c, 'sig, 'z) dvf_world_scheme \<Rightarrow> ('c, 'sig, 'z) dvf_world_scheme" where
  "check_and_handle_underperforming_validators pcfg cfg w =
     fold (check_validator pcfg cfg) (ActiveValidators w) w"

text \<open>
  The hook divides by the check interval: with an interval of zero the runtime panics (\<open>None\<close>).
\<close>

definition dvf_on_initialize ::
  "pos_config \<Rightarrow> 'sig dvf_config \<Rightarrow> 'c currency \<Rightarrow> u32 \<Rightarrow> ('c, 'sig, 'z) dvf_world_scheme
     \<Rightarrow> ('c, 'sig, 'z) dvf_world_scheme option" where
  "dvf_on_initialize pcfg cfg C n w =
     (let w1 = process_expired_leave_requests pcfg C n (cleanup_recently_removed_validators pcfg n w)
      in if UnderperformanceCheckInterval cfg = 0 then None
         else if n mod UnderperformanceCheckInterval cfg = 0
         then Some (check_and_handle_underperforming_validators pcfg cfg w1)
         else Some w1)"

end
