(* ===== verification/Dvf_Finality.thy ===== *)
theory Dvf_Finality
  imports Dvf_Registry
begin

text \<open>
  The finality protocol of \<open>pallet-cerulea-dvf\<close>: freezing the voting weights of an epoch, single
  votes with a running tally, and justifications that finalise a checkpoint block.
\<close>

section \<open>Checkpoints and queries\<close>

definition is_checkpoint_block :: "'sig dvf_config \<Rightarrow> u32 \<Rightarrow> bool" where
  "is_checkpoint_block cfg n =
     (if FinalityCheckpointInterval cfg = 0 then False else n mod FinalityCheckpointInterval cfg = 0)"

definition is_block_finalized :: "('c, 'sig, 'z) dvf_world_scheme \<Rightarrow> u32 \<Rightarrow> bool" where
  "is_block_finalized w n \<longleftrightarrow> n \<le> FinalizedBlockNumber w"

definition get_finality_info ::
  "'sig dvf_config \<Rightarrow> ('c, 'sig, 'z) dvf_world_scheme \<Rightarrow> u32 \<Rightarrow> finality_info" where
  "get_finality_info cfg w n =
     (if n \<le> FinalizedBlockNumber w
      then \<lparr>is_finalized = True,
        finalized_by_checkpoint = Some
          (if FinalityCheckpointInterval cfg > 0
           then (n div FinalityCheckpointInterval cfg) * FinalityCheckpointInterval cfg
           else FinalizedBlockNumber w),
        finalized_checkpoint_hash = FinalizedBlockHash w\<rparr>
      else \<lparr>is_finalized = False, finalized_by_checkpoint = None, finalized_checkpoint_hash = None\<rparr>)"

section \<open>Freezing the weights of an epoch\<close>

definition vote_weight_scale :: u128 where
  "vote_weight_scale = 32000"

definition validator_set_changed :: "account_id list \<Rightarrow> account_id list \<Rightarrow> bool" where
  "validator_set_changed previous new \<longleftrightarrow>
     (if length previous \<noteq> length new then True else sort previous \<noteq> sort new)"

text \<open>\<open>Iterator::sum\<close> over \<open>u128\<close> wraps around in a release build, as word addition does.\<close>

definition total_stake_of :: "(account_id \<times> u128 \<times> u128) list \<Rightarrow> u128" where
  "total_stake_of vs = sum_list (map (\<lambda>(v, stake, score). stake) vs)"

definition normalized_weight :: "(account_id \<times> u128 \<times> u128) list \<Rightarrow> u128 \<Rightarrow> u128" where
  "normalized_weight vs stake =
     (let validator_count = of_nat (length vs); total_stake = total_stake_of vs
      in if total_stake > 0 then sat_mul stake vote_weight_scale div total_stake
         else if validator_count > 0 then vote_weight_scale div validator_count else 0)"

definition note_set_change ::
  "account_id list \<Rightarrow> ('c, 'sig, 'z) dvf_world_scheme \<Rightarrow> ('c, 'sig, 'z) dvf_world_scheme" where
  "note_set_change new w =
     (if validator_set_changed (PreviousValidatorSet w) new then
        (let old_id = ValidatorSetId w; new_id = sat_add old_id 1
         in dvf_deposit_event (ValidatorSetChanged old_id new_id)
              (w\<lparr>ValidatorSetId := new_id, ValidatorSetIdChangedAt := Some (block_number w)\<rparr>))
      else w)"

definition freeze_epoch_weights ::
  "'sig dvf_config \<Rightarrow> u32 \<Rightarrow> (account_id \<times> u128 \<times> u128) list \<Rightarrow> ('c, 'sig, 'z) dvf_world_scheme
     \<Rightarrow> ('c, 'sig, 'z) dvf_world_scheme" where
  "freeze_epoch_weights cfg epoch vs w =
     (let new = map fst vs;
          w1 = note_set_change new w;
          w2 = w1\<lparr>PreviousValidatorSet := bv_truncate (DvfMaxValidators cfg) new\<rparr>;
          (weights, tot) = fold (\<lambda>(v, stake, score) (m, t).
             (sm_put v (normalized_weight vs stake) m, sat_add t (normalized_weight vs stake)))
             vs ([], 0)
      in dvf_deposit_event (WeightsFrozen epoch tot)
           (w2\<lparr>EpochVotingWeight := weights, TotalVotingWeight := tot\<rparr>))"

text \<open>Genesis panics (\<open>None\<close>) on an empty list, a zero stake or a score above 100.\<close>

definition dvf_genesis_build ::
  "'sig dvf_config \<Rightarrow> (account_id \<times> u128 \<times> u128) list \<Rightarrow> ('c, 'sig, 'z) dvf_world_scheme
     \<Rightarrow> ('c, 'sig, 'z) dvf_world_scheme option" where
  "dvf_genesis_build cfg initial_validator_weights w =
     (if initial_validator_weights = [] then None
      else if \<exists>(v, stake, score) \<in> set initial_validator_weights. \<not> stake > 0 \<or> \<not> score \<le> 100 then None
      else Some ((freeze_epoch_weights cfg 0 initial_validator_weights (w\<lparr>ValidatorSetId := 0\<rparr>))
                   \<lparr>ValidatorSetId := 0\<rparr>))"

section \<open>Finalising a block\<close>

definition prune_vote_records ::
  "'sig dvf_config \<Rightarrow> u32 \<Rightarrow> ('c, 'sig, 'z) dvf_world_scheme \<Rightarrow> ('c, 'sig, 'z) dvf_world_scheme" where
  "prune_vote_records cfg current_round w =
     (if current_round > VoteRetentionRounds cfg then
        (let cutoff_round = sat_sub current_round (VoteRetentionRounds cfg)
         in w\<lparr>VoteRecords := filter (\<lambda>((r, v), vote). \<not> r < cutoff_round) (VoteRecords w)\<rparr>)
      else w)"

definition finalize_block ::
  "'sig dvf_config \<Rightarrow> hash \<Rightarrow> u32 \<Rightarrow> u32 \<Rightarrow> u128 \<Rightarrow> ('c, 'sig, 'z) dvf_world_scheme
     \<Rightarrow> ('c, 'sig, 'z) dvf_world_scheme" where
  "finalize_block cfg block_hash n round accumulated_weight w =
     (let w1 = dvf_deposit_event (BlockFinalized n block_hash round accumulated_weight)
            (w\<lparr>FinalizedBlockNumber := n, FinalizedBlockHash := Some block_hash,
               CurrentRound := sat_add round 1\<rparr>);
          w2 = prune_vote_records cfg round w1
      in w2\<lparr>VoteTallies := sm_del block_hash (VoteTallies w2)\<rparr>)"

section \<open>Single votes\<close>

definition submit_dvf_vote ::
  "'sig dvf_config \<Rightarrow> origin \<Rightarrow> 'sig dvf_vote \<Rightarrow> (('c, 'sig, 'z) dvf_world_scheme, unit) call" where
  "submit_dvf_vote cfg orig vote w =
     (case ensure_signed orig of Inl e \<Rightarrow> (Inl e, w) | Inr _ \<Rightarrow>
      if \<not> verify cfg (signature vote) (payload_of vote) (validator_account vote)
      then (Inl (DvfErr InvalidSignature), w)
      else case sm_get (EpochVotingWeight w) (validator_account vote) of
        None \<Rightarrow> (Inl (DvfErr InvalidValidator), w)
      | Some voter_weight \<Rightarrow>
        if \<not> is_checkpoint_block cfg (vote_block_number vote)
        then (Inl (DvfErr NonCheckpointBlock), w)
        else if \<not> vote_block_number vote > FinalizedBlockNumber w
        then (Inl (DvfErr BlockAlreadyFinalized), w)
        else if sm_has (VoteRecords w) (CurrentRound w, validator_account vote)
        then (Inl (DvfErr DoubleVote), w)
        else
          (let current_round = CurrentRound w;
               new_tally = sat_add (sm_val 0 (VoteTallies w) (vote_block_hash vote)) voter_weight;
               w1 = w\<lparr>VoteRecords := sm_put (current_round, validator_account vote) vote (VoteRecords w),
                      VoteTallies := sm_put (vote_block_hash vote) new_tally (VoteTallies w)\<rparr>
           in (Inr (), if new_tally \<ge> threshold_of cfg (TotalVotingWeight w1)
                       then finalize_block cfg (vote_block_hash vote) (vote_block_number vote)
                              current_round new_tally w1
                       else w1)))"

section \<open>Justifications\<close>

text \<open>
  The loop over the votes: the validators seen so far, the validator set id of the first vote
  and the accumulated weight are its variables.
\<close>

fun check_votes ::
  "'sig dvf_config \<Rightarrow> (account_id, u128) smap \<Rightarrow> 'sig dvf_justification \<Rightarrow> account_id list
     \<Rightarrow> u32 option \<Rightarrow> u128 \<Rightarrow> 'sig dvf_vote list \<Rightarrow> dvf_error + u128" where
  "check_votes cfg weights j seen expected acc [] = Inr acc"
| "check_votes cfg weights j seen expected acc (v # vs) =
     (if validator_account v \<in> set seen then Inl DuplicateValidator
      else if \<not> verify cfg (signature v) (payload_of v) (validator_account v) then Inl InvalidSignature
      else if (case expected of Some i \<Rightarrow> validator_set_id v \<noteq> i | None \<Rightarrow> False)
      then Inl ValidatorSetIdMismatch
      else if round_id v \<noteq> round_number j then Inl RoundMismatch
      else if vote_block_hash v \<noteq> just_block_hash j then Inl BlockHashMismatch
      else case sm_get weights (validator_account v) of
        None \<Rightarrow> Inl InvalidValidator
      | Some x \<Rightarrow>
          check_votes cfg weights j (validator_account v # seen)
            (case expected of Some i \<Rightarrow> Some i | None \<Rightarrow> Some (validator_set_id v))
            (sat_add acc x) vs)"

definition verify_and_finalize_justification ::
  "'sig dvf_config \<Rightarrow> 'sig dvf_justification \<Rightarrow> (('c, 'sig, 'z) dvf_world_scheme, unit) call" where
  "verify_and_finalize_justification cfg j w =
     (case votes j of [] \<Rightarrow> (Inl (DvfErr EmptyJustification), w)
      | v0 # _ \<Rightarrow>
        (let n = vote_block_number v0 in
         if \<not> is_checkpoint_block cfg n then (Inl (DvfErr NonCheckpointBlock), w)
         else if \<not> n > FinalizedBlockNumber w then (Inl (DvfErr BlockAlreadyFinalized), w)
         else case check_votes cfg (EpochVotingWeight w) j [] None 0 (votes j) of
           Inl e \<Rightarrow> (Inl (DvfErr e), w)
         | Inr accumulated_weight \<Rightarrow>
             if \<not> accumulated_weight \<ge> threshold_of cfg (TotalVotingWeight w)
             then (Inl (DvfErr ThresholdNotReached), w)
             else (Inr (), finalize_block cfg (just_block_hash j) n (round_number j)
                             accumulated_weight w)))"

definition submit_justification ::
  "'sig dvf_config \<Rightarrow> origin \<Rightarrow> 'sig dvf_justification \<Rightarrow> (('c, 'sig, 'z) dvf_world_scheme, unit) call" where
  "submit_justification cfg orig j w =
     (case ensure_none orig of Inl e \<Rightarrow> (Inl e, w) | Inr _ \<Rightarrow>
      verify_and_finalize_justification cfg j w)"

text \<open>The pool's check of the unsigned call.\<close>

datatype validity = InvalidCustom nat | InvalidStale | ValidTransaction u64 string hash nat

definition validate_unsigned_justification ::
  "'sig dvf_justification \<Rightarrow> ('c, 'sig, 'z) dvf_world_scheme \<Rightarrow> validity" where
  "validate_unsigned_justification j w =
     (case votes j of [] \<Rightarrow> InvalidCustom 1
      | v0 # _ \<Rightarrow>
          if vote_block_number v0 \<le> FinalizedBlockNumber w then InvalidStale
          else ValidTransaction (ucast (vote_block_number v0)) ''dvf_justification_''
                 (just_block_hash j) 5)"

end
