(* ===== verification/Dvf_Safety.thy ===== *)
theory Dvf_Safety
  imports Distribution Dvf_Finality
begin

text \<open>
  The registry pallet as a provider: its handler meets the contract \<open>pos_client\<close>, its operations keep
  the registry invariant, and its steps leave the totals of \<open>pallet-cerulea-pos\<close> alone.
\<close>

section \<open>The handler meets the contract\<close>

lemma truncate_registry [simp]:
  "pos_world.truncate (w\<lparr>ValidatorStates := a1\<rparr>) = pos_world.truncate w"
  "pos_world.truncate (w\<lparr>ActiveValidators := a2\<rparr>) = pos_world.truncate w"
  "pos_world.truncate (w\<lparr>ValidatorSet := a3\<rparr>) = pos_world.truncate w"
  "pos_world.truncate (w\<lparr>ValidatorJoinTime := a4\<rparr>) = pos_world.truncate w"
  "pos_world.truncate (w\<lparr>ValidatorLeaveRequests := a5\<rparr>) = pos_world.truncate w"
  "pos_world.truncate (w\<lparr>RecentlyRemovedValidators := a6\<rparr>) = pos_world.truncate w"
  for w :: "('c, 'sig, 'z) dvf_world_scheme"
  by (simp_all add: pos_world.truncate_def)

lemma truncate_mutate_state [simp]: "pos_world.truncate (mutate_state v f w) = pos_world.truncate w"
  by (simp add: mutate_state_def split: option.split)

lemma truncate_remove [simp]:
  "pos_world.truncate (remove_active v w) = pos_world.truncate w"
  "pos_world.truncate (remove_from_set v w) = pos_world.truncate w"
  by (simp_all add: remove_active_def remove_from_set_def)

lemma truncate_on_left: "pos_world.truncate (snd (dvf_on_left v w)) = pos_world.truncate w"
  by (simp add: dvf_on_left_def Let_def)

interpretation dvf_h: pos_client "dvf_handler cfg" for cfg
  by unfold_locales
    (simp_all add: dvf_handler_def dvf_on_stake_increased_def dvf_on_stake_decreased_def
      dvf_on_slashed_def dvf_on_rewarded_def truncate_on_left)

section \<open>The storage of the other pallet\<close>

text \<open>
  Apart from \<open>Validators\<close>, \<open>Stake\<close>, the balances and the block number, the registry leaves the
  storage of \<open>pallet-cerulea-pos\<close> as it is.
\<close>

definition same_pos_core :: "('c, 'z) pos_world_scheme \<Rightarrow> ('c, 'z) pos_world_scheme \<Rightarrow> bool" where
  "same_pos_core w w' \<longleftrightarrow>
     pos_world.truncate (w'\<lparr>Validators := [], Stake := [], balances := undefined, block_number := 0\<rparr>)
     = pos_world.truncate (w\<lparr>Validators := [], Stake := [], balances := undefined, block_number := 0\<rparr>)"

lemma same_pos_core_iff:
  "same_pos_core w w' \<longleftrightarrow>
     ValidatorScores w' = ValidatorScores w \<and> PosCurrentEpoch w' = PosCurrentEpoch w
     \<and> SlashingCount w' = SlashingCount w \<and> ValidatorSlashingHistory w' = ValidatorSlashingHistory w
     \<and> EpochTotalRewarded w' = EpochTotalRewarded w \<and> EpochTotalSlashed w' = EpochTotalSlashed w
     \<and> ValidatorEpochRewarded w' = ValidatorEpochRewarded w
     \<and> ValidatorEpochSlashed w' = ValidatorEpochSlashed w \<and> pos_events w' = pos_events w"
  by (auto simp: same_pos_core_def pos_world.truncate_def)

lemma same_pos_core_trans: "same_pos_core w w' \<Longrightarrow> same_pos_core w' w'' \<Longrightarrow> same_pos_core w w''"
  by (simp add: same_pos_core_def)

lemma same_pos_core_refl [simp]: "same_pos_core w w"
  by (simp add: same_pos_core_def)

lemma same_pos_core_fold:
  assumes "\<And>x w. same_pos_core w (f x w)"
  shows "same_pos_core w (fold f xs w)"
  using assms by (induction xs arbitrary: w) (auto intro: same_pos_core_trans)

lemma pos_reachable_core:
  assumes reach: "pos_reachable cfg C H w" and same: "same_pos_core w w'"
  shows "pos_reachable cfg C H w'"
proof -
  let ?v = "(w\<lparr>Validators := Validators w', Stake := Stake w'\<rparr>)
    \<lparr>balances := balances w', block_number := block_number w'\<rparr>"
  have "pos_reachable cfg C H ?v"
    by (intro pos_reachable.chain pos_reachable.registry reach)
  moreover have "pos_world.truncate w' = pos_world.truncate ?v"
    using same by (simp add: same_pos_core_iff pos_world.truncate_def)
  ultimately show ?thesis
    by (rule pos_reachable.others)
qed

lemmas core_defs =
  same_pos_core_iff dvf_deposit_event_def ensure_state_def remove_active_def remove_from_set_def

lemma core_finish_leave: "same_pos_core w (finish_leave C n v w)"
  by (simp add: finish_leave_def Let_def core_defs)

lemma core_eject: "same_pos_core w (snd (eject_validator v r w))"
  by (simp add: eject_validator_def Let_def core_defs)

lemma core_check_validator: "same_pos_core w (check_validator pcfg cfg v w)"
  using core_eject same_pos_core_trans
  by (fastforce simp: check_validator_def Let_def split: option.split)

lemma core_cleanup: "same_pos_core w (cleanup_recently_removed_validators pcfg n w)"
  unfolding cleanup_recently_removed_validators_def
  by (rule same_pos_core_fold) (simp add: core_defs)

lemma core_hook:
  assumes "dvf_on_initialize pcfg cfg C n w = Some w'"
  shows "same_pos_core w w'"
proof -
  have expire: "same_pos_core u (process_expired_leave_requests pcfg C n u)" for u
    unfolding process_expired_leave_requests_def by (rule same_pos_core_fold) (rule core_finish_leave)
  have check: "same_pos_core u (check_and_handle_underperforming_validators pcfg cfg u)" for u
    unfolding check_and_handle_underperforming_validators_def
    by (rule same_pos_core_fold) (rule core_check_validator)
  let ?u = "process_expired_leave_requests pcfg C n (cleanup_recently_removed_validators pcfg n w)"
  have u: "same_pos_core w ?u"
    by (rule same_pos_core_trans [OF core_cleanup expire])
  have "same_pos_core w (check_and_handle_underperforming_validators pcfg cfg ?u)"
    by (rule same_pos_core_trans [OF u check])
  with u assms show ?thesis
    by (auto simp: dvf_on_initialize_def Let_def split: if_splits)
qed

lemma core_finalize: "same_pos_core w (finalize_block cfg h n r a w)"
  by (simp add: finalize_block_def prune_vote_records_def Let_def core_defs)

lemma core_note_set_change: "same_pos_core w (note_set_change new w)"
  by (simp add: note_set_change_def Let_def core_defs)

lemma core_freeze: "same_pos_core w (freeze_epoch_weights cfg e vs w)"
  using core_note_set_change [of w "map fst vs"]
  by (auto simp: freeze_epoch_weights_def Let_def core_defs split: prod.split)

section \<open>Dispatch\<close>

datatype 'sig dvf_call =
    Submit_dvf_vote "'sig dvf_vote"
  | Submit_justification "'sig dvf_justification"
  | Join_validator_set
  | Leave_validator_set
  | Join_validators
  | Leave_validators
  | Cancel_leave_request

fun dvf_dispatch ::
  "pos_config \<Rightarrow> 'sig dvf_config \<Rightarrow> 'c currency \<Rightarrow> origin \<Rightarrow> 'sig dvf_call
     \<Rightarrow> (('c, 'sig, 'z) dvf_world_scheme, unit) call" where
  "dvf_dispatch pcfg cfg C orig (Submit_dvf_vote v) w = submit_dvf_vote cfg orig v w"
| "dvf_dispatch pcfg cfg C orig (Submit_justification j) w = submit_justification cfg orig j w"
| "dvf_dispatch pcfg cfg C orig Join_validator_set w = join_validator_set pcfg orig w"
| "dvf_dispatch pcfg cfg C orig Leave_validator_set w = leave_validator_set orig w"
| "dvf_dispatch pcfg cfg C orig Join_validators w = join_validators pcfg cfg C orig w"
| "dvf_dispatch pcfg cfg C orig Leave_validators w = leave_validators pcfg orig w"
| "dvf_dispatch pcfg cfg C orig Cancel_leave_request w = cancel_leave_request pcfg cfg orig w"

lemma core_vote: "same_pos_core w (snd (submit_dvf_vote cfg orig v w))"
proof -
  have "same_pos_core w (finalize_block cfg h n r a (w\<lparr>VoteRecords := x, VoteTallies := y\<rparr>))"
    for h n r a x y
    by (rule same_pos_core_trans [OF _ core_finalize]) (simp add: core_defs)
  then show ?thesis
    by (cases orig) (auto simp: submit_dvf_vote_def Let_def core_defs split: option.split)
qed

lemma core_justification: "same_pos_core w (snd (verify_and_finalize_justification cfg j w))"
  by (auto simp: verify_and_finalize_justification_def Let_def core_finalize split: list.split sum.split)

lemma core_join: "same_pos_core w (snd (join_validators pcfg cfg C orig w))"
  by (cases orig)
    (auto simp: join_validators_def validate_rejoin_eligibility_def Let_def core_defs
      split: option.split)

lemma core_join_set: "same_pos_core w (snd (join_validator_set pcfg orig w))"
  by (cases orig) (simp_all add: join_validator_set_def core_defs split: option.split)

lemma core_leave_set: "same_pos_core w (snd (leave_validator_set orig w))"
  by (cases orig) (simp_all add: leave_validator_set_def core_defs)

lemma core_leave: "same_pos_core w (snd (leave_validators pcfg orig w))"
  by (cases orig) (simp_all add: leave_validators_def Let_def core_defs)

lemma core_cancel: "same_pos_core w (snd (cancel_leave_request pcfg cfg orig w))"
  by (cases orig) (simp_all add: cancel_leave_request_def Let_def core_defs split: option.split)

lemma core_dispatch: "same_pos_core w (snd (dvf_dispatch pcfg cfg C orig call w))"
proof (cases call)
  case (Submit_justification j)
  then show ?thesis
    by (cases orig) (simp_all add: submit_justification_def core_justification)
qed (simp_all add: core_vote core_join core_join_set core_leave_set core_leave core_cancel)

end
