(* ===== verification/Registry_Invariant.thy ===== *)
theory Registry_Invariant
  imports Dvf_Safety
begin

text \<open>
  The invariant of the validator registry, kept by every call, by the block hook and by the
  notifications of \<open>pallet-cerulea-pos\<close>, and the life cycle of a leave request.
\<close>

section \<open>The invariant\<close>

text \<open>
  The validator set and its active part hold no duplicates and respect their bound; an account
  with a pending leave request is still in the set but not active; an account in its cooldown
  has left the set.
\<close>

definition registry_ok :: "'sig dvf_config \<Rightarrow> ('c, 'sig, 'z) dvf_world_scheme \<Rightarrow> bool" where
  "registry_ok cfg w \<longleftrightarrow>
     distinct (ValidatorSet w) \<and> length (ValidatorSet w) \<le> unat (DvfMaxValidators cfg)
     \<and> distinct (ActiveValidators w) \<and> length (ActiveValidators w) \<le> unat (DvfMaxValidators cfg)
     \<and> set (ActiveValidators w) \<subseteq> set (ValidatorSet w)
     \<and> (\<forall>v. sm_has (ValidatorLeaveRequests w) v \<longrightarrow>
           v \<in> set (ValidatorSet w) \<and> v \<notin> set (ActiveValidators w))
     \<and> (\<forall>v. sm_has (RecentlyRemovedValidators w) v \<longrightarrow> v \<notin> set (ValidatorSet w))"

lemma registry_ok_cong:
  assumes "ValidatorSet w' = ValidatorSet w" "ActiveValidators w' = ActiveValidators w"
    "ValidatorLeaveRequests w' = ValidatorLeaveRequests w"
    "RecentlyRemovedValidators w' = RecentlyRemovedValidators w"
  shows "registry_ok cfg w' = registry_ok cfg w"
  using assms by (simp add: registry_ok_def)

lemma registry_ok_frame [simp]:
  "registry_ok cfg (w\<lparr>Validators := a1\<rparr>) = registry_ok cfg w"
  "registry_ok cfg (w\<lparr>Stake := a2\<rparr>) = registry_ok cfg w"
  "registry_ok cfg (w\<lparr>balances := a3\<rparr>) = registry_ok cfg w"
  "registry_ok cfg (w\<lparr>block_number := a4\<rparr>) = registry_ok cfg w"
  "registry_ok cfg (w\<lparr>ValidatorStates := a5\<rparr>) = registry_ok cfg w"
  "registry_ok cfg (w\<lparr>PendingValidatorActions := a6\<rparr>) = registry_ok cfg w"
  "registry_ok cfg (w\<lparr>ValidatorJoinTime := a7\<rparr>) = registry_ok cfg w"
  "registry_ok cfg (w\<lparr>VoteRecords := a8\<rparr>) = registry_ok cfg w"
  "registry_ok cfg (w\<lparr>VoteTallies := a9\<rparr>) = registry_ok cfg w"
  "registry_ok cfg (dvf_deposit_event e w) = registry_ok cfg w"
  "registry_ok cfg (ensure_state v n w) = registry_ok cfg w"
  "registry_ok cfg (mutate_state v f w) = registry_ok cfg w"
  by (simp_all add: registry_ok_def dvf_deposit_event_def ensure_state_def mutate_state_def
      split: option.split)

lemma remove_active_fields [simp]:
  "ActiveValidators (remove_active v w) = remove1 v (ActiveValidators w)"
  "ValidatorSet (remove_active v w) = ValidatorSet w"
  "ValidatorLeaveRequests (remove_active v w) = ValidatorLeaveRequests w"
  "RecentlyRemovedValidators (remove_active v w) = RecentlyRemovedValidators w"
  "block_number (remove_active v w) = block_number w"
  "Validators (remove_active v w) = Validators w"
  by (simp_all add: remove_active_def remove1_idem)

lemma remove_from_set_fields [simp]:
  "ValidatorSet (remove_from_set v w) = remove1 v (ValidatorSet w)"
  "ActiveValidators (remove_from_set v w) = ActiveValidators w"
  "ValidatorLeaveRequests (remove_from_set v w) = ValidatorLeaveRequests w"
  "RecentlyRemovedValidators (remove_from_set v w) = RecentlyRemovedValidators w"
  "block_number (remove_from_set v w) = block_number w"
  by (simp_all add: remove_from_set_def remove1_idem)

lemma length_remove1_le: "length xs \<le> n \<Longrightarrow> length (remove1 x xs) \<le> n"
  by (auto simp: length_remove1 intro: le_trans [OF diff_le_self])

lemma registry_remove_active:
  "registry_ok cfg w \<Longrightarrow> registry_ok cfg (remove_active v w)"
  by (auto simp: registry_ok_def length_remove1_le)

text \<open>Leaving for good: out of both lists, the request dropped, the cooldown started.\<close>

lemma registry_departed:
  assumes "registry_ok cfg w" and "ValidatorSet w' = remove1 v (ValidatorSet w)"
    and "ActiveValidators w' = remove1 v (ActiveValidators w)"
    and "ValidatorLeaveRequests w' = sm_del v (ValidatorLeaveRequests w)"
    and "RecentlyRemovedValidators w' = sm_put v n (RecentlyRemovedValidators w)"
  shows "registry_ok cfg w'"
  using assms by (auto simp: registry_ok_def length_remove1_le)

section \<open>Every operation keeps the invariant\<close>

lemma on_left_registry:
  assumes "registry_ok cfg w"
  shows "registry_ok cfg (snd (dvf_on_left v w))"
  by (rule registry_departed [OF assms, where v = v and n = "block_number w"])
    (simp_all add: dvf_on_left_def Let_def)

lemma finish_leave_registry:
  assumes "registry_ok cfg w"
  shows "registry_ok cfg (finish_leave C n v w)"
  by (rule registry_departed [OF assms, where v = v and n = n])
    (simp_all add: finish_leave_def Let_def dvf_deposit_event_def)

lemma registry_fold:
  assumes "\<And>x w. registry_ok cfg w \<Longrightarrow> registry_ok cfg (f x w)" and "registry_ok cfg w"
  shows "registry_ok cfg (fold f xs w)"
  using assms by (induction xs arbitrary: w) auto

lemma eject_registry: "registry_ok cfg w \<Longrightarrow> registry_ok cfg (snd (eject_validator v r w))"
  by (simp add: eject_validator_def Let_def registry_remove_active)

lemma check_validator_registry: "registry_ok cfg w \<Longrightarrow> registry_ok cfg (check_validator pcfg cfg v w)"
  by (simp add: check_validator_def Let_def eject_registry split: option.split)

lemma cleanup_registry:
  assumes "registry_ok cfg w"
  shows "registry_ok cfg (cleanup_recently_removed_validators pcfg n w)"
  unfolding cleanup_recently_removed_validators_def
  by (rule registry_fold [OF _ assms]) (simp add: registry_ok_def dvf_deposit_event_def)

lemma expire_registry:
  assumes "registry_ok cfg w"
  shows "registry_ok cfg (process_expired_leave_requests pcfg C n w)"
  unfolding process_expired_leave_requests_def
  by (rule registry_fold [OF finish_leave_registry assms])

lemma check_registry:
  assumes "registry_ok cfg w"
  shows "registry_ok cfg (check_and_handle_underperforming_validators pcfg cfg w)"
  unfolding check_and_handle_underperforming_validators_def
  by (rule registry_fold [OF check_validator_registry assms])

lemma hook_registry:
  assumes "registry_ok cfg w" and "dvf_on_initialize pcfg cfg C n w = Some w'"
  shows "registry_ok cfg w'"
  using assms
  by (auto simp: dvf_on_initialize_def Let_def cleanup_registry expire_registry check_registry
      split: if_splits)

lemma rejoin_registry:
  "registry_ok cfg w \<Longrightarrow> registry_ok cfg (snd (validate_rejoin_eligibility pcfg who w))"
  by (auto simp: validate_rejoin_eligibility_def Let_def registry_ok_def split: option.split)

text \<open>An account that may rejoin has neither a pending request nor a running cooldown.\<close>

lemma rejoin_clear:
  assumes "validate_rejoin_eligibility pcfg who w = (Inr (), w1)"
  shows "\<not> sm_has (RecentlyRemovedValidators w1) who" "\<not> sm_has (ValidatorLeaveRequests w1) who"
  using assms
  by (auto simp: validate_rejoin_eligibility_def Let_def sm_has_def split: option.splits if_splits)

lemma registry_push:
  assumes "registry_ok cfg w" and "who \<notin> set (ValidatorSet w)"
    and "\<not> sm_has (RecentlyRemovedValidators w) who"
    and "length (ValidatorSet w) < unat (DvfMaxValidators cfg)"
  shows "registry_ok cfg (w\<lparr>ValidatorSet := ValidatorSet w @ [who]\<rparr>)"
  using assms by (auto simp: registry_ok_def)

lemma join_registry:
  assumes "registry_ok cfg w"
  shows "registry_ok cfg (snd (join_validators pcfg cfg C orig w))"
proof (cases orig)
  case (Signed who)
  obtain r w1 where r: "validate_rejoin_eligibility pcfg who w = (r, w1)"
    by (cases "validate_rejoin_eligibility pcfg who w")
  have ok1: "registry_ok cfg w1"
    using rejoin_registry [OF assms, of pcfg who] r by simp
  show ?thesis
  proof (cases r)
    case (Inl e)
    with Signed r assms ok1 show ?thesis
      by (simp add: join_validators_def Let_def)
  next
    case (Inr u)
    with r have "validate_rejoin_eligibility pcfg who w = (Inr (), w1)"
      by simp
    note clear = rejoin_clear [OF this]
    have push: "registry_ok cfg (w1\<lparr>balances := b, Stake := s, ValidatorJoinTime := t,
        ValidatorSet := ValidatorSet w1 @ [who], Validators := vs\<rparr>)"
      if "who \<notin> set (ValidatorSet w1)" "length (ValidatorSet w1) < unat (DvfMaxValidators cfg)"
      for b s t vs
      using registry_push [OF ok1 that(1) clear(1) that(2)] by (simp add: registry_ok_def)
    from Signed r Inr assms ok1 push show ?thesis
      by (auto simp: join_validators_def Let_def bv_try_push_def split: option.split)
  qed
qed (simp_all add: join_validators_def assms)

lemma leave_registry:
  assumes "registry_ok cfg w"
  shows "registry_ok cfg (snd (leave_validators pcfg orig w))"
  using assms
  by (cases orig) (auto simp: leave_validators_def Let_def registry_ok_def dvf_deposit_event_def
      length_remove1_le)

lemma cancel_registry:
  assumes "registry_ok cfg w"
  shows "registry_ok cfg (snd (cancel_leave_request pcfg cfg orig w))"
proof (cases orig)
  case (Signed who)
  let ?w1 = "w\<lparr>ValidatorLeaveRequests := sm_del who (ValidatorLeaveRequests w)\<rparr>"
  have drop: "registry_ok cfg ?w1"
    using assms by (auto simp: registry_ok_def)
  have activate: "registry_ok cfg (?w1\<lparr>ActiveValidators := ActiveValidators w @ [who]\<rparr>)"
    if "who \<in> set (ValidatorSet w)" "who \<notin> set (ActiveValidators w)"
      "length (ActiveValidators w) < unat (DvfMaxValidators cfg)"
    using assms that by (auto simp: registry_ok_def)
  show ?thesis
    using Signed assms drop activate
    by (simp add: cancel_leave_request_def Let_def split: option.split)
qed (simp_all add: cancel_leave_request_def assms)

lemma finalize_registry [simp]: "registry_ok cfg (finalize_block c h n r a w) = registry_ok cfg w"
  by (rule registry_ok_cong)
    (simp_all add: finalize_block_def prune_vote_records_def Let_def dvf_deposit_event_def)

lemma vote_registry: "registry_ok cfg w \<Longrightarrow> registry_ok cfg (snd (submit_dvf_vote c orig v w))"
  by (cases orig) (simp_all add: submit_dvf_vote_def Let_def split: option.split)

lemma justification_registry:
  "registry_ok cfg w \<Longrightarrow> registry_ok cfg (snd (submit_justification c orig j w))"
  by (cases orig) (auto simp: submit_justification_def verify_and_finalize_justification_def Let_def
      split: list.split sum.split)

lemma join_set_registry: "registry_ok cfg w \<Longrightarrow> registry_ok cfg (snd (join_validator_set pcfg orig w))"
  by (cases orig) (simp_all add: join_validator_set_def split: option.split)

lemma leave_set_registry: "registry_ok cfg w \<Longrightarrow> registry_ok cfg (snd (leave_validator_set orig w))"
  by (cases orig) (simp_all add: leave_validator_set_def)

lemma dispatch_registry:
  "registry_ok cfg w \<Longrightarrow> registry_ok cfg (snd (dvf_dispatch pcfg cfg C orig call w))"
  by (cases call) (simp_all add: vote_registry justification_registry join_set_registry
      leave_set_registry join_registry leave_registry cancel_registry)

end
