(* ===== verification/Quorum.thy ===== *)
theory Quorum
  imports Registry_Invariant
begin

text \<open>
  Justifications of \<open>pallet-cerulea-dvf\<close>: when they are accepted, what they establish, and why two of
  them under the same frozen weights share voters. The overlap is proved once, in the locale
  \<open>weighted_quorum\<close>, for any acceptance test that demands a quorum of weight.
\<close>

section \<open>Overlapping quorums\<close>

locale weighted_quorum =
  fixes accepts :: "'s \<Rightarrow> 'j \<Rightarrow> bool"
    and voters :: "'j \<Rightarrow> 'v set"
    and weight :: "'s \<Rightarrow> 'v \<Rightarrow> nat"
    and electorate :: "'s \<Rightarrow> 'v set"
    and quorum :: "'s \<Rightarrow> nat"
  assumes finite_electorate: "finite (electorate s)"
    and voters_eligible: "accepts s j \<Longrightarrow> voters j \<subseteq> electorate s"
    and quorum_reached: "accepts s j \<Longrightarrow> quorum s \<le> sum (weight s) (voters j)"
begin

definition same_epoch :: "'s \<Rightarrow> 's \<Rightarrow> bool" where
  "same_epoch s s' \<longleftrightarrow> weight s' = weight s \<and> electorate s' = electorate s \<and> quorum s' = quorum s"

lemma overlap:
  assumes "accepts s j" and "accepts s' k" and "same_epoch s s'"
  shows "2 * quorum s \<le> sum (weight s) (voters j \<inter> voters k) + sum (weight s) (electorate s)"
proof -
  have within: "voters j \<subseteq> electorate s" "voters k \<subseteq> electorate s"
    using voters_eligible [OF assms(1)] voters_eligible [OF assms(2)] assms(3)
    by (simp_all add: same_epoch_def)
  then have fin: "finite (voters j)" "finite (voters k)"
    using finite_electorate finite_subset by blast+
  have "2 * quorum s \<le> sum (weight s) (voters j) + sum (weight s) (voters k)"
    using quorum_reached [OF assms(1)] quorum_reached [OF assms(2)] assms(3)
    by (simp add: same_epoch_def)
  also have "\<dots> = sum (weight s) (voters j \<union> voters k) + sum (weight s) (voters j \<inter> voters k)"
    using fin by (rule sum.union_inter [symmetric])
  also have "sum (weight s) (voters j \<union> voters k) \<le> sum (weight s) (electorate s)"
    using within finite_electorate by (intro sum_mono2) auto
  finally show ?thesis
    by simp
qed

lemma common_voter:
  assumes "accepts s j" and "accepts s' k" and "same_epoch s s'"
    and "sum (weight s) (electorate s) < 2 * quorum s"
  shows "\<exists>v. v \<in> voters j \<and> v \<in> voters k"
proof (rule ccontr)
  assume "\<not> ?thesis"
  then have "voters j \<inter> voters k = {}"
    by blast
  with overlap [OF assms(1-3)] assms(4) show False
    by simp
qed

end

section \<open>When the votes of a justification pass\<close>

definition vote_weight :: "(account_id, u128) smap \<Rightarrow> account_id \<Rightarrow> nat" where
  "vote_weight m v = unat (sm_val 0 m v)"

definition justification_voters :: "'sig dvf_justification \<Rightarrow> account_id set" where
  "justification_voters j = validator_account ` set (votes j)"

text \<open>What is asked of a single vote, and the weight that is accumulated.\<close>

definition vote_ok ::
  "'sig dvf_config \<Rightarrow> (account_id, u128) smap \<Rightarrow> 'sig dvf_justification \<Rightarrow> 'sig dvf_vote \<Rightarrow> bool" where
  "vote_ok cfg m j v \<longleftrightarrow> verify cfg (signature v) (payload_of v) (validator_account v)
     \<and> round_id v = round_number j \<and> vote_block_hash v = just_block_hash j
     \<and> sm_has m (validator_account v)"

definition tally :: "(account_id, u128) smap \<Rightarrow> u128 \<Rightarrow> 'sig dvf_vote list \<Rightarrow> u128" where
  "tally m acc vs = fold (\<lambda>v a. sat_add a (sm_val 0 m (validator_account v))) vs acc"

lemma check_votes_expected:
  "(\<exists>a. check_votes cfg m j seen (Some i) acc vs = Inr a) \<longleftrightarrow>
     distinct (map validator_account vs) \<and> set (map validator_account vs) \<inter> set seen = {}
     \<and> (\<forall>v \<in> set vs. vote_ok cfg m j v \<and> validator_set_id v = i)"
proof (induction vs arbitrary: seen acc)
  case Nil
  then show ?case by simp
next
  case (Cons v vs)
  show ?case
    using Cons.IH by (auto simp: vote_ok_def sm_has_def split: option.splits)
qed

lemma check_votes_first:
  "(\<exists>a. check_votes cfg m j [] None acc vs = Inr a) \<longleftrightarrow>
     distinct (map validator_account vs) \<and> (\<forall>v \<in> set vs. vote_ok cfg m j v)
     \<and> (\<exists>i. \<forall>v \<in> set vs. validator_set_id v = i)"
proof (cases vs)
  case (Cons v vs')
  have "(\<exists>a. check_votes cfg m j [] None acc vs = Inr a) \<longleftrightarrow>
      (\<exists>a. check_votes cfg m j [] (Some (validator_set_id v)) acc vs = Inr a)"
    by (auto simp: Cons split: option.split)
  also have "\<dots> \<longleftrightarrow> distinct (map validator_account vs)
      \<and> (\<forall>u \<in> set vs. vote_ok cfg m j u \<and> validator_set_id u = validator_set_id v)"
    by (simp only: check_votes_expected) simp
  finally show ?thesis
    by (auto simp: Cons)
qed simp

lemma check_votes_tally:
  "check_votes cfg m j seen expected acc vs = Inr a \<Longrightarrow> a = tally m acc vs"
  by (induction vs arbitrary: seen expected acc)
    (auto simp: tally_def sm_val_def split: if_splits option.splits)

lemma tally_le: "unat (tally m acc vs) \<le> unat acc + sum_list (map (\<lambda>v. vote_weight m (validator_account v)) vs)"
proof (induction vs arbitrary: acc)
  case Nil
  then show ?case by (simp add: tally_def)
next
  case (Cons v vs)
  have "unat (tally m acc (v # vs)) = unat (tally m (sat_add acc (sm_val 0 m (validator_account v))) vs)"
    by (simp add: tally_def)
  also note Cons.IH
  finally show ?case
    by (simp add: vote_weight_def sat_simps)
qed

lemma tally_voters:
  assumes "distinct (map validator_account vs)"
  shows "unat (tally m 0 vs) \<le> sum (vote_weight m) (validator_account ` set vs)"
proof -
  have "sum_list (map (\<lambda>v. vote_weight m (validator_account v)) vs)
      = sum_list (map (vote_weight m) (map validator_account vs))"
    by (simp add: comp_def)
  also have "\<dots> = sum (vote_weight m) (set (map validator_account vs))"
    using assms by (rule sum_list_distinct_conv_sum_set)
  finally show ?thesis
    using tally_le [of m 0 vs] by simp
qed

section \<open>Acceptance of a justification\<close>

definition justification_valid ::
  "'sig dvf_config \<Rightarrow> ('c, 'sig, 'z) dvf_world_scheme \<Rightarrow> 'sig dvf_justification \<Rightarrow> bool" where
  "justification_valid cfg w j \<longleftrightarrow> votes j \<noteq> []
     \<and> is_checkpoint_block cfg (vote_block_number (hd (votes j)))
     \<and> FinalizedBlockNumber w < vote_block_number (hd (votes j))
     \<and> distinct (map validator_account (votes j))
     \<and> (\<forall>v \<in> set (votes j). vote_ok cfg (EpochVotingWeight w) j v)
     \<and> (\<exists>i. \<forall>v \<in> set (votes j). validator_set_id v = i)
     \<and> threshold_of cfg (TotalVotingWeight w) \<le> tally (EpochVotingWeight w) 0 (votes j)"

lemma check_votes_passes:
  "justification_valid cfg w j \<Longrightarrow>
     check_votes cfg (EpochVotingWeight w) j [] None 0 (votes j)
       = Inr (tally (EpochVotingWeight w) 0 (votes j))"
  using check_votes_first [of cfg "EpochVotingWeight w" j 0 "votes j"]
    check_votes_tally [of cfg "EpochVotingWeight w" j "[]" None 0 "votes j"]
  by (auto simp: justification_valid_def)

lemma justification_accepted:
  "justification_valid cfg w j \<Longrightarrow>
     verify_and_finalize_justification cfg j w =
       (Inr (), finalize_block cfg (just_block_hash j) (vote_block_number (hd (votes j)))
                  (round_number j) (tally (EpochVotingWeight w) 0 (votes j)) w)"
  using check_votes_passes [of cfg w j]
  by (cases "votes j") (simp_all add: justification_valid_def verify_and_finalize_justification_def Let_def
      del: check_votes.simps)

lemma justification_refused:
  assumes "\<not> justification_valid cfg w j"
  shows "\<exists>e. verify_and_finalize_justification cfg j w = (Inl (DvfErr e), w)"
proof (cases "votes j")
  case Nil
  then show ?thesis
    by (simp add: verify_and_finalize_justification_def)
next
  case (Cons v vs)
  show ?thesis
  proof (cases "check_votes cfg (EpochVotingWeight w) j [] None 0 (votes j)")
    case (Inl e)
    with Cons show ?thesis
      by (auto simp: verify_and_finalize_justification_def Let_def simp del: check_votes.simps)
  next
    case (Inr a)
    then have "a = tally (EpochVotingWeight w) 0 (votes j)"
      by (rule check_votes_tally)
    moreover have "distinct (map validator_account (votes j))
        \<and> (\<forall>v \<in> set (votes j). vote_ok cfg (EpochVotingWeight w) j v)
        \<and> (\<exists>i. \<forall>v \<in> set (votes j). validator_set_id v = i)"
      using Inr check_votes_first [of cfg "EpochVotingWeight w" j 0 "votes j"] by simp
    ultimately show ?thesis
      using Inr Cons assms
      by (auto simp: verify_and_finalize_justification_def justification_valid_def Let_def
          simp del: check_votes.simps)
  qed
qed

lemma accepted_iff_valid:
  "fst (verify_and_finalize_justification cfg j w) = Inr () \<longleftrightarrow> justification_valid cfg w j"
proof (cases "justification_valid cfg w j")
  case False
  from justification_refused [OF this] False show ?thesis
    by auto
qed (simp add: justification_accepted)

lemma valid_voters_eligible:
  "justification_valid cfg w j \<Longrightarrow>
     justification_voters j \<subseteq> set (sm_keys (EpochVotingWeight w))"
  by (auto simp: justification_valid_def justification_voters_def vote_ok_def sm_has_def smap.set_keys)

lemma valid_quorum:
  assumes "justification_valid cfg w j"
  shows "unat (threshold_of cfg (TotalVotingWeight w))
    \<le> sum (vote_weight (EpochVotingWeight w)) (justification_voters j)"
proof -
  have "unat (threshold_of cfg (TotalVotingWeight w)) \<le> unat (tally (EpochVotingWeight w) 0 (votes j))"
    using assms by (simp add: justification_valid_def word_le_nat_alt)
  also have "\<dots> \<le> sum (vote_weight (EpochVotingWeight w)) (validator_account ` set (votes j))"
    using assms by (intro tally_voters) (simp add: justification_valid_def)
  finally show ?thesis
    by (simp add: justification_voters_def)
qed

text \<open>The pallet's own test of a justification is such an acceptance test.\<close>

interpretation dvf_quorum: weighted_quorum
  "\<lambda>w j. fst (verify_and_finalize_justification cfg j w) = Inr ()"
  justification_voters
  "\<lambda>w. vote_weight (EpochVotingWeight w)"
  "\<lambda>w. set (sm_keys (EpochVotingWeight w))"
  "\<lambda>w. unat (threshold_of cfg (TotalVotingWeight w))"
  for cfg
  by unfold_locales (simp_all add: accepted_iff_valid valid_voters_eligible valid_quorum)

end
