(* ===== verification/Chain.thy ===== *)
theory Chain
  imports Quorum
begin

text \<open>
  The two pallets together, as the runtime wires them: the registry pallet is the validator
  handler of \<open>pallet-cerulea-pos\<close>. A step relation over their joint state, what the steps of one
  pallet leave alone in the other (the locale \<open>pos_transparent\<close>), and the finality invariant.
\<close>

section \<open>What calls of the staking pallet preserve\<close>

text \<open>
  A property that reads no storage of \<open>pallet-cerulea-pos\<close> (the number of the block apart) and that
  the handler keeps is kept by every operation of that pallet.
\<close>

locale pos_transparent =
  fixes H :: "('c, 'z) pos_world_scheme validator_handler"
    and P :: "('c, 'z) pos_world_scheme \<Rightarrow> bool"
  assumes own_storage: "pos_world.more w' = pos_world.more w \<Longrightarrow> block_number w' = block_number w
      \<Longrightarrow> P w' = P w"
    and keep_left: "P w \<Longrightarrow> P (snd (on_left H v w))"
    and keep_increased: "P w \<Longrightarrow> P (snd (on_stake_increased H v n w))"
    and keep_decreased: "P w \<Longrightarrow> P (snd (on_stake_decreased H v n w))"
    and keep_slashed: "P w \<Longrightarrow> P (snd (on_slashed H v n p w))"
    and keep_rewarded: "P w \<Longrightarrow> P (snd (on_rewarded H v n b w))"
begin

lemma own_updates [simp]:
  "P (w\<lparr>balances := x1\<rparr>) = P w"
  "P (w\<lparr>Validators := x3\<rparr>) = P w" "P (w\<lparr>ValidatorScores := x4\<rparr>) = P w"
  "P (w\<lparr>PosCurrentEpoch := x5\<rparr>) = P w" "P (w\<lparr>SlashingCount := x6\<rparr>) = P w"
  "P (w\<lparr>Stake := x7\<rparr>) = P w" "P (w\<lparr>EpochTotalRewarded := x8\<rparr>) = P w"
  "P (w\<lparr>EpochTotalSlashed := x9\<rparr>) = P w" "P (w\<lparr>ValidatorEpochRewarded := x10\<rparr>) = P w"
  "P (w\<lparr>ValidatorEpochSlashed := x11\<rparr>) = P w" "P (w\<lparr>pos_events := x12\<rparr>) = P w"
  by (rule own_storage; simp)+

lemma own_event [simp]: "P (pos_deposit_event e w) = P w"
  by (simp add: pos_deposit_event_def)

lemma own_booked [simp]: "P (reward_booked C v n w) = P w" "P (slash_booked b v n w) = P w"
  by (simp_all add: reward_booked_def slash_booked_def)

lemma reward_keeps: "P w \<Longrightarrow> P (snd (execute_reward_validator cfg C H v n w))"
  by (simp add: execute_reward_validator_def execute_reward_validator_with_reason_def Let_def
      keep_rewarded split: option.split)

lemma slash_keeps: "P w \<Longrightarrow> P (snd (execute_slash_validator cfg C H v n w))"
  by (simp add: execute_slash_validator_def execute_slash_validator_with_reason_def Let_def
      keep_slashed split: option.split sum.split prod.split)

lemma reward_each_keeps:
  "P w \<Longrightarrow> P (each_ignore (\<lambda>v. execute_reward_validator cfg C H v n) vs w)"
  by (rule each_ignore_invariant [where P = P]) (simp_all add: reward_keeps)

lemma slash_each_keeps:
  "P w \<Longrightarrow> P (each_ignore (\<lambda>v. execute_slash_validator cfg C H v n) vs w)"
  by (rule each_ignore_invariant [where P = P]) (simp_all add: slash_keeps)

lemma distribute_keeps: "P w \<Longrightarrow> P (snd (distribute_rewards cfg C H b p t w))"
  by (auto simp: distribute_rewards_def Let_def reward_keeps
      intro!: then_do_invariant [where P = P] each_op_invariant [where P = P])

lemma increase_keeps: "P w \<Longrightarrow> P (snd (increase_validator_stake C H orig n w))"
  by (cases orig) (auto simp: increase_validator_stake_def Let_def keep_increased
      split: option.split intro!: then_do_invariant [where P = P])

lemma decrease_keeps: "P w \<Longrightarrow> P (snd (decrease_validator_stake cfg C H orig n w))"
  by (cases orig) (auto simp: decrease_validator_stake_def Let_def keep_decreased
      split: prod.split intro!: then_do_invariant [where P = P])

lemma signed_keeps:
  assumes "P w"
  shows "P (snd (register_validator cfg orig w))" "P (snd (submit_score cfg orig v s w))"
    "P (snd (slash_validator_call cfg orig v w))" "P (snd (boost_score orig v s w))"
    "P (snd (slash_score orig v s w))" "P (snd (bond_stake cfg orig n w))"
    "P (snd (unbond_stake cfg orig n w))"
  using assms
  by (cases orig; simp add: register_validator_def submit_score_def slash_validator_call_def
      boost_score_def slash_score_def bond_stake_def unbond_stake_def Let_def split: option.split)+

lemma dispatch_keeps:
  assumes "P w"
  shows "P (snd (pos_dispatch cfg C H orig call w))"
proof (cases call)
qed (use assms in \<open>cases orig;
    simp add: signed_keeps increase_keeps decrease_keeps slash_validator_def
      slash_validator_percentage_def slash_multiple_validators_def
      reward_validator_call_def reward_multiple_validators_def reward_all_active_validators_def
      distribute_epoch_rewards_def reward_keeps slash_keeps reward_each_keeps slash_each_keeps
      distribute_keeps\<close>)+

lemma exported_keeps:
  assumes "P w"
  shows "P (reset_epoch_totals w)" "P (snd (slash_validator_stake cfg v n w))"
    "P (snd (reward_validator v n w))" "P (snd (activate_validator v w))"
    "P (snd (deactivate_validator v w))" "P (snd (force_eject_validator C H v w))"
  using assms
  by (simp_all add: reset_epoch_totals_def slash_validator_stake_def reward_validator_def
      activate_validator_def deactivate_validator_def force_eject_validator_def Let_def keep_left)

end

text \<open>The registry invariant and the finality storage are such properties.\<close>

definition finality_view ::
  "('c, 'sig, 'z) dvf_world_scheme \<Rightarrow>
     (account_id, u128) smap \<times> u128 \<times> u32 \<times> u32 \<times> hash option
     \<times> (u32 \<times> account_id, 'sig dvf_vote) smap \<times> (hash, u128) smap" where
  "finality_view w = (EpochVotingWeight w, TotalVotingWeight w, CurrentRound w,
     FinalizedBlockNumber w, FinalizedBlockHash w, VoteRecords w, VoteTallies w)"

lemma registry_ok_more: "pos_world.more w' = pos_world.more w \<Longrightarrow> registry_ok cfg w' = registry_ok cfg w"
  by (cases w; cases w') (simp add: registry_ok_def)

lemma finality_view_more: "pos_world.more w' = pos_world.more w \<Longrightarrow> finality_view w' = finality_view w"
  by (cases w; cases w') (simp add: finality_view_def)

lemma finality_view_handler [simp]:
  "finality_view (mutate_state v f w) = finality_view w"
  "finality_view (remove_active v w) = finality_view w"
  "finality_view (remove_from_set v w) = finality_view w"
  "finality_view (ensure_state v n w) = finality_view w"
  "finality_view (dvf_deposit_event e w) = finality_view w"
  by (simp_all add: finality_view_def mutate_state_def remove_active_def remove_from_set_def
      ensure_state_def dvf_deposit_event_def split: option.split)

lemma finality_view_updates [simp]:
  "finality_view (w\<lparr>balances := x1\<rparr>) = finality_view w"
  "finality_view (w\<lparr>Validators := x2\<rparr>) = finality_view w"
  "finality_view (w\<lparr>Stake := x3\<rparr>) = finality_view w"
  "finality_view (w\<lparr>ActiveValidators := x4\<rparr>) = finality_view w"
  "finality_view (w\<lparr>ValidatorSet := x5\<rparr>) = finality_view w"
  "finality_view (w\<lparr>ValidatorJoinTime := x6\<rparr>) = finality_view w"
  "finality_view (w\<lparr>ValidatorLeaveRequests := x7\<rparr>) = finality_view w"
  "finality_view (w\<lparr>RecentlyRemovedValidators := x8\<rparr>) = finality_view w"
  "finality_view (w\<lparr>PendingValidatorActions := x9\<rparr>) = finality_view w"
  "finality_view (w\<lparr>block_number := x10\<rparr>) = finality_view w"
  "finality_view (w\<lparr>ValidatorStates := x11\<rparr>) = finality_view w"
  by (simp_all add: finality_view_def)

lemmas handler_defs = dvf_handler_def dvf_on_left_def dvf_on_stake_increased_def
  dvf_on_stake_decreased_def dvf_on_slashed_def dvf_on_rewarded_def

interpretation registry_frame: pos_transparent "dvf_handler c" "registry_ok cfg" for c cfg
proof (unfold_locales, goal_cases)
  case (1 w' w)
  then show ?case by (intro registry_ok_more)
next
  case (2 w v)
  with on_left_registry [of cfg w v] show ?case by (simp add: dvf_handler_def)
qed (simp_all add: handler_defs)

interpretation finality_frame: pos_transparent "dvf_handler c" "\<lambda>w. finality_view w = x" for c x
proof (unfold_locales, goal_cases)
  case (1 w' w)
  then show ?case by (simp only: finality_view_more [OF 1(1)])
qed (simp_all add: handler_defs Let_def)

section \<open>Steps of the chain\<close>

text \<open>
  A step is a call to one of the two pallets, the hook of a new block, a function the consensus
  pallet calls (freezing the weights of an epoch, closing the totals of an epoch, the exported
  operations on validators) or a change of balances. The staking pallet notifies \<open>dvf_handler\<close>.
\<close>

inductive chain_step ::
  "pos_config \<Rightarrow> 'sig dvf_config \<Rightarrow> 'c currency \<Rightarrow> ('c, 'sig, 'z) dvf_world_scheme
     \<Rightarrow> ('c, 'sig, 'z) dvf_world_scheme \<Rightarrow> bool" for pcfg cfg C where
  pos_call: "chain_step pcfg cfg C w (snd (pos_dispatch pcfg C (dvf_handler cfg) orig call w))"
| dvf_call: "chain_step pcfg cfg C w (snd (dvf_dispatch pcfg cfg C orig call w))"
| new_block: "dvf_on_initialize pcfg cfg C n (w\<lparr>block_number := n\<rparr>) = Some w' \<Longrightarrow>
    chain_step pcfg cfg C w w'"
| epoch_weights: "chain_step pcfg cfg C w (freeze_epoch_weights cfg e vs w)"
| epoch_totals: "chain_step pcfg cfg C w (reset_epoch_totals w)"
| stake_slash: "chain_step pcfg cfg C w (snd (slash_validator_stake pcfg v n w))"
| stake_reward: "chain_step pcfg cfg C w (snd (reward_validator v n w))"
| activation: "chain_step pcfg cfg C w (snd (activate_validator v w))"
| deactivation: "chain_step pcfg cfg C w (snd (deactivate_validator v w))"
| ejection: "chain_step pcfg cfg C w (snd (force_eject_validator C (dvf_handler cfg) v w))"
| registry_ejection: "chain_step pcfg cfg C w (snd (eject_validator v r w))"
| transfers: "chain_step pcfg cfg C w (w\<lparr>balances := b\<rparr>)"

inductive chain_steps ::
  "pos_config \<Rightarrow> 'sig dvf_config \<Rightarrow> 'c currency \<Rightarrow> ('c, 'sig, 'z) dvf_world_scheme
     \<Rightarrow> ('c, 'sig, 'z) dvf_world_scheme \<Rightarrow> bool" for pcfg cfg C where
  none: "chain_steps pcfg cfg C w w"
| more: "chain_steps pcfg cfg C w w' \<Longrightarrow> chain_step pcfg cfg C w' w'' \<Longrightarrow> chain_steps pcfg cfg C w w''"

text \<open>The state before genesis: no entries in the storage the model reads.\<close>

definition chain_fresh :: "('c, 'sig, 'z) dvf_world_scheme \<Rightarrow> bool" where
  "chain_fresh w \<longleftrightarrow> pos_fresh w \<and> FinalizedBlockNumber w = 0 \<and> FinalizedBlockHash w = None
     \<and> CurrentRound w = 0 \<and> VoteRecords w = [] \<and> VoteTallies w = []
     \<and> ValidatorSet w = [] \<and> ActiveValidators w = [] \<and> ValidatorLeaveRequests w = []
     \<and> RecentlyRemovedValidators w = []"

inductive chain_reachable ::
  "pos_config \<Rightarrow> 'sig dvf_config \<Rightarrow> 'c currency \<Rightarrow> ('c, 'sig, 'z) dvf_world_scheme \<Rightarrow> bool"
  for pcfg cfg C where
  genesis: "chain_fresh w \<Longrightarrow> \<forall>p \<in> set (g_slashing_count g). snd p < MaxSlashingCount pcfg \<Longrightarrow>
    dvf_genesis_build cfg vs (pos_genesis_build g w) = Some w' \<Longrightarrow> chain_reachable pcfg cfg C w'"
| step: "chain_reachable pcfg cfg C w \<Longrightarrow> chain_step pcfg cfg C w w' \<Longrightarrow> chain_reachable pcfg cfg C w'"

section \<open>The joint invariant\<close>

lemma freeze_fields [simp]:
  "FinalizedBlockNumber (freeze_epoch_weights cfg e vs w) = FinalizedBlockNumber w"
  "FinalizedBlockHash (freeze_epoch_weights cfg e vs w) = FinalizedBlockHash w"
  "VoteRecords (freeze_epoch_weights cfg e vs w) = VoteRecords w"
  "VoteTallies (freeze_epoch_weights cfg e vs w) = VoteTallies w"
  "CurrentRound (freeze_epoch_weights cfg e vs w) = CurrentRound w"
  "ValidatorSet (freeze_epoch_weights cfg e vs w) = ValidatorSet w"
  "ActiveValidators (freeze_epoch_weights cfg e vs w) = ActiveValidators w"
  "ValidatorLeaveRequests (freeze_epoch_weights cfg e vs w) = ValidatorLeaveRequests w"
  "RecentlyRemovedValidators (freeze_epoch_weights cfg e vs w) = RecentlyRemovedValidators w"
  by (simp_all add: freeze_epoch_weights_def note_set_change_def Let_def dvf_deposit_event_def
      split: prod.split)

lemma freeze_registry [simp]: "registry_ok cfg (freeze_epoch_weights c e vs w) = registry_ok cfg w"
  by (rule registry_ok_cong) simp_all

lemma step_registry:
  assumes "chain_step pcfg cfg C w w'" and "registry_ok cfg w"
  shows "registry_ok cfg w'"
  using assms
proof (cases rule: chain_step.cases)
  case (new_block n)
  with assms(2) show ?thesis
    by (intro hook_registry [OF _ new_block]) simp
qed (simp_all add: registry_frame.dispatch_keeps registry_frame.exported_keeps dispatch_registry
    eject_registry)

lemma step_pos_ok:
  assumes "chain_step pcfg cfg C w w'" and "pos_reachable pcfg C (dvf_handler cfg) w"
  shows "pos_reachable pcfg C (dvf_handler cfg) w'"
  using assms
proof (cases rule: chain_step.cases)
  case (new_block n)
  have "same_pos_core w w'"
    using core_hook [OF new_block] by (simp add: same_pos_core_iff)
  with assms(2) show ?thesis
    by (rule pos_reachable_core)
next
  case (transfers b)
  have "same_pos_core w w'"
    using transfers by (simp add: same_pos_core_iff)
  with assms(2) show ?thesis
    by (rule pos_reachable_core)
qed (auto intro: pos_reachable.intros pos_reachable_core [OF _ core_dispatch]
    pos_reachable_core [OF _ core_freeze] pos_reachable_core [OF _ core_eject])

lemma genesis_same:
  assumes "dvf_genesis_build cfg vs w = Some w'"
  shows "same_pos_core w w'" "registry_ok c w' = registry_ok c w"
    "FinalizedBlockNumber w' = FinalizedBlockNumber w" "FinalizedBlockHash w' = FinalizedBlockHash w"
proof -
  have w': "w' = (freeze_epoch_weights cfg 0 vs (w\<lparr>ValidatorSetId := 0\<rparr>))\<lparr>ValidatorSetId := 0\<rparr>"
    using assms by (auto simp: dvf_genesis_build_def split: if_splits)
  show "same_pos_core w w'"
    using core_freeze [of "w\<lparr>ValidatorSetId := 0\<rparr>" cfg 0 vs] by (simp add: w' same_pos_core_iff)
  show "registry_ok c w' = registry_ok c w"
    by (rule registry_ok_cong) (simp_all add: w')
  show "FinalizedBlockNumber w' = FinalizedBlockNumber w" "FinalizedBlockHash w' = FinalizedBlockHash w"
    by (simp_all add: w')
qed

lemma fresh_registry:
  assumes "chain_fresh w"
  shows "registry_ok cfg (pos_genesis_build g w)"
  using assms by (simp add: registry_ok_def chain_fresh_def pos_genesis_build_def)

lemma reachable_registry: "chain_reachable pcfg cfg C w \<Longrightarrow> registry_ok cfg w"
proof (induction rule: chain_reachable.induct)
  case (genesis w g vs w')
  from genesis_same(2) [OF genesis(3)] fresh_registry [OF genesis(1)] show ?case
    by simp
next
  case (step w w')
  then show ?case
    using step_registry by blast
qed

lemma reachable_pos:
  "chain_reachable pcfg cfg C w \<Longrightarrow> pos_reachable pcfg C (dvf_handler cfg) w"
proof (induction rule: chain_reachable.induct)
  case (genesis w g vs w')
  have "pos_reachable pcfg C (dvf_handler cfg) (pos_genesis_build g w)"
    using genesis by (intro pos_reachable.genesis) (simp_all add: chain_fresh_def)
  then show ?case
    by (rule pos_reachable_core [OF _ genesis_same(1) [OF genesis(3)]])
next
  case (step w w')
  then show ?case
    using step_pos_ok by blast
qed

lemma reachable_pos_ok: "chain_reachable pcfg cfg C w \<Longrightarrow> pos_ok pcfg w"
  by (rule dvf_h.reachable_ok [OF reachable_pos])

section \<open>Finality only moves forward\<close>

text \<open>
  \<open>finality_moved w w'\<close>: either the finalised head stays as it is, or it moves to a checkpoint of
  greater height and its hash is recorded.
\<close>

definition finality_moved ::
  "'sig dvf_config \<Rightarrow> ('c, 'sig, 'z) dvf_world_scheme \<Rightarrow> ('c, 'sig, 'z) dvf_world_scheme \<Rightarrow> bool" where
  "finality_moved cfg w w' \<longleftrightarrow>
     (FinalizedBlockNumber w' = FinalizedBlockNumber w \<and> FinalizedBlockHash w' = FinalizedBlockHash w)
     \<or> (FinalizedBlockNumber w < FinalizedBlockNumber w'
        \<and> is_checkpoint_block cfg (FinalizedBlockNumber w') \<and> FinalizedBlockHash w' \<noteq> None)"

lemma finality_moved_view: "finality_view w' = finality_view w \<Longrightarrow> finality_moved cfg w w'"
  by (simp add: finality_view_def finality_moved_def)

lemma finality_moved_trans:
  "finality_moved cfg w w' \<Longrightarrow> finality_moved cfg w' w'' \<Longrightarrow> finality_moved cfg w w''"
  by (auto simp: finality_moved_def)

lemma finalize_head [simp]:
  "FinalizedBlockNumber (finalize_block cfg h n r a w) = n"
  "FinalizedBlockHash (finalize_block cfg h n r a w) = Some h"
  by (simp_all add: finalize_block_def prune_vote_records_def Let_def dvf_deposit_event_def)

lemma vote_moved: "finality_moved cfg w (snd (submit_dvf_vote cfg orig v w))"
  by (cases orig) (auto simp: submit_dvf_vote_def finality_moved_def Let_def split: option.split)

lemma justification_moved: "finality_moved cfg w (snd (submit_justification cfg orig j w))"
  by (cases orig) (auto simp: submit_justification_def verify_and_finalize_justification_def
      finality_moved_def Let_def split: list.split sum.split)

lemma registry_calls_view:
  "finality_view (snd (join_validator_set pcfg orig w)) = finality_view w"
  "finality_view (snd (leave_validator_set orig w)) = finality_view w"
  "finality_view (snd (join_validators pcfg cfg C orig w)) = finality_view w"
  "finality_view (snd (leave_validators pcfg orig w)) = finality_view w"
  "finality_view (snd (cancel_leave_request pcfg cfg orig w)) = finality_view w"
  "finality_view (snd (eject_validator v r w)) = finality_view w"
  by (cases orig; simp add: join_validator_set_def leave_validator_set_def join_validators_def
      validate_rejoin_eligibility_def leave_validators_def cancel_leave_request_def
      eject_validator_def Let_def split: option.split)+

lemma view_fold:
  assumes "\<And>x w. finality_view (f x w) = finality_view w"
  shows "finality_view (fold f xs w) = finality_view w"
  using assms by (induction xs arbitrary: w) auto

lemma hook_parts_view [simp]:
  "finality_view (cleanup_recently_removed_validators pcfg n w) = finality_view w"
  "finality_view (process_expired_leave_requests pcfg C n w) = finality_view w"
  "finality_view (check_and_handle_underperforming_validators pcfg cfg w) = finality_view w"
  unfolding cleanup_recently_removed_validators_def process_expired_leave_requests_def
    check_and_handle_underperforming_validators_def
  by (rule view_fold; simp add: finish_leave_def check_validator_def registry_calls_view Let_def
      split: option.split)+

lemma hook_view: "dvf_on_initialize pcfg cfg C n w = Some w' \<Longrightarrow> finality_view w' = finality_view w"
  by (auto simp: dvf_on_initialize_def Let_def split: if_splits)

lemma dvf_call_moved: "finality_moved cfg w (snd (dvf_dispatch pcfg cfg C orig call w))"
  by (cases call) (simp_all add: vote_moved justification_moved registry_calls_view finality_moved_view)

lemma step_moved:
  assumes "chain_step pcfg cfg C w w'"
  shows "finality_moved cfg w w'"
  using assms
proof (cases rule: chain_step.cases)
  case (new_block n)
  from hook_view [OF new_block] show ?thesis
    by (intro finality_moved_view) simp
next
  case (epoch_weights e vs)
  then show ?thesis
    by (simp add: finality_moved_def)
qed (simp_all add: dvf_call_moved registry_calls_view finality_moved_view
    finality_frame.dispatch_keeps finality_frame.exported_keeps)

lemma steps_moved: "chain_steps pcfg cfg C w w' \<Longrightarrow> finality_moved cfg w w'"
proof (induction rule: chain_steps.induct)
  case (none w)
  show ?case by (simp add: finality_moved_def)
next
  case (more w w' w'')
  then show ?case
    using finality_moved_trans step_moved by blast
qed

end
