(* ===== verification/Runtime_Config.thy ===== *)
theory Runtime_Config
  imports Dvf_State
begin

text \<open>
  The constants with which \<open>cerulea-runtime\<close> configures the pallets, and a small concrete chain
  state under them on which the properties are exercised.
\<close>

section \<open>Constants of the runtime\<close>

definition runtime_pos_config :: pos_config where
  "runtime_pos_config = \<lparr>
     MinValidatorScore = 50,
     PosMaxValidators = 100,
     MaxSlashingCount = 3,
     MinStake = 1000,
     LeaveCooldown = 1000,
     ValidatorReward = 10000,
     SlashPercent = 10,
     MaxSlashPerEpoch = 50000,
     MaxSlashPerValidator = 20000,
     MaxRewardPerEpoch = 30000,
     MaxRewardPerValidator = 10000,
     SlashPenaltyDivisor = 1000,
     MaxSlashPenalty = 50,
     RewardBoostDivisor = 1000,
     MaxRewardBoost = 20,
     HighPerformanceScore = 80,
     TopPerformerPercentage = 20\<rparr>"

text \<open>Signature verification and the product with \<open>Perbill::from_percent(67)\<close> stay parameters.\<close>

definition runtime_dvf_config ::
  "('sig \<Rightarrow> vote_payload \<Rightarrow> account_id \<Rightarrow> bool) \<Rightarrow> (u128 \<Rightarrow> u128) \<Rightarrow> 'sig dvf_config" where
  "runtime_dvf_config verify_signature finality_threshold = \<lparr>
     verify = verify_signature,
     threshold_of = finality_threshold,
     FinalityCheckpointInterval = 10,
     VoteRetentionRounds = 20,
     DvfMaxValidators = 100,
     MaxInactiveEpochs = 5,
     UnderperformanceCheckInterval = 50,
     MaxValidatorHistorySize = 100,
     MaxValidatorNameSize = 32\<rparr>"

section \<open>A concrete chain\<close>

text \<open>A signature is the number of the account that made it; the threshold is 67 percent, rounded down.\<close>

definition sample_dvf_config :: "nat dvf_config" where
  "sample_dvf_config = runtime_dvf_config (\<lambda>s p v. v = AccountId s) (\<lambda>t. t * 67 div 100)"

text \<open>The state of the chain before genesis, with 50000 units free and 20000 reserved per account.\<close>

definition empty_world :: "(account_id \<Rightarrow> u128 \<times> u128, nat) dvf_world" where
  "empty_world = \<lparr>
     balances = (\<lambda>v. (50000, 20000)),
     block_number = 0,
     Validators = [],
     ValidatorScores = [],
     PosCurrentEpoch = 0,
     SlashingCount = [],
     ValidatorSlashingHistory = [],
     Stake = [],
     EpochTotalRewarded = 0,
     EpochTotalSlashed = 0,
     ValidatorEpochRewarded = [],
     ValidatorEpochSlashed = [],
     pos_events = [],
     EpochVotingWeight = [],
     TotalVotingWeight = 0,
     CurrentRound = 0,
     FinalizedBlockNumber = 0,
     FinalizedBlockHash = None,
     VoteRecords = [],
     VoteTallies = [],
     ValidatorSetId = 0,
     PreviousValidatorSet = [],
     ValidatorSetIdChangedAt = None,
     ValidatorSet = [],
     ActiveValidators = [],
     PendingValidatorActions = [],
     ValidatorJoinTime = [],
     ValidatorLeaveRequests = [],
     RecentlyRemovedValidators = [],
     ValidatorStates = [],
     ValidatorNames = [],
     ValidatorUptime = [],
     ValidatorMetadata = [],
     ValidatorPerformanceHistory = [],
     ValidatorLastSeen = [],
     ValidatorBlocksAuthored = [],
     ValidatorBlocksMissed = [],
     dvf_events = []\<rparr>"

definition alice :: account_id where "alice = AccountId 1"
definition bob :: account_id where "bob = AccountId 2"
definition charlie :: account_id where "charlie = AccountId 3"

lemma sample_accounts [simp]:
  "alice \<noteq> bob" "bob \<noteq> alice" "alice \<noteq> charlie" "charlie \<noteq> alice" "bob \<noteq> charlie" "charlie \<noteq> bob"
  by (simp_all add: alice_def bob_def charlie_def)

definition sample_state :: dvf_validator_state where
  "sample_state = \<lparr>
     last_active_epoch = 0,
     current = \<lparr>es_epoch = 0, stake_score = 5000, inference_score = 0, final_score = 50,
       authored_blocks = 0, missed_blocks = 0\<rparr>,
     vs_history = [],
     uptime = 0,
     inference_success_count = 0,
     participation_rate = 0,
     inference_count = 0,
     last_active_block = 0,
     vs_name = None,
     trust_score = 5000\<rparr>"

text \<open>Three validators with weights of 40, 40 and 20 percent of the scale.\<close>

definition sample_world :: "(account_id \<Rightarrow> u128 \<times> u128, nat) dvf_world" where
  "sample_world = empty_world\<lparr>
     block_number := 100,
     Validators := [(alice, True), (bob, True), (charlie, True)],
     ValidatorScores := [(alice, 80), (bob, 80), (charlie, 80)],
     Stake := [(alice, 5000), (bob, 5000), (charlie, 2500)],
     EpochVotingWeight := [(alice, 12800), (bob, 12800), (charlie, 6400)],
     TotalVotingWeight := 32000,
     ValidatorSet := [alice, bob, charlie],
     ActiveValidators := [alice, bob, charlie],
     ValidatorStates := [(alice, sample_state), (bob, sample_state), (charlie, sample_state)]\<rparr>"

lemmas sample_defs = sample_world_def empty_world_def sample_state_def sample_dvf_config_def
  runtime_dvf_config_def runtime_pos_config_def book_currency_def

lemmas map_defs = sm_get_def sm_put_def sm_del_def sm_keys_def sm_has_def sm_val_def

end
