(* ===== verification/Samples.thy ===== *)
theory Samples
  imports Chain Runtime_Config
begin

text \<open>
  Reachable states of a concrete chain: a genesis with two validators under the configuration of the
  runtime, and the state after a first reward.
\<close>

section \<open>A reachable chain\<close>

definition sample_genesis :: pos_genesis where
  "sample_genesis = \<lparr>g_validators = [alice, bob], g_validator_scores = [80, 70],
     g_current_epoch = 0, g_slashing_count = [(bob, 1)]\<rparr>"

definition sample_weights :: "(account_id \<times> u128 \<times> u128) list" where
  "sample_weights = [(alice, 6000, 80), (bob, 2000, 70)]"

definition genesis_world :: "(account_id \<Rightarrow> u128 \<times> u128, nat) dvf_world" where
  "genesis_world =
     (freeze_epoch_weights sample_dvf_config 0 sample_weights
       ((pos_genesis_build sample_genesis empty_world)\<lparr>ValidatorSetId := 0\<rparr>))\<lparr>ValidatorSetId := 0\<rparr>"

definition rewarded_world :: "(account_id \<Rightarrow> u128 \<times> u128, nat) dvf_world" where
  "rewarded_world = snd (pos_dispatch runtime_pos_config book_currency (dvf_handler sample_dvf_config)
     Root (Reward_validator_call alice 700) genesis_world)"

lemma empty_world_fresh: "chain_fresh empty_world"
  by (simp add: chain_fresh_def pos_fresh_def empty_world_def)

lemma genesis_world_build:
  "dvf_genesis_build sample_dvf_config sample_weights (pos_genesis_build sample_genesis empty_world)
     = Some genesis_world"
  by (simp add: dvf_genesis_build_def genesis_world_def sample_weights_def)

lemma genesis_world_reachable:
  "chain_reachable runtime_pos_config sample_dvf_config book_currency genesis_world"
  by (rule chain_reachable.genesis [OF empty_world_fresh _ genesis_world_build])
    (simp add: sample_genesis_def runtime_pos_config_def)

lemma rewarded_world_reachable:
  "chain_reachable runtime_pos_config sample_dvf_config book_currency rewarded_world"
  unfolding rewarded_world_def
  by (rule chain_reachable.step [OF genesis_world_reachable chain_step.pos_call])

lemma genesis_pos_fields:
  "Validators genesis_world = [(alice, True), (bob, True)]"
  "EpochTotalRewarded genesis_world = 0" "ValidatorEpochRewarded genesis_world = []"
  "balances genesis_world = (\<lambda>v. (50000, 20000))" "ValidatorStates genesis_world = []"
  by (simp_all add: genesis_world_def freeze_epoch_weights_def note_set_change_def Let_def
      dvf_deposit_event_def pos_genesis_build_def sample_genesis_def empty_world_def sm_put_def
      split: prod.split)

lemma rewarded_world_totals:
  "EpochTotalRewarded rewarded_world = 700" "ValidatorEpochRewarded rewarded_world = [(alice, 700)]"
  by (simp_all add: rewarded_world_def reward_validator_call_def execute_reward_validator_def
      execute_reward_validator_with_reason_def genesis_pos_fields runtime_pos_config_def
      effective_reward_def reward_booked_def dvf_handler_def dvf_on_rewarded_def mutate_state_def
      checked_add_def sat_add_def map_defs book_currency_def)

lemma sample_registry: "registry_ok sample_dvf_config sample_world"
  by (simp add: registry_ok_def map_defs sample_defs)

end
