(* ===== verification/Pos_Properties.thy ===== *)
theory Pos_Properties
  imports Samples
begin

text \<open>
  The properties of \<open>pallet-cerulea-pos\<close>, running with the registry pallet as its validator
  handler, each with a concrete instance under the configuration of the runtime.
\<close>

section \<open>Bounds and totals of an epoch\<close>

text \<open>
  C7. In every state the chain reaches from genesis, by calls to both pallets, block hooks, epoch
  changes and operations of the consensus pallet, the rewards and slashes booked in the epoch stay
  within the configured bounds, for the epoch and for each validator; the epoch totals are exactly
  the sums of the per-validator entries; and every stored slashing count is below the limit.
\<close>

theorem epoch_bounds:
  assumes "chain_reachable pcfg cfg C w"
  shows "EpochTotalRewarded w \<le> MaxRewardPerEpoch pcfg
    \<and> EpochTotalSlashed w \<le> MaxSlashPerEpoch pcfg
    \<and> sm_val 0 (ValidatorEpochRewarded w) v \<le> MaxRewardPerValidator pcfg
    \<and> sm_val 0 (ValidatorEpochSlashed w) v \<le> MaxSlashPerValidator pcfg
    \<and> unat (EpochTotalRewarded w) = sm_sum (ValidatorEpochRewarded w)
    \<and> unat (EpochTotalSlashed w) = sm_sum (ValidatorEpochSlashed w)
    \<and> (case sm_get (SlashingCount w) v of None \<Rightarrow> True | Some n \<Rightarrow> n < MaxSlashingCount pcfg)"
  using reachable_pos_ok [OF assms] by (auto simp: pos_ok_defs totals_ok_def split: option.split)

theorem epoch_bounds_witness:
  "EpochTotalRewarded rewarded_world = 700 \<and> EpochTotalRewarded rewarded_world \<le> 30000
    \<and> unat (EpochTotalRewarded rewarded_world) = sm_sum (ValidatorEpochRewarded rewarded_world)"
  using epoch_bounds [OF rewarded_world_reachable, of alice] rewarded_world_totals
  by (simp add: runtime_pos_config_def)

text \<open>
  A reward does one of two things. If the validator is registered and neither the bound of
  the epoch, nor the bound of the validator, nor the balance would overflow, the amount (the
  configured default where the caller passes zero) is deposited and booked and the registry is
  notified, which never refuses. Otherwise an error of the pallet is returned and no storage changes.
\<close>

theorem reward_outcome:
  "\<exists>e. execute_reward_validator pcfg C (dvf_handler cfg) v amount w =
     (if reward_allowed pcfg C v (effective_reward pcfg amount) w
      then (Inr (), snd (dvf_on_rewarded v (effective_reward pcfg amount)
              (score_boost_of pcfg (effective_reward pcfg amount))
              (reward_booked C v (effective_reward pcfg amount) w)))
      else (Inl (PosErr e), w))"
proof (cases "reward_allowed pcfg C v (effective_reward pcfg amount) w")
  case True
  then show ?thesis
    by (simp add: reward_paid dvf_handler_def dvf_on_rewarded_def)
next
  case False
  then show ?thesis
    using reward_refused [of pcfg C v amount w "dvf_handler cfg"] by auto
qed

section \<open>Epoch distribution\<close>

text \<open>
  C12. A successful distribution to active validators that are registered once each adds no more to the
  rewards of the epoch than the three pools hold, provided that no validator's share is zero.
\<close>

theorem distribution_within_pools:
  fixes w w' :: "('c, 'sig, 'z) dvf_world_scheme"
  assumes "distribute_rewards pcfg C (dvf_handler (cfg :: 'sig dvf_config)) base perf best w = (Inr (), w')"
    and "registry_ok cfg w" and "ActiveValidators w \<noteq> []"
    and "\<forall>x \<in> set (validator_scores_of (dvf_handler cfg) w).
      0 < total_reward_of pcfg base perf best (validator_scores_of (dvf_handler cfg) w) x"
  shows "unat (EpochTotalRewarded w') \<le> unat (EpochTotalRewarded w) + unat base + unat perf + unat best"
proof -
  let ?H = "dvf_handler cfg :: ('c, 'sig, 'z) dvf_world_scheme validator_handler"
  let ?vs = "validator_scores_of ?H w"
  have active: "get_active_validators ?H w = ActiveValidators w"
    by (simp add: dvf_handler_def)
  have "distinct (ActiveValidators w)" "length (ActiveValidators w) \<le> unat (DvfMaxValidators cfg)"
    using assms(2) by (simp_all add: registry_ok_def)
  then have "length ?vs < 2 ^ 32" "distinct (map fst ?vs)"
    using unat_lt [of "DvfMaxValidators cfg"] validator_scores_accounts(2,3) [of ?H w]
    by (simp_all add: active)
  then have "sum_list (map (\<lambda>x. unat (total_reward_of pcfg base perf best ?vs x)) ?vs)
      \<le> unat base + unat perf + unat best"
    by (rule shares_within_pools)
  moreover have "sum_list (map (\<lambda>x. unat (effective_reward pcfg (total_reward_of pcfg base perf best ?vs x))) ?vs)
      = sum_list (map (\<lambda>x. unat (total_reward_of pcfg base perf best ?vs x)) ?vs)"
    using assms(4) by (intro arg_cong [where f = sum_list] map_cong) (auto simp: effective_reward_def)
  ultimately show ?thesis
    using dvf_h.distribute_total [OF assms(1)] assms(3) active by simp
qed

definition distributed_world :: "u128 \<Rightarrow> (account_id \<Rightarrow> u128 \<times> u128, nat) dvf_world" where
  "distributed_world pool = snd (distribute_rewards runtime_pos_config book_currency
     (dvf_handler sample_dvf_config) pool 0 0 sample_world)"

lemma sample_scores:
  "validator_scores_of (dvf_handler sample_dvf_config) sample_world
     = [(alice, 50), (bob, 50), (charlie, 50)]"
  by (simp add: validator_scores_of_def dvf_handler_def dvf_get_validator_score_def map_defs
      sample_defs)

lemmas pay_defs = execute_reward_validator_def execute_reward_validator_with_reason_def
  effective_reward_def reward_booked_def total_reward_of_def share_of_def len_u128_def
  high_performers_of_def top_performers_of_def checked_add_def sat_add_def score_boost_of_def
  checked_div_def sat_into_def dvf_handler_def dvf_on_rewarded_def mutate_state_def
  add_stake_score_def map_defs sample_defs Let_def

lemma active_sample:
  "get_active_validators (dvf_handler cfg) sample_world = [alice, bob, charlie]"
  by (simp add: dvf_handler_def sample_world_def)

lemma sample_distributed:
  "distribute_rewards runtime_pos_config book_currency (dvf_handler sample_dvf_config) 3000 0 0
     sample_world = (Inr (), distributed_world 3000)"
proof -
  have "fst (distribute_rewards runtime_pos_config book_currency (dvf_handler sample_dvf_config)
      3000 0 0 sample_world) = Inr ()"
    by (simp add: distribute_rewards_def sample_scores Let_def then_do_fst active_sample)
      (simp add: pay_defs)
  then show ?thesis
    by (simp add: distributed_world_def prod_eq_iff)
qed

theorem distribution_within_pools_witness:
  "unat (EpochTotalRewarded (distributed_world 3000)) \<le> 3000"
  using distribution_within_pools [OF sample_distributed sample_registry]
  by (simp add: sample_scores) (simp add: pay_defs)

lemma default_distributed:
  "distribute_rewards runtime_pos_config book_currency (dvf_handler sample_dvf_config) 0 0 0
     sample_world = (Inr (), distributed_world 0)"
proof -
  have "fst (distribute_rewards runtime_pos_config book_currency (dvf_handler sample_dvf_config)
      0 0 0 sample_world) = Inr ()"
    by (simp add: distribute_rewards_def sample_scores Let_def then_do_fst active_sample)
      (simp add: pay_defs)
  then show ?thesis
    by (simp add: distributed_world_def prod_eq_iff)
qed

text \<open>
  An empty pool is not an empty payment: when all three pools are zero, a successful distribution
  pays the configured default reward to every active validator.
\<close>

theorem empty_pools_pay_default:
  fixes w w' :: "('c, 'sig, 'z) dvf_world_scheme"
  assumes "distribute_rewards pcfg C (dvf_handler (cfg :: 'sig dvf_config)) 0 0 0 w = (Inr (), w')"
    and "ActiveValidators w \<noteq> []"
  shows "unat (EpochTotalRewarded w')
    = unat (EpochTotalRewarded w) + length (ActiveValidators w) * unat (ValidatorReward pcfg)"
proof -
  let ?H = "dvf_handler cfg :: ('c, 'sig, 'z) dvf_world_scheme validator_handler"
  have active: "get_active_validators ?H w = ActiveValidators w"
    by (simp add: dvf_handler_def)
  have "total_reward_of pcfg 0 0 0 (validator_scores_of ?H w) x = 0" for x
    by (cases x) (simp add: total_reward_of_def share_of_def)
  then show ?thesis
    using dvf_h.distribute_total [OF assms(1)] assms(2) active
      validator_scores_accounts(2) [of ?H w]
    by (simp add: effective_reward_def sum_list_triv)
qed

theorem empty_pools_pay_default_witness:
  "unat (EpochTotalRewarded (distributed_world 0)) = 30000"
  using empty_pools_pay_default [OF default_distributed]
  by (simp add: sample_defs)

section \<open>Slashing\<close>

text \<open>
  A slash that the account can pay in full is never counted. The balance is slashed by the whole
  amount, but since \<open>Currency::slash\<close> returns what could not be slashed and the code books that as the
  slashed amount, the totals of the epoch and of the validator do not move, so the bounds on
  slashing never bite, and the registry is told of a slash of zero with a penalty of zero.
\<close>

theorem full_slash_not_counted:
  assumes "slash_spec C" and "sm_has (Validators w) v" and "amount \<noteq> 0"
    and "amount \<le> free_balance C (balances w) v" and "slash_allowed pcfg v amount w"
  shows "\<exists>w'. execute_slash_validator pcfg C (dvf_handler cfg) v amount w = (Inr (), w')
    \<and> balances w' = snd (slash_balance C v amount (balances w))
    \<and> EpochTotalSlashed w' = EpochTotalSlashed w
    \<and> sm_val 0 (ValidatorEpochSlashed w') v = sm_val 0 (ValidatorEpochSlashed w) v
    \<and> w' = snd (dvf_on_slashed v 0 0 (slash_booked (balances w') v 0 w))"
proof -
  obtain r b where rb: "slash_balance C v amount (balances w) = (r, b)"
    by (cases "slash_balance C v amount (balances w)")
  with assms(1,4) have r: "r = 0"
    by (metis fst_conv slash_spec_def)
  have penalty: "score_penalty_of pcfg 0 = 0"
    by (simp add: score_penalty_of_def checked_div_def sat_into_def)
  have "effective_slash pcfg (free_balance C (balances w) v) amount = Inr amount"
    using assms(3) by (simp add: effective_slash_def)
  from slash_done [OF this assms(5) rb, of "dvf_handler cfg"]
  have outcome: "execute_slash_validator pcfg C (dvf_handler cfg) v amount w =
      dvf_on_slashed v 0 0 (slash_booked b v 0 w)"
    by (simp add: r penalty dvf_handler_def)
  have frame: "pos_world.truncate (snd (dvf_on_slashed v 0 0 (slash_booked b v 0 w)))
      = pos_world.truncate (slash_booked b v 0 w)"
    using dvf_h.slashed_frame [of cfg v 0 0] by (simp add: dvf_handler_def)
  show ?thesis
    using pos_frame_fields(1,9,11) [OF frame] rb
    by (simp add: outcome) (simp add: slash_booked_def dvf_on_slashed_def)
qed

theorem full_slash_not_counted_witness:
  "\<exists>w'. execute_slash_validator runtime_pos_config book_currency (dvf_handler sample_dvf_config)
      alice 20000 sample_world = (Inr (), w')
    \<and> fst (balances w' alice) = 30000 \<and> EpochTotalSlashed w' = 0"
proof -
  have "slash_allowed runtime_pos_config alice 20000 sample_world"
    by (simp add: slash_allowed_def map_defs sample_defs)
  from full_slash_not_counted [OF book_slash_spec _ _ _ this, of sample_dvf_config]
  show ?thesis
    by (auto simp: map_defs sample_defs Let_def)
qed

definition slash_calls ::
  "pos_config \<Rightarrow> account_id list \<Rightarrow> account_id \<Rightarrow> ('c, 'z) pos_world_scheme \<Rightarrow> ('c, 'z) pos_world_scheme" where
  "slash_calls pcfg callers v w =
     fold (\<lambda>a w. snd (slash_validator_call pcfg (Signed a) v w)) callers w"

lemma slash_call_count:
  assumes "sm_has (Validators w) v"
    and "unat (sm_val 0 (SlashingCount w) v) + 1 < unat (MaxSlashingCount pcfg)"
  shows "sm_has (Validators (snd (slash_validator_call pcfg (Signed a) v w))) v"
    and "unat (sm_val 0 (SlashingCount (snd (slash_validator_call pcfg (Signed a) v w))) v)
      = unat (sm_val 0 (SlashingCount w) v) + 1"
proof -
  let ?c = "sm_val 0 (SlashingCount w) v"
  have "unat ?c + 1 < 2 ^ 32"
    using assms(2) unat_lt [of "MaxSlashingCount pcfg"] by simp
  then have c: "unat (?c + 1) = unat ?c + 1"
    by (simp add: unat_word_ariths)
  then have below: "\<not> MaxSlashingCount pcfg \<le> ?c + 1"
    using assms(2) by (simp add: word_le_nat_alt)
  show "sm_has (Validators (snd (slash_validator_call pcfg (Signed a) v w))) v"
    using assms(1) below by (simp add: slash_validator_call_def pos_deposit_event_def Let_def)
  show "unat (sm_val 0 (SlashingCount (snd (slash_validator_call pcfg (Signed a) v w))) v) = unat ?c + 1"
    using assms(1) below c by (simp add: slash_validator_call_def pos_deposit_event_def Let_def)
qed

lemma slash_call_last:
  fixes a :: account_id and w :: "('c, 'z) pos_world_scheme"
  assumes "sm_has (Validators w) v"
    and "unat (sm_val 0 (SlashingCount w) v) + 1 = unat (MaxSlashingCount pcfg)"
  defines "w' \<equiv> snd (slash_validator_call pcfg (Signed a) v w)"
  shows "\<not> sm_has (Validators w') v \<and> \<not> sm_has (ValidatorScores w') v \<and> \<not> sm_has (SlashingCount w') v"
proof -
  have "sm_val 0 (SlashingCount w) v + 1 = MaxSlashingCount pcfg"
    using assms(2) unat_lt [of "MaxSlashingCount pcfg"] by (simp add: word_unat_eq_iff unat_word_ariths)
  then show ?thesis
    using assms(1) by (simp add: w'_def slash_validator_call_def pos_deposit_event_def Let_def)
qed

text \<open>
  Any signed account may slash any registered validator by one count: starting from a stored
  count \<open>c\<close> below the limit, exactly \<open>MaxSlashingCount - c\<close> calls, by whatever accounts, remove the
  validator, its score and its count; any smaller number leaves it registered with the calls added.
\<close>

theorem slashing_lifecycle:
  assumes "sm_has (Validators w) v"
    and "unat (sm_val 0 (SlashingCount w) v) < unat (MaxSlashingCount pcfg)"
    and "unat (sm_val 0 (SlashingCount w) v) + length callers \<le> unat (MaxSlashingCount pcfg)"
  shows "if unat (sm_val 0 (SlashingCount w) v) + length callers < unat (MaxSlashingCount pcfg)
    then sm_has (Validators (slash_calls pcfg callers v w)) v
      \<and> unat (sm_val 0 (SlashingCount (slash_calls pcfg callers v w)) v)
          = unat (sm_val 0 (SlashingCount w) v) + length callers
    else \<not> sm_has (Validators (slash_calls pcfg callers v w)) v
      \<and> \<not> sm_has (ValidatorScores (slash_calls pcfg callers v w)) v
      \<and> \<not> sm_has (SlashingCount (slash_calls pcfg callers v w)) v"
  using assms
proof (induction callers arbitrary: w)
  case Nil
  then show ?case by (simp add: slash_calls_def)
next
  case (Cons a callers)
  let ?w1 = "snd (slash_validator_call pcfg (Signed a) v w)"
  have step: "slash_calls pcfg (a # callers) v w = slash_calls pcfg callers v ?w1"
    by (simp add: slash_calls_def)
  show ?case
  proof (cases "unat (sm_val 0 (SlashingCount w) v) + 1 < unat (MaxSlashingCount pcfg)")
    case True
    from Cons.IH [of ?w1] Cons.prems slash_call_count [OF Cons.prems(1) True, of a] True
    show ?thesis
      by (simp add: step)
  next
    case False
    with Cons.prems have "callers = []"
      "unat (sm_val 0 (SlashingCount w) v) + 1 = unat (MaxSlashingCount pcfg)"
      by (cases callers; simp)+
    with slash_call_last [OF Cons.prems(1), of pcfg a] show ?thesis
      by (simp add: step) (simp add: slash_calls_def)
  qed
qed

theorem slashing_lifecycle_witness:
  "sm_has (Validators sample_world) alice
    \<and> sm_has (Validators (slash_calls runtime_pos_config [bob, bob] alice sample_world)) alice
    \<and> \<not> sm_has (Validators (slash_calls runtime_pos_config [bob, bob, charlie] alice sample_world)) alice"
proof -
  have start: "sm_has (Validators sample_world) alice" "sm_val 0 (SlashingCount sample_world) alice = 0"
    "MaxSlashingCount runtime_pos_config = 3"
    by (simp_all add: map_defs sample_defs)
  show ?thesis
    using slashing_lifecycle [OF start(1), of runtime_pos_config "[bob, bob]"]
      slashing_lifecycle [OF start(1), of runtime_pos_config "[bob, bob, charlie]"] start
    by simp
qed

section \<open>Stakes\<close>

text \<open>
  Bonding asks for no funds: a registered account may bond any amount from the minimum up, as
  long as its recorded stake does not overflow, and the recorded stake grows by that amount while
  the balances, free or reserved, are not consulted and stay as they are.
\<close>

theorem bond_needs_no_funds:
  assumes "sm_has (Validators w) who" and "MinStake pcfg \<le> amount"
    and "unat (sm_val 0 (Stake w) who) + unat amount < 2 ^ 128"
  shows "\<exists>w'. bond_stake pcfg (Signed who) amount w = (Inr (), w')
    \<and> unat (sm_val 0 (Stake w') who) = unat (sm_val 0 (Stake w) who) + unat amount
    \<and> balances w' = balances w"
  using assms
  by (simp add: bond_stake_def Let_def checked_add_def pos_deposit_event_def unat_word_ariths)

theorem bond_needs_no_funds_witness:
  "\<exists>w'. bond_stake runtime_pos_config (Signed alice) 1000000 sample_world = (Inr (), w')
    \<and> unat (sm_val 0 (Stake w') alice) = 1005000 \<and> fst (balances w' alice) = 50000"
proof -
  have start: "sm_has (Validators sample_world) alice" "MinStake runtime_pos_config \<le> 1000000"
    "sm_val 0 (Stake sample_world) alice = 5000" "balances sample_world = (\<lambda>v. (50000, 20000))"
    by (simp_all add: map_defs sample_defs)
  then obtain w' where "bond_stake runtime_pos_config (Signed alice) 1000000 sample_world = (Inr (), w')"
    "unat (sm_val 0 (Stake w') alice) = 1005000" "balances w' = balances sample_world"
    using bond_needs_no_funds [OF start(1,2)] by auto
  with start(4) show ?thesis
    by auto
qed

text \<open>
  Unbonding undoes bonding: after a successful bond of an account whose stake was already at the
  minimum, unbonding the same amount succeeds and restores the recorded stake of every account.
\<close>

theorem bond_unbond_roundtrip:
  assumes "bond_stake pcfg (Signed who) amount w = (Inr (), w1)"
    and "MinStake pcfg \<le> sm_val 0 (Stake w) who"
  shows "\<exists>w2. unbond_stake pcfg (Signed who) amount w1 = (Inr (), w2)
    \<and> sm_val 0 (Stake w2) v = sm_val 0 (Stake w) v"
proof -
  from assms(1) obtain s where s: "checked_add (sm_val 0 (Stake w) who) amount = Some s"
    and has: "sm_has (Validators w) who"
    and w1: "Stake w1 = sm_put who s (Stake w)" "Validators w1 = Validators w"
    by (auto simp: bond_stake_def Let_def pos_deposit_event_def split: if_splits option.splits)
  have u: "unat s = unat (sm_val 0 (Stake w) who) + unat amount"
    using s by (simp add: sat_simps)
  then have "s - amount = sm_val 0 (Stake w) who"
    using s by (auto simp: checked_add_def split: if_splits)
  with assms(2) u has w1 show ?thesis
    by (auto simp: unbond_stake_def Let_def pos_deposit_event_def checked_sub_def word_le_nat_alt)
qed

theorem bond_unbond_roundtrip_witness:
  "\<exists>w2. unbond_stake runtime_pos_config (Signed alice) 3000
      (snd (bond_stake runtime_pos_config (Signed alice) 3000 sample_world)) = (Inr (), w2)
    \<and> sm_val 0 (Stake w2) alice = 5000"
proof -
  have "bond_stake runtime_pos_config (Signed alice) 3000 sample_world
      = (Inr (), snd (bond_stake runtime_pos_config (Signed alice) 3000 sample_world))"
    by (simp add: prod_eq_iff bond_stake_def Let_def checked_add_def map_defs sample_defs)
  from bond_unbond_roundtrip [OF this, of alice] show ?thesis
    by (simp add: map_defs sample_defs)
qed

text \<open>
  Lowering a stake releases the reserve but not the stake: for an account that holds the whole
  amount in reserve, \<open>unreserve\<close> returns the remainder, zero, which the code takes for the amount
  released. The reserve drops by the amount, while the recorded stake, the stake score of the
  registry and the announced decrease stay at zero change.
\<close>

theorem decrease_keeps_stake:
  assumes "unreserve_spec C" and "sm_has (Validators w) who"
    and "amount \<le> reserved_balance C (balances w) who"
    and "MinStake pcfg \<le> sat_sub (sm_val 0 (Stake w) who) amount"
  shows "\<exists>w'. decrease_validator_stake pcfg C (dvf_handler cfg) (Signed who) amount w = (Inr (), w')
    \<and> sm_val 0 (Stake w') who = sm_val 0 (Stake w) who
    \<and> reserved_balance C (balances w') who = reserved_balance C (balances w) who - amount
    \<and> dvf_get_validator_score w' who = dvf_get_validator_score w who
    \<and> last (pos_events w') = ValidatorStakeDecreased who 0"
proof -
  obtain r b where rb: "unreserve C who amount (balances w) = (r, b)"
    by (cases "unreserve C who amount (balances w)")
  with assms(1,3) have r: "r = 0" "reserved_balance C b who = reserved_balance C (balances w) who - amount"
    unfolding unreserve_spec_def by (metis fst_conv, metis snd_conv)
  let ?w1 = "w\<lparr>balances := b, Stake := sm_put who (sm_val 0 (Stake w) who) (Stake w)\<rparr>"
  have frame: "pos_world.truncate (mutate_state who (sub_stake_score 0) ?w1) = pos_world.truncate ?w1"
    by simp
  have same: "sub_stake_score 0 st = st" for st
    by (simp add: sub_stake_score_def)
  have score: "dvf_get_validator_score (mutate_state who (sub_stake_score 0) ?w1) who
      = dvf_get_validator_score w who"
    by (simp add: mutate_state_def dvf_get_validator_score_def same split: option.split)
  have zero: "sat_into (0 :: u128) = (0 :: u64)"
    by (simp add: sat_into_def)
  have "decrease_validator_stake pcfg C (dvf_handler cfg) (Signed who) amount w =
      (Inr (), pos_deposit_event (ValidatorStakeDecreased who 0)
        (pos_deposit_event (ValidatorStakeUnreserved who 0)
          (mutate_state who (sub_stake_score 0) ?w1)))"
    using assms(2,4) rb r by (simp add: decrease_validator_stake_def Let_def then_do_def dvf_handler_def
        dvf_on_stake_decreased_def zero)
  with pos_frame_fields [OF frame] r(2) score show ?thesis
    by (simp add: pos_deposit_event_def dvf_get_validator_score_def)
qed

theorem decrease_keeps_stake_witness:
  "\<exists>w'. decrease_validator_stake runtime_pos_config book_currency (dvf_handler sample_dvf_config)
      (Signed alice) 4000 sample_world = (Inr (), w')
    \<and> sm_val 0 (Stake w') alice = 5000 \<and> snd (balances w' alice) = 16000"
proof -
  have "sm_has (Validators sample_world) alice"
    "4000 \<le> reserved_balance book_currency (balances sample_world) alice"
    "MinStake runtime_pos_config \<le> sat_sub (sm_val 0 (Stake sample_world) alice) 4000"
    by (simp_all add: sat_sub_def map_defs sample_defs)
  from decrease_keeps_stake [OF book_unreserve_spec this, of sample_dvf_config] show ?thesis
    by (auto simp: map_defs sample_defs)
qed

end
