(* ===== verification/Epoch_Weights.thy ===== *)
theory Epoch_Weights
  imports Quorum
begin

text \<open>
  The weights that \<open>freeze_epoch_weights\<close> stores: what each validator gets, that the recorded total
  is their sum, and how far rounding moves that total away from the scale of 32000.
\<close>

section \<open>The stored weights\<close>

text \<open>The loop over the validators, with the map and the total so far.\<close>

definition weigh ::
  "(account_id \<times> u128 \<times> u128 \<Rightarrow> u128) \<Rightarrow> (account_id \<times> u128 \<times> u128) list
     \<Rightarrow> (account_id, u128) smap \<times> u128 \<Rightarrow> (account_id, u128) smap \<times> u128" where
  "weigh f vs = fold (\<lambda>x (m, t). (sm_put (fst x) (f x) m, sat_add t (f x))) vs"

lemma freeze_weigh:
  "(EpochVotingWeight (freeze_epoch_weights cfg e vs w), TotalVotingWeight (freeze_epoch_weights cfg e vs w))
     = weigh (\<lambda>x. normalized_weight vs (fst (snd x))) vs ([], 0)"
  by (simp add: freeze_epoch_weights_def weigh_def Let_def dvf_deposit_event_def case_prod_unfold)

lemma weigh_other: "v \<notin> fst ` set vs \<Longrightarrow> sm_val d (fst (weigh f vs (m, t))) v = sm_val d m v"
  by (induction vs arbitrary: m t) (auto simp: weigh_def)

lemma weigh_lookup:
  "distinct (map fst vs) \<Longrightarrow> x \<in> set vs \<Longrightarrow> sm_val 0 (fst (weigh f vs (m, t))) (fst x) = f x"
proof (induction vs arbitrary: m t)
  case Nil
  then show ?case by simp
next
  case (Cons y vs)
  have step: "weigh f (y # vs) (m, t) = weigh f vs (sm_put (fst y) (f y) m, sat_add t (f y))"
    by (simp add: weigh_def)
  show ?case
  proof (cases "x = y")
    case True
    with Cons.prems weigh_other [of "fst y" vs] show ?thesis
      by (simp add: step)
  next
    case False
    with Cons show ?thesis
      by (simp add: step)
  qed
qed

lemma weigh_keys: "sm_has (fst (weigh f vs (m, t))) v \<longleftrightarrow> v \<in> fst ` set vs \<or> sm_has m v"
  by (induction vs arbitrary: m t) (auto simp: weigh_def)

lemma weigh_wf: "sm_wf m \<Longrightarrow> sm_wf (fst (weigh f vs (m, t)))"
  by (induction vs arbitrary: m t) (auto simp: weigh_def smap.wf_insert)

text \<open>Without duplicates and saturation the total is the sum of the entries.\<close>

lemma weigh_total:
  assumes "distinct (map fst vs)" and "\<forall>x \<in> set vs. \<not> sm_has m (fst x)"
    and "sm_sum m = unat t" and "unat t + sum_list (map (unat \<circ> f) vs) < 2 ^ 128"
  shows "sm_sum (fst (weigh f vs (m, t))) = unat t + sum_list (map (unat \<circ> f) vs)
    \<and> unat (snd (weigh f vs (m, t))) = unat t + sum_list (map (unat \<circ> f) vs)"
  using assms
proof (induction vs arbitrary: m t)
  case Nil
  then show ?case by (simp add: weigh_def)
next
  case (Cons y vs)
  have step: "weigh f (y # vs) (m, t) = weigh f vs (sm_put (fst y) (f y) m, sat_add t (f y))"
    by (simp add: weigh_def)
  have t: "unat (sat_add t (f y)) = unat t + unat (f y)"
    using Cons.prems(4) by (simp add: sat_simps)
  have "sm_val 0 m (fst y) = 0"
    using Cons.prems(2) by (simp add: sm_val_def sm_has_def)
  then have s: "sm_sum (sm_put (fst y) (f y) m) = unat (sat_add t (f y))"
    using sm_sum_put [of "fst y" "f y" m] Cons.prems(3) t by simp
  have "\<forall>x \<in> set vs. \<not> sm_has (sm_put (fst y) (f y) m) (fst x)"
    using Cons.prems(1,2) by (force simp: image_iff)
  from Cons.IH [OF _ this s] Cons.prems(1,4) t show ?case
    by (simp add: step)
qed

section \<open>Normalisation\<close>

lemma sum_div_le: "sum_list (map (\<lambda>x. (g x :: nat) div d) xs) \<le> sum_list (map g xs) div d"
proof (induction xs)
  case Nil
  then show ?case by simp
next
  case (Cons x xs)
  have "g x div d + sum_list (map g xs) div d \<le> (g x + sum_list (map g xs)) div d"
    by (simp add: div_add1_eq [of "g x" "sum_list (map g xs)" d])
  with Cons show ?case
    by simp
qed

lemma sum_div_ge:
  assumes "0 < (d :: nat)"
  shows "sum_list (map g xs) div d \<le> sum_list (map (\<lambda>x. g x div d) xs) + length xs"
proof (induction xs)
  case Nil
  then show ?case by simp
next
  case (Cons x xs)
  have "(g x + sum_list (map g xs)) div d \<le> g x div d + sum_list (map g xs) div d + 1"
  proof -
    have "(g x mod d + sum_list (map g xs) mod d) div d \<le> 1"
    proof -
      have "g x mod d + sum_list (map g xs) mod d < 2 * d"
        using assms mod_less_divisor [of d "g x"] mod_less_divisor [of d "sum_list (map g xs)"]
        by linarith
      then show ?thesis
        by (simp add: less_mult_imp_div_less less_Suc_eq_le [symmetric] numeral_2_eq_2)
    qed
    then show ?thesis
      by (simp add: div_add1_eq [of "g x" "sum_list (map g xs)" d])
  qed
  with Cons show ?case
    by simp
qed

definition stake_sum :: "(account_id \<times> u128 \<times> u128) list \<Rightarrow> nat" where
  "stake_sum vs = sum_list (map (\<lambda>x. unat (fst (snd x))) vs)"

lemma total_stake_exact:
  assumes "stake_sum vs < 2 ^ 128"
  shows "unat (total_stake_of vs) = stake_sum vs"
  using assms
proof (induction vs)
  case Nil
  then show ?case by (simp add: total_stake_of_def stake_sum_def)
next
  case (Cons x vs)
  obtain v s c where x: "x = (v, s, c)"
    by (cases x)
  have "stake_sum (x # vs) = unat s + stake_sum vs" "total_stake_of (x # vs) = s + total_stake_of vs"
    by (simp_all add: x stake_sum_def total_stake_of_def)
  with Cons show ?case
    by (simp add: unat_word_ariths)
qed

lemma unat_scale: "unat vote_weight_scale = 32000"
  by (simp add: vote_weight_scale_def)

text \<open>The weights of one epoch never add up to more than the scale.\<close>

lemma weights_le_scale:
  assumes "stake_sum vs < 2 ^ 128" and "length vs < 2 ^ 32"
  shows "sum_list (map (\<lambda>x. unat (normalized_weight vs (fst (snd x)))) vs) \<le> 32000"
proof (cases "total_stake_of vs > 0")
  case True
  let ?t = "unat (total_stake_of vs)"
  have t: "?t = stake_sum vs" "0 < ?t"
    using total_stake_exact [OF assms(1)] True by (simp_all add: word_less_nat_alt)
  have "unat (normalized_weight vs s) \<le> unat s * 32000 div ?t" for s
    using True by (simp add: normalized_weight_def unat_div sat_simps unat_scale div_le_mono)
  then have "sum_list (map (\<lambda>x. unat (normalized_weight vs (fst (snd x)))) vs)
      \<le> sum_list (map (\<lambda>x. unat (fst (snd x)) * 32000 div ?t) vs)"
    by (intro sum_list_mono)
  also have "\<dots> \<le> sum_list (map (\<lambda>x. unat (fst (snd x)) * 32000) vs) div ?t"
    by (rule sum_div_le)
  also have "\<dots> = stake_sum vs * 32000 div ?t"
    by (simp add: stake_sum_def sum_list_mult_const)
  also have "\<dots> = 32000"
    using t by simp
  finally show ?thesis .
next
  case False
  let ?n = "of_nat (length vs) :: u128"
  have n: "unat ?n = length vs"
    using assms(2) by (simp add: unsigned_of_nat take_bit_nat_eq_self_iff)
  show ?thesis
  proof (cases "vs = []")
    case notempty: False
    then have "0 < ?n"
      using n by (simp add: word_less_nat_alt)
    with False n have "unat (normalized_weight vs s) = 32000 div length vs" for s
      by (simp add: normalized_weight_def Let_def unat_div unat_scale)
    then show ?thesis
      by (simp add: sum_list_triv)
  qed simp
qed

text \<open>Where no product saturates, a weight is the exact share, rounded down.\<close>

lemma normalized_exact:
  assumes "stake_sum vs * 32000 < 2 ^ 128" and "0 < stake_sum vs" and "x \<in> set vs"
  shows "unat (normalized_weight vs (fst (snd x))) = unat (fst (snd x)) * 32000 div stake_sum vs"
proof -
  have t: "unat (total_stake_of vs) = stake_sum vs"
    using total_stake_exact assms(1) by simp
  then have pos: "total_stake_of vs > 0"
    using assms(2) by (simp add: word_less_nat_alt)
  have "unat (fst (snd x)) \<le> stake_sum vs"
    unfolding stake_sum_def using assms(3) by (intro member_le_sum_list) auto
  then have "unat (fst (snd x)) * 32000 < 2 ^ 128"
    using assms(1) by linarith
  then show ?thesis
    using pos t by (simp add: normalized_weight_def unat_div sat_simps unat_scale)
qed

text \<open>Rounding loses less than one unit for each validator.\<close>

lemma weights_ge_scale:
  assumes "stake_sum vs * 32000 < 2 ^ 128" and "0 < stake_sum vs"
  shows "32000 \<le> sum_list (map (\<lambda>x. unat (normalized_weight vs (fst (snd x)))) vs) + length vs"
proof -
  have "32000 = sum_list (map (\<lambda>x. unat (fst (snd x)) * 32000) vs) div stake_sum vs"
    using assms(2) by (simp add: stake_sum_def sum_list_mult_const)
  also have "\<dots> \<le> sum_list (map (\<lambda>x. unat (fst (snd x)) * 32000 div stake_sum vs) vs) + length vs"
    by (rule sum_div_ge [OF assms(2)])
  also have "sum_list (map (\<lambda>x. unat (fst (snd x)) * 32000 div stake_sum vs) vs)
      = sum_list (map (\<lambda>x. unat (normalized_weight vs (fst (snd x)))) vs)"
    using normalized_exact [OF assms] by (intro arg_cong [where f = sum_list] map_cong) auto
  finally show ?thesis .
qed

section \<open>Freezing\<close>

lemma freeze_exact:
  fixes w :: "('c, 'sig, 'z) dvf_world_scheme" and cfg :: "'sig dvf_config" and e :: u32
  assumes "distinct (map fst vs)" and "stake_sum vs < 2 ^ 128" and "length vs < 2 ^ 32"
  defines "w' \<equiv> freeze_epoch_weights cfg e vs w"
  shows "sm_wf (EpochVotingWeight w')"
    and "unat (TotalVotingWeight w') = sm_sum (EpochVotingWeight w')"
    and "unat (TotalVotingWeight w') =
      sum_list (map (\<lambda>x. unat (normalized_weight vs (fst (snd x)))) vs)"
proof -
  let ?f = "\<lambda>x. normalized_weight vs (fst (snd x))"
  have split: "EpochVotingWeight w' = fst (weigh ?f vs ([], 0))"
    "TotalVotingWeight w' = snd (weigh ?f vs ([], 0))"
    using freeze_weigh [of cfg e vs w] by (simp_all add: w'_def prod_eq_iff)
  show "sm_wf (EpochVotingWeight w')"
    by (simp add: split weigh_wf smap.wf_empty)
  have "sum_list (map (unat \<circ> ?f) vs) < 2 ^ 128"
    using weights_le_scale [OF assms(2,3)] by (simp add: comp_def)
  with weigh_total [of vs "[]" 0 ?f] assms(1)
  show "unat (TotalVotingWeight w') = sm_sum (EpochVotingWeight w')"
    and "unat (TotalVotingWeight w') = sum_list (map (\<lambda>x. unat (?f x)) vs)"
    by (simp_all add: split comp_def)
qed

lemma freeze_lookup:
  assumes "distinct (map fst vs)" and "x \<in> set vs"
  shows "sm_val 0 (EpochVotingWeight (freeze_epoch_weights cfg e vs w)) (fst x)
    = normalized_weight vs (fst (snd x))"
  using freeze_weigh [of cfg e vs w] weigh_lookup [OF assms, of _ "[]" 0] by (metis fst_conv)

lemma freeze_electorate:
  "sm_has (EpochVotingWeight (freeze_epoch_weights cfg e vs w)) v \<longleftrightarrow> v \<in> fst ` set vs"
  using freeze_weigh [of cfg e vs w] weigh_keys [of _ vs "[]" 0 v] by (metis fst_conv sm_has_empty)

section \<open>Quorums under frozen weights\<close>

lemma electorate_weight:
  assumes "sm_wf m"
  shows "sum (vote_weight m) (set (sm_keys m)) = sm_sum m"
proof -
  have val: "vote_weight m (fst p) = unat (snd p)" if "p \<in> set m" for p
    using map_of_is_SomeI [of m "fst p" "snd p"] assms that
    by (cases p) (simp add: vote_weight_def sm_val_def sm_get_def sm_wf_def)
  have "sum (vote_weight m) (set (sm_keys m)) = sum_list (map (vote_weight m) (sm_keys m))"
    using assms by (intro sum_list_distinct_conv_sum_set [symmetric]) (simp add: sm_wf_def sm_keys_def)
  also have "\<dots> = sum_list (map (\<lambda>p. unat (snd p)) m)"
    using val by (simp add: sm_keys_def comp_def cong: map_cong)
  finally show ?thesis
    by (simp add: sm_sum_def)
qed

end
