(* ===== verification/Finality_Properties.thy ===== *)
theory Finality_Properties
  imports Chain Epoch_Weights Runtime_Config
begin

text \<open>
  The properties of the finality protocol of \<open>pallet-cerulea-dvf\<close>, each with a concrete instance
  under the configuration of the runtime.
\<close>

section \<open>Samples\<close>

definition sample_vote :: "nat \<Rightarrow> u32 \<Rightarrow> u32 \<Rightarrow> nat \<Rightarrow> nat dvf_vote" where
  "sample_vote who round n h = \<lparr>epoch_id = 0, validator_set_id = 0, round_id = round,
     vote_block_number = n, vote_block_hash = Hash h, validator_account = AccountId who,
     signature = who\<rparr>"

definition sample_justification :: "nat list \<Rightarrow> u32 \<Rightarrow> u32 \<Rightarrow> nat \<Rightarrow> nat dvf_justification" where
  "sample_justification who round n h = \<lparr>round_number = round, just_block_hash = Hash h,
     votes = map (\<lambda>v. sample_vote v round n h) who\<rparr>"

lemma sample_weights_fields:
  "EpochVotingWeight sample_world = [(alice, 12800), (bob, 12800), (charlie, 6400)]"
  "TotalVotingWeight sample_world = 32000" "FinalizedBlockNumber sample_world = 0"
  "VoteRecords sample_world = []" "VoteTallies sample_world = []" "CurrentRound sample_world = 0"
  "FinalizedBlockHash sample_world = None"
  by (simp_all add: sample_world_def empty_world_def)

lemmas vote_sample_defs = sample_vote_def sample_justification_def alice_def bob_def charlie_def
  sample_dvf_config_def runtime_dvf_config_def payload_of_def

lemma sample_valid:
  "justification_valid sample_dvf_config sample_world (sample_justification [1, 2] 0 10 7)"
  "justification_valid sample_dvf_config sample_world (sample_justification [2, 1, 3] 0 20 8)"
  by (simp_all add: justification_valid_def vote_ok_def is_checkpoint_block_def tally_def
      sample_weights_fields vote_sample_defs sat_add_def sm_has_def sm_val_def sm_get_def)

lemma sample_accepted:
  "fst (submit_justification sample_dvf_config Unsigned (sample_justification [1, 2] 0 10 7) sample_world)
     = Inr ()"
  "fst (submit_justification sample_dvf_config Unsigned (sample_justification [2, 1, 3] 0 20 8) sample_world)
     = Inr ()"
  using sample_valid by (simp_all add: submit_justification_def accepted_iff_valid)

section \<open>Justifications\<close>

text \<open>
  C4. The outcome of a submitted justification, on every branch. A signed or root origin is refused.
  An unsigned one is accepted exactly when it has votes, its first vote names a checkpoint above the
  finalised block, the voters are distinct and hold frozen weight, every vote carries a valid
  signature and the round and hash of the justification, all votes name one validator set, and the
  accumulated weight reaches the threshold; then the block is finalised. Otherwise an error of the
  pallet is returned and the state is as before.
\<close>

theorem justification_outcome:
  "\<exists>e. submit_justification cfg orig j w =
     (if orig \<noteq> Unsigned then (Inl BadOrigin, w)
      else if justification_valid cfg w j
      then (Inr (), finalize_block cfg (just_block_hash j) (vote_block_number (hd (votes j)))
                      (round_number j) (tally (EpochVotingWeight w) 0 (votes j)) w)
      else (Inl (DvfErr e), w))"
  using justification_accepted [of cfg w j] justification_refused [of cfg w j]
  by (cases orig) (auto simp: submit_justification_def)

definition sample_stakes :: "(account_id \<times> u128 \<times> u128) list" where
  "sample_stakes = [(alice, 5000, 80), (bob, 5000, 80), (charlie, 2500, 80)]"

lemma sample_frozen:
  "EpochVotingWeight sample_world
     = EpochVotingWeight (freeze_epoch_weights sample_dvf_config 0 sample_stakes sample_world)"
  "TotalVotingWeight sample_world
     = TotalVotingWeight (freeze_epoch_weights sample_dvf_config 0 sample_stakes sample_world)"
  by (simp_all add: sample_weights_fields freeze_epoch_weights_def sample_stakes_def Let_def
      dvf_deposit_event_def normalized_weight_def total_stake_of_def vote_weight_scale_def
      sat_mul_def sat_add_def sm_put_def)

lemma sample_stakes_ok:
  "distinct (map fst sample_stakes)" "stake_sum sample_stakes < 2 ^ 128" "length sample_stakes < 2 ^ 32"
  by (simp_all add: sample_stakes_def stake_sum_def)

lemma same_epoch_iff:
  "EpochVotingWeight w' = EpochVotingWeight w \<Longrightarrow> TotalVotingWeight w' = TotalVotingWeight w \<Longrightarrow>
     dvf_quorum.same_epoch cfg w w'"
  by (simp add: dvf_quorum.same_epoch_def)

lemma valid_common_vote:
  assumes "justification_valid cfg w j" and "justification_valid cfg w' k"
    and "v \<in> justification_voters j" and "v \<in> justification_voters k"
  shows "\<exists>a \<in> set (votes j). \<exists>b \<in> set (votes k). validator_account a = validator_account b
    \<and> verify cfg (signature a) (payload_of a) (validator_account a)
    \<and> verify cfg (signature b) (payload_of b) (validator_account b)
    \<and> vote_block_hash a = just_block_hash j \<and> vote_block_hash b = just_block_hash k"
  using assms unfolding justification_valid_def justification_voters_def vote_ok_def by fastforce

lemma quorum_overlap:
  fixes w w' w0 :: "('c, 'sig, 'z) dvf_world_scheme"
  assumes "fst (submit_justification cfg Unsigned j w) = Inr ()"
    and "fst (submit_justification cfg Unsigned k w') = Inr ()"
    and "EpochVotingWeight w = EpochVotingWeight (freeze_epoch_weights cfg e vs w0)"
    and "TotalVotingWeight w = TotalVotingWeight (freeze_epoch_weights cfg e vs w0)"
    and "EpochVotingWeight w' = EpochVotingWeight w" "TotalVotingWeight w' = TotalVotingWeight w"
    and "distinct (map fst vs)" "stake_sum vs < 2 ^ 128" "length vs < 2 ^ 32"
  shows "2 * unat (threshold_of cfg (TotalVotingWeight w))
      \<le> sum (vote_weight (EpochVotingWeight w)) (justification_voters j \<inter> justification_voters k)
        + unat (TotalVotingWeight w)
    \<and> (unat (TotalVotingWeight w) < 2 * unat (threshold_of cfg (TotalVotingWeight w)) \<longrightarrow>
      (\<exists>a \<in> set (votes j). \<exists>b \<in> set (votes k). validator_account a = validator_account b
        \<and> verify cfg (signature a) (payload_of a) (validator_account a)
        \<and> verify cfg (signature b) (payload_of b) (validator_account b)
        \<and> vote_block_hash a = just_block_hash j \<and> vote_block_hash b = just_block_hash k))"
proof -
  have accepts: "fst (verify_and_finalize_justification cfg j w) = Inr ()"
    "fst (verify_and_finalize_justification cfg k w') = Inr ()"
    using assms(1,2) by (simp_all add: submit_justification_def)
  have total: "sum (vote_weight (EpochVotingWeight w)) (set (sm_keys (EpochVotingWeight w)))
      = unat (TotalVotingWeight w)"
    using freeze_exact(1,2) [OF assms(7-9), of cfg e w0] electorate_weight assms(3,4) by simp
  note overlap = dvf_quorum.overlap [OF accepts same_epoch_iff [OF assms(5,6)]]
  note common = dvf_quorum.common_voter [OF accepts same_epoch_iff [OF assms(5,6)]]
  show ?thesis
    using overlap common total valid_common_vote accepts [unfolded accepted_iff_valid] by auto
qed

text \<open>
  C1. Quorums overlap. Take weights frozen for an epoch over distinct validators, and two states under
  those weights, each of which accepts a justification. Twice the threshold is at most the weight
  of the validators that signed both, plus the total weight; so if the threshold is more than half
  of the total, some validator signed a vote for each of the two hashes.
\<close>

theorem justifications_overlap:
  fixes w w' w0 :: "('c, 'sig, 'z) dvf_world_scheme"
  assumes "fst (submit_justification cfg Unsigned j w) = Inr ()"
    and "fst (submit_justification cfg Unsigned k w') = Inr ()"
    and "EpochVotingWeight w = EpochVotingWeight (freeze_epoch_weights cfg e vs w0)"
    and "TotalVotingWeight w = TotalVotingWeight (freeze_epoch_weights cfg e vs w0)"
    and "EpochVotingWeight w' = EpochVotingWeight w" "TotalVotingWeight w' = TotalVotingWeight w"
    and "distinct (map fst vs)" "stake_sum vs < 2 ^ 128" "length vs < 2 ^ 32"
  shows "2 * unat (threshold_of cfg (TotalVotingWeight w))
      \<le> sum (vote_weight (EpochVotingWeight w)) (justification_voters j \<inter> justification_voters k)
        + unat (TotalVotingWeight w)
    \<and> (unat (TotalVotingWeight w) < 2 * unat (threshold_of cfg (TotalVotingWeight w)) \<longrightarrow>
      (\<exists>a \<in> set (votes j). \<exists>b \<in> set (votes k). validator_account a = validator_account b
        \<and> verify cfg (signature a) (payload_of a) (validator_account a)
        \<and> verify cfg (signature b) (payload_of b) (validator_account b)
        \<and> vote_block_hash a = just_block_hash j \<and> vote_block_hash b = just_block_hash k))"
  using quorum_overlap [OF assms] .

theorem justifications_overlap_witness:
  "2 * 21440 \<le> sum (vote_weight (EpochVotingWeight sample_world))
      (justification_voters (sample_justification [1, 2] 0 10 7)
        \<inter> justification_voters (sample_justification [2, 1, 3] 0 20 8)) + 32000"
  using justifications_overlap [OF sample_accepted sample_frozen refl refl sample_stakes_ok]
  by (simp add: sample_weights_fields) (simp add: sample_dvf_config_def runtime_dvf_config_def)

section \<open>The finalised head\<close>

text \<open>
  C2. Finality never reverts. Along any sequence of steps of the chain the finalised block number does
  not decrease; as long as it is the same, so is the finalised hash; when it has moved, it is
  a checkpoint with a recorded hash; and every block that counted as finalised still does.
\<close>

theorem finality_never_reverts:
  assumes "chain_steps pcfg cfg C w w'"
  shows "FinalizedBlockNumber w \<le> FinalizedBlockNumber w'
    \<and> (FinalizedBlockNumber w' = FinalizedBlockNumber w \<longrightarrow> FinalizedBlockHash w' = FinalizedBlockHash w)
    \<and> (FinalizedBlockNumber w' \<noteq> FinalizedBlockNumber w \<longrightarrow>
        is_checkpoint_block cfg (FinalizedBlockNumber w') \<and> FinalizedBlockHash w' \<noteq> None)
    \<and> (is_block_finalized w n \<longrightarrow> is_block_finalized w' n)"
  using steps_moved [OF assms] by (auto simp: finality_moved_def is_block_finalized_def)

definition finalized_world :: "(account_id \<Rightarrow> u128 \<times> u128, nat) dvf_world" where
  "finalized_world = snd (dvf_dispatch runtime_pos_config sample_dvf_config book_currency Unsigned
     (Submit_justification (sample_justification [1, 2] 0 10 7)) sample_world)"

lemma finalized_world_head:
  "FinalizedBlockNumber finalized_world = 10" "FinalizedBlockHash finalized_world = Some (Hash 7)"
  using justification_accepted [OF sample_valid(1)]
  by (simp_all add: finalized_world_def submit_justification_def vote_sample_defs)

theorem finality_never_reverts_witness:
  "FinalizedBlockNumber sample_world = 0 \<and> FinalizedBlockNumber finalized_world = 10
    \<and> is_checkpoint_block sample_dvf_config (FinalizedBlockNumber finalized_world)"
proof -
  have "chain_steps runtime_pos_config sample_dvf_config book_currency sample_world finalized_world"
    unfolding finalized_world_def by (rule chain_steps.more [OF chain_steps.none chain_step.dvf_call])
  from finality_never_reverts [OF this] show ?thesis
    by (simp add: finalized_world_head sample_weights_fields)
qed

lemma view_head:
  "finality_view w' = finality_view w \<Longrightarrow> FinalizedBlockNumber w' = FinalizedBlockNumber w"
  by (simp add: finality_view_def)

lemmas registry_calls_head = registry_calls_view [THEN view_head]

lemma vote_moves_head:
  assumes "FinalizedBlockNumber (snd (submit_dvf_vote cfg orig v w)) \<noteq> FinalizedBlockNumber w"
  shows "\<exists>a. orig = Signed a"
    "threshold_of cfg (TotalVotingWeight w) \<le> sat_add (sm_val 0 (VoteTallies w) (vote_block_hash v))
       (sm_val 0 (EpochVotingWeight w) (validator_account v))"
    "FinalizedBlockNumber (snd (submit_dvf_vote cfg orig v w)) = vote_block_number v"
    "FinalizedBlockHash (snd (submit_dvf_vote cfg orig v w)) = Some (vote_block_hash v)"
  using assms
  by (cases orig; auto simp: submit_dvf_vote_def Let_def sm_val_def split: if_splits option.splits)+

lemma justification_moves_head:
  assumes "FinalizedBlockNumber (snd (submit_justification cfg orig j w)) \<noteq> FinalizedBlockNumber w"
  shows "orig = Unsigned" "justification_valid cfg w j"
    "FinalizedBlockNumber (snd (submit_justification cfg orig j w)) = vote_block_number (hd (votes j))"
    "FinalizedBlockHash (snd (submit_justification cfg orig j w)) = Some (just_block_hash j)"
proof -
  show orig: "orig = Unsigned"
    using assms by (cases orig) (simp_all add: submit_justification_def)
  show valid: "justification_valid cfg w j"
    using assms justification_refused [of cfg w j] orig by (fastforce simp: submit_justification_def)
  show "FinalizedBlockNumber (snd (submit_justification cfg orig j w)) = vote_block_number (hd (votes j))"
    "FinalizedBlockHash (snd (submit_justification cfg orig j w)) = Some (just_block_hash j)"
    by (simp_all add: submit_justification_def orig justification_accepted [OF valid])
qed

text \<open>
  C3. Only a quorum moves the head. If a step of the chain changes the finalised block number, it is
  the submission of a signed vote that brings the tally of its block to the threshold, or of an
  unsigned justification that is valid; and the new head is the block that the vote (the first
  vote of the justification) names.
\<close>

theorem only_quorums_finalize:
  assumes "chain_step pcfg cfg C w w'" and "FinalizedBlockNumber w' \<noteq> FinalizedBlockNumber w"
  shows "(\<exists>a v. w' = snd (submit_dvf_vote cfg (Signed a) v w)
        \<and> threshold_of cfg (TotalVotingWeight w) \<le> sat_add (sm_val 0 (VoteTallies w) (vote_block_hash v))
            (sm_val 0 (EpochVotingWeight w) (validator_account v))
        \<and> FinalizedBlockNumber w' = vote_block_number v \<and> FinalizedBlockHash w' = Some (vote_block_hash v))
    \<or> (\<exists>j. w' = snd (submit_justification cfg Unsigned j w) \<and> justification_valid cfg w j
        \<and> FinalizedBlockNumber w' = vote_block_number (hd (votes j))
        \<and> FinalizedBlockHash w' = Some (just_block_hash j))"
  using assms(1)
proof (cases rule: chain_step.cases)
  case (dvf_call orig call)
  show ?thesis
  proof (cases call)
    case (Submit_dvf_vote v)
    with dvf_call assms(2)
    have "FinalizedBlockNumber (snd (submit_dvf_vote cfg orig v w)) \<noteq> FinalizedBlockNumber w"
      by simp
    from vote_moves_head [OF this] dvf_call Submit_dvf_vote show ?thesis
      by auto
  next
    case (Submit_justification j)
    with dvf_call assms(2)
    have "FinalizedBlockNumber (snd (submit_justification cfg orig j w)) \<noteq> FinalizedBlockNumber w"
      by simp
    from justification_moves_head [OF this] dvf_call Submit_justification show ?thesis
      by auto
  qed (use dvf_call assms(2) in \<open>simp_all add: registry_calls_head\<close>)
next
  case (new_block n)
  from hook_view [OF new_block] assms(2) show ?thesis
    by (simp add: finality_view_def)
next
  case (epoch_weights e vs)
  with assms(2) show ?thesis
    by simp
qed (use assms(2) in \<open>simp_all add: registry_calls_head
    view_head [OF finality_frame.dispatch_keeps [OF refl]] finality_frame.exported_keeps [OF refl, THEN view_head]\<close>)

theorem only_quorums_finalize_witness:
  "FinalizedBlockHash finalized_world = Some (Hash 7) \<and> FinalizedBlockNumber finalized_world = 10"
proof -
  have step: "chain_step runtime_pos_config sample_dvf_config book_currency sample_world finalized_world"
    unfolding finalized_world_def by (rule chain_step.dvf_call)
  from only_quorums_finalize [OF step] show ?thesis
    by (simp add: finalized_world_head sample_weights_fields)
qed

section \<open>Frozen weights\<close>

text \<open>
  C10. Freezing an epoch over distinct validators stores, for each of them, the exact share of the
  scale of 32000 that its stake makes up, rounded down, and nothing for anyone else; the recorded
  total is the sum of the stored weights, at most 32000 and short of it by at most one unit for
  each validator. (The stakes must be small enough that their scaled sum fits the word.)
\<close>

theorem frozen_weights:
  assumes "distinct (map fst vs)" and "length vs < 2 ^ 32"
    and "0 < stake_sum vs" and "stake_sum vs * 32000 < 2 ^ 128"
    and "x \<in> set vs" and "a \<notin> fst ` set vs"
  shows "unat (sm_val 0 (EpochVotingWeight (freeze_epoch_weights cfg e vs w)) (fst x))
      = unat (fst (snd x)) * 32000 div stake_sum vs
    \<and> \<not> sm_has (EpochVotingWeight (freeze_epoch_weights cfg e vs w)) a
    \<and> unat (TotalVotingWeight (freeze_epoch_weights cfg e vs w))
        = sm_sum (EpochVotingWeight (freeze_epoch_weights cfg e vs w))
    \<and> unat (TotalVotingWeight (freeze_epoch_weights cfg e vs w)) \<le> 32000
    \<and> 32000 \<le> unat (TotalVotingWeight (freeze_epoch_weights cfg e vs w)) + length vs"
proof -
  have small: "stake_sum vs < 2 ^ 128"
    using assms(4) by simp
  note exact = freeze_exact(2,3) [OF assms(1) small assms(2), of cfg e w]
  have "unat (sm_val 0 (EpochVotingWeight (freeze_epoch_weights cfg e vs w)) (fst x))
      = unat (fst (snd x)) * 32000 div stake_sum vs"
    by (simp only: freeze_lookup [OF assms(1,5)] normalized_exact [OF assms(4,3,5)])
  then show ?thesis
    using exact weights_le_scale [OF small assms(2)] weights_ge_scale [OF assms(4,3)]
      assms(6) by (simp add: freeze_electorate)
qed

theorem frozen_weights_witness:
  "unat (sm_val 0 (EpochVotingWeight (freeze_epoch_weights sample_dvf_config 0 sample_stakes sample_world))
      charlie) = 6400
    \<and> 32000 \<le> unat (TotalVotingWeight (freeze_epoch_weights sample_dvf_config 0 sample_stakes
        sample_world)) + 3"
proof -
  have "0 < stake_sum sample_stakes" "stake_sum sample_stakes * 32000 < 2 ^ 128"
    "(charlie, 2500, 80) \<in> set sample_stakes" "AccountId 4 \<notin> fst ` set sample_stakes"
    by (simp_all add: sample_stakes_def stake_sum_def alice_def bob_def charlie_def)
  from frozen_weights [OF sample_stakes_ok(1,3) this, of sample_dvf_config 0 sample_world]
  show ?thesis
    by (simp add: sample_stakes_def stake_sum_def)
qed

section \<open>Single votes\<close>

definition vote_recordable :: "'sig dvf_config \<Rightarrow> ('c, 'sig, 'z) dvf_world_scheme \<Rightarrow> 'sig dvf_vote \<Rightarrow> bool" where
  "vote_recordable cfg w v \<longleftrightarrow> verify cfg (signature v) (payload_of v) (validator_account v)
     \<and> sm_has (EpochVotingWeight w) (validator_account v)
     \<and> is_checkpoint_block cfg (vote_block_number v) \<and> FinalizedBlockNumber w < vote_block_number v
     \<and> \<not> sm_has (VoteRecords w) (CurrentRound w, validator_account v)"

lemma vote_accepted_iff:
  "fst (submit_dvf_vote cfg (Signed a) v w) = Inr () \<longleftrightarrow> vote_recordable cfg w v"
  by (auto simp: submit_dvf_vote_def vote_recordable_def sm_has_def Let_def split: option.split)

lemma vote_refused:
  "\<not> vote_recordable cfg w v \<Longrightarrow> snd (submit_dvf_vote cfg (Signed a) v w) = w"
  by (auto simp: submit_dvf_vote_def vote_recordable_def sm_has_def Let_def split: option.split)

text \<open>The state in which the vote is recorded and tallied, before the threshold is looked at.\<close>

definition vote_booked :: "'sig dvf_vote \<Rightarrow> ('c, 'sig, 'z) dvf_world_scheme \<Rightarrow> ('c, 'sig, 'z) dvf_world_scheme" where
  "vote_booked v w = w\<lparr>
     VoteRecords := sm_put (CurrentRound w, validator_account v) v (VoteRecords w),
     VoteTallies := sm_put (vote_block_hash v)
       (sat_add (sm_val 0 (VoteTallies w) (vote_block_hash v))
         (sm_val 0 (EpochVotingWeight w) (validator_account v))) (VoteTallies w)\<rparr>"

lemma vote_taken:
  "vote_recordable cfg w v \<Longrightarrow> submit_dvf_vote cfg (Signed a) v w =
     (Inr (), let t = sat_add (sm_val 0 (VoteTallies w) (vote_block_hash v))
                    (sm_val 0 (EpochVotingWeight w) (validator_account v))
       in if threshold_of cfg (TotalVotingWeight w) \<le> t
          then finalize_block cfg (vote_block_hash v) (vote_block_number v) (CurrentRound w) t
                 (vote_booked v w)
          else vote_booked v w)"
  by (auto simp: submit_dvf_vote_def vote_recordable_def vote_booked_def sm_has_def sm_val_def Let_def
      split: option.split)

lemma sm_get_filter_keys:
  "sm_get (filter (\<lambda>p. Q (fst p)) m) k = (if Q k then sm_get m k else None)"
  by (induction m) (auto simp: sm_get_def)

lemma finalize_records:
  "sm_get (VoteRecords (finalize_block cfg h n r a w)) k =
     (if VoteRetentionRounds cfg < r \<and> fst k < sat_sub r (VoteRetentionRounds cfg) then None
      else sm_get (VoteRecords w) k)"
proof -
  have eq: "(\<lambda>((r', v), vote). \<not> r' < c) = (\<lambda>p. \<not> fst (fst p) < c)" for c :: u32
    by auto
  show ?thesis
    by (simp add: finalize_block_def prune_vote_records_def Let_def dvf_deposit_event_def eq
        sm_get_filter_keys [where Q = "\<lambda>k. \<not> fst k < c" for c])
qed

lemma vote_recorded:
  assumes "vote_recordable cfg w v"
  shows "sm_has (VoteRecords (snd (submit_dvf_vote cfg (Signed a) v w)))
    (CurrentRound w, validator_account v)"
proof -
  have "\<not> CurrentRound w < sat_sub (CurrentRound w) (VoteRetentionRounds cfg)"
    using sat_sub_le [of "CurrentRound w" "VoteRetentionRounds cfg"] by (simp add: not_less)
  then show ?thesis
    by (simp add: vote_taken [OF assms] Let_def sm_has_def finalize_records vote_booked_def)
qed

text \<open>
  A signed vote is recorded exactly when its signature is valid, its validator holds frozen
  weight, its block is a checkpoint above the finalised one, and the validator has no vote in the
  current round yet; a vote that is not recorded changes nothing. Once a vote is recorded and the
  round goes on, every further vote of that validator is refused until the round changes.
\<close>

theorem one_vote_per_round:
  "(fst (submit_dvf_vote cfg (Signed a) v w) = Inr () \<longleftrightarrow> vote_recordable cfg w v)
    \<and> (\<not> vote_recordable cfg w v \<longrightarrow> snd (submit_dvf_vote cfg (Signed a) v w) = w)
    \<and> (vote_recordable cfg w v \<and> CurrentRound (snd (submit_dvf_vote cfg (Signed a) v w)) = CurrentRound w
        \<and> validator_account u = validator_account v \<longrightarrow>
        fst (submit_dvf_vote cfg orig u (snd (submit_dvf_vote cfg (Signed a) v w))) \<noteq> Inr ())"
proof -
  have iff: "fst (submit_dvf_vote cfg (Signed a) v w) = Inr () \<longleftrightarrow> vote_recordable cfg w v"
    and same: "\<not> vote_recordable cfg w v \<Longrightarrow> snd (submit_dvf_vote cfg (Signed a) v w) = w"
    by (simp_all add: vote_accepted_iff vote_refused)
  moreover have "fst (submit_dvf_vote cfg orig u (snd (submit_dvf_vote cfg (Signed a) v w))) \<noteq> Inr ()"
    if "vote_recordable cfg w v" "CurrentRound (snd (submit_dvf_vote cfg (Signed a) v w)) = CurrentRound w"
      "validator_account u = validator_account v"
  proof (cases orig)
    case (Signed b)
    have "\<not> vote_recordable cfg (snd (submit_dvf_vote cfg (Signed a) v w)) u"
      using vote_recorded [OF that(1), of a] that(2,3) by (simp add: vote_recordable_def)
    then show ?thesis
      by (simp only: Signed vote_accepted_iff not_False_eq_True)
  qed (simp_all add: submit_dvf_vote_def)
  ultimately show ?thesis
    by blast
qed

theorem one_vote_per_round_witness:
  "vote_recordable sample_dvf_config sample_world (sample_vote 1 0 10 7)
    \<and> fst (submit_dvf_vote sample_dvf_config (Signed bob) (sample_vote 1 0 20 8)
        (snd (submit_dvf_vote sample_dvf_config (Signed alice) (sample_vote 1 0 10 7) sample_world)))
      \<noteq> Inr ()"
proof -
  have ok: "vote_recordable sample_dvf_config sample_world (sample_vote 1 0 10 7)"
    by (simp add: vote_recordable_def is_checkpoint_block_def sample_weights_fields vote_sample_defs
        sm_has_def sm_get_def)
  moreover have "CurrentRound (snd (submit_dvf_vote sample_dvf_config (Signed alice)
      (sample_vote 1 0 10 7) sample_world)) = CurrentRound sample_world"
    by (simp add: submit_dvf_vote_def is_checkpoint_block_def sample_weights_fields vote_sample_defs
        map_defs Let_def sat_add_def)
  ultimately show ?thesis
    using one_vote_per_round [of sample_dvf_config alice "sample_vote 1 0 10 7" sample_world
      "sample_vote 1 0 20 8" "Signed bob"]
    by (simp add: sample_vote_def)
qed

text \<open>Votes submitted one after the other, by whatever accounts.\<close>

definition cast_votes ::
  "'sig dvf_config \<Rightarrow> (account_id \<times> 'sig dvf_vote) list \<Rightarrow> ('c, 'sig, 'z) dvf_world_scheme
     \<Rightarrow> ('c, 'sig, 'z) dvf_world_scheme" where
  "cast_votes cfg vs w = fold (\<lambda>(a, v) w. snd (submit_dvf_vote cfg (Signed a) v w)) vs w"

text \<open>The validators with a recorded vote for a hash in the current round.\<close>

definition round_voters :: "('c, 'sig, 'z) dvf_world_scheme \<Rightarrow> hash \<Rightarrow> account_id set" where
  "round_voters w h =
     {a. case sm_get (VoteRecords w) (CurrentRound w, a) of None \<Rightarrow> False | Some v \<Rightarrow> vote_block_hash v = h}"

definition tally_sound :: "('c, 'sig, 'z) dvf_world_scheme \<Rightarrow> bool" where
  "tally_sound w \<longleftrightarrow> (\<forall>h. unat (sm_val 0 (VoteTallies w) h)
     \<le> sum (vote_weight (EpochVotingWeight w)) (round_voters w h))"

lemma finite_round_voters: "finite (round_voters w h)"
proof (rule finite_subset)
  show "round_voters w h \<subseteq> snd ` set (sm_keys (VoteRecords w))"
    by (force simp: round_voters_def smap.set_keys split: option.splits)
qed simp

lemma round_voters_booked:
  assumes "\<not> sm_has (VoteRecords w) (CurrentRound w, validator_account v)"
  shows "round_voters (vote_booked v w) h = (if h = vote_block_hash v
    then insert (validator_account v) (round_voters w h) else round_voters w h)"
    and "validator_account v \<notin> round_voters w h"
  using assms by (auto simp: round_voters_def vote_booked_def sm_has_def split: option.splits if_splits)

lemma vote_kept_going:
  assumes "vote_recordable cfg w v"
    and "FinalizedBlockNumber (snd (submit_dvf_vote cfg (Signed a) v w)) = FinalizedBlockNumber w"
  shows "snd (submit_dvf_vote cfg (Signed a) v w) = vote_booked v w"
  using assms by (auto simp: vote_taken Let_def vote_recordable_def split: if_splits)

lemma vote_tally_sound:
  assumes "tally_sound w"
    and "FinalizedBlockNumber (snd (submit_dvf_vote cfg (Signed a) v w)) = FinalizedBlockNumber w"
  shows "tally_sound (snd (submit_dvf_vote cfg (Signed a) v w))
    \<and> EpochVotingWeight (snd (submit_dvf_vote cfg (Signed a) v w)) = EpochVotingWeight w"
proof (cases "vote_recordable cfg w v")
  case True
  then have new: "\<not> sm_has (VoteRecords w) (CurrentRound w, validator_account v)"
    by (simp add: vote_recordable_def)
  have "tally_sound (vote_booked v w)"
    using assms(1) round_voters_booked [OF new] finite_round_voters [of w]
    by (auto simp: tally_sound_def) (auto simp: vote_booked_def vote_weight_def sat_simps
        intro: le_trans [OF min.cobounded1])
  with vote_kept_going [OF True assms(2)] show ?thesis
    by (simp add: vote_booked_def)
next
  case False
  with assms(1) vote_refused [OF False, of a] show ?thesis
    by simp
qed

lemma cast_votes_sound:
  assumes "tally_sound w" and "FinalizedBlockNumber (cast_votes cfg vs w) = FinalizedBlockNumber w"
  shows "tally_sound (cast_votes cfg vs w) \<and> EpochVotingWeight (cast_votes cfg vs w) = EpochVotingWeight w"
  using assms
proof (induction vs arbitrary: w)
  case Nil
  then show ?case by (simp add: cast_votes_def)
next
  case (Cons p vs)
  obtain a v where p: "p = (a, v)"
    by (cases p)
  let ?w1 = "snd (submit_dvf_vote cfg (Signed a) v w)"
  have rest: "cast_votes cfg (p # vs) w = cast_votes cfg vs ?w1"
    by (simp add: cast_votes_def p)
  have mono: "FinalizedBlockNumber u \<le> FinalizedBlockNumber (cast_votes cfg us u)"
    for us and u :: "('a, 'b, 'c) dvf_world_scheme"
  proof (induction us arbitrary: u)
    case (Cons q us)
    obtain b x where q: "q = (b, x)"
      by (cases q)
    have "FinalizedBlockNumber u \<le> FinalizedBlockNumber (snd (submit_dvf_vote cfg (Signed b) x u))"
      using vote_moved [of cfg u "Signed b" x] by (auto simp: finality_moved_def)
    also have "\<dots> \<le> FinalizedBlockNumber (cast_votes cfg (q # us) u)"
      using Cons by (simp add: cast_votes_def q)
    finally show ?case .
  qed (simp add: cast_votes_def)
  have "FinalizedBlockNumber w \<le> FinalizedBlockNumber ?w1"
    using vote_moved [of cfg w "Signed a" v] by (auto simp: finality_moved_def)
  with mono [of ?w1 vs] Cons.prems(2) rest have "FinalizedBlockNumber ?w1 = FinalizedBlockNumber w"
    by simp
  from vote_tally_sound [OF Cons.prems(1) this] Cons.IH [of ?w1] Cons.prems(2) rest this show ?case
    by simp
qed

text \<open>
  C9. Within a round a validator counts once. Start with empty tallies and let any accounts submit any
  votes, in any order; as long as no block is finalised, the tally of a hash is at most the frozen
  weight of the distinct validators whose recorded vote of the round is for that hash.
\<close>

theorem tally_counts_validators_once:
  assumes "VoteTallies w = []" and "FinalizedBlockNumber (cast_votes cfg vs w) = FinalizedBlockNumber w"
  shows "unat (sm_val 0 (VoteTallies (cast_votes cfg vs w)) h)
    \<le> sum (vote_weight (EpochVotingWeight w)) (round_voters (cast_votes cfg vs w) h)"
proof -
  have "tally_sound w"
    using assms(1) by (simp add: tally_sound_def)
  from cast_votes_sound [OF this assms(2)] show ?thesis
    by (auto simp: tally_sound_def)
qed

lemma alice_twice:
  "cast_votes sample_dvf_config [(alice, sample_vote 1 0 20 8), (bob, sample_vote 1 0 20 8)] sample_world
     = vote_booked (sample_vote 1 0 20 8) sample_world"
  by (simp add: cast_votes_def submit_dvf_vote_def vote_booked_def is_checkpoint_block_def
      sample_weights_fields vote_sample_defs map_defs Let_def sat_add_def)

theorem tally_counts_validators_once_witness:
  "unat (sm_val 0 (VoteTallies (vote_booked (sample_vote 1 0 20 8) sample_world)) (Hash 8))
    \<le> sum (vote_weight (EpochVotingWeight sample_world))
        (round_voters (vote_booked (sample_vote 1 0 20 8) sample_world) (Hash 8))"
  using tally_counts_validators_once [of sample_world sample_dvf_config
    "[(alice, sample_vote 1 0 20 8), (bob, sample_vote 1 0 20 8)]" "Hash 8"] alice_twice
  by (simp add: sample_weights_fields vote_booked_def)

text \<open>
  Across rounds a vote counts again. The round, epoch and validator set that a vote names are not
  compared with the current ones and a tally survives the finalisation of another block, so the
  same signed vote is recorded again in every later round in which its block is still above the
  head, its weight is added to the same tally, and it can finalise the block without any other
  validator.
\<close>

theorem vote_counted_again:
  fixes w w' :: "('c, 'sig, 'z) dvf_world_scheme"
  assumes "vote_recordable cfg w v" and "EpochVotingWeight w' = EpochVotingWeight w"
    and "FinalizedBlockNumber w' < vote_block_number v"
    and "\<not> sm_has (VoteRecords w') (CurrentRound w', validator_account v)"
  shows "fst (submit_dvf_vote cfg (Signed a) v w') = Inr ()
    \<and> (if threshold_of cfg (TotalVotingWeight w') \<le> sat_add (sm_val 0 (VoteTallies w') (vote_block_hash v))
            (sm_val 0 (EpochVotingWeight w) (validator_account v))
       then FinalizedBlockNumber (snd (submit_dvf_vote cfg (Signed a) v w')) = vote_block_number v
       else sm_val 0 (VoteTallies (snd (submit_dvf_vote cfg (Signed a) v w'))) (vote_block_hash v)
          = sat_add (sm_val 0 (VoteTallies w') (vote_block_hash v))
              (sm_val 0 (EpochVotingWeight w) (validator_account v)))"
proof -
  have "vote_recordable cfg w' v"
    using assms by (simp add: vote_recordable_def)
  then show ?thesis
    by (simp add: vote_taken Let_def vote_booked_def assms(2))
qed

text \<open>Alice alone, with 40 percent of the weight, finalises block 20 by sending one vote twice.\<close>

definition next_round_world :: "(account_id \<Rightarrow> u128 \<times> u128, nat) dvf_world" where
  "next_round_world = snd (submit_justification sample_dvf_config Unsigned
     (sample_justification [1, 2] 0 10 7)
     (snd (submit_dvf_vote sample_dvf_config (Signed alice) (sample_vote 1 0 20 8) sample_world)))"

lemma next_round_fields:
  "EpochVotingWeight next_round_world = EpochVotingWeight sample_world"
  "TotalVotingWeight next_round_world = 32000" "FinalizedBlockNumber next_round_world = 10"
  "CurrentRound next_round_world = 1" "VoteTallies next_round_world = [(Hash 8, 12800)]"
  "VoteRecords next_round_world = [((0, alice), sample_vote 1 0 20 8)]"
  by (simp_all add: next_round_world_def submit_justification_def verify_and_finalize_justification_def
      submit_dvf_vote_def finalize_block_def prune_vote_records_def is_checkpoint_block_def
      dvf_deposit_event_def sample_weights_fields vote_sample_defs map_defs Let_def sat_add_def)

theorem vote_counted_again_witness:
  "FinalizedBlockNumber (snd (submit_dvf_vote sample_dvf_config (Signed alice) (sample_vote 1 0 20 8)
     next_round_world)) = 20"
proof -
  have "vote_recordable sample_dvf_config sample_world (sample_vote 1 0 20 8)"
    "FinalizedBlockNumber next_round_world < vote_block_number (sample_vote 1 0 20 8)"
    "\<not> sm_has (VoteRecords next_round_world)
        (CurrentRound next_round_world, validator_account (sample_vote 1 0 20 8))"
    by (simp_all add: vote_recordable_def is_checkpoint_block_def sample_weights_fields
        next_round_fields vote_sample_defs sm_has_def sm_get_def)
  from vote_counted_again [OF this(1) next_round_fields(1) this(2,3), of alice] show ?thesis
    by (simp add: next_round_fields sample_weights_fields vote_sample_defs sm_val_def sm_get_def
        sat_add_def)
qed

section \<open>What a justification finalises\<close>

lemma tally_exact:
  "unat (tally m acc vs)
     = min (unat acc + sum_list (map (\<lambda>v. vote_weight m (validator_account v)) vs)) (2 ^ 128 - 1)"
proof (induction vs arbitrary: acc)
  case Nil
  then show ?case
    using unat_le_max [of acc] by (simp add: tally_def min_def)
next
  case (Cons v vs)
  have "tally m acc (v # vs) = tally m (sat_add acc (sm_val 0 m (validator_account v))) vs"
    by (simp add: tally_def)
  with Cons.IH show ?case
    by (simp add: vote_weight_def sat_simps min_def)
qed

lemma tally_perm:
  assumes "mset vs = mset us"
  shows "tally m 0 vs = tally m 0 us"
proof -
  have "sum_list (map f vs) = sum_list (map f us)" for f :: "'a dvf_vote \<Rightarrow> nat"
    using assms by (metis mset_map sum_mset_sum_list)
  then have "unat (tally m 0 vs) = unat (tally m 0 us)"
    by (simp add: tally_exact)
  then show ?thesis
    by (simp add: word_unat_eq_iff)
qed

text \<open>
  The order of the votes decides which height is finalised. Votes of one justification must agree
  on the hash, but not on the block number; the pallet takes the number of the first one. Any
  reordering of an acceptable justification whose first vote names a checkpoint above the head is
  acceptable too, and finalises the same hash at the height that its own first vote names.
\<close>

theorem first_vote_decides_height:
  assumes "justification_valid cfg w j" and "mset vs = mset (votes j)" and "vs \<noteq> []"
    and "is_checkpoint_block cfg (vote_block_number (hd vs))"
    and "FinalizedBlockNumber w < vote_block_number (hd vs)"
  shows "\<exists>w'. submit_justification cfg Unsigned (j\<lparr>votes := vs\<rparr>) w = (Inr (), w')
    \<and> FinalizedBlockNumber w' = vote_block_number (hd vs) \<and> FinalizedBlockHash w' = Some (just_block_hash j)"
proof -
  have set: "set vs = set (votes j)"
    using assms(2) by (rule mset_eq_setD)
  have ok: "vote_ok cfg m (j\<lparr>votes := vs\<rparr>) v = vote_ok cfg m j v" for m v
    by (simp add: vote_ok_def)
  have "mset (map validator_account vs) = mset (map validator_account (votes j))"
    using assms(2) by simp
  then have "distinct (map validator_account vs) = distinct (map validator_account (votes j))"
    by (rule mset_eq_imp_distinct_iff)
  with assms set ok tally_perm [OF assms(2)] have "justification_valid cfg w (j\<lparr>votes := vs\<rparr>)"
    by (simp add: justification_valid_def)
  from justification_accepted [OF this] show ?thesis
    by (simp add: submit_justification_def)
qed

definition mixed_justification :: "nat dvf_justification" where
  "mixed_justification = \<lparr>round_number = 0, just_block_hash = Hash 7,
     votes = [sample_vote 1 0 10 7, sample_vote 2 0 20 7]\<rparr>"

theorem first_vote_decides_height_witness:
  "\<exists>w'. submit_justification sample_dvf_config Unsigned
      (mixed_justification\<lparr>votes := [sample_vote 2 0 20 7, sample_vote 1 0 10 7]\<rparr>) sample_world = (Inr (), w')
    \<and> FinalizedBlockNumber w' = 20 \<and> FinalizedBlockHash w' = Some (Hash 7)"
proof -
  have "justification_valid sample_dvf_config sample_world mixed_justification"
    by (simp add: justification_valid_def vote_ok_def is_checkpoint_block_def tally_def
        sample_weights_fields mixed_justification_def vote_sample_defs sat_add_def map_defs)
  moreover have "is_checkpoint_block sample_dvf_config (vote_block_number (sample_vote 2 0 20 7))"
    by (simp add: is_checkpoint_block_def vote_sample_defs)
  ultimately show ?thesis
    using first_vote_decides_height [of sample_dvf_config sample_world mixed_justification
      "[sample_vote 2 0 20 7, sample_vote 1 0 10 7]"]
    by (simp add: mixed_justification_def sample_weights_fields) (simp add: sample_vote_def)
qed

text \<open>
  Finalising a block in a round moves the protocol to the next round, drops the tally of that
  block and no other, and forgets exactly the votes of rounds that lie more than the configured
  number of rounds back; all weights stay frozen.
\<close>

theorem finalize_block_effect:
  "unat (CurrentRound (finalize_block cfg h n r a w)) = min (unat r + 1) (2 ^ 32 - 1)
    \<and> sm_get (VoteTallies (finalize_block cfg h n r a w)) h' = (if h' = h then None else sm_get (VoteTallies w) h')
    \<and> sm_get (VoteRecords (finalize_block cfg h n r a w)) (r', v) =
        (if unat r' + unat (VoteRetentionRounds cfg) < unat r then None else sm_get (VoteRecords w) (r', v))
    \<and> EpochVotingWeight (finalize_block cfg h n r a w) = EpochVotingWeight w
    \<and> TotalVotingWeight (finalize_block cfg h n r a w) = TotalVotingWeight w"
proof -
  have cut: "(VoteRetentionRounds cfg < r \<and> r' < sat_sub r (VoteRetentionRounds cfg))
      \<longleftrightarrow> unat r' + unat (VoteRetentionRounds cfg) < unat r"
    by (auto simp: word_less_nat_alt sat_simps)
  have "CurrentRound (finalize_block cfg h n r a w) = sat_add r 1"
    "VoteTallies (finalize_block cfg h n r a w) = sm_del h (VoteTallies w)"
    "EpochVotingWeight (finalize_block cfg h n r a w) = EpochVotingWeight w"
    "TotalVotingWeight (finalize_block cfg h n r a w) = TotalVotingWeight w"
    by (simp_all add: finalize_block_def prune_vote_records_def Let_def dvf_deposit_event_def)
  then show ?thesis
    by (simp add: finalize_records cut sat_simps)
qed

text \<open>
  The finality query. A block is reported final exactly when it is at or below the head, with the
  hash of the head; the checkpoint that is named as providing the finality is the last multiple of
  the interval at or below the block itself, so it precedes every final block that is not a
  checkpoint, although a checkpoint finalises the blocks before it.
\<close>

theorem finality_info_names_earlier_checkpoint:
  assumes "0 < FinalityCheckpointInterval cfg"
  shows "is_finalized (get_finality_info cfg w n) = is_block_finalized w n
    \<and> (if is_block_finalized w n
       then finalized_checkpoint_hash (get_finality_info cfg w n) = FinalizedBlockHash w
         \<and> (\<exists>c. finalized_by_checkpoint (get_finality_info cfg w n) = Some c
             \<and> unat c = unat n - unat n mod unat (FinalityCheckpointInterval cfg)
             \<and> (c < n \<longleftrightarrow> \<not> is_checkpoint_block cfg n))
       else finalized_checkpoint_hash (get_finality_info cfg w n) = None
         \<and> finalized_by_checkpoint (get_finality_info cfg w n) = None)"
proof -
  let ?i = "FinalityCheckpointInterval cfg"
  have "unat n div unat ?i * unat ?i < 2 ^ 32"
    using le_less_trans [OF div_times_less_eq_dividend unat_lt [of n]] by simp
  then have c: "unat (n div ?i * ?i) = unat n - unat n mod unat ?i"
    by (simp only: unat_word_ariths(2) unat_div minus_mod_eq_div_mult) simp
  have "n mod ?i = 0 \<longleftrightarrow> unat n mod unat ?i = 0"
    by (simp add: word_unat_eq_iff unat_mod)
  moreover have "n div ?i * ?i < n \<longleftrightarrow> unat n mod unat ?i \<noteq> 0"
    unfolding word_less_nat_alt c using mod_less_eq_dividend [of "unat n" "unat ?i"] by linarith
  ultimately have "n div ?i * ?i < n \<longleftrightarrow> \<not> is_checkpoint_block cfg n"
    using assms by (auto simp: is_checkpoint_block_def)
  with assms c show ?thesis
    by (simp add: get_finality_info_def is_block_finalized_def)
qed

theorem finality_info_names_earlier_checkpoint_witness:
  "finalized_by_checkpoint (get_finality_info sample_dvf_config finalized_world 5) = Some 0"
proof -
  have interval: "FinalityCheckpointInterval sample_dvf_config = 10"
    by (simp add: sample_dvf_config_def runtime_dvf_config_def)
  then obtain c where "finalized_by_checkpoint (get_finality_info sample_dvf_config finalized_world 5)
      = Some c" "unat c = 0"
    using finality_info_names_earlier_checkpoint [of sample_dvf_config finalized_world 5]
    by (auto simp: is_block_finalized_def finalized_world_head)
  then show ?thesis
    by (simp add: unat_eq_0)
qed

text \<open>
  The transaction pool admits every justification the call would accept, with the height of its
  first vote as priority and its hash as tag; all others the call refuses.
\<close>

theorem pool_agrees_with_call:
  "if justification_valid cfg w j
   then validate_unsigned_justification j w = ValidTransaction (ucast (vote_block_number (hd (votes j))))
     ''dvf_justification_'' (just_block_hash j) 5
   else fst (submit_justification cfg Unsigned j w) \<noteq> Inr ()"
proof (cases "justification_valid cfg w j")
  case True
  then show ?thesis
    by (cases "votes j") (simp_all add: justification_valid_def validate_unsigned_justification_def not_le)
next
  case False
  then show ?thesis
    by (simp add: submit_justification_def accepted_iff_valid)
qed

end
