(* ===== verification/Dvf_Provider.thy ===== *)
theory Dvf_Provider
  imports Dvf_Finality
begin

text \<open>
  The implementation of \<open>ValidatorRegistryProvider\<close> by \<open>pallet-cerulea-dvf\<close>, through which the
  consensus pallet reads and writes the registry.
\<close>

section \<open>Queries\<close>

record validator_profile =
  vp_stake :: u128
  vp_poi_score :: u32
  vp_final_score :: u64
  vp_trust_score :: u64
  vp_status :: validator_status
  vp_inference_count :: u64
  vp_name :: "8 word list option"
  vp_last_active_block :: u32

definition get_validator_profile ::
  "('c, 'sig, 'z) dvf_world_scheme \<Rightarrow> account_id \<Rightarrow> validator_profile option" where
  "get_validator_profile w v =
     (case sm_get (ValidatorStates w) v of
        None \<Rightarrow> None
      | Some state \<Rightarrow> Some \<lparr>
          vp_stake = sm_val 0 (Stake w) v,
          vp_poi_score = ucast (inference_score (current state)),
          vp_final_score = final_score (current state),
          vp_trust_score = trust_score state,
          vp_status = (if v \<in> set (ActiveValidators w) then Active else Inactive),
          vp_inference_count = inference_count state,
          vp_name = map_option (bv_truncate 64) (vs_name state),
          vp_last_active_block = last_active_block state\<rparr>)"

definition get_validator_status ::
  "('c, 'sig, 'z) dvf_world_scheme \<Rightarrow> account_id \<Rightarrow> validator_status option" where
  "get_validator_status w v =
     (if v \<in> set (ActiveValidators w) then Some Active
      else if v \<in> set (ValidatorSet w) then Some Inactive
      else if sm_has (ValidatorLeaveRequests w) v then Some Leaving
      else if sm_has (RecentlyRemovedValidators w) v then Some Ejected
      else None)"

definition get_validator_detailed_cooldown_status ::
  "pos_config \<Rightarrow> ('c, 'sig, 'z) dvf_world_scheme \<Rightarrow> account_id \<Rightarrow> (u32 \<times> bool) option" where
  "get_validator_detailed_cooldown_status pcfg w v =
     (case sm_get (ValidatorLeaveRequests w) v of
        Some leave_request_block \<Rightarrow>
          Some (sat_sub (LeaveCooldown pcfg) (sat_sub (block_number w) leave_request_block), False)
      | None \<Rightarrow>
        (case sm_get (RecentlyRemovedValidators w) v of
           Some removed_at_block \<Rightarrow>
             (let blocks_since_removed = sat_sub (block_number w) removed_at_block
              in if blocks_since_removed < LeaveCooldown pcfg
                 then Some (sat_sub (LeaveCooldown pcfg) blocks_since_removed, False)
                 else Some (0, True))
         | None \<Rightarrow> None))"

section \<open>Updates\<close>

definition update_validator_state ::
  "'sig dvf_config \<Rightarrow> account_id \<Rightarrow> dvf_validator_state \<Rightarrow> ('c, 'sig, 'z) dvf_world_scheme
     \<Rightarrow> ('c, 'sig, 'z) dvf_world_scheme" where
  "update_validator_state cfg v state w =
     w\<lparr>ValidatorStates := sm_put v
        (state\<lparr>vs_history := bv_truncate (MaxValidatorHistorySize cfg) (vs_history state),
               vs_name := map_option (bv_truncate (MaxValidatorNameSize cfg)) (vs_name state)\<rparr>)
        (ValidatorStates w)\<rparr>"

definition remove_validator_state ::
  "account_id \<Rightarrow> ('c, 'sig, 'z) dvf_world_scheme \<Rightarrow> ('c, 'sig, 'z) dvf_world_scheme" where
  "remove_validator_state v w = w\<lparr>ValidatorStates := sm_del v (ValidatorStates w)\<rparr>"

definition set_validator_name ::
  "account_id \<Rightarrow> 8 word list \<Rightarrow> ('c, 'sig, 'z) dvf_world_scheme
     \<Rightarrow> ('c, 'sig, 'z) dvf_world_scheme" where
  "set_validator_name v name w =
     w\<lparr>ValidatorNames := sm_put v (bv_truncate 32 name) (ValidatorNames w)\<rparr>"

definition update_active_validators ::
  "'sig dvf_config \<Rightarrow> account_id list \<Rightarrow> ('c, 'sig, 'z) dvf_world_scheme
     \<Rightarrow> ('c, 'sig, 'z) dvf_world_scheme" where
  "update_active_validators cfg active w =
     w\<lparr>ActiveValidators := bv_truncate (DvfMaxValidators cfg) active\<rparr>"

definition update_validator_set ::
  "'sig dvf_config \<Rightarrow> account_id list \<Rightarrow> ('c, 'sig, 'z) dvf_world_scheme
     \<Rightarrow> ('c, 'sig, 'z) dvf_world_scheme" where
  "update_validator_set cfg vs w = w\<lparr>ValidatorSet := bv_truncate (DvfMaxValidators cfg) vs\<rparr>"

definition add_pending_action ::
  "account_id \<Rightarrow> validator_action \<Rightarrow> ('c, 'sig, 'z) dvf_world_scheme \<Rightarrow> ('c, 'sig, 'z) dvf_world_scheme" where
  "add_pending_action v action w =
     w\<lparr>PendingValidatorActions := sm_put v action (PendingValidatorActions w)\<rparr>"

definition remove_pending_action ::
  "account_id \<Rightarrow> ('c, 'sig, 'z) dvf_world_scheme \<Rightarrow> ('c, 'sig, 'z) dvf_world_scheme" where
  "remove_pending_action v w =
     w\<lparr>PendingValidatorActions := sm_del v (PendingValidatorActions w)\<rparr>"

definition set_validator_performance_history ::
  "account_id \<Rightarrow> performance_record list \<Rightarrow> ('c, 'sig, 'z) dvf_world_scheme
     \<Rightarrow> ('c, 'sig, 'z) dvf_world_scheme" where
  "set_validator_performance_history v history w =
     w\<lparr>ValidatorPerformanceHistory := sm_put v (bv_truncate 100 history)
         (ValidatorPerformanceHistory w)\<rparr>"

definition set_validator_metadata ::
  "account_id \<Rightarrow> validator_metadata_info \<Rightarrow> ('c, 'sig, 'z) dvf_world_scheme
     \<Rightarrow> ('c, 'sig, 'z) dvf_world_scheme" where
  "set_validator_metadata v metadata w =
     w\<lparr>ValidatorMetadata := sm_put v metadata (ValidatorMetadata w)\<rparr>"

definition remove_validator_metadata ::
  "account_id \<Rightarrow> ('c, 'sig, 'z) dvf_world_scheme \<Rightarrow> ('c, 'sig, 'z) dvf_world_scheme" where
  "remove_validator_metadata v w = w\<lparr>ValidatorMetadata := sm_del v (ValidatorMetadata w)\<rparr>"

definition remove_validator_performance_history ::
  "account_id \<Rightarrow> ('c, 'sig, 'z) dvf_world_scheme \<Rightarrow> ('c, 'sig, 'z) dvf_world_scheme" where
  "remove_validator_performance_history v w =
     w\<lparr>ValidatorPerformanceHistory := sm_del v (ValidatorPerformanceHistory w)\<rparr>"

definition set_validator_last_seen ::
  "account_id \<Rightarrow> u32 \<Rightarrow> ('c, 'sig, 'z) dvf_world_scheme \<Rightarrow> ('c, 'sig, 'z) dvf_world_scheme" where
  "set_validator_last_seen v val w = w\<lparr>ValidatorLastSeen := sm_put v val (ValidatorLastSeen w)\<rparr>"

definition remove_validator_last_seen ::
  "account_id \<Rightarrow> ('c, 'sig, 'z) dvf_world_scheme \<Rightarrow> ('c, 'sig, 'z) dvf_world_scheme" where
  "remove_validator_last_seen v w = w\<lparr>ValidatorLastSeen := sm_del v (ValidatorLastSeen w)\<rparr>"

definition set_validator_blocks_authored ::
  "account_id \<Rightarrow> u32 \<Rightarrow> ('c, 'sig, 'z) dvf_world_scheme \<Rightarrow> ('c, 'sig, 'z) dvf_world_scheme" where
  "set_validator_blocks_authored v val w =
     w\<lparr>ValidatorBlocksAuthored := sm_put v val (ValidatorBlocksAuthored w)\<rparr>"

definition remove_validator_blocks_authored ::
  "account_id \<Rightarrow> ('c, 'sig, 'z) dvf_world_scheme \<Rightarrow> ('c, 'sig, 'z) dvf_world_scheme" where
  "remove_validator_blocks_authored v w =
     w\<lparr>ValidatorBlocksAuthored := sm_del v (ValidatorBlocksAuthored w)\<rparr>"

definition set_validator_blocks_missed ::
  "account_id \<Rightarrow> u32 \<Rightarrow> ('c, 'sig, 'z) dvf_world_scheme \<Rightarrow> ('c, 'sig, 'z) dvf_world_scheme" where
  "set_validator_blocks_missed v val w =
     w\<lparr>ValidatorBlocksMissed := sm_put v val (ValidatorBlocksMissed w)\<rparr>"

definition remove_validator_blocks_missed ::
  "account_id \<Rightarrow> ('c, 'sig, 'z) dvf_world_scheme \<Rightarrow> ('c, 'sig, 'z) dvf_world_scheme" where
  "remove_validator_blocks_missed v w =
     w\<lparr>ValidatorBlocksMissed := sm_del v (ValidatorBlocksMissed w)\<rparr>"

definition set_validator_join_time ::
  "account_id \<Rightarrow> u32 \<Rightarrow> ('c, 'sig, 'z) dvf_world_scheme \<Rightarrow> ('c, 'sig, 'z) dvf_world_scheme" where
  "set_validator_join_time v val w = w\<lparr>ValidatorJoinTime := sm_put v val (ValidatorJoinTime w)\<rparr>"

definition remove_validator_join_time ::
  "account_id \<Rightarrow> ('c, 'sig, 'z) dvf_world_scheme \<Rightarrow> ('c, 'sig, 'z) dvf_world_scheme" where
  "remove_validator_join_time v w = w\<lparr>ValidatorJoinTime := sm_del v (ValidatorJoinTime w)\<rparr>"

definition set_validator_leave_request ::
  "account_id \<Rightarrow> u32 \<Rightarrow> ('c, 'sig, 'z) dvf_world_scheme \<Rightarrow> ('c, 'sig, 'z) dvf_world_scheme" where
  "set_validator_leave_request v val w =
     w\<lparr>ValidatorLeaveRequests := sm_put v val (ValidatorLeaveRequests w)\<rparr>"

definition remove_validator_leave_request ::
  "account_id \<Rightarrow> ('c, 'sig, 'z) dvf_world_scheme \<Rightarrow> ('c, 'sig, 'z) dvf_world_scheme" where
  "remove_validator_leave_request v w =
     w\<lparr>ValidatorLeaveRequests := sm_del v (ValidatorLeaveRequests w)\<rparr>"

definition set_recently_removed_validator ::
  "account_id \<Rightarrow> u32 \<Rightarrow> ('c, 'sig, 'z) dvf_world_scheme \<Rightarrow> ('c, 'sig, 'z) dvf_world_scheme" where
  "set_recently_removed_validator v val w =
     w\<lparr>RecentlyRemovedValidators := sm_put v val (RecentlyRemovedValidators w)\<rparr>"

definition remove_recently_removed_validator ::
  "account_id \<Rightarrow> ('c, 'sig, 'z) dvf_world_scheme \<Rightarrow> ('c, 'sig, 'z) dvf_world_scheme" where
  "remove_recently_removed_validator v w =
     w\<lparr>RecentlyRemovedValidators := sm_del v (RecentlyRemovedValidators w)\<rparr>"

end
