(* ===== verification/Registry_Properties.thy ===== *)
theory Registry_Properties
  imports Samples Dvf_Provider
begin

text \<open>
  The properties of the validator registry of \<open>pallet-cerulea-dvf\<close>: its invariant, joining, the life
  cycle of a leave request, the block hook, and what the queries report.
\<close>

section \<open>The invariant\<close>


definition joined_world :: "(account_id \<Rightarrow> u128 \<times> u128, nat) dvf_world" where
  "joined_world = snd (dvf_dispatch runtime_pos_config sample_dvf_config book_currency
     (Signed charlie) Join_validators genesis_world)"

lemma genesis_registry_fields:
  "ValidatorSet genesis_world = []" "ActiveValidators genesis_world = []"
  "RecentlyRemovedValidators genesis_world = []" "ValidatorLeaveRequests genesis_world = []"
  "Stake genesis_world = []" "block_number genesis_world = 0" "ValidatorJoinTime genesis_world = []"
  by (simp_all add: genesis_world_def freeze_epoch_weights_def note_set_change_def Let_def
      dvf_deposit_event_def pos_genesis_build_def empty_world_def split: prod.split)



section \<open>Joining\<close>

definition may_join ::
  "pos_config \<Rightarrow> 'sig dvf_config \<Rightarrow> 'c currency \<Rightarrow> ('c, 'sig, 'z) dvf_world_scheme \<Rightarrow> account_id \<Rightarrow> bool" where
  "may_join pcfg cfg C w who \<longleftrightarrow>
     MinStake pcfg \<le> free_balance C (balances w) who
     \<and> (case sm_get (RecentlyRemovedValidators w) who of None \<Rightarrow> True
        | Some b \<Rightarrow> unat (LeaveCooldown pcfg) \<le> unat (block_number w) - unat b)
     \<and> \<not> sm_has (ValidatorLeaveRequests w) who
     \<and> who \<notin> set (ValidatorSet w)
     \<and> reserve C who (MinStake pcfg) (balances w) \<noteq> None
     \<and> length (ValidatorSet w) < unat (DvfMaxValidators cfg)"

text \<open>
  Joining succeeds exactly for an account that can pay and reserve the minimum stake, is not in
  the set, has no leave request, has served its cooldown, and finds room in the set. It then is the
  last member of the set, registered with the minimum as its stake and that amount reserved, with a
  state entry and its cooldown record cleared, but not yet active.
\<close>

theorem join_outcome:
  "(fst (join_validators pcfg cfg C (Signed who) w) = Inr () \<longleftrightarrow> may_join pcfg cfg C w who)
    \<and> (may_join pcfg cfg C w who \<longrightarrow>
        ValidatorSet (snd (join_validators pcfg cfg C (Signed who) w)) = ValidatorSet w @ [who]
        \<and> ActiveValidators (snd (join_validators pcfg cfg C (Signed who) w)) = ActiveValidators w
        \<and> sm_get (Validators (snd (join_validators pcfg cfg C (Signed who) w))) who = Some True
        \<and> sm_get (Stake (snd (join_validators pcfg cfg C (Signed who) w))) who = Some (MinStake pcfg)
        \<and> Some (balances (snd (join_validators pcfg cfg C (Signed who) w)))
            = reserve C who (MinStake pcfg) (balances w)
        \<and> sm_has (ValidatorStates (snd (join_validators pcfg cfg C (Signed who) w))) who
        \<and> \<not> sm_has (RecentlyRemovedValidators (snd (join_validators pcfg cfg C (Signed who) w))) who)"
proof -
  have cooldown: "sat_sub (block_number w) b < LeaveCooldown pcfg
      \<longleftrightarrow> \<not> unat (LeaveCooldown pcfg) \<le> unat (block_number w) - unat b" for b
    by (auto simp: word_less_nat_alt sat_simps)
  show ?thesis
    by (auto simp: join_validators_def validate_rejoin_eligibility_def may_join_def Let_def cooldown
        bv_try_push_def dvf_deposit_event_def ensure_state_def sm_has_def split: option.splits)
qed

theorem join_outcome_witness:
  "may_join runtime_pos_config sample_dvf_config book_currency genesis_world charlie
    \<and> sm_get (Stake (snd (join_validators runtime_pos_config sample_dvf_config book_currency
        (Signed charlie) genesis_world))) charlie = Some 1000"
proof -
  have "may_join runtime_pos_config sample_dvf_config book_currency genesis_world charlie"
    by (simp add: may_join_def genesis_registry_fields genesis_pos_fields map_defs
        sample_dvf_config_def runtime_dvf_config_def runtime_pos_config_def book_currency_def)
  with join_outcome [of runtime_pos_config sample_dvf_config book_currency charlie genesis_world]
  show ?thesis
    by (simp add: runtime_pos_config_def)
qed

section \<open>Leaving\<close>

text \<open>An account that has left at block \<open>n\<close>.\<close>

definition departed :: "account_id \<Rightarrow> u32 \<Rightarrow> ('c, 'sig, 'z) dvf_world_scheme \<Rightarrow> bool" where
  "departed v n w \<longleftrightarrow> v \<notin> set (ValidatorSet w) \<and> v \<notin> set (ActiveValidators w)
     \<and> \<not> sm_has (Validators w) v \<and> \<not> sm_has (Stake w) v \<and> \<not> sm_has (ValidatorJoinTime w) v
     \<and> \<not> sm_has (ValidatorLeaveRequests w) v \<and> sm_get (RecentlyRemovedValidators w) v = Some n"

lemma remove_more_fields [simp]:
  "Stake (remove_active v w) = Stake w" "Stake (remove_from_set v w) = Stake w"
  "Validators (remove_from_set v w) = Validators w"
  "ValidatorJoinTime (remove_active v w) = ValidatorJoinTime w"
  "ValidatorJoinTime (remove_from_set v w) = ValidatorJoinTime w"
  by (simp_all add: remove_active_def remove_from_set_def)

lemma finish_leave_departs:
  "registry_ok cfg w \<Longrightarrow> departed v n (finish_leave C n v w)"
  by (simp add: departed_def finish_leave_def Let_def dvf_deposit_event_def registry_ok_def)

lemma finish_leave_keeps_departed:
  "departed v n w \<Longrightarrow> departed v n (finish_leave C n v' w)"
  by (cases "v' = v")
    (auto simp: departed_def finish_leave_def Let_def dvf_deposit_event_def dest: notin_set_remove1)

lemma fold_leave_departs:
  "registry_ok cfg w \<Longrightarrow> v \<in> set vs \<or> departed v n w \<Longrightarrow> departed v n (fold (finish_leave C n) vs w)"
proof (induction vs arbitrary: w)
  case Nil
  then show ?case by simp
next
  case (Cons u vs)
  have "v \<in> set vs \<or> departed v n (finish_leave C n u w)"
    using Cons.prems finish_leave_departs finish_leave_keeps_departed by fastforce
  with Cons.IH [OF finish_leave_registry [OF Cons.prems(1)]] show ?case
    by simp
qed

lemma eject_keeps_departed: "departed v n w \<Longrightarrow> departed v n (snd (eject_validator u r w))"
  by (auto simp: departed_def eject_validator_def Let_def dvf_deposit_event_def dest: notin_set_remove1)

lemma check_keeps_departed:
  "departed v n w \<Longrightarrow> departed v n (check_and_handle_underperforming_validators pcfg cfg w)"
proof -
  have "departed v n u \<Longrightarrow> departed v n (fold (check_validator pcfg cfg) vs u)" for vs u
    by (induction vs arbitrary: u)
      (simp_all add: check_validator_def Let_def eject_keeps_departed split: option.split)
  then show "departed v n w \<Longrightarrow> departed v n (check_and_handle_underperforming_validators pcfg cfg w)"
    by (simp add: check_and_handle_underperforming_validators_def)
qed

lemma fold_cleanup_requests:
  "ValidatorLeaveRequests (fold (\<lambda>v w. dvf_deposit_event (CooldownExpired v)
     (w\<lparr>RecentlyRemovedValidators := sm_del v (RecentlyRemovedValidators w)\<rparr>)) vs w)
     = ValidatorLeaveRequests w"
  by (induction vs arbitrary: w) (simp_all add: dvf_deposit_event_def)

lemma expired_requests:
  "sm_get m v = Some b \<Longrightarrow> unat (LeaveCooldown pcfg) \<le> unat n - unat b \<Longrightarrow> v \<in> set (expired pcfg n m)"
  by (force simp: expired_def sm_get_def word_le_nat_alt sat_simps dest: map_of_SomeD)

text \<open>
  C11. A leave request runs to its end. If a request made at block \<open>b\<close> is pending and \<open>LeaveCooldown\<close>
  blocks have passed, the hook of the block removes the account from the set, the active list and
  the registered validators, deletes its stake, join time and request, and starts its cooldown with the
  current block. The hook panics exactly when the check interval is configured as zero.
\<close>

theorem hook_completes_leave:
  assumes "registry_ok cfg w" and "sm_get (ValidatorLeaveRequests w) v = Some b"
    and "unat (LeaveCooldown pcfg) \<le> unat n - unat b"
  shows "case dvf_on_initialize pcfg cfg C n w of
      None \<Rightarrow> UnderperformanceCheckInterval cfg = 0
    | Some w' \<Rightarrow> UnderperformanceCheckInterval cfg \<noteq> 0
        \<and> v \<notin> set (ValidatorSet w') \<and> v \<notin> set (ActiveValidators w')
        \<and> \<not> sm_has (Validators w') v \<and> \<not> sm_has (Stake w') v \<and> \<not> sm_has (ValidatorJoinTime w') v
        \<and> \<not> sm_has (ValidatorLeaveRequests w') v \<and> sm_get (RecentlyRemovedValidators w') v = Some n"
proof -
  let ?u = "cleanup_recently_removed_validators pcfg n w"
  have "ValidatorLeaveRequests ?u = ValidatorLeaveRequests w"
    by (simp add: cleanup_recently_removed_validators_def fold_cleanup_requests)
  with expired_requests [OF assms(2,3)] have "v \<in> set (expired pcfg n (ValidatorLeaveRequests ?u))"
    by simp
  with fold_leave_departs [OF cleanup_registry [OF assms(1)]]
  have gone: "departed v n (process_expired_leave_requests pcfg C n ?u)"
    by (simp add: process_expired_leave_requests_def)
  then have "departed v n w'" "UnderperformanceCheckInterval cfg \<noteq> 0"
    if "dvf_on_initialize pcfg cfg C n w = Some w'" for w'
    using that check_keeps_departed [OF gone]
    by (auto simp: dvf_on_initialize_def Let_def split: if_splits)
  then show ?thesis
    by (auto simp: departed_def split: option.split)
      (simp add: dvf_on_initialize_def Let_def split: if_splits)
qed

definition leaving_world :: "(account_id \<Rightarrow> u128 \<times> u128, nat) dvf_world" where
  "leaving_world = snd (leave_validators runtime_pos_config (Signed alice) sample_world)"

lemma leaving_world_fields:
  "ValidatorLeaveRequests leaving_world = [(alice, 100)]"
  "ValidatorSet leaving_world = [alice, bob, charlie]" "ActiveValidators leaving_world = [bob, charlie]"
  "RecentlyRemovedValidators leaving_world = []"
  by (simp_all add: leaving_world_def leave_validators_def Let_def dvf_deposit_event_def
      remove_active_def sm_put_def sm_has_def sm_get_def sample_world_def empty_world_def)

lemma leaving_world_ok: "registry_ok sample_dvf_config leaving_world"
  by (simp add: registry_ok_def leaving_world_fields sm_has_def sm_get_def sample_dvf_config_def
      runtime_dvf_config_def)

theorem hook_completes_leave_witness:
  "\<exists>w'. dvf_on_initialize runtime_pos_config sample_dvf_config book_currency 1100 leaving_world = Some w'
    \<and> alice \<notin> set (ValidatorSet w') \<and> sm_get (RecentlyRemovedValidators w') alice = Some 1100"
proof -
  have "sm_get (ValidatorLeaveRequests leaving_world) alice = Some 100"
    "unat (LeaveCooldown runtime_pos_config) \<le> unat (1100 :: u32) - unat (100 :: u32)"
    by (simp_all add: leaving_world_fields sm_get_def runtime_pos_config_def)
  from hook_completes_leave [OF leaving_world_ok this, of book_currency] show ?thesis
    by (auto simp: sample_dvf_config_def runtime_dvf_config_def split: option.splits)
qed

lemma leave_member:
  assumes "who \<in> set (ValidatorSet w)" and "\<not> sm_has (ValidatorLeaveRequests w) who"
    and "leave_validators pcfg (Signed who) w = (r, w1)"
  shows "r = Inr ()" "ActiveValidators w1 = remove1 who (ActiveValidators w)"
    "ValidatorSet w1 = ValidatorSet w"
    "ValidatorLeaveRequests w1 = sm_put who (block_number w) (ValidatorLeaveRequests w)"
  using assms by (auto simp: leave_validators_def Let_def dvf_deposit_event_def)

lemma cancel_member:
  assumes "sm_get (ValidatorLeaveRequests w) who = Some b" and "who \<in> set (ValidatorSet w)"
    and "who \<notin> set (ActiveValidators w)"
    and "length (ActiveValidators w) < unat (DvfMaxValidators cfg)"
  shows "cancel_leave_request pcfg cfg (Signed who) (w\<lparr>block_number := m\<rparr>) =
    (if unat m - unat b < unat (LeaveCooldown pcfg)
     then (Inr (), dvf_deposit_event (ValidatorLeaveCancelled who) (w\<lparr>block_number := m,
            ValidatorLeaveRequests := sm_del who (ValidatorLeaveRequests w),
            ActiveValidators := ActiveValidators w @ [who], Validators := sm_put who True (Validators w)\<rparr>))
     else (Inl (PosErr LeaveCooldownActive), w\<lparr>block_number := m\<rparr>))"
proof -
  have time: "LeaveCooldown pcfg \<le> sat_sub m b \<longleftrightarrow> \<not> unat m - unat b < unat (LeaveCooldown pcfg)"
    by (auto simp: word_le_nat_alt sat_simps)
  show ?thesis
  proof (cases "LeaveCooldown pcfg \<le> sat_sub m b")
    case True
    with time assms(1) show ?thesis
      by (simp add: cancel_leave_request_def)
  next
    case False
    with time assms show ?thesis
      by (simp add: cancel_leave_request_def Let_def)
  qed
qed

lemma length_remove1_room:
  assumes "length xs \<le> n" and "x \<in> set xs \<or> length xs < n"
  shows "length (remove1 x xs) < n"
proof (cases "x \<in> set xs")
  case True
  then have "length (remove1 x xs) = length xs - 1"
    by (simp add: length_remove1)
  with assms(1) length_pos_if_in_set [OF True] show ?thesis
    by linarith
next
  case False
  with assms(2) show ?thesis
    by (simp add: remove1_idem)
qed

text \<open>
  A leave request can be taken back until its cooldown has passed. For a member of the set that
  asks to leave at one block and cancels at block \<open>m\<close>, with room in the active list: before the
  cooldown has passed, the cancellation succeeds, drops the request and registers the member as
  before, with the set unchanged, and the member is active, whether it was active before or had
  only joined; afterwards the cancellation is refused and the request stays.
\<close>

theorem leave_cancel_roundtrip:
  assumes "registry_ok cfg w" and "who \<in> set (ValidatorSet w)"
    and "\<not> sm_has (ValidatorLeaveRequests w) who"
    and "who \<in> set (ActiveValidators w) \<or> length (ActiveValidators w) < unat (DvfMaxValidators cfg)"
    and "leave_validators pcfg (Signed who) w = (r, w1)"
    and "cancel_leave_request pcfg cfg (Signed who) (w1\<lparr>block_number := m\<rparr>) = (r', w2)"
  shows "r = Inr () \<and> who \<notin> set (ActiveValidators w1)
    \<and> (if unat m - unat (block_number w) < unat (LeaveCooldown pcfg)
       then r' = Inr () \<and> set (ActiveValidators w2) = insert who (set (ActiveValidators w))
         \<and> ValidatorSet w2 = ValidatorSet w \<and> sm_get (Validators w2) who = Some True
         \<and> \<not> sm_has (ValidatorLeaveRequests w2) who
       else r' = Inl (PosErr LeaveCooldownActive)
         \<and> sm_get (ValidatorLeaveRequests w2) who = Some (block_number w))"
proof -
  have ok: "distinct (ActiveValidators w)" "length (ActiveValidators w) \<le> unat (DvfMaxValidators cfg)"
    using assms(1) by (auto simp: registry_ok_def)
  note leave = leave_member [OF assms(2,3,5)]
  have gone: "who \<notin> set (ActiveValidators w1)"
    using ok(1) by (simp add: leave(2))
  have room: "length (ActiveValidators w1) < unat (DvfMaxValidators cfg)"
    using length_remove1_room [OF ok(2) assms(4)] by (simp add: leave(2))
  have pending: "sm_get (ValidatorLeaveRequests w1) who = Some (block_number w)"
    by (simp add: leave(4))
  have "who \<in> set (ValidatorSet w1)"
    using assms(2) by (simp add: leave(3))
  note cancel = cancel_member [OF pending this gone room, of pcfg m]
  show ?thesis
  proof (cases "unat m - unat (block_number w) < unat (LeaveCooldown pcfg)")
    case True
    with assms(6) cancel leave(1,2,3) gone ok(1) show ?thesis
      by (auto simp: dvf_deposit_event_def)
  next
    case False
    with assms(6) cancel leave(1) gone pending show ?thesis
      by auto
  qed
qed

definition waiting_world :: "(account_id \<Rightarrow> u128 \<times> u128, nat) dvf_world" where
  "waiting_world = sample_world\<lparr>ActiveValidators := [bob, charlie]\<rparr>"

lemma waiting_world_ok:
  "registry_ok sample_dvf_config waiting_world" "alice \<in> set (ValidatorSet waiting_world)"
  "\<not> sm_has (ValidatorLeaveRequests waiting_world) alice"
  "length (ActiveValidators waiting_world) < unat (DvfMaxValidators sample_dvf_config)"
  "block_number waiting_world = 100" "set (ActiveValidators waiting_world) = {bob, charlie}"
  by (simp_all add: registry_ok_def waiting_world_def sample_world_def empty_world_def sm_has_def
      sm_get_def sample_dvf_config_def runtime_dvf_config_def)

theorem leave_cancel_roundtrip_witness:
  "alice \<notin> set (ActiveValidators waiting_world)
    \<and> (let w1 = snd (leave_validators runtime_pos_config (Signed alice) waiting_world)
       in alice \<in> set (ActiveValidators (snd (cancel_leave_request runtime_pos_config sample_dvf_config
            (Signed alice) (w1\<lparr>block_number := 500\<rparr>))))
          \<and> fst (cancel_leave_request runtime_pos_config sample_dvf_config (Signed alice)
            (w1\<lparr>block_number := 1100\<rparr>)) = Inl (PosErr LeaveCooldownActive))"
proof -
  let ?w1 = "snd (leave_validators runtime_pos_config (Signed alice) waiting_world)"
  have leave: "leave_validators runtime_pos_config (Signed alice) waiting_world
      = (fst (leave_validators runtime_pos_config (Signed alice) waiting_world), ?w1)"
    by simp
  have "LeaveCooldown runtime_pos_config = 1000"
    by (simp add: runtime_pos_config_def)
  then show ?thesis
    using leave_cancel_roundtrip [OF waiting_world_ok(1-3) disjI2 [OF waiting_world_ok(4)] leave
        prod.collapse [symmetric], where m = 500]
      leave_cancel_roundtrip [OF waiting_world_ok(1-3) disjI2 [OF waiting_world_ok(4)] leave
        prod.collapse [symmetric], where m = 1100]
    by (simp add: waiting_world_ok Let_def)
qed

section \<open>Underperforming validators\<close>

definition underperforms ::
  "pos_config \<Rightarrow> 'sig dvf_config \<Rightarrow> ('c, 'sig, 'z) dvf_world_scheme \<Rightarrow> account_id \<Rightarrow> bool" where
  "underperforms pcfg cfg w v =
     (case sm_get (ValidatorStates w) v of None \<Rightarrow> False
      | Some st \<Rightarrow> unat (final_score (current st)) < unat (MinValidatorScore pcfg)
          \<or> unat (MaxInactiveEpochs cfg) < unat (PosCurrentEpoch w) - unat (last_active_epoch st))"

lemma eject_fields [simp]:
  "ActiveValidators (snd (eject_validator v r w)) = remove1 v (ActiveValidators w)"
  "ValidatorStates (snd (eject_validator v r w)) = ValidatorStates w"
  "PosCurrentEpoch (snd (eject_validator v r w)) = PosCurrentEpoch w"
  "ValidatorSet (snd (eject_validator v r w)) = ValidatorSet w"
  "Validators (snd (eject_validator v r w)) = Validators w"
  "Stake (snd (eject_validator v r w)) = Stake w"
  "EpochVotingWeight (snd (eject_validator v r w)) = EpochVotingWeight w"
  by (simp_all add: eject_validator_def Let_def dvf_deposit_event_def remove_active_def remove1_idem)

lemma check_validator_fields:
  assumes "distinct (ActiveValidators w)"
  shows "ActiveValidators (check_validator pcfg cfg v w)
      = (if underperforms pcfg cfg w v then remove1 v (ActiveValidators w) else ActiveValidators w)"
    and "underperforms pcfg cfg (check_validator pcfg cfg v w) = underperforms pcfg cfg w"
    and "ValidatorSet (check_validator pcfg cfg v w) = ValidatorSet w"
    and "Validators (check_validator pcfg cfg v w) = Validators w"
    and "Stake (check_validator pcfg cfg v w) = Stake w"
    and "EpochVotingWeight (check_validator pcfg cfg v w) = EpochVotingWeight w"
proof -
  have score: "final_score (current st) < ucast (MinValidatorScore pcfg)
      \<longleftrightarrow> unat (final_score (current st)) < unat (MinValidatorScore pcfg)" for st :: dvf_validator_state
    by (simp add: word_less_nat_alt unsigned_ucast_eq take_bit_nat_eq_self
        less_trans [OF unat_lt [of "MinValidatorScore pcfg"]])
  have idle: "MaxInactiveEpochs cfg < sat_sub a b \<longleftrightarrow> unat (MaxInactiveEpochs cfg) < unat a - unat b"
    for a b
    by (simp add: word_less_nat_alt sat_simps)
  have twice: "remove1 v (remove1 v (ActiveValidators w)) = remove1 v (ActiveValidators w)"
    using assms by (simp add: remove1_idem)
  show "ActiveValidators (check_validator pcfg cfg v w)
      = (if underperforms pcfg cfg w v then remove1 v (ActiveValidators w) else ActiveValidators w)"
    by (simp add: check_validator_def underperforms_def Let_def score idle twice split: option.split)
  show "underperforms pcfg cfg (check_validator pcfg cfg v w) = underperforms pcfg cfg w"
    by (rule ext) (simp add: check_validator_def underperforms_def Let_def split: option.split)
  show "ValidatorSet (check_validator pcfg cfg v w) = ValidatorSet w"
    "Validators (check_validator pcfg cfg v w) = Validators w"
    "Stake (check_validator pcfg cfg v w) = Stake w"
    "EpochVotingWeight (check_validator pcfg cfg v w) = EpochVotingWeight w"
    by (simp_all add: check_validator_def Let_def split: option.split)
qed

lemma fold_check_fields:
  assumes "distinct (ActiveValidators w)"
  shows "ActiveValidators (fold (check_validator pcfg cfg) vs w)
      = filter (\<lambda>v. \<not> (v \<in> set vs \<and> underperforms pcfg cfg w v)) (ActiveValidators w)
    \<and> ValidatorSet (fold (check_validator pcfg cfg) vs w) = ValidatorSet w
    \<and> Validators (fold (check_validator pcfg cfg) vs w) = Validators w
    \<and> Stake (fold (check_validator pcfg cfg) vs w) = Stake w
    \<and> EpochVotingWeight (fold (check_validator pcfg cfg) vs w) = EpochVotingWeight w"
  using assms
proof (induction vs arbitrary: w)
  case Nil
  then show ?case by simp
next
  case (Cons u vs)
  note fields = check_validator_fields [OF Cons.prems, of pcfg cfg u]
  have "distinct (ActiveValidators (check_validator pcfg cfg u w))"
    using Cons.prems fields(1) by (simp add: distinct_remove1)
  from Cons.IH [OF this] fields Cons.prems show ?case
    by (auto simp: distinct_remove1_removeAll removeAll_filter_not_eq intro!: filter_cong)
qed

text \<open>
  The periodic check ejects exactly the active validators with a state entry whose score is below
  the minimum or that have been inactive for too many epochs, and keeps the order of the rest. An
  ejected validator only leaves the active list: it stays in the set, registered, with its stake and
  with its frozen voting weight.
\<close>

theorem check_ejects_underperformers:
  assumes "distinct (ActiveValidators w)"
  shows "ActiveValidators (check_and_handle_underperforming_validators pcfg cfg w)
      = filter (\<lambda>v. \<not> underperforms pcfg cfg w v) (ActiveValidators w)
    \<and> ValidatorSet (check_and_handle_underperforming_validators pcfg cfg w) = ValidatorSet w
    \<and> Validators (check_and_handle_underperforming_validators pcfg cfg w) = Validators w
    \<and> Stake (check_and_handle_underperforming_validators pcfg cfg w) = Stake w
    \<and> EpochVotingWeight (check_and_handle_underperforming_validators pcfg cfg w) = EpochVotingWeight w"
  using fold_check_fields [OF assms, of pcfg cfg "ActiveValidators w"]
  by (auto simp: check_and_handle_underperforming_validators_def intro!: filter_cong)

definition idle_world :: "(account_id \<Rightarrow> u128 \<times> u128, nat) dvf_world" where
  "idle_world = sample_world\<lparr>ValidatorStates := [(alice, sample_state),
     (bob, sample_state\<lparr>current := (current sample_state)\<lparr>final_score := 49\<rparr>\<rparr>)]\<rparr>"

theorem check_ejects_underperformers_witness:
  "ActiveValidators (check_and_handle_underperforming_validators runtime_pos_config sample_dvf_config
     idle_world) = [alice, charlie]"
proof -
  have "distinct (ActiveValidators idle_world)"
    by (simp add: idle_world_def sample_world_def)
  from check_ejects_underperformers [OF this, of runtime_pos_config sample_dvf_config] show ?thesis
    by (simp add: idle_world_def underperforms_def sm_get_def sample_defs)
qed

section \<open>Queries\<close>

text \<open>
  The status query never answers \<open>Leaving\<close>. In every reachable state an account with a pending
  leave request is still in the set, and the query looks there first and answers \<open>Inactive\<close>.
\<close>

theorem leaving_status_unreachable:
  assumes "chain_reachable pcfg cfg C w"
  shows "get_validator_status w v \<noteq> Some Leaving
    \<and> (sm_has (ValidatorLeaveRequests w) v \<longrightarrow> get_validator_status w v = Some Inactive)"
  using reachable_registry [OF assms] by (auto simp: get_validator_status_def registry_ok_def)

theorem leaving_status_unreachable_witness:
  "get_validator_status joined_world charlie \<noteq> Some Leaving"
proof -
  have "chain_reachable runtime_pos_config sample_dvf_config book_currency joined_world"
    unfolding joined_world_def by (rule chain_reachable.step [OF genesis_world_reachable chain_step.dvf_call])
  from leaving_status_unreachable [OF this] show ?thesis
    by simp
qed

end
