(* ===== verification/Poi_Pallet.thy ===== *)
theory Poi_Pallet
  imports Dvf_Provider
begin

text \<open>
  \<open>pallet-cerulea-poi\<close>: inference results, challenges, and the scores that off-chain workers
  compute. The storage extends that of the other pallets; the interfaces \<open>PosInterface\<close> and
  \<open>DcfInterface\<close> are a record of operations on the whole state.
\<close>

section \<open>Configuration and storage\<close>

text \<open>
  \<open>inference_hash\<close> stands for the first two little-endian words of the \<open>blake2_256\<close> hash of the
  encoded account and epoch, which is library code.
\<close>

record poi_config =
  MinInferenceConfidence :: u32
  MaxInferenceAge :: u32
  ChallengeWindow :: u32
  InferenceReward :: u128
  ChallengeReward :: u128
  InferenceBoostLow :: u64
  InferenceBoostMedium :: u64
  InferenceBoostHigh :: u64
  InferencePenaltyLow :: u64
  InferencePenaltyMedium :: u64
  InferencePenaltyHigh :: u64
  InferenceConfidenceThresholdLow :: u32
  InferenceConfidenceThresholdHigh :: u32
  MaxValidatorScore :: u64
  PercentagePrecision :: u32
  OffchainWorkerInterval :: u32
  MaxValidatorIterationWeight :: u64
  MaxLoopIterations :: u32
  inference_hash :: "account_id \<Rightarrow> u32 \<Rightarrow> u32 \<times> u32"

record inference_data =
  id_validator :: account_id
  id_epoch :: u32
  inference_result :: u32
  confidence_score :: u32
  id_timestamp :: u64
  data_sources :: "string list"

record offchain_poi_score =
  op_validator :: account_id
  op_score :: u64
  op_block_number :: u32
  op_timestamp :: u64

datatype inference_error_severity = SeverityHigh | SeverityMedium | SeverityLow

datatype poi_event =
    InferenceSubmitted account_id u32 u32
  | InferenceAccepted account_id u32
  | InferenceRejected account_id u32
  | InferenceChallenged account_id account_id u32
  | ChallengeResolved account_id account_id u32 bool
  | PoiValidatorSlashed account_id string
  | PoiScoreUpdated account_id u32 u32 u32
  | PoiEpochAdvanced u32 u32
  | ValidatorPoiScoreUpdated account_id u64

text \<open>
  The off-chain storage is local to a node. Its keys are made of the validator and the block
  number; \<open>offchain_time\<close> is the clock of the node.
\<close>

record ('c, 'sig) poi_world = "('c, 'sig) dvf_world" +
  InferenceResults :: "(account_id, u32 \<times> u32) smap"
  Challenges :: "(account_id, account_id \<times> u32 \<times> u32) smap"
  PoiCurrentEpoch :: u32
  ValidatorInferenceCount :: "(account_id, u64) smap"
  poi_events :: "poi_event list"
  offchain_scores :: "(account_id \<times> u32, offchain_poi_score) smap"
  offchain_time :: u64

definition poi_deposit_event ::
  "poi_event \<Rightarrow> ('c, 'sig, 'z) poi_world_scheme \<Rightarrow> ('c, 'sig, 'z) poi_world_scheme" where
  "poi_deposit_event e w = w\<lparr>poi_events := poi_events w @ [e]\<rparr>"

text \<open>The traits \<open>PosInterface\<close> and \<open>DcfInterface\<close>.\<close>

record 'w poi_interface =
  pi_boost_score :: "account_id \<Rightarrow> u32 \<Rightarrow> ('w, unit) call"
  pi_slash_score :: "account_id \<Rightarrow> u32 \<Rightarrow> ('w, unit) call"
  pi_active_validators :: "'w \<Rightarrow> account_id list"
  pi_record_inference_activity :: "account_id \<Rightarrow> ('w, unit) call"
  pi_update_final_score :: "account_id \<Rightarrow> ('w, unit) call"

record poi_genesis =
  g_inference_results :: "(account_id \<times> u32) list"
  g_challenges :: "(account_id \<times> account_id \<times> u32) list"
  g_poi_epoch :: u32

definition poi_genesis_build ::
  "poi_genesis \<Rightarrow> ('c, 'sig, 'z) poi_world_scheme \<Rightarrow> ('c, 'sig, 'z) poi_world_scheme" where
  "poi_genesis_build g w =
     w\<lparr>InferenceResults := fold (\<lambda>(account, result). sm_put account (result, g_poi_epoch g))
         (g_inference_results g) (InferenceResults w),
       Challenges := fold (\<lambda>(challenger, challenged, result).
           sm_put challenger (challenged, result, g_poi_epoch g)) (g_challenges g) (Challenges w),
       PoiCurrentEpoch := g_poi_epoch g\<rparr>"

section \<open>Submissions and challenges\<close>

definition submission_boost :: "u32 \<Rightarrow> u32" where
  "submission_boost confidence = (if confidence \<ge> 90 then 10 else if confidence \<ge> 70 then 5 else 2)"

definition submit_inference ::
  "poi_config \<Rightarrow> ('c, 'sig, 'z) poi_world_scheme poi_interface \<Rightarrow> origin \<Rightarrow> u32 \<Rightarrow> u32
     \<Rightarrow> (('c, 'sig, 'z) poi_world_scheme, unit) call" where
  "submit_inference cfg I orig result confidence w =
     (case ensure_signed orig of Inl e \<Rightarrow> (Inl e, w) | Inr who \<Rightarrow>
      if sm_has (InferenceResults w) who then (Inl (PoiErr InferenceAlreadySubmitted), w)
      else if \<not> confidence \<ge> MinInferenceConfidence cfg then (Inl (PoiErr ConfidenceTooLow), w)
      else
        (let current_epoch = PoiCurrentEpoch w;
             old_result = (case sm_get (InferenceResults w) who of None \<Rightarrow> 0 | Some (r, e) \<Rightarrow> r);
             w1 = poi_deposit_event (InferenceSubmitted who result confidence)
                   (poi_deposit_event (PoiScoreUpdated who old_result result current_epoch)
                     (w\<lparr>InferenceResults := sm_put who (result, current_epoch) (InferenceResults w)\<rparr>));
             w2 = (case pi_boost_score I who (submission_boost confidence) w1 of
                     (Inl e, w') \<Rightarrow> w'
                   | (Inr u, w') \<Rightarrow> poi_deposit_event (InferenceAccepted who confidence) w')
         in (Inr (), snd (pi_record_inference_activity I who w2))))"

text \<open>The differences of epochs are plain subtractions, which wrap around in a release build.\<close>

definition challenge_inference ::
  "poi_config \<Rightarrow> ('c, 'sig, 'z) poi_world_scheme poi_interface \<Rightarrow> origin \<Rightarrow> account_id \<Rightarrow> u32
     \<Rightarrow> (('c, 'sig, 'z) poi_world_scheme, unit) call" where
  "challenge_inference cfg I orig challenged result w =
     (case ensure_signed orig of Inl e \<Rightarrow> (Inl e, w) | Inr challenger \<Rightarrow>
      (case sm_get (InferenceResults w) challenged of
         None \<Rightarrow> (Inl (PoiErr InferenceNotFound), w)
       | Some (stored_result, epoch) \<Rightarrow>
         if \<not> PoiCurrentEpoch w - epoch \<le> MaxInferenceAge cfg then (Inl (PoiErr InferenceTooOld), w)
         else if \<not> PoiCurrentEpoch w - epoch \<le> ChallengeWindow cfg
         then (Inl (PoiErr ChallengeWindowExpired), w)
         else if stored_result \<noteq> result then (Inl (PoiErr InvalidChallenge), w)
         else
           (let w1 = poi_deposit_event (InferenceChallenged challenger challenged result)
                  (w\<lparr>Challenges := sm_put challenger (challenged, result, PoiCurrentEpoch w) (Challenges w)\<rparr>)
            in (Inr (), case pi_slash_score I challenged 7 w1 of
                  (Inl e, w') \<Rightarrow> w'
                | (Inr u, w') \<Rightarrow> poi_deposit_event (PoiValidatorSlashed challenged ''Invalid inference'')
                    (poi_deposit_event (InferenceRejected challenged 0) w')))))"

section \<open>Simulated inference\<close>

definition record_poi_inference_activity ::
  "('c, 'sig, 'z) poi_world_scheme poi_interface \<Rightarrow> account_id
     \<Rightarrow> (('c, 'sig, 'z) poi_world_scheme, unit) call" where
  "record_poi_inference_activity I v w =
     (Inr (), snd (pi_record_inference_activity I v
        (w\<lparr>ValidatorInferenceCount := sm_put v (sat_add (sm_val 0 (ValidatorInferenceCount w) v) 1)
            (ValidatorInferenceCount w)\<rparr>)))"

text \<open>The remainders panic (\<open>None\<close>) where their divisor is zero.\<close>

definition simulate_inference_computation :: "poi_config \<Rightarrow> account_id \<Rightarrow> u32 \<Rightarrow> (u32 \<times> u32) option" where
  "simulate_inference_computation cfg v epoch =
     (let (h0, h1) = inference_hash cfg v epoch;
          span = InferenceConfidenceThresholdHigh cfg - InferenceConfidenceThresholdLow cfg
      in if PercentagePrecision cfg = 0 \<or> span = 0 then None
         else Some (h0 mod PercentagePrecision cfg,
                    InferenceConfidenceThresholdLow cfg + h1 mod span))"

definition simulate_inference ::
  "poi_config \<Rightarrow> ('c, 'sig, 'z) poi_world_scheme poi_interface \<Rightarrow> origin \<Rightarrow> account_id
     \<Rightarrow> ('c, 'sig, 'z) poi_world_scheme
     \<Rightarrow> ((dispatch_error + unit) \<times> ('c, 'sig, 'z) poi_world_scheme) option" where
  "simulate_inference cfg I orig target w =
     (case ensure_signed orig of Inl e \<Rightarrow> Some (Inl e, w) | Inr _ \<Rightarrow>
      if target \<notin> set (pi_active_validators I w) then Some (Inl (PoiErr PoiValidatorNotFound), w)
      else
        (let w1 = snd (record_poi_inference_activity I target w)
         in case simulate_inference_computation cfg target (PoiCurrentEpoch w1) of
              None \<Rightarrow> None
            | Some (result, confidence) \<Rightarrow>
                Some (Inr (), poi_deposit_event (InferenceSubmitted target result confidence) w1)))"

section \<open>Scores computed off chain\<close>

definition get_inference_score :: "('c, 'sig, 'z) poi_world_scheme \<Rightarrow> account_id \<Rightarrow> u64" where
  "get_inference_score w v =
     (case sm_get (InferenceResults w) v of None \<Rightarrow> 0 | Some (result, e) \<Rightarrow> ucast result)"

definition collect_inference_data ::
  "poi_config \<Rightarrow> account_id \<Rightarrow> u32 \<Rightarrow> ('c, 'sig, 'z) poi_world_scheme \<Rightarrow> inference_data option" where
  "collect_inference_data cfg v epoch w =
     (case sm_get (InferenceResults w) v of
        Some (result, confidence) \<Rightarrow>
          Some \<lparr>id_validator = v, id_epoch = epoch, inference_result = result,
            confidence_score = confidence, id_timestamp = offchain_time w,
            data_sources = [''poi_pallet'']\<rparr>
      | None \<Rightarrow>
          (case simulate_inference_computation cfg v epoch of
             None \<Rightarrow> None
           | Some (result, confidence) \<Rightarrow>
               Some \<lparr>id_validator = v, id_epoch = epoch, inference_result = result,
                 confidence_score = confidence, id_timestamp = offchain_time w,
                 data_sources = [''simulation'']\<rparr>))"

definition compute_poi_score :: "poi_config \<Rightarrow> inference_data \<Rightarrow> u64 option" where
  "compute_poi_score cfg data =
     (case checked_div (ucast (inference_result data) * ucast (confidence_score data))
             (ucast (PercentagePrecision cfg)) of
        None \<Rightarrow> None
      | Some weighted_score \<Rightarrow> Some (min weighted_score (MaxValidatorScore cfg)))"

definition store_offchain_poi_score ::
  "account_id \<Rightarrow> u64 \<Rightarrow> u32 \<Rightarrow> ('c, 'sig, 'z) poi_world_scheme \<Rightarrow> ('c, 'sig, 'z) poi_world_scheme" where
  "store_offchain_poi_score v score n w =
     w\<lparr>offchain_scores := sm_put (v, n)
        \<lparr>op_validator = v, op_score = score, op_block_number = n, op_timestamp = offchain_time w\<rparr>
        (offchain_scores w)\<rparr>"

definition get_offchain_poi_score ::
  "account_id \<Rightarrow> u32 \<Rightarrow> ('c, 'sig, 'z) poi_world_scheme \<Rightarrow> u64 option" where
  "get_offchain_poi_score v n w = map_option op_score (sm_get (offchain_scores w) (v, n))"

definition verify_score ::
  "account_id \<Rightarrow> u64 \<Rightarrow> u32 \<Rightarrow> ('c, 'sig, 'z) poi_world_scheme \<Rightarrow> bool" where
  "verify_score v score n w = (case get_offchain_poi_score v n w of None \<Rightarrow> False | Some s \<Rightarrow> s = score)"

text \<open>One validator of the off-chain run, then the loop; \<open>None\<close> is a panic of the worker.\<close>

definition offchain_validator ::
  "poi_config \<Rightarrow> u32 \<Rightarrow> account_id \<Rightarrow> ('c, 'sig, 'z) poi_world_scheme
     \<Rightarrow> ('c, 'sig, 'z) poi_world_scheme option" where
  "offchain_validator cfg n v w =
     (case collect_inference_data cfg v (PoiCurrentEpoch w) w of
        None \<Rightarrow> None
      | Some data \<Rightarrow>
          (case compute_poi_score cfg data of
             None \<Rightarrow> None
           | Some poi_score \<Rightarrow>
               if poi_score = get_inference_score w v then Some w
               else Some (store_offchain_poi_score v poi_score n w)))"

fun offchain_validators ::
  "poi_config \<Rightarrow> u32 \<Rightarrow> account_id list \<Rightarrow> ('c, 'sig, 'z) poi_world_scheme
     \<Rightarrow> ('c, 'sig, 'z) poi_world_scheme option" where
  "offchain_validators cfg n [] w = Some w"
| "offchain_validators cfg n (v # vs) w =
     (case offchain_validator cfg n v w of None \<Rightarrow> None | Some w' \<Rightarrow> offchain_validators cfg n vs w')"

definition run_offchain_computation ::
  "poi_config \<Rightarrow> ('c, 'sig, 'z) poi_world_scheme poi_interface \<Rightarrow> u32
     \<Rightarrow> ('c, 'sig, 'z) poi_world_scheme \<Rightarrow> ('c, 'sig, 'z) poi_world_scheme option" where
  "run_offchain_computation cfg I n w = offchain_validators cfg n (pi_active_validators I w) w"

definition poi_offchain_worker ::
  "poi_config \<Rightarrow> ('c, 'sig, 'z) poi_world_scheme poi_interface \<Rightarrow> u32
     \<Rightarrow> ('c, 'sig, 'z) poi_world_scheme \<Rightarrow> ('c, 'sig, 'z) poi_world_scheme option" where
  "poi_offchain_worker cfg I n w =
     (if OffchainWorkerInterval cfg = 0 then None
      else if n mod OffchainWorkerInterval cfg \<noteq> 0 then Some w
      else run_offchain_computation cfg I n w)"

section \<open>Applying the scores\<close>

definition apply_offchain_score ::
  "poi_config \<Rightarrow> ('c, 'sig, 'z) poi_world_scheme poi_interface \<Rightarrow> u32 \<Rightarrow> u32 \<Rightarrow> account_id
     \<Rightarrow> ('c, 'sig, 'z) poi_world_scheme \<Rightarrow> ('c, 'sig, 'z) poi_world_scheme" where
  "apply_offchain_score cfg I n current_epoch v w =
     (case get_offchain_poi_score v n w of
        None \<Rightarrow> w
      | Some poi_score \<Rightarrow>
          if poi_score \<le> MaxValidatorScore cfg then
            poi_deposit_event (ValidatorPoiScoreUpdated v poi_score)
              (snd (pi_update_final_score I v
                (w\<lparr>InferenceResults := sm_put v (ucast poi_score, current_epoch) (InferenceResults w)\<rparr>)))
          else w)"

definition apply_offchain_poi_scores ::
  "poi_config \<Rightarrow> ('c, 'sig, 'z) poi_world_scheme poi_interface \<Rightarrow> origin \<Rightarrow> u32
     \<Rightarrow> (('c, 'sig, 'z) poi_world_scheme, unit) call" where
  "apply_offchain_poi_scores cfg I orig n w =
     (case ensure_signed orig of Inl e \<Rightarrow> (Inl e, w) | Inr _ \<Rightarrow>
      (let validators = pi_active_validators I w
       in if of_nat (length validators) * 50000 > MaxValidatorIterationWeight cfg
          then (Inl (PoiErr WeightLimitExceeded), w)
          else
            (let max_iterations = min (MaxLoopIterations cfg) (of_nat (length validators))
             in (Inr (), fold (apply_offchain_score cfg I n (PoiCurrentEpoch w))
                   (take (unat max_iterations) validators) w))))"

definition update_validator_inference_score ::
  "('c, 'sig, 'z) poi_world_scheme poi_interface \<Rightarrow> origin \<Rightarrow> account_id
     \<Rightarrow> (('c, 'sig, 'z) poi_world_scheme, unit) call" where
  "update_validator_inference_score I orig v w =
     (case ensure_signed orig of Inl e \<Rightarrow> (Inl e, w) | Inr _ \<Rightarrow>
      if sm_has (InferenceResults w) v then pi_update_final_score I v w else (Inr (), w))"

section \<open>Outcomes reported by other pallets\<close>

definition inference_boost_of :: "poi_config \<Rightarrow> u32 \<Rightarrow> u64" where
  "inference_boost_of cfg confidence =
     (if confidence \<ge> InferenceConfidenceThresholdHigh cfg then InferenceBoostHigh cfg
      else if confidence \<ge> InferenceConfidenceThresholdLow cfg then InferenceBoostMedium cfg
      else InferenceBoostLow cfg)"

definition handle_valid_inference ::
  "poi_config \<Rightarrow> ('c, 'sig, 'z) poi_world_scheme poi_interface \<Rightarrow> account_id \<Rightarrow> u32
     \<Rightarrow> (('c, 'sig, 'z) poi_world_scheme, unit) call" where
  "handle_valid_inference cfg I v confidence w =
     then_do (pi_boost_score I v (ucast (inference_boost_of cfg confidence))
         (snd (record_poi_inference_activity I v w)))
       (\<lambda>w1. snd (pi_update_final_score I v w1))"

fun inference_penalty_of :: "poi_config \<Rightarrow> inference_error_severity \<Rightarrow> u64" where
  "inference_penalty_of cfg SeverityHigh = InferencePenaltyHigh cfg"
| "inference_penalty_of cfg SeverityMedium = InferencePenaltyMedium cfg"
| "inference_penalty_of cfg SeverityLow = InferencePenaltyLow cfg"

definition handle_invalid_inference ::
  "poi_config \<Rightarrow> ('c, 'sig, 'z) poi_world_scheme poi_interface \<Rightarrow> account_id
     \<Rightarrow> inference_error_severity \<Rightarrow> (('c, 'sig, 'z) poi_world_scheme, unit) call" where
  "handle_invalid_inference cfg I v severity w =
     then_do (pi_slash_score I v (ucast (inference_penalty_of cfg severity)) w)
       (\<lambda>w1. snd (pi_update_final_score I v w1))"

end
