(* ===== verification/Parameter_Types.thy ===== *)
theory Parameter_Types
  imports Poi_Pallet
begin

text \<open>
  The parameters of the consensus pallet that root may change (\<open>ParameterType\<close>), each kept with its
  safe range in \<open>GovernanceConfig\<close>. The constructors carry the prefix \<open>Param\<close> because several
  names are constants of the pallets too.
\<close>

datatype (plugins only: code size) parameter_type =
    ParamEpochLength | ParamMinStake | ParamMaxValidators
  | ParamPosWeight | ParamPoiWeight | ParamMinPerformanceScore
  | ParamHighPerformanceScore | ParamMinParticipationRate | ParamHighParticipationRate
  | ParamValidatorReward | ParamSlashPercent | ParamLeaveCooldown
  | ParamTrustScoreUptimeWeight | ParamTrustScoreInferenceWeight | ParamTrustScoreSlashingWeight
  | ParamTrustScoreMaxGrowthRate | ParamTrustScoreMaxDecayRate | ParamTrustScoreMinValue
  | ParamTrustScoreMaxValue | ParamTrustScoreStabilityFactor | ParamBlockAuthorshipBoost
  | ParamMissedBlockPenalty | ParamInferenceBoostLow | ParamInferenceBoostMedium
  | ParamInferenceBoostHigh

record 'n parameter_range =
  range_min :: 'n
  range_max :: 'n
  range_current :: 'n

record governance_config =
  gc_epoch_length :: "u32 parameter_range"
  gc_min_stake :: "u128 parameter_range"
  gc_max_validators :: "u32 parameter_range"
  gc_pos_weight :: "u64 parameter_range"
  gc_poi_weight :: "u64 parameter_range"
  gc_min_performance_score :: "u64 parameter_range"
  gc_high_performance_score :: "u64 parameter_range"
  gc_min_participation_rate :: "u32 parameter_range"
  gc_high_participation_rate :: "u32 parameter_range"
  gc_validator_reward :: "u128 parameter_range"
  gc_slash_percent :: "u32 parameter_range"
  gc_leave_cooldown :: "u32 parameter_range"
  gc_trust_score_uptime_weight :: "u32 parameter_range"
  gc_trust_score_inference_weight :: "u32 parameter_range"
  gc_trust_score_slashing_weight :: "u32 parameter_range"
  gc_trust_score_max_growth_rate :: "u32 parameter_range"
  gc_trust_score_max_decay_rate :: "u32 parameter_range"
  gc_trust_score_min_value :: "u64 parameter_range"
  gc_trust_score_max_value :: "u64 parameter_range"
  gc_trust_score_stability_factor :: "u32 parameter_range"
  gc_block_authorship_boost :: "u64 parameter_range"
  gc_missed_block_penalty :: "u64 parameter_range"
  gc_inference_boost_low :: "u64 parameter_range"
  gc_inference_boost_medium :: "u64 parameter_range"
  gc_inference_boost_high :: "u64 parameter_range"

end
