(* ===== verification/Dcf_State.thy ===== *)
theory Dcf_State
  imports Parameter_Types
begin

text \<open>
  The data, configuration and storage of \<open>pallet-cerulea-dcf\<close>. The pallet keeps its validator
  records in the registry of \<open>pallet-cerulea-dvf\<close>: \<open>ValidatorStates\<close>, \<open>ValidatorSet\<close>,
  \<open>ActiveValidators\<close> and the counters are wrappers around the registry interface, and the
  functions of the last section model these wrappers.
\<close>

section \<open>Data\<close>

record epoch_config =
  blocks_per_epoch :: u32
  ec_min_stake :: u128
  ec_max_validators :: u32

record trust_score_config =
  uptime_weight :: u32
  inference_weight :: u32
  slashing_weight :: u32
  tc_max_growth_rate :: u32
  tc_max_decay_rate :: u32
  tc_min_trust_score :: u64
  tc_max_trust_score :: u64
  tc_stability_factor :: u32

record trust_score_bounds =
  min_score :: u64
  max_score :: u64
  max_growth_rate :: u32
  max_decay_rate :: u32
  stability_factor :: u32
  last_updated_epoch :: u32

definition default_bounds :: trust_score_bounds where
  "default_bounds = \<lparr>min_score = 1000, max_score = 10000, max_growth_rate = 500,
     max_decay_rate = 200, stability_factor = 8000, last_updated_epoch = 0\<rparr>"

record trust_score_stability_metrics =
  sm_epoch :: u32
  avg_score_change :: u64
  max_score_change :: u64
  validators_at_min_bound :: u32
  validators_at_max_bound :: u32
  score_standard_deviation :: u64
  score_median :: u64
  high_performers_count :: u32
  low_performers_count :: u32
  stability_index :: u32

record rate_limit_config =
  max_proposals_per_block :: u32
  max_joins_per_block :: u32
  max_leaves_per_block :: u32
  max_votes_per_block :: u32
  max_proposals_per_account :: u32
  proposal_rate_window :: u32
  max_status_changes_per_account :: u32
  status_change_rate_window :: u32
  min_validator_status_interval :: u32
  min_proposal_interval :: u32
  min_vote_interval :: u32
  max_validator_iteration_weight :: u64
  max_proposal_processing_weight :: u64
  max_loop_iterations :: u32

definition default_rate_limits :: rate_limit_config where
  "default_rate_limits = \<lparr>max_proposals_per_block = 5, max_joins_per_block = 3,
     max_leaves_per_block = 3, max_votes_per_block = 20, max_proposals_per_account = 3,
     proposal_rate_window = 100, max_status_changes_per_account = 2,
     status_change_rate_window = 1000, min_validator_status_interval = 50,
     min_proposal_interval = 20, min_vote_interval = 1,
     max_validator_iteration_weight = 1000000000, max_proposal_processing_weight = 500000000,
     max_loop_iterations = 1000\<rparr>"

datatype dispatchable_type =
  SubmitProposal | JoinValidators | LeaveValidators | VoteProposal | UpdateParameter
| ValidatorStatusChange

datatype rate_limit_violation =
    PerBlockLimitExceeded dispatchable_type u32 u32
  | PerAccountLimitExceeded dispatchable_type u32 u32 u32
  | MinimumIntervalViolation dispatchable_type u32 u32
  | WeightBoundExceeded dispatchable_type u64 u64

datatype proposal_action =
    SlashAction account_id u128
  | RewardAction account_id u128
  | EjectAction account_id ejection_reason
  | AddValidator account_id
  | RemoveValidator account_id
  | RewardMultiple "account_id list" u128

datatype proposal_status = Pending | Approved | Rejected | Executed

record governance_proposal =
  proposer :: account_id
  action :: proposal_action
  status :: proposal_status
  votes_for :: u32
  votes_against :: u32

record private_chain_config =
  pc_enabled :: bool
  validator_allowlist :: "account_id list"
  allow_allowlist_updates :: bool
  max_allowlist_size :: u32

record epoch_history =
  eh_epoch_number :: u32
  eh_active_validators :: "account_id list"
  eh_score_snapshot :: "(account_id \<times> u64) list"
  eh_inference_summary :: "(account_id \<times> u64 option) list"

text \<open>The digest items of a block header: an engine identifier and its data.\<close>

datatype digest_item =
  PreRuntime "8 word list" "8 word list" | Seal "8 word list" "8 word list"
| Consensus "8 word list" "8 word list" | OtherDigest

datatype score_boost_reason =
  ValidBlockAuthored | ValidInference | ManualBoost

section \<open>Configuration\<close>

text \<open>
  \<open>blake2_256\<close> is the hash of \<open>sp_io\<close> and \<open>decode_account\<close> the decoder of the account type; both
  are parameters of the model, as are the weights of two calls. The pallet reads the
  constants of the pallets below it, and the balances; its configuration holds theirs.
\<close>

record ('c, 'sig) dcf_config =
  pos_cfg :: pos_config
  poi_cfg :: poi_config
  dvf_cfg :: "'sig dvf_config"
  currency_of :: "'c currency"
  blake2_256 :: "8 word list \<Rightarrow> 8 word list"
  decode_account :: "8 word list \<Rightarrow> account_id option"
  DefaultPosWeight :: u64
  DefaultPoiWeight :: u64
  ValidatorScoreDecay :: u32
  DcfMaxInactiveEpochs :: u32
  ScoreDecayInterval :: u32
  ParticipationUpdateInterval :: u32
  DcfUnderperformanceCheckInterval :: u32
  ValidatorProposalInterval :: u32
  EpochLength :: u32
  MaxEpochHistory :: u32
  FullPercentage :: u32
  ScoreImprovementPercentage :: u32
  ScoreImprovementThreshold :: u64
  BlockAuthorshipBoost :: u64
  MisbehaviorSlashThreshold :: u32
  DcfMaxValidatorHistorySize :: u32
  DcfMaxValidatorNameSize :: u32
  MaxTrustScore :: u64
  MinTrustScore :: u64
  MaxProposalActionSize :: u32
  SubmitProposalWeight :: u64
  VoteProposalWeight :: u64
  MinPerformanceScore :: u64
  MinParticipationRate :: u32
  HighParticipationRate :: u32
  MissedBlockPenalty :: u64
  TrustScoreUptimeWeight :: u64
  TrustScoreInferenceWeight :: u64
  TrustScoreSlashingWeight :: u64
  MaxTrustScoreGrowthRate :: u32
  MaxTrustScoreDecayRate :: u32
  TrustScoreStabilityFactor :: u32

section \<open>Storage and events\<close>

datatype (plugins only: code size) dcf_event =
    ValidatorScoreUpdated account_id u64 u64 u64
  | ValidatorScoreUpdatedDetailed account_id u64 u64 u64 u64 u64 u64 u32
  | ValidatorScoreDecayed account_id u64 u64
  | ValidatorScoreBoosted account_id u64 u64 score_boost_reason
  | DcfStatusChanged account_id validator_status validator_status u32
  | DcfEjected account_id ejection_reason
  | TrustScoreUpdated account_id u64 u64 u64 u64 u64
  | InvalidAuthor u32 account_id
  | AuthorMismatch u32 "account_id option" account_id
  | BlockAuthored u32 account_id
  | MissedBlock u32 account_id
  | ConsensusWeightsUpdated u64 u64
  | GovernanceModeToggled bool
  | ProposalSubmitted u32 account_id proposal_action
  | ProposalCreated u32 account_id proposal_action
  | ProposalVoted u32 account_id bool
  | ProposalPassed u32
  | ProposalRejected u32
  | ProposalExecuted u32 proposal_status
  | DcfValidatorAdded account_id
  | DcfValidatorRemoved account_id
  | RateLimitViolated account_id u32 u32 u32 u32
  | RateLimitConfigUpdated u32 u32 u32
  | BlockRateLimitCountersReset u32
  | FinalityRegressionDetected u32 u32 u32 u32
  | FinalityAdvancementRejected u32 u32 u32 u32
  | FinalityProgressionValidated u32 u32 u32 u32 u32
  | DcfBlockFinalized u32
  | FinalityMarker u32 "account_id list" u32
  | MisbehaviorReported account_id account_id u32
  | ValidatorAutoSlashed account_id u128 u32
  | AddedToAllowlist account_id
  | RemovedFromAllowlist account_id
  | PrivateChainModeEnabled u32 bool
  | PrivateChainModeOff
  | ForcedToLeave account_id
  | EpochBoundaryDetected u32 u32 bool
  | EpochStarted u32 "account_id list"
  | EpochEnded u32
  | EpochTransition u32 u32 "account_id list" "account_id list" "account_id list" u32 u64 u128 u128
  | ValidatorUptimeUpdated account_id u32 u32 u32 u32 u32
  | DcfJoined account_id u128
  | AutomaticValidatorProposal account_id validator_action u64 string
  | DcfParameterUpdated parameter_type "8 word list" "8 word list"

text \<open>
  \<open>PosWeight\<close> and \<open>PoiWeight\<close> are \<open>None\<close> until they are first written. The hashes of earlier
  blocks and the digest of the current one belong to \<open>frame_system\<close>. Storage that only reports
  (invariant reports, system metrics, replay records, events mirrored for the EVM) extends the record in
  the theories that model the reports.
\<close>

record ('c, 'sig) dcf_score_world = "('c, 'sig) poi_world" +
  system_block_hash :: "u32 \<Rightarrow> 8 word list"
  digest_logs :: "digest_item list"
  PosWeight :: "u64 option"
  PoiWeight :: "u64 option"
  EpochConfigStorage :: epoch_config
  TrustScoreConfigStorage :: trust_score_config
  DcfCurrentEpoch :: u32
  LastFinalizedBlock :: u32
  PreviousFinalizedBlock :: u32
  PreviousEpochBestBlock :: u32
  ValidatorTrustScores :: "(account_id, u64) smap"
  TrustScoreHistory :: "(account_id, (u32 \<times> u64) list) smap"
  TrustScoreBounds :: trust_score_bounds
  TrustScoreStabilityMetrics :: trust_score_stability_metrics
  EpochAuthorSequences :: "(u32, account_id list) smap"
  EpochScoreSnapshot :: "(u32, (account_id \<times> u64) list) smap"
  EpochHistories :: "epoch_history list"
  randomness_salt :: "8 word list"
  epoch_salt :: "8 word list"
  last_processed_epoch :: u32

record ('c, 'sig) dcf_world = "('c, 'sig) dcf_score_world" +
  GovernanceConfigStorage :: governance_config
  GovernanceModeEnabled :: bool
  Proposals :: "(u32, governance_proposal) smap"
  NextProposalId :: u32
  ProposalVotes :: "(u32 \<times> account_id, bool) smap"
  MisbehaviorReports :: "(account_id \<times> account_id, 8 word list) smap"
  RateLimitConfigStorage :: rate_limit_config
  BlockOperationCounts :: "(dispatchable_type, u32) smap"
  AccountOperationHistory :: "(account_id \<times> dispatchable_type, u32 list) smap"
  LastOperationBlock :: "(account_id \<times> dispatchable_type, u32) smap"
  PrivateChainConfigStorage :: "private_chain_config option"
  dcf_events :: "dcf_event list"

definition dcf_deposit_event ::
  "dcf_event \<Rightarrow> ('c, 'sig, 'z) dcf_world_scheme \<Rightarrow> ('c, 'sig, 'z) dcf_world_scheme" where
  "dcf_deposit_event e w = w\<lparr>dcf_events := dcf_events w @ [e]\<rparr>"

section \<open>The registry seen by the pallet\<close>

text \<open>
  Reading a record or a list truncates it to the bounds of this pallet, writing one truncates it to
  the bounds of the registry. \<open>mutate_validator\<close> is \<open>ValidatorStates::try_mutate\<close> around a
  closure that fails for an unknown validator: the record is read, the closure runs and may
  change the rest of the state, and the record is written last.
\<close>

definition dcf_validator_state ::
  "('c, 'sig) dcf_config \<Rightarrow> ('c, 'sig, 'z) dcf_world_scheme \<Rightarrow> account_id \<Rightarrow> dvf_validator_state option" where
  "dcf_validator_state cfg w v =
     map_option (\<lambda>st. st\<lparr>vs_history := bv_truncate (DcfMaxValidatorHistorySize cfg) (vs_history st),
         vs_name := map_option (bv_truncate (DcfMaxValidatorNameSize cfg)) (vs_name st)\<rparr>)
       (sm_get (ValidatorStates w) v)"

definition dcf_put_state ::
  "('c, 'sig) dcf_config \<Rightarrow> account_id \<Rightarrow> dvf_validator_state \<Rightarrow> ('c, 'sig, 'z) dcf_world_scheme
     \<Rightarrow> ('c, 'sig, 'z) dcf_world_scheme" where
  "dcf_put_state cfg v st w = update_validator_state (dvf_cfg cfg) v st w"

definition mutate_validator ::
  "('c, 'sig) dcf_config \<Rightarrow> account_id
     \<Rightarrow> (dvf_validator_state \<Rightarrow> (('c, 'sig, 'z) dcf_world_scheme, dvf_validator_state) call)
     \<Rightarrow> (('c, 'sig, 'z) dcf_world_scheme, unit) call" where
  "mutate_validator cfg v f w =
     (case dcf_validator_state cfg w v of
        None \<Rightarrow> (Inl (DcfErr DcfValidatorNotFound), w)
      | Some st \<Rightarrow>
          (case f st w of
             (Inl e, w') \<Rightarrow> (Inl e, w')
           | (Inr st', w') \<Rightarrow> (Inr (), dcf_put_state cfg v st' w')))"

definition dcf_active_validators ::
  "('c, 'sig) dcf_config \<Rightarrow> ('c, 'sig, 'z) dcf_world_scheme \<Rightarrow> account_id list" where
  "dcf_active_validators cfg w = bv_truncate (PosMaxValidators (pos_cfg cfg)) (ActiveValidators w)"

definition dcf_put_active ::
  "('c, 'sig) dcf_config \<Rightarrow> account_id list \<Rightarrow> ('c, 'sig, 'z) dcf_world_scheme
     \<Rightarrow> ('c, 'sig, 'z) dcf_world_scheme" where
  "dcf_put_active cfg vs w = update_active_validators (dvf_cfg cfg) vs w"

definition dcf_validator_set ::
  "('c, 'sig) dcf_config \<Rightarrow> ('c, 'sig, 'z) dcf_world_scheme \<Rightarrow> account_id list" where
  "dcf_validator_set cfg w = bv_truncate (PosMaxValidators (pos_cfg cfg)) (ValidatorSet w)"

definition dcf_put_set ::
  "('c, 'sig) dcf_config \<Rightarrow> account_id list \<Rightarrow> ('c, 'sig, 'z) dcf_world_scheme
     \<Rightarrow> ('c, 'sig, 'z) dcf_world_scheme" where
  "dcf_put_set cfg vs w = update_validator_set (dvf_cfg cfg) vs w"

definition is_validator_active ::
  "('c, 'sig) dcf_config \<Rightarrow> ('c, 'sig, 'z) dcf_world_scheme \<Rightarrow> account_id \<Rightarrow> bool" where
  "is_validator_active cfg w v \<longleftrightarrow> v \<in> set (dcf_active_validators cfg w)"

text \<open>\<open>history.remove(0)\<close> when full, then \<open>try_push\<close>; an empty full history stays empty.\<close>

definition push_history ::
  "('c, 'sig) dcf_config \<Rightarrow> u32 \<Rightarrow> dvf_validator_state \<Rightarrow> dvf_validator_state" where
  "push_history cfg epoch st =
     (let cap = unat (DcfMaxValidatorHistorySize cfg);
          h = (if length (vs_history st) = cap then tl (vs_history st) else vs_history st)
      in st\<lparr>vs_history := (if length h < cap then h @ [(current st)\<lparr>es_epoch := epoch\<rparr>] else h)\<rparr>)"

end
