(* ===== verification/Dcf_Scores.thy ===== *)
theory Dcf_Scores
  imports Dcf_State
begin

text \<open>
  The scores of \<open>pallet-cerulea-dcf\<close>: final scores from stake and inference, boosts, decay,
  ejection, and the trust scores with their bounds on growth and decay.
\<close>

section \<open>Final scores\<close>

text \<open>
  A weight that was never written is stored when it is first read here. Sums and products
  written with plain operators wrap around in a release build.
\<close>

definition load_weights ::
  "('c, 'sig) dcf_config \<Rightarrow> ('c, 'sig, 'z) dcf_world_scheme
     \<Rightarrow> (u64 \<times> u64) \<times> ('c, 'sig, 'z) dcf_world_scheme" where
  "load_weights cfg w =
     (let pos_weight = (case PosWeight w of None \<Rightarrow> DefaultPosWeight cfg | Some x \<Rightarrow> x);
          poi_weight = (case PoiWeight w of None \<Rightarrow> DefaultPoiWeight cfg | Some x \<Rightarrow> x)
      in ((pos_weight, poi_weight),
          w\<lparr>PosWeight := Some pos_weight, PoiWeight := Some poi_weight\<rparr>))"

definition combined_score :: "('c, 'sig) dcf_config \<Rightarrow> u64 \<Rightarrow> u64 \<Rightarrow> u64 \<Rightarrow> u64 \<Rightarrow> u64" where
  "combined_score cfg stake inference pos_weight poi_weight =
     (let s = (sat_mul stake pos_weight + sat_mul inference poi_weight)
            div ucast (PercentagePrecision (poi_cfg cfg))
      in if s > MaxValidatorScore (poi_cfg cfg) then MaxValidatorScore (poi_cfg cfg) else s)"

definition dcf_update_final_score ::
  "('c, 'sig) dcf_config \<Rightarrow> account_id \<Rightarrow> (('c, 'sig, 'z) dcf_world_scheme, unit) call" where
  "dcf_update_final_score cfg v = mutate_validator cfg v (\<lambda>st w.
     (let c = current st;
          ((pos_weight, poi_weight), w1) = load_weights cfg w;
          fs = combined_score cfg (stake_score c) (inference_score c) pos_weight poi_weight;
          st1 = push_history cfg (DcfCurrentEpoch w)
            (st\<lparr>current := c\<lparr>final_score := fs\<rparr>, last_active_epoch := DcfCurrentEpoch w\<rparr>)
      in (Inr st1,
          dcf_deposit_event (ValidatorScoreUpdatedDetailed v (stake_score c) (stake_score c)
              (inference_score c) (inference_score c) (final_score c) fs (DcfCurrentEpoch w))
            (dcf_deposit_event (ValidatorScoreUpdated v (stake_score c) (inference_score c) fs) w1))))"

text \<open>The old status is computed after the removal.\<close>

definition dcf_eject_validator ::
  "('c, 'sig) dcf_config \<Rightarrow> account_id \<Rightarrow> ejection_reason \<Rightarrow> (('c, 'sig, 'z) dcf_world_scheme, unit) call" where
  "dcf_eject_validator cfg v reason w =
     (let active = dcf_active_validators cfg w;
          w1 = (if v \<in> set active then dcf_put_active cfg (remove1 v active) w else w);
          old_status = (if is_validator_active cfg w1 v then Active else Inactive)
      in (Inr (), dcf_deposit_event (DcfEjected v reason)
           (dcf_deposit_event (DcfStatusChanged v old_status Ejected (block_number w1)) w1)))"

definition decay_amount :: "('c, 'sig) dcf_config \<Rightarrow> u64 \<Rightarrow> u64" where
  "decay_amount cfg score =
     sat_mul score (ucast (ValidatorScoreDecay cfg)) div ucast (PercentagePrecision (poi_cfg cfg))"

definition apply_score_decay ::
  "('c, 'sig) dcf_config \<Rightarrow> account_id \<Rightarrow> u32 \<Rightarrow> (('c, 'sig, 'z) dcf_world_scheme, unit) call" where
  "apply_score_decay cfg v current_epoch = mutate_validator cfg v (\<lambda>st w.
     if sat_sub current_epoch (last_active_epoch st) > 0 then
       (let old_score = final_score (current st);
            new_score = min (sat_sub old_score (decay_amount cfg old_score))
              (MaxValidatorScore (poi_cfg cfg));
            w1 = dcf_deposit_event (ValidatorScoreDecayed v old_score new_score) w;
            w2 = (if new_score < ucast (MinValidatorScore (pos_cfg cfg))
                  then snd (dcf_eject_validator cfg v ScoreBelowThreshold w1) else w1)
        in (Inr (st\<lparr>current := (current st)\<lparr>final_score := new_score\<rparr>\<rparr>), w2))
     else (Inr st, w))"

definition apply_validator_score_decay ::
  "('c, 'sig) dcf_config \<Rightarrow> u32 \<Rightarrow> ('c, 'sig, 'z) dcf_world_scheme \<Rightarrow> ('c, 'sig, 'z) dcf_world_scheme" where
  "apply_validator_score_decay cfg current_epoch w =
     each_ignore (\<lambda>v. apply_score_decay cfg v current_epoch) (dcf_validator_set cfg w) w"

definition dcf_boost_score ::
  "('c, 'sig) dcf_config \<Rightarrow> account_id \<Rightarrow> u64 \<Rightarrow> score_boost_reason
     \<Rightarrow> (('c, 'sig, 'z) dcf_world_scheme, unit) call" where
  "dcf_boost_score cfg v amount reason = mutate_validator cfg v (\<lambda>st w.
     (let old_score = final_score (current st);
          new_score = min (sat_add old_score amount) (MaxValidatorScore (poi_cfg cfg));
          st1 = push_history cfg (DcfCurrentEpoch w)
            (st\<lparr>current := (current st)\<lparr>final_score := new_score\<rparr>,
                last_active_epoch := DcfCurrentEpoch w\<rparr>)
      in (Inr st1, dcf_deposit_event (ValidatorScoreBoosted v old_score new_score reason) w)))"

definition dcf_calculate_slash_amount ::
  "('c, 'sig) dcf_config \<Rightarrow> ('c, 'sig, 'z) dcf_world_scheme \<Rightarrow> account_id \<Rightarrow> dispatch_error + u128" where
  "dcf_calculate_slash_amount cfg w v =
     (if \<not> sm_has (ValidatorStates w) v then Inl (DcfErr DcfValidatorNotFound)
      else Inr (free_balance (currency_of cfg) (balances w) v div 100
                  * ucast (SlashPercent (pos_cfg cfg))))"

definition update_validator_stake_score ::
  "('c, 'sig) dcf_config \<Rightarrow> origin \<Rightarrow> account_id \<Rightarrow> (('c, 'sig, 'z) dcf_world_scheme, unit) call" where
  "update_validator_stake_score cfg orig v w =
     (case (if GovernanceModeEnabled w then ensure_root orig
            else map_sum id (\<lambda>_. ()) (ensure_signed orig)) of
        Inl e \<Rightarrow> (Inl e, w)
      | Inr _ \<Rightarrow>
          (let stake = sat_into (sm_val 0 (Stake w) v)
           in case mutate_validator cfg v
                (\<lambda>st w. (Inr (st\<lparr>current := (current st)\<lparr>stake_score := stake\<rparr>\<rparr>), w)) w of
                (Inl e, w1) \<Rightarrow> (Inl e, w1)
              | (Inr _, w1) \<Rightarrow> dcf_update_final_score cfg v w1))"

definition update_consensus_weights ::
  "('c, 'sig) dcf_config \<Rightarrow> origin \<Rightarrow> u64 \<Rightarrow> u64 \<Rightarrow> (('c, 'sig, 'z) dcf_world_scheme, unit) call" where
  "update_consensus_weights cfg orig pos_weight poi_weight w =
     (case ensure_root orig of Inl e \<Rightarrow> (Inl e, w) | Inr _ \<Rightarrow>
      if pos_weight + poi_weight \<noteq> ucast (PercentagePrecision (poi_cfg cfg))
      then (Inl (DcfErr DcfInvalidWeight), w)
      else (Inr (), dcf_deposit_event (ConsensusWeightsUpdated pos_weight poi_weight)
              (w\<lparr>PosWeight := Some pos_weight, PoiWeight := Some poi_weight\<rparr>)))"

text \<open>The getters of the weights read zero where nothing was written.\<close>

definition pos_weight_of :: "('c, 'sig, 'z) dcf_world_scheme \<Rightarrow> u64" where
  "pos_weight_of w = (case PosWeight w of None \<Rightarrow> 0 | Some x \<Rightarrow> x)"

definition poi_weight_of :: "('c, 'sig, 'z) dcf_world_scheme \<Rightarrow> u64" where
  "poi_weight_of w = (case PoiWeight w of None \<Rightarrow> 0 | Some x \<Rightarrow> x)"

section \<open>Score aggregation at an epoch boundary\<close>

definition stake_score_scale :: u128 where
  "stake_score_scale = 32000"

definition aggregate_validator ::
  "('c, 'sig) dcf_config \<Rightarrow> account_id list \<Rightarrow> account_id \<Rightarrow> ('c, 'sig, 'z) dcf_world_scheme
     \<Rightarrow> ('c, 'sig, 'z) dcf_world_scheme" where
  "aggregate_validator cfg validators v w =
     (let total_stake = sum_list (map (sm_val 0 (Stake w)) validators);
          stake = (if total_stake > 0
            then ucast (sat_mul (sm_val 0 (Stake w) v) stake_score_scale div total_stake) else 0);
          inference = get_inference_score w v
      in case mutate_validator cfg v (\<lambda>st w. (Inr (st\<lparr>current :=
             (current st)\<lparr>stake_score := stake, inference_score := inference\<rparr>\<rparr>), w)) w of
           (Inl e, w1) \<Rightarrow> w1
         | (Inr _, w1) \<Rightarrow> snd (dcf_update_final_score cfg v w1))"

definition run_comprehensive_score_aggregation ::
  "('c, 'sig) dcf_config \<Rightarrow> ('c, 'sig, 'z) dcf_world_scheme \<Rightarrow> ('c, 'sig, 'z) dcf_world_scheme" where
  "run_comprehensive_score_aggregation cfg w =
     (let validators = dcf_validator_set cfg w
      in fold (aggregate_validator cfg validators) validators w)"

definition participation_of :: "('c, 'sig) dcf_config \<Rightarrow> dvf_validator_state \<Rightarrow> dvf_validator_state" where
  "participation_of cfg st =
     (let total_blocks = authored_blocks (current st) + missed_blocks (current st)
      in if total_blocks > 0
         then st\<lparr>participation_rate :=
                authored_blocks (current st) * PercentagePrecision (poi_cfg cfg) div total_blocks\<rparr>
         else st)"

text \<open>\<open>mutate\<close> removes the record where there is none, which changes nothing.\<close>

definition update_validator_participation_rates ::
  "('c, 'sig) dcf_config \<Rightarrow> ('c, 'sig, 'z) dcf_world_scheme \<Rightarrow> ('c, 'sig, 'z) dcf_world_scheme" where
  "update_validator_participation_rates cfg w =
     fold (\<lambda>v w. case dcf_validator_state cfg w v of
             None \<Rightarrow> remove_validator_state v w
           | Some st \<Rightarrow> dcf_put_state cfg v (participation_of cfg st) w)
       (dcf_validator_set cfg w) w"

definition update_epoch_metrics ::
  "('c, 'sig) dcf_config \<Rightarrow> ('c, 'sig, 'z) dcf_world_scheme \<Rightarrow> ('c, 'sig, 'z) dcf_world_scheme" where
  "update_epoch_metrics cfg w =
     fold (\<lambda>v w. case dcf_validator_state cfg w v of
             None \<Rightarrow> w
           | Some st \<Rightarrow> dcf_put_state cfg v
               (participation_of cfg (st\<lparr>uptime := sat_add (uptime st) 1\<rparr>)) w)
       (dcf_active_validators cfg w) w"

definition dcf_check_validator ::
  "('c, 'sig) dcf_config \<Rightarrow> account_id \<Rightarrow> ('c, 'sig, 'z) dcf_world_scheme
     \<Rightarrow> ('c, 'sig, 'z) dcf_world_scheme" where
  "dcf_check_validator cfg v w =
     (case dcf_validator_state cfg w v of
        None \<Rightarrow> w
      | Some st \<Rightarrow>
          (let w1 = (if final_score (current st) < ucast (MinValidatorScore (pos_cfg cfg))
                     then snd (dcf_eject_validator cfg v ScoreBelowThreshold w) else w)
           in if sat_sub (DcfCurrentEpoch w) (last_active_epoch st) > DcfMaxInactiveEpochs cfg
              then snd (dcf_eject_validator cfg v ScoreBelowThreshold w1) else w1))"

definition dcf_check_and_handle_underperforming_validators ::
  "('c, 'sig) dcf_config \<Rightarrow> ('c, 'sig, 'z) dcf_world_scheme \<Rightarrow> ('c, 'sig, 'z) dcf_world_scheme" where
  "dcf_check_and_handle_underperforming_validators cfg w =
     fold (dcf_check_validator cfg) (dcf_active_validators cfg w) w"

end
