(* ===== verification/Trust_Score.thy ===== *)
theory Trust_Score
  imports Dcf_Scores
begin

text \<open>
  Trust scores: the raw score of a validator from uptime, block production, inference and
  performance, the bounds on its growth and decay, the recorded history, the stability metrics of
  the active set and the integer square root they use. Then the reports of block authorship,
  which change scores and trust scores together.
\<close>

section \<open>Components of the trust score\<close>

definition uptime_percentage_of :: "('c, 'sig) dcf_config \<Rightarrow> u32 \<Rightarrow> dvf_validator_state \<Rightarrow> u32" where
  "uptime_percentage_of cfg current_epoch st =
     (if current_epoch > 0 then uptime st * PercentagePrecision (poi_cfg cfg) div current_epoch
      else PercentagePrecision (poi_cfg cfg))"

definition block_reliability :: "('c, 'sig) dcf_config \<Rightarrow> u32 \<Rightarrow> u32 \<Rightarrow> u32" where
  "block_reliability cfg blocks_authored blocks_missed =
     (let total_opportunities = sat_add blocks_authored blocks_missed
      in if total_opportunities > 0
         then blocks_authored * PercentagePrecision (poi_cfg cfg) div total_opportunities
         else PercentagePrecision (poi_cfg cfg))"

definition inference_success_rate :: "('c, 'sig) dcf_config \<Rightarrow> dvf_validator_state \<Rightarrow> u64" where
  "inference_success_rate cfg st =
     (if inference_count st > 0
      then ucast (inference_success_count st) * ucast (PercentagePrecision (poi_cfg cfg))
             div inference_count st
      else ucast (PercentagePrecision (poi_cfg cfg)) div 2)"

definition inference_participation :: "('c, 'sig) dcf_config \<Rightarrow> u32 \<Rightarrow> dvf_validator_state \<Rightarrow> u64" where
  "inference_participation cfg current_epoch st =
     (if current_epoch > 0
      then min (inference_count st div ucast (max current_epoch 1)) 100
             * ucast (PercentagePrecision (poi_cfg cfg)) div 100
      else ucast (PercentagePrecision (poi_cfg cfg)) div 2)"

definition slashing_penalty_of :: "('c, 'sig) dcf_config \<Rightarrow> u64 \<Rightarrow> u64" where
  "slashing_penalty_of cfg score =
     (let max_score = MaxValidatorScore (poi_cfg cfg);
          precision = ucast (PercentagePrecision (poi_cfg cfg))
      in if score < max_score div 4 then precision div 4
         else if score < max_score div 2 then precision div 8 else 0)"

section \<open>Bounds on growth and decay\<close>

definition apply_trust_score_bounds :: "u64 \<Rightarrow> u64 \<Rightarrow> trust_score_bounds \<Rightarrow> u64" where
  "apply_trust_score_bounds new_score previous_score bounds =
     (if previous_score = 0 then min (max new_score (min_score bounds)) (max_score bounds)
      else
        (let score_change = (if new_score > previous_score then new_score - previous_score
               else previous_score - new_score);
             max_growth = previous_score * ucast (max_growth_rate bounds) div 10000;
             max_decay = previous_score * ucast (max_decay_rate bounds) div 10000;
             bounded_score = (if new_score > previous_score
               then sat_add previous_score (min score_change (max max_growth 1))
               else sat_sub previous_score (min score_change (max max_decay 1)));
             stability_weight = stability_factor bounds;
             change_weight = 10000 - stability_weight;
             stabilized_score = (previous_score * ucast stability_weight
               + bounded_score * ucast change_weight) div 10000
         in min (max stabilized_score (min_score bounds)) (max_score bounds)))"

definition raw_trust_score ::
  "('c, 'sig) dcf_config \<Rightarrow> ('c, 'sig, 'z) dcf_world_scheme \<Rightarrow> account_id \<Rightarrow> dvf_validator_state \<Rightarrow> u64" where
  "raw_trust_score cfg w v st =
     (let config = TrustScoreConfigStorage w;
          epoch = DcfCurrentEpoch w;
          precision = ucast (PercentagePrecision (poi_cfg cfg));
          uptime_score = (ucast (uptime_percentage_of cfg epoch st) * 70
            + ucast (block_reliability cfg (sm_val 0 (ValidatorBlocksAuthored w) v)
                (sm_val 0 (ValidatorBlocksMissed w) v)) * 30) div 100;
          inference = (inference_success_rate cfg st * 60
            + inference_participation cfg epoch st * 40) div 100;
          weighted_score = sat_add (sat_mul uptime_score (ucast (uptime_weight config)))
              (sat_mul inference (ucast (inference_weight config)))
            div ucast (sat_add (uptime_weight config) (inference_weight config));
          penalty_amount = sat_mul (slashing_penalty_of cfg (final_score (current st)))
              (ucast (slashing_weight config)) div 100;
          base_score = sat_sub weighted_score penalty_amount
      in base_score * max_score (TrustScoreBounds w) div precision)"

definition calculate_trust_score ::
  "('c, 'sig) dcf_config \<Rightarrow> ('c, 'sig, 'z) dcf_world_scheme \<Rightarrow> account_id \<Rightarrow> u64" where
  "calculate_trust_score cfg w v =
     (case dcf_validator_state cfg w v of
        None \<Rightarrow> MinTrustScore cfg
      | Some st \<Rightarrow>
          (let config = TrustScoreConfigStorage w; bounds = TrustScoreBounds w
           in if sat_add (uptime_weight config) (inference_weight config) = 0
              then MinTrustScore cfg
              else min (max (apply_trust_score_bounds (raw_trust_score cfg w v st)
                               (sm_val 0 (ValidatorTrustScores w) v) bounds)
                          (min_score bounds)) (max_score bounds)))"

section \<open>Updates\<close>

definition trust_history_capacity :: nat where
  "trust_history_capacity = 100"

definition push_trust_history :: "u32 \<times> u64 \<Rightarrow> (u32 \<times> u64) list \<Rightarrow> (u32 \<times> u64) list" where
  "push_trust_history entry h =
     (if length h = trust_history_capacity then tl h @ [entry] else h @ [entry])"

definition update_trust_score ::
  "('c, 'sig) dcf_config \<Rightarrow> account_id \<Rightarrow> (('c, 'sig, 'z) dcf_world_scheme, unit) call" where
  "update_trust_score cfg v w =
     (let new_score = calculate_trust_score cfg w v;
          old_score = sm_val 0 (ValidatorTrustScores w) v;
          w1 = w\<lparr>ValidatorTrustScores := sm_put v new_score (ValidatorTrustScores w)\<rparr>
      in case mutate_validator cfg v (\<lambda>st w. (Inr (st\<lparr>trust_score := new_score\<rparr>), w)) w1 of
           (Inl e, w2) \<Rightarrow> (Inl e, w2)
         | (Inr _, w2) \<Rightarrow>
             (let score_change = (if new_score > old_score then new_score - old_score
                    else old_score - new_score)
              in if score_change > MaxTrustScore cfg div 100 then
                   (let w3 = w2\<lparr>TrustScoreHistory := sm_put v
                          (push_trust_history (DcfCurrentEpoch w, new_score)
                            (sm_val [] (TrustScoreHistory w2) v)) (TrustScoreHistory w2)\<rparr>
                    in case dcf_validator_state cfg w3 v of
                         None \<Rightarrow> (Inl (DcfErr DcfValidatorNotFound), w3)
                       | Some st \<Rightarrow> (Inr (), dcf_deposit_event (TrustScoreUpdated v old_score new_score
                             (ucast (uptime_percentage_of cfg (DcfCurrentEpoch w) st))
                             (inference_success_rate cfg st)
                             (slashing_penalty_of cfg (final_score (current st)))) w3))
                 else (Inr (), w2)))"

section \<open>Stability metrics\<close>

text \<open>
  The binary search of \<open>integer_sqrt\<close>: the loop on \<open>left\<close>, \<open>right\<close> and \<open>result\<close>. The middle is
  never zero, since the search starts at one.
\<close>

function sqrt_loop :: "u64 \<Rightarrow> u64 \<Rightarrow> u64 \<Rightarrow> u64 \<Rightarrow> u64" where
  "sqrt_loop n left right result =
     (if left \<le> right then
        (let mid = left + (right - left) div 2
         in if mid \<le> n div mid then sqrt_loop n (mid + 1) right mid
            else sqrt_loop n left (mid - 1) result)
      else result)"
  by pat_completeness auto

definition integer_sqrt :: "u64 \<Rightarrow> u64" where
  "integer_sqrt n = (if n = 0 then 0 else sqrt_loop n 1 n 0)"

lemma unat_mid:
  fixes left right :: u64
  assumes "left \<le> right"
  shows "unat (left + (right - left) div 2) = unat left + (unat right - unat left) div 2"
proof -
  have lr: "unat left \<le> unat right"
    using assms by (simp add: word_le_nat_alt)
  have half: "unat ((right - left) div 2) = (unat right - unat left) div 2"
    using assms by (simp add: unat_div unat_sub)
  have "unat left + (unat right - unat left) div 2 \<le> unat right"
    using lr by linarith
  then have "unat left + (unat right - unat left) div 2 < 2 ^ 64"
    using unat_lt [of right] by (simp add: order_le_less_trans)
  with half show ?thesis
    by (simp add: unat_word_ariths)
qed

lemma mid_le_div:
  fixes n mid :: u64
  assumes "mid \<le> n div mid"
  shows "unat mid * unat mid \<le> unat n" and "unat mid + 1 < 2 ^ 64"
proof -
  have le: "unat mid \<le> unat n div unat mid"
    using assms by (simp add: word_le_nat_alt unat_div)
  show sq: "unat mid * unat mid \<le> unat n"
  proof (cases "unat mid = 0")
    case True
    then show ?thesis by (metis mult_zero_left zero_le)
  next
    case False
    with le show ?thesis
      by (metis div_times_less_eq_dividend le_trans mult_le_mono1 mult.commute)
  qed
  have "unat n < 2 ^ 64"
    using unat_lt [of n] by simp
  show "unat mid + 1 < 2 ^ 64"
  proof (rule ccontr)
    assume "\<not> ?thesis"
    then have "2 ^ 64 - 1 \<le> unat mid"
      by simp
    then have "(2 ^ 64 - 1) * (2 ^ 64 - 1) \<le> unat mid * unat mid"
      by (intro mult_le_mono) simp_all
    with sq \<open>unat n < 2 ^ 64\<close> show False
      by simp
  qed
qed

lemma mid_gt_div:
  fixes n mid :: u64
  assumes "\<not> mid \<le> n div mid"
  shows "unat n < unat mid * unat mid" and "0 < unat mid"
proof -
  have gt: "unat n div unat mid < unat mid"
    using assms by (simp add: word_le_nat_alt unat_div)
  then show "0 < unat mid"
    by linarith
  with gt show "unat n < unat mid * unat mid"
    by (simp add: div_less_iff_less_mult)
qed

termination sqrt_loop
proof (relation "measure (\<lambda>(n, left, right, result). unat right + 1 - unat left)", goal_cases)
  case 1
  then show ?case by simp
next
  case (2 n left right result mid)
  then have mid: "unat mid = unat left + (unat right - unat left) div 2"
    by (simp add: unat_mid)
  have "unat (mid + 1) = unat mid + 1"
    using mid_le_div(2) [OF 2(3)] by (simp add: unat_word_ariths)
  moreover have "unat left \<le> unat right"
    using 2(1) by (simp add: word_le_nat_alt)
  ultimately show ?case
    using mid by auto
next
  case (3 n left right result mid)
  then have mid: "unat mid = unat left + (unat right - unat left) div 2"
    by (simp add: unat_mid)
  have "unat (mid - 1) = unat mid - 1"
    using mid_gt_div(2) [OF 3(3)] by (simp add: unat_sub word_le_nat_alt)
  moreover have "unat left \<le> unat right"
    using 3(1) by (simp add: word_le_nat_alt)
  ultimately show ?case
    using mid mid_gt_div(2) [OF 3(3)] by auto
qed

declare sqrt_loop.simps [simp del]

lemma sqrt_loop_correct:
  assumes "unat left = unat result + 1" and "unat result * unat result \<le> unat n"
    and "unat left \<le> unat right + 1" and "unat n < (unat right + 1) * (unat right + 1)"
  shows "unat (sqrt_loop n left right result) * unat (sqrt_loop n left right result) \<le> unat n \<and>
    unat n < (unat (sqrt_loop n left right result) + 1) * (unat (sqrt_loop n left right result) + 1)"
  using assms
proof (induction n left right result rule: sqrt_loop.induct)
  case (1 n left right result)
  show ?case
  proof (cases "left \<le> right")
    case False
    with 1(3,5) have "unat right = unat result"
      by (simp add: word_le_nat_alt)
    with False 1(4,6) show ?thesis
      by (subst (1 2 3 4) sqrt_loop.simps) simp
  next
    case True
    define mid where "mid = left + (right - left) div 2"
    have mid: "unat mid = unat left + (unat right - unat left) div 2"
      using True by (simp add: mid_def unat_mid)
    have lr: "unat left \<le> unat right"
      using True by (simp add: word_le_nat_alt)
    show ?thesis
    proof (cases "mid \<le> n div mid")
      case below: True
      have next_left: "unat (mid + 1) = unat mid + 1"
        using mid_le_div(2) [OF below] by (simp add: unat_word_ariths)
      have "sqrt_loop n left right result = sqrt_loop n (mid + 1) right mid"
        using True below by (subst sqrt_loop.simps) (simp add: mid_def Let_def)
      with 1(1) [OF True mid_def below next_left mid_le_div(1) [OF below] _ 1(6)] next_left mid lr
      show ?thesis by simp
    next
      case above: False
      have pos: "0 < unat mid" and big: "unat n < unat mid * unat mid"
        using mid_gt_div [OF above] by simp_all
      have next_right: "unat (mid - 1) + 1 = unat mid"
        using pos by (simp add: unat_sub word_le_nat_alt)
      have "sqrt_loop n left right result = sqrt_loop n left (mid - 1) result"
        using True above by (subst sqrt_loop.simps) (simp add: mid_def Let_def)
      moreover have "unat n < (unat (mid - 1) + 1) * (unat (mid - 1) + 1)"
        unfolding next_right by (rule big)
      moreover have "unat left \<le> unat (mid - 1) + 1"
        unfolding next_right mid by simp
      ultimately show ?thesis
        using 1(2) [OF True mid_def above 1(3,4)] by simp
    qed
  qed
qed

definition score_changes_of ::
  "('c, 'sig, 'z) dcf_world_scheme \<Rightarrow> account_id list \<Rightarrow> u64 list" where
  "score_changes_of w vs = concat (map (\<lambda>v.
     let current_score = sm_val 0 (ValidatorTrustScores w) v; h = sm_val [] (TrustScoreHistory w) v
     in if h \<noteq> [] \<and> fst (last h) = sat_sub (DcfCurrentEpoch w) 1
        then [if current_score > snd (last h) then current_score - snd (last h)
              else snd (last h) - current_score]
        else []) vs)"

definition median_of :: "u64 list \<Rightarrow> u64" where
  "median_of sorted_scores =
     (let mid = length sorted_scores div 2
      in if length sorted_scores mod 2 = 0
         then (sorted_scores ! (mid - 1) + sorted_scores ! mid) div 2 else sorted_scores ! mid)"

definition variance_of :: "u64 list \<Rightarrow> u64" where
  "variance_of scores =
     (let mean_score = sum_list scores div of_nat (length scores)
      in sum_list (map (\<lambda>score.
           let diff = (if score > mean_score then score - mean_score else mean_score - score)
           in diff * diff) scores) div of_nat (length scores))"

text \<open>Nothing is written where there is no active validator; the list of scores is then never empty.\<close>

definition update_trust_score_stability_metrics ::
  "('c, 'sig) dcf_config \<Rightarrow> ('c, 'sig, 'z) dcf_world_scheme \<Rightarrow> ('c, 'sig, 'z) dcf_world_scheme" where
  "update_trust_score_stability_metrics cfg w =
     (let bounds = TrustScoreBounds w;
          active = dcf_active_validators cfg w
      in if active = [] then w
         else
           (let scores = map (sm_val 0 (ValidatorTrustScores w)) active;
                changes = score_changes_of w active;
                avg = (if changes = [] then 0 else sum_list changes div of_nat (length changes));
                sorted = sort scores;
                total_validators = of_nat (length sorted) :: u32;
                p90_index = max (total_validators * 90 div 100) 1;
                p10_index = total_validators * 10 div 100;
                volatility = (if max_score bounds > 0 then avg * 10000 div max_score bounds else 0)
            in w\<lparr>TrustScoreStabilityMetrics := \<lparr>
                 sm_epoch = DcfCurrentEpoch w,
                 avg_score_change = avg,
                 max_score_change = fold max changes 0,
                 validators_at_min_bound = of_nat (length (filter (\<lambda>s. s \<le> min_score bounds) scores)),
                 validators_at_max_bound = of_nat (length (filter (\<lambda>s. s \<ge> max_score bounds) scores)),
                 score_standard_deviation = integer_sqrt (variance_of sorted),
                 score_median = median_of sorted,
                 high_performers_count = total_validators - min p90_index total_validators,
                 low_performers_count = min p10_index total_validators,
                 stability_index = sat_sub 10000 (ucast (min volatility 10000))\<rparr>\<rparr>))"

definition update_all_trust_scores ::
  "('c, 'sig) dcf_config \<Rightarrow> ('c, 'sig, 'z) dcf_world_scheme \<Rightarrow> ('c, 'sig, 'z) dcf_world_scheme" where
  "update_all_trust_scores cfg w =
     update_trust_score_stability_metrics cfg
       (each_ignore (update_trust_score cfg) (dcf_active_validators cfg w) w)"

section \<open>Reports of block authorship\<close>

definition touch_activity ::
  "('c, 'sig, 'z) dcf_world_scheme \<Rightarrow> dvf_validator_state \<Rightarrow> dvf_validator_state" where
  "touch_activity w st = st\<lparr>last_active_block := block_number w, last_active_epoch := DcfCurrentEpoch w\<rparr>"

definition dcf_record_inference_activity ::
  "('c, 'sig) dcf_config \<Rightarrow> account_id \<Rightarrow> (('c, 'sig, 'z) dcf_world_scheme, unit) call" where
  "dcf_record_inference_activity cfg v = mutate_validator cfg v (\<lambda>st w.
     (Inr (touch_activity w (st\<lparr>inference_count := sat_add (inference_count st) 1\<rparr>)), w))"

definition record_missed_block ::
  "('c, 'sig) dcf_config \<Rightarrow> account_id \<Rightarrow> (('c, 'sig, 'z) dcf_world_scheme, unit) call" where
  "record_missed_block cfg v = mutate_validator cfg v (\<lambda>st w.
     (Inr (st\<lparr>current := (current st)\<lparr>missed_blocks := sat_add (missed_blocks (current st)) 1\<rparr>\<rparr>), w))"

definition record_block_authorship ::
  "('c, 'sig) dcf_config \<Rightarrow> account_id \<Rightarrow> (('c, 'sig, 'z) dcf_world_scheme, unit) call" where
  "record_block_authorship cfg v w =
     (case mutate_validator cfg v (\<lambda>st w. (Inr (touch_activity w
          (st\<lparr>current := (current st)\<lparr>authored_blocks := sat_add (authored_blocks (current st)) 1\<rparr>\<rparr>)), w)) w of
        (Inl e, w1) \<Rightarrow> (Inl e, w1)
      | (Inr _, w1) \<Rightarrow>
          (case dcf_boost_score cfg v (BlockAuthorshipBoost cfg) ValidBlockAuthored
              (set_validator_blocks_authored v (sat_add (sm_val 0 (ValidatorBlocksAuthored w1) v) 1) w1) of
             (Inl e, w2) \<Rightarrow> (Inl e, w2)
           | (Inr _, w2) \<Rightarrow> update_trust_score cfg v w2))"

definition report_successful_block_authorship ::
  "('c, 'sig) dcf_config \<Rightarrow> u32 \<Rightarrow> account_id \<Rightarrow> (('c, 'sig, 'z) dcf_world_scheme, unit) call" where
  "report_successful_block_authorship cfg n author w =
     (if \<not> is_validator_active cfg w author
      then (Inl (OtherErr ''Author is not an active validator''),
            dcf_deposit_event (InvalidAuthor n author) w)
      else then_do (record_block_authorship cfg author w)
             (dcf_deposit_event (BlockAuthored n author)))"

definition report_author_mismatch ::
  "('c, 'sig) dcf_config \<Rightarrow> u32 \<Rightarrow> account_id option \<Rightarrow> account_id
     \<Rightarrow> (('c, 'sig, 'z) dcf_world_scheme, unit) call" where
  "report_author_mismatch cfg n expected actual w =
     (let w1 = dcf_deposit_event (AuthorMismatch n expected actual) w
      in case expected of None \<Rightarrow> (Inr (), w1) | Some v \<Rightarrow> record_missed_block cfg v w1)"

definition report_missed_block_for_api ::
  "('c, 'sig) dcf_config \<Rightarrow> u32 \<Rightarrow> account_id \<Rightarrow> (('c, 'sig, 'z) dcf_world_scheme, unit) call" where
  "report_missed_block_for_api cfg n expected w =
     then_do (record_missed_block cfg expected w) (dcf_deposit_event (MissedBlock n expected))"

end
