(* ===== verification/Author_Selection.thy ===== *)
theory Author_Selection
  imports Trust_Score "HOL-Library.Multiset"
begin

text \<open>
  Who is expected to author a block: weighted selection from random bytes, the deterministic
  author sequence of an epoch and the fallback selection from fresh scores; with the lemmas on
  the selection and on the sequence.
\<close>

section \<open>Bytes\<close>

definition bytes_of_ascii :: "string \<Rightarrow> 8 word list" where
  "bytes_of_ascii s = map (\<lambda>c. of_nat (of_char c)) s"

definition u32_to_le_bytes :: "u32 \<Rightarrow> 8 word list" where
  "u32_to_le_bytes x = map (\<lambda>i. ucast (drop_bit (8 * i) x)) [0, 1, 2, 3]"

definition u64_from_le_bytes :: "8 word list \<Rightarrow> u64" where
  "u64_from_le_bytes bs = foldr (\<lambda>b x. ucast b + 256 * x) bs 0"

definition bytes_to_u64 :: "8 word list \<Rightarrow> u64" where
  "bytes_to_u64 bytes = u64_from_le_bytes (take 8 bytes)"

section \<open>Weighted selection\<close>

fun pick_author :: "u64 \<Rightarrow> u64 \<Rightarrow> (account_id \<times> u64) list \<Rightarrow> account_id option" where
  "pick_author target cumulative [] = None"
| "pick_author target cumulative ((v, weight) # rest) =
     (let cumulative' = sat_add cumulative weight
      in if target < cumulative' then Some v else pick_author target cumulative' rest)"

text \<open>
  The list is never empty where the code calls this; on an empty list it panics (\<open>None\<close>). The sum
  of the weights wraps around in a release build.
\<close>

definition select_weighted_author :: "(account_id \<times> u64) list \<Rightarrow> 8 word list \<Rightarrow> account_id option" where
  "select_weighted_author weights randomness =
     (if weights = [] then None
      else
        (let total_weight = sum_list (map snd weights)
         in if total_weight = 0
            then Some (fst (weights ! (unat (bytes_to_u64 randomness) mod length weights)))
            else (case pick_author (bytes_to_u64 randomness mod total_weight) 0 weights of
                    Some v \<Rightarrow> Some v
                  | None \<Rightarrow> Some (fst (hd weights)))))"

section \<open>The author sequence of an epoch\<close>

definition advance_deterministic_rng ::
  "('c, 'sig) dcf_config \<Rightarrow> 8 word list \<Rightarrow> u32 \<Rightarrow> 8 word list" where
  "advance_deterministic_rng cfg state step =
     blake2_256 cfg (state @ u32_to_le_bytes step @ bytes_of_ascii ''RNG_ADVANCE'')"

fun author_loop ::
  "('c, 'sig) dcf_config \<Rightarrow> (account_id \<times> u64) list \<Rightarrow> nat \<Rightarrow> u32 \<Rightarrow> 8 word list \<Rightarrow> account_id list option" where
  "author_loop cfg weights 0 offset rng = Some []"
| "author_loop cfg weights (Suc n) offset rng =
     (let rng' = advance_deterministic_rng cfg rng offset
      in case select_weighted_author weights rng' of
           None \<Rightarrow> None
         | Some v \<Rightarrow>
             (case author_loop cfg weights n (offset + 1) rng' of
                None \<Rightarrow> None
              | Some vs \<Rightarrow> Some (v # vs)))"

definition snapshot_weight :: "(account_id \<times> u64) list option \<Rightarrow> account_id \<Rightarrow> u64" where
  "snapshot_weight snapshot v =
     (case snapshot of
        None \<Rightarrow> 1
      | Some snap \<Rightarrow> max (case map_of (rev snap) v of None \<Rightarrow> 1 | Some score \<Rightarrow> score) 1)"

definition author_weights ::
  "(account_id \<times> u64) list option \<Rightarrow> account_id list \<Rightarrow> (account_id \<times> u64) list" where
  "author_weights snapshot validators =
     sort_key fst (map (\<lambda>v. (v, snapshot_weight snapshot v)) validators)"

definition generate_deterministic_author_sequence ::
  "('c, 'sig) dcf_config \<Rightarrow> u32 \<Rightarrow> account_id list \<Rightarrow> 8 word list \<Rightarrow> ('c, 'sig, 'z) dcf_world_scheme
     \<Rightarrow> account_id list option" where
  "generate_deterministic_author_sequence cfg epoch validators seed w =
     (if validators = [] then Some []
      else
        (let sequence_length = min (blocks_per_epoch (EpochConfigStorage w)) 1000
         in map_option (take 1000)
              (author_loop cfg (author_weights (sm_get (EpochScoreSnapshot w) epoch) validators)
                (unat sequence_length) 0 seed)))"

definition generate_deterministic_randomness ::
  "('c, 'sig) dcf_config \<Rightarrow> u32 \<Rightarrow> u32 \<Rightarrow> 8 word list \<Rightarrow> 8 word list
     \<Rightarrow> ('c, 'sig, 'z) dcf_world_scheme \<Rightarrow> 8 word list" where
  "generate_deterministic_randomness cfg n epoch salt esalt w =
     blake2_256 cfg (u32_to_le_bytes n @ u32_to_le_bytes epoch @ salt @ esalt
       @ system_block_hash w (sat_sub n 1))"

definition generate_genesis_randomness_salt ::
  "('c, 'sig) dcf_config \<Rightarrow> ('c, 'sig, 'z) dcf_world_scheme \<Rightarrow> 8 word list" where
  "generate_genesis_randomness_salt cfg w =
     blake2_256 cfg (system_block_hash w 0 @ bytes_of_ascii ''DCF_DETERMINISTIC_SALT_V1''
       @ u32_to_le_bytes 1)"

definition generate_epoch_salt ::
  "('c, 'sig) dcf_config \<Rightarrow> u32 \<Rightarrow> 8 word list \<Rightarrow> 8 word list" where
  "generate_epoch_salt cfg epoch salt =
     take 16 (blake2_256 cfg (u32_to_le_bytes epoch @ salt @ bytes_of_ascii ''EPOCH_SALT''))"

section \<open>The expected author\<close>

definition fresh_weight :: "('c, 'sig) dcf_config \<Rightarrow> ('c, 'sig, 'z) dcf_world_scheme \<Rightarrow> account_id \<Rightarrow> u64" where
  "fresh_weight cfg w v =
     max (combined_score cfg (sat_into (sm_val 0 (Stake w) v)) (get_inference_score w v)
           (pos_weight_of w) (poi_weight_of w)) 1"

text \<open>
  The total saturates here; it is at least one for each validator, so the round-robin branch of
  the code is never taken.
\<close>

definition get_expected_author_legacy ::
  "('c, 'sig) dcf_config \<Rightarrow> u32 \<Rightarrow> ('c, 'sig, 'z) dcf_world_scheme \<Rightarrow> account_id option" where
  "get_expected_author_legacy cfg n w =
     (let validators = dcf_active_validators cfg w;
          weights = map (\<lambda>v. (v, fresh_weight cfg w v)) validators;
          total_weight = fold (\<lambda>p t. sat_add t (snd p)) weights 0
      in if validators = [] then None
         else if total_weight = 0 then Some (validators ! (unat n mod length validators))
         else (case pick_author (ucast n * 2654435761 mod total_weight) 0 weights of
                 Some v \<Rightarrow> Some v
               | None \<Rightarrow> Some (hd validators)))"

text \<open>The outer \<open>None\<close> is the panic of a division by zero blocks per epoch.\<close>

definition get_expected_author ::
  "('c, 'sig) dcf_config \<Rightarrow> u32 \<Rightarrow> ('c, 'sig, 'z) dcf_world_scheme \<Rightarrow> account_id option option" where
  "get_expected_author cfg n w =
     (if dcf_active_validators cfg w = [] then Some None
      else
        (let blocks = blocks_per_epoch (EpochConfigStorage w)
         in if blocks = 0 then None
            else case sm_get (EpochAuthorSequences w) (n div blocks) of
              None \<Rightarrow> Some (get_expected_author_legacy cfg n w)
            | Some sequence \<Rightarrow>
                if unat (n mod blocks) < length sequence
                then Some (Some (sequence ! unat (n mod blocks)))
                else Some (get_expected_author_legacy cfg n w)))"

definition validate_expected_author ::
  "('c, 'sig) dcf_config \<Rightarrow> u32 \<Rightarrow> account_id \<Rightarrow> ('c, 'sig, 'z) dcf_world_scheme
     \<Rightarrow> (bool \<times> ('c, 'sig, 'z) dcf_world_scheme) option" where
  "validate_expected_author cfg n actual w =
     (case get_expected_author cfg n w of
        None \<Rightarrow> None
      | Some None \<Rightarrow> Some (True, w)
      | Some (Some expected) \<Rightarrow>
          if actual \<noteq> expected
          then Some (False, dcf_deposit_event (AuthorMismatch n (Some expected) actual) w)
          else Some (True, w))"

definition validate_block_author ::
  "('c, 'sig) dcf_config \<Rightarrow> u32 \<Rightarrow> account_id \<Rightarrow> ('c, 'sig, 'z) dcf_world_scheme
     \<Rightarrow> ('c, 'sig, 'z) dcf_world_scheme" where
  "validate_block_author cfg n author w =
     (if \<not> is_validator_active cfg w author then dcf_deposit_event (InvalidAuthor n author) w else w)"

section \<open>Selection is proportional to weight\<close>

definition weight_sum :: "(account_id \<times> u64) list \<Rightarrow> nat" where
  "weight_sum weights = sum_list (map (\<lambda>p. unat (snd p)) weights)"

definition weight_of :: "account_id \<Rightarrow> (account_id \<times> u64) list \<Rightarrow> nat" where
  "weight_of v weights = weight_sum (filter (\<lambda>p. fst p = v) weights)"

lemma weight_sum_Cons [simp]: "weight_sum (p # ps) = unat (snd p) + weight_sum ps"
  by (simp add: weight_sum_def)

lemma weight_sum_Nil [simp]: "weight_sum [] = 0"
  by (simp add: weight_sum_def)

lemma unat_sum_weights:
  "weight_sum weights < 2 ^ 64 \<Longrightarrow> unat (sum_list (map snd weights)) = weight_sum weights"
proof (induction weights)
  case (Cons p ps)
  then show ?case
    by (simp add: unat_word_ariths)
qed simp

lemma word_unat_Rep_inverse_u64: "of_nat (unat x) = (x :: u64)"
  by simp

lemma unat_of_nat_u64: "n < 2 ^ 64 \<Longrightarrow> unat (of_nat n :: u64) = n"
  by (simp add: unsigned_of_nat take_bit_nat_eq_self)

lemma sat_add_of_nat:
  "c + unat x < 2 ^ 64 \<Longrightarrow> sat_add (of_nat c) x = (of_nat (c + unat x) :: u64)"
  by (simp add: sat_add_def unat_of_nat_u64)

lemma of_nat_less_u64: "t < 2 ^ 64 \<Longrightarrow> c < 2 ^ 64 \<Longrightarrow> (of_nat t :: u64) < of_nat c \<longleftrightarrow> t < c"
  by (simp add: word_less_nat_alt unat_of_nat_u64)

lemma pick_author_Cons:
  assumes "c + unat x < 2 ^ 64" and "t < 2 ^ 64"
  shows "pick_author (of_nat t) (of_nat c) ((v, x) # ps) =
    (if t < c + unat x then Some v else pick_author (of_nat t) (of_nat (c + unat x)) ps)"
  using assms by (simp add: Let_def sat_add_of_nat of_nat_less_u64 del: of_nat_add)

text \<open>The targets for which an account is picked are as many as its weight.\<close>

lemma card_pick_author:
  assumes "c + weight_sum ps < 2 ^ 64"
  shows "card {t. c \<le> t \<and> t < c + weight_sum ps \<and> pick_author (of_nat t) (of_nat c) ps = Some v}
    = weight_of v ps"
  using assms
proof (induction ps arbitrary: c)
  case Nil
  then show ?case by (simp add: weight_of_def)
next
  case (Cons p ps)
  obtain u x where p: "p = (u, x)"
    by (cases p)
  let ?c = "c + unat x"
  have bound: "?c + weight_sum ps < 2 ^ 64"
    using Cons.prems by (simp add: p)
  let ?hd = "{t. c \<le> t \<and> t < ?c \<and> u = v}"
  let ?tl = "{t. ?c \<le> t \<and> t < ?c + weight_sum ps \<and> pick_author (of_nat t) (of_nat ?c) ps = Some v}"
  have step: "pick_author (of_nat t) (of_nat c) (p # ps) =
      (if t < ?c then Some u else pick_author (of_nat t) (of_nat ?c) ps)"
    if "t < c + weight_sum (p # ps)" for t
    unfolding p using that bound by (intro pick_author_Cons) (simp_all add: p)
  have "{t. c \<le> t \<and> t < c + weight_sum (p # ps) \<and> pick_author (of_nat t) (of_nat c) (p # ps) = Some v}
      = ?hd \<union> ?tl"
    using step by (auto simp: p split: if_splits)
  moreover have "card (?hd \<union> ?tl) = card ?hd + card ?tl"
    by (rule card_Un_disjoint) auto
  moreover have "?hd = (if u = v then {c..<?c} else {})"
    by auto
  ultimately show ?case
    using Cons.IH [OF bound] by (simp add: p weight_of_def)
qed

lemma pick_author_ex:
  assumes "c + weight_sum ps < 2 ^ 64" and "c \<le> t" and "t < c + weight_sum ps"
  shows "\<exists>v x. pick_author (of_nat t) (of_nat c) ps = Some v \<and> (v, x) \<in> set ps \<and> 0 < x"
  using assms
proof (induction ps arbitrary: c)
  case (Cons p ps)
  obtain u x where p: "p = (u, x)"
    by (cases p)
  have step: "pick_author (of_nat t) (of_nat c) (p # ps) =
      (if t < c + unat x then Some u else pick_author (of_nat t) (of_nat (c + unat x)) ps)"
    unfolding p using Cons.prems by (intro pick_author_Cons) (simp_all add: p)
  show ?case
  proof (cases "t < c + unat x")
    case True
    then have "0 < x"
      using Cons.prems(2) by (simp add: word_less_nat_alt)
    with True show ?thesis
      unfolding step by (auto simp: p)
  next
    case False
    then show ?thesis
      unfolding step using Cons.IH [of "c + unat x"] Cons.prems by (auto simp: p)
  qed
qed simp

lemma select_weighted_author_pick:
  assumes "0 < weight_sum weights" and "weight_sum weights < 2 ^ 64"
  shows "select_weighted_author weights rnd =
    pick_author (of_nat (unat (bytes_to_u64 rnd) mod weight_sum weights)) 0 weights"
proof -
  let ?sum = "sum_list (map snd weights)"
  have sum: "unat ?sum = weight_sum weights"
    by (rule unat_sum_weights) (rule assms(2))
  then have pos: "?sum \<noteq> 0"
    using assms(1) by auto
  have ne: "weights \<noteq> []"
    using assms(1) by auto
  let ?t = "unat (bytes_to_u64 rnd) mod weight_sum weights"
  have "unat (bytes_to_u64 rnd mod ?sum) = ?t"
    by (simp add: unat_mod sum)
  then have target: "bytes_to_u64 rnd mod ?sum = of_nat ?t"
    using word_unat_Rep_inverse_u64 by metis
  obtain v where "pick_author (of_nat ?t) (of_nat 0) weights = Some v"
    using pick_author_ex [of 0 weights ?t] assms by auto
  with ne pos target show ?thesis
    by (simp add: select_weighted_author_def Let_def)
qed

section \<open>The sequence\<close>

lemma select_weighted_author_member:
  assumes "weights \<noteq> []"
  shows "\<exists>v. select_weighted_author weights rnd = Some v \<and> v \<in> fst ` set weights"
proof -
  have pick: "v \<in> fst ` set ps" if "pick_author t c ps = Some v" for t c ps v
    using that by (induction t c ps rule: pick_author.induct) (auto simp: Let_def split: if_splits)
  have idx: "fst (weights ! (n mod length weights)) \<in> fst ` set weights" for n
    using assms by (intro imageI nth_mem) simp
  show ?thesis
    using assms pick idx by (auto simp: select_weighted_author_def Let_def split: option.splits)
qed

lemma author_loop_members:
  assumes "weights \<noteq> []"
  shows "\<exists>vs. author_loop cfg weights n offset rng = Some vs \<and> length vs = n
    \<and> set vs \<subseteq> fst ` set weights"
proof (induction n arbitrary: offset rng)
  case (Suc n)
  let ?rng = "advance_deterministic_rng cfg rng offset"
  obtain v where "select_weighted_author weights ?rng = Some v" "v \<in> fst ` set weights"
    using select_weighted_author_member [OF assms] by blast
  moreover obtain vs where "author_loop cfg weights n (offset + 1) ?rng = Some vs"
    "length vs = n" "set vs \<subseteq> fst ` set weights"
    using Suc.IH by blast
  ultimately show ?case
    by (simp add: Let_def)
qed simp

lemma insort_key_map: "insort_key k (f x) (map f xs) = map f (insort_key (\<lambda>y. k (f y)) x xs)"
  by (induction xs) auto

lemma sort_key_map: "sort_key k (map f xs) = map f (sort_key (\<lambda>y. k (f y)) xs)"
  by (induction xs) (simp_all add: insort_key_map)

lemma author_weights_sorted:
  "author_weights snapshot vs = map (\<lambda>v. (v, snapshot_weight snapshot v)) (sort vs)"
  by (simp add: author_weights_def sort_key_map)

lemma sort_perm: "mset vs = mset vs' \<Longrightarrow> sort vs = sort vs'" for vs vs' :: "'x::linorder list"
  by (rule properties_for_sort) simp_all

lemma author_weights_perm:
  assumes "mset vs = mset vs'"
  shows "author_weights snapshot vs = author_weights snapshot vs'"
  unfolding author_weights_sorted sort_perm [OF assms] ..

end
