(* ===== verification/Dcf_Finality.thy ===== *)
theory Dcf_Finality
  imports Dcf_Scores
begin

text \<open>
  The progressive finality markers of \<open>pallet-cerulea-dcf\<close>: the checks on an advancement and the
  update, which is capped at the block that \<open>pallet-cerulea-dvf\<close> has finalised
  (\<open>DvfFinalizedBlockProvider\<close> of the runtime); with the lemmas on the markers.
\<close>

section \<open>Markers\<close>

datatype finality_rejection = FinalityRegression u32 u32 | ExceedsCurrent u32 u32 | ExceedsEpochBest u32 u32

definition dvf_finalized_block :: "('c, 'sig, 'z) dvf_world_scheme \<Rightarrow> u32" where
  "dvf_finalized_block w = FinalizedBlockNumber w"

text \<open>
  The reasons are formatted strings in the code, always short enough for their bound of 128 bytes;
  the model keeps their kind and numbers.
\<close>

definition validate_finality_advancement ::
  "('c, 'sig) dcf_config \<Rightarrow> u32 \<Rightarrow> u32 \<Rightarrow> ('c, 'sig, 'z) dcf_world_scheme
     \<Rightarrow> (finality_rejection + unit) \<times> ('c, 'sig, 'z) dcf_world_scheme" where
  "validate_finality_advancement cfg new_block epoch w =
     (let current_finalized = LastFinalizedBlock w;
          current_block = block_number w;
          epoch_best = PreviousEpochBestBlock w;
          current_epoch_start = sat_mul (DcfCurrentEpoch w) (EpochLength cfg);
          progressive = (new_block \<le> current_block \<and> new_block \<ge> current_epoch_start)
      in if new_block < current_finalized
         then (Inl (FinalityRegression new_block current_finalized),
               dcf_deposit_event (FinalityRegressionDetected current_finalized new_block
                 current_block epoch) w)
         else if new_block > current_block
         then (Inl (ExceedsCurrent new_block current_block),
               dcf_deposit_event (FinalityAdvancementRejected new_block current_finalized
                 current_block epoch) w)
         else if epoch_best > 0 \<and> \<not> progressive \<and> new_block > epoch_best
         then (Inl (ExceedsEpochBest new_block epoch_best),
               dcf_deposit_event (FinalityAdvancementRejected new_block current_finalized
                 epoch_best epoch) w)
         else (Inr (), dcf_deposit_event (FinalityProgressionValidated current_finalized new_block
                 (sat_sub new_block current_finalized) epoch 3) w))"

definition update_finality_markers ::
  "('c, 'sig) dcf_config \<Rightarrow> u32 \<Rightarrow> u32 \<Rightarrow> ('c, 'sig, 'z) dcf_world_scheme
     \<Rightarrow> (finality_rejection + unit) \<times> ('c, 'sig, 'z) dcf_world_scheme" where
  "update_finality_markers cfg new_block epoch w =
     (case validate_finality_advancement cfg new_block epoch w of
        (Inl e, w1) \<Rightarrow> (Inl e, w1)
      | (Inr _, w1) \<Rightarrow>
          (let capped_block = min new_block (dvf_finalized_block w1);
               current_finalized = LastFinalizedBlock w1
           in if capped_block = 0 then (Inr (), w1)
              else if current_finalized \<ge> capped_block then (Inr (), w1)
              else
                (let w2 = w1\<lparr>PreviousFinalizedBlock := current_finalized,
                            LastFinalizedBlock := capped_block,
                            PreviousEpochBestBlock := block_number w1\<rparr>;
                     active = dcf_active_validators cfg w2
                 in (Inr (), dcf_deposit_event (FinalityMarker capped_block active (of_nat (length active)))
                      (dcf_deposit_event (DcfBlockFinalized capped_block) w2)))))"

text \<open>The finality part of the block hook.\<close>

definition initialize_finality ::
  "u32 \<Rightarrow> ('c, 'sig, 'z) dcf_world_scheme \<Rightarrow> ('c, 'sig, 'z) dcf_world_scheme" where
  "initialize_finality n w =
     (if n = 1 \<and> LastFinalizedBlock w = 0
      then dcf_deposit_event (DcfBlockFinalized 0)
             (w\<lparr>LastFinalizedBlock := 0, PreviousFinalizedBlock := 0, PreviousEpochBestBlock := n\<rparr>)
      else w)"

definition progressive_finality ::
  "('c, 'sig) dcf_config \<Rightarrow> u32 \<Rightarrow> u32 \<Rightarrow> ('c, 'sig, 'z) dcf_world_scheme
     \<Rightarrow> ('c, 'sig, 'z) dcf_world_scheme" where
  "progressive_finality cfg n epoch w =
     (if n > 1 \<and> LastFinalizedBlock w < n - 1
      then snd (update_finality_markers cfg (n - 1) epoch w) else w)"

section \<open>Lemmas\<close>

lemma validate_frame [simp]:
  "LastFinalizedBlock (snd (validate_finality_advancement cfg n e w)) = LastFinalizedBlock w"
  "PreviousFinalizedBlock (snd (validate_finality_advancement cfg n e w)) = PreviousFinalizedBlock w"
  "PreviousEpochBestBlock (snd (validate_finality_advancement cfg n e w)) = PreviousEpochBestBlock w"
  "FinalizedBlockNumber (snd (validate_finality_advancement cfg n e w)) = FinalizedBlockNumber w"
  "block_number (snd (validate_finality_advancement cfg n e w)) = block_number w"
  by (simp_all add: validate_finality_advancement_def Let_def dcf_deposit_event_def)

lemma marker_max: "max a m = (if m = 0 then a else if m \<le> a then a else m)" for a m :: u32
  using linear [of a m] by (auto simp: max_def)

text \<open>The three outcomes of an update: refused, nothing to do, or the marker moves.\<close>

lemma update_finality_markers_cases:
  "LastFinalizedBlock (snd (update_finality_markers cfg n e w)) =
     (if fst (validate_finality_advancement cfg n e w) = Inr ()
      then max (LastFinalizedBlock w) (min n (FinalizedBlockNumber w))
      else LastFinalizedBlock w)"
proof -
  obtain r w1 where v: "validate_finality_advancement cfg n e w = (r, w1)"
    by fastforce
  then have frame: "LastFinalizedBlock w1 = LastFinalizedBlock w"
      "FinalizedBlockNumber w1 = FinalizedBlockNumber w"
    using validate_frame(1,4) [of cfg n e w] by simp_all
  show ?thesis
    using frame by (cases r) (simp_all add: update_finality_markers_def v Let_def
        dvf_finalized_block_def dcf_deposit_event_def marker_max)
qed

lemma update_finality_markers_dvf:
  "FinalizedBlockNumber (snd (update_finality_markers cfg n e w)) = FinalizedBlockNumber w"
  "block_number (snd (update_finality_markers cfg n e w)) = block_number w"
proof -
  obtain r w1 where v: "validate_finality_advancement cfg n e w = (r, w1)"
    by fastforce
  then have "FinalizedBlockNumber w1 = FinalizedBlockNumber w" "block_number w1 = block_number w"
    using validate_frame(4,5) [of cfg n e w] by simp_all
  then show "FinalizedBlockNumber (snd (update_finality_markers cfg n e w)) = FinalizedBlockNumber w"
    "block_number (snd (update_finality_markers cfg n e w)) = block_number w"
    by (cases r; simp add: update_finality_markers_def v Let_def dcf_deposit_event_def)+
qed

end
