(* ===== verification/Private_Chain.thy ===== *)
theory Private_Chain
  imports Dcf_State
begin

text \<open>
  Private chain mode of \<open>pallet-cerulea-dcf\<close> (\<open>private_chain.rs\<close>): the allowlist, entering and
  leaving the mode, and the checks governance makes under it. The allowlist is a bounded ordered
  set, kept here as its ascending list.
\<close>

definition allowlist_bound :: nat where
  "allowlist_bound = 100"

text \<open>\<open>BoundedBTreeSet::try_insert\<close>; \<open>None\<close> where the bound is exceeded.\<close>

definition allowlist_try_insert :: "account_id \<Rightarrow> account_id list \<Rightarrow> account_id list option" where
  "allowlist_try_insert v vs =
     (if v \<in> set vs then Some vs else if length vs < allowlist_bound then Some (insort v vs) else None)"

definition default_private_config :: private_chain_config where
  "default_private_config = \<lparr>pc_enabled = False, validator_allowlist = [],
     allow_allowlist_updates = False, max_allowlist_size = 100\<rparr>"

definition is_private_chain_mode :: "('c, 'sig, 'z) dcf_world_scheme \<Rightarrow> bool" where
  "is_private_chain_mode w =
     (case PrivateChainConfigStorage w of None \<Rightarrow> False | Some config \<Rightarrow> pc_enabled config)"

definition is_validator_allowed :: "('c, 'sig, 'z) dcf_world_scheme \<Rightarrow> account_id \<Rightarrow> bool" where
  "is_validator_allowed w v =
     (case PrivateChainConfigStorage w of
        None \<Rightarrow> True
      | Some config \<Rightarrow> if \<not> pc_enabled config then True else v \<in> set (validator_allowlist config))"

definition force_validator_leave ::
  "('c, 'sig) dcf_config \<Rightarrow> account_id \<Rightarrow> (('c, 'sig, 'z) dcf_world_scheme, unit) call" where
  "force_validator_leave cfg v w =
     (if \<not> is_validator_active cfg w v then (Inr (), w)
      else
        (let w1 = dcf_put_set cfg (filter (\<lambda>u. u \<noteq> v) (dcf_validator_set cfg w)) w;
             reserved = reserved_balance (currency_of cfg) (balances w1) v;
             w2 = w1\<lparr>balances := snd (unreserve (currency_of cfg) v reserved (balances w1)),
                    ValidatorTrustScores := sm_del v (ValidatorTrustScores w1),
                    ValidatorInferenceCount := sm_del v (ValidatorInferenceCount w1)\<rparr>
         in (Inr (), dcf_deposit_event (ForcedToLeave v)
               (remove_validator_state v (remove_validator_last_seen v w2)))))"

definition add_to_validator_allowlist ::
  "account_id \<Rightarrow> (('c, 'sig, 'z) dcf_world_scheme, unit) call" where
  "add_to_validator_allowlist v w =
     (case PrivateChainConfigStorage w of
        None \<Rightarrow> (Inl (DcfErr PrivateChainModeDisabled), w)
      | Some config \<Rightarrow>
        if \<not> pc_enabled config then (Inl (DcfErr PrivateChainModeDisabled), w)
        else if \<not> allow_allowlist_updates config then (Inl (DcfErr AllowlistUpdatesDisabled), w)
        else if length (validator_allowlist config) \<ge> unat (max_allowlist_size config)
        then (Inl (DcfErr AllowlistFull), w)
        else (case allowlist_try_insert v (validator_allowlist config) of
                None \<Rightarrow> (Inr (), w)
              | Some allowlist \<Rightarrow> (Inr (), dcf_deposit_event (AddedToAllowlist v)
                  (w\<lparr>PrivateChainConfigStorage := Some (config\<lparr>validator_allowlist := allowlist\<rparr>)\<rparr>))))"

definition remove_from_validator_allowlist ::
  "('c, 'sig) dcf_config \<Rightarrow> account_id \<Rightarrow> (('c, 'sig, 'z) dcf_world_scheme, unit) call" where
  "remove_from_validator_allowlist cfg v w =
     (case PrivateChainConfigStorage w of
        None \<Rightarrow> (Inl (DcfErr PrivateChainModeDisabled), w)
      | Some config \<Rightarrow>
        if \<not> pc_enabled config then (Inl (DcfErr PrivateChainModeDisabled), w)
        else if \<not> allow_allowlist_updates config then (Inl (DcfErr AllowlistUpdatesDisabled), w)
        else if v \<notin> set (validator_allowlist config) then (Inr (), w)
        else
          (let w1 = dcf_deposit_event (RemovedFromAllowlist v) (w\<lparr>PrivateChainConfigStorage :=
                  Some (config\<lparr>validator_allowlist := remove1 v (validator_allowlist config)\<rparr>)\<rparr>)
           in (Inr (), if is_validator_active cfg w1 v
                       then snd (force_validator_leave cfg v w1) else w1)))"

definition enable_private_chain_mode ::
  "('c, 'sig) dcf_config \<Rightarrow> account_id list \<Rightarrow> bool \<Rightarrow> (('c, 'sig, 'z) dcf_world_scheme, unit) call" where
  "enable_private_chain_mode cfg initial_allowlist allow_updates w =
     (if length initial_allowlist > unat (PosMaxValidators (pos_cfg cfg))
      then (Inl (DcfErr DcfTooManyValidators), w)
      else
        (let allowlist = fold (\<lambda>v vs. case allowlist_try_insert v vs of None \<Rightarrow> vs | Some vs' \<Rightarrow> vs')
               initial_allowlist [];
             config = \<lparr>pc_enabled = True, validator_allowlist = allowlist,
               allow_allowlist_updates = allow_updates,
               max_allowlist_size = PosMaxValidators (pos_cfg cfg)\<rparr>;
             w1 = dcf_deposit_event
               (PrivateChainModeEnabled (of_nat (length initial_allowlist)) allow_updates)
               (w\<lparr>PrivateChainConfigStorage := Some config\<rparr>)
         in (Inr (), fold (\<lambda>v w. if \<not> is_validator_allowed w v
               then snd (force_validator_leave cfg v w) else w) (dcf_active_validators cfg w1) w1)))"

definition disable_private_chain_mode :: "(('c, 'sig, 'z) dcf_world_scheme, unit) call" where
  "disable_private_chain_mode w =
     (case PrivateChainConfigStorage w of
        None \<Rightarrow> (Inl (DcfErr PrivateChainModeDisabled), w)
      | Some config \<Rightarrow>
        if \<not> pc_enabled config then (Inl (DcfErr PrivateChainModeDisabled), w)
        else (Inr (), dcf_deposit_event PrivateChainModeOff (w\<lparr>PrivateChainConfigStorage :=
          Some (config\<lparr>pc_enabled := False, validator_allowlist := []\<rparr>)\<rparr>)))"

definition private_config :: "('c, 'sig, 'z) dcf_world_scheme \<Rightarrow> private_chain_config" where
  "private_config w =
     (case PrivateChainConfigStorage w of None \<Rightarrow> default_private_config | Some config \<Rightarrow> config)"

definition validate_proposal_in_private_mode ::
  "account_id \<Rightarrow> account_id \<Rightarrow> ('c, 'sig, 'z) dcf_world_scheme \<Rightarrow> dispatch_error + unit" where
  "validate_proposal_in_private_mode who target w =
     (let config = private_config w
      in if \<not> pc_enabled config then Inr ()
         else if who \<notin> set (validator_allowlist config) then Inl (DcfErr ProposerNotInAllowlist)
         else if target \<notin> set (validator_allowlist config) then Inl (DcfErr TargetNotInAllowlist)
         else Inr ())"

definition validate_governance_in_private_mode ::
  "account_id \<Rightarrow> ('c, 'sig, 'z) dcf_world_scheme \<Rightarrow> dispatch_error + unit" where
  "validate_governance_in_private_mode who w =
     (let config = private_config w
      in if \<not> pc_enabled config then Inr ()
         else if who \<notin> set (validator_allowlist config) then Inl (DcfErr NotInAllowlist)
         else Inr ())"

end
