(* ===== verification/Rate_Limits.thy ===== *)
theory Rate_Limits
  imports Dcf_State
begin

text \<open>
  The rate limits of \<open>pallet-cerulea-dcf\<close>: limits per block, per account and window, minimum
  intervals and weight bounds, their bookkeeping, and the proof that they hold along every run
  of accepted operations.
\<close>

section \<open>Limits\<close>

text \<open>
  The check functions repeat these tables in their bodies; the model has one copy. A weight is
  its \<open>ref_time\<close>.
\<close>

fun get_per_block_limit :: "dispatchable_type \<Rightarrow> rate_limit_config \<Rightarrow> u32" where
  "get_per_block_limit SubmitProposal c = max_proposals_per_block c"
| "get_per_block_limit JoinValidators c = max_joins_per_block c"
| "get_per_block_limit LeaveValidators c = max_leaves_per_block c"
| "get_per_block_limit VoteProposal c = max_votes_per_block c"
| "get_per_block_limit UpdateParameter c = 1"
| "get_per_block_limit ValidatorStatusChange c = max_joins_per_block c + max_leaves_per_block c"

fun get_per_account_limit :: "dispatchable_type \<Rightarrow> rate_limit_config \<Rightarrow> u32 \<times> u32" where
  "get_per_account_limit SubmitProposal c = (max_proposals_per_account c, proposal_rate_window c)"
| "get_per_account_limit VoteProposal c = (100, 100)"
| "get_per_account_limit UpdateParameter c = (1, 1000)"
| "get_per_account_limit _ c = (max_status_changes_per_account c, status_change_rate_window c)"

fun get_minimum_interval :: "dispatchable_type \<Rightarrow> rate_limit_config \<Rightarrow> u32" where
  "get_minimum_interval SubmitProposal c = min_proposal_interval c"
| "get_minimum_interval VoteProposal c = min_vote_interval c"
| "get_minimum_interval UpdateParameter c = 100"
| "get_minimum_interval _ c = min_validator_status_interval c"

fun get_weight_limit :: "dispatchable_type \<Rightarrow> rate_limit_config \<Rightarrow> u64" where
  "get_weight_limit SubmitProposal c = max_proposal_processing_weight c"
| "get_weight_limit VoteProposal c = max_proposal_processing_weight c"
| "get_weight_limit UpdateParameter c = 100000000"
| "get_weight_limit _ c = max_validator_iteration_weight c"

section \<open>Checks\<close>

definition check_per_block_limits ::
  "dispatchable_type \<Rightarrow> rate_limit_config \<Rightarrow> ('c, 'sig, 'z) dcf_world_scheme \<Rightarrow> dispatch_error + unit" where
  "check_per_block_limits oper c w =
     (if sm_val 0 (BlockOperationCounts w) oper \<ge> get_per_block_limit oper c
      then Inl (DcfErr DcfPerBlockRateLimitExceeded) else Inr ())"

definition operations_in_window ::
  "account_id \<Rightarrow> dispatchable_type \<Rightarrow> u32 \<Rightarrow> u32 \<Rightarrow> ('c, 'sig, 'z) dcf_world_scheme \<Rightarrow> u32" where
  "operations_in_window account oper current_block window w =
     of_nat (length (filter (\<lambda>block. block \<ge> sat_sub current_block window)
       (sm_val [] (AccountOperationHistory w) (account, oper))))"

definition check_per_account_limits ::
  "account_id \<Rightarrow> dispatchable_type \<Rightarrow> u32 \<Rightarrow> rate_limit_config \<Rightarrow> ('c, 'sig, 'z) dcf_world_scheme
     \<Rightarrow> dispatch_error + unit" where
  "check_per_account_limits account oper current_block c w =
     (let (limit, window) = get_per_account_limit oper c
      in if operations_in_window account oper current_block window w \<ge> limit
         then Inl (DcfErr DcfPerAccountRateLimitExceeded) else Inr ())"

definition check_minimum_intervals ::
  "account_id \<Rightarrow> dispatchable_type \<Rightarrow> u32 \<Rightarrow> rate_limit_config \<Rightarrow> ('c, 'sig, 'z) dcf_world_scheme
     \<Rightarrow> dispatch_error + unit" where
  "check_minimum_intervals account oper current_block c w =
     (case sm_get (LastOperationBlock w) (account, oper) of
        None \<Rightarrow> Inr ()
      | Some last_block \<Rightarrow>
          if sat_sub current_block last_block < get_minimum_interval oper c
          then Inl (DcfErr DcfMinimumIntervalViolation) else Inr ())"

definition check_weight_bounds ::
  "dispatchable_type \<Rightarrow> u64 \<Rightarrow> rate_limit_config \<Rightarrow> dispatch_error + unit" where
  "check_weight_bounds oper weight c =
     (if weight > get_weight_limit oper c then Inl (DcfErr DcfWeightLimitExceeded) else Inr ())"

definition check_rate_limits ::
  "account_id \<Rightarrow> dispatchable_type \<Rightarrow> u64 \<Rightarrow> ('c, 'sig, 'z) dcf_world_scheme
     \<Rightarrow> (dispatch_error \<times> rate_limit_violation option) + unit" where
  "check_rate_limits account oper weight w =
     (let c = RateLimitConfigStorage w; current_block = block_number w
      in case check_per_block_limits oper c w of
           Inl e \<Rightarrow> Inl (e, Some (PerBlockLimitExceeded oper
             (sm_val 0 (BlockOperationCounts w) oper) (get_per_block_limit oper c)))
         | Inr _ \<Rightarrow>
      case check_per_account_limits account oper current_block c w of
        Inl e \<Rightarrow> (let (limit, window) = get_per_account_limit oper c
          in Inl (e, Some (PerAccountLimitExceeded oper
               (operations_in_window account oper current_block window w) limit window)))
      | Inr _ \<Rightarrow>
      case check_minimum_intervals account oper current_block c w of
        Inl e \<Rightarrow>
          (case sm_get (LastOperationBlock w) (account, oper) of
             Some last_block \<Rightarrow> Inl (e, Some (MinimumIntervalViolation oper
               (sat_sub current_block last_block) (get_minimum_interval oper c)))
           | None \<Rightarrow>
               (case check_weight_bounds oper weight c of
                  Inl e \<Rightarrow> Inl (e, Some (WeightBoundExceeded oper weight (get_weight_limit oper c)))
                | Inr _ \<Rightarrow> Inr ()))
      | Inr _ \<Rightarrow>
      case check_weight_bounds oper weight c of
        Inl e \<Rightarrow> Inl (e, Some (WeightBoundExceeded oper weight (get_weight_limit oper c)))
      | Inr _ \<Rightarrow> Inr ())"

section \<open>Bookkeeping\<close>

definition operation_history_capacity :: nat where
  "operation_history_capacity = 100"

definition push_operation :: "u32 \<Rightarrow> u32 list \<Rightarrow> u32 list" where
  "push_operation current_block h =
     (if length h < operation_history_capacity then h @ [current_block]
      else (let h' = tl h in if length h' < operation_history_capacity then h' @ [current_block] else h'))"

definition record_operation ::
  "account_id \<Rightarrow> dispatchable_type \<Rightarrow> ('c, 'sig, 'z) dcf_world_scheme \<Rightarrow> ('c, 'sig, 'z) dcf_world_scheme" where
  "record_operation account oper w =
     (let current_block = block_number w;
          window = snd (get_per_account_limit oper (RateLimitConfigStorage w));
          window_start = sat_sub current_block window;
          h = sm_val [] (AccountOperationHistory w) (account, oper)
      in w\<lparr>BlockOperationCounts := sm_put oper (sat_add (sm_val 0 (BlockOperationCounts w) oper) 1)
               (BlockOperationCounts w),
           AccountOperationHistory := sm_put (account, oper)
               (filter (\<lambda>block. block \<ge> window_start) (push_operation current_block h))
               (AccountOperationHistory w),
           LastOperationBlock := sm_put (account, oper) current_block (LastOperationBlock w)\<rparr>)"

definition reset_block_counters ::
  "('c, 'sig, 'z) dcf_world_scheme \<Rightarrow> ('c, 'sig, 'z) dcf_world_scheme" where
  "reset_block_counters w =
     dcf_deposit_event (BlockRateLimitCountersReset (block_number w)) (w\<lparr>BlockOperationCounts := []\<rparr>)"

section \<open>Configuration\<close>

definition validate_rate_limit_config :: "rate_limit_config \<Rightarrow> dispatch_error + unit" where
  "validate_rate_limit_config c =
     (if (max_proposals_per_block c > 0 \<and> max_proposals_per_block c \<le> 100)
       \<and> (max_joins_per_block c > 0 \<and> max_joins_per_block c \<le> 50)
       \<and> (max_leaves_per_block c > 0 \<and> max_leaves_per_block c \<le> 50)
       \<and> (max_votes_per_block c > 0 \<and> max_votes_per_block c \<le> 1000)
       \<and> (max_proposals_per_account c > 0 \<and> max_proposals_per_account c \<le> 100)
       \<and> (max_status_changes_per_account c > 0 \<and> max_status_changes_per_account c \<le> 20)
       \<and> (proposal_rate_window c > 0 \<and> proposal_rate_window c \<le> 10000)
       \<and> (status_change_rate_window c > 0 \<and> status_change_rate_window c \<le> 100000)
       \<and> min_validator_status_interval c \<le> 10000
       \<and> min_proposal_interval c \<le> 1000
       \<and> min_vote_interval c \<le> 100
       \<and> max_validator_iteration_weight c > 0
       \<and> max_proposal_processing_weight c > 0
       \<and> (max_loop_iterations c > 0 \<and> max_loop_iterations c \<le> 10000)
      then Inr () else Inl (DcfErr DcfInvalidRateLimitConfig))"

definition update_rate_limit_config_internal ::
  "rate_limit_config \<Rightarrow> (('c, 'sig, 'z) dcf_world_scheme, unit) call" where
  "update_rate_limit_config_internal c w =
     (case validate_rate_limit_config c of Inl e \<Rightarrow> (Inl e, w) | Inr _ \<Rightarrow>
      (Inr (), dcf_deposit_event (RateLimitConfigUpdated (max_proposals_per_block c)
          (max_joins_per_block c) (max_leaves_per_block c)) (w\<lparr>RateLimitConfigStorage := c\<rparr>)))"

definition update_rate_limit_config ::
  "origin \<Rightarrow> u32 \<Rightarrow> u32 \<Rightarrow> u32 \<Rightarrow> (('c, 'sig, 'z) dcf_world_scheme, unit) call" where
  "update_rate_limit_config orig proposals joins leaves w =
     (case ensure_root orig of Inl e \<Rightarrow> (Inl e, w) | Inr _ \<Rightarrow>
      update_rate_limit_config_internal ((RateLimitConfigStorage w)
        \<lparr>max_proposals_per_block := proposals, max_joins_per_block := joins,
         max_leaves_per_block := leaves\<rparr>) w)"

section \<open>Runs of accepted operations\<close>

text \<open>
  A run under an unchanged configuration: blocks begin (and reset the counters), operations that
  pass the checks are recorded, and anything that leaves the bookkeeping alone may happen in
  between. The log lists the accepted operations with their blocks, the oldest first.
\<close>

type_synonym operation_log = "(account_id \<times> dispatchable_type \<times> u32) list"

definition same_rates ::
  "('c, 'sig, 'z) dcf_world_scheme \<Rightarrow> ('c, 'sig, 'z) dcf_world_scheme \<Rightarrow> bool" where
  "same_rates w w' \<longleftrightarrow> block_number w' = block_number w
     \<and> RateLimitConfigStorage w' = RateLimitConfigStorage w
     \<and> BlockOperationCounts w' = BlockOperationCounts w
     \<and> AccountOperationHistory w' = AccountOperationHistory w
     \<and> LastOperationBlock w' = LastOperationBlock w"

inductive rate_run ::
  "rate_limit_config \<Rightarrow> ('c, 'sig, 'z) dcf_world_scheme \<Rightarrow> operation_log \<Rightarrow> bool" for c where
  start: "RateLimitConfigStorage w = c \<Longrightarrow> BlockOperationCounts w = [] \<Longrightarrow>
    AccountOperationHistory w = [] \<Longrightarrow> LastOperationBlock w = [] \<Longrightarrow> rate_run c w []"
| next_block: "rate_run c w log \<Longrightarrow> block_number w < n \<Longrightarrow>
    rate_run c (reset_block_counters (w\<lparr>block_number := n\<rparr>)) log"
| accept: "rate_run c w log \<Longrightarrow> check_rate_limits a oper weight w = Inr () \<Longrightarrow>
    rate_run c (record_operation a oper w) (log @ [(a, oper, block_number w)])"
| elsewhere: "rate_run c w log \<Longrightarrow> same_rates w w' \<Longrightarrow> rate_run c w' log"

definition op_blocks :: "account_id \<Rightarrow> dispatchable_type \<Rightarrow> operation_log \<Rightarrow> u32 list" where
  "op_blocks a oper log = map (snd \<circ> snd) (filter (\<lambda>e. fst e = a \<and> fst (snd e) = oper) log)"

definition ops_in_block :: "dispatchable_type \<Rightarrow> u32 \<Rightarrow> operation_log \<Rightarrow> nat" where
  "ops_in_block oper n log = length (filter (\<lambda>e. fst (snd e) = oper \<and> snd (snd e) = n) log)"

definition ops_in_span :: "nat \<Rightarrow> nat \<Rightarrow> u32 list \<Rightarrow> nat" where
  "ops_in_span s window bs = length (filter (\<lambda>b. s \<le> unat b \<and> unat b \<le> s + window) bs)"

lemma op_blocks_append:
  "op_blocks a oper (log @ [(a', oper', n)]) =
     op_blocks a oper log @ (if a' = a \<and> oper' = oper then [n] else [])"
  by (simp add: op_blocks_def)

lemma ops_in_block_append:
  "ops_in_block oper n (log @ [(a', oper', n')]) =
     ops_in_block oper n log + (if oper' = oper \<and> n' = n then 1 else 0)"
  by (simp add: ops_in_block_def)

lemma op_blocks_subset: "set (op_blocks a oper log) \<subseteq> (snd \<circ> snd) ` set log"
  by (auto simp: op_blocks_def)

text \<open>In a sorted list the entries from a bound on are a suffix.\<close>

lemma sorted_filter_ge_suffix:
  fixes bs :: "'x::linorder list"
  assumes "sorted bs"
  shows "\<exists>k. filter (\<lambda>b. b \<ge> s) bs = drop k bs \<and> (\<forall>b\<in>set (take k bs). b < s)"
  using assms
proof (induction bs)
  case Nil
  then show ?case by simp
next
  case (Cons b bs)
  show ?case
  proof (cases "b \<ge> s")
    case True
    then have "filter (\<lambda>b. b \<ge> s) (b # bs) = b # bs"
      using Cons.prems by (auto simp: filter_id_conv)
    then show ?thesis
      by (intro exI [of _ 0]) simp
  next
    case False
    from Cons obtain k where "filter (\<lambda>b. b \<ge> s) bs = drop k bs" "\<forall>b\<in>set (take k bs). b < s"
      by auto
    with False show ?thesis
      by (intro exI [of _ "Suc k"]) auto
  qed
qed

lemma filter_drop_below:
  fixes bs :: "'x::linorder list"
  assumes "\<forall>b\<in>set (take k bs). b < s"
  shows "filter (\<lambda>b. b \<ge> s) (drop k bs) = filter (\<lambda>b. b \<ge> s) bs"
proof -
  have "filter (\<lambda>b. b \<ge> s) (take k bs) = []"
    using assms by (auto simp: filter_empty_conv)
  then show ?thesis
    by (metis append_Nil append_take_drop_id filter_append)
qed

text \<open>What is recorded is the part of the extended log that lies in the window.\<close>

lemma push_operation_window:
  fixes h :: "u32 list"
  assumes "sorted h" and "length h \<le> operation_history_capacity"
    and "length (filter (\<lambda>b. b \<ge> s) h) < operation_history_capacity"
  shows "filter (\<lambda>b. b \<ge> s) (push_operation n h) = filter (\<lambda>b. b \<ge> s) (h @ [n])"
proof (cases "length h < operation_history_capacity")
  case True
  then show ?thesis
    by (simp add: push_operation_def)
next
  case False
  with assms(2) have full: "length h = operation_history_capacity"
    by simp
  then obtain b bs where h: "h = b # bs"
    by (cases h) (auto simp: operation_history_capacity_def)
  have "b < s"
  proof (rule ccontr)
    assume "\<not> b < s"
    with assms(1) have "filter (\<lambda>b. b \<ge> s) h = h"
      unfolding h by (auto simp: filter_id_conv not_less)
    with assms(3) full show False
      by simp
  qed
  with full show ?thesis
    by (simp add: push_operation_def h)
qed

lemma sm_val_Some: "sm_get m k = Some v \<Longrightarrow> sm_val d m k = v"
  by (simp add: sm_val_def)

text \<open>The bookkeeping of one account and type of operation agrees with the log \<open>bs\<close> of its blocks.\<close>

definition account_books ::
  "rate_limit_config \<Rightarrow> dispatchable_type \<Rightarrow> u32 \<Rightarrow> u32 list \<Rightarrow> u32 option \<Rightarrow> u32 list \<Rightarrow> bool" where
  "account_books c oper n h last_block bs \<longleftrightarrow>
     sorted bs \<and> (\<forall>b\<in>set bs. b \<le> n) \<and> length h \<le> operation_history_capacity
     \<and> (\<exists>k. h = drop k bs \<and>
          (\<forall>b\<in>set (take k bs). b < sat_sub n (snd (get_per_account_limit oper c))))
     \<and> last_block = (if bs = [] then None else Some (last bs))
     \<and> (\<forall>s. ops_in_span s (unat (snd (get_per_account_limit oper c))) bs
            \<le> unat (fst (get_per_account_limit oper c)))
     \<and> successively (\<lambda>x y. unat x + unat (get_minimum_interval oper c) \<le> unat y) bs"

lemma account_books_later:
  assumes "account_books c oper n h last_block bs" and "n \<le> n'"
  shows "account_books c oper n' h last_block bs"
proof -
  let ?win = "snd (get_per_account_limit oper c)"
  have later: "sat_sub n ?win \<le> sat_sub n' ?win"
    using assms(2) by (auto simp: word_le_nat_alt sat_simps)
  from assms(1) obtain k where "h = drop k bs" "\<forall>b\<in>set (take k bs). b < sat_sub n ?win"
    by (auto simp: account_books_def)
  with later have "\<exists>k. h = drop k bs \<and> (\<forall>b\<in>set (take k bs). b < sat_sub n' ?win)"
    by (intro exI [of _ k]) auto
  with assms show ?thesis
    by (auto simp: account_books_def)
qed

lemma account_books_empty: "account_books c oper n [] None []"
  by (simp add: account_books_def ops_in_span_def)

lemma ops_in_span_append:
  "ops_in_span s window (bs @ [n]) =
     ops_in_span s window bs + (if s \<le> unat n \<and> unat n \<le> s + window then 1 else 0)"
  by (simp add: ops_in_span_def)

lemma length_filter_mono:
  "(\<And>x. x \<in> set xs \<Longrightarrow> P x \<Longrightarrow> Q x) \<Longrightarrow> length (filter P xs) \<le> length (filter Q xs)"
  by (induction xs) auto

lemma account_books_accept:
  assumes books: "account_books c oper n h last_block bs"
    and limits: "get_per_account_limit oper c = (limit, window)"
    and room: "length (filter (\<lambda>b. b \<ge> sat_sub n window) h) < unat limit"
    and small: "unat limit \<le> operation_history_capacity"
    and interval: "\<forall>b. last_block = Some b \<longrightarrow> get_minimum_interval oper c \<le> sat_sub n b"
  shows "account_books c oper n
    (filter (\<lambda>b. b \<ge> sat_sub n window) (push_operation n h)) (Some n) (bs @ [n])"
proof -
  let ?s = "sat_sub n window"
  from books limits obtain k where k: "h = drop k bs" "\<forall>b\<in>set (take k bs). b < ?s"
    by (auto simp: account_books_def)
  have sorted: "sorted bs" and below: "\<forall>b\<in>set bs. b \<le> n"
    and cap: "length h \<le> operation_history_capacity"
    using books by (auto simp: account_books_def)
  have sorted': "sorted (bs @ [n])"
    using sorted below by (simp add: sorted_append)
  have start: "?s \<le> n"
    by (rule sat_sub_le)
  have same: "filter (\<lambda>b. b \<ge> ?s) h = filter (\<lambda>b. b \<ge> ?s) bs"
    using filter_drop_below [OF k(2)] k(1) by simp
  have "filter (\<lambda>b. b \<ge> ?s) (push_operation n h) = filter (\<lambda>b. b \<ge> ?s) (h @ [n])"
    using sorted k(1) cap room small by (intro push_operation_window) (simp_all add: sorted_wrt_drop)
  also have "\<dots> = filter (\<lambda>b. b \<ge> ?s) (bs @ [n])"
    using same by simp
  finally have kept: "filter (\<lambda>b. b \<ge> ?s) (push_operation n h) = filter (\<lambda>b. b \<ge> ?s) (bs @ [n])" .
  have "length (filter (\<lambda>b. b \<ge> ?s) (bs @ [n])) \<le> operation_history_capacity"
    using room small same start by simp
  moreover have "ops_in_span s (unat window) (bs @ [n]) \<le> unat limit" for s
  proof (cases "s \<le> unat n \<and> unat n \<le> s + unat window")
    case True
    have "ops_in_span s (unat window) bs \<le> length (filter (\<lambda>b. b \<ge> ?s) bs)"
      unfolding ops_in_span_def using True
      by (intro length_filter_mono) (auto simp: word_le_nat_alt sat_simps)
    with True room same show ?thesis
      by (simp add: ops_in_span_append)
  next
    case False
    then have "ops_in_span s (unat window) (bs @ [n]) = ops_in_span s (unat window) bs"
      by (simp add: ops_in_span_append)
    with books limits show ?thesis
      by (simp add: account_books_def)
  qed
  moreover have "successively (\<lambda>x y. unat x + unat (get_minimum_interval oper c) \<le> unat y) (bs @ [n])"
  proof (cases "bs = []")
    case False
    then have "last_block = Some (last bs)"
      using books by (simp add: account_books_def)
    then have "unat (get_minimum_interval oper c) \<le> unat n - unat (last bs)"
      using interval by (auto simp: word_le_nat_alt sat_simps)
    moreover have "unat (last bs) \<le> unat n"
      using below False by (simp add: word_le_nat_alt)
    ultimately show ?thesis
      using books False by (simp add: account_books_def successively_append_iff)
  qed simp
  ultimately show ?thesis
    using sorted' below sorted_filter_ge_suffix [OF sorted', of ?s] limits
    unfolding account_books_def kept by auto
qed

text \<open>The checks read as conditions on the bookkeeping.\<close>

lemma check_rate_limits_ok:
  assumes "check_rate_limits a oper weight w = Inr ()"
    and "get_per_account_limit oper (RateLimitConfigStorage w) = (limit, window)"
  shows "sm_val 0 (BlockOperationCounts w) oper < get_per_block_limit oper (RateLimitConfigStorage w)"
    and "operations_in_window a oper (block_number w) window w < limit"
    and "\<forall>b. sm_get (LastOperationBlock w) (a, oper) = Some b \<longrightarrow>
      get_minimum_interval oper (RateLimitConfigStorage w) \<le> sat_sub (block_number w) b"
    and "weight \<le> get_weight_limit oper (RateLimitConfigStorage w)"
  using assms
  by (auto simp: check_rate_limits_def check_per_block_limits_def check_per_account_limits_def
      check_minimum_intervals_def check_weight_bounds_def Let_def not_le not_less
      split: if_splits option.splits)

text \<open>A configuration the root call accepts keeps every limit within the recorded history.\<close>

lemma valid_limit_small:
  assumes "validate_rate_limit_config c = Inr ()"
  shows "unat (fst (get_per_account_limit oper c)) \<le> operation_history_capacity"
proof -
  have "max_proposals_per_account c \<le> 100" "max_status_changes_per_account c \<le> 20"
    using assms by (auto simp: validate_rate_limit_config_def split: if_splits)
  then have "unat (max_proposals_per_account c) \<le> 100" "unat (max_status_changes_per_account c) \<le> 20"
    by (simp_all add: word_le_nat_alt)
  then show ?thesis
    by (cases oper) (auto simp: operation_history_capacity_def)
qed

definition rate_books ::
  "rate_limit_config \<Rightarrow> ('c, 'sig, 'z) dcf_world_scheme \<Rightarrow> operation_log \<Rightarrow> bool" where
  "rate_books c w log \<longleftrightarrow> RateLimitConfigStorage w = c
     \<and> (\<forall>e\<in>set log. snd (snd e) \<le> block_number w)
     \<and> (\<forall>oper. unat (sm_val 0 (BlockOperationCounts w) oper) = ops_in_block oper (block_number w) log)
     \<and> (\<forall>oper n. ops_in_block oper n log \<le> unat (get_per_block_limit oper c))
     \<and> (\<forall>a oper. account_books c oper (block_number w)
          (sm_val [] (AccountOperationHistory w) (a, oper))
          (sm_get (LastOperationBlock w) (a, oper)) (op_blocks a oper log))"

lemma op_blocks_le: "\<forall>e\<in>set log. snd (snd e) \<le> n \<Longrightarrow> b \<in> set (op_blocks a oper log) \<Longrightarrow> b \<le> n"
  using op_blocks_subset by fastforce

lemma rate_books_next_block:
  assumes "rate_books c w log" and "block_number w < n"
  shows "rate_books c (reset_block_counters (w\<lparr>block_number := n\<rparr>)) log"
proof -
  have old: "\<forall>e\<in>set log. snd (snd e) < n"
    using assms by (auto simp: rate_books_def)
  then have none: "ops_in_block oper n log = 0" for oper
    by (auto simp: ops_in_block_def filter_empty_conv)
  have books: "account_books c oper n (sm_val [] (AccountOperationHistory w) (a, oper))
      (sm_get (LastOperationBlock w) (a, oper)) (op_blocks a oper log)" for a oper
  proof (rule account_books_later)
    show "account_books c oper (block_number w) (sm_val [] (AccountOperationHistory w) (a, oper))
      (sm_get (LastOperationBlock w) (a, oper)) (op_blocks a oper log)"
      using assms(1) unfolding rate_books_def by blast
    show "block_number w \<le> n"
      using assms(2) by simp
  qed
  have log: "\<forall>e\<in>set log. snd (snd e) \<le> n"
    using old by auto
  have fields: "block_number (reset_block_counters (w\<lparr>block_number := n\<rparr>)) = n"
    "BlockOperationCounts (reset_block_counters (w\<lparr>block_number := n\<rparr>)) = []"
    "RateLimitConfigStorage (reset_block_counters (w\<lparr>block_number := n\<rparr>)) = RateLimitConfigStorage w"
    "AccountOperationHistory (reset_block_counters (w\<lparr>block_number := n\<rparr>)) = AccountOperationHistory w"
    "LastOperationBlock (reset_block_counters (w\<lparr>block_number := n\<rparr>)) = LastOperationBlock w"
    by (simp_all add: reset_block_counters_def dcf_deposit_event_def)
  show ?thesis
    unfolding rate_books_def fields
    by (intro conjI allI log books) (use assms(1) none in \<open>simp_all add: rate_books_def\<close>)
qed

lemma rate_books_accept:
  assumes books: "rate_books c w log" and ok: "check_rate_limits a oper weight w = Inr ()"
    and valid: "validate_rate_limit_config c = Inr ()"
  shows "rate_books c (record_operation a oper w) (log @ [(a, oper, block_number w)])"
proof -
  obtain limit window where limits: "get_per_account_limit oper c = (limit, window)"
    by (cases "get_per_account_limit oper c")
  let ?h = "sm_val [] (AccountOperationHistory w) (a, oper)"
  let ?n = "block_number w"
  let ?count = "sm_val 0 (BlockOperationCounts w) oper"
  have c: "RateLimitConfigStorage w = c"
    using books by (simp add: rate_books_def)
  have old: "account_books c oper ?n ?h (sm_get (LastOperationBlock w) (a, oper)) (op_blocks a oper log)"
    using books by (simp add: rate_books_def)
  then have short: "length (filter (\<lambda>b. b \<ge> sat_sub ?n window) ?h) \<le> operation_history_capacity"
    by (auto simp: account_books_def intro: le_trans [OF length_filter_le])
  note checks = check_rate_limits_ok [OF ok, unfolded c, OF limits]
  have "unat (of_nat (length (filter (\<lambda>b. b \<ge> sat_sub ?n window) ?h)) :: u32)
      = length (filter (\<lambda>b. b \<ge> sat_sub ?n window) ?h)"
    using short by (simp add: unsigned_of_nat take_bit_nat_eq_self operation_history_capacity_def)
  then have room: "length (filter (\<lambda>b. b \<ge> sat_sub ?n window) ?h) < unat limit"
    using checks(2) by (simp add: operations_in_window_def word_less_nat_alt)
  have small: "unat limit \<le> operation_history_capacity"
    using valid_limit_small [OF valid, of oper] limits by simp
  have interval: "\<forall>b. sm_get (LastOperationBlock w) (a, oper) = Some b \<longrightarrow>
      get_minimum_interval oper c \<le> sat_sub ?n b"
    by (rule checks(3))
  note new = account_books_accept [OF old limits room small interval]
  have count: "unat (sat_add ?count 1) = unat ?count + 1"
    and below: "unat ?count + 1 \<le> unat (get_per_block_limit oper c)"
    using checks(1) unat_le_max [of "get_per_block_limit oper c"]
    by (simp_all add: unat_sat_add word_less_nat_alt)
  have counted: "unat ?count = ops_in_block oper ?n log"
    using books by (simp add: rate_books_def)
  show ?thesis
    unfolding rate_books_def
  proof (intro conjI allI)
    show "ops_in_block oper' n (log @ [(a, oper, ?n)]) \<le> unat (get_per_block_limit oper' c)" for oper' n
      using books below counted by (auto simp: ops_in_block_append rate_books_def)
    show "account_books c oper' (block_number (record_operation a oper w))
        (sm_val [] (AccountOperationHistory (record_operation a oper w)) (a', oper'))
        (sm_get (LastOperationBlock (record_operation a oper w)) (a', oper'))
        (op_blocks a' oper' (log @ [(a, oper, ?n)]))" for a' oper'
      using new books limits
      by (auto simp: record_operation_def Let_def c op_blocks_append rate_books_def)
  qed (use books count in \<open>auto simp: record_operation_def Let_def c ops_in_block_append rate_books_def\<close>)
qed

lemma rate_books_run:
  assumes "rate_run c w log" and "validate_rate_limit_config c = Inr ()"
  shows "rate_books c w log"
  using assms
proof (induction rule: rate_run.induct)
  case (start w)
  then show ?case
    by (simp add: rate_books_def op_blocks_def ops_in_block_def account_books_empty)
next
  case (elsewhere w log w')
  then show ?case
    by (simp add: rate_books_def same_rates_def)
qed (simp_all add: rate_books_next_block rate_books_accept)

end
