(* ===== verification/Dcf_Governance.thy ===== *)
theory Dcf_Governance
  imports Private_Chain Rate_Limits Trust_Score
begin

text \<open>
  Governance in \<open>pallet-cerulea-dcf\<close>: proposals, votes, execution, the proposals filed by root,
  the automatic treatment of proposals at an epoch boundary, and misbehaviour reports. The
  staking pallet notifies the validator handler \<open>H\<close>.
\<close>

section \<open>Filing proposals\<close>

definition file_proposal ::
  "account_id \<Rightarrow> proposal_action \<Rightarrow> ('c, 'sig, 'z) dcf_world_scheme \<Rightarrow> ('c, 'sig, 'z) dcf_world_scheme" where
  "file_proposal who act w =
     (let proposal_id = NextProposalId w
      in dcf_deposit_event (ProposalSubmitted proposal_id who act)
           (w\<lparr>Proposals := sm_put proposal_id \<lparr>proposer = who, action = act, status = Pending,
                votes_for = 0, votes_against = 0\<rparr> (Proposals w),
              NextProposalId := proposal_id + 1\<rparr>))"

text \<open>The event of a refused operation: its codes, counts and limits.\<close>

fun violation_event :: "u32 \<Rightarrow> account_id \<Rightarrow> rate_limit_violation \<Rightarrow> dcf_event" where
  "violation_event code who (PerBlockLimitExceeded _ n limit) = RateLimitViolated who code 0 n limit"
| "violation_event code who (PerAccountLimitExceeded _ n limit _) = RateLimitViolated who code 1 n limit"
| "violation_event code who (MinimumIntervalViolation _ since required) =
     RateLimitViolated who code 2 since required"
| "violation_event code who (WeightBoundExceeded _ weight limit) =
     RateLimitViolated who code 3 (ucast (weight div 1000)) (ucast (limit div 1000))"

definition note_violation ::
  "u32 \<Rightarrow> account_id \<Rightarrow> rate_limit_violation option \<Rightarrow> ('c, 'sig, 'z) dcf_world_scheme
     \<Rightarrow> ('c, 'sig, 'z) dcf_world_scheme" where
  "note_violation code who violation w =
     (case violation of None \<Rightarrow> w | Some v \<Rightarrow> dcf_deposit_event (violation_event code who v) w)"

fun action_target :: "proposal_action \<Rightarrow> account_id option" where
  "action_target (SlashAction v _) = Some v"
| "action_target (RewardAction v _) = Some v"
| "action_target (EjectAction v _) = Some v"
| "action_target _ = None"

definition private_mode_check ::
  "account_id \<Rightarrow> proposal_action \<Rightarrow> ('c, 'sig, 'z) dcf_world_scheme \<Rightarrow> dispatch_error + unit" where
  "private_mode_check who act w =
     (if \<not> is_private_chain_mode w then Inr ()
      else case validate_governance_in_private_mode who w of
        Inl e \<Rightarrow> Inl e
      | Inr _ \<Rightarrow>
          (case action_target act of
             None \<Rightarrow> Inr ()
           | Some v \<Rightarrow> validate_proposal_in_private_mode who v w))"

definition submit_proposal ::
  "('c, 'sig) dcf_config \<Rightarrow> origin \<Rightarrow> proposal_action \<Rightarrow> (('c, 'sig, 'z) dcf_world_scheme, unit) call" where
  "submit_proposal cfg orig act w =
     (case ensure_signed orig of Inl e \<Rightarrow> (Inl e, w) | Inr who \<Rightarrow>
      case check_rate_limits who SubmitProposal (SubmitProposalWeight cfg) w of
        Inl (e, violation) \<Rightarrow> (Inl e, note_violation 0 who violation w)
      | Inr _ \<Rightarrow>
      case private_mode_check who act w of
        Inl e \<Rightarrow> (Inl e, w)
      | Inr _ \<Rightarrow>
          (let proposal_id = NextProposalId w
           in (Inr (), record_operation who SubmitProposal
                (dcf_deposit_event (ProposalCreated proposal_id who act) (file_proposal who act w)))))"

section \<open>Voting\<close>

definition count_vote :: "bool \<Rightarrow> governance_proposal \<Rightarrow> governance_proposal" where
  "count_vote approve prop =
     (if approve then prop\<lparr>votes_for := votes_for prop + 1\<rparr>
      else prop\<lparr>votes_against := votes_against prop + 1\<rparr>)"

definition proposal_quorum :: "account_id list \<Rightarrow> u32" where
  "proposal_quorum active = (of_nat (length active) + 1) div 2"

definition decide_proposal ::
  "u32 \<Rightarrow> u32 \<Rightarrow> governance_proposal \<Rightarrow> ('c, 'sig, 'z) dcf_world_scheme
     \<Rightarrow> governance_proposal \<times> ('c, 'sig, 'z) dcf_world_scheme" where
  "decide_proposal proposal_id quorum prop w =
     (if votes_for prop + votes_against prop \<ge> quorum then
        (if votes_for prop > votes_against prop
         then (prop\<lparr>status := Approved\<rparr>, dcf_deposit_event (ProposalPassed proposal_id) w)
         else (prop\<lparr>status := Rejected\<rparr>, dcf_deposit_event (ProposalRejected proposal_id) w))
      else (prop, w))"

definition vote_proposal ::
  "('c, 'sig) dcf_config \<Rightarrow> origin \<Rightarrow> u32 \<Rightarrow> bool \<Rightarrow> (('c, 'sig, 'z) dcf_world_scheme, unit) call" where
  "vote_proposal cfg orig proposal_id approve w =
     (case ensure_signed orig of Inl e \<Rightarrow> (Inl e, w) | Inr who \<Rightarrow>
      case check_rate_limits who VoteProposal (VoteProposalWeight cfg) w of
        Inl (e, violation) \<Rightarrow> (Inl e, note_violation 2 who violation w)
      | Inr _ \<Rightarrow>
      case sm_get (Proposals w) proposal_id of
        None \<Rightarrow> (Inl (DcfErr DcfProposalNotApproved), w)
      | Some prop \<Rightarrow>
        if status prop \<noteq> Pending then (Inl (DcfErr DcfProposalAlreadyExecuted), w)
        else if sm_has (ProposalVotes w) (proposal_id, who) then (Inl (DcfErr DcfAlreadyVoted), w)
        else
          (let w1 = dcf_deposit_event (ProposalVoted proposal_id who approve)
                 (w\<lparr>ProposalVotes := sm_put (proposal_id, who) approve (ProposalVotes w)\<rparr>);
               (prop', w2) = decide_proposal proposal_id
                 (proposal_quorum (dcf_active_validators cfg w1)) (count_vote approve prop) w1
           in (Inr (), record_operation who VoteProposal
                (w2\<lparr>Proposals := sm_put proposal_id prop' (Proposals w2)\<rparr>))))"

section \<open>Execution\<close>

definition governance_state ::
  "('c, 'sig) dcf_config \<Rightarrow> ('c, 'sig, 'z) dcf_world_scheme \<Rightarrow> account_id \<Rightarrow> dvf_validator_state" where
  "governance_state cfg w v =
     (let stake_sc = sat_into (sm_val 0 (Stake w) v);
          inference_sc = get_inference_score w v;
          stats = \<lparr>es_epoch = DcfCurrentEpoch w, stake_score = stake_sc,
            inference_score = inference_sc,
            final_score = combined_score cfg stake_sc inference_sc (pos_weight_of w) (poi_weight_of w),
            authored_blocks = 0, missed_blocks = 0\<rparr>
      in \<lparr>last_active_epoch = DcfCurrentEpoch w, current = stats,
          vs_history = (if unat (DcfMaxValidatorHistorySize cfg) \<ge> 1 then [stats] else []),
          uptime = 1, inference_success_count = 0, participation_rate = 0, inference_count = 0,
          last_active_block = block_number w, vs_name = None, trust_score = 0\<rparr>)"

definition execute_add_validator ::
  "('c, 'sig) dcf_config \<Rightarrow> account_id \<Rightarrow> (('c, 'sig, 'z) dcf_world_scheme, unit) call" where
  "execute_add_validator cfg v w =
     (let vset = dcf_validator_set cfg w
      in if v \<in> set vset then (Inl (DcfErr DcfValidatorAlreadyExists), w)
         else if \<not> length vset < unat (PosMaxValidators (pos_cfg cfg))
         then (Inl (DcfErr DcfNotEnoughValidators), w)
         else if \<not> sm_val 0 (Stake w) v \<ge> MinStake (pos_cfg cfg)
         then (Inl (DcfErr DcfInsufficientStake), w)
         else
           (let w1 = dcf_put_set cfg (vset @ [v]) w;
                w2 = (if \<not> sm_has (ValidatorStates w1) v
                  then set_validator_join_time v (block_number w1)
                         (dcf_put_state cfg v (governance_state cfg w1 v) w1)
                  else w1)
            in (Inr (), dcf_deposit_event (DcfValidatorAdded v) w2)))"

definition execute_remove_validator ::
  "('c, 'sig) dcf_config \<Rightarrow> ('c, 'sig, 'z) dcf_world_scheme validator_handler \<Rightarrow> account_id
     \<Rightarrow> (('c, 'sig, 'z) dcf_world_scheme, unit) call" where
  "execute_remove_validator cfg H v w =
     then_do (force_eject_validator (currency_of cfg) H v w) (dcf_deposit_event (DcfValidatorRemoved v))"

definition execute_eject_validator ::
  "('c, 'sig) dcf_config \<Rightarrow> ('c, 'sig, 'z) dcf_world_scheme validator_handler \<Rightarrow> account_id
     \<Rightarrow> ejection_reason \<Rightarrow> (('c, 'sig, 'z) dcf_world_scheme, unit) call" where
  "execute_eject_validator cfg H v reason w =
     then_do (force_eject_validator (currency_of cfg) H v w) (dcf_deposit_event (DcfEjected v reason))"

text \<open>The results of the actions are dropped.\<close>

fun run_action ::
  "('c, 'sig) dcf_config \<Rightarrow> ('c, 'sig, 'z) dcf_world_scheme validator_handler \<Rightarrow> proposal_action
     \<Rightarrow> ('c, 'sig, 'z) dcf_world_scheme \<Rightarrow> ('c, 'sig, 'z) dcf_world_scheme" where
  "run_action cfg H (SlashAction v amount) w =
     snd (execute_slash_validator (pos_cfg cfg) (currency_of cfg) H v amount w)"
| "run_action cfg H (RewardAction v amount) w =
     snd (execute_reward_validator (pos_cfg cfg) (currency_of cfg) H v amount w)"
| "run_action cfg H (RewardMultiple vs amount) w =
     each_ignore (\<lambda>v. execute_reward_validator (pos_cfg cfg) (currency_of cfg) H v amount) vs w"
| "run_action cfg H (EjectAction v reason) w = snd (execute_eject_validator cfg H v reason w)"
| "run_action cfg H (AddValidator v) w = snd (execute_add_validator cfg v w)"
| "run_action cfg H (RemoveValidator v) w = snd (execute_remove_validator cfg H v w)"

definition execute_proposal ::
  "('c, 'sig) dcf_config \<Rightarrow> ('c, 'sig, 'z) dcf_world_scheme validator_handler \<Rightarrow> origin \<Rightarrow> u32
     \<Rightarrow> (('c, 'sig, 'z) dcf_world_scheme, unit) call" where
  "execute_proposal cfg H orig proposal_id w =
     (case ensure_root orig of Inl e \<Rightarrow> (Inl e, w) | Inr _ \<Rightarrow>
      case sm_get (Proposals w) proposal_id of
        None \<Rightarrow> (Inl (DcfErr DcfProposalNotApproved), w)
      | Some prop \<Rightarrow>
        if status prop \<noteq> Approved then (Inl (DcfErr DcfProposalNotApproved), w)
        else
          (let w1 = dcf_deposit_event (ProposalExecuted proposal_id Executed)
                 (run_action cfg H (action prop) w)
           in (Inr (), w1\<lparr>Proposals :=
                 sm_put proposal_id (prop\<lparr>status := Executed\<rparr>) (Proposals w1)\<rparr>)))"

fun should_auto_approve_proposal :: "proposal_action \<Rightarrow> bool" where
  "should_auto_approve_proposal (AddValidator _) = True"
| "should_auto_approve_proposal (RemoveValidator _) = True"
| "should_auto_approve_proposal (EjectAction _ reason) =
     (reason = ScoreBelowThreshold \<or> reason = ExcessValidators)"
| "should_auto_approve_proposal _ = False"

definition process_epoch_proposal ::
  "('c, 'sig) dcf_config \<Rightarrow> ('c, 'sig, 'z) dcf_world_scheme validator_handler
     \<Rightarrow> u32 \<times> governance_proposal \<Rightarrow> ('c, 'sig, 'z) dcf_world_scheme
     \<Rightarrow> ('c, 'sig, 'z) dcf_world_scheme" where
  "process_epoch_proposal cfg H p w =
     (case p of (proposal_id, proposal) \<Rightarrow>
      if should_auto_approve_proposal (action proposal) then
        (case sm_get (Proposals w) proposal_id of
           None \<Rightarrow> w
         | Some prop \<Rightarrow>
             (let w1 = (case action prop of
                    AddValidator _ \<Rightarrow> run_action cfg H (action prop) w
                  | RemoveValidator _ \<Rightarrow> run_action cfg H (action prop) w
                  | EjectAction _ _ \<Rightarrow> run_action cfg H (action prop) w
                  | _ \<Rightarrow> w)
              in w1\<lparr>Proposals := sm_put proposal_id (prop\<lparr>status := Executed\<rparr>) (Proposals w1)\<rparr>))
      else w)"

definition process_epoch_proposals ::
  "('c, 'sig) dcf_config \<Rightarrow> ('c, 'sig, 'z) dcf_world_scheme validator_handler
     \<Rightarrow> ('c, 'sig, 'z) dcf_world_scheme \<Rightarrow> ('c, 'sig, 'z) dcf_world_scheme" where
  "process_epoch_proposals cfg H w =
     fold (process_epoch_proposal cfg H) (filter (\<lambda>p. status (snd p) = Pending) (Proposals w)) w"

section \<open>Proposals filed by root\<close>

definition propose_slash_validator ::
  "origin \<Rightarrow> account_id \<Rightarrow> account_id \<Rightarrow> u128 \<Rightarrow> (('c, 'sig, 'z) dcf_world_scheme, unit) call" where
  "propose_slash_validator orig who v amount w =
     (case ensure_root orig of Inl e \<Rightarrow> (Inl e, w) | Inr _ \<Rightarrow>
      (Inr (), file_proposal who (SlashAction v amount) w))"

definition propose_reward_validator ::
  "origin \<Rightarrow> account_id \<Rightarrow> account_id \<Rightarrow> u128 \<Rightarrow> (('c, 'sig, 'z) dcf_world_scheme, unit) call" where
  "propose_reward_validator orig who v amount w =
     (case ensure_root orig of Inl e \<Rightarrow> (Inl e, w) | Inr _ \<Rightarrow>
      (Inr (), file_proposal who (RewardAction v amount) w))"

definition propose_default_reward_validator ::
  "('c, 'sig) dcf_config \<Rightarrow> origin \<Rightarrow> account_id \<Rightarrow> account_id
     \<Rightarrow> (('c, 'sig, 'z) dcf_world_scheme, unit) call" where
  "propose_default_reward_validator cfg orig who v w =
     (case ensure_root orig of Inl e \<Rightarrow> (Inl e, w) | Inr _ \<Rightarrow>
      (Inr (), file_proposal who (RewardAction v (ValidatorReward (pos_cfg cfg))) w))"

text \<open>Filing a reward for a list bounded by \<open>MaxProposalActionBoundedVecSize\<close>.\<close>

definition file_reward_multiple ::
  "('c, 'sig) dcf_config \<Rightarrow> account_id \<Rightarrow> account_id list \<Rightarrow> u128
     \<Rightarrow> (('c, 'sig, 'z) dcf_world_scheme, unit) call" where
  "file_reward_multiple cfg who vs amount w =
     (if length vs > unat (MaxProposalActionSize cfg) then (Inl (DcfErr DcfNotEnoughValidators), w)
      else (Inr (), file_proposal who (RewardMultiple vs amount) w))"

definition propose_reward_multiple_validators ::
  "('c, 'sig) dcf_config \<Rightarrow> origin \<Rightarrow> account_id \<Rightarrow> account_id list \<Rightarrow> u128
     \<Rightarrow> (('c, 'sig, 'z) dcf_world_scheme, unit) call" where
  "propose_reward_multiple_validators cfg orig who vs amount w =
     (case ensure_root orig of Inl e \<Rightarrow> (Inl e, w) | Inr _ \<Rightarrow>
      if \<not> length vs \<le> unat (PosMaxValidators (pos_cfg cfg)) \<or> vs = []
      then (Inl (DcfErr DcfNotEnoughValidators), w)
      else if of_nat (length vs) * 10000 > max_proposal_processing_weight (RateLimitConfigStorage w)
      then (Inl (DcfErr DcfWeightLimitExceeded), w)
      else if \<not> length vs \<le> unat (min (max_loop_iterations (RateLimitConfigStorage w)) (of_nat (length vs)))
      then (Inl (DcfErr DcfWeightLimitExceeded), w)
      else if \<exists>v\<in>set vs. \<not> sm_has (ValidatorStates w) v then (Inl (DcfErr DcfValidatorNotFound), w)
      else file_reward_multiple cfg who vs amount w)"

definition propose_default_reward_multiple_validators ::
  "('c, 'sig) dcf_config \<Rightarrow> origin \<Rightarrow> account_id \<Rightarrow> account_id list
     \<Rightarrow> (('c, 'sig, 'z) dcf_world_scheme, unit) call" where
  "propose_default_reward_multiple_validators cfg orig who vs w =
     (case ensure_root orig of Inl e \<Rightarrow> (Inl e, w) | Inr _ \<Rightarrow>
      if \<not> length vs \<le> unat (PosMaxValidators (pos_cfg cfg)) \<or> vs = []
      then (Inl (DcfErr DcfNotEnoughValidators), w)
      else if \<exists>v\<in>set vs. \<not> sm_has (ValidatorStates w) v then (Inl (DcfErr DcfValidatorNotFound), w)
      else file_reward_multiple cfg who vs (ValidatorReward (pos_cfg cfg)) w)"

definition propose_reward_all_active_validators ::
  "('c, 'sig) dcf_config \<Rightarrow> origin \<Rightarrow> account_id \<Rightarrow> (('c, 'sig, 'z) dcf_world_scheme, unit) call" where
  "propose_reward_all_active_validators cfg orig who w =
     (case ensure_root orig of Inl e \<Rightarrow> (Inl e, w) | Inr _ \<Rightarrow>
      if dcf_active_validators cfg w = [] then (Inl (DcfErr DcfNotEnoughValidators), w)
      else file_reward_multiple cfg who (dcf_active_validators cfg w) (ValidatorReward (pos_cfg cfg)) w)"

definition propose_eject_validator ::
  "origin \<Rightarrow> account_id \<Rightarrow> account_id \<Rightarrow> ejection_reason
     \<Rightarrow> (('c, 'sig, 'z) dcf_world_scheme, unit) call" where
  "propose_eject_validator orig who v reason w =
     (case ensure_root orig of Inl e \<Rightarrow> (Inl e, w) | Inr _ \<Rightarrow>
      (Inr (), file_proposal who (EjectAction v reason) w))"

definition set_governance_mode ::
  "origin \<Rightarrow> bool \<Rightarrow> (('c, 'sig, 'z) dcf_world_scheme, unit) call" where
  "set_governance_mode orig enabled w =
     (case ensure_root orig of Inl e \<Rightarrow> (Inl e, w) | Inr _ \<Rightarrow>
      (Inr (), dcf_deposit_event (GovernanceModeToggled enabled) (w\<lparr>GovernanceModeEnabled := enabled\<rparr>)))"

section \<open>Misbehaviour reports\<close>

definition reports_about ::
  "account_id \<Rightarrow> ('c, 'sig, 'z) dcf_world_scheme \<Rightarrow> account_id list" where
  "reports_about v w = map (snd \<circ> fst) (filter (\<lambda>r. fst (fst r) = v) (MisbehaviorReports w))"

definition get_misbehavior_report_count ::
  "account_id \<Rightarrow> ('c, 'sig, 'z) dcf_world_scheme \<Rightarrow> u32" where
  "get_misbehavior_report_count v w = fold (\<lambda>_ n. sat_add n 1) (reports_about v w) 0"

definition is_validator_at_risk ::
  "('c, 'sig) dcf_config \<Rightarrow> account_id \<Rightarrow> ('c, 'sig, 'z) dcf_world_scheme \<Rightarrow> bool" where
  "is_validator_at_risk cfg v w \<longleftrightarrow>
     get_misbehavior_report_count v w \<ge> sat_sub (MisbehaviorSlashThreshold cfg) 1"

definition report_validator_misbehavior ::
  "('c, 'sig) dcf_config \<Rightarrow> ('c, 'sig, 'z) dcf_world_scheme validator_handler \<Rightarrow> origin \<Rightarrow> account_id
     \<Rightarrow> 8 word list \<Rightarrow> (('c, 'sig, 'z) dcf_world_scheme, unit) call" where
  "report_validator_misbehavior cfg H orig v evidence w =
     (case ensure_signed orig of Inl e \<Rightarrow> (Inl e, w) | Inr reporter \<Rightarrow>
      if reporter \<notin> set (dcf_validator_set cfg w) then (Inl (DcfErr DcfValidatorNotInSet), w)
      else if v \<notin> set (dcf_validator_set cfg w) then (Inl (DcfErr DcfValidatorNotFound), w)
      else if reporter = v then (Inl (DcfErr DcfInvalidScore), w)
      else if sm_has (MisbehaviorReports w) (v, reporter) then (Inl (DcfErr DcfInvalidScore), w)
      else
        (let w1 = w\<lparr>MisbehaviorReports := sm_put (v, reporter) evidence (MisbehaviorReports w)\<rparr>;
             report_count = get_misbehavior_report_count v w1;
             w2 = dcf_deposit_event (MisbehaviorReported v reporter report_count) w1
         in if report_count \<ge> MisbehaviorSlashThreshold cfg then
              (case dcf_calculate_slash_amount cfg w2 v of
                 Inl e \<Rightarrow> (Inl e, w2)
               | Inr slash_amount \<Rightarrow>
                   (let w3 = snd (execute_slash_validator_with_reason (pos_cfg cfg) (currency_of cfg) H
                          v slash_amount ConsensusViolation w2);
                        w4 = snd (force_eject_validator (currency_of cfg) H v w3);
                        w5 = w4\<lparr>MisbehaviorReports :=
                          filter (\<lambda>r. fst (fst r) \<noteq> v) (MisbehaviorReports w4)\<rparr>
                    in (Inr (), dcf_deposit_event (ValidatorAutoSlashed v slash_amount report_count) w5)))
            else (Inr (), w2)))"

end
