(* ===== verification/Dcf_Epoch.thy ===== *)
theory Dcf_Epoch
  imports Author_Selection Dcf_Finality Dcf_Governance
begin

text \<open>
  Epochs and the block hook of \<open>pallet-cerulea-dcf\<close>: pending joins and leaves, automatic proposals,
  the epoch transition with the author sequence and the frozen weights of the next epoch, the
  snapshot of scores, and \<open>on_initialize\<close>. Where the code would panic the result is \<open>None\<close>.
\<close>

section \<open>Pending actions\<close>

definition score_of :: "('c, 'sig) dcf_config \<Rightarrow> ('c, 'sig, 'z) dcf_world_scheme \<Rightarrow> account_id \<Rightarrow> u64" where
  "score_of cfg w v =
     (case dcf_validator_state cfg w v of None \<Rightarrow> 0 | Some st \<Rightarrow> final_score (current st))"

text \<open>The stable sorts by descending and ascending score.\<close>

definition sort_high :: "('x \<Rightarrow> u64) \<Rightarrow> 'x list \<Rightarrow> 'x list" where
  "sort_high score xs = sort_key (\<lambda>x. - int (unat (score x))) xs"

definition sort_low :: "('x \<Rightarrow> u64) \<Rightarrow> 'x list \<Rightarrow> 'x list" where
  "sort_low score xs = sort_key (\<lambda>x. unat (score x)) xs"

definition join_requests :: "(account_id, validator_action) smap \<Rightarrow> account_id list \<Rightarrow> account_id list" where
  "join_requests actions active =
     map fst (filter (\<lambda>(who, act). act = Join \<and> who \<notin> set active) actions)"

definition leave_requests :: "(account_id, validator_action) smap \<Rightarrow> account_id list \<Rightarrow> account_id list" where
  "leave_requests actions active =
     map fst (filter (\<lambda>(who, act). act = Leave \<and> who \<in> set active) actions)"

definition admit_join ::
  "('c, 'sig) dcf_config \<Rightarrow> ('c, 'sig, 'z) dcf_world_scheme \<Rightarrow> account_id
     \<Rightarrow> account_id list \<times> account_id list \<Rightarrow> account_id list \<times> account_id list" where
  "admit_join cfg w who acc =
     (case acc of (active, added) \<Rightarrow>
      if score_of cfg w who \<ge> ucast (MinValidatorScore (pos_cfg cfg)) then
        (case bv_try_push (PosMaxValidators (pos_cfg cfg)) who active of
           None \<Rightarrow> (active, added)
         | Some active' \<Rightarrow> (active', added @ [who]))
      else (active, added))"

definition apply_pending_validator_actions ::
  "('c, 'sig) dcf_config \<Rightarrow> ('c, 'sig, 'z) dcf_world_scheme
     \<Rightarrow> (account_id list \<times> account_id list) \<times> ('c, 'sig, 'z) dcf_world_scheme" where
  "apply_pending_validator_actions cfg w =
     (let active = dcf_active_validators cfg w;
          actions = PendingValidatorActions w;
          joins = join_requests actions active;
          leaves = leave_requests actions active;
          w1 = fold (\<lambda>(who, act). remove_pending_action who) actions w;
          remaining = fold remove1 leaves active;
          slots = unat (PosMaxValidators (pos_cfg cfg)) - length remaining;
          (active', added) = fold (admit_join cfg w1) (take slots (sort_high (score_of cfg w1) joins))
            (remaining, []);
          w2 = (if leaves \<noteq> [] \<or> added \<noteq> [] then dcf_put_active cfg (sort active') w1 else w1)
      in ((added, leaves), w2))"

section \<open>Automatic proposals\<close>

definition has_pending_join_request :: "('c, 'sig, 'z) dcf_world_scheme \<Rightarrow> account_id \<Rightarrow> bool" where
  "has_pending_join_request w v \<longleftrightarrow> sm_get (PendingValidatorActions w) v = Some Join"

definition was_recently_ejected ::
  "('c, 'sig) dcf_config \<Rightarrow> ('c, 'sig, 'z) dcf_world_scheme \<Rightarrow> account_id \<Rightarrow> bool" where
  "was_recently_ejected cfg w v \<longleftrightarrow>
     (case sm_get (RecentlyRemovedValidators w) v of
        None \<Rightarrow> False
      | Some left_at_block \<Rightarrow> sat_sub (block_number w) left_at_block < LeaveCooldown (pos_cfg cfg))
     \<or> (case dcf_validator_state cfg w v of
          None \<Rightarrow> False
        | Some st \<Rightarrow> sat_sub (DcfCurrentEpoch w) (last_active_epoch st) \<le> DcfMaxInactiveEpochs cfg
            \<and> final_score (current st) = 0)"

definition create_automatic_join_proposal ::
  "account_id \<Rightarrow> u64 \<Rightarrow> ('c, 'sig, 'z) dcf_world_scheme \<Rightarrow> ('c, 'sig, 'z) dcf_world_scheme" where
  "create_automatic_join_proposal v score w =
     (if has_pending_join_request w v then w
      else dcf_deposit_event (AutomaticValidatorProposal v Join score ''High score automatic addition'')
             (dcf_deposit_event (DcfJoined v (sm_val 0 (Stake w) v)) (add_pending_action v Join w)))"

text \<open>
  Only the two reasons based on performance are ever passed to this function; for another reason
  the code files a proposal in the name of a system account.
\<close>

definition create_automatic_eject_proposal ::
  "('c, 'sig) dcf_config \<Rightarrow> account_id \<Rightarrow> ejection_reason \<Rightarrow> ('c, 'sig, 'z) dcf_world_scheme
     \<Rightarrow> ('c, 'sig, 'z) dcf_world_scheme" where
  "create_automatic_eject_proposal cfg v reason w =
     (let text = (if reason = ScoreBelowThreshold then ''Low score automatic ejection''
            else ''Excess validators automatic ejection'')
      in dcf_deposit_event (AutomaticValidatorProposal v Leave (score_of cfg w v) text)
           (snd (dcf_eject_validator cfg v reason w)))"

definition join_candidates ::
  "('c, 'sig) dcf_config \<Rightarrow> ('c, 'sig, 'z) dcf_world_scheme \<Rightarrow> account_id list
     \<Rightarrow> (account_id \<times> u64) list \<Rightarrow> (account_id \<times> u64) list" where
  "join_candidates cfg w active scored =
     filter (\<lambda>(v, score). v \<notin> set active \<and> score \<ge> ucast (MinValidatorScore (pos_cfg cfg))
       \<and> \<not> has_pending_join_request w v \<and> \<not> was_recently_ejected cfg w v) scored"

definition propose_add_high_scoring_validators ::
  "('c, 'sig) dcf_config \<Rightarrow> account_id list \<Rightarrow> (account_id \<times> u64) list \<Rightarrow> nat
     \<Rightarrow> ('c, 'sig, 'z) dcf_world_scheme \<Rightarrow> ('c, 'sig, 'z) dcf_world_scheme" where
  "propose_add_high_scoring_validators cfg active scored max_validators w =
     fold (\<lambda>(v, score). create_automatic_join_proposal v score)
       (take (max_validators - length active) (join_candidates cfg w active scored)) w"

text \<open>The improvement threshold divides by a quotient of two constants.\<close>

definition improvement_threshold :: "('c, 'sig) dcf_config \<Rightarrow> u64 \<Rightarrow> u64" where
  "improvement_threshold cfg lowest =
     max (lowest div (ucast (FullPercentage cfg) div ucast (ScoreImprovementPercentage cfg)))
       (ScoreImprovementThreshold cfg)"

definition propose_replace_low_scoring_validators ::
  "('c, 'sig) dcf_config \<Rightarrow> account_id list \<Rightarrow> (account_id \<times> u64) list
     \<Rightarrow> ('c, 'sig, 'z) dcf_world_scheme \<Rightarrow> ('c, 'sig, 'z) dcf_world_scheme" where
  "propose_replace_low_scoring_validators cfg active scored w =
     (case sort_low snd (map (\<lambda>v. (v, score_of cfg w v)) active) of
        [] \<Rightarrow> w
      | (lowest, lowest_score) # _ \<Rightarrow>
          (case filter (\<lambda>(v, score). v \<notin> set active
               \<and> sat_sub score lowest_score \<ge> improvement_threshold cfg lowest_score
               \<and> score \<ge> ucast (MinValidatorScore (pos_cfg cfg))
               \<and> \<not> has_pending_join_request w v \<and> \<not> was_recently_ejected cfg w v) scored of
             [] \<Rightarrow> w
           | (v, score) # _ \<Rightarrow> create_automatic_join_proposal v score
               (create_automatic_eject_proposal cfg lowest ScoreBelowThreshold w)))"

definition propose_remove_excess_validators ::
  "('c, 'sig) dcf_config \<Rightarrow> account_id list \<Rightarrow> nat \<Rightarrow> ('c, 'sig, 'z) dcf_world_scheme
     \<Rightarrow> ('c, 'sig, 'z) dcf_world_scheme" where
  "propose_remove_excess_validators cfg active max_validators w =
     fold (\<lambda>(v, score). create_automatic_eject_proposal cfg v ExcessValidators)
       (take (length active - max_validators)
         (sort_low snd (map (\<lambda>v. (v, score_of cfg w v)) active))) w"

definition generate_automatic_validator_proposals ::
  "('c, 'sig) dcf_config \<Rightarrow> ('c, 'sig, 'z) dcf_world_scheme \<Rightarrow> ('c, 'sig, 'z) dcf_world_scheme" where
  "generate_automatic_validator_proposals cfg w =
     (let active = dcf_active_validators cfg w;
          max_validators = unat (PosMaxValidators (pos_cfg cfg));
          scored = sort_high snd (map (\<lambda>v. (v, score_of cfg w v)) (dcf_validator_set cfg w))
      in if \<not> GovernanceModeEnabled w then w
         else if length active < max_validators
         then propose_add_high_scoring_validators cfg active scored max_validators w
         else if length active = max_validators
         then propose_replace_low_scoring_validators cfg active scored w
         else propose_remove_excess_validators cfg active max_validators w)"

section \<open>Epoch transition\<close>

definition dcf_epoch_economic_impact :: "('c, 'sig, 'z) dcf_world_scheme \<Rightarrow> u128 \<times> u128" where
  "dcf_epoch_economic_impact w =
     fold (\<lambda>(_, prop) (rewards, slashed).
         if status prop = Executed then
           (case action prop of
              RewardAction _ amount \<Rightarrow> (sat_add rewards amount, slashed)
            | RewardMultiple vs amount \<Rightarrow>
                (sat_add rewards (sat_mul amount (of_nat (length vs))), slashed)
            | SlashAction _ amount \<Rightarrow> (rewards, sat_add slashed amount)
            | _ \<Rightarrow> (rewards, slashed))
         else (rewards, slashed)) (Proposals w) (0, 0)"

definition average_performance ::
  "('c, 'sig) dcf_config \<Rightarrow> account_id list \<Rightarrow> ('c, 'sig, 'z) dcf_world_scheme \<Rightarrow> u64" where
  "average_performance cfg active w =
     (if active = [] then 0
      else sum_list (map (score_of cfg w) active) div of_nat (length active))"

definition uptime_event ::
  "('c, 'sig) dcf_config \<Rightarrow> u32 \<Rightarrow> account_id \<Rightarrow> ('c, 'sig, 'z) dcf_world_scheme
     \<Rightarrow> ('c, 'sig, 'z) dcf_world_scheme" where
  "uptime_event cfg epoch v w =
     (case dcf_validator_state cfg w v of
        None \<Rightarrow> w
      | Some st \<Rightarrow>
          (let authored = authored_blocks (current st); missed = missed_blocks (current st);
               expected = authored + missed;
               percentage = (if expected > 0 then authored * 10000 div expected else 10000)
           in dcf_deposit_event (ValidatorUptimeUpdated v epoch expected authored missed percentage) w))"

definition push_epoch_history ::
  "('c, 'sig) dcf_config \<Rightarrow> epoch_history \<Rightarrow> ('c, 'sig, 'z) dcf_world_scheme
     \<Rightarrow> ('c, 'sig, 'z) dcf_world_scheme" where
  "push_epoch_history cfg entry w =
     (let cap = MaxEpochHistory cfg;
          h = (if length (EpochHistories w) = unat cap then tl (EpochHistories w) else EpochHistories w)
      in w\<lparr>EpochHistories := (case bv_try_push cap entry h of None \<Rightarrow> h | Some h' \<Rightarrow> h')\<rparr>)"

text \<open>
  The transition in two parts: the change of the epoch, after which the code checks the invariants
  (theory \<open>Dcf_Checks\<close>), and its announcement.
\<close>

definition begin_epoch ::
  "('c, 'sig) dcf_config \<Rightarrow> ('c, 'sig, 'z) dcf_world_scheme
     \<Rightarrow> (account_id list \<times> account_id list) \<times> ('c, 'sig, 'z) dcf_world_scheme" where
  "begin_epoch cfg w =
     (let w1 = reset_epoch_totals (w\<lparr>DcfCurrentEpoch := sat_add (DcfCurrentEpoch w) 1\<rparr>);
          (changes, w2) = apply_pending_validator_actions cfg w1;
          w3 = update_all_trust_scores cfg w2
      in (changes, dcf_put_active cfg (sort (dcf_active_validators cfg w3)) w3))"

definition announce_epoch ::
  "('c, 'sig) dcf_config \<Rightarrow> u32 \<Rightarrow> account_id list \<Rightarrow> account_id list \<Rightarrow> ('c, 'sig, 'z) dcf_world_scheme
     \<Rightarrow> ('c, 'sig, 'z) dcf_world_scheme" where
  "announce_epoch cfg current_epoch added removed w =
     (let next_epoch = sat_add current_epoch 1;
          active = dcf_active_validators cfg w;
          w4 = dcf_deposit_event (EpochStarted next_epoch active) w;
          (rewards, slashed) = dcf_epoch_economic_impact w4;
          w5 = dcf_deposit_event (EpochTransition current_epoch next_epoch active removed added
                 (of_nat (length (dcf_validator_set cfg w4))) (average_performance cfg active w4)
                 rewards slashed) w4;
          w6 = fold (uptime_event cfg current_epoch) (dcf_validator_set cfg w5) w5
      in push_epoch_history cfg \<lparr>eh_epoch_number = next_epoch, eh_active_validators = active,
           eh_score_snapshot = map (\<lambda>v. (v, score_of cfg w6 v)) active,
           eh_inference_summary = map (\<lambda>v. (v, map_option (\<lambda>(r, e). ucast r)
             (sm_get (InferenceResults w6) v))) active\<rparr> w6)"

definition handle_epoch_transition ::
  "('c, 'sig) dcf_config \<Rightarrow> ('c, 'sig, 'z) dcf_world_scheme \<Rightarrow> ('c, 'sig, 'z) dcf_world_scheme" where
  "handle_epoch_transition cfg w =
     (case begin_epoch cfg w of ((added, removed), w1) \<Rightarrow>
        announce_epoch cfg (DcfCurrentEpoch w) added removed w1)"

definition sudo_advance_epoch ::
  "('c, 'sig) dcf_config \<Rightarrow> origin \<Rightarrow> (('c, 'sig, 'z) dcf_world_scheme, unit) call" where
  "sudo_advance_epoch cfg orig w =
     (case ensure_root orig of Inl e \<Rightarrow> (Inl e, w) | Inr _ \<Rightarrow>
      if \<not> GovernanceModeEnabled w then (Inl (DcfErr DcfNotAllowedInGovernanceMode), w)
      else (Inr (), handle_epoch_transition cfg w))"

text \<open>
  The weights handed to \<open>freeze_epoch_weights\<close>: the recorded stakes and the scores of the active
  validators.
\<close>

definition freeze_input ::
  "('c, 'sig) dcf_config \<Rightarrow> ('c, 'sig, 'z) dcf_world_scheme \<Rightarrow> (account_id \<times> u128 \<times> u128) list" where
  "freeze_input cfg w =
     map (\<lambda>v. (v, sm_val 0 (Stake w) v,
         case dcf_validator_state cfg w v of None \<Rightarrow> 1 | Some st \<Rightarrow> ucast (final_score (current st))))
       (dcf_active_validators cfg w)"

definition engine_salt ::
  "('c, 'sig) dcf_config \<Rightarrow> ('c, 'sig, 'z) dcf_world_scheme \<Rightarrow> 8 word list" where
  "engine_salt cfg w =
     (if randomness_salt w = replicate 32 0 then generate_genesis_randomness_salt cfg w
      else randomness_salt w)"

definition handle_deterministic_epoch_transition ::
  "('c, 'sig) dcf_config \<Rightarrow> u32 \<Rightarrow> ('c, 'sig, 'z) dcf_world_scheme
     \<Rightarrow> ('c, 'sig, 'z) dcf_world_scheme option" where
  "handle_deterministic_epoch_transition cfg n w =
     (let next_epoch = sat_add (DcfCurrentEpoch w) 1;
          w1 = w\<lparr>PreviousEpochBestBlock := sat_sub n 1\<rparr>;
          salt = engine_salt cfg w1;
          esalt = generate_epoch_salt cfg next_epoch salt;
          seed = generate_deterministic_randomness cfg n next_epoch salt esalt w1;
          w2 = handle_epoch_transition cfg w1
      in case generate_deterministic_author_sequence cfg next_epoch (dcf_active_validators cfg w2) seed w2 of
           None \<Rightarrow> None
         | Some sequence \<Rightarrow>
             (let w3 = w2\<lparr>EpochAuthorSequences := sm_put next_epoch sequence (EpochAuthorSequences w2)\<rparr>;
                  w4 = freeze_epoch_weights (dvf_cfg cfg) next_epoch (freeze_input cfg w3) w3
              in Some (w4\<lparr>randomness_salt := salt, epoch_salt := esalt,
                          last_processed_epoch := next_epoch\<rparr>)))"

definition finalize_previous_epoch ::
  "('c, 'sig) dcf_config \<Rightarrow> u32 \<Rightarrow> ('c, 'sig, 'z) dcf_world_scheme \<Rightarrow> ('c, 'sig, 'z) dcf_world_scheme" where
  "finalize_previous_epoch cfg n w =
     (let current_epoch = DcfCurrentEpoch w;
          previous_epoch = sat_sub current_epoch 1;
          epoch_end = sat_sub n 1
      in if previous_epoch > 0 then
           (let w1 = (if LastFinalizedBlock w < epoch_end
                  then snd (update_finality_markers cfg epoch_end current_epoch w) else w)
            in dcf_deposit_event (EpochStarted current_epoch (dcf_active_validators cfg w1))
                 (dcf_deposit_event (EpochEnded previous_epoch) w1))
         else w)"

text \<open>\<open>generate_performance_proposals\<close> and \<open>generate_governance_proposals\<close> change no state.\<close>

definition handle_comprehensive_epoch_transition ::
  "('c, 'sig) dcf_config \<Rightarrow> ('c, 'sig, 'z) dcf_world_scheme validator_handler \<Rightarrow> u32
     \<Rightarrow> ('c, 'sig, 'z) dcf_world_scheme \<Rightarrow> ('c, 'sig, 'z) dcf_world_scheme option" where
  "handle_comprehensive_epoch_transition cfg H n w =
     (let w1 = run_comprehensive_score_aggregation cfg w;
          w2 = generate_automatic_validator_proposals cfg w1;
          w3 = process_epoch_proposals cfg H w2
      in case handle_deterministic_epoch_transition cfg n w3 of
           None \<Rightarrow> None
         | Some w4 \<Rightarrow> Some (update_epoch_metrics cfg (finalize_previous_epoch cfg n w4)))"

section \<open>Regular blocks\<close>

definition engine_id :: "8 word list" where
  "engine_id = bytes_of_ascii ''cbcd''"

fun author_of_item :: "('c, 'sig) dcf_config \<Rightarrow> digest_item \<Rightarrow> account_id option" where
  "author_of_item cfg (PreRuntime e data) =
     (if e = engine_id \<and> length data \<ge> 32 then decode_account cfg (take 32 data) else None)"
| "author_of_item cfg (Seal e data) =
     (if e = engine_id \<and> length data \<ge> 32 then decode_account cfg (take 32 data) else None)"
| "author_of_item cfg (Consensus e data) = (if e = engine_id then decode_account cfg data else None)"
| "author_of_item cfg OtherDigest = None"

definition extract_block_author ::
  "('c, 'sig) dcf_config \<Rightarrow> ('c, 'sig, 'z) dcf_world_scheme \<Rightarrow> account_id option" where
  "extract_block_author cfg w =
     (case List.map_filter (author_of_item cfg) (digest_logs w) of [] \<Rightarrow> None | v # _ \<Rightarrow> Some v)"

definition process_block_authorship ::
  "('c, 'sig) dcf_config \<Rightarrow> u32 \<Rightarrow> ('c, 'sig, 'z) dcf_world_scheme
     \<Rightarrow> ('c, 'sig, 'z) dcf_world_scheme option" where
  "process_block_authorship cfg n w =
     (case get_expected_author cfg n w of
        None \<Rightarrow> None
      | Some None \<Rightarrow> Some w
      | Some (Some expected) \<Rightarrow>
          (case extract_block_author cfg w of
             Some actual \<Rightarrow>
               if actual = expected then Some (snd (record_block_authorship cfg actual w))
               else Some (dcf_deposit_event (InvalidAuthor n actual)
                      (snd (record_missed_block cfg expected w)))
           | None \<Rightarrow> Some (snd (record_missed_block cfg expected w))))"

definition snapshot_capacity :: nat where
  "snapshot_capacity = 1000"

definition snapshot_scores ::
  "('c, 'sig) dcf_config \<Rightarrow> u32 \<Rightarrow> u32 \<Rightarrow> ('c, 'sig, 'z) dcf_world_scheme
     \<Rightarrow> ('c, 'sig, 'z) dcf_world_scheme" where
  "snapshot_scores cfg n current_epoch w =
     (let next_epoch = sat_add current_epoch 1;
          snapshot_block = sat_sub (sat_mul next_epoch (blocks_per_epoch (EpochConfigStorage w))) 5
      in if n = snapshot_block \<and> \<not> sm_has (EpochScoreSnapshot w) next_epoch
         then w\<lparr>EpochScoreSnapshot := sm_put next_epoch (take snapshot_capacity
                (map (\<lambda>v. (v, max (case dcf_validator_state cfg w v of
                     None \<Rightarrow> 1 | Some st \<Rightarrow> final_score (current st)) 1))
                  (dcf_active_validators cfg w))) (EpochScoreSnapshot w)\<rparr>
         else w)"

definition every ::
  "u32 \<Rightarrow> u32 \<Rightarrow> ('w \<Rightarrow> 'w) \<Rightarrow> 'w \<Rightarrow> 'w option" where
  "every interval n f w = (if interval = 0 then None else if n mod interval = 0 then Some (f w) else Some w)"

text \<open>The health metrics at the end of the code only log.\<close>

definition handle_regular_block_processing ::
  "('c, 'sig) dcf_config \<Rightarrow> u32 \<Rightarrow> u32 \<Rightarrow> ('c, 'sig, 'z) dcf_world_scheme
     \<Rightarrow> ('c, 'sig, 'z) dcf_world_scheme option" where
  "handle_regular_block_processing cfg n current_epoch w =
     Option.bind (process_block_authorship cfg n w) (\<lambda>w1.
     Option.bind (every (ScoreDecayInterval cfg) n (apply_validator_score_decay cfg current_epoch) w1) (\<lambda>w2.
     Option.bind (every (ParticipationUpdateInterval cfg) n (update_validator_participation_rates cfg) w2) (\<lambda>w3.
     Option.bind (every (DcfUnderperformanceCheckInterval cfg) n
         (dcf_check_and_handle_underperforming_validators cfg) (snapshot_scores cfg n current_epoch w3)) (\<lambda>w4.
     every (ValidatorProposalInterval cfg) n (generate_automatic_validator_proposals cfg) w4))))"

section \<open>The block hook\<close>

definition is_epoch_boundary :: "('c, 'sig) dcf_config \<Rightarrow> u32 \<Rightarrow> bool" where
  "is_epoch_boundary cfg n \<longleftrightarrow> n > 0 \<and> n mod EpochLength cfg = 0"

definition should_transition_epoch :: "u32 \<Rightarrow> u32 \<Rightarrow> epoch_config \<Rightarrow> bool" where
  "should_transition_epoch now current_epoch config \<longleftrightarrow>
     now \<ge> sat_mul current_epoch (blocks_per_epoch config) + blocks_per_epoch config"

definition dcf_on_initialize ::
  "('c, 'sig) dcf_config \<Rightarrow> ('c, 'sig, 'z) dcf_world_scheme validator_handler \<Rightarrow> u32
     \<Rightarrow> ('c, 'sig, 'z) dcf_world_scheme \<Rightarrow> ('c, 'sig, 'z) dcf_world_scheme option" where
  "dcf_on_initialize cfg H n w =
     (let current_epoch = DcfCurrentEpoch w;
          w1 = progressive_finality cfg n current_epoch (initialize_finality n w);
          w2 = reset_block_counters w1
      in if n > 0 \<and> EpochLength cfg = 0 then None
         else if is_epoch_boundary cfg n
         then handle_comprehensive_epoch_transition cfg H n
                (dcf_deposit_event (EpochBoundaryDetected n current_epoch (GovernanceModeEnabled w2)) w2)
         else handle_regular_block_processing cfg n current_epoch w2)"

end
