(* ===== verification/Dcf_Handler.thy ===== *)
theory Dcf_Handler
  imports Trust_Score
begin

text \<open>
  The interfaces \<open>pallet-cerulea-dcf\<close> provides to the pallets below it: its implementation of
  \<open>ValidatorHandler\<close> (an alternative to the one of the registry pallet), of the \<open>DcfInterface\<close>, and the
  \<open>PosInterface\<close> that the runtime gives to \<open>pallet-cerulea-poi\<close>.
\<close>

section \<open>The validator handler\<close>

definition joined_state ::
  "('c, 'sig) dcf_config \<Rightarrow> u64 \<times> u64 \<Rightarrow> u128 \<Rightarrow> ('c, 'sig, 'z) dcf_world_scheme \<Rightarrow> account_id
     \<Rightarrow> dvf_validator_state" where
  "joined_state cfg weights stake w v =
     (let stake_sc = sat_into stake; inference_sc = get_inference_score w v
      in \<lparr>last_active_epoch = DcfCurrentEpoch w,
          current = \<lparr>es_epoch = DcfCurrentEpoch w, stake_score = stake_sc,
            inference_score = inference_sc,
            final_score = combined_score cfg stake_sc inference_sc (fst weights) (snd weights),
            authored_blocks = 0, missed_blocks = 0\<rparr>,
          vs_history = [], uptime = 0, inference_success_count = 0, participation_rate = 0,
          inference_count = 0, last_active_block = block_number w, vs_name = None,
          trust_score = 5000\<rparr>)"

definition dcf_on_joined ::
  "('c, 'sig) dcf_config \<Rightarrow> account_id \<Rightarrow> u128 \<Rightarrow> (('c, 'sig, 'z) dcf_world_scheme, unit) call" where
  "dcf_on_joined cfg v stake w =
     (let vset = dcf_validator_set cfg w;
          max_validators = unat (PosMaxValidators (pos_cfg cfg))
      in if v \<notin> set vset \<and> \<not> length vset < max_validators
         then (Inl (DcfErr DcfNotEnoughValidators), w)
         else
           (let w1 = (if v \<in> set vset then w else dcf_put_set cfg (vset @ [v]) w)
            in if sm_has (ValidatorStates w1) v then (Inr (), w1)
               else (let (weights, w2) = load_weights cfg w1
                     in (Inr (), dcf_put_state cfg v (joined_state cfg weights stake w2 v) w2))))"

definition dcf_on_leave_requested ::
  "('c, 'sig) dcf_config \<Rightarrow> account_id \<Rightarrow> (('c, 'sig, 'z) dcf_world_scheme, unit) call" where
  "dcf_on_leave_requested cfg v w =
     (let active = dcf_active_validators cfg w
      in (Inr (), if v \<in> set active then dcf_put_active cfg (remove1 v active) w else w))"

text \<open>
  Removing a name writes an empty one; removing the uptime changes nothing, since the record that
  holds it has just been removed.
\<close>

definition dcf_on_left ::
  "('c, 'sig) dcf_config \<Rightarrow> account_id \<Rightarrow> (('c, 'sig, 'z) dcf_world_scheme, unit) call" where
  "dcf_on_left cfg v w =
     (let vset = dcf_validator_set cfg w;
          w1 = (if v \<in> set vset then dcf_put_set cfg (remove1 v vset) w else w);
          w2 = snd (dcf_on_leave_requested cfg v w1);
          w3 = remove_validator_blocks_missed v (remove_validator_blocks_authored v
            (remove_validator_last_seen v (remove_validator_performance_history v
              (remove_validator_metadata v (set_validator_name v [] (remove_validator_state v w2))))))
      in (Inr (), remove_pending_action v
           (w3\<lparr>ValidatorInferenceCount := sm_del v (ValidatorInferenceCount w3)\<rparr>)))"

text \<open>
  The closure updates the final score through a nested access and is then written back over it.
\<close>

definition dcf_on_stake_changed ::
  "('c, 'sig) dcf_config \<Rightarrow> account_id \<Rightarrow> (('c, 'sig, 'z) dcf_world_scheme, unit) call" where
  "dcf_on_stake_changed cfg v w =
     (let new_stake_score = sat_into (sm_val 0 (Stake w) v)
      in case dcf_validator_state cfg w v of
           None \<Rightarrow> (Inr (), remove_validator_state v w)
         | Some st \<Rightarrow> (Inr (), dcf_put_state cfg v
             (st\<lparr>current := (current st)\<lparr>stake_score := new_stake_score\<rparr>\<rparr>)
             (snd (dcf_update_final_score cfg v w))))"

definition dcf_on_slashed ::
  "('c, 'sig) dcf_config \<Rightarrow> account_id \<Rightarrow> u128 \<Rightarrow> u64 \<Rightarrow> (('c, 'sig, 'z) dcf_world_scheme, unit) call" where
  "dcf_on_slashed cfg v amount penalty = mutate_validator cfg v (\<lambda>st w.
     (let new_score = sat_sub (final_score (current st)) penalty;
          st1 = push_history cfg (DcfCurrentEpoch w)
            (st\<lparr>current := (current st)\<lparr>final_score := new_score,
                  stake_score := sat_into (sm_val 0 (Stake w) v)\<rparr>,
                last_active_epoch := DcfCurrentEpoch w\<rparr>);
          w1 = (if new_score < ucast (MinValidatorScore (pos_cfg cfg))
                then snd (dcf_eject_validator cfg v ScoreBelowThreshold w) else w)
      in (Inr st1, w1)))"

definition dcf_on_rewarded ::
  "('c, 'sig) dcf_config \<Rightarrow> account_id \<Rightarrow> u128 \<Rightarrow> u64 \<Rightarrow> (('c, 'sig, 'z) dcf_world_scheme, unit) call" where
  "dcf_on_rewarded cfg v amount boost = mutate_validator cfg v (\<lambda>st w.
     (let new_score = min (sat_add (final_score (current st)) boost) (MaxValidatorScore (poi_cfg cfg));
          st1 = push_history cfg (DcfCurrentEpoch w)
            (st\<lparr>current := (current st)\<lparr>final_score := new_score,
                  stake_score := sat_into (sm_val 0 (Stake w) v)\<rparr>,
                last_active_epoch := DcfCurrentEpoch w\<rparr>)
      in (Inr st1, w)))"

definition dcf_get_validator_score ::
  "('c, 'sig) dcf_config \<Rightarrow> ('c, 'sig, 'z) dcf_world_scheme \<Rightarrow> account_id \<Rightarrow> u64" where
  "dcf_get_validator_score cfg w v =
     (case dcf_validator_state cfg w v of None \<Rightarrow> 0 | Some st \<Rightarrow> final_score (current st))"

definition dcf_handler ::
  "('c, 'sig) dcf_config \<Rightarrow> ('c, 'sig, 'z) dcf_world_scheme validator_handler" where
  "dcf_handler cfg = \<lparr>
     on_joined = dcf_on_joined cfg,
     on_leave_requested = dcf_on_leave_requested cfg,
     on_left = dcf_on_left cfg,
     on_stake_increased = (\<lambda>v amount. dcf_on_stake_changed cfg v),
     on_stake_decreased = (\<lambda>v amount. dcf_on_stake_changed cfg v),
     on_slashed = dcf_on_slashed cfg,
     on_rewarded = dcf_on_rewarded cfg,
     get_validator_score = dcf_get_validator_score cfg,
     get_active_validators = dcf_active_validators cfg\<rparr>"

section \<open>The interfaces of the inference pallet\<close>

text \<open>
  \<open>PosInterfaceImpl\<close> of the runtime calls the staking pallet with the root origin; the active
  validators are those of the staking pallet's handler, the registry pallet.
\<close>

definition runtime_poi_interface ::
  "('c, 'sig) dcf_config \<Rightarrow> ('c, 'sig, 'z) dcf_world_scheme poi_interface" where
  "runtime_poi_interface cfg = \<lparr>
     pi_boost_score = boost_score Root,
     pi_slash_score = slash_score Root,
     pi_active_validators = ActiveValidators,
     pi_record_inference_activity = dcf_record_inference_activity cfg,
     pi_update_final_score = dcf_update_final_score cfg\<rparr>"

end
