(* ===== verification/Dcf_Config.thy ===== *)
theory Dcf_Config
  imports Dcf_Epoch Dcf_Handler Samples
begin

text \<open>
  The constants with which \<open>cerulea-runtime\<close> configures the inference and consensus pallets, and a
  concrete state of the whole chain under them.
\<close>

section \<open>Constants of the runtime\<close>

definition runtime_poi_config :: "(account_id \<Rightarrow> u32 \<Rightarrow> u32 \<times> u32) \<Rightarrow> poi_config" where
  "runtime_poi_config hash_words = \<lparr>
     MinInferenceConfidence = 80,
     MaxInferenceAge = 10,
     ChallengeWindow = 5,
     InferenceReward = 1000,
     ChallengeReward = 500,
     InferenceBoostLow = 2,
     InferenceBoostMedium = 5,
     InferenceBoostHigh = 10,
     InferencePenaltyLow = 1,
     InferencePenaltyMedium = 3,
     InferencePenaltyHigh = 7,
     InferenceConfidenceThresholdLow = 70,
     InferenceConfidenceThresholdHigh = 90,
     MaxValidatorScore = 100,
     PercentagePrecision = 10000,
     OffchainWorkerInterval = 5,
     MaxValidatorIterationWeight = 1000000000,
     MaxLoopIterations = 1000,
     inference_hash = hash_words\<rparr>"

text \<open>The weights of the two rate-limited calls and the hash, decoder and balances stay parameters.\<close>

definition runtime_dcf_config ::
  "poi_config \<Rightarrow> 'sig dvf_config \<Rightarrow> 'c currency \<Rightarrow> (8 word list \<Rightarrow> 8 word list)
     \<Rightarrow> (8 word list \<Rightarrow> account_id option) \<Rightarrow> u64 \<Rightarrow> u64 \<Rightarrow> ('c, 'sig) dcf_config" where
  "runtime_dcf_config poi dvf C hash_bytes decode submit_ref_time vote_ref_time = \<lparr>
     pos_cfg = runtime_pos_config,
     poi_cfg = poi,
     dvf_cfg = dvf,
     currency_of = C,
     blake2_256 = hash_bytes,
     decode_account = decode,
     DefaultPosWeight = 6000,
     DefaultPoiWeight = 4000,
     ValidatorScoreDecay = 5,
     DcfMaxInactiveEpochs = 5,
     ScoreDecayInterval = 10,
     ParticipationUpdateInterval = 100,
     DcfUnderperformanceCheckInterval = 50,
     ValidatorProposalInterval = 200,
     EpochLength = 100,
     MaxEpochHistory = 24,
     FullPercentage = 100,
     ScoreImprovementPercentage = 10,
     ScoreImprovementThreshold = 1000,
     BlockAuthorshipBoost = 10,
     MisbehaviorSlashThreshold = 3,
     DcfMaxValidatorHistorySize = 10,
     DcfMaxValidatorNameSize = 32,
     MaxTrustScore = 10000,
     MinTrustScore = 1000,
     MaxProposalActionSize = 100,
     SubmitProposalWeight = submit_ref_time,
     VoteProposalWeight = vote_ref_time,
     MinPerformanceScore = 30,
     MinParticipationRate = 50,
     HighParticipationRate = 90,
     MissedBlockPenalty = 5,
     TrustScoreUptimeWeight = 4000,
     TrustScoreInferenceWeight = 4000,
     TrustScoreSlashingWeight = 2000,
     MaxTrustScoreGrowthRate = 500,
     MaxTrustScoreDecayRate = 200,
     TrustScoreStabilityFactor = 8000\<rparr>"

section \<open>A concrete state\<close>

definition sample_poi_config :: poi_config where
  "sample_poi_config = runtime_poi_config (\<lambda>v epoch. (1234, 5))"

definition sample_config :: "(account_id \<Rightarrow> u128 \<times> u128, nat) dcf_config" where
  "sample_config = runtime_dcf_config sample_poi_config sample_dvf_config book_currency
     (\<lambda>bytes. bytes) (\<lambda>bytes. case bytes of [] \<Rightarrow> None | b # _ \<Rightarrow> Some (AccountId (unat b)))
     250020000 250018000"

definition no_range :: "'n::zero parameter_range" where
  "no_range = \<lparr>range_min = 0, range_max = 0, range_current = 0\<rparr>"

definition default_governance_config :: governance_config where
  "default_governance_config = \<lparr>
     gc_epoch_length = no_range,
     gc_min_stake = no_range,
     gc_max_validators = no_range,
     gc_pos_weight = no_range,
     gc_poi_weight = no_range,
     gc_min_performance_score = no_range,
     gc_high_performance_score = no_range,
     gc_min_participation_rate = no_range,
     gc_high_participation_rate = no_range,
     gc_validator_reward = no_range,
     gc_slash_percent = no_range,
     gc_leave_cooldown = no_range,
     gc_trust_score_uptime_weight = no_range,
     gc_trust_score_inference_weight = no_range,
     gc_trust_score_slashing_weight = no_range,
     gc_trust_score_max_growth_rate = no_range,
     gc_trust_score_max_decay_rate = no_range,
     gc_trust_score_min_value = no_range,
     gc_trust_score_max_value = no_range,
     gc_trust_score_stability_factor = no_range,
     gc_block_authorship_boost = no_range,
     gc_missed_block_penalty = no_range,
     gc_inference_boost_low = no_range,
     gc_inference_boost_medium = no_range,
     gc_inference_boost_high = no_range\<rparr>"

definition empty_dcf_world :: "(account_id \<Rightarrow> u128 \<times> u128, nat) dcf_world" where
  "empty_dcf_world = \<lparr>
     balances = (\<lambda>v. (50000, 20000)),
     block_number = 0,
     Validators = [],
     ValidatorScores = [],
     PosCurrentEpoch = 0,
     SlashingCount = [],
     ValidatorSlashingHistory = [],
     Stake = [],
     EpochTotalRewarded = 0,
     EpochTotalSlashed = 0,
     ValidatorEpochRewarded = [],
     ValidatorEpochSlashed = [],
     pos_events = [],
     EpochVotingWeight = [],
     TotalVotingWeight = 0,
     CurrentRound = 0,
     FinalizedBlockNumber = 0,
     FinalizedBlockHash = None,
     VoteRecords = [],
     VoteTallies = [],
     ValidatorSetId = 0,
     PreviousValidatorSet = [],
     ValidatorSetIdChangedAt = None,
     ValidatorSet = [],
     ActiveValidators = [],
     PendingValidatorActions = [],
     ValidatorJoinTime = [],
     ValidatorLeaveRequests = [],
     RecentlyRemovedValidators = [],
     ValidatorStates = [],
     ValidatorNames = [],
     ValidatorUptime = [],
     ValidatorMetadata = [],
     ValidatorPerformanceHistory = [],
     ValidatorLastSeen = [],
     ValidatorBlocksAuthored = [],
     ValidatorBlocksMissed = [],
     dvf_events = [],
     InferenceResults = [],
     Challenges = [],
     PoiCurrentEpoch = 0,
     ValidatorInferenceCount = [],
     poi_events = [],
     offchain_scores = [],
     offchain_time = 0,
     system_block_hash = (\<lambda>n. [ucast n]),
     digest_logs = [],
     PosWeight = None,
     PoiWeight = None,
     EpochConfigStorage = \<lparr>blocks_per_epoch = 100, ec_min_stake = 1000, ec_max_validators = 100\<rparr>,
     TrustScoreConfigStorage = \<lparr>uptime_weight = 40, inference_weight = 35, slashing_weight = 25,
       tc_max_growth_rate = 500, tc_max_decay_rate = 200, tc_min_trust_score = 1000,
       tc_max_trust_score = 10000, tc_stability_factor = 8000\<rparr>,
     DcfCurrentEpoch = 0,
     LastFinalizedBlock = 0,
     PreviousFinalizedBlock = 0,
     PreviousEpochBestBlock = 0,
     ValidatorTrustScores = [],
     TrustScoreHistory = [],
     TrustScoreBounds = default_bounds,
     TrustScoreStabilityMetrics = \<lparr>sm_epoch = 0, avg_score_change = 0, max_score_change = 0,
       validators_at_min_bound = 0, validators_at_max_bound = 0, score_standard_deviation = 0,
       score_median = 5000, high_performers_count = 0, low_performers_count = 0,
       stability_index = 10000\<rparr>,
     EpochAuthorSequences = [],
     EpochScoreSnapshot = [],
     EpochHistories = [],
     randomness_salt = replicate 32 0,
     epoch_salt = replicate 16 0,
     last_processed_epoch = 0,
     GovernanceConfigStorage = default_governance_config,
     GovernanceModeEnabled = False,
     Proposals = [],
     NextProposalId = 0,
     ProposalVotes = [],
     MisbehaviorReports = [],
     RateLimitConfigStorage = default_rate_limits,
     BlockOperationCounts = [],
     AccountOperationHistory = [],
     LastOperationBlock = [],
     PrivateChainConfigStorage = None,
     dcf_events = []\<rparr>"

definition sample_dcf_world :: "(account_id \<Rightarrow> u128 \<times> u128, nat) dcf_world" where
  "sample_dcf_world = empty_dcf_world\<lparr>
     block_number := 150,
     Validators := [(alice, True), (bob, True), (charlie, True)],
     ValidatorScores := [(alice, 80), (bob, 80), (charlie, 80)],
     Stake := [(alice, 5000), (bob, 5000), (charlie, 2500)],
     EpochVotingWeight := [(alice, 12800), (bob, 12800), (charlie, 6400)],
     TotalVotingWeight := 32000,
     FinalizedBlockNumber := 120,
     ValidatorSet := [alice, bob, charlie],
     ActiveValidators := [alice, bob],
     ValidatorStates := [(alice, sample_state), (bob, sample_state), (charlie, sample_state)],
     DcfCurrentEpoch := 1\<rparr>"

lemmas config_defs = sample_config_def runtime_dcf_config_def sample_poi_config_def
  runtime_poi_config_def

lemmas dcf_sample_defs = sample_dcf_world_def empty_dcf_world_def sample_state_def config_defs
  sample_dvf_config_def runtime_dvf_config_def runtime_pos_config_def book_currency_def

end
