(* ===== verification/Score_Properties.thy ===== *)
theory Score_Properties
  imports Dcf_Config
begin

text \<open>
  The bounds on trust scores: the arithmetic of an update as natural numbers, and how far a trust
  score moves.
\<close>

section \<open>Trust scores\<close>

lemma unat_mult_small:
  fixes a b :: u64
  assumes "unat a * unat b < 2 ^ 64"
  shows "unat (a * b) = unat a * unat b"
  using assms by (simp add: unat_word_ariths)

lemma unat_ucast_u32_u64 [simp]: "unat (ucast (x :: u32) :: u64) = unat x"
  using unat_lt [of x] by (simp add: unsigned_ucast_eq take_bit_nat_eq_self_iff)

lemma rate_of:
  fixes p :: u64 and r :: u32
  assumes "unat p < 2 ^ 40" and "unat r \<le> 10000"
  shows "unat (p * ucast r div 10000) = unat p * unat r div 10000"
proof -
  have "unat p * unat r \<le> 2 ^ 40 * 10000"
    using assms by (intro mult_le_mono) simp_all
  then have "unat (p * ucast r) = unat p * unat r"
    by (simp add: unat_word_ariths)
  then show ?thesis
    by (simp add: unat_div)
qed

text \<open>The smoothed score as a natural number.\<close>

lemma smoothed:
  fixes p b :: u64 and s :: u32
  assumes "unat p < 2 ^ 40" and "unat b < 2 ^ 42" and "unat s \<le> 10000"
  shows "unat ((p * ucast s + b * ucast (10000 - s)) div 10000)
    = (unat p * unat s + unat b * (10000 - unat s)) div 10000"
proof -
  have rest: "unat (10000 - s) = 10000 - unat s"
    using assms(3) by (simp add: unat_sub word_le_nat_alt)
  have p: "unat p * unat s \<le> 2 ^ 40 * 10000" and b: "unat b * (10000 - unat s) \<le> 2 ^ 42 * 10000"
    using assms by (intro mult_le_mono; simp)+
  have "unat (p * ucast s) = unat p * unat s"
    using p by (simp add: unat_word_ariths)
  moreover have "unat (b * ucast (10000 - s)) = unat b * (10000 - unat s)"
    using b rest by (simp add: unat_word_ariths)
  ultimately have "unat (p * ucast s + b * ucast (10000 - s)) = unat p * unat s + unat b * (10000 - unat s)"
    using p b by (simp add: unat_word_ariths)
  then show ?thesis
    by (simp add: unat_div)
qed

lemma average_between:
  fixes p b s :: nat
  assumes "s \<le> 10000"
  shows "p \<le> b \<Longrightarrow> p \<le> (p * s + b * (10000 - s)) div 10000 \<and> (p * s + b * (10000 - s)) div 10000 \<le> b"
    and "b \<le> p \<Longrightarrow> b \<le> (p * s + b * (10000 - s)) div 10000 \<and> (p * s + b * (10000 - s)) div 10000 \<le> p"
proof -
  have split: "x * s + x * (10000 - s) = x * 10000" for x :: nat
    using assms by (simp add: distrib_left [symmetric])
  show "p \<le> b \<Longrightarrow> p \<le> (p * s + b * (10000 - s)) div 10000 \<and> (p * s + b * (10000 - s)) div 10000 \<le> b"
  proof
    assume "p \<le> b"
    then have "p * 10000 \<le> p * s + b * (10000 - s)" "p * s + b * (10000 - s) \<le> b * 10000"
      by (simp_all add: split [symmetric] mult_le_mono1)
    then show "p \<le> (p * s + b * (10000 - s)) div 10000" "(p * s + b * (10000 - s)) div 10000 \<le> b"
      by linarith+
  qed
  show "b \<le> p \<Longrightarrow> b \<le> (p * s + b * (10000 - s)) div 10000 \<and> (p * s + b * (10000 - s)) div 10000 \<le> p"
  proof
    assume "b \<le> p"
    then have "b * 10000 \<le> p * s + b * (10000 - s)" "p * s + b * (10000 - s) \<le> p * 10000"
      by (simp_all add: split [symmetric] mult_le_mono1)
    then show "b \<le> (p * s + b * (10000 - s)) div 10000" "(p * s + b * (10000 - s)) div 10000 \<le> p"
      by linarith+
  qed
qed

lemma small_rise_lost:
  fixes p l new s :: nat
  assumes "s \<le> 10000" and "p \<le> l" and "l \<le> new" and "(new - p) * (10000 - s) < 10000"
  shows "(p * s + l * (10000 - s)) div 10000 = p"
proof -
  have "(l - p) * (10000 - s) \<le> (new - p) * (10000 - s)"
    using assms(3) by (intro mult_le_mono1) simp
  then have small: "(l - p) * (10000 - s) < 10000"
    using assms(4) by (rule le_less_trans)
  have "l * (10000 - s) = p * (10000 - s) + (l - p) * (10000 - s)"
    using assms(2) by (metis distrib_right le_add_diff_inverse)
  moreover have "p * s + p * (10000 - s) = p * 10000"
    using assms(1) by (simp add: distrib_left [symmetric])
  ultimately have "p * s + l * (10000 - s) = (l - p) * (10000 - s) + p * 10000"
    by simp
  with small show ?thesis
    by simp
qed

definition bounds_sane :: "trust_score_bounds \<Rightarrow> bool" where
  "bounds_sane b \<longleftrightarrow> min_score b \<le> max_score b \<and> unat (max_score b) < 2 ^ 40
     \<and> max_growth_rate b \<le> 10000 \<and> max_decay_rate b \<le> 10000 \<and> stability_factor b \<le> 10000"

text \<open>The score after limiting growth and decay, and before smoothing.\<close>

definition limited_score :: "trust_score_bounds \<Rightarrow> nat \<Rightarrow> nat \<Rightarrow> nat" where
  "limited_score b new prev =
     (if new > prev then min new (prev + max (prev * unat (max_growth_rate b) div 10000) 1)
      else max new (prev - max (prev * unat (max_decay_rate b) div 10000) 1))"

lemma limited_small:
  assumes "bounds_sane b" and "prev < 2 ^ 40"
  shows "limited_score b new prev < 2 ^ 42"
proof -
  have g: "unat (max_growth_rate b) \<le> 10000"
    using assms(1) by (simp add: bounds_sane_def word_le_nat_alt)
  have "prev * unat (max_growth_rate b) div 10000 \<le> prev * 10000 div 10000"
    using g by (intro div_le_mono mult_le_mono) simp_all
  then have "prev * unat (max_growth_rate b) div 10000 \<le> prev"
    by simp
  with assms(2) show ?thesis
    by (auto simp: limited_score_def)
qed

lemma apply_bounds_nat:
  assumes sane: "bounds_sane b" and prev: "prev \<noteq> 0" "unat prev < 2 ^ 40"
  shows "unat (apply_trust_score_bounds new prev b) =
    min (max ((unat prev * unat (stability_factor b)
          + limited_score b (unat new) (unat prev) * (10000 - unat (stability_factor b))) div 10000)
        (unat (min_score b))) (unat (max_score b))"
proof -
  have rates: "unat (max_growth_rate b) \<le> 10000" "unat (max_decay_rate b) \<le> 10000"
      "unat (stability_factor b) \<le> 10000"
    using sane by (simp_all add: bounds_sane_def word_le_nat_alt)
  define bounded where "bounded =
      (if new > prev then sat_add prev (min (new - prev) (max (prev * ucast (max_growth_rate b) div 10000) 1))
       else sat_sub prev (min (prev - new) (max (prev * ucast (max_decay_rate b) div 10000) 1)))"
  have unat_min: "unat (min x y) = min (unat x) (unat y)" for x y :: u64
    by (simp add: min_def word_le_nat_alt)
  have unat_max': "unat (max x y) = max (unat x) (unat y)" for x y :: u64
    by (simp add: max_def word_le_nat_alt)
  note growth = rate_of [OF prev(2) rates(1)] and decay = rate_of [OF prev(2) rates(2)]
  have bounded: "unat bounded = limited_score b (unat new) (unat prev)"
  proof (cases "new > prev")
    case True
    then have "unat (new - prev) = unat new - unat prev" "unat prev < unat new"
      by (simp_all add: unat_sub less_imp_le word_less_nat_alt [symmetric])
    moreover have "unat new < 2 ^ 64"
      using unat_lt [of new] by simp
    ultimately show ?thesis
      using True by (simp add: bounded_def limited_score_def unat_sat_add unat_min unat_max' growth)
  next
    case False
    then have "unat (prev - new) = unat prev - unat new" "unat new \<le> unat prev"
      by (simp_all add: unat_sub word_le_nat_alt not_less)
    then have "unat bounded = unat prev - min (unat prev - unat new)
        (max (unat prev * unat (max_decay_rate b) div 10000) 1)"
      using False by (simp add: bounded_def unat_sat_sub unat_min unat_max' decay)
    moreover have "p - min (p - n) d = max n (p - d)" if "n \<le> p" for p n d :: nat
      using that by (simp add: min_def max_def) linarith
    ultimately show ?thesis
      using \<open>unat new \<le> unat prev\<close> by (simp add: limited_score_def)
  qed
  have small: "unat bounded < 2 ^ 42"
    unfolding bounded by (rule limited_small [OF sane prev(2)])
  have "apply_trust_score_bounds new prev b = min (max ((prev * ucast (stability_factor b)
      + bounded * ucast (10000 - stability_factor b)) div 10000) (min_score b)) (max_score b)"
    using prev(1) by (simp add: apply_trust_score_bounds_def bounded_def Let_def)
  then show ?thesis
    using smoothed [OF prev(2) small rates(3)] by (simp add: unat_min unat_max' bounded)
qed

lemma limited_between:
  "prev < new \<Longrightarrow> prev \<le> limited_score b new prev \<and> limited_score b new prev \<le> new
     \<and> limited_score b new prev \<le> prev + max (prev * unat (max_growth_rate b) div 10000) 1"
  "new \<le> prev \<Longrightarrow> new \<le> limited_score b new prev \<and> limited_score b new prev \<le> prev
     \<and> prev - max (prev * unat (max_decay_rate b) div 10000) 1 \<le> limited_score b new prev"
  by (auto simp: limited_score_def)

text \<open>An update from a score \<open>p\<close> within the bounds lies between \<open>p\<close> and the limited score.\<close>

lemma apply_bounds_between:
  fixes prev new :: u64
  assumes "bounds_sane b" and "prev \<noteq> 0" and "min_score b \<le> prev" and "prev \<le> max_score b"
  defines "r \<equiv> unat (apply_trust_score_bounds new prev b)"
    and "l \<equiv> limited_score b (unat new) (unat prev)"
  shows "unat (min_score b) \<le> r \<and> r \<le> unat (max_score b)"
    and "unat prev < unat new \<Longrightarrow> unat prev \<le> r \<and> r \<le> l"
    and "unat new \<le> unat prev \<Longrightarrow> l \<le> r \<and> r \<le> unat prev"
    and "unat prev < unat new \<Longrightarrow> (unat new - unat prev) * (10000 - unat (stability_factor b)) < 10000 \<Longrightarrow>
      r = unat prev"
proof -
  let ?s = "unat (stability_factor b)"
  define avg where "avg = (unat prev * ?s + l * (10000 - ?s)) div 10000"
  have small: "unat prev < 2 ^ 40" and s: "?s \<le> 10000"
    using assms(1,4) by (simp_all add: bounds_sane_def word_le_nat_alt)
  have r: "r = min (max avg (unat (min_score b))) (unat (max_score b))"
    using apply_bounds_nat [OF assms(1,2) small, of new] by (simp add: r_def avg_def l_def)
  have bounds: "unat (min_score b) \<le> unat prev" "unat prev \<le> unat (max_score b)"
    using assms(3,4) by (simp_all add: word_le_nat_alt)
  show "unat (min_score b) \<le> r \<and> r \<le> unat (max_score b)"
    using bounds by (simp add: r)
  show "unat prev \<le> r \<and> r \<le> l" if "unat prev < unat new"
    using limited_between(1) [OF that, of b, folded l_def]
      average_between(1) [OF s, of "unat prev" l, folded avg_def] bounds by (auto simp: r)
  show "l \<le> r \<and> r \<le> unat prev" if "unat new \<le> unat prev"
    using limited_between(2) [OF that, of b, folded l_def]
      average_between(2) [OF s, of l "unat prev", folded avg_def] bounds by (auto simp: r)
  show "r = unat prev" if "unat prev < unat new" "(unat new - unat prev) * (10000 - ?s) < 10000"
    using small_rise_lost [OF s _ _ that(2), of l, folded avg_def]
      limited_between(1) [OF that(1), of b, folded l_def] bounds by (simp add: r)
qed

text \<open>
  C26. A trust score always lies within its bounds, and an update moves it towards the new raw score,
  never past it and by no more than the configured rate (or one point): with sane bounds, an update
  from a positive score \<open>prev\<close> within them yields a score between \<open>prev\<close> and the raw score \<open>new\<close>
  that is within the bounds and differs from \<open>prev\<close> by at most the growth or decay rate of \<open>prev\<close>. A
  rise too small to survive the rounding of the smoothing leaves the score where it was.
\<close>
theorem trust_score_moves_within_rates:
  assumes "bounds_sane b" and "prev \<noteq> 0" and "min_score b \<le> prev" and "prev \<le> max_score b"
  shows "min_score b \<le> apply_trust_score_bounds new prev b
    \<and> apply_trust_score_bounds new prev b \<le> max_score b
    \<and> (new > prev \<longrightarrow> prev \<le> apply_trust_score_bounds new prev b
         \<and> apply_trust_score_bounds new prev b \<le> new
         \<and> unat (apply_trust_score_bounds new prev b)
             \<le> unat prev + max (unat prev * unat (max_growth_rate b) div 10000) 1)
    \<and> (new \<le> prev \<longrightarrow> new \<le> apply_trust_score_bounds new prev b
         \<and> apply_trust_score_bounds new prev b \<le> prev
         \<and> unat prev - max (unat prev * unat (max_decay_rate b) div 10000) 1
             \<le> unat (apply_trust_score_bounds new prev b))
    \<and> (new > prev \<and> (unat new - unat prev) * (10000 - unat (stability_factor b)) < 10000 \<longrightarrow>
         apply_trust_score_bounds new prev b = prev)"
proof -
  note between = apply_bounds_between [OF assms, of new]
  note up = limited_between(1) [of "unat prev" "unat new" b]
  note down = limited_between(2) [of "unat new" "unat prev" b]
  show ?thesis
    unfolding word_le_nat_alt word_less_nat_alt word_unat_eq_iff
    using between up down by (intro conjI impI) (blast intro: order_trans)+
qed

theorem trust_score_moves_within_rates_witness:
  "apply_trust_score_bounds 9000 5000 default_bounds = 5050
   \<and> apply_trust_score_bounds 9000 5000 default_bounds \<le> 9000
   \<and> apply_trust_score_bounds 5004 5000 default_bounds = 5000"
proof -
  have sane: "bounds_sane default_bounds"
    by (simp add: bounds_sane_def default_bounds_def)
  have in_range: "min_score default_bounds \<le> 5000" "5000 \<le> max_score default_bounds"
    by (simp_all add: default_bounds_def)
  note bound = trust_score_moves_within_rates [OF sane _ in_range]
  have "apply_trust_score_bounds 9000 5000 default_bounds \<le> 9000"
    using bound [of 9000] by simp
  moreover have "apply_trust_score_bounds 5004 5000 default_bounds = 5000"
    using bound [of 5004] by (simp add: default_bounds_def)
  moreover have "apply_trust_score_bounds 9000 5000 default_bounds = 5050"
    by (simp add: default_bounds_def apply_trust_score_bounds_def sat_add_def Let_def)
  ultimately show ?thesis
    by blast
qed

end
