(* ===== verification/Author_Properties.thy ===== *)
theory Author_Properties
  imports Dcf_Config
begin

text \<open>
  Properties of block production: which author the deterministic lottery of an epoch picks, that
  every node computes the same sequence, and how long a sequence binds. The integer square root used
  by the stability metrics is verified here too.
\<close>

section \<open>The integer square root\<close>

text \<open>
  C28. The bisection of \<open>integer_sqrt\<close> ends on every input of its width, without overflow, and
  returns the floor of the square root.
\<close>
theorem integer_sqrt_correct:
  "unat (integer_sqrt n) * unat (integer_sqrt n) \<le> unat n
   \<and> unat n < (unat (integer_sqrt n) + 1) * (unat (integer_sqrt n) + 1)"
proof (cases "n = 0")
  case True
  then show ?thesis
    by (simp add: integer_sqrt_def)
next
  case False
  then have "1 \<le> unat n"
    by (simp add: Suc_le_eq unat_gt_0)
  then have "unat n < (unat n + 1) * (unat n + 1)"
    by simp
  with False show ?thesis
    using sqrt_loop_correct [of 1 0 n n] by (simp add: integer_sqrt_def)
qed

section \<open>The lottery\<close>

text \<open>
  C24. The lottery is fair to the weights: when the weights sum to a positive number below \<open>2 ^ 64\<close>,
  the author is read off the first eight bytes of the randomness modulo that sum, and every account
  owns exactly as many of the possible remainders as its weight.
\<close>
theorem authors_drawn_by_weight:
  assumes "0 < weight_sum weights" and "weight_sum weights < 2 ^ 64"
  shows "select_weighted_author weights rnd =
      pick_author (of_nat (unat (bytes_to_u64 rnd) mod weight_sum weights)) 0 weights
    \<and> card {t. t < weight_sum weights \<and> pick_author (of_nat t) 0 weights = Some v}
        = weight_of v weights
    \<and> (\<exists>u x. select_weighted_author weights rnd = Some u \<and> (u, x) \<in> set weights \<and> 0 < x)"
proof (intro conjI)
  show pick: "select_weighted_author weights rnd =
      pick_author (of_nat (unat (bytes_to_u64 rnd) mod weight_sum weights)) 0 weights"
    by (rule select_weighted_author_pick [OF assms])
  show "card {t. t < weight_sum weights \<and> pick_author (of_nat t) 0 weights = Some v}
      = weight_of v weights"
    using card_pick_author [of 0 weights v] assms(2) by simp
  show "\<exists>u x. select_weighted_author weights rnd = Some u \<and> (u, x) \<in> set weights \<and> 0 < x"
    unfolding pick
    using pick_author_ex [of 0 weights "unat (bytes_to_u64 rnd) mod weight_sum weights"] assms by simp
qed

theorem authors_drawn_by_weight_witness:
  "card {t. t < (90::nat) \<and> pick_author (of_nat t) 0 [(alice, 60), (bob, 30)] = Some bob} = 30"
proof -
  have sum: "weight_sum [(alice, 60), (bob, 30)] = 90"
    by simp
  show ?thesis
    using authors_drawn_by_weight [of "[(alice, 60), (bob, 30)]" "[]" bob]
    by (simp add: sum weight_of_def alice_def bob_def)
qed

section \<open>The sequence of an epoch\<close>

text \<open>
  C25. Every node computes the same author sequence: it depends only on the epoch length and the
  score snapshot of the epoch, on the seed and on the active validators, whose order does not
  matter. For a non-empty active set it exists, has one slot per block of the epoch up to 1000, and
  names active validators only.
\<close>
theorem author_sequence_deterministic:
  fixes w w' :: "('c, 'sig, 'z) dcf_world_scheme"
  assumes "mset vs = mset vs'" and "vs \<noteq> []"
    and "blocks_per_epoch (EpochConfigStorage w) = blocks_per_epoch (EpochConfigStorage w')"
    and "sm_get (EpochScoreSnapshot w) epoch = sm_get (EpochScoreSnapshot w') epoch"
  shows "\<exists>authors. generate_deterministic_author_sequence cfg epoch vs seed w = Some authors
    \<and> generate_deterministic_author_sequence cfg epoch vs' seed w' = Some authors
    \<and> length authors = min (unat (blocks_per_epoch (EpochConfigStorage w))) 1000
    \<and> set authors \<subseteq> set vs"
proof -
  let ?snap = "sm_get (EpochScoreSnapshot w) epoch"
  let ?n = "unat (min (blocks_per_epoch (EpochConfigStorage w)) 1000)"
  let ?weights = "author_weights ?snap vs"
  have n: "?n = min (unat (blocks_per_epoch (EpochConfigStorage w))) 1000"
    by (simp add: min_def word_le_nat_alt)
  have members: "fst ` set ?weights = set vs"
    by (simp add: author_weights_sorted image_image)
  with assms(2) have "?weights \<noteq> []"
    by auto
  then obtain authors where authors: "author_loop cfg ?weights ?n 0 seed = Some authors"
      "length authors = ?n" "set authors \<subseteq> set vs"
    using author_loop_members members by metis
  moreover have "author_weights (sm_get (EpochScoreSnapshot w') epoch) vs' = ?weights"
    using author_weights_perm [OF assms(1)] assms(4) by simp
  moreover have "vs' \<noteq> []"
    using assms(1,2) by auto
  ultimately show ?thesis
    using assms(2,3) n by (simp add: generate_deterministic_author_sequence_def Let_def)
qed

theorem author_sequence_deterministic_witness:
  "\<exists>authors. generate_deterministic_author_sequence sample_config 2 [bob, alice] [7] sample_dcf_world
      = Some authors
    \<and> generate_deterministic_author_sequence sample_config 2 [alice, bob] [7]
        (sample_dcf_world\<lparr>ActiveValidators := []\<rparr>) = Some authors
    \<and> length authors = 100 \<and> set authors \<subseteq> {alice, bob}"
  using author_sequence_deterministic [of "[bob, alice]" "[alice, bob]" sample_dcf_world
      "sample_dcf_world\<lparr>ActiveValidators := []\<rparr>" 2 sample_config "[7]"]
  by (simp add: dcf_sample_defs insert_commute)

text \<open>A stored sequence binds for its epoch: ejecting an author does not change who is expected.\<close>

lemma ejected_author_still_expected:
  assumes "sm_get (EpochAuthorSequences w) (n div blocks_per_epoch (EpochConfigStorage w)) = Some authors"
    and "blocks_per_epoch (EpochConfigStorage w) \<noteq> 0"
    and "unat (n mod blocks_per_epoch (EpochConfigStorage w)) < length authors"
    and "authors ! unat (n mod blocks_per_epoch (EpochConfigStorage w)) = v"
    and "distinct (ActiveValidators w)"
    and "dcf_active_validators cfg (snd (dcf_eject_validator cfg v reason w)) \<noteq> []"
  shows "get_expected_author cfg n (snd (dcf_eject_validator cfg v reason w)) = Some (Some v)
    \<and> \<not> is_validator_active cfg (snd (dcf_eject_validator cfg v reason w)) v"
proof
  let ?w = "snd (dcf_eject_validator cfg v reason w)"
  have "EpochAuthorSequences ?w = EpochAuthorSequences w" "EpochConfigStorage ?w = EpochConfigStorage w"
    by (simp_all add: dcf_eject_validator_def Let_def dcf_deposit_event_def dcf_put_active_def
        update_active_validators_def)
  with assms(1-4,6) show "get_expected_author cfg n ?w = Some (Some v)"
    by (simp add: get_expected_author_def Let_def)
  show "\<not> is_validator_active cfg ?w v"
    using assms(5)
    by (auto simp: is_validator_active_def dcf_active_validators_def dcf_eject_validator_def Let_def
        dcf_deposit_event_def dcf_put_active_def update_active_validators_def bv_truncate_def
        set_remove1_eq dest: in_set_takeD)
qed

end
