(* ===== verification/Rate_Properties.thy ===== *)
theory Rate_Properties
  imports Dcf_Config
begin

text \<open>
  The rate limits hold for every run of the chain, and the two calls that use them keep the log
  that the bounds are about.
\<close>

section \<open>Bounds along a run\<close>

text \<open>
  C23. Rate limits hold for every run under a configuration that passed validation: in the log of
  accepted operations, no block holds more operations of a type than the limit per block; no window
  of the configured length, wherever it starts, holds more operations of one account and type than
  the limit per account; and two successive operations of an account are at least the minimum
  interval apart.
\<close>
theorem rate_limits_hold:
  assumes "rate_run c w log" and "validate_rate_limit_config c = Inr ()"
  shows "ops_in_block oper n log \<le> unat (get_per_block_limit oper c)
    \<and> ops_in_span s (unat (snd (get_per_account_limit oper c))) (op_blocks a oper log)
        \<le> unat (fst (get_per_account_limit oper c))
    \<and> successively (\<lambda>x y. unat x + unat (get_minimum_interval oper c) \<le> unat y)
        (op_blocks a oper log)"
proof -
  have "rate_books c w log"
    by (rule rate_books_run [OF assms])
  then have "ops_in_block oper n log \<le> unat (get_per_block_limit oper c)"
    and "account_books c oper (block_number w) (sm_val [] (AccountOperationHistory w) (a, oper))
          (sm_get (LastOperationBlock w) (a, oper)) (op_blocks a oper log)"
    unfolding rate_books_def by blast+
  then show ?thesis
    unfolding account_books_def by blast
qed

section \<open>The limited calls\<close>

lemma same_rates_simps [simp]:
  "same_rates w (w\<lparr>Proposals := x\<rparr>)" "same_rates w (w\<lparr>NextProposalId := y\<rparr>)"
  "same_rates w (w\<lparr>ProposalVotes := z\<rparr>)" "same_rates w (dcf_deposit_event e w)"
  by (simp_all add: same_rates_def dcf_deposit_event_def)

lemma same_rates_trans: "same_rates w w' \<Longrightarrow> same_rates w' w'' \<Longrightarrow> same_rates w w''"
  by (simp add: same_rates_def)

lemma record_operation_frame:
  "record_operation a oper w = w\<lparr>
     BlockOperationCounts := BlockOperationCounts (record_operation a oper w),
     AccountOperationHistory := AccountOperationHistory (record_operation a oper w),
     LastOperationBlock := LastOperationBlock (record_operation a oper w)\<rparr>"
  by (simp add: record_operation_def Let_def)

text \<open>Recording after a change elsewhere is recording first and changing elsewhere after it.\<close>

lemma record_operation_same:
  assumes "same_rates w w'"
  shows "same_rates (record_operation a oper w) (record_operation a oper w')"
  using assms by (simp add: same_rates_def record_operation_def Let_def)

lemma rate_run_accept:
  assumes "rate_run c w log" and "check_rate_limits a oper weight w = Inr ()" and "same_rates w w'"
  shows "rate_run c (record_operation a oper w') (log @ [(a, oper, block_number w)])"
  using assms by (blast intro: rate_run.accept rate_run.elsewhere record_operation_same)

lemma decide_proposal_rates: "same_rates w (snd (decide_proposal i q prop w))"
  by (simp add: decide_proposal_def same_rates_def dcf_deposit_event_def)

lemma note_violation_rates: "same_rates w (note_violation code who violation w)"
  by (simp add: note_violation_def same_rates_def dcf_deposit_event_def split: option.split)

lemma file_proposal_rates: "same_rates w (file_proposal who act w)"
  by (simp add: file_proposal_def same_rates_def dcf_deposit_event_def Let_def)

lemma submit_proposal_cases:
  assumes "submit_proposal cfg orig act w = (r, w')"
  shows "(\<exists>e. r = Inl e \<and> same_rates w w')
    \<or> (\<exists>who w1. orig = Signed who \<and> r = Inr () \<and> same_rates w w1
        \<and> check_rate_limits who SubmitProposal (SubmitProposalWeight cfg) w = Inr ()
        \<and> w' = record_operation who SubmitProposal w1)"
proof (cases "ensure_signed orig")
  case (Inl e)
  with assms show ?thesis
    by (auto simp: submit_proposal_def same_rates_def)
next
  case (Inr who)
  then have orig: "orig = Signed who"
    by (cases orig) simp_all
  show ?thesis
  proof (cases "check_rate_limits who SubmitProposal (SubmitProposalWeight cfg) w")
    case (Inl e)
    with Inr assms show ?thesis
      using note_violation_rates [of w 0 who] by (cases e) (auto simp: submit_proposal_def)
  next
    case (Inr u)
    show ?thesis
    proof (cases "private_mode_check who act w")
      case (Inl e)
      with Inr \<open>ensure_signed orig = Inr who\<close> assms have "r = Inl e" "w' = w"
        by (simp_all add: submit_proposal_def)
      then show ?thesis
        by (simp add: same_rates_def)
    next
      case (Inr u')
      let ?w1 = "dcf_deposit_event (ProposalCreated (NextProposalId w) who act) (file_proposal who act w)"
      have "same_rates w ?w1"
        using file_proposal_rates same_rates_simps(4) same_rates_trans by blast
      with Inr \<open>check_rate_limits who SubmitProposal (SubmitProposalWeight cfg) w = Inr u\<close>
        \<open>ensure_signed orig = Inr who\<close> orig assms show ?thesis
        by (auto simp: submit_proposal_def Let_def)
    qed
  qed
qed

lemma vote_proposal_cases:
  assumes "vote_proposal cfg orig i approve w = (r, w')"
  shows "(\<exists>e. r = Inl e \<and> same_rates w w')
    \<or> (\<exists>who w1. orig = Signed who \<and> r = Inr () \<and> same_rates w w1
        \<and> check_rate_limits who VoteProposal (VoteProposalWeight cfg) w = Inr ()
        \<and> w' = record_operation who VoteProposal w1)"
proof (cases "ensure_signed orig")
  case (Inl e)
  with assms show ?thesis
    by (auto simp: vote_proposal_def same_rates_def)
next
  case (Inr who)
  then have orig: "orig = Signed who"
    by (cases orig) simp_all
  show ?thesis
  proof (cases "check_rate_limits who VoteProposal (VoteProposalWeight cfg) w")
    case (Inl e)
    with Inr assms show ?thesis
      using note_violation_rates [of w 2 who] by (cases e) (auto simp: vote_proposal_def)
  next
    case ok: (Inr u)
    show ?thesis
    proof (cases "\<exists>prop. sm_get (Proposals w) i = Some prop \<and> status prop = Pending
        \<and> \<not> sm_has (ProposalVotes w) (i, who)")
      case False
      with Inr ok assms show ?thesis
        by (auto simp: vote_proposal_def same_rates_def split: option.splits if_splits)
    next
      case True
      then obtain gp where gp: "sm_get (Proposals w) i = Some gp" "status gp = Pending"
          "\<not> sm_has (ProposalVotes w) (i, who)"
        by blast
      let ?w1 = "dcf_deposit_event (ProposalVoted i who approve)
          (w\<lparr>ProposalVotes := sm_put (i, who) approve (ProposalVotes w)\<rparr>)"
      let ?d = "decide_proposal i (proposal_quorum (dcf_active_validators cfg ?w1))
          (count_vote approve gp) ?w1"
      let ?w2 = "(snd ?d)\<lparr>Proposals := sm_put i (fst ?d) (Proposals (snd ?d))\<rparr>"
      have "same_rates w ?w2"
        using decide_proposal_rates [of ?w1] by (simp add: same_rates_def dcf_deposit_event_def)
      moreover have "r = Inr () \<and> w' = record_operation who VoteProposal ?w2"
        using assms Inr ok gp by (auto simp: vote_proposal_def Let_def split_def)
      ultimately show ?thesis
        using orig ok by (intro disjI2 exI [of _ who] exI [of _ ?w2]) simp
    qed
  qed
qed

text \<open>The two calls keep the log: an accepted call is logged, a refused one changes no counter.\<close>

lemma submit_proposal_logged:
  assumes "rate_run c w log" and "submit_proposal cfg orig act w = (r, w')"
  shows "case r of Inl e \<Rightarrow> rate_run c w' log
    | Inr u \<Rightarrow> \<exists>who. orig = Signed who \<and> rate_run c w' (log @ [(who, SubmitProposal, block_number w)])"
  using submit_proposal_cases [OF assms(2)] assms(1)
  by (auto intro: rate_run.elsewhere rate_run_accept)

lemma vote_proposal_logged:
  assumes "rate_run c w log" and "vote_proposal cfg orig i approve w = (r, w')"
  shows "case r of Inl e \<Rightarrow> rate_run c w' log
    | Inr u \<Rightarrow> \<exists>who. orig = Signed who \<and> rate_run c w' (log @ [(who, VoteProposal, block_number w)])"
  using vote_proposal_cases [OF assms(2)] assms(1)
  by (auto intro: rate_run.elsewhere rate_run_accept)

text \<open>Alice files a proposal in the first block of the sample state.\<close>

lemma sample_rate_run:
  "rate_run default_rate_limits
     (snd (submit_proposal sample_config (Signed alice) (RemoveValidator bob) sample_dcf_world))
     [(alice, SubmitProposal, 150)]"
proof -
  have "rate_run default_rate_limits sample_dcf_world []"
    by (rule rate_run.start) (simp_all add: dcf_sample_defs)
  moreover have "submit_proposal sample_config (Signed alice) (RemoveValidator bob) sample_dcf_world
      = (Inr (), snd (submit_proposal sample_config (Signed alice) (RemoveValidator bob) sample_dcf_world))"
    by (simp add: submit_proposal_def check_rate_limits_def check_per_block_limits_def
        check_per_account_limits_def check_minimum_intervals_def check_weight_bounds_def
        operations_in_window_def private_mode_check_def is_private_chain_mode_def
        default_rate_limits_def sm_val_def dcf_sample_defs)
  ultimately show ?thesis
    using submit_proposal_logged [of default_rate_limits sample_dcf_world "[]"]
    by (fastforce simp: dcf_sample_defs)
qed

theorem rate_limits_hold_witness:
  "rate_run default_rate_limits
     (snd (submit_proposal sample_config (Signed alice) (RemoveValidator bob) sample_dcf_world))
     [(alice, SubmitProposal, 150)]
   \<and> ops_in_block SubmitProposal 150 [(alice, SubmitProposal, 150)] \<le> 5"
proof -
  have "validate_rate_limit_config default_rate_limits = Inr ()"
    by (simp add: validate_rate_limit_config_def default_rate_limits_def)
  from rate_limits_hold [OF sample_rate_run this, of SubmitProposal 150] sample_rate_run
  show ?thesis
    by (simp add: default_rate_limits_def ops_in_block_def)
qed

end
