(* ===== verification/Ballot_Box.thy ===== *)
theory Ballot_Box
  imports Dcf_Config
begin

text \<open>
  Votes on governance proposals as an abstract ballot box: a ballot holds the sets of the accounts
  that voted for and against it and its outcome. The interface is a locale; the calls
  \<open>submit_proposal\<close> and \<open>vote_proposal\<close> implement it with two 32-bit counters and a map of votes.
\<close>

section \<open>The abstract ballot box\<close>

record ballot =
  yes :: "account_id set"
  no :: "account_id set"
  outcome :: proposal_status

definition empty_ballot :: ballot where
  "empty_ballot = \<lparr>yes = {}, no = {}, outcome = Pending\<rparr>"

definition add_vote :: "account_id \<Rightarrow> bool \<Rightarrow> ballot \<Rightarrow> ballot" where
  "add_vote who approve b =
     (if approve then b\<lparr>yes := insert who (yes b)\<rparr> else b\<lparr>no := insert who (no b)\<rparr>)"

definition close_ballot :: "nat \<Rightarrow> ballot \<Rightarrow> ballot" where
  "close_ballot quorum b =
     (if quorum \<le> card (yes b) + card (no b)
      then b\<lparr>outcome := (if card (no b) < card (yes b) then Approved else Rejected)\<rparr> else b)"

definition cast_vote :: "nat \<Rightarrow> account_id \<Rightarrow> bool \<Rightarrow> ballot \<Rightarrow> ballot option" where
  "cast_vote quorum who approve b =
     (if outcome b \<noteq> Pending \<or> who \<in> yes b \<union> no b then None
      else Some (close_ballot quorum (add_vote who approve b)))"

text \<open>
  \<open>box\<close> reads the ballots of a state, \<open>vote\<close> is one accepted vote. A poll is a sequence of them.
\<close>

locale ballot_box =
  fixes inv :: "'s \<Rightarrow> bool"
    and box :: "'s \<Rightarrow> 'i \<Rightarrow> ballot option"
    and quorum :: "'s \<Rightarrow> nat"
    and vote :: "account_id \<Rightarrow> 'i \<Rightarrow> bool \<Rightarrow> 's \<Rightarrow> 's option"
  assumes vote_inv: "inv s \<Longrightarrow> vote who i approve s = Some s' \<Longrightarrow> inv s'"
    and vote_casts: "inv s \<Longrightarrow> vote who i approve s = Some s' \<Longrightarrow>
      \<exists>b b'. box s i = Some b \<and> cast_vote (quorum s) who approve b = Some b'
        \<and> box s' = (box s)(i \<mapsto> b')"
begin

inductive poll :: "'s \<Rightarrow> (account_id \<times> 'i \<times> bool) list \<Rightarrow> 's \<Rightarrow> bool" where
  none: "poll s [] s"
| more: "poll s vs s' \<Longrightarrow> vote who i approve s' = Some s'' \<Longrightarrow> poll s (vs @ [(who, i, approve)]) s''"

lemma poll_inv: "poll s vs s' \<Longrightarrow> inv s \<Longrightarrow> inv s'"
  by (induction rule: poll.induct) (auto intro: vote_inv)

text \<open>What a poll makes of an empty ballot.\<close>

lemma poll_result:
  assumes "poll s vs s'" and "inv s" and "box s i = Some empty_ballot"
  shows "\<exists>b. box s' i = Some b
    \<and> yes b = {who. (who, i, True) \<in> set vs} \<and> no b = {who. (who, i, False) \<in> set vs}
    \<and> yes b \<inter> no b = {} \<and> outcome b \<noteq> Executed
    \<and> (outcome b = Approved \<longrightarrow> card (no b) < card (yes b))
    \<and> (outcome b = Rejected \<longrightarrow> card (yes b) \<le> card (no b))
    \<and> distinct (map fst (filter (\<lambda>v. fst (snd v) = i) vs))"
  using assms
proof (induction rule: poll.induct)
  case (none s)
  then show ?case
    by (simp add: empty_ballot_def)
next
  case (more s vs s' who j approve s'')
  then obtain b where b: "box s' i = Some b" "yes b = {who. (who, i, True) \<in> set vs}"
      "no b = {who. (who, i, False) \<in> set vs}" "yes b \<inter> no b = {}" "outcome b \<noteq> Executed"
      "outcome b = Approved \<longrightarrow> card (no b) < card (yes b)"
      "outcome b = Rejected \<longrightarrow> card (yes b) \<le> card (no b)"
      "distinct (map fst (filter (\<lambda>v. fst (snd v) = i) vs))"
    by blast
  have "inv s'"
    using more.hyps(1) more.prems(1) by (rule poll_inv)
  from vote_casts [OF this more.hyps(2)] obtain b1 b2 where cast: "box s' j = Some b1"
      "cast_vote (quorum s') who approve b1 = Some b2" "box s'' = (box s')(j \<mapsto> b2)"
    by blast
  show ?case
  proof (cases "j = i")
    case False
    with b cast show ?thesis
      by auto
  next
    case True
    with b(1) cast have b1: "b1 = b" and open_ballot: "outcome b = Pending" "who \<notin> yes b \<union> no b"
        and b2: "b2 = close_ballot (quorum s') (add_vote who approve b)"
      by (auto simp: cast_vote_def split: if_splits)
    have fresh: "who \<notin> fst ` set (filter (\<lambda>v. fst (snd v) = i) vs)"
    proof
      assume "who \<in> fst ` set (filter (\<lambda>v. fst (snd v) = i) vs)"
      then obtain a where "(who, i, a) \<in> set vs"
        by auto
      with open_ballot(2) b(2,3) show False
        by (cases a) auto
    qed
    have sets: "yes b2 = {v. (v, i, True) \<in> set (vs @ [(who, j, approve)])}"
        "no b2 = {v. (v, i, False) \<in> set (vs @ [(who, j, approve)])}"
      using b(2,3) True by (auto simp: b2 close_ballot_def add_vote_def)
    moreover have "yes b2 \<inter> no b2 = {}"
      using b(4) open_ballot(2) by (auto simp: b2 close_ballot_def add_vote_def)
    moreover have "outcome b2 \<noteq> Executed" "outcome b2 = Approved \<longrightarrow> card (no b2) < card (yes b2)"
        "outcome b2 = Rejected \<longrightarrow> card (yes b2) \<le> card (no b2)"
      using open_ballot(1) by (auto simp: b2 close_ballot_def add_vote_def split: if_splits)
    moreover have "distinct (map fst (filter (\<lambda>v. fst (snd v) = i) (vs @ [(who, j, approve)])))"
      using b(8) fresh True by simp
    ultimately show ?thesis
      using cast(3) True by (intro exI [of _ b2]) simp
  qed
qed

end

section \<open>The calls of the pallet as a ballot box\<close>

definition voters_on :: "u32 \<Rightarrow> bool \<Rightarrow> ('c, 'sig, 'z) dcf_world_scheme \<Rightarrow> account_id set" where
  "voters_on i approve w = {who. sm_get (ProposalVotes w) (i, who) = Some approve}"

definition ballot_of :: "('c, 'sig, 'z) dcf_world_scheme \<Rightarrow> u32 \<Rightarrow> ballot option" where
  "ballot_of w i = map_option (\<lambda>p. \<lparr>yes = voters_on i True w, no = voters_on i False w,
     outcome = status p\<rparr>) (sm_get (Proposals w) i)"

text \<open>
  The counters of a proposal count its voters, and an open proposal has fewer than \<open>2 ^ 31\<close> votes
  since the quorum, half of a 32-bit number, closes it.
\<close>

definition ballots_ok :: "('c, 'sig, 'z) dcf_world_scheme \<Rightarrow> bool" where
  "ballots_ok w \<longleftrightarrow> (\<forall>i p. sm_get (Proposals w) i = Some p \<longrightarrow>
     unat (votes_for p) = card (voters_on i True w)
     \<and> unat (votes_against p) = card (voters_on i False w)
     \<and> (status p = Pending \<longrightarrow>
          card (voters_on i True w) + card (voters_on i False w) < 2 ^ 31))"

definition ballot_quorum :: "('c, 'sig) dcf_config \<Rightarrow> ('c, 'sig, 'z) dcf_world_scheme \<Rightarrow> nat" where
  "ballot_quorum cfg w = unat (proposal_quorum (dcf_active_validators cfg w))"

definition accepted_vote ::
  "('c, 'sig) dcf_config \<Rightarrow> account_id \<Rightarrow> u32 \<Rightarrow> bool \<Rightarrow> ('c, 'sig, 'z) dcf_world_scheme
     \<Rightarrow> ('c, 'sig, 'z) dcf_world_scheme option" where
  "accepted_vote cfg who i approve w =
     (case vote_proposal cfg (Signed who) i approve w of (Inl e, w') \<Rightarrow> None | (Inr u, w') \<Rightarrow> Some w')"

lemma finite_voters_on [simp]: "finite (voters_on i a w)"
proof (rule finite_subset)
  show "voters_on i a w \<subseteq> (snd \<circ> fst) ` set (ProposalVotes w)"
    by (force simp: voters_on_def sm_get_def dest: map_of_SomeD)
qed simp

lemma quorum_small: "ballot_quorum cfg w \<le> 2 ^ 31"
proof -
  have "unat (x div 2) \<le> 2 ^ 31" for x :: u32
    using unat_lt [of x] by (simp add: unat_div)
  then show ?thesis
    by (simp add: ballot_quorum_def proposal_quorum_def)
qed

text \<open>One accepted vote, written out.\<close>

lemma accepted_voteD:
  assumes "accepted_vote cfg who i approve w = Some w'"
  shows "\<exists>p p'. sm_get (Proposals w) i = Some p \<and> status p = Pending
    \<and> sm_get (ProposalVotes w) (i, who) = None
    \<and> p' = count_vote approve p
    \<and> sm_get (Proposals w') = (sm_get (Proposals w))(i \<mapsto>
        (if unat (votes_for p' + votes_against p') \<ge> ballot_quorum cfg w
         then p'\<lparr>status := (if votes_for p' > votes_against p' then Approved else Rejected)\<rparr> else p'))
    \<and> ProposalVotes w' = sm_put (i, who) approve (ProposalVotes w)
    \<and> ActiveValidators w' = ActiveValidators w"
proof -
  from assms obtain u where call: "vote_proposal cfg (Signed who) i approve w = (Inr u, w')"
    by (auto simp: accepted_vote_def split: prod.splits sum.splits)
  then obtain u' where check: "check_rate_limits who VoteProposal (VoteProposalWeight cfg) w = Inr u'"
    by (auto simp: vote_proposal_def split: sum.splits)
  with call obtain p where p: "sm_get (Proposals w) i = Some p" "status p = Pending"
      "sm_get (ProposalVotes w) (i, who) = None"
    by (cases "sm_get (Proposals w) i") (auto simp: vote_proposal_def sm_has_def split: if_splits)
  let ?w1 = "dcf_deposit_event (ProposalVoted i who approve)
      (w\<lparr>ProposalVotes := sm_put (i, who) approve (ProposalVotes w)\<rparr>)"
  let ?q = "proposal_quorum (dcf_active_validators cfg ?w1)"
  let ?p = "count_vote approve p"
  let ?d = "decide_proposal i ?q ?p ?w1"
  have w': "w' = record_operation who VoteProposal
      ((snd ?d)\<lparr>Proposals := sm_put i (fst ?d) (Proposals (snd ?d))\<rparr>)"
    using call check p by (simp add: vote_proposal_def sm_has_def Let_def split_def)
  have "unat ?q = ballot_quorum cfg w"
    by (simp add: ballot_quorum_def dcf_active_validators_def dcf_deposit_event_def)
  then have "fst ?d = (if unat (votes_for ?p + votes_against ?p) \<ge> ballot_quorum cfg w
      then ?p\<lparr>status := (if votes_for ?p > votes_against ?p then Approved else Rejected)\<rparr> else ?p)"
    by (simp add: decide_proposal_def word_le_nat_alt)
  moreover have "Proposals (snd ?d) = Proposals w" "ProposalVotes (snd ?d) = ProposalVotes ?w1"
      "ActiveValidators (snd ?d) = ActiveValidators w"
    by (simp_all add: decide_proposal_def dcf_deposit_event_def)
  ultimately show ?thesis
    using p by (intro exI [of _ p] exI [of _ ?p])
      (simp add: w' record_operation_def Let_def dcf_deposit_event_def fun_eq_iff)
qed

lemma voters_on_vote:
  assumes "ProposalVotes w' = sm_put (i, who) approve (ProposalVotes w)"
    and "sm_get (ProposalVotes w) (i, who) = None"
  shows "voters_on j a w' = (if j = i \<and> a = approve then insert who (voters_on j a w) else voters_on j a w)"
    and "who \<notin> voters_on i a w"
  using assms by (auto simp: voters_on_def)

lemma count_vote_fresh:
  fixes w w' :: "('c, 'sig, 'z) dcf_world_scheme"
  assumes "ballots_ok w" and "sm_get (Proposals w) i = Some p" and "status p = Pending"
    and "ProposalVotes w' = sm_put (i, who) approve (ProposalVotes w)"
    and "sm_get (ProposalVotes w) (i, who) = None"
  shows "unat (votes_for (count_vote approve p)) = card (voters_on i True w')"
    and "unat (votes_against (count_vote approve p)) = card (voters_on i False w')"
    and "unat (votes_for (count_vote approve p) + votes_against (count_vote approve p))
      = card (voters_on i True w') + card (voters_on i False w')"
    and "card (voters_on i True w') + card (voters_on i False w') \<le> 2 ^ 31"
proof -
  have counts: "unat (votes_for p) = card (voters_on i True w)"
      "unat (votes_against p) = card (voters_on i False w)"
      "card (voters_on i True w) + card (voters_on i False w) < 2 ^ 31"
    using assms(1-3) unfolding ballots_ok_def by blast+
  note voters = voters_on_vote [OF assms(4,5)]
  have incr: "unat (x + 1) = unat x + 1" if "unat x < 2 ^ 31" for x :: u32
    using that by (simp add: unat_word_ariths)
  have plus: "unat (x + y) = unat x + unat y" if "unat x + unat y \<le> 2 ^ 31" for x y :: u32
    using that by (simp add: unat_word_ariths)
  show for_eq: "unat (votes_for (count_vote approve p)) = card (voters_on i True w')"
    and against_eq: "unat (votes_against (count_vote approve p)) = card (voters_on i False w')"
    using counts by (cases approve; simp add: count_vote_def voters incr)+
  show small: "card (voters_on i True w') + card (voters_on i False w') \<le> 2 ^ 31"
    using counts(3) by (cases approve) (simp_all add: voters)
  show "unat (votes_for (count_vote approve p) + votes_against (count_vote approve p))
      = card (voters_on i True w') + card (voters_on i False w')"
    using small for_eq against_eq by (simp add: plus)
qed

lemma vote_refines:
  fixes w w' :: "('c, 'sig, 'z) dcf_world_scheme"
  assumes ok: "ballots_ok w" and vote: "accepted_vote cfg who i approve w = Some w'"
  shows "\<exists>b b'. ballot_of w i = Some b \<and> cast_vote (ballot_quorum cfg w) who approve b = Some b'
      \<and> ballot_of w' = (ballot_of w)(i \<mapsto> b')"
    and "ballots_ok w'"
proof -
  from accepted_voteD [OF vote] obtain p where
      p: "sm_get (Proposals w) i = Some p" "status p = Pending"
        "sm_get (ProposalVotes w) (i, who) = None"
    and votes: "ProposalVotes w' = sm_put (i, who) approve (ProposalVotes w)"
    and stored: "sm_get (Proposals w') = (sm_get (Proposals w))(i \<mapsto>
        (if unat (votes_for (count_vote approve p) + votes_against (count_vote approve p))
             \<ge> ballot_quorum cfg w
         then (count_vote approve p)\<lparr>status := (if votes_for (count_vote approve p)
             > votes_against (count_vote approve p) then Approved else Rejected)\<rparr>
         else count_vote approve p))"
    by blast
  note counts = count_vote_fresh [OF ok p(1,2) votes p(3)]
  note voters = voters_on_vote [OF votes p(3)]
  have pending: "status (count_vote approve p) = Pending"
    using p(2) by (simp add: count_vote_def)
  let ?b = "\<lparr>yes = voters_on i True w, no = voters_on i False w, outcome = Pending\<rparr>"
  let ?b' = "close_ballot (ballot_quorum cfg w) (add_vote who approve ?b)"
  have b: "ballot_of w i = Some ?b"
    using p by (simp add: ballot_of_def)
  have added: "add_vote who approve ?b = \<lparr>yes = voters_on i True w', no = voters_on i False w',
      outcome = Pending\<rparr>"
    by (simp add: add_vote_def voters)
  have "ballot_of w' j = ((ballot_of w)(i \<mapsto> ?b')) j" for j
  proof (cases "j = i")
    case False
    then show ?thesis
      by (simp add: ballot_of_def stored voters)
  next
    case True
    have "votes_against (count_vote approve p) < votes_for (count_vote approve p)
        \<longleftrightarrow> card (voters_on i False w') < card (voters_on i True w')"
      by (simp add: word_less_nat_alt counts(1,2))
    with True show ?thesis
      by (simp add: ballot_of_def stored added close_ballot_def counts(3) pending)
  qed
  then have "ballot_of w' = (ballot_of w)(i \<mapsto> ?b')"
    by (rule ext)
  moreover have "cast_vote (ballot_quorum cfg w) who approve ?b = Some ?b'"
    using voters(2) by (simp add: cast_vote_def)
  ultimately show "\<exists>b b'. ballot_of w i = Some b
      \<and> cast_vote (ballot_quorum cfg w) who approve b = Some b' \<and> ballot_of w' = (ballot_of w)(i \<mapsto> b')"
    using b by blast
  have "unat (votes_for q) = card (voters_on j True w') \<and> unat (votes_against q) = card (voters_on j False w')
      \<and> (status q = Pending \<longrightarrow> card (voters_on j True w') + card (voters_on j False w') < 2 ^ 31)"
    if q: "sm_get (Proposals w') j = Some q" for j q
  proof (cases "j = i")
    case False
    with q have "sm_get (Proposals w) j = Some q"
      by (simp add: stored)
    with ok have "unat (votes_for q) = card (voters_on j True w) \<and>
        unat (votes_against q) = card (voters_on j False w)
        \<and> (status q = Pending \<longrightarrow> card (voters_on j True w) + card (voters_on j False w) < 2 ^ 31)"
      unfolding ballots_ok_def by blast
    with False show ?thesis
      by (simp add: voters)
  next
    case True
    have "card (voters_on i True w') + card (voters_on i False w') < ballot_quorum cfg w
        \<Longrightarrow> card (voters_on i True w') + card (voters_on i False w') < 2 ^ 31"
      using quorum_small [of cfg w] by simp
    with True q show ?thesis
      by (auto simp: stored counts split: if_splits)
  qed
  then show "ballots_ok w'"
    unfolding ballots_ok_def by blast
qed

interpretation dcf_ballots: ballot_box ballots_ok ballot_of "ballot_quorum cfg" "accepted_vote cfg"
  for cfg
  by unfold_locales (blast intro: vote_refines)+

lemma record_operation_ballots [simp]:
  "Proposals (record_operation a oper w) = Proposals w"
  "ProposalVotes (record_operation a oper w) = ProposalVotes w"
  by (simp_all add: record_operation_def Let_def)

lemma ballots_same:
  assumes "Proposals w' = Proposals w" and "ProposalVotes w' = ProposalVotes w"
  shows "ballot_of w' = ballot_of w" and "ballots_ok w' = ballots_ok w"
  using assms by (simp_all add: ballot_of_def ballots_ok_def voters_on_def fun_eq_iff)

lemma refused_vote:
  assumes "vote_proposal cfg orig i approve w = (Inl e, w')"
  shows "Proposals w' = Proposals w" and "ProposalVotes w' = ProposalVotes w"
  using assms by (auto simp: vote_proposal_def note_violation_def dcf_deposit_event_def Let_def
      split: sum.splits option.splits prod.splits if_splits)

lemma ballot_accepts_iff:
  assumes "check_rate_limits who VoteProposal (VoteProposalWeight cfg) w = Inr ()"
  shows "accepted_vote cfg who i approve w \<noteq> None \<longleftrightarrow>
    (\<exists>b. ballot_of w i = Some b \<and> cast_vote (ballot_quorum cfg w) who approve b \<noteq> None)"
proof (cases "sm_get (Proposals w) i")
  case None
  with assms show ?thesis
    by (simp add: accepted_vote_def vote_proposal_def ballot_of_def)
next
  case (Some p)
  have voted: "sm_has (ProposalVotes w) (i, who) \<longleftrightarrow> who \<in> voters_on i True w \<union> voters_on i False w"
    by (auto simp: sm_has_def voters_on_def)
  with Some assms show ?thesis
    by (simp add: accepted_vote_def vote_proposal_def ballot_of_def cast_vote_def Let_def split_def)
qed

text \<open>
  C21. Voting refines the abstract ballot box. In a state whose counters are right, an accepted vote
  casts one vote on the abstract ballot, with the quorum of the moment, and leaves the other ballots
  alone; a refused one changes no ballot; the counters stay right, without overflow. Within the rate
  limits the call is accepted exactly when the ballot is open and the account has not voted on it.
\<close>
theorem votes_refine_ballot_box:
  fixes w w' :: "('c, 'sig, 'z) dcf_world_scheme"
  assumes "ballots_ok w" and "vote_proposal cfg (Signed who) i approve w = (r, w')"
  shows "ballots_ok w'
    \<and> (case r of
         Inl e \<Rightarrow> ballot_of w' = ballot_of w
       | Inr u \<Rightarrow> (\<exists>b b'. ballot_of w i = Some b
           \<and> cast_vote (ballot_quorum cfg w) who approve b = Some b'
           \<and> ballot_of w' = (ballot_of w)(i \<mapsto> b')))
    \<and> (check_rate_limits who VoteProposal (VoteProposalWeight cfg) w = Inr () \<longrightarrow>
         (r = Inr ()) = (\<exists>b. ballot_of w i = Some b \<and> outcome b = Pending \<and> who \<notin> yes b \<union> no b))"
proof -
  have accept: "accepted_vote cfg who i approve w = (case r of Inl e \<Rightarrow> None | Inr u \<Rightarrow> Some w')"
    using assms(2) by (simp add: accepted_vote_def split: sum.split)
  have main: "ballots_ok w' \<and> (case r of
         Inl e \<Rightarrow> ballot_of w' = ballot_of w
       | Inr u \<Rightarrow> (\<exists>b b'. ballot_of w i = Some b
           \<and> cast_vote (ballot_quorum cfg w) who approve b = Some b'
           \<and> ballot_of w' = (ballot_of w)(i \<mapsto> b')))"
  proof (cases r)
    case (Inl e)
    with assms(2) have refused: "vote_proposal cfg (Signed who) i approve w = (Inl e, w')"
      by simp
    with assms(1) Inl show ?thesis
      using ballots_same [OF refused_vote [OF refused]] by simp
  next
    case (Inr u)
    with accept have "accepted_vote cfg who i approve w = Some w'"
      by simp
    with vote_refines [OF assms(1) this] Inr show ?thesis
      by simp
  qed
  have "(r = Inr ()) = (\<exists>b. ballot_of w i = Some b \<and> outcome b = Pending \<and> who \<notin> yes b \<union> no b)"
    if "check_rate_limits who VoteProposal (VoteProposalWeight cfg) w = Inr ()"
  proof -
    have "r = Inr () \<longleftrightarrow> accepted_vote cfg who i approve w \<noteq> None"
      using accept by (cases r) simp_all
    then show ?thesis
      using ballot_accepts_iff [OF that, of i approve] by (auto simp: cast_vote_def split: if_splits)
  qed
  with main show ?thesis
    by blast
qed

section \<open>Polls\<close>

text \<open>A submitted proposal opens an empty ballot under a number that was not used before.\<close>

lemma submit_opens_ballot:
  assumes "submit_proposal cfg orig act w = (Inr u, w')" and "ballots_ok w"
    and "\<And>who. sm_get (ProposalVotes w) (NextProposalId w, who) = None"
  shows "ballot_of w' = (ballot_of w)(NextProposalId w \<mapsto> empty_ballot)" and "ballots_ok w'"
proof -
  from assms(1) obtain who where "orig = Signed who"
    by (cases orig) (simp_all add: submit_proposal_def)
  with assms(1) have w': "w' = record_operation who SubmitProposal
      (dcf_deposit_event (ProposalCreated (NextProposalId w) who act) (file_proposal who act w))"
    by (simp add: submit_proposal_def Let_def split: sum.splits prod.splits)
  have stored: "sm_get (Proposals w') = (sm_get (Proposals w))(NextProposalId w \<mapsto>
      \<lparr>proposer = who, action = act, status = Pending, votes_for = 0, votes_against = 0\<rparr>)"
    by (simp add: w' fun_eq_iff file_proposal_def Let_def dcf_deposit_event_def)
  have votes: "ProposalVotes w' = ProposalVotes w"
    by (simp add: w' file_proposal_def Let_def dcf_deposit_event_def)
  have nobody: "voters_on (NextProposalId w) a w = {}" for a
    using assms(3) by (simp add: voters_on_def)
  have same: "voters_on j a w' = voters_on j a w" for j a
    by (simp add: voters_on_def votes)
  show "ballot_of w' = (ballot_of w)(NextProposalId w \<mapsto> empty_ballot)"
    by (rule ext) (simp add: ballot_of_def stored same nobody empty_ballot_def)
  show "ballots_ok w'"
    using assms(2) by (auto simp: ballots_ok_def stored same nobody)
qed

text \<open>
  C22. Every proposal is decided by the majority of distinct voters: after \<open>submit_proposal\<close> under a
  fresh number and any sequence of accepted votes, on it and on others, no account has voted on it
  twice, its two sets of voters are those of the sequence, and it is \<open>Approved\<close> only with more votes
  for than against, \<open>Rejected\<close> only otherwise, and never \<open>Executed\<close>.
\<close>
theorem proposals_decided_by_majority:
  fixes w w1 w2 :: "('c, 'sig, 'z) dcf_world_scheme"
  assumes "ballots_ok w" and "\<And>who. sm_get (ProposalVotes w) (NextProposalId w, who) = None"
    and "submit_proposal cfg orig act w = (Inr u, w1)" and "dcf_ballots.poll cfg w1 cast w2"
  shows "\<exists>p. sm_get (Proposals w2) (NextProposalId w) = Some p
    \<and> voters_on (NextProposalId w) True w2 = {who. (who, NextProposalId w, True) \<in> set cast}
    \<and> voters_on (NextProposalId w) False w2 = {who. (who, NextProposalId w, False) \<in> set cast}
    \<and> distinct (map fst (filter (\<lambda>v. fst (snd v) = NextProposalId w) cast))
    \<and> status p \<noteq> Executed
    \<and> (status p = Approved \<longrightarrow> card (voters_on (NextProposalId w) False w2)
         < card (voters_on (NextProposalId w) True w2))
    \<and> (status p = Rejected \<longrightarrow> card (voters_on (NextProposalId w) True w2)
         \<le> card (voters_on (NextProposalId w) False w2))"
proof -
  note opened = submit_opens_ballot [OF assms(3,1,2)]
  have "ballot_of w1 (NextProposalId w) = Some empty_ballot"
    by (simp add: opened(1))
  from dcf_ballots.poll_result [OF assms(4) opened(2) this] show ?thesis
    by (auto simp: ballot_of_def)
qed

text \<open>Alice proposes to remove Charlie and Bob votes for it: with two active validators that decides.\<close>

definition sample_motion :: "(account_id \<Rightarrow> u128 \<times> u128, nat) dcf_world" where
  "sample_motion = snd (submit_proposal sample_config (Signed alice) (RemoveValidator charlie) sample_dcf_world)"

lemmas rate_check_defs = check_rate_limits_def check_per_block_limits_def check_per_account_limits_def
  check_minimum_intervals_def check_weight_bounds_def operations_in_window_def default_rate_limits_def
  sm_val_def

lemma sample_submitted:
  "submit_proposal sample_config (Signed alice) (RemoveValidator charlie) sample_dcf_world
     = (Inr (), sample_motion)"
  by (simp add: sample_motion_def submit_proposal_def rate_check_defs private_mode_check_def
      is_private_chain_mode_def dcf_sample_defs)

lemma sample_ballots_ok: "ballots_ok sample_dcf_world"
  by (simp add: ballots_ok_def dcf_sample_defs)

lemma sample_motion_open:
  "ballots_ok sample_motion" "ballot_of sample_motion 0 = Some empty_ballot"
  using submit_opens_ballot [OF sample_submitted sample_ballots_ok]
  by (simp_all add: dcf_sample_defs)

lemma sample_motion_fields:
  "ActiveValidators sample_motion = [alice, bob]" "block_number sample_motion = 150"
  "RateLimitConfigStorage sample_motion = default_rate_limits"
  "sm_val 0 (BlockOperationCounts sample_motion) VoteProposal = 0"
  "sm_val [] (AccountOperationHistory sample_motion) (bob, VoteProposal) = []"
  "sm_get (LastOperationBlock sample_motion) (bob, VoteProposal) = None"
  by (simp_all add: sample_motion_def submit_proposal_def rate_check_defs private_mode_check_def
      is_private_chain_mode_def record_operation_def file_proposal_def dcf_deposit_event_def Let_def
      dcf_sample_defs sm_put_def alice_def bob_def sm_get_def)

lemma sample_vote_limits:
  "check_rate_limits bob VoteProposal (VoteProposalWeight sample_config) sample_motion = Inr ()"
  by (simp add: check_rate_limits_def check_per_block_limits_def check_per_account_limits_def
      check_minimum_intervals_def check_weight_bounds_def operations_in_window_def Let_def
      sample_motion_fields default_rate_limits_def config_defs)

theorem votes_refine_ballot_box_witness:
  "ballot_of (snd (vote_proposal sample_config (Signed bob) 0 True sample_motion)) 0
     = Some \<lparr>yes = {bob}, no = {}, outcome = Approved\<rparr>"
proof -
  obtain r w' where vote: "vote_proposal sample_config (Signed bob) 0 True sample_motion = (r, w')"
    by fastforce
  note refines = votes_refine_ballot_box [OF sample_motion_open(1) vote]
  have "r = Inr ()"
    using refines sample_vote_limits sample_motion_open(2) by (simp add: empty_ballot_def)
  moreover have "ballot_quorum sample_config sample_motion = 1"
    by (simp add: ballot_quorum_def proposal_quorum_def dcf_active_validators_def bv_truncate_def
        sample_motion_fields config_defs runtime_pos_config_def)
  ultimately show ?thesis
    using refines sample_motion_open(2) vote
    by (auto simp: cast_vote_def empty_ballot_def add_vote_def close_ballot_def)
qed

theorem proposals_decided_by_majority_witness:
  "\<exists>w2 p. dcf_ballots.poll sample_config sample_motion [(bob, 0, True)] w2
     \<and> sm_get (Proposals w2) 0 = Some p \<and> voters_on 0 True w2 = {bob} \<and> status p \<noteq> Executed"
proof -
  have "accepted_vote sample_config bob 0 True sample_motion \<noteq> None"
    using ballot_accepts_iff [OF sample_vote_limits] sample_motion_open(2)
    by (simp add: cast_vote_def empty_ballot_def)
  then obtain w2 where "accepted_vote sample_config bob 0 True sample_motion = Some w2"
    by blast
  then have poll: "dcf_ballots.poll sample_config sample_motion ([] @ [(bob, 0, True)]) w2"
    by (rule dcf_ballots.poll.more [OF dcf_ballots.poll.none])
  have "NextProposalId sample_dcf_world = 0"
    by (simp add: dcf_sample_defs)
  with proposals_decided_by_majority [OF sample_ballots_ok _ sample_submitted poll] poll show ?thesis
    by (auto simp: dcf_sample_defs)
qed

end
