(* ===== verification/Governance_Properties.thy ===== *)
theory Governance_Properties
  imports Ballot_Box
begin

text \<open>
  Governance at the epoch boundary: which proposals are executed without a vote, and what that
  allows a single account to do. Pending joins and leaves are applied there as well.
\<close>

section \<open>Automatic approval\<close>

lemma sm_put_fresh: "sm_get m k = None \<Longrightarrow> sm_put k v m = m @ [(k, v)]"
  unfolding sm_get_def sm_put_def by (induction m) auto

lemma submitted_world:
  assumes "submit_proposal cfg (Signed a) act w = (Inr u, w1)"
  shows "w1 = record_operation a SubmitProposal
    (dcf_deposit_event (ProposalCreated (NextProposalId w) a act) (file_proposal a act w))"
  using assms by (simp add: submit_proposal_def Let_def split: sum.splits prod.splits)

lemma removed_world:
  fixes w w' :: "('c, 'sig, 'z) dcf_world_scheme"
  assumes "w' = snd (execute_remove_validator cfg (dvf_handler (dvf_cfg cfg)) v w)"
  shows "Validators w' = sm_del v (Validators w)" and "Stake w' = sm_del v (Stake w)"
    and "ValidatorSet w' = remove1 v (ValidatorSet w)"
    and "ActiveValidators w' = remove1 v (ActiveValidators w)"
    and "Proposals w' = Proposals w"
  unfolding assms execute_remove_validator_def then_do_def force_eject_validator_def dvf_handler_def
    dvf_on_left_def remove_active_def remove_from_set_def pos_deposit_event_def dcf_deposit_event_def
    Let_def
  by (simp_all add: remove1_idem)

lemmas removed = removed_world [OF refl]

text \<open>
  C29. A single account can have any validator removed without a vote. In a state with no open
  proposal, let any account file \<open>RemoveValidator v\<close>. At the next epoch boundary the proposal is
  executed although nobody voted: \<open>v\<close> is registered no more, its recorded stake is gone, and it is
  neither in the validator set nor in the active list.
\<close>
theorem anyone_can_remove_validators:
  fixes w w1 :: "('c, 'sig, 'z) dcf_world_scheme"
  assumes "submit_proposal cfg (Signed a) (RemoveValidator v) w = (Inr u, w1)"
    and "filter (\<lambda>p. status (snd p) = Pending) (Proposals w) = []"
    and "sm_get (Proposals w) (NextProposalId w) = None"
    and "distinct (ValidatorSet w)" and "distinct (ActiveValidators w)"
  shows "let w2 = process_epoch_proposals cfg (dvf_handler (dvf_cfg cfg)) w1 in
      \<not> sm_has (Validators w2) v \<and> sm_val 0 (Stake w2) v = 0
      \<and> v \<notin> set (ValidatorSet w2) \<and> v \<notin> set (ActiveValidators w2)
      \<and> sm_get (Proposals w2) (NextProposalId w) = Some \<lparr>proposer = a, action = RemoveValidator v,
           status = Executed, votes_for = 0, votes_against = 0\<rparr>"
proof -
  let ?i = "NextProposalId w"
  let ?p = "\<lparr>proposer = a, action = RemoveValidator v, status = Pending, votes_for = 0, votes_against = 0\<rparr>"
  note w1 = submitted_world [OF assms(1)]
  have proposals: "Proposals w1 = Proposals w @ [(?i, ?p)]"
    using assms(3) by (simp add: w1 record_operation_def file_proposal_def dcf_deposit_event_def Let_def
        sm_put_fresh)
  have others: "ValidatorSet w1 = ValidatorSet w" "ActiveValidators w1 = ActiveValidators w"
    by (simp_all add: w1 record_operation_def file_proposal_def dcf_deposit_event_def Let_def)
  have found: "sm_get (Proposals w1) ?i = Some ?p"
    using assms(3) by (simp add: proposals sm_get_def map_add_Some_iff)
  have "process_epoch_proposals cfg (dvf_handler (dvf_cfg cfg)) w1
      = process_epoch_proposal cfg (dvf_handler (dvf_cfg cfg)) (?i, ?p) w1"
    using assms(2) by (simp add: process_epoch_proposals_def proposals)
  also have "\<dots> = (let w' = snd (execute_remove_validator cfg (dvf_handler (dvf_cfg cfg)) v w1)
      in w'\<lparr>Proposals := sm_put ?i (?p\<lparr>status := Executed\<rparr>) (Proposals w')\<rparr>)"
    by (simp add: process_epoch_proposal_def found Let_def)
  finally show ?thesis
    using assms(4,5) by (simp add: Let_def removed others)
qed

theorem anyone_can_remove_validators_witness:
  "sm_has (Validators sample_dcf_world) charlie
   \<and> \<not> sm_has (Validators (process_epoch_proposals sample_config
        (dvf_handler (dvf_cfg sample_config)) sample_motion)) charlie"
proof
  show "sm_has (Validators sample_dcf_world) charlie"
    by (simp add: dcf_sample_defs sm_has_def sm_get_def alice_def bob_def charlie_def)
  have "filter (\<lambda>p. status (snd p) = Pending) (Proposals sample_dcf_world) = []"
    "sm_get (Proposals sample_dcf_world) (NextProposalId sample_dcf_world) = None"
    "distinct (ValidatorSet sample_dcf_world)" "distinct (ActiveValidators sample_dcf_world)"
    by (simp_all add: dcf_sample_defs alice_def bob_def charlie_def)
  from anyone_can_remove_validators [OF sample_submitted this]
  show "\<not> sm_has (Validators (process_epoch_proposals sample_config
      (dvf_handler (dvf_cfg sample_config)) sample_motion)) charlie"
    by (simp add: Let_def)
qed

end
