(* ===== verification/Dcf_Parameters.thy ===== *)
theory Dcf_Parameters
  imports Dcf_State
begin

text \<open>
  The parameter store of \<open>pallet-cerulea-dcf\<close>: \<open>update_dcf_parameter\<close> and its helpers. The SCALE
  codec of the numbers is library code and a parameter of the model; decoding fails on bytes that do
  not start with an encoded number.
\<close>

section \<open>Reading and writing a parameter\<close>

record scale_codec =
  decode_u32 :: "8 word list \<Rightarrow> u32 option"
  decode_u64 :: "8 word list \<Rightarrow> u64 option"
  decode_u128 :: "8 word list \<Rightarrow> u128 option"
  encode_u32 :: "u32 \<Rightarrow> 8 word list"
  encode_u64 :: "u64 \<Rightarrow> 8 word list"
  encode_u128 :: "u128 \<Rightarrow> 8 word list"

definition bounded_bytes :: "8 word list \<Rightarrow> dcf_error + 8 word list" where
  "bounded_bytes bytes = (if length bytes \<le> 64 then Inr bytes else Inl DcfInvalidGovernanceConfig)"

fun get_parameter_value ::
  "scale_codec \<Rightarrow> governance_config \<Rightarrow> parameter_type \<Rightarrow> dcf_error + 8 word list" where
  "get_parameter_value K c ParamEpochLength = bounded_bytes (encode_u32 K (range_current (gc_epoch_length c)))"
| "get_parameter_value K c ParamMinStake = bounded_bytes (encode_u128 K (range_current (gc_min_stake c)))"
| "get_parameter_value K c ParamMaxValidators = bounded_bytes (encode_u32 K (range_current (gc_max_validators c)))"
| "get_parameter_value K c ParamPosWeight = bounded_bytes (encode_u64 K (range_current (gc_pos_weight c)))"
| "get_parameter_value K c ParamPoiWeight = bounded_bytes (encode_u64 K (range_current (gc_poi_weight c)))"
| "get_parameter_value K c ParamMinPerformanceScore = bounded_bytes (encode_u64 K (range_current (gc_min_performance_score c)))"
| "get_parameter_value K c ParamHighPerformanceScore = bounded_bytes (encode_u64 K (range_current (gc_high_performance_score c)))"
| "get_parameter_value K c ParamMinParticipationRate = bounded_bytes (encode_u32 K (range_current (gc_min_participation_rate c)))"
| "get_parameter_value K c ParamHighParticipationRate = bounded_bytes (encode_u32 K (range_current (gc_high_participation_rate c)))"
| "get_parameter_value K c ParamValidatorReward = bounded_bytes (encode_u128 K (range_current (gc_validator_reward c)))"
| "get_parameter_value K c ParamSlashPercent = bounded_bytes (encode_u32 K (range_current (gc_slash_percent c)))"
| "get_parameter_value K c ParamLeaveCooldown = bounded_bytes (encode_u32 K (range_current (gc_leave_cooldown c)))"
| "get_parameter_value K c ParamTrustScoreUptimeWeight = bounded_bytes (encode_u32 K (range_current (gc_trust_score_uptime_weight c)))"
| "get_parameter_value K c ParamTrustScoreInferenceWeight = bounded_bytes (encode_u32 K (range_current (gc_trust_score_inference_weight c)))"
| "get_parameter_value K c ParamTrustScoreSlashingWeight = bounded_bytes (encode_u32 K (range_current (gc_trust_score_slashing_weight c)))"
| "get_parameter_value K c ParamTrustScoreMaxGrowthRate = bounded_bytes (encode_u32 K (range_current (gc_trust_score_max_growth_rate c)))"
| "get_parameter_value K c ParamTrustScoreMaxDecayRate = bounded_bytes (encode_u32 K (range_current (gc_trust_score_max_decay_rate c)))"
| "get_parameter_value K c ParamTrustScoreMinValue = bounded_bytes (encode_u64 K (range_current (gc_trust_score_min_value c)))"
| "get_parameter_value K c ParamTrustScoreMaxValue = bounded_bytes (encode_u64 K (range_current (gc_trust_score_max_value c)))"
| "get_parameter_value K c ParamTrustScoreStabilityFactor = bounded_bytes (encode_u32 K (range_current (gc_trust_score_stability_factor c)))"
| "get_parameter_value K c ParamBlockAuthorshipBoost = bounded_bytes (encode_u64 K (range_current (gc_block_authorship_boost c)))"
| "get_parameter_value K c ParamMissedBlockPenalty = bounded_bytes (encode_u64 K (range_current (gc_missed_block_penalty c)))"
| "get_parameter_value K c ParamInferenceBoostLow = bounded_bytes (encode_u64 K (range_current (gc_inference_boost_low c)))"
| "get_parameter_value K c ParamInferenceBoostMedium = bounded_bytes (encode_u64 K (range_current (gc_inference_boost_medium c)))"
| "get_parameter_value K c ParamInferenceBoostHigh = bounded_bytes (encode_u64 K (range_current (gc_inference_boost_high c)))"

text \<open>
  Every case of \<open>validate_and_update_parameter\<close> decodes the bytes, checks the range, makes a check of
  its own with an error of its own, and stores the new value.
\<close>

definition update_range ::
  "'n::len word option \<Rightarrow> 'n word parameter_range \<Rightarrow> ('n word \<Rightarrow> bool) \<Rightarrow> dcf_error
     \<Rightarrow> ('n word parameter_range \<Rightarrow> governance_config) \<Rightarrow> dcf_error + governance_config" where
  "update_range decoded r allowed err store =
     (case decoded of
        None \<Rightarrow> Inl DcfInvalidParameterType
      | Some x \<Rightarrow>
          if \<not> (x \<ge> range_min r \<and> x \<le> range_max r) then Inl DcfParameterOutOfRange
          else if \<not> allowed x then Inl err
          else Inr (store (r\<lparr>range_current := x\<rparr>)))"

fun validate_and_update_parameter ::
  "scale_codec \<Rightarrow> u64 \<Rightarrow> parameter_type \<Rightarrow> 8 word list \<Rightarrow> governance_config
     \<Rightarrow> dcf_error + governance_config" where
  "validate_and_update_parameter K precision ParamEpochLength v c =
     update_range (decode_u32 K v) (gc_epoch_length c) (\<lambda>x. True)
       DcfParameterOutOfRange (\<lambda>r. c\<lparr>gc_epoch_length := r\<rparr>)"
| "validate_and_update_parameter K precision ParamMinStake v c =
     update_range (decode_u128 K v) (gc_min_stake c) (\<lambda>x. True)
       DcfParameterOutOfRange (\<lambda>r. c\<lparr>gc_min_stake := r\<rparr>)"
| "validate_and_update_parameter K precision ParamMaxValidators v c =
     update_range (decode_u32 K v) (gc_max_validators c) (\<lambda>x. True)
       DcfParameterOutOfRange (\<lambda>r. c\<lparr>gc_max_validators := r\<rparr>)"
| "validate_and_update_parameter K precision ParamPosWeight v c =
     update_range (decode_u64 K v) (gc_pos_weight c) (\<lambda>x. x + range_current (gc_poi_weight c) = precision)
       DcfInvalidWeight (\<lambda>r. c\<lparr>gc_pos_weight := r\<rparr>)"
| "validate_and_update_parameter K precision ParamPoiWeight v c =
     update_range (decode_u64 K v) (gc_poi_weight c) (\<lambda>x. range_current (gc_pos_weight c) + x = precision)
       DcfInvalidWeight (\<lambda>r. c\<lparr>gc_poi_weight := r\<rparr>)"
| "validate_and_update_parameter K precision ParamMinPerformanceScore v c =
     update_range (decode_u64 K v) (gc_min_performance_score c) (\<lambda>x. x < range_current (gc_high_performance_score c))
       DcfInvalidGovernanceConfig (\<lambda>r. c\<lparr>gc_min_performance_score := r\<rparr>)"
| "validate_and_update_parameter K precision ParamHighPerformanceScore v c =
     update_range (decode_u64 K v) (gc_high_performance_score c) (\<lambda>x. x > range_current (gc_min_performance_score c))
       DcfInvalidGovernanceConfig (\<lambda>r. c\<lparr>gc_high_performance_score := r\<rparr>)"
| "validate_and_update_parameter K precision ParamMinParticipationRate v c =
     update_range (decode_u32 K v) (gc_min_participation_rate c) (\<lambda>x. x < range_current (gc_high_participation_rate c))
       DcfInvalidGovernanceConfig (\<lambda>r. c\<lparr>gc_min_participation_rate := r\<rparr>)"
| "validate_and_update_parameter K precision ParamHighParticipationRate v c =
     update_range (decode_u32 K v) (gc_high_participation_rate c) (\<lambda>x. x > range_current (gc_min_participation_rate c))
       DcfInvalidGovernanceConfig (\<lambda>r. c\<lparr>gc_high_participation_rate := r\<rparr>)"
| "validate_and_update_parameter K precision ParamValidatorReward v c =
     update_range (decode_u128 K v) (gc_validator_reward c) (\<lambda>x. True)
       DcfParameterOutOfRange (\<lambda>r. c\<lparr>gc_validator_reward := r\<rparr>)"
| "validate_and_update_parameter K precision ParamSlashPercent v c =
     update_range (decode_u32 K v) (gc_slash_percent c) (\<lambda>x. x \<le> 100)
       DcfParameterOutOfRange (\<lambda>r. c\<lparr>gc_slash_percent := r\<rparr>)"
| "validate_and_update_parameter K precision ParamLeaveCooldown v c =
     update_range (decode_u32 K v) (gc_leave_cooldown c) (\<lambda>x. True)
       DcfParameterOutOfRange (\<lambda>r. c\<lparr>gc_leave_cooldown := r\<rparr>)"
| "validate_and_update_parameter K precision ParamTrustScoreUptimeWeight v c =
     update_range (decode_u32 K v) (gc_trust_score_uptime_weight c) (\<lambda>x. True)
       DcfParameterOutOfRange (\<lambda>r. c\<lparr>gc_trust_score_uptime_weight := r\<rparr>)"
| "validate_and_update_parameter K precision ParamTrustScoreInferenceWeight v c =
     update_range (decode_u32 K v) (gc_trust_score_inference_weight c) (\<lambda>x. True)
       DcfParameterOutOfRange (\<lambda>r. c\<lparr>gc_trust_score_inference_weight := r\<rparr>)"
| "validate_and_update_parameter K precision ParamTrustScoreSlashingWeight v c =
     update_range (decode_u32 K v) (gc_trust_score_slashing_weight c) (\<lambda>x. True)
       DcfParameterOutOfRange (\<lambda>r. c\<lparr>gc_trust_score_slashing_weight := r\<rparr>)"
| "validate_and_update_parameter K precision ParamTrustScoreMaxGrowthRate v c =
     update_range (decode_u32 K v) (gc_trust_score_max_growth_rate c) (\<lambda>x. True)
       DcfParameterOutOfRange (\<lambda>r. c\<lparr>gc_trust_score_max_growth_rate := r\<rparr>)"
| "validate_and_update_parameter K precision ParamTrustScoreMaxDecayRate v c =
     update_range (decode_u32 K v) (gc_trust_score_max_decay_rate c) (\<lambda>x. True)
       DcfParameterOutOfRange (\<lambda>r. c\<lparr>gc_trust_score_max_decay_rate := r\<rparr>)"
| "validate_and_update_parameter K precision ParamTrustScoreMinValue v c =
     update_range (decode_u64 K v) (gc_trust_score_min_value c) (\<lambda>x. x < range_current (gc_trust_score_max_value c))
       DcfInvalidGovernanceConfig (\<lambda>r. c\<lparr>gc_trust_score_min_value := r\<rparr>)"
| "validate_and_update_parameter K precision ParamTrustScoreMaxValue v c =
     update_range (decode_u64 K v) (gc_trust_score_max_value c) (\<lambda>x. x > range_current (gc_trust_score_min_value c))
       DcfInvalidGovernanceConfig (\<lambda>r. c\<lparr>gc_trust_score_max_value := r\<rparr>)"
| "validate_and_update_parameter K precision ParamTrustScoreStabilityFactor v c =
     update_range (decode_u32 K v) (gc_trust_score_stability_factor c) (\<lambda>x. True)
       DcfParameterOutOfRange (\<lambda>r. c\<lparr>gc_trust_score_stability_factor := r\<rparr>)"
| "validate_and_update_parameter K precision ParamBlockAuthorshipBoost v c =
     update_range (decode_u64 K v) (gc_block_authorship_boost c) (\<lambda>x. True)
       DcfParameterOutOfRange (\<lambda>r. c\<lparr>gc_block_authorship_boost := r\<rparr>)"
| "validate_and_update_parameter K precision ParamMissedBlockPenalty v c =
     update_range (decode_u64 K v) (gc_missed_block_penalty c) (\<lambda>x. True)
       DcfParameterOutOfRange (\<lambda>r. c\<lparr>gc_missed_block_penalty := r\<rparr>)"
| "validate_and_update_parameter K precision ParamInferenceBoostLow v c =
     update_range (decode_u64 K v) (gc_inference_boost_low c) (\<lambda>x. True)
       DcfParameterOutOfRange (\<lambda>r. c\<lparr>gc_inference_boost_low := r\<rparr>)"
| "validate_and_update_parameter K precision ParamInferenceBoostMedium v c =
     update_range (decode_u64 K v) (gc_inference_boost_medium c) (\<lambda>x. True)
       DcfParameterOutOfRange (\<lambda>r. c\<lparr>gc_inference_boost_medium := r\<rparr>)"
| "validate_and_update_parameter K precision ParamInferenceBoostHigh v c =
     update_range (decode_u64 K v) (gc_inference_boost_high c) (\<lambda>x. True)
       DcfParameterOutOfRange (\<lambda>r. c\<lparr>gc_inference_boost_high := r\<rparr>)"

text \<open>
  Only the consensus weights and the trust parameters act at once; the others are stored for later
  readers. A rate or bound of the trust score is written to its configuration and to the bounds.
\<close>

definition apply_decoded ::
  "'n option \<Rightarrow> ('n \<Rightarrow> 'w \<Rightarrow> 'w) \<Rightarrow> 'w \<Rightarrow> dcf_error + 'w" where
  "apply_decoded decoded act w =
     (case decoded of None \<Rightarrow> Inl DcfInvalidParameterType | Some x \<Rightarrow> Inr (act x w))"

definition mutate_trust_config ::
  "(trust_score_config \<Rightarrow> trust_score_config) \<Rightarrow> ('c, 'sig, 'z) dcf_world_scheme
     \<Rightarrow> ('c, 'sig, 'z) dcf_world_scheme" where
  "mutate_trust_config f w = w\<lparr>TrustScoreConfigStorage := f (TrustScoreConfigStorage w)\<rparr>"

definition mutate_bounds ::
  "(trust_score_bounds \<Rightarrow> trust_score_bounds) \<Rightarrow> ('c, 'sig, 'z) dcf_world_scheme
     \<Rightarrow> ('c, 'sig, 'z) dcf_world_scheme" where
  "mutate_bounds f w =
     w\<lparr>TrustScoreBounds := (f (TrustScoreBounds w))\<lparr>last_updated_epoch := DcfCurrentEpoch w\<rparr>\<rparr>"

fun apply_parameter_change ::
  "scale_codec \<Rightarrow> parameter_type \<Rightarrow> 8 word list \<Rightarrow> ('c, 'sig, 'z) dcf_world_scheme
     \<Rightarrow> dcf_error + ('c, 'sig, 'z) dcf_world_scheme" where
  "apply_parameter_change K ParamPosWeight v w =
     apply_decoded (decode_u64 K v) (\<lambda>x w. w\<lparr>PosWeight := Some x\<rparr>) w"
| "apply_parameter_change K ParamPoiWeight v w =
     apply_decoded (decode_u64 K v) (\<lambda>x w. w\<lparr>PoiWeight := Some x\<rparr>) w"
| "apply_parameter_change K ParamTrustScoreUptimeWeight v w =
     apply_decoded (decode_u32 K v) (\<lambda>x. mutate_trust_config (\<lambda>t. t\<lparr>uptime_weight := x\<rparr>)) w"
| "apply_parameter_change K ParamTrustScoreInferenceWeight v w =
     apply_decoded (decode_u32 K v) (\<lambda>x. mutate_trust_config (\<lambda>t. t\<lparr>inference_weight := x\<rparr>)) w"
| "apply_parameter_change K ParamTrustScoreSlashingWeight v w =
     apply_decoded (decode_u32 K v) (\<lambda>x. mutate_trust_config (\<lambda>t. t\<lparr>slashing_weight := x\<rparr>)) w"
| "apply_parameter_change K ParamTrustScoreMaxGrowthRate v w =
     apply_decoded (decode_u32 K v) (\<lambda>x w. mutate_bounds (\<lambda>b. b\<lparr>max_growth_rate := x\<rparr>)
       (mutate_trust_config (\<lambda>t. t\<lparr>tc_max_growth_rate := x\<rparr>) w)) w"
| "apply_parameter_change K ParamTrustScoreMaxDecayRate v w =
     apply_decoded (decode_u32 K v) (\<lambda>x w. mutate_bounds (\<lambda>b. b\<lparr>max_decay_rate := x\<rparr>)
       (mutate_trust_config (\<lambda>t. t\<lparr>tc_max_decay_rate := x\<rparr>) w)) w"
| "apply_parameter_change K ParamTrustScoreMinValue v w =
     apply_decoded (decode_u64 K v) (\<lambda>x w. mutate_bounds (\<lambda>b. b\<lparr>min_score := x\<rparr>)
       (mutate_trust_config (\<lambda>t. t\<lparr>tc_min_trust_score := x\<rparr>) w)) w"
| "apply_parameter_change K ParamTrustScoreMaxValue v w =
     apply_decoded (decode_u64 K v) (\<lambda>x w. mutate_bounds (\<lambda>b. b\<lparr>max_score := x\<rparr>)
       (mutate_trust_config (\<lambda>t. t\<lparr>tc_max_trust_score := x\<rparr>) w)) w"
| "apply_parameter_change K ParamTrustScoreStabilityFactor v w =
     apply_decoded (decode_u32 K v) (\<lambda>x w. mutate_bounds (\<lambda>b. b\<lparr>stability_factor := x\<rparr>)
       (mutate_trust_config (\<lambda>t. t\<lparr>tc_stability_factor := x\<rparr>) w)) w"
| "apply_parameter_change K _ v w = Inr w"

section \<open>The call\<close>

definition update_dcf_parameter ::
  "('c, 'sig) dcf_config \<Rightarrow> scale_codec \<Rightarrow> origin \<Rightarrow> parameter_type \<Rightarrow> 8 word list
     \<Rightarrow> (('c, 'sig, 'z) dcf_world_scheme, unit) call" where
  "update_dcf_parameter cfg K orig param v w =
     (case ensure_root orig of Inl e \<Rightarrow> (Inl e, w) | Inr _ \<Rightarrow>
      case get_parameter_value K (GovernanceConfigStorage w) param of
        Inl e \<Rightarrow> (Inl (DcfErr e), w)
      | Inr old_value \<Rightarrow>
      case validate_and_update_parameter K (ucast (PercentagePrecision (poi_cfg cfg))) param v
             (GovernanceConfigStorage w) of
        Inl e \<Rightarrow> (Inl (DcfErr e), w)
      | Inr c' \<Rightarrow>
          (let w1 = w\<lparr>GovernanceConfigStorage := c'\<rparr>
           in case apply_parameter_change K param v w1 of
                Inl e \<Rightarrow> (Inl (DcfErr e), w1)
              | Inr w2 \<Rightarrow> (Inr (), dcf_deposit_event (DcfParameterUpdated param old_value v) w2)))"

end
