(* ===== verification/Dcf_Genesis.thy ===== *)
theory Dcf_Genesis
  imports Dcf_Epoch Dcf_Parameters
begin

text \<open>
  The genesis of \<open>pallet-cerulea-dcf\<close>: checks, the stake and record of every initial validator, and
  the initial values of the consensus storage, governance ranges included. \<open>None\<close> is a panic.
\<close>

record dcf_genesis =
  dg_validators :: "account_id list"
  dg_validator_scores :: "u32 list"
  dg_validator_stakes :: "u128 list"
  dg_current_epoch :: u32
  dg_epoch_config :: epoch_config
  dg_validator_names :: "8 word list option list"
  dg_strict_validation :: bool

section \<open>Checks\<close>

text \<open>An optional column of the genesis data is empty or as long as the list of validators.\<close>

definition column_ok :: "dcf_genesis \<Rightarrow> 'x list \<Rightarrow> bool" where
  "column_ok g xs \<longleftrightarrow> xs = [] \<or> length xs = length (dg_validators g)"

definition column_or :: "'x \<Rightarrow> dcf_genesis \<Rightarrow> 'x list \<Rightarrow> 'x list" where
  "column_or d g xs = (if xs = [] then replicate (length (dg_validators g)) d else xs)"

definition validate_genesis_config :: "('c, 'sig) dcf_config \<Rightarrow> dcf_genesis \<Rightarrow> bool" where
  "validate_genesis_config cfg g \<longleftrightarrow>
     dg_validators g \<noteq> []
     \<and> length (dg_validators g) \<le> unat (PosMaxValidators (pos_cfg cfg))
     \<and> column_ok g (dg_validator_scores g)
     \<and> column_ok g (dg_validator_stakes g)
     \<and> column_ok g (dg_validator_names g)
     \<and> list_all (\<lambda>s. s \<ge> MinStake (pos_cfg cfg)) (dg_validator_stakes g)
     \<and> list_all (\<lambda>nm. case nm of None \<Rightarrow> True
          | Some bytes \<Rightarrow> length bytes \<le> unat (DcfMaxValidatorNameSize cfg)) (dg_validator_names g)
     \<and> blocks_per_epoch (dg_epoch_config g) \<noteq> 0"

definition genesis_checks :: "('c, 'sig) dcf_config \<Rightarrow> dcf_genesis \<Rightarrow> bool" where
  "genesis_checks cfg g \<longleftrightarrow>
     (dg_strict_validation g \<longrightarrow> validate_genesis_config cfg g)
     \<and> length (dg_validators g) \<le> unat (PosMaxValidators (pos_cfg cfg))
     \<and> distinct (dg_validators g)
     \<and> column_ok g (dg_validator_stakes g)
     \<and> list_all (\<lambda>s. s \<ge> MinStake (pos_cfg cfg)) (dg_validator_stakes g)
     \<and> column_ok g (dg_validator_scores g)
     \<and> column_ok g (dg_validator_names g)"

section \<open>One validator\<close>

definition genesis_stats :: "('c, 'sig) dcf_config \<Rightarrow> u32 \<Rightarrow> u32 \<Rightarrow> u128 \<Rightarrow> epoch_stats" where
  "genesis_stats cfg epoch score stake =
     (let stake_sc = sat_into stake div RewardBoostDivisor (pos_cfg cfg); inference_sc = ucast score
      in \<lparr>es_epoch = epoch, stake_score = stake_sc, inference_score = inference_sc,
          final_score = (sat_mul stake_sc (DefaultPosWeight cfg) + sat_mul inference_sc (DefaultPoiWeight cfg))
            div ucast (PercentagePrecision (poi_cfg cfg)),
          authored_blocks = 0, missed_blocks = 0\<rparr>)"

definition genesis_state ::
  "('c, 'sig) dcf_config \<Rightarrow> u32 \<Rightarrow> u32 \<Rightarrow> u128 \<Rightarrow> 8 word list option \<Rightarrow> dvf_validator_state" where
  "genesis_state cfg epoch score stake nm =
     (let stats = genesis_stats cfg epoch score stake
      in \<lparr>last_active_epoch = epoch, current = stats,
          vs_history = (case bv_try_push (DcfMaxValidatorHistorySize cfg) stats [] of None \<Rightarrow> [] | Some h \<Rightarrow> h),
          uptime = 1, inference_success_count = 0, participation_rate = FullPercentage cfg,
          inference_count = 0, last_active_block = 1,
          vs_name = map_option (bv_truncate (DcfMaxValidatorNameSize cfg)) nm,
          trust_score = MaxTrustScore cfg div 2\<rparr>)"

text \<open>\<open>push_member\<close> is \<open>if !list.contains(v) { let _ = list.try_push(v) }\<close>.\<close>

definition push_member :: "('c, 'sig) dcf_config \<Rightarrow> account_id \<Rightarrow> account_id list \<Rightarrow> account_id list" where
  "push_member cfg v vs =
     (if v \<in> set vs then vs
      else case bv_try_push (PosMaxValidators (pos_cfg cfg)) v vs of None \<Rightarrow> vs | Some vs' \<Rightarrow> vs')"

text \<open>A validator that cannot reserve its stake stops a strict genesis and is skipped otherwise.\<close>

definition genesis_validator ::
  "('c, 'sig) dcf_config \<Rightarrow> dcf_genesis \<Rightarrow> account_id \<times> u32 \<times> u128 \<times> 8 word list option
     \<Rightarrow> ('c, 'sig, 'z) dcf_world_scheme \<Rightarrow> ('c, 'sig, 'z) dcf_world_scheme option" where
  "genesis_validator cfg g entry w =
     (case entry of (v, score, stake, nm) \<Rightarrow>
        let skip = (if dg_strict_validation g then None else Some w)
        in if free_balance (currency_of cfg) (balances w) v < stake then skip
           else case reserve (currency_of cfg) v stake (balances w) of
             None \<Rightarrow> skip
           | Some bal \<Rightarrow>
               let w1 = w\<lparr>balances := bal, Stake := sm_put v stake (Stake w)\<rparr>;
                   w2 = (if v \<in> set (dcf_validator_set cfg w1) then w1
                         else dcf_put_set cfg (push_member cfg v (dcf_validator_set cfg w1)) w1);
                   w3 = (if v \<in> set (dcf_active_validators cfg w2) then w2
                         else dcf_put_active cfg (push_member cfg v (dcf_active_validators cfg w2)) w2)
               in if RewardBoostDivisor (pos_cfg cfg) = 0 \<or> PercentagePrecision (poi_cfg cfg) = 0 then None
                  else Some (dcf_put_state cfg v
                    (genesis_state cfg (dg_current_epoch g) score stake nm) w3))"

fun genesis_validators ::
  "('c, 'sig) dcf_config \<Rightarrow> dcf_genesis \<Rightarrow> (account_id \<times> u32 \<times> u128 \<times> 8 word list option) list
     \<Rightarrow> ('c, 'sig, 'z) dcf_world_scheme \<Rightarrow> ('c, 'sig, 'z) dcf_world_scheme option" where
  "genesis_validators cfg g [] w = Some w"
| "genesis_validators cfg g (e # es) w =
     (case genesis_validator cfg g e w of None \<Rightarrow> None | Some w' \<Rightarrow> genesis_validators cfg g es w')"

definition genesis_entries ::
  "('c, 'sig) dcf_config \<Rightarrow> dcf_genesis \<Rightarrow> (account_id \<times> u32 \<times> u128 \<times> 8 word list option) list" where
  "genesis_entries cfg g =
     zip (dg_validators g)
       (zip (column_or 0 g (dg_validator_scores g))
         (zip (column_or (MinStake (pos_cfg cfg)) g (dg_validator_stakes g))
           (column_or None g (dg_validator_names g))))"

section \<open>Initial storage\<close>

definition genesis_trust_config :: "('c, 'sig) dcf_config \<Rightarrow> trust_score_config" where
  "genesis_trust_config cfg = \<lparr>uptime_weight = 40, inference_weight = 35, slashing_weight = 25,
     tc_max_growth_rate = 500, tc_max_decay_rate = 200, tc_min_trust_score = MinTrustScore cfg,
     tc_max_trust_score = MaxTrustScore cfg, tc_stability_factor = 8000\<rparr>"

definition genesis_bounds :: "('c, 'sig) dcf_config \<Rightarrow> trust_score_bounds" where
  "genesis_bounds cfg = \<lparr>min_score = MinTrustScore cfg, max_score = MaxTrustScore cfg,
     max_growth_rate = MaxTrustScoreGrowthRate cfg, max_decay_rate = MaxTrustScoreDecayRate cfg,
     stability_factor = TrustScoreStabilityFactor cfg, last_updated_epoch = 0\<rparr>"

definition genesis_metrics :: trust_score_stability_metrics where
  "genesis_metrics = \<lparr>sm_epoch = 0, avg_score_change = 0, max_score_change = 0,
     validators_at_min_bound = 0, validators_at_max_bound = 0, score_standard_deviation = 0,
     score_median = 5000, high_performers_count = 0, low_performers_count = 0,
     stability_index = 10000\<rparr>"

definition range_of :: "'n \<Rightarrow> 'n \<Rightarrow> 'n \<Rightarrow> 'n parameter_range" where
  "range_of lo hi x = \<lparr>range_min = lo, range_max = hi, range_current = x\<rparr>"

definition genesis_governance :: "('c, 'sig) dcf_config \<Rightarrow> dcf_genesis \<Rightarrow> governance_config" where
  "genesis_governance cfg g =
     \<lparr>gc_epoch_length = range_of 50 14400 (blocks_per_epoch (dg_epoch_config g)),
      gc_min_stake = range_of 100000 1000000000 (MinStake (pos_cfg cfg)),
      gc_max_validators = range_of 1 1000 (ec_max_validators (dg_epoch_config g)),
      gc_pos_weight = range_of 1000 9000 (DefaultPosWeight cfg),
      gc_poi_weight = range_of 1000 9000 (DefaultPoiWeight cfg),
      gc_min_performance_score = range_of 10 5000 (MinPerformanceScore cfg),
      gc_high_performance_score = range_of 1000 (MaxValidatorScore (poi_cfg cfg))
            (HighPerformanceScore (pos_cfg cfg)),
      gc_min_participation_rate = range_of 10 90 (MinParticipationRate cfg),
      gc_high_participation_rate = range_of 50 100 (HighParticipationRate cfg),
      gc_validator_reward = range_of 1000 10000000 (ValidatorReward (pos_cfg cfg)),
      gc_slash_percent = range_of 1 50 (SlashPercent (pos_cfg cfg)),
      gc_leave_cooldown = range_of 100 100000 (LeaveCooldown (pos_cfg cfg)),
      gc_trust_score_uptime_weight = range_of 10 80 (ucast (TrustScoreUptimeWeight cfg)),
      gc_trust_score_inference_weight = range_of 10 80 (ucast (TrustScoreInferenceWeight cfg)),
      gc_trust_score_slashing_weight = range_of 5 50 (ucast (TrustScoreSlashingWeight cfg)),
      gc_trust_score_max_growth_rate = range_of 100 2000 (MaxTrustScoreGrowthRate cfg),
      gc_trust_score_max_decay_rate = range_of 50 1000 (MaxTrustScoreDecayRate cfg),
      gc_trust_score_min_value = range_of 500 3000 (MinTrustScore cfg),
      gc_trust_score_max_value = range_of 8000 15000 (MaxTrustScore cfg),
      gc_trust_score_stability_factor = range_of 5000 9500 (TrustScoreStabilityFactor cfg),
      gc_block_authorship_boost = range_of 1 100 (BlockAuthorshipBoost cfg),
      gc_missed_block_penalty = range_of 1 50 (MissedBlockPenalty cfg),
      gc_inference_boost_low = range_of 1 20 (InferenceBoostLow (poi_cfg cfg)),
      gc_inference_boost_medium = range_of 2 50 (InferenceBoostMedium (poi_cfg cfg)),
      gc_inference_boost_high = range_of 5 100 (InferenceBoostHigh (poi_cfg cfg))\<rparr>"

definition genesis_storage ::
  "('c, 'sig) dcf_config \<Rightarrow> dcf_genesis \<Rightarrow> ('c, 'sig, 'z) dcf_world_scheme
     \<Rightarrow> ('c, 'sig, 'z) dcf_world_scheme" where
  "genesis_storage cfg g w =
     (dcf_put_active cfg (dg_validators g) w)\<lparr>
       DcfCurrentEpoch := dg_current_epoch g,
       EpochConfigStorage := dg_epoch_config g,
       PosWeight := Some (DefaultPosWeight cfg),
       PoiWeight := Some (DefaultPoiWeight cfg),
       TrustScoreConfigStorage := genesis_trust_config cfg,
       TrustScoreBounds := genesis_bounds cfg,
       TrustScoreStabilityMetrics := genesis_metrics,
       GovernanceConfigStorage := genesis_governance cfg g,
       LastFinalizedBlock := 1,
       PreviousFinalizedBlock := 0,
       PreviousEpochBestBlock := 1,
       RateLimitConfigStorage := default_rate_limits\<rparr>"

definition genesis_authors ::
  "('c, 'sig) dcf_config \<Rightarrow> dcf_genesis \<Rightarrow> ('c, 'sig, 'z) dcf_world_scheme
     \<Rightarrow> ('c, 'sig, 'z) dcf_world_scheme option" where
  "genesis_authors cfg g w =
     (if dg_validators g = [] then Some w
      else
        (let seed = generate_deterministic_randomness cfg 1 0 (replicate 32 0) (replicate 16 0) w
         in map_option (\<lambda>authors. w\<lparr>EpochAuthorSequences := sm_put 0 authors (EpochAuthorSequences w)\<rparr>)
              (generate_deterministic_author_sequence cfg 0 (dg_validators g) seed w)))"

definition dcf_genesis_build ::
  "('c, 'sig) dcf_config \<Rightarrow> dcf_genesis \<Rightarrow> ('c, 'sig, 'z) dcf_world_scheme
     \<Rightarrow> ('c, 'sig, 'z) dcf_world_scheme option" where
  "dcf_genesis_build cfg g w =
     (if \<not> genesis_checks cfg g then None
      else case genesis_validators cfg g (genesis_entries cfg g) (dcf_put_set cfg (dg_validators g) w) of
        None \<Rightarrow> None
      | Some w1 \<Rightarrow> genesis_authors cfg g (genesis_storage cfg g w1))"

end
