(* ===== verification/Genesis_Properties.thy ===== *)
theory Genesis_Properties
  imports Dcf_Genesis Dcf_Config
begin

text \<open>
  The state that a successful genesis leaves: the lists of validators, the stake and record of each,
  and the author sequence of the first epoch.
\<close>

section \<open>The loop over the validators\<close>

lemma bv_truncate_id: "length xs \<le> unat n \<Longrightarrow> bv_truncate n xs = xs"
  by (simp add: bv_truncate_def)

lemma genesis_validator_strict:
  fixes w w' :: "('c, 'sig, 'z) dcf_world_scheme"
  assumes "genesis_validator cfg g (v, score, stake, nm) w = Some w'" and "dg_strict_validation g"
  shows "sm_get (Stake w') = (sm_get (Stake w))(v \<mapsto> stake)"
    and "sm_has (ValidatorStates w') u \<longleftrightarrow> u = v \<or> sm_has (ValidatorStates w) u"
  using assms by (auto simp: genesis_validator_def Let_def dcf_put_state_def dcf_put_set_def
      dcf_put_active_def update_validator_state_def update_validator_set_def
      update_active_validators_def fun_eq_iff split: if_splits option.splits)

lemma genesis_validators_strict:
  fixes w w' :: "('c, 'sig, 'z) dcf_world_scheme"
  assumes "genesis_validators cfg g es w = Some w'" and "dg_strict_validation g"
    and "distinct (map fst es)"
  shows "(\<forall>v score stake nm. (v, score, stake, nm) \<in> set es \<longrightarrow> sm_get (Stake w') v = Some stake)
    \<and> (\<forall>v. v \<notin> fst ` set es \<longrightarrow> sm_get (Stake w') v = sm_get (Stake w) v)
    \<and> (\<forall>v. sm_has (ValidatorStates w') v \<longleftrightarrow> v \<in> fst ` set es \<or> sm_has (ValidatorStates w) v)"
  using assms
proof (induction es arbitrary: w)
  case (Cons e es)
  obtain u score stake nm where e: "e = (u, score, stake, nm)"
    by (cases e)
  from Cons.prems(1) obtain w1 where first: "genesis_validator cfg g e w = Some w1"
      and rest: "genesis_validators cfg g es w1 = Some w'"
    by (auto split: option.splits)
  note one = genesis_validator_strict [OF first [unfolded e] Cons.prems(2)]
  have "distinct (map fst es)" and "u \<notin> fst ` set es"
    using Cons.prems(3) by (simp_all add: e)
  with Cons.IH [OF rest Cons.prems(2)] show ?case
    by (auto simp: e one)
qed simp

lemma genesis_validator_lists:
  fixes w w' :: "('c, 'sig, 'z) dcf_world_scheme"
  assumes "genesis_validator cfg g (v, score, stake, nm) w = Some w'"
    and "ValidatorSet w = vs" and "v \<in> set vs" and "length vs \<le> unat (PosMaxValidators (pos_cfg cfg))"
  shows "ValidatorSet w' = vs" and "system_block_hash w' = system_block_hash w"
    and "EpochScoreSnapshot w' = EpochScoreSnapshot w"
  using assms by (auto simp: genesis_validator_def Let_def dcf_put_state_def dcf_put_set_def
      dcf_put_active_def update_validator_state_def dcf_validator_set_def bv_truncate_id
      update_active_validators_def split: if_splits option.splits)

lemma genesis_validators_lists:
  fixes w w' :: "('c, 'sig, 'z) dcf_world_scheme"
  assumes "genesis_validators cfg g es w = Some w'" and "ValidatorSet w = vs"
    and "fst ` set es \<subseteq> set vs" and "length vs \<le> unat (PosMaxValidators (pos_cfg cfg))"
  shows "ValidatorSet w' = vs \<and> EpochScoreSnapshot w' = EpochScoreSnapshot w"
  using assms
proof (induction es arbitrary: w)
  case (Cons e es)
  obtain u score stake nm where e: "e = (u, score, stake, nm)"
    by (cases e)
  from Cons.prems(1) obtain w1 where first: "genesis_validator cfg g e w = Some w1"
      and rest: "genesis_validators cfg g es w1 = Some w'"
    by (auto split: option.splits)
  have "u \<in> set vs"
    using Cons.prems(3) by (simp add: e)
  note one = genesis_validator_lists [OF first [unfolded e] Cons.prems(2) this Cons.prems(4)]
  show ?case
    using Cons.IH [OF rest one(1) _ Cons.prems(4)] Cons.prems(3) by (simp add: one)
qed simp

lemma genesis_entries_fst:
  assumes "genesis_checks cfg g"
  shows "map fst (genesis_entries cfg g) = dg_validators g"
    and "set (map (fst \<circ> snd \<circ> snd) (genesis_entries cfg g))
      \<subseteq> {s. MinStake (pos_cfg cfg) \<le> s}"
proof -
  have cols: "length (column_or 0 g (dg_validator_scores g)) = length (dg_validators g)"
      "length (column_or (MinStake (pos_cfg cfg)) g (dg_validator_stakes g)) = length (dg_validators g)"
      "length (column_or None g (dg_validator_names g)) = length (dg_validators g)"
    using assms by (auto simp: genesis_checks_def column_ok_def column_or_def)
  then show "map fst (genesis_entries cfg g) = dg_validators g"
    by (simp add: genesis_entries_def)
  have "set (column_or (MinStake (pos_cfg cfg)) g (dg_validator_stakes g)) \<subseteq> {s. MinStake (pos_cfg cfg) \<le> s}"
    using assms by (auto simp: genesis_checks_def column_or_def list_all_iff)
  then show "set (map (fst \<circ> snd \<circ> snd) (genesis_entries cfg g)) \<subseteq> {s. MinStake (pos_cfg cfg) \<le> s}"
    unfolding genesis_entries_def
    by clarsimp (drule set_zip_rightD, drule set_zip_rightD, drule set_zip_leftD, blast)
qed

section \<open>The state after genesis\<close>

text \<open>The authors of epoch 0 are generated whenever there is a validator.\<close>

lemma genesis_authors_result:
  assumes "genesis_authors cfg g w = Some w'" and ne: "dg_validators g \<noteq> []"
    and "sm_get (EpochScoreSnapshot w) 0 = None" and "EpochConfigStorage w = dg_epoch_config g"
  shows "\<exists>authors. w' = w\<lparr>EpochAuthorSequences := sm_put 0 authors (EpochAuthorSequences w)\<rparr>
    \<and> length authors = min (unat (blocks_per_epoch (dg_epoch_config g))) 1000
    \<and> set authors \<subseteq> set (dg_validators g)"
proof -
  let ?vs = "dg_validators g"
  let ?n = "min (unat (blocks_per_epoch (dg_epoch_config g))) 1000"
  let ?seed = "generate_deterministic_randomness cfg 1 0 (replicate 32 0) (replicate 16 0) w"
  have "unat (min (blocks_per_epoch (dg_epoch_config g)) 1000) = ?n"
    by (simp add: min_def word_le_nat_alt)
  moreover have "sort ?vs \<noteq> []"
    using ne by (metis set_empty set_sort)
  then have "author_weights None ?vs \<noteq> []" "fst ` set (author_weights None ?vs) = set ?vs"
    using ne by (simp_all add: author_weights_sorted image_image)
  ultimately obtain names where
      "generate_deterministic_author_sequence cfg 0 ?vs ?seed w = Some names"
      "length names = ?n" "set names \<subseteq> set ?vs"
    using author_loop_members [of "author_weights None ?vs" cfg ?n 0 ?seed] assms(2-4)
    by (auto simp: generate_deterministic_author_sequence_def Let_def)
  with assms(1,2) show ?thesis
    by (auto simp: genesis_authors_def Let_def)
qed

text \<open>A strict genesis has booked the stake and the record of every validator.\<close>

lemma genesis_strict_stakes:
  assumes checks: "genesis_checks cfg g" and strict: "dg_strict_validation g"
    and loop: "genesis_validators cfg g (genesis_entries cfg g) w = Some w'"
    and v: "v \<in> set (dg_validators g)"
  shows "MinStake (pos_cfg cfg) \<le> sm_val 0 (Stake w') v \<and> sm_has (ValidatorStates w') v"
proof -
  let ?es = "genesis_entries cfg g"
  note entries = genesis_entries_fst [OF checks]
  have uniq: "distinct (map fst ?es)"
    using checks by (simp add: entries(1) genesis_checks_def)
  have firsts: "fst ` set ?es = set (dg_validators g)"
    using entries(1) by (metis set_map)
  with v obtain score stake nm where e: "(v, score, stake, nm) \<in> set ?es"
    by force
  then have "MinStake (pos_cfg cfg) \<le> stake"
    using entries(2) by force
  moreover have "sm_get (Stake w') v = Some stake" "sm_has (ValidatorStates w') v"
    using genesis_validators_strict [OF loop strict uniq] e v firsts by blast+
  ultimately show ?thesis
    by (simp add: sm_val_def)
qed

lemma genesis_result:
  fixes w w' :: "('c, 'sig, 'z) dcf_world_scheme"
  assumes "dcf_genesis_build cfg g w = Some w'" and "dg_validators g \<noteq> []"
    and "PosMaxValidators (pos_cfg cfg) = DvfMaxValidators (dvf_cfg cfg)"
    and "sm_get (EpochScoreSnapshot w) 0 = None"
  shows "ValidatorSet w' = dg_validators g \<and> ActiveValidators w' = dg_validators g
    \<and> distinct (dg_validators g) \<and> length (dg_validators g) \<le> unat (PosMaxValidators (pos_cfg cfg))
    \<and> (\<exists>authors. sm_get (EpochAuthorSequences w') 0 = Some authors
         \<and> length authors = min (unat (blocks_per_epoch (dg_epoch_config g))) 1000
         \<and> set authors \<subseteq> set (dg_validators g))
    \<and> PosWeight w' = Some (DefaultPosWeight cfg) \<and> PoiWeight w' = Some (DefaultPoiWeight cfg)
    \<and> TrustScoreBounds w' = genesis_bounds cfg \<and> RateLimitConfigStorage w' = default_rate_limits
    \<and> LastFinalizedBlock w' = 1 \<and> DcfCurrentEpoch w' = dg_current_epoch g
    \<and> (dg_strict_validation g \<longrightarrow> (\<forall>v\<in>set (dg_validators g).
         MinStake (pos_cfg cfg) \<le> sm_val 0 (Stake w') v \<and> sm_has (ValidatorStates w') v))"
proof -
  let ?vs = "dg_validators g"
  let ?es = "genesis_entries cfg g"
  from assms(1) have checks: "genesis_checks cfg g"
    by (simp add: dcf_genesis_build_def split: if_splits)
  then have distinct: "distinct ?vs" and bound: "length ?vs \<le> unat (PosMaxValidators (pos_cfg cfg))"
    by (simp_all add: genesis_checks_def)
  have set_put: "ValidatorSet (dcf_put_set cfg ?vs w) = ?vs"
    using bound assms(3) by (simp add: dcf_put_set_def update_validator_set_def bv_truncate_id)
  from assms(1) checks obtain w1 where
      loop: "genesis_validators cfg g ?es (dcf_put_set cfg ?vs w) = Some w1"
      and authors: "genesis_authors cfg g (genesis_storage cfg g w1) = Some w'"
    by (auto simp: dcf_genesis_build_def split: option.splits)
  let ?w2 = "genesis_storage cfg g w1"
  have lists: "ValidatorSet w1 = ?vs" "EpochScoreSnapshot w1 = EpochScoreSnapshot (dcf_put_set cfg ?vs w)"
    using genesis_validators_lists [OF loop set_put _ bound] genesis_entries_fst(1) [OF checks]
    by (metis order_refl set_map)+
  have "sm_get (EpochScoreSnapshot ?w2) 0 = None" "EpochConfigStorage ?w2 = dg_epoch_config g"
    using assms(4) lists(2) by (simp_all add: genesis_storage_def dcf_put_active_def
        update_active_validators_def dcf_put_set_def update_validator_set_def)
  from genesis_authors_result [OF authors assms(2) this] obtain names where
      w': "w' = ?w2\<lparr>EpochAuthorSequences := sm_put 0 names (EpochAuthorSequences ?w2)\<rparr>"
      and names: "length names = min (unat (blocks_per_epoch (dg_epoch_config g))) 1000"
        "set names \<subseteq> set ?vs"
    by blast
  have stored: "Stake ?w2 = Stake w1" "ValidatorStates ?w2 = ValidatorStates w1"
      "ValidatorSet ?w2 = ?vs" "ActiveValidators ?w2 = ?vs"
    using lists(1) bound assms(3)
    by (simp_all add: genesis_storage_def dcf_put_active_def update_active_validators_def bv_truncate_id)
  show ?thesis
    unfolding w' using distinct bound names stored genesis_strict_stakes [OF checks _ loop]
    by (simp add: genesis_storage_def)
qed

text \<open>
  C20. A successful genesis leaves a well-formed consensus state. Both lists hold exactly the
  configured validators, without duplicates and within the bound; the author sequence of epoch 0 has
  one slot per block up to 1000 and names only them; the weights, trust bounds, rate limits and
  finality markers have their initial values; and after a strict genesis every validator has a
  recorded stake of at least the minimum and a record.
\<close>
theorem genesis_wellformed:
  fixes w w' :: "('c, 'sig, 'z) dcf_world_scheme"
  assumes "dcf_genesis_build cfg g w = Some w'" and "dg_validators g \<noteq> []"
    and "PosMaxValidators (pos_cfg cfg) = DvfMaxValidators (dvf_cfg cfg)"
    and "sm_get (EpochScoreSnapshot w) 0 = None"
  shows "ValidatorSet w' = dg_validators g \<and> ActiveValidators w' = dg_validators g
    \<and> distinct (dg_validators g) \<and> length (dg_validators g) \<le> unat (PosMaxValidators (pos_cfg cfg))
    \<and> (\<exists>authors. sm_get (EpochAuthorSequences w') 0 = Some authors
         \<and> length authors = min (unat (blocks_per_epoch (dg_epoch_config g))) 1000
         \<and> set authors \<subseteq> set (dg_validators g))
    \<and> PosWeight w' = Some (DefaultPosWeight cfg) \<and> PoiWeight w' = Some (DefaultPoiWeight cfg)
    \<and> TrustScoreBounds w' = genesis_bounds cfg \<and> RateLimitConfigStorage w' = default_rate_limits
    \<and> LastFinalizedBlock w' = 1 \<and> DcfCurrentEpoch w' = dg_current_epoch g
    \<and> (dg_strict_validation g \<longrightarrow> (\<forall>v\<in>set (dg_validators g).
         MinStake (pos_cfg cfg) \<le> sm_val 0 (Stake w') v \<and> sm_has (ValidatorStates w') v))"
  using genesis_result [OF assms] .

text \<open>Only the checks and the reservations of the stakes can stop a genesis.\<close>

lemma genesis_authors_total: "genesis_authors cfg g w \<noteq> None"
proof (cases "dg_validators g = []")
  case True
  then show ?thesis
    by (simp add: genesis_authors_def)
next
  case False
  let ?weights = "author_weights (sm_get (EpochScoreSnapshot w) 0) (dg_validators g)"
  from False have "sort (dg_validators g) \<noteq> []"
    by (metis set_empty set_sort)
  then have "?weights \<noteq> []"
    by (simp add: author_weights_sorted)
  then have "author_loop cfg ?weights n offset seed \<noteq> None" for n offset seed
    using author_loop_members [of ?weights cfg n offset seed] by auto
  with False show ?thesis
    by (simp add: genesis_authors_def generate_deterministic_author_sequence_def Let_def)
qed

lemma genesis_build_Some:
  assumes "genesis_checks cfg g"
    and "genesis_validators cfg g (genesis_entries cfg g) (dcf_put_set cfg (dg_validators g) w) \<noteq> None"
  shows "\<exists>w'. dcf_genesis_build cfg g w = Some w'"
  using assms genesis_authors_total by (auto simp: dcf_genesis_build_def)

lemma genesis_validator_Some:
  assumes "stake \<le> free_balance (currency_of cfg) (balances w) v"
    and "reserve (currency_of cfg) v stake (balances w) = Some bal"
    and "RewardBoostDivisor (pos_cfg cfg) \<noteq> 0" and "PercentagePrecision (poi_cfg cfg) \<noteq> 0"
  shows "\<exists>w'. genesis_validator cfg g (v, score, stake, nm) w = Some w' \<and> balances w' = bal"
  using assms by (simp add: not_less [symmetric] genesis_validator_def Let_def dcf_put_state_def update_validator_state_def
      dcf_put_set_def update_validator_set_def dcf_put_active_def update_active_validators_def)

definition sample_dcf_genesis :: dcf_genesis where
  "sample_dcf_genesis = \<lparr>dg_validators = [alice, bob], dg_validator_scores = [],
     dg_validator_stakes = [5000, 8000], dg_current_epoch = 0,
     dg_epoch_config = \<lparr>blocks_per_epoch = 100, ec_min_stake = 1000, ec_max_validators = 100\<rparr>,
     dg_validator_names = [], dg_strict_validation = True\<rparr>"

lemma sample_genesis_builds:
  "\<exists>w'. dcf_genesis_build sample_config sample_dcf_genesis empty_dcf_world = Some w'"
proof (rule genesis_build_Some)
  show "genesis_checks sample_config sample_dcf_genesis"
    by (simp add: genesis_checks_def validate_genesis_config_def column_ok_def sample_dcf_genesis_def
        dcf_sample_defs alice_def bob_def)
  have entries: "genesis_entries sample_config sample_dcf_genesis
      = [(alice, 0, 5000, None), (bob, 0, 8000, None)]"
    by (simp add: genesis_entries_def column_or_def sample_dcf_genesis_def)
  have divisors: "RewardBoostDivisor (pos_cfg sample_config) \<noteq> 0"
      "PercentagePrecision (poi_cfg sample_config) \<noteq> 0"
    by (simp_all add: config_defs runtime_pos_config_def)
  have book: "currency_of sample_config = book_currency"
    by (simp add: config_defs)
  let ?w = "dcf_put_set sample_config (dg_validators sample_dcf_genesis) empty_dcf_world"
  have "balances ?w = (\<lambda>v. (50000, 20000))"
    by (simp add: dcf_put_set_def update_validator_set_def empty_dcf_world_def)
  then obtain w1 where w1: "genesis_validator sample_config sample_dcf_genesis (alice, 0, 5000, None) ?w = Some w1"
      "balances w1 = (\<lambda>v. (50000, 20000))(alice := (45000, 25000))"
    using genesis_validator_Some [of 5000 sample_config ?w alice _ sample_dcf_genesis 0 None] divisors
    by (auto simp: book book_currency_def)
  obtain w2 where "genesis_validator sample_config sample_dcf_genesis (bob, 0, 8000, None) w1 = Some w2"
    using genesis_validator_Some [of 8000 sample_config w1 bob _ sample_dcf_genesis 0 None] divisors
    by (auto simp: book book_currency_def w1(2) alice_def bob_def)
  with w1(1) show "genesis_validators sample_config sample_dcf_genesis
      (genesis_entries sample_config sample_dcf_genesis) ?w \<noteq> None"
    by (simp add: entries)
qed

theorem genesis_wellformed_witness:
  "\<exists>w'. dcf_genesis_build sample_config sample_dcf_genesis empty_dcf_world = Some w'
     \<and> ActiveValidators w' = [alice, bob] \<and> LastFinalizedBlock w' = 1
     \<and> 1000 \<le> sm_val 0 (Stake w') bob"
proof -
  from sample_genesis_builds obtain w' where
      w': "dcf_genesis_build sample_config sample_dcf_genesis empty_dcf_world = Some w'"
    by blast
  have "dg_validators sample_dcf_genesis \<noteq> []"
    "PosMaxValidators (pos_cfg sample_config) = DvfMaxValidators (dvf_cfg sample_config)"
    "sm_get (EpochScoreSnapshot empty_dcf_world) 0 = None"
    by (simp_all add: sample_dcf_genesis_def dcf_sample_defs)
  from genesis_wellformed [OF w' this] w' show ?thesis
    by (simp add: sample_dcf_genesis_def dcf_sample_defs)
qed

end
