(* ===== verification/Parameter_Properties.thy ===== *)
theory Parameter_Properties
  imports Genesis_Properties Score_Properties
begin

text \<open>
  Root can change the parameters of the consensus only within safe limits: from genesis on, and
  whatever calls succeed, the bounds of the trust score stay sane, so the theorem on its movement
  applies in every such state.
\<close>

section \<open>Runs of the parameter store\<close>

text \<open>What the parameter store reads and writes.\<close>

definition same_params ::
  "('c, 'sig, 'z) dcf_world_scheme \<Rightarrow> ('c, 'sig, 'z) dcf_world_scheme \<Rightarrow> bool" where
  "same_params w w' \<longleftrightarrow> GovernanceConfigStorage w' = GovernanceConfigStorage w
     \<and> TrustScoreBounds w' = TrustScoreBounds w"

inductive param_reachable ::
  "('c, 'sig) dcf_config \<Rightarrow> scale_codec \<Rightarrow> ('c, 'sig, 'z) dcf_world_scheme \<Rightarrow> bool" for cfg K where
  genesis: "dcf_genesis_build cfg g w = Some w' \<Longrightarrow> param_reachable cfg K w'"
| update: "param_reachable cfg K w \<Longrightarrow> update_dcf_parameter cfg K orig param v w = (r, w')
    \<Longrightarrow> param_reachable cfg K w'"
| elsewhere: "param_reachable cfg K w \<Longrightarrow> same_params w w' \<Longrightarrow> param_reachable cfg K w'"

text \<open>The constants of the pallet lie in the ranges that genesis writes next to them.\<close>

definition sane_constants :: "('c, 'sig) dcf_config \<Rightarrow> bool" where
  "sane_constants cfg \<longleftrightarrow>
     MinTrustScore cfg < MaxTrustScore cfg \<and> MaxTrustScore cfg \<le> 15000
     \<and> MaxTrustScoreGrowthRate cfg \<le> 2000 \<and> MaxTrustScoreDecayRate cfg \<le> 1000
     \<and> TrustScoreStabilityFactor cfg \<le> 9500
     \<and> DefaultPosWeight cfg + DefaultPoiWeight cfg = ucast (PercentagePrecision (poi_cfg cfg))"

definition params_ok ::
  "('c, 'sig) dcf_config \<Rightarrow> governance_config \<Rightarrow> trust_score_bounds \<Rightarrow> bool" where
  "params_ok cfg c b \<longleftrightarrow>
     range_max (gc_trust_score_max_growth_rate c) = 2000
     \<and> range_max (gc_trust_score_max_decay_rate c) = 1000
     \<and> range_max (gc_trust_score_stability_factor c) = 9500
     \<and> range_max (gc_trust_score_max_value c) = 15000
     \<and> range_min (gc_high_performance_score c) = 1000
     \<and> range_max (gc_high_performance_score c) = MaxValidatorScore (poi_cfg cfg)
     \<and> range_current (gc_pos_weight c) = DefaultPosWeight cfg
     \<and> range_current (gc_poi_weight c) = DefaultPoiWeight cfg
     \<and> range_current (gc_trust_score_min_value c) = min_score b
     \<and> range_current (gc_trust_score_max_value c) = max_score b
     \<and> range_current (gc_trust_score_max_growth_rate c) = max_growth_rate b
     \<and> range_current (gc_trust_score_max_decay_rate c) = max_decay_rate b
     \<and> range_current (gc_trust_score_stability_factor c) = stability_factor b
     \<and> min_score b < max_score b \<and> max_score b \<le> 15000 \<and> max_growth_rate b \<le> 2000
     \<and> max_decay_rate b \<le> 1000 \<and> stability_factor b \<le> 9500"

lemma params_ok_sane: "params_ok cfg c b \<Longrightarrow> bounds_sane b"
  unfolding params_ok_def bounds_sane_def by (auto simp: word_le_nat_alt word_less_nat_alt)

lemma update_rangeD:
  assumes "update_range d r allowed err store = Inr c'"
  shows "\<exists>x. d = Some x \<and> range_min r \<le> x \<and> x \<le> range_max r \<and> allowed x
    \<and> c' = store (r\<lparr>range_current := x\<rparr>)"
  using assms by (auto simp: update_range_def split: option.splits if_splits)

text \<open>A weight can only be set to what the other weight leaves, which is its present value.\<close>

lemma weight_unique: "(x::u64) + q = p + q \<longleftrightarrow> x = p" "(p::u64) + x = p + q \<longleftrightarrow> x = q"
  by auto

text \<open>
  A validated value is applied without error: both steps decode the same bytes. What it leaves is in
  order again.
\<close>

lemma validated_applies:
  fixes w :: "('c, 'sig, 'z) dcf_world_scheme"
  assumes "validate_and_update_parameter K precision param v (GovernanceConfigStorage w) = Inr c'"
    and "params_ok cfg (GovernanceConfigStorage w) (TrustScoreBounds w)"
    and "DefaultPosWeight cfg + DefaultPoiWeight cfg = precision"
  shows "\<exists>w2. apply_parameter_change K param v (w\<lparr>GovernanceConfigStorage := c'\<rparr>) = Inr w2
    \<and> params_ok cfg (GovernanceConfigStorage w2) (TrustScoreBounds w2)"
proof -
  note simps = apply_decoded_def mutate_trust_config_def mutate_bounds_def params_ok_def
  show ?thesis
    using assms by (cases param) (clarsimp dest!: update_rangeD simp: simps; fastforce?)+
qed

lemma genesis_params:
  fixes w w' :: "('c, 'sig, 'z) dcf_world_scheme"
  assumes "dcf_genesis_build cfg g w = Some w'" and "sane_constants cfg"
  shows "params_ok cfg (GovernanceConfigStorage w') (TrustScoreBounds w')"
proof -
  from assms(1) obtain w1 where "genesis_authors cfg g (genesis_storage cfg g w1) = Some w'"
    by (auto simp: dcf_genesis_build_def split: if_splits option.splits)
  then have "GovernanceConfigStorage w' = genesis_governance cfg g"
    "TrustScoreBounds w' = genesis_bounds cfg"
    by (auto simp: genesis_authors_def genesis_storage_def Let_def split: if_splits)
  with assms(2) show ?thesis
    by (simp add: params_ok_def genesis_governance_def genesis_bounds_def range_of_def
        sane_constants_def)
qed

lemma update_params:
  fixes w w' :: "('c, 'sig, 'z) dcf_world_scheme"
  assumes "update_dcf_parameter cfg K orig param v w = (r, w')" and "sane_constants cfg"
    and "params_ok cfg (GovernanceConfigStorage w) (TrustScoreBounds w)"
  shows "params_ok cfg (GovernanceConfigStorage w') (TrustScoreBounds w')"
proof -
  have sum: "DefaultPosWeight cfg + DefaultPoiWeight cfg = ucast (PercentagePrecision (poi_cfg cfg))"
    using assms(2) by (simp add: sane_constants_def)
  note applied = validated_applies [OF _ assms(3) sum]
  from assms(1,3) show ?thesis
    by (auto simp: update_dcf_parameter_def dcf_deposit_event_def Let_def
        split: sum.splits dest: applied)
qed

lemma param_reachable_ok:
  assumes "param_reachable cfg K w" and "sane_constants cfg"
  shows "params_ok cfg (GovernanceConfigStorage w) (TrustScoreBounds w)"
  using assms
proof (induction rule: param_reachable.induct)
  case (genesis g w w')
  then show ?case by (rule genesis_params)
next
  case (update w orig param v r w')
  then show ?case by (blast intro: update_params)
next
  case (elsewhere w w')
  then show ?case by (simp add: same_params_def)
qed

lemma runtime_constants_sane:
  assumes "PercentagePrecision poi = 10000"
  shows "sane_constants (runtime_dcf_config poi dvf C h d a b)"
  using assms by (simp add: sane_constants_def runtime_dcf_config_def)

text \<open>
  C27. From genesis on, \<open>update_dcf_parameter\<close> keeps the trust score bounds sane: the minimum stays
  below the maximum, and the growth, decay and smoothing rates stay below one. It keeps the
  consensus weights too much: since each weight must add up with the stored other one, the only
  value a call can set is the default, and with scores below 1000 the threshold for high performers
  cannot be set at all.
\<close>
theorem parameters_keep_bounds_sane:
  fixes w w' :: "('c, 'sig, 'z) dcf_world_scheme"
  assumes "sane_constants cfg" and "param_reachable cfg K w"
    and "update_dcf_parameter cfg K orig param v w = (r, w')"
  shows "bounds_sane (TrustScoreBounds w') \<and> min_score (TrustScoreBounds w') < max_score (TrustScoreBounds w')
    \<and> (param = ParamPosWeight \<and> r = Inr () \<longrightarrow> PosWeight w' = Some (DefaultPosWeight cfg))
    \<and> (param = ParamPoiWeight \<and> r = Inr () \<longrightarrow> PoiWeight w' = Some (DefaultPoiWeight cfg))
    \<and> (param = ParamHighPerformanceScore \<and> MaxValidatorScore (poi_cfg cfg) < 1000 \<longrightarrow> r \<noteq> Inr ())"
proof (intro conjI impI)
  note before = param_reachable_ok [OF assms(2,1)]
  note after = update_params [OF assms(3,1) before]
  show "bounds_sane (TrustScoreBounds w')"
    using after by (rule params_ok_sane)
  show "min_score (TrustScoreBounds w') < max_score (TrustScoreBounds w')"
    using after unfolding params_ok_def by blast
  have weights: "range_current (gc_pos_weight (GovernanceConfigStorage w)) = DefaultPosWeight cfg"
      "range_current (gc_poi_weight (GovernanceConfigStorage w)) = DefaultPoiWeight cfg"
    and high: "range_min (gc_high_performance_score (GovernanceConfigStorage w)) = 1000"
      "range_max (gc_high_performance_score (GovernanceConfigStorage w)) = MaxValidatorScore (poi_cfg cfg)"
    using before unfolding params_ok_def by blast+
  have sum: "ucast (PercentagePrecision (poi_cfg cfg)) = DefaultPosWeight cfg + DefaultPoiWeight cfg"
    using assms(1) by (simp add: sane_constants_def)
  {
    assume "param = ParamPosWeight \<and> r = Inr ()"
    with assms(3) show "PosWeight w' = Some (DefaultPosWeight cfg)"
      by (auto simp: update_dcf_parameter_def Let_def sum weights apply_decoded_def dcf_deposit_event_def
          dest!: update_rangeD split: sum.splits)
  next
    assume "param = ParamPoiWeight \<and> r = Inr ()"
    with assms(3) show "PoiWeight w' = Some (DefaultPoiWeight cfg)"
      by (auto simp: update_dcf_parameter_def Let_def sum weights apply_decoded_def dcf_deposit_event_def
          dest!: update_rangeD split: sum.splits)
  next
    assume narrow: "param = ParamHighPerformanceScore \<and> MaxValidatorScore (poi_cfg cfg) < 1000"
    have False if "x \<ge> 1000" "x \<le> MaxValidatorScore (poi_cfg cfg)" for x
      using narrow that by auto
    with narrow assms(3) show "r \<noteq> Inr ()"
      by (auto simp: update_dcf_parameter_def Let_def high dest!: update_rangeD split: sum.splits)
  }
qed

text \<open>A codec that reads the first byte, to run the call.\<close>

definition byte_codec :: scale_codec where
  "byte_codec = \<lparr>
     decode_u32 = (\<lambda>v. case v of [] \<Rightarrow> None | b # _ \<Rightarrow> Some (ucast b * 100)),
     decode_u64 = (\<lambda>v. case v of [] \<Rightarrow> None | b # _ \<Rightarrow> Some (ucast b * 100)),
     decode_u128 = (\<lambda>v. case v of [] \<Rightarrow> None | b # _ \<Rightarrow> Some (ucast b * 100)),
     encode_u32 = (\<lambda>n. [ucast (n div 100)]),
     encode_u64 = (\<lambda>n. [ucast (n div 100)]),
     encode_u128 = (\<lambda>n. [ucast (n div 100)])\<rparr>"

theorem parameters_keep_bounds_sane_witness:
  "\<exists>w :: (account_id \<Rightarrow> u128 \<times> u128, nat) dcf_world. param_reachable sample_config byte_codec w
     \<and> bounds_sane (TrustScoreBounds (snd (update_dcf_parameter sample_config byte_codec Root
          ParamTrustScoreMaxGrowthRate [20] w)))
     \<and> fst (update_dcf_parameter sample_config byte_codec Root ParamHighPerformanceScore [10] w) \<noteq> Inr ()"
proof -
  from sample_genesis_builds obtain w where
      "dcf_genesis_build sample_config sample_dcf_genesis empty_dcf_world = Some w"
    by blast
  then have reach: "param_reachable sample_config byte_codec w"
    by (rule param_reachable.genesis)
  have sane: "sane_constants sample_config"
    unfolding sample_config_def by (rule runtime_constants_sane) (simp add: config_defs)
  note safe = parameters_keep_bounds_sane [OF sane reach prod.collapse [symmetric]]
  have "MaxValidatorScore (poi_cfg sample_config) < 1000"
    by (simp add: config_defs)
  with reach safe [of Root ParamTrustScoreMaxGrowthRate "[20]"]
    safe [of Root ParamHighPerformanceScore "[10]"] show ?thesis
    by (intro exI [of _ w]) simp
qed

text \<open>
  The calls for the weights and for single parameters do not know of each other: after
  \<open>update_consensus_weights\<close> to 70 and 30 per cent, setting the stake weight to its stored value of 60
  per cent is accepted and leaves weights that no longer add up.
\<close>

lemma weights_drift_apart:
  fixes w :: "('c, 'sig, 'z) dcf_world_scheme"
  assumes "params_ok cfg (GovernanceConfigStorage w) (TrustScoreBounds w)" and "sane_constants cfg"
    and "range_min (gc_pos_weight (GovernanceConfigStorage w)) \<le> DefaultPosWeight cfg"
    and "DefaultPosWeight cfg \<le> range_max (gc_pos_weight (GovernanceConfigStorage w))"
    and "p + q = ucast (PercentagePrecision (poi_cfg cfg))"
    and "decode_u64 K v = Some (DefaultPosWeight cfg)" and "length (encode_u64 K (DefaultPosWeight cfg)) \<le> 64"
    and "update_consensus_weights cfg Root p q w = (Inr (), w1)"
  shows "\<exists>w2. update_dcf_parameter cfg K Root ParamPosWeight v w1 = (Inr (), w2)
    \<and> PosWeight w2 = Some (DefaultPosWeight cfg) \<and> PoiWeight w2 = Some q"
proof -
  have w1: "w1 = dcf_deposit_event (ConsensusWeightsUpdated p q) (w\<lparr>PosWeight := Some p, PoiWeight := Some q\<rparr>)"
    using assms(5,8) by (simp add: update_consensus_weights_def)
  have "range_current (gc_pos_weight (GovernanceConfigStorage w)) = DefaultPosWeight cfg"
    "range_current (gc_poi_weight (GovernanceConfigStorage w)) = DefaultPoiWeight cfg"
    "DefaultPosWeight cfg + DefaultPoiWeight cfg = ucast (PercentagePrecision (poi_cfg cfg))"
    using assms(1,2) by (simp_all add: params_ok_def sane_constants_def)
  with assms(3,4,6,7) show ?thesis
    by (simp add: update_dcf_parameter_def w1 dcf_deposit_event_def bounded_bytes_def
        update_range_def apply_decoded_def Let_def)
qed

end
