(* ===== verification/Inference_Properties.thy ===== *)
theory Inference_Properties
  imports Dcf_Config
begin

text \<open>
  Inference submissions and challenges against the interface they are given by the other pallets
  (\<open>PosInterface\<close> and \<open>DcfInterface\<close>), and what the interface of the runtime makes of them.
\<close>

section \<open>The interface\<close>




section \<open>In the runtime\<close>



end
