(* ===== verification/Dcf_Hook.thy ===== *)
theory Dcf_Hook
  imports Dcf_Config
begin

text \<open>
  What the block hook of \<open>pallet-cerulea-dcf\<close> does to the finality markers. \<open>marks\<close> is the part
  of the state that the markers and the finality gadget own; every operation of the hook other
  than the update of the markers leaves it alone, and the update is capped at the block that the
  gadget has finalised. The simplification rules are collected as \<open>marks_simps\<close>.
\<close>

named_theorems marks_simps

definition marks :: "('c, 'sig, 'z) dcf_world_scheme \<Rightarrow> u32 \<times> u32 \<times> u32 \<times> u32 \<times> u32" where
  "marks w = (LastFinalizedBlock w, FinalizedBlockNumber w, PreviousFinalizedBlock w,
     PreviousEpochBestBlock w, block_number w)"

lemma fold_keeps:
  assumes "\<And>x w. x \<in> set xs \<Longrightarrow> m (f x w) = m w"
  shows "m (fold f xs w) = m w"
  using assms by (induction xs arbitrary: w) auto

lemma each_keeps:
  assumes "\<And>x w. x \<in> set xs \<Longrightarrow> m (snd (f x w)) = m w"
  shows "m (each_ignore f xs w) = m w"
  using assms by (induction xs arbitrary: w) auto

section \<open>The registry and the scores\<close>

lemma marks_registry [marks_simps]:
  fixes w :: "('c, 'sig, 'z) dcf_world_scheme"
  shows "marks (dcf_deposit_event e w) = marks w"
    "marks (dcf_put_state cfg v st w) = marks w"
    "marks (dcf_put_active cfg vs w) = marks w"
    "marks (dcf_put_set cfg vs w) = marks w"
    "marks (remove_validator_state v w) = marks w"
    "marks (add_pending_action v a w) = marks w"
    "marks (remove_pending_action v w) = marks w"
    "marks (set_validator_join_time v n w) = marks w"
    "marks (set_validator_blocks_authored v n w) = marks w"
    "marks (reset_block_counters w) = marks w"
    "marks (reset_epoch_totals w) = marks w"
    "marks (snd (load_weights cfg w)) = marks w"
    "marks (freeze_epoch_weights c n ws w) = marks w"
  by (simp_all add: marks_def dcf_deposit_event_def dcf_put_state_def update_validator_state_def
      dcf_put_active_def update_active_validators_def dcf_put_set_def update_validator_set_def
      remove_validator_state_def add_pending_action_def remove_pending_action_def
      set_validator_join_time_def set_validator_blocks_authored_def reset_block_counters_def
      reset_epoch_totals_def load_weights_def freeze_epoch_weights_def note_set_change_def
      dvf_deposit_event_def pos_deposit_event_def Let_def split: prod.split)

lemma marks_mutate:
  assumes "\<And>st w. marks (snd (f st w)) = marks w"
  shows "marks (snd (mutate_validator cfg v f w)) = marks w"
proof (cases "dcf_validator_state cfg w v")
  case (Some st)
  with assms [of st w] show ?thesis
    by (cases "f st w"; cases "fst (f st w)") (auto simp: mutate_validator_def marks_simps)
qed (simp add: mutate_validator_def)

lemma marks_eject [marks_simps]: "marks (snd (dcf_eject_validator cfg v r w)) = marks w"
  by (simp add: dcf_eject_validator_def Let_def marks_simps)

lemma marks_scores [marks_simps]:
  "marks (snd (dcf_update_final_score cfg v w)) = marks w"
  "marks (snd (apply_score_decay cfg v e w)) = marks w"
  "marks (snd (dcf_boost_score cfg v n b w)) = marks w"
  "marks (snd (record_missed_block cfg v w)) = marks w"
  unfolding dcf_update_final_score_def apply_score_decay_def dcf_boost_score_def
    record_missed_block_def
  by (rule marks_mutate; simp add: Let_def marks_simps load_weights_def; simp add: marks_def)+

text \<open>A record is changed and, where it existed, the state is processed further.\<close>

lemma marks_mutate_then:
  assumes "mutate_validator cfg v (\<lambda>st w. (Inr (g st w), w)) w = (r, w1)"
  shows "marks w1 = marks w"
  using marks_mutate [of "\<lambda>st w. (Inr (g st w), w)" cfg v w] assms by simp

lemma marks_aggregate [marks_simps]: "marks (aggregate_validator cfg vs v w) = marks w"
  by (auto simp: aggregate_validator_def Let_def marks_simps marks_mutate_then
      split: sum.split prod.split)

lemma marks_own [marks_simps]:
  "marks (w\<lparr>ValidatorTrustScores := x1\<rparr>) = marks w" "marks (w\<lparr>TrustScoreHistory := x2\<rparr>) = marks w"
  "marks (w\<lparr>DcfCurrentEpoch := x3\<rparr>) = marks w" "marks (w\<lparr>EpochHistories := x4\<rparr>) = marks w"
  "marks (w\<lparr>EpochAuthorSequences := x5\<rparr>) = marks w" "marks (w\<lparr>randomness_salt := x6\<rparr>) = marks w"
  "marks (w\<lparr>epoch_salt := x7\<rparr>) = marks w" "marks (w\<lparr>last_processed_epoch := x8\<rparr>) = marks w"
  "marks (w\<lparr>EpochScoreSnapshot := x10\<rparr>) = marks w"
  "marks (w\<lparr>Proposals := x11\<rparr>) = marks w" "marks (w\<lparr>TrustScoreStabilityMetrics := x12\<rparr>) = marks w"
  by (simp_all add: marks_def)

lemma marks_trust [marks_simps]: "marks (snd (update_trust_score cfg v w)) = marks w"
  unfolding update_trust_score_def Let_def
  by (auto simp: marks_simps dest: marks_mutate_then split: sum.split prod.split option.split)

lemma marks_boosted:
  "dcf_boost_score cfg v n b w = (r, w1) \<Longrightarrow> marks w1 = marks w"
  using marks_scores(3) [of cfg v n b w] by simp

lemma marks_authorship [marks_simps]: "marks (snd (record_block_authorship cfg v w)) = marks w"
  unfolding record_block_authorship_def
  by (auto simp: marks_simps dest!: marks_mutate_then marks_boosted split: sum.split prod.split)

lemma marks_trust_all [marks_simps]: "marks (update_all_trust_scores cfg w) = marks w"
  by (simp add: update_all_trust_scores_def update_trust_score_stability_metrics_def Let_def
      each_keeps [where m = marks] marks_simps)

lemma marks_passes [marks_simps]:
  "marks (apply_validator_score_decay cfg e w) = marks w"
  "marks (run_comprehensive_score_aggregation cfg w) = marks w"
  "marks (update_validator_participation_rates cfg w) = marks w"
  "marks (update_epoch_metrics cfg w) = marks w"
  "marks (dcf_check_and_handle_underperforming_validators cfg w) = marks w"
  unfolding apply_validator_score_decay_def run_comprehensive_score_aggregation_def
    update_validator_participation_rates_def update_epoch_metrics_def
    dcf_check_and_handle_underperforming_validators_def dcf_check_validator_def Let_def
  by (rule each_keeps [where m = marks] fold_keeps [where m = marks];
      simp add: marks_simps split: option.split)+

section \<open>Governance\<close>

text \<open>The staking pallet cannot reach the markers, and the registry pallet keeps them as its handler.\<close>

interpretation marks_frame: pos_transparent "dvf_handler c" "\<lambda>w. marks w = x" for c x
proof (unfold_locales, goal_cases)
  case (1 w' w)
  then show ?case by (cases w; cases w') (simp add: marks_def)
qed (simp_all add: handler_defs Let_def marks_def mutate_state_def remove_active_def
    remove_from_set_def split: option.split)

lemma marks_then_do: "marks (snd r) = x \<Longrightarrow> (\<And>w. marks (g w) = marks w) \<Longrightarrow> marks (snd (then_do r g)) = x"
  by (rule then_do_invariant [where P = "\<lambda>w. marks w = x"]) simp_all

lemma marks_action [marks_simps]: "marks (run_action cfg (dvf_handler c) a w) = marks w"
proof (cases a)
  case (AddValidator v)
  then show ?thesis
    by (simp add: execute_add_validator_def Let_def marks_simps)
qed (simp_all add: execute_eject_validator_def execute_remove_validator_def marks_then_do marks_simps
    marks_frame.reward_keeps marks_frame.slash_keeps marks_frame.reward_each_keeps
    marks_frame.exported_keeps)

lemmas marks_action_parts = marks_action [of _ _ "EjectAction _ _", unfolded run_action.simps]
  marks_action [of _ _ "AddValidator _", unfolded run_action.simps]
  marks_action [of _ _ "RemoveValidator _", unfolded run_action.simps]

lemma marks_proposals [marks_simps]:
  "marks (process_epoch_proposals cfg (dvf_handler c) w) = marks w"
  unfolding process_epoch_proposals_def
  by (rule fold_keeps [where m = marks])
    (auto simp: process_epoch_proposal_def Let_def marks_simps marks_action_parts
      split: option.split proposal_action.split)

section \<open>Epoch transition\<close>

lemma marks_automatic [marks_simps]:
  "marks (create_automatic_join_proposal v n w) = marks w"
  "marks (create_automatic_eject_proposal cfg v r w) = marks w"
  by (simp_all add: create_automatic_join_proposal_def create_automatic_eject_proposal_def Let_def
      marks_simps)

lemma marks_propose [marks_simps]:
  "marks (propose_add_high_scoring_validators cfg active scored n w) = marks w"
  "marks (propose_replace_low_scoring_validators cfg active scored w) = marks w"
  "marks (propose_remove_excess_validators cfg active n w) = marks w"
  unfolding propose_add_high_scoring_validators_def propose_remove_excess_validators_def
  by (rule fold_keeps [where m = marks], force simp: marks_simps,
      simp add: propose_replace_low_scoring_validators_def marks_simps split: list.split prod.split,
      rule fold_keeps [where m = marks], force simp: marks_simps)

lemma marks_generate [marks_simps]: "marks (generate_automatic_validator_proposals cfg w) = marks w"
  by (simp add: generate_automatic_validator_proposals_def Let_def marks_simps)

lemma marks_pending [marks_simps]: "marks (snd (apply_pending_validator_actions cfg w)) = marks w"
  by (simp add: apply_pending_validator_actions_def Let_def marks_simps fold_keeps [where m = marks]
      split: prod.split)

lemma marks_uptime [marks_simps]: "marks (uptime_event cfg n v w) = marks w"
  by (simp add: uptime_event_def Let_def marks_simps split: option.split)

lemma marks_begin: "marks (snd (begin_epoch cfg w)) = marks w"
  by (simp add: begin_epoch_def Let_def marks_simps split: prod.split)
    (metis marks_pending marks_registry(11) marks_own(3) snd_conv)

lemma marks_announce: "marks (announce_epoch cfg e added removed w) = marks w"
  by (simp add: announce_epoch_def Let_def push_epoch_history_def marks_simps
      fold_keeps [where m = marks] split: prod.split)

lemma marks_epoch [marks_simps]: "marks (handle_epoch_transition cfg w) = marks w"
  using marks_begin [of cfg w]
  by (auto simp: handle_epoch_transition_def marks_announce split: prod.split)

lemma marks_deterministic:
  assumes "handle_deterministic_epoch_transition cfg n w = Some w'"
  shows "marks w' = marks (w\<lparr>PreviousEpochBestBlock := sat_sub n 1\<rparr>)"
  using assms by (auto simp: handle_deterministic_epoch_transition_def Let_def marks_simps
      split: option.splits)

section \<open>Regular blocks\<close>

lemma marks_every:
  "every k n f w = Some w' \<Longrightarrow> (\<And>w. marks (f w) = marks w) \<Longrightarrow> marks w' = marks w"
  by (auto simp: every_def split: if_splits)

lemma marks_authorship_block:
  "process_block_authorship cfg n w = Some w' \<Longrightarrow> marks w' = marks w"
  by (auto simp: process_block_authorship_def marks_simps split: option.splits if_splits)

lemma marks_snapshot [marks_simps]: "marks (snapshot_scores cfg n e w) = marks w"
  by (simp add: snapshot_scores_def Let_def marks_simps)

lemma marks_regular:
  assumes "handle_regular_block_processing cfg n e w = Some w'"
  shows "marks w' = marks w"
proof -
  obtain w1 w2 w3 w4 where steps: "process_block_authorship cfg n w = Some w1"
    "every (ScoreDecayInterval cfg) n (apply_validator_score_decay cfg e) w1 = Some w2"
    "every (ParticipationUpdateInterval cfg) n (update_validator_participation_rates cfg) w2 = Some w3"
    "every (DcfUnderperformanceCheckInterval cfg) n
       (dcf_check_and_handle_underperforming_validators cfg) (snapshot_scores cfg n e w3) = Some w4"
    "every (ValidatorProposalInterval cfg) n (generate_automatic_validator_proposals cfg) w4 = Some w'"
    using assms by (auto simp: handle_regular_block_processing_def bind_eq_Some_conv)
  have "marks w' = marks w4"
    using steps(5) by (rule marks_every) (rule marks_simps)
  also have "\<dots> = marks (snapshot_scores cfg n e w3)"
    using steps(4) by (rule marks_every) (rule marks_simps)
  also have "\<dots> = marks w3"
    by (rule marks_simps)
  also have "\<dots> = marks w2"
    using steps(3) by (rule marks_every) (rule marks_simps)
  also have "\<dots> = marks w1"
    using steps(2) by (rule marks_every) (rule marks_simps)
  finally show ?thesis
    using marks_authorship_block [OF steps(1)] by simp
qed

text \<open>With intervals and an epoch length that are not zero the processing returns.\<close>

definition intervals_ok :: "('c, 'sig) dcf_config \<Rightarrow> bool" where
  "intervals_ok cfg \<longleftrightarrow> EpochLength cfg \<noteq> 0 \<and> ScoreDecayInterval cfg \<noteq> 0
     \<and> ParticipationUpdateInterval cfg \<noteq> 0 \<and> DcfUnderperformanceCheckInterval cfg \<noteq> 0
     \<and> ValidatorProposalInterval cfg \<noteq> 0"

lemma every_returns: "k \<noteq> 0 \<Longrightarrow> \<exists>w'. every k n f w = Some w'"
  by (simp add: every_def)

lemma regular_returns:
  assumes "intervals_ok cfg" and "blocks_per_epoch (EpochConfigStorage w) \<noteq> 0"
  shows "\<exists>w'. handle_regular_block_processing cfg n e w = Some w'"
proof -
  have "\<exists>w1. process_block_authorship cfg n w = Some w1"
    using assms(2)
    by (simp add: process_block_authorship_def get_expected_author_def Let_def split: option.split)
  with assms(1) show ?thesis
    by (auto simp: handle_regular_block_processing_def intervals_ok_def every_def)
qed

lemma deterministic_returns:
  "\<exists>w'. handle_deterministic_epoch_transition cfg n w = Some w'"
proof -
  have "\<exists>vs. generate_deterministic_author_sequence cfg e active seed w1 = Some vs" for e active seed w1
  proof (cases "active = []")
    case False
    then have "author_weights snap active \<noteq> []" for snap
      by (metis author_weights_sorted list.map_disc_iff set_empty set_sort)
    then obtain vs where "author_loop cfg (author_weights (sm_get (EpochScoreSnapshot w1) e) active)
        (unat (min (blocks_per_epoch (EpochConfigStorage w1)) 1000)) 0 seed = Some vs"
      using author_loop_members by blast
    with False show ?thesis
      by (simp add: generate_deterministic_author_sequence_def Let_def)
  qed (simp add: generate_deterministic_author_sequence_def)
  then show ?thesis
    by (auto simp: handle_deterministic_epoch_transition_def Let_def split: option.split)
qed

section \<open>The markers in the hook\<close>

text \<open>
  From \<open>w\<close> to \<open>w'\<close> the marker did not go back, moved at most to block \<open>m\<close> and never past the block
  that the gadget has finalised, whose number is unchanged.
\<close>

definition advanced ::
  "u32 \<Rightarrow> ('c, 'sig, 'z) dcf_world_scheme \<Rightarrow> ('c, 'sig, 'z) dcf_world_scheme \<Rightarrow> bool" where
  "advanced m w w' \<longleftrightarrow> FinalizedBlockNumber w' = FinalizedBlockNumber w
     \<and> LastFinalizedBlock w \<le> LastFinalizedBlock w'
     \<and> LastFinalizedBlock w' \<le> max (LastFinalizedBlock w) (min m (FinalizedBlockNumber w))"

lemma advanced_marks: "marks w' = marks w \<Longrightarrow> advanced m w w'"
  by (simp add: advanced_def marks_def)

lemma advanced_trans: "advanced m w w' \<Longrightarrow> advanced m w' w'' \<Longrightarrow> advanced m w w''"
  unfolding advanced_def by (auto simp: le_max_iff_disj)

lemma advanced_update: "advanced m w (snd (update_finality_markers cfg m e w))"
  by (simp add: advanced_def update_finality_markers_cases update_finality_markers_dvf)

lemma prev_block: "1 < n \<Longrightarrow> sat_sub n 1 = n - 1" for n :: u32
  by (simp add: sat_sub_def word_less_nat_alt word_le_nat_alt)

lemma advanced_progressive: "advanced (sat_sub n 1) w (progressive_finality cfg n e w)"
  using advanced_update [of "n - 1" w cfg e]
  by (simp add: progressive_finality_def prev_block advanced_marks)

lemma advanced_initialize: "advanced m w (initialize_finality n w)"
  by (simp add: initialize_finality_def advanced_def dcf_deposit_event_def)

lemma advanced_previous_epoch: "advanced (sat_sub n 1) w (finalize_previous_epoch cfg n w)"
proof (cases "sat_sub (DcfCurrentEpoch w) 1 > 0 \<and> LastFinalizedBlock w < sat_sub n 1")
  case True
  let ?w1 = "snd (update_finality_markers cfg (sat_sub n 1) (DcfCurrentEpoch w) w)"
  have "marks (finalize_previous_epoch cfg n w) = marks ?w1"
    using True by (simp add: finalize_previous_epoch_def Let_def marks_simps)
  then show ?thesis
    by (rule advanced_trans [OF advanced_update advanced_marks])
next
  case False
  then show ?thesis
    by (auto intro!: advanced_marks simp: finalize_previous_epoch_def Let_def marks_simps)
qed

lemma advanced_comprehensive:
  assumes "handle_comprehensive_epoch_transition cfg (dvf_handler c) n w = Some w'"
  shows "advanced (sat_sub n 1) w w'"
proof -
  let ?w3 = "process_epoch_proposals cfg (dvf_handler c)
    (generate_automatic_validator_proposals cfg (run_comprehensive_score_aggregation cfg w))"
  obtain w4 where w4: "handle_deterministic_epoch_transition cfg n ?w3 = Some w4"
    and w': "w' = update_epoch_metrics cfg (finalize_previous_epoch cfg n w4)"
    using assms by (auto simp: handle_comprehensive_epoch_transition_def Let_def split: option.splits)
  have "marks ?w3 = marks w"
    by (simp add: marks_simps)
  then have "advanced (sat_sub n 1) w w4"
    using marks_deterministic [OF w4] by (simp add: advanced_def marks_def)
  then have "advanced (sat_sub n 1) w (finalize_previous_epoch cfg n w4)"
    by (rule advanced_trans [OF _ advanced_previous_epoch])
  then show ?thesis
    unfolding w' by (rule advanced_trans) (rule advanced_marks, rule marks_simps)
qed

text \<open>The hook first moves the marker and then runs the epoch transition or the regular work.\<close>

lemma hook_advances:
  assumes "dcf_on_initialize cfg (dvf_handler c) n w = Some w'"
  shows "advanced (sat_sub n 1) (progressive_finality cfg n (DcfCurrentEpoch w) (initialize_finality n w)) w'"
    (is "advanced _ ?w1 w'")
proof (cases "is_epoch_boundary cfg n")
  case True
  then have "handle_comprehensive_epoch_transition cfg (dvf_handler c) n (dcf_deposit_event
      (EpochBoundaryDetected n (DcfCurrentEpoch w) (GovernanceModeEnabled (reset_block_counters ?w1)))
      (reset_block_counters ?w1)) = Some w'"
    using assms by (simp add: dcf_on_initialize_def Let_def split: if_splits)
  from advanced_comprehensive [OF this] show ?thesis
    by (rule advanced_trans [OF advanced_marks, rotated]) (simp add: marks_simps)
next
  case False
  then have "handle_regular_block_processing cfg n (DcfCurrentEpoch w) (reset_block_counters ?w1) = Some w'"
    using assms by (simp add: dcf_on_initialize_def Let_def split: if_splits)
  then show ?thesis
    by (intro advanced_marks) (simp add: marks_regular marks_simps)
qed

text \<open>In the epoch to which it belongs, the parent of the current block is always accepted.\<close>

lemma progressive_exact:
  assumes "1 < n" and "block_number w = n"
    and "sat_mul (DcfCurrentEpoch w) (EpochLength cfg) \<le> n - 1"
  shows "LastFinalizedBlock (progressive_finality cfg n e w) =
    max (LastFinalizedBlock w) (min (n - 1) (FinalizedBlockNumber w))"
proof (cases "LastFinalizedBlock w < n - 1")
  case True
  have "n - 1 \<le> n"
    using assms(1) by (simp add: word_le_nat_alt word_less_nat_alt unat_sub)
  with True assms have "fst (validate_finality_advancement cfg (n - 1) e w) = Inr ()"
    by (simp add: validate_finality_advancement_def Let_def linorder_not_less order_less_imp_le)
  with True assms(1) show ?thesis
    by (simp add: progressive_finality_def update_finality_markers_cases)
next
  case False
  then show ?thesis
    by (auto simp: progressive_finality_def max_def min_def)
qed

lemma initialize_later: "1 < n \<Longrightarrow> initialize_finality n w = w"
  by (auto simp: initialize_finality_def)

lemma comprehensive_returns: "\<exists>w'. handle_comprehensive_epoch_transition cfg H n w = Some w'"
proof -
  obtain w4 where "handle_deterministic_epoch_transition cfg n (process_epoch_proposals cfg H
      (generate_automatic_validator_proposals cfg (run_comprehensive_score_aggregation cfg w))) = Some w4"
    using deterministic_returns by blast
  then show ?thesis
    by (simp add: handle_comprehensive_epoch_transition_def Let_def)
qed

lemma progressive_config:
  "EpochConfigStorage (progressive_finality cfg n e w) = EpochConfigStorage w"
proof -
  have "EpochConfigStorage (snd (update_finality_markers cfg m e w)) = EpochConfigStorage w" for m
    by (simp add: update_finality_markers_def validate_finality_advancement_def Let_def
        dcf_deposit_event_def)
  then show ?thesis
    by (simp add: progressive_finality_def)
qed

lemma hook_returns:
  assumes "intervals_ok cfg" and "blocks_per_epoch (EpochConfigStorage w) \<noteq> 0"
  shows "\<exists>w'. dcf_on_initialize cfg H n w = Some w'"
proof -
  have "EpochConfigStorage (reset_block_counters (progressive_finality cfg n e
      (initialize_finality n w))) = EpochConfigStorage w" for e
    by (simp add: reset_block_counters_def dcf_deposit_event_def progressive_config
        initialize_finality_def)
  then have "\<exists>w'. handle_regular_block_processing cfg n e (reset_block_counters
      (progressive_finality cfg n e (initialize_finality n w))) = Some w'" for e
    by (intro regular_returns [OF assms(1)]) (simp add: assms(2))
  moreover have "EpochLength cfg \<noteq> 0"
    using assms(1) by (simp add: intervals_ok_def)
  ultimately show ?thesis
    using comprehensive_returns by (cases "is_epoch_boundary cfg n") (simp_all add: dcf_on_initialize_def Let_def)
qed

end
