(* ===== verification/Hook_Properties.thy ===== *)
theory Hook_Properties
  imports Dcf_Hook
begin

text \<open>
  Finality as \<open>pallet-cerulea-dcf\<close> announces it, compared with the finality that
  \<open>pallet-cerulea-dvf\<close> has reached by votes: the block hook never announces more, never takes an
  announcement back, and catches up in every block.
\<close>

text \<open>
  C13. The block hook of the consensus pallet, whatever it does to validators, scores, proposals
  and the epoch, does not touch the block that the finality gadget has finalised, and its own
  marker never goes back and moves at most to the parent of the current block and never past
  the gadget's block.
\<close>

theorem announced_finality_safe:
  fixes w w' :: "('c, 'sig, 'z) dcf_world_scheme"
  assumes "dcf_on_initialize cfg (dvf_handler (dvf_cfg cfg)) n w = Some w'"
  shows "FinalizedBlockNumber w' = FinalizedBlockNumber w
    \<and> LastFinalizedBlock w \<le> LastFinalizedBlock w'
    \<and> LastFinalizedBlock w' \<le> max (LastFinalizedBlock w) (min (sat_sub n 1) (FinalizedBlockNumber w))"
proof -
  have "advanced (sat_sub n 1) w (progressive_finality cfg n (DcfCurrentEpoch w) (initialize_finality n w))"
    by (rule advanced_trans [OF advanced_initialize advanced_progressive])
  then have "advanced (sat_sub n 1) w w'"
    by (rule advanced_trans [OF _ hook_advances [OF assms]])
  then show ?thesis
    by (simp add: advanced_def)
qed

lemma sample_intervals: "intervals_ok sample_config"
  by (simp add: intervals_ok_def config_defs)

theorem announced_finality_safe_witness:
  "\<exists>w'. dcf_on_initialize sample_config (dvf_handler sample_dvf_config) 200 sample_dcf_world = Some w'
    \<and> FinalizedBlockNumber w' = 120 \<and> LastFinalizedBlock w' \<le> 120"
proof -
  have cfg: "dvf_cfg sample_config = sample_dvf_config"
    by (simp add: config_defs)
  have "blocks_per_epoch (EpochConfigStorage sample_dcf_world) \<noteq> 0"
    by (simp add: dcf_sample_defs)
  then obtain w' where "dcf_on_initialize sample_config (dvf_handler (dvf_cfg sample_config)) 200
      sample_dcf_world = Some w'"
    using hook_returns [OF sample_intervals] by blast
  with announced_finality_safe [OF this] show ?thesis
    unfolding cfg by (simp add: sample_dcf_world_def empty_dcf_world_def sat_sub_def)
qed



section \<open>An epoch counter out of step\<close>

text \<open>
  \<open>sudo_advance_epoch\<close> moves the epoch counter without regard to the block number. While the
  counted epoch has not begun, an announcement that moved once records the current block as the
  best block of the epoch and every later one in the epoch is refused: the marker stays behind although the
  gadget has finalised more.
\<close>

lemma announced_finality_stalls:
  assumes "n - 1 < sat_mul (DcfCurrentEpoch w) (EpochLength cfg)"
    and "0 < PreviousEpochBestBlock w" and "PreviousEpochBestBlock w < n - 1"
    and "LastFinalizedBlock w < n - 1"
  shows "LastFinalizedBlock (progressive_finality cfg n e w) = LastFinalizedBlock w"
  using assms by (simp add: progressive_finality_def update_finality_markers_cases
      validate_finality_advancement_def Let_def linorder_not_less)

end
