(* ===== verification/Vote_Pool.thy ===== *)
theory Vote_Pool
  imports Dcf_Config "HOL-Library.Multiset" "HOL-Library.Sublist"
begin

text \<open>
  The votes that a node gossips and the pool in which it keeps them (\<open>dvf_gossip.rs\<close> of the
  consensus library): insertion with the check for double votes, queries, and the four ways of
  pruning; with the invariant of the pool.
\<close>

section \<open>Messages\<close>

text \<open>
  A public key and an account identifier are both 32 bytes and the code converts them into each
  other byte by byte, so they share a type. \<open>'ed\<close> is the type of ed25519 signatures.
\<close>

type_synonym public_key = account_id

record 'ed node_vote =
  nv_epoch_id :: u32
  nv_validator_set_id :: u32
  nv_round_number :: u32
  nv_block_number :: u32
  nv_block_hash :: hash
  nv_account :: account_id
  nv_public_key :: public_key
  nv_signature :: 'ed

record 'ed node_justification =
  nj_round_number :: u32
  nj_block_hash :: hash
  nj_votes :: "'ed node_vote list"

definition node_payload :: "'ed node_vote \<Rightarrow> vote_payload" where
  "node_payload v = (nv_epoch_id v, nv_validator_set_id v, nv_round_number v, nv_block_number v,
     nv_block_hash v, nv_account v)"

section \<open>The pool\<close>

text \<open>Both fields are hash maps of the code; the order of the lists stands for their iteration order.\<close>

record 'ed vote_pool =
  pool_votes :: "(u32 \<times> hash, 'ed node_vote list) smap"
  round_participation :: "(u32, account_id set) smap"

definition new_pool :: "'ed vote_pool" where
  "new_pool = \<lparr>pool_votes = [], round_participation = []\<rparr>"

definition insert_vote :: "'ed node_vote \<Rightarrow> 'ed vote_pool \<Rightarrow> bool \<times> 'ed vote_pool" where
  "insert_vote v p =
     (let round_voters = sm_val {} (round_participation p) (nv_round_number v);
          key = (nv_round_number v, nv_block_hash v)
      in if nv_account v \<in> round_voters then (False, p)
         else (True, p\<lparr>
           round_participation := sm_put (nv_round_number v) (insert (nv_account v) round_voters)
             (round_participation p),
           pool_votes := sm_put key (sm_val [] (pool_votes p) key @ [v]) (pool_votes p)\<rparr>))"

definition get_votes :: "'ed vote_pool \<Rightarrow> u32 \<Rightarrow> hash \<Rightarrow> 'ed node_vote list" where
  "get_votes p round h = sm_val [] (pool_votes p) (round, h)"

definition get_candidate_blocks :: "'ed vote_pool \<Rightarrow> u32 \<Rightarrow> hash list" where
  "get_candidate_blocks p round = map snd (filter (\<lambda>k. fst k = round) (sm_keys (pool_votes p)))"

text \<open>\<open>retain_rounds\<close> keeps the rounds from the cutoff on in both maps.\<close>

definition retain_rounds :: "u32 \<Rightarrow> 'ed vote_pool \<Rightarrow> 'ed vote_pool" where
  "retain_rounds cutoff p = p\<lparr>
     pool_votes := filter (\<lambda>((round, h), vs). round \<ge> cutoff) (pool_votes p),
     round_participation := filter (\<lambda>(round, voters). round \<ge> cutoff) (round_participation p)\<rparr>"

definition prune_older_rounds :: "u32 \<Rightarrow> 'ed vote_pool \<Rightarrow> 'ed vote_pool" where
  "prune_older_rounds finalized_round p = retain_rounds finalized_round p"

definition prune_by_round_age :: "u32 \<Rightarrow> u32 \<Rightarrow> 'ed vote_pool \<Rightarrow> nat \<times> 'ed vote_pool" where
  "prune_by_round_age current_round retention_rounds p =
     (let p' = retain_rounds (sat_sub current_round retention_rounds) p
      in (length (pool_votes p) - length (pool_votes p'), p'))"

definition prune_by_finalized_block :: "u32 \<Rightarrow> 'ed vote_pool \<Rightarrow> nat \<times> 'ed vote_pool" where
  "prune_by_finalized_block finalized p =
     (let kept = filter (\<lambda>(k, vs). vs \<noteq> [])
            (map (\<lambda>(k, vs). (k, filter (\<lambda>v. nv_block_number v \<ge> finalized) vs)) (pool_votes p))
      in (length (pool_votes p) - length kept, p\<lparr>pool_votes := kept\<rparr>))"

definition enforce_max_size :: "nat \<Rightarrow> 'ed vote_pool \<Rightarrow> nat \<times> 'ed vote_pool" where
  "enforce_max_size max_size p =
     (if length (pool_votes p) \<le> max_size then (0, p)
      else
        (let entries = sort_key (\<lambda>k. unat (fst k)) (sm_keys (pool_votes p));
             to_remove = length (pool_votes p) - max_size
         in (to_remove, p\<lparr>pool_votes := fold sm_del (take to_remove entries) (pool_votes p)\<rparr>)))"

definition pool_size :: "'ed vote_pool \<Rightarrow> nat" where
  "pool_size p = length (pool_votes p)"

definition total_votes :: "'ed vote_pool \<Rightarrow> nat" where
  "total_votes p = sum_list (map (length \<circ> snd) (pool_votes p))"

definition clear_pool :: "'ed vote_pool \<Rightarrow> 'ed vote_pool" where
  "clear_pool p = p\<lparr>pool_votes := [], round_participation := []\<rparr>"

section \<open>The invariant\<close>

text \<open>
  Votes are filed under their own round and hash, their accounts are recorded as voters of the
  round, and no account has two votes in a round, be it for one block or for two.
\<close>

definition round_votes :: "'ed vote_pool \<Rightarrow> u32 \<Rightarrow> 'ed node_vote list" where
  "round_votes p round = concat (map snd (filter (\<lambda>((r, h), vs). r = round) (pool_votes p)))"

definition pool_ok :: "'ed vote_pool \<Rightarrow> bool" where
  "pool_ok p \<longleftrightarrow> sm_wf (pool_votes p) \<and> sm_wf (round_participation p)
     \<and> (\<forall>e \<in> set (pool_votes p). \<forall>v \<in> set (snd e). (nv_round_number v, nv_block_hash v) = fst e)
     \<and> (\<forall>r. distinct (map nv_account (round_votes p r))
          \<and> nv_account ` set (round_votes p r) \<subseteq> sm_val {} (round_participation p) r)"

text \<open>Lemmas on the lists of votes that are stored in one map.\<close>

lemma sm_put_Cons: "sm_put k x (e # m) = (if fst e = k then (k, x) # m else e # sm_put k x m)"
  by (cases e) (simp add: sm_put_def)

lemma sm_val_Cons: "sm_val d (e # m) k = (if fst e = k then snd e else sm_val d m k)"
  by (cases e) (simp add: sm_val_def sm_get_def)

lemma put_votes_mset:
  "mset (concat (map snd (filter (\<lambda>e. Q (fst e)) (sm_put k (sm_val [] m k @ [v]) m)))) =
     (if Q k then {#v#} else {#}) + mset (concat (map snd (filter (\<lambda>e. Q (fst e)) m)))"
proof (induction m)
  case Nil
  then show ?case by (simp add: sm_put_def)
next
  case (Cons e m)
  then show ?case by (simp add: sm_put_Cons sm_val_Cons)
qed

lemma round_votes_alt:
  "round_votes p round = concat (map snd (filter (\<lambda>e. fst (fst e) = round) (pool_votes p)))"
  by (simp add: round_votes_def case_prod_unfold)

lemma set_sm_put: "set (sm_put k x m) \<subseteq> insert (k, x) (set m)"
proof (induction m)
  case Nil
  then show ?case by (simp add: sm_put_def)
next
  case (Cons e m)
  then show ?case by (auto simp: sm_put_Cons)
qed

lemma sm_wf_filter: "sm_wf m \<Longrightarrow> sm_wf (filter P m)"
  by (auto simp: sm_wf_def distinct_map intro: inj_on_subset)

lemma sm_val_filter:
  "sm_wf m \<Longrightarrow> (\<And>x. P (k, x)) \<Longrightarrow> sm_val d (filter P m) k = sm_val d m k"
proof (induction m)
  case (Cons e m)
  then show ?case
    by (cases e) (auto simp: sm_val_Cons sm_wf_def)
qed simp

lemma sm_val_subseq: "subseq (sm_val [] m (r, h)) (concat (map snd (filter (\<lambda>e. fst (fst e) = r) m)))"
proof (induction m)
  case (Cons e m)
  then show ?case
    by (auto simp: sm_val_Cons list_emb_append2)
qed simp

lemma get_votes_round: "subseq (get_votes p r h) (round_votes p r)"
  by (simp add: get_votes_def round_votes_alt sm_val_subseq)

lemma sm_val_entry: "x \<in> set (sm_val [] m k) \<Longrightarrow> \<exists>e \<in> set m. fst e = k \<and> x \<in> set (snd e)"
  by (induction m) (auto simp: sm_val_Cons split: if_splits)

section \<open>The operations keep the invariant\<close>

lemma pool_ok_new: "pool_ok new_pool"
  by (simp add: pool_ok_def new_pool_def round_votes_def sm_wf_def)

lemma pool_ok_insert:
  assumes ok: "pool_ok p"
  shows "pool_ok (snd (insert_vote v p))"
proof (cases "nv_account v \<in> sm_val {} (round_participation p) (nv_round_number v)")
  case True
  with ok show ?thesis
    by (simp add: insert_vote_def)
next
  case fresh: False
  let ?r = "nv_round_number v"
  let ?key = "(?r, nv_block_hash v)"
  let ?p = "snd (insert_vote v p)"
  have votes: "pool_votes ?p = sm_put ?key (sm_val [] (pool_votes p) ?key @ [v]) (pool_votes p)"
    and part: "round_participation ?p =
      sm_put ?r (insert (nv_account v) (sm_val {} (round_participation p) ?r)) (round_participation p)"
    using fresh by (simp_all add: insert_vote_def Let_def)
  have mset: "mset (round_votes ?p r) = (if r = ?r then {#v#} else {#}) + mset (round_votes p r)" for r
    unfolding round_votes_alt votes using put_votes_mset [of "\<lambda>k. fst k = r" ?key "pool_votes p" v]
    by simp
  have filed: "(nv_round_number u, nv_block_hash u) = fst e"
    if e: "e \<in> set (pool_votes ?p)" and u: "u \<in> set (snd e)" for e u
  proof -
    have old: "(nv_round_number u, nv_block_hash u) = fst e"
      if "e \<in> set (pool_votes p)" "u \<in> set (snd e)" for e u
      using ok that by (simp add: pool_ok_def)
    from e set_sm_put [of ?key "sm_val [] (pool_votes p) ?key @ [v]" "pool_votes p"]
    consider "e = (?key, sm_val [] (pool_votes p) ?key @ [v])" | "e \<in> set (pool_votes p)"
      unfolding votes by blast
    then show ?thesis
      using u old sm_val_entry [of u "pool_votes p" ?key] by cases auto
  qed
  have accounts: "distinct (map nv_account (round_votes ?p r))
      \<and> nv_account ` set (round_votes ?p r) \<subseteq> sm_val {} (round_participation ?p) r" for r
  proof -
    have old: "distinct (map nv_account (round_votes p r))"
        "nv_account ` set (round_votes p r) \<subseteq> sm_val {} (round_participation p) r"
      using ok by (simp_all add: pool_ok_def)
    let ?vs = "(if r = ?r then [v] else []) @ round_votes p r"
    have "mset (round_votes ?p r) = mset ?vs"
      by (simp add: mset)
    then have "mset (map nv_account (round_votes ?p r)) = mset (map nv_account ?vs)"
        and set: "set (round_votes ?p r) = set ?vs"
      by (metis mset_map, metis mset_eq_setD)
    from mset_eq_imp_distinct_iff [OF this(1)] have "distinct (map nv_account (round_votes ?p r))"
      using old fresh by (cases "r = ?r") auto
    with old set show ?thesis
      by (cases "r = ?r") (auto simp: part)
  qed
  have "sm_wf (pool_votes ?p)" "sm_wf (round_participation ?p)"
    using ok by (simp_all add: pool_ok_def votes part smap.wf_insert)
  with filed accounts show ?thesis
    unfolding pool_ok_def by blast
qed

text \<open>Pruning: entries disappear or lose votes, and the voters of the rounds that are left stay recorded.\<close>

lemma pool_ok_shrink:
  assumes ok: "pool_ok p" and wf: "sm_wf (pool_votes p')" "sm_wf (round_participation p')"
    and entries: "\<And>e. e \<in> set (pool_votes p') \<Longrightarrow> \<exists>e' \<in> set (pool_votes p). fst e' = fst e \<and> set (snd e) \<subseteq> set (snd e')"
    and votes: "\<And>r. subseq (round_votes p' r) (round_votes p r)"
    and voters: "\<And>r. round_votes p' r \<noteq> [] \<Longrightarrow>
      sm_val {} (round_participation p') r = sm_val {} (round_participation p) r"
  shows "pool_ok p'"
proof -
  have "(nv_round_number v, nv_block_hash v) = fst e"
    if e: "e \<in> set (pool_votes p')" and v: "v \<in> set (snd e)" for e v
  proof -
    obtain e' where "e' \<in> set (pool_votes p)" "fst e' = fst e" "v \<in> set (snd e')"
      using entries [OF e] v by blast
    with ok show ?thesis
      unfolding pool_ok_def by metis
  qed
  moreover have "distinct (map nv_account (round_votes p' r))" for r
  proof -
    obtain N where "map nv_account (round_votes p' r) = nths (map nv_account (round_votes p r)) N"
      using subseq_map [OF votes, of nv_account r] unfolding subseq_conv_nths by blast
    with ok show ?thesis
      unfolding pool_ok_def by (metis distinct_nthsI)
  qed
  moreover have "nv_account ` set (round_votes p' r) \<subseteq> sm_val {} (round_participation p') r" for r
  proof (cases "round_votes p' r = []")
    case False
    have "set (round_votes p' r) \<subseteq> set (round_votes p r)"
      using votes [of r] by (auto elim: list_emb_set)
    with ok voters [OF False] show ?thesis
      unfolding pool_ok_def by (metis image_mono order_trans)
  qed simp
  ultimately show ?thesis
    using wf unfolding pool_ok_def by blast
qed

lemma retain_entries:
  "pool_votes (retain_rounds c p) = filter (\<lambda>e. c \<le> fst (fst e)) (pool_votes p)"
  "round_participation (retain_rounds c p) = filter (\<lambda>e. c \<le> fst e) (round_participation p)"
  by (simp_all add: retain_rounds_def case_prod_unfold)

lemma retain_round_votes:
  "round_votes (retain_rounds c p) r = (if c \<le> r then round_votes p r else [])"
proof -
  have "filter (\<lambda>e. fst (fst e) = r) (filter (\<lambda>e. c \<le> fst (fst e)) m)
      = (if c \<le> r then filter (\<lambda>e. fst (fst e) = r) m else [])" for m :: "(u32 \<times> hash, 'a node_vote list) smap"
    by (induction m) auto
  then show ?thesis
    by (simp add: round_votes_alt retain_entries)
qed

lemma pool_ok_retain: "pool_ok p \<Longrightarrow> pool_ok (retain_rounds c p)"
  by (rule pool_ok_shrink [of p])
    (auto simp: retain_round_votes retain_entries pool_ok_def sm_wf_filter sm_val_filter split: if_splits)

lemma concat_kept:
  "concat (map snd (filter (\<lambda>e. Q (fst e)) (filter (\<lambda>e. snd e \<noteq> []) (map (\<lambda>e. (fst e, filter P (snd e))) m))))
     = filter P (concat (map snd (filter (\<lambda>e. Q (fst e)) m)))"
proof (induction m)
  case (Cons e m)
  show ?case
    by (cases "Q (fst e)"; cases "filter P (snd e) = []")
      (simp_all only: list.map filter.simps fst_conv snd_conv if_True if_False Cons.IH concat.simps
        filter_append append_Nil not_True_eq_False not_False_eq_True simp_thms)
qed simp

lemma pool_ok_finalized: "pool_ok p \<Longrightarrow> pool_ok (snd (prune_by_finalized_block n p))"
proof -
  assume ok: "pool_ok p"
  let ?kept = "\<lambda>vs. filter (\<lambda>v. n \<le> nv_block_number v) vs"
  let ?p = "snd (prune_by_finalized_block n p)"
  have votes: "pool_votes ?p = filter (\<lambda>e. snd e \<noteq> []) (map (\<lambda>e. (fst e, ?kept (snd e))) (pool_votes p))"
    and part: "round_participation ?p = round_participation p"
    by (simp_all add: prune_by_finalized_block_def Let_def case_prod_unfold)
  have "round_votes ?p r = ?kept (round_votes p r)" for r
    unfolding round_votes_alt votes by (rule concat_kept)
  moreover have "sm_wf (pool_votes ?p)"
    using ok unfolding votes
    by (intro sm_wf_filter) (simp add: pool_ok_def sm_wf_def comp_def)
  moreover have "\<exists>e' \<in> set (pool_votes p). fst e' = fst e \<and> set (snd e) \<subseteq> set (snd e')"
    if "e \<in> set (pool_votes ?p)" for e
    using that unfolding votes by (auto intro: bexI rev_bexI)
  moreover have "sm_wf (round_participation ?p)"
    using ok by (simp add: part pool_ok_def)
  ultimately show ?thesis
    by (intro pool_ok_shrink [OF ok]) (simp_all add: part)
qed

lemma fold_sm_del: "fold sm_del ks m = filter (\<lambda>e. fst e \<notin> set ks) m"
proof (induction ks arbitrary: m)
  case (Cons k ks)
  have "sm_del k m = filter (\<lambda>e. fst e \<noteq> k) m"
    by (simp add: sm_del_def AList.delete_eq case_prod_unfold eq_commute)
  with Cons show ?case
    by (simp add: conj_commute)
qed simp

lemma pool_ok_size:
  assumes ok: "pool_ok p"
  shows "pool_ok (snd (enforce_max_size n p))"
proof -
  have "pool_ok (p\<lparr>pool_votes := filter P (pool_votes p)\<rparr>)" for P
  proof (rule pool_ok_shrink [OF ok])
    show "subseq (round_votes (p\<lparr>pool_votes := filter P (pool_votes p)\<rparr>) r) (round_votes p r)" for r
    proof -
      have "subseq (concat (map snd (filter (\<lambda>e. fst (fst e) = r) (filter P m))))
          (concat (map snd (filter (\<lambda>e. fst (fst e) = r) m)))" for m :: "(u32 \<times> hash, 'a node_vote list) smap"
        by (induction m) (auto intro: list_emb_append_mono)
      then show ?thesis
        by (simp add: round_votes_alt)
    qed
  qed (use ok in \<open>auto simp: pool_ok_def sm_wf_filter\<close>)
  moreover have "pool_votes p = filter (\<lambda>e. True) (pool_votes p)"
    by simp
  ultimately show ?thesis
    using ok by (simp add: enforce_max_size_def Let_def fold_sm_del)
qed

section \<open>The contract of the pool\<close>

text \<open>
  What the builder of justifications needs of a store of votes: what it returns for a round and a
  block is filed there, with at most one vote per account, and stays so whatever is inserted.
\<close>

locale vote_store =
  fixes empty :: "'s"
    and ins :: "'ed node_vote \<Rightarrow> 's \<Rightarrow> bool \<times> 's"
    and get :: "'s \<Rightarrow> u32 \<Rightarrow> hash \<Rightarrow> 'ed node_vote list"
    and inv :: "'s \<Rightarrow> bool"
  assumes inv_empty: "inv empty"
    and inv_insert: "inv s \<Longrightarrow> inv (snd (ins v s))"
    and filed: "inv s \<Longrightarrow> v \<in> set (get s r h) \<Longrightarrow> nv_round_number v = r \<and> nv_block_hash v = h"
    and one_each: "inv s \<Longrightarrow> distinct (map nv_account (get s r h))"
begin

lemma received_inv: "inv (fold (\<lambda>v s. snd (ins v s)) vs empty)"
proof -
  have "inv s \<Longrightarrow> inv (fold (\<lambda>v s. snd (ins v s)) vs s)" for s
    by (induction vs arbitrary: s) (simp_all add: inv_insert)
  then show ?thesis
    by (simp add: inv_empty)
qed

lemma same_account_same_vote:
  assumes "inv s" and "v \<in> set (get s r h)" and "u \<in> set (get s r h)" and "nv_account v = nv_account u"
  shows "v = u"
  using one_each [OF assms(1), of r h] assms(2-4) by (auto simp: distinct_map dest: inj_onD)

end

lemma pool_filed:
  assumes "pool_ok p" and "v \<in> set (get_votes p r h)"
  shows "nv_round_number v = r \<and> nv_block_hash v = h"
proof -
  obtain e where "e \<in> set (pool_votes p)" "fst e = (r, h)" "v \<in> set (snd e)"
    using sm_val_entry [of v "pool_votes p" "(r, h)"] assms(2) by (auto simp: get_votes_def)
  with assms(1) show ?thesis
    unfolding pool_ok_def by (metis prod.inject)
qed

lemma pool_one_each:
  assumes "pool_ok p"
  shows "distinct (map nv_account (get_votes p r h))"
proof -
  obtain N where "map nv_account (get_votes p r h) = nths (map nv_account (round_votes p r)) N"
    using subseq_map [OF get_votes_round, of nv_account p r h] unfolding subseq_conv_nths by blast
  with assms show ?thesis
    unfolding pool_ok_def by (metis distinct_nthsI)
qed

interpretation node_pool: vote_store new_pool insert_vote get_votes pool_ok
  by unfold_locales (simp_all add: pool_ok_new pool_ok_insert pool_filed pool_one_each)

end
