(* ===== verification/Vote_Gossip.thy ===== *)
theory Vote_Gossip
  imports Vote_Pool
begin

text \<open>
  How votes enter the pool of a node: the validator of gossiped messages (\<open>dvf_gossip.rs\<close>) and the
  service that creates the node's own votes (\<open>vote_creator.rs\<close>); with the view that both have of the
  chain.
\<close>

section \<open>The node's surroundings\<close>

text \<open>
  Library code around the node: signatures, encodings and the keystore. \<open>multi_signature\<close> wraps an
  ed25519 signature as a signature of the runtime. \<open>chain_cfg\<close> is the configuration of the runtime,
  which the runtime API reads.
\<close>

record ('c, 'ed, 'sig) node_config =
  chain_cfg :: "('c, 'sig) dcf_config"
  ed25519_verify :: "'ed \<Rightarrow> vote_payload \<Rightarrow> public_key \<Rightarrow> bool"
  multi_signature :: "'ed \<Rightarrow> 'sig"
  decode_vote :: "8 word list \<Rightarrow> 'ed node_vote option"
  message_hash :: "8 word list \<Rightarrow> hash"
  justification_size :: "'ed node_justification \<Rightarrow> nat"
  dvf_keys :: "public_key list"
  ed25519_sign :: "public_key \<Rightarrow> vote_payload \<Rightarrow> 'ed option"
  own_account :: account_id

text \<open>
  The client at one moment: the state at the best block (\<open>None\<close> where calls of the runtime API fail), the
  numbers of the best and the last finalised block, headers and hashes of known blocks, and whether
  finalising a block succeeds. The queries of one step of a service see one such view.
\<close>

record 'w node_client =
  best_state :: "'w option"
  best_number :: u32
  finalized_number :: u32
  header_number :: "hash \<Rightarrow> u32 option"
  canonical_hash :: "u32 \<Rightarrow> hash option"
  can_finalize :: "hash \<Rightarrow> bool"

text \<open>
  The state of a node: the shared pool, the messages seen, the variables of the aggregator, the
  blocks finalised in the client with their justifications, and the justifications sent to the
  transaction pool.
\<close>

record ('ed, 'sig) node =
  shared_pool :: "'ed vote_pool"
  known_messages :: "hash set"
  last_finalized_round :: u32
  last_validator_set_id :: u32
  last_triggered_block :: u32
  finalized_with :: "(hash \<times> 'ed node_justification option) list"
  submitted :: "'sig dvf_justification list"

definition node_dvf :: "('c, 'ed, 'sig) node_config \<Rightarrow> 'sig dvf_config" where
  "node_dvf N = dvf_cfg (chain_cfg N)"

definition set_pool :: "'ed vote_pool \<Rightarrow> ('ed, 'sig) node \<Rightarrow> ('ed, 'sig) node" where
  "set_pool p node = node\<lparr>shared_pool := p\<rparr>"

section \<open>Gossip\<close>

datatype vote_rejection =
  InvalidEncoding | InvalidVoteSignature | InactiveValidator | RuntimeApiError | EpochMismatch
| ValidatorSetMismatch

text \<open>The previous validator set id is accepted until one block after the change.\<close>

definition in_grace_period ::
  "('c, 'sig, 'z) dcf_world_scheme \<Rightarrow> u32 \<Rightarrow> 'ed node_vote \<Rightarrow> bool" where
  "in_grace_period w best m \<longleftrightarrow> nv_validator_set_id m = sat_sub (ValidatorSetId w) 1
     \<and> (case ValidatorSetIdChangedAt w of None \<Rightarrow> False | Some changed_at \<Rightarrow> best \<le> changed_at + 1)"

definition validate_core ::
  "('c, 'ed, 'sig) node_config \<Rightarrow> ('c, 'sig, 'z) dcf_world_scheme node_client \<Rightarrow> 8 word list
     \<Rightarrow> vote_rejection + 'ed node_vote" where
  "validate_core N c data =
     (case decode_vote N data of None \<Rightarrow> Inl InvalidEncoding | Some m \<Rightarrow>
      if \<not> ed25519_verify N (nv_signature m) (node_payload m) (nv_public_key m)
      then Inl InvalidVoteSignature
      else case best_state c of None \<Rightarrow> Inl RuntimeApiError | Some w \<Rightarrow>
      if nv_account m \<notin> set (dcf_active_validators (chain_cfg N) w) then Inl InactiveValidator
      else if nv_epoch_id m \<noteq> DcfCurrentEpoch w \<and> nv_epoch_id m \<noteq> sat_add (DcfCurrentEpoch w) 1
      then Inl EpochMismatch
      else if nv_validator_set_id m \<noteq> ValidatorSetId w \<and> \<not> in_grace_period w (best_number c) m
      then Inl ValidatorSetMismatch
      else Inr m)"

datatype validation_result = ProcessAndKeep hash | ProcessAndDiscard hash | DiscardMessage

definition validate_message ::
  "('c, 'ed, 'sig) node_config \<Rightarrow> ('c, 'sig, 'z) dcf_world_scheme node_client \<Rightarrow> 8 word list
     \<Rightarrow> ('ed, 'sig) node \<Rightarrow> validation_result \<times> ('ed, 'sig) node" where
  "validate_message N c data node =
     (let msg_hash = message_hash N data
      in if msg_hash \<in> known_messages node then (ProcessAndDiscard msg_hash, node)
         else
           (let node1 = node\<lparr>known_messages := insert msg_hash (known_messages node)\<rparr>
            in case validate_core N c data of
                 Inl e \<Rightarrow> (DiscardMessage, node1)
               | Inr m \<Rightarrow>
                   (case insert_vote m (shared_pool node1) of (inserted, p) \<Rightarrow>
                      (if inserted then ProcessAndKeep msg_hash else ProcessAndDiscard msg_hash,
                       set_pool p node1))))"

section \<open>The node's own votes\<close>

datatype creator_error = CreatorApiError | NoDvfKeys | SigningFailed

definition checkpoint_for_voting :: "('c, 'ed, 'sig) node_config \<Rightarrow> u32 \<Rightarrow> bool" where
  "checkpoint_for_voting N n \<longleftrightarrow> FinalityCheckpointInterval (node_dvf N) > 0
     \<and> n mod FinalityCheckpointInterval (node_dvf N) = 0"

text \<open>
  The vote is put into the node's own pool, where it may be refused as a double vote, and then
  gossiped in any case; the vote returned is the message that is sent.
\<close>

definition broadcast_vote :: "'ed node_vote \<Rightarrow> ('ed, 'sig) node \<Rightarrow> ('ed, 'sig) node" where
  "broadcast_vote v node = set_pool (snd (insert_vote v (shared_pool node))) node"

definition create_and_broadcast_vote ::
  "('c, 'ed, 'sig) node_config \<Rightarrow> ('c, 'sig, 'z) dcf_world_scheme node_client \<Rightarrow> u32 \<Rightarrow> hash
     \<Rightarrow> ('ed, 'sig) node \<Rightarrow> (creator_error + 'ed node_vote) \<times> ('ed, 'sig) node" where
  "create_and_broadcast_vote N c n h node =
     (case best_state c of None \<Rightarrow> (Inl CreatorApiError, node) | Some w \<Rightarrow>
      case dvf_keys N of [] \<Rightarrow> (Inl NoDvfKeys, node) | key # _ \<Rightarrow>
      case ed25519_sign N key (DcfCurrentEpoch w, ValidatorSetId w, CurrentRound w, n, h, own_account N) of
        None \<Rightarrow> (Inl SigningFailed, node)
      | Some s \<Rightarrow>
          (let v = \<lparr>nv_epoch_id = DcfCurrentEpoch w, nv_validator_set_id = ValidatorSetId w,
                 nv_round_number = CurrentRound w, nv_block_number = n, nv_block_hash = h,
                 nv_account = own_account N, nv_public_key = key, nv_signature = s\<rparr>
           in (Inr v, broadcast_vote v node)))"

definition process_block ::
  "('c, 'ed, 'sig) node_config \<Rightarrow> ('c, 'sig, 'z) dcf_world_scheme node_client \<Rightarrow> u32 \<Rightarrow> hash
     \<Rightarrow> ('ed, 'sig) node \<Rightarrow> (creator_error + 'ed node_vote option) \<times> ('ed, 'sig) node" where
  "process_block N c n h node =
     (case best_state c of None \<Rightarrow> (Inl CreatorApiError, node) | Some w \<Rightarrow>
      if \<not> checkpoint_for_voting N n then (Inr None, node)
      else if n \<le> finalized_number c then (Inr None, node)
      else if own_account N \<notin> set (dcf_active_validators (chain_cfg N) w) then (Inr None, node)
      else case create_and_broadcast_vote N c n h node of
        (Inl e, node1) \<Rightarrow> (Inl e, node1)
      | (Inr v, node1) \<Rightarrow> (Inr (Some v), node1))"

end
