(* ===== verification/Vote_Aggregator.thy ===== *)
theory Vote_Aggregator
  imports Justification_Builder
begin

text \<open>
  The services that act on the pool of a node: the aggregator, which looks for a block with enough
  votes and has it finalised (\<open>vote_aggregator.rs\<close>), the pruning service of the same file, and the
  task of \<open>service.rs\<close> that keeps the client's finalised head in step with the pallet's; with the
  events that drive a node.
\<close>

section \<open>The aggregator\<close>

datatype aggregator_error =
  AggregatorApiError | BlockHeaderNotFound | ConstructionFailed builder_error | NoVotesInJustification
| FinalizeFailed

text \<open>The justification in the type of the pallet; the sender's public keys are left out.\<close>

definition to_pallet_vote :: "('c, 'ed, 'sig) node_config \<Rightarrow> 'ed node_vote \<Rightarrow> 'sig dvf_vote" where
  "to_pallet_vote N v = \<lparr>epoch_id = nv_epoch_id v, validator_set_id = nv_validator_set_id v,
     round_id = nv_round_number v, vote_block_number = nv_block_number v,
     vote_block_hash = nv_block_hash v, validator_account = nv_account v,
     signature = multi_signature N (nv_signature v)\<rparr>"

definition to_pallet_justification ::
  "('c, 'ed, 'sig) node_config \<Rightarrow> 'ed node_justification \<Rightarrow> 'sig dvf_justification" where
  "to_pallet_justification N j = \<lparr>round_number = nj_round_number j, just_block_hash = nj_block_hash j,
     votes = map (to_pallet_vote N) (nj_votes j)\<rparr>"

definition check_validator_set_changes ::
  "('c, 'sig, 'z) dcf_world_scheme node_client \<Rightarrow> ('ed, 'sig) node
     \<Rightarrow> (aggregator_error + unit) \<times> ('ed, 'sig) node" where
  "check_validator_set_changes c node =
     (case best_state c of None \<Rightarrow> (Inl AggregatorApiError, node)
      | Some w \<Rightarrow> (Inr (), node\<lparr>last_validator_set_id := ValidatorSetId w\<rparr>))"

definition calculate_accumulated_weight ::
  "('c, 'sig, 'z) dcf_world_scheme node_client \<Rightarrow> 'ed vote_pool \<Rightarrow> u32 \<Rightarrow> hash
     \<Rightarrow> aggregator_error + u128" where
  "calculate_accumulated_weight c p round h =
     (case best_state c of None \<Rightarrow> Inl AggregatorApiError
      | Some w \<Rightarrow> Inr (votes_weight (EpochVotingWeight w) (get_votes p round h)))"

text \<open>
  The block is finalised in the client first, with the justification attached; then the
  justification goes to the transaction pool, whose answer is only logged.
\<close>

definition trigger_justification_construction ::
  "('c, 'ed, 'sig) node_config \<Rightarrow> ('c, 'sig, 'z) dcf_world_scheme node_client \<Rightarrow> u32 \<Rightarrow> hash
     \<Rightarrow> ('ed, 'sig) node \<Rightarrow> (aggregator_error + unit) \<times> ('ed, 'sig) node" where
  "trigger_justification_construction N c round h node =
     (case construct_justification N c (shared_pool node) round h of
        Inl e \<Rightarrow> (Inl (ConstructionFailed e), node)
      | Inr j \<Rightarrow>
          if nj_votes j = [] then (Inl NoVotesInJustification, node)
          else if \<not> can_finalize c h then (Inl FinalizeFailed, node)
          else (Inr (), node\<lparr>finalized_with := finalized_with node @ [(h, Some j)],
                 submitted := submitted node @ [to_pallet_justification N j]\<rparr>))"

text \<open>
  The candidates of the current round that are above the last triggered and the last finalised
  block; and among them the first with the highest weight that reaches the threshold.
\<close>

definition open_candidates ::
  "('c, 'sig, 'z) dcf_world_scheme node_client \<Rightarrow> ('c, 'sig, 'z) dcf_world_scheme \<Rightarrow> ('ed, 'sig) node
     \<Rightarrow> hash list" where
  "open_candidates c w node =
     filter (\<lambda>h. case header_number c h of None \<Rightarrow> False
               | Some n \<Rightarrow> n > last_triggered_block node \<and> n > FinalizedBlockNumber w)
       (get_candidate_blocks (shared_pool node) (CurrentRound w))"

fun best_candidate ::
  "(hash \<Rightarrow> aggregator_error + u128) \<Rightarrow> u128 \<Rightarrow> (hash option \<times> u128) \<Rightarrow> hash list
     \<Rightarrow> aggregator_error + (hash option \<times> u128)" where
  "best_candidate weight threshold best [] = Inr best"
| "best_candidate weight threshold best (h # hs) =
     (case weight h of Inl e \<Rightarrow> Inl e
      | Inr x \<Rightarrow> best_candidate weight threshold
          (if x \<ge> threshold \<and> x > snd best then (Some h, x) else best) hs)"

definition check_vote_accumulation ::
  "('c, 'ed, 'sig) node_config \<Rightarrow> ('c, 'sig, 'z) dcf_world_scheme node_client
     \<Rightarrow> ('ed, 'sig) node \<Rightarrow> (aggregator_error + unit) \<times> ('ed, 'sig) node" where
  "check_vote_accumulation N c node =
     (case best_state c of None \<Rightarrow> (Inl AggregatorApiError, node) | Some w \<Rightarrow>
      if open_candidates c w node = [] then (Inr (), node)
      else case best_candidate (calculate_accumulated_weight c (shared_pool node) (CurrentRound w))
             (weight_threshold N (EpochVotingWeight w)) (None, 0) (open_candidates c w node) of
        Inl e \<Rightarrow> (Inl e, node)
      | Inr (None, _) \<Rightarrow> (Inr (), node)
      | Inr (Some h, _) \<Rightarrow>
          (case header_number c h of None \<Rightarrow> (Inl BlockHeaderNotFound, node) | Some n \<Rightarrow>
           if n \<le> last_triggered_block node then (Inr (), node)
           else if n \<le> FinalizedBlockNumber w then (Inr (), node)
           else
             (let node1 = node\<lparr>last_triggered_block := max n (last_triggered_block node)\<rparr>
              in case trigger_justification_construction N c (CurrentRound w) h node1 of
                   (Inr _, node2) \<Rightarrow> (Inr (), node2\<lparr>last_finalized_round := CurrentRound w\<rparr>)
                 | (Inl _, node2) \<Rightarrow> (Inr (), node2))))"

text \<open>One turn of the loop of the service; errors are logged.\<close>

definition aggregator_tick ::
  "('c, 'ed, 'sig) node_config \<Rightarrow> ('c, 'sig, 'z) dcf_world_scheme node_client
     \<Rightarrow> ('ed, 'sig) node \<Rightarrow> ('ed, 'sig) node" where
  "aggregator_tick N c node =
     snd (check_vote_accumulation N c (snd (check_validator_set_changes c node)))"

section \<open>Pruning\<close>

definition max_vote_pool_size :: nat where
  "max_vote_pool_size = 10000"

definition prune_after_finalization ::
  "('c, 'ed, 'sig) node_config \<Rightarrow> ('c, 'sig, 'z) dcf_world_scheme node_client \<Rightarrow> u32 \<Rightarrow> u32
     \<Rightarrow> 'ed vote_pool \<Rightarrow> 'ed vote_pool" where
  "prune_after_finalization N c finalized_block_number current_round p =
     (let interval = (case best_state c of None \<Rightarrow> 10 | Some w \<Rightarrow> FinalityCheckpointInterval (node_dvf N));
          retention = (case best_state c of None \<Rightarrow> 20 | Some w \<Rightarrow> VoteRetentionRounds (node_dvf N))
      in if interval = 0 \<or> finalized_block_number mod interval \<noteq> 0 then p
         else snd (enforce_max_size max_vote_pool_size
                (snd (prune_by_finalized_block finalized_block_number
                  (snd (prune_by_round_age current_round retention p))))))"

section \<open>The finality synchronisation of the node service\<close>

text \<open>
  Blocks that the pallet has finalised and the client has not are finalised one by one, without a
  justification; a block whose hash is unknown or that cannot be finalised is passed over. Each turn
  of the loop prunes the pool first.
\<close>

definition sync_blocks :: "'w node_client \<Rightarrow> u32 \<Rightarrow> u32 list" where
  "sync_blocks c dvf_finalized =
     map of_nat [unat (finalized_number c) + 1 ..< unat dvf_finalized + 1]"

definition sync_block :: "'w node_client \<Rightarrow> u32 \<Rightarrow> ('ed, 'sig) node \<Rightarrow> ('ed, 'sig) node" where
  "sync_block c n node =
     (case canonical_hash c n of None \<Rightarrow> node
      | Some h \<Rightarrow> if can_finalize c h
          then node\<lparr>finalized_with := finalized_with node @ [(h, None)]\<rparr> else node)"

definition finality_sync ::
  "('c, 'sig, 'z) dcf_world_scheme node_client \<Rightarrow> ('ed, 'sig) node \<Rightarrow> ('ed, 'sig) node" where
  "finality_sync c node =
     (case best_state c of None \<Rightarrow> node
      | Some w \<Rightarrow> if FinalizedBlockNumber w > finalized_number c
          then fold (sync_block c) (sync_blocks c (FinalizedBlockNumber w)) node else node)"

definition finality_sync_tick ::
  "('c, 'sig, 'z) dcf_world_scheme node_client \<Rightarrow> ('ed, 'sig) node \<Rightarrow> ('ed, 'sig) node" where
  "finality_sync_tick c node =
     finality_sync c (set_pool (prune_older_rounds (finalized_number c) (shared_pool node)) node)"

section \<open>A running node\<close>

text \<open>
  The services are tasks that share the pool behind a lock: a run of the node is a sequence of their
  steps in any order, each with the view of the client it happens to get.
\<close>

datatype node_event =
    Gossip_Received "8 word list" | Block_Imported u32 hash | Aggregator_Ticks | Sync_Ticks
  | Finality_Notified u32 u32

fun node_step ::
  "('c, 'ed, 'sig) node_config \<Rightarrow> ('c, 'sig, 'z) dcf_world_scheme node_client \<times> node_event
     \<Rightarrow> ('ed, 'sig) node \<Rightarrow> ('ed, 'sig) node" where
  "node_step N (c, Gossip_Received data) node = snd (validate_message N c data node)"
| "node_step N (c, Block_Imported n h) node = snd (process_block N c n h node)"
| "node_step N (c, Aggregator_Ticks) node = aggregator_tick N c node"
| "node_step N (c, Sync_Ticks) node = finality_sync_tick c node"
| "node_step N (c, Finality_Notified n r) node =
     set_pool (prune_after_finalization N c n r (shared_pool node)) node"

definition new_node :: "('ed, 'sig) node" where
  "new_node = \<lparr>shared_pool = new_pool, known_messages = {}, last_finalized_round = 0,
     last_validator_set_id = 0, last_triggered_block = 0, finalized_with = [], submitted = []\<rparr>"

definition node_run ::
  "('c, 'ed, 'sig) node_config \<Rightarrow> (('c, 'sig, 'z) dcf_world_scheme node_client \<times> node_event) list
     \<Rightarrow> ('ed, 'sig) node" where
  "node_run N es = fold (node_step N) es new_node"

end
