(* ===== verification/Vote_Selection.thy ===== *)
theory Vote_Selection
  imports Vote_Aggregator Epoch_Weights
begin

text \<open>
  The lemmas on the selection of votes: taking votes in the order of descending weight until the
  threshold is reached takes as few votes as possible; and what a justification built from the pool
  consists of.
\<close>

section \<open>Taking the heaviest\<close>

text \<open>Of a list in descending order, no choice of as many elements is heavier than the first ones.\<close>

lemma heaviest_first:
  fixes f :: "'a \<Rightarrow> nat"
  assumes "sorted_wrt (\<lambda>a b. f b \<le> f a) xs" and "mset ys \<subseteq># mset xs"
  shows "sum_list (map f ys) \<le> sum_list (map f (take (length ys) xs))"
  using assms
proof (induction xs arbitrary: ys)
  case (Cons x xs)
  show ?case
  proof (cases ys)
    case (Cons y ys')
    obtain z zs where zs: "mset ys = add_mset z (mset zs)" "mset zs \<subseteq># mset xs" "f z \<le> f x"
    proof (cases "x \<in># mset ys")
      case True
      then have "mset ys = add_mset x (mset (remove1 x ys))"
        by simp
      then show ?thesis
        using that [of x "remove1 x ys"] Cons.prems(2) by (simp add: subset_eq_diff_conv)
    next
      case False
      then have "mset ys \<subseteq># mset xs"
        using Cons.prems(2) subset_eq_diff_conv [of "mset ys" "{#x#}" "mset xs"] by simp
      then have "mset ys' \<subseteq># mset xs" "y \<in> set xs"
        using Cons mset_subset_eq_insertD mset_subset_eqD [of "mset ys" "mset xs" y]
        by (fastforce dest: mset_subset_eq_insertD)+
      then show ?thesis
        using that [of y ys'] Cons Cons.prems(1) by simp
    qed
    have len: "length ys = Suc (length zs)"
      using zs(1) by (metis mset.simps(2) size_mset length_Cons)
    have "mset (map f ys) = mset (map f (z # zs))"
      using zs(1) by simp
    then have sum: "sum_list (map f ys) = f z + sum_list (map f zs)"
      by (metis list.simps(9) sum_list.Cons sum_mset_sum_list)
    have "sum_list (map f zs) \<le> sum_list (map f (take (length zs) xs))"
      using Cons.IH [OF _ zs(2)] Cons.prems(1) by simp
    with zs(3) show ?thesis
      by (simp add: len sum)
  qed simp
qed simp

text \<open>
  Up to the last vote taken the threshold has not been reached; and if all votes together reach it,
  the votes taken do.
\<close>

definition pair_sum :: "('v \<times> u128) list \<Rightarrow> nat" where
  "pair_sum xs = sum_list (map (unat \<circ> snd) xs)"

lemma pair_sum_simps [simp]:
  "pair_sum [] = 0" "pair_sum (e # xs) = unat (snd e) + pair_sum xs"
  by (simp_all add: pair_sum_def)

lemma take_until_take:
  assumes "unat acc + pair_sum xs < 2 ^ 128"
  shows "\<exists>n \<le> length xs. take_until threshold acc xs = map fst (take n xs)
    \<and> (\<forall>k. 0 < k \<and> k < n \<longrightarrow> unat acc + pair_sum (take k xs) < unat threshold)
    \<and> (unat threshold \<le> unat acc + pair_sum xs \<and> xs \<noteq> []
        \<longrightarrow> unat threshold \<le> unat acc + pair_sum (take n xs))"
  using assms
proof (induction xs arbitrary: acc)
  case (Cons e xs)
  obtain v x where e: "e = (v, x)"
    by (cases e)
  have acc': "unat (sat_add acc x) = unat acc + unat x"
    using Cons.prems by (simp add: e sat_simps)
  show ?case
  proof (cases "threshold \<le> sat_add acc x")
    case True
    then have "unat threshold \<le> unat acc + unat x"
      using acc' by (simp add: word_le_nat_alt)
    with True show ?thesis
      by (intro exI [of _ 1]) (simp add: e)
  next
    case False
    then have below: "unat acc + unat x < unat threshold"
      using acc' by (simp add: word_le_nat_alt)
    obtain n where n: "n \<le> length xs" "take_until threshold (sat_add acc x) xs = map fst (take n xs)"
      "\<And>k. 0 < k \<and> k < n \<Longrightarrow> unat acc + unat x + pair_sum (take k xs) < unat threshold"
      "unat threshold \<le> unat acc + unat x + pair_sum xs \<Longrightarrow> xs \<noteq> []
        \<Longrightarrow> unat threshold \<le> unat acc + unat x + pair_sum (take n xs)"
      using Cons.IH [of "sat_add acc x"] Cons.prems acc' by (auto simp: e)
    have "unat acc + pair_sum (take k (e # xs)) < unat threshold" if "0 < k" "k < Suc n" for k
    proof (cases "k = 1")
      case False
      with that show ?thesis
        using n(3) [of "k - 1"] by (cases k) (auto simp: e)
    qed (use below in \<open>simp add: e\<close>)
    moreover have "unat threshold \<le> unat acc + pair_sum (take (Suc n) (e # xs))"
      if "unat threshold \<le> unat acc + pair_sum (e # xs)"
      using n(4) that below by (cases xs) (auto simp: e)
    ultimately show ?thesis
      using n(1,2) False by (intro exI [of _ "Suc n"]) (simp add: e)
  qed
qed simp


section \<open>The votes of the pool with their weights\<close>

definition node_weight :: "(account_id, u128) smap \<Rightarrow> 'ed node_vote \<Rightarrow> nat" where
  "node_weight m v = vote_weight m (nv_account v)"

lemma weigh_votes_fst: "map fst (weigh_votes m vs) = filter (\<lambda>v. sm_has m (nv_account v)) vs"
  by (induction vs) (auto simp: weigh_votes_def List.map_filter_simps sm_has_def)

lemma weigh_votes_snd: "e \<in> set (weigh_votes m vs) \<Longrightarrow> snd e = sm_val 0 m (nv_account (fst e))"
  by (induction vs) (auto simp: weigh_votes_def List.map_filter_simps sm_val_def split: option.splits)

lemma pair_sum_weighed:
  assumes "\<And>e. e \<in> set xs \<Longrightarrow> snd e = sm_val 0 m (nv_account (fst e))"
  shows "pair_sum xs = sum_list (map (node_weight m) (map fst xs))"
  using assms by (induction xs) (simp_all add: node_weight_def vote_weight_def)

lemma unweighed: "\<not> sm_has m (nv_account v) \<Longrightarrow> node_weight m v = 0"
  by (auto simp: node_weight_def vote_weight_def sm_val_def sm_has_def)

text \<open>Votes of distinct accounts weigh no more than the whole electorate.\<close>

lemma distinct_votes_weight:
  assumes "distinct (map nv_account vs)" and "sm_wf m"
  shows "sum_list (map (node_weight m) vs) \<le> sm_sum m"
proof -
  have "sum_list (map (node_weight m) vs) = sum_list (map (vote_weight m) (map nv_account vs))"
    by (simp add: node_weight_def [abs_def] comp_def)
  also have "\<dots> = sum (vote_weight m) (nv_account ` set vs)"
    using assms(1) by (simp add: sum_list_distinct_conv_sum_set del: map_map)
  also have "\<dots> = sum (vote_weight m) (nv_account ` set vs \<inter> set (sm_keys m))"
    by (rule sum.mono_neutral_right)
      (auto simp: vote_weight_def sm_val_def smap.set_keys split: option.splits)
  also have "\<dots> \<le> sum (vote_weight m) (set (sm_keys m))"
    by (intro sum_mono2) auto
  finally show ?thesis
    using electorate_weight [OF assms(2)] by simp
qed

lemma votes_weight_exact:
  assumes "unat acc + sum_list (map (node_weight m) vs) < 2 ^ 128"
  shows "unat (fold (\<lambda>v acc. case sm_get m (nv_account v) of None \<Rightarrow> acc | Some x \<Rightarrow> sat_add acc x) vs acc)
     = unat acc + sum_list (map (node_weight m) vs)"
  using assms
proof (induction vs arbitrary: acc)
  case (Cons v vs)
  let ?acc = "case sm_get m (nv_account v) of None \<Rightarrow> acc | Some x \<Rightarrow> sat_add acc x"
  have "unat ?acc = unat acc + node_weight m v"
    using Cons.prems
    by (auto simp: node_weight_def vote_weight_def sm_val_def sat_simps split: option.splits)
  with Cons show ?case
    by simp
qed simp

lemma mset_chosen: "distinct ys \<Longrightarrow> set ys \<subseteq> set xs \<Longrightarrow> mset ys \<subseteq># mset xs"
  by (metis List.finite_set mset_set_set mset_set_set_mset_msubset set_mset_mset
      subset_imp_msubset_mset_set subset_mset.order_trans)

section \<open>The selection\<close>

text \<open>The selection succeeds when a stored vote has weight; this is what it then returns.\<close>

definition by_weight :: "(account_id, u128) smap \<Rightarrow> 'ed node_vote list \<Rightarrow> ('ed node_vote \<times> u128) list" where
  "by_weight m vs = sort_key (\<lambda>e. - int (unat (snd e))) (weigh_votes m vs)"

lemma select_votes_result:
  "select_votes N c p r h = Inr sel \<Longrightarrow> best_state c = Some w \<Longrightarrow>
     sel = take_until (weight_threshold N (EpochVotingWeight w)) 0
             (by_weight (EpochVotingWeight w) (get_votes p r h))
     \<and> weigh_votes (EpochVotingWeight w) (get_votes p r h) \<noteq> []"
  by (auto simp: select_votes_def by_weight_def Let_def split: if_splits)

lemma by_weight_facts:
  "set (by_weight m vs) = set (weigh_votes m vs)"
  "mset (by_weight m vs) = mset (weigh_votes m vs)"
  "length (by_weight m vs) = length (weigh_votes m vs)"
  "sorted_wrt (\<lambda>a b. (unat \<circ> snd) b \<le> (unat \<circ> snd) a) (by_weight m vs)"
proof -
  have "sorted (map (\<lambda>e. - int (unat (snd e))) (by_weight m vs))"
    unfolding by_weight_def by (rule sorted_sort_key)
  then show "sorted_wrt (\<lambda>a b. (unat \<circ> snd) b \<le> (unat \<circ> snd) a) (by_weight m vs)"
    by (simp add: sorted_map flip: word_le_def word_le_nat_alt)
qed (simp_all add: by_weight_def)

lemma by_weight_pairs:
  "e \<in> set (by_weight m vs) \<Longrightarrow> snd e = sm_val 0 m (nv_account (fst e))"
  "fst ` set (by_weight m vs) = {v \<in> set vs. sm_has m (nv_account v)}"
  "distinct (map nv_account vs) \<Longrightarrow> distinct (map nv_account (map fst (by_weight m vs)))"
  "pair_sum (by_weight m vs) = sum_list (map (node_weight m) vs)"
proof -
  let ?xs = "by_weight m vs" and ?vs = "filter (\<lambda>v. sm_has m (nv_account v)) vs"
  show snd: "e \<in> set ?xs \<Longrightarrow> snd e = sm_val 0 m (nv_account (fst e))" for e
    using weigh_votes_snd by (simp add: by_weight_facts)
  have fst: "mset (map fst ?xs) = mset ?vs"
    using by_weight_facts(2) [of m vs] by (metis mset_map weigh_votes_fst)
  show "fst ` set ?xs = {v \<in> set vs. sm_has m (nv_account v)}"
    using mset_eq_setD [OF fst] by (simp only: set_filter list.set_map)
  have "mset (map nv_account (map fst ?xs)) = mset (map nv_account ?vs)"
    using fst by (metis mset_map)
  from mset_eq_imp_distinct_iff [OF this]
  show "distinct (map nv_account vs) \<Longrightarrow> distinct (map nv_account (map fst ?xs))"
    using distinct_map_filter by blast
  have "pair_sum ?xs = sum_list (map (node_weight m) (map fst ?xs))"
    using snd by (intro pair_sum_weighed)
  also have "\<dots> = sum_list (map (node_weight m) ?vs)"
    using arg_cong [OF fst, of "\<lambda>M. sum_mset (image_mset (node_weight m) M)"]
    by (simp only: sum_mset_sum_list flip: mset_map)
  also have "\<dots> = sum_list (map (node_weight m) vs)"
    by (induction vs) (simp_all add: unweighed)
  finally show "pair_sum ?xs = sum_list (map (node_weight m) vs)" .
qed

lemma choice_as_pairs:
  assumes "S \<subseteq> set vs"
  shows "\<exists>ys. mset ys \<subseteq># mset (by_weight m vs) \<and> length ys \<le> card S
    \<and> pair_sum ys = sum (node_weight m) S"
proof -
  let ?S = "{v \<in> S. sm_has m (nv_account v)}" and ?xs = "by_weight m vs"
  have fin: "finite S"
    using assms finite_subset by auto
  obtain us where us: "set us = ?S" "distinct us"
    using finite_distinct_list [of ?S] fin by auto
  let ?ys = "map (\<lambda>v. (v, sm_val 0 m (nv_account v))) us"
  have "(v, sm_val 0 m (nv_account v)) \<in> set ?xs" if v: "v \<in> ?S" for v
  proof -
    have "v \<in> fst ` set ?xs"
      using v assms by (auto simp: by_weight_pairs(2))
    then obtain e where e: "e \<in> set ?xs" "v = fst e"
      by blast
    with by_weight_pairs(1) [OF e(1)] show ?thesis
      by (cases e) simp
  qed
  then have "set ?ys \<subseteq> set ?xs"
    using us(1) by auto
  moreover have "distinct ?ys"
    using us(2) by (simp add: distinct_map inj_on_def)
  ultimately have "mset ?ys \<subseteq># mset ?xs"
    by (intro mset_chosen)
  moreover have "length ?ys \<le> card S"
    using us fin card_mono [of S ?S] distinct_card [of us] by auto
  moreover have "pair_sum ?ys = sum (node_weight m) ?S"
  proof -
    have "pair_sum ?ys = sum_list (map (node_weight m) (map fst ?ys))"
      by (intro pair_sum_weighed) auto
    then have "pair_sum ?ys = sum_list (map (node_weight m) us)"
      by (simp add: comp_def)
    with us show ?thesis
      by (simp add: sum_list_distinct_conv_sum_set)
  qed
  moreover have "sum (node_weight m) ?S = sum (node_weight m) S"
    using fin by (intro sum.mono_neutral_left) (auto simp: unweighed)
  ultimately show ?thesis
    by (intro exI [of _ ?ys]) simp
qed

text \<open>
  Fewer votes than are taken do not reach the threshold, whichever they are; and what is taken
  reaches it if all stored votes together do.
\<close>

lemma taken_votes:
  assumes accounts: "distinct (map nv_account vs)" and m: "sm_wf m" "sm_sum m < 2 ^ 128"
    and sel: "sel = take_until threshold 0 (by_weight m vs)"
  shows "set sel \<subseteq> {v \<in> set vs. sm_has m (nv_account v)}"
    and "distinct (map nv_account sel)"
    and "weigh_votes m vs \<noteq> [] \<Longrightarrow> unat threshold \<le> sum_list (map (node_weight m) vs) \<Longrightarrow>
      unat threshold \<le> sum_list (map (node_weight m) sel)"
    and "0 < threshold \<Longrightarrow> S \<subseteq> set vs \<Longrightarrow> card S < length sel \<Longrightarrow>
      sum (node_weight m) S < unat threshold"
proof -
  let ?xs = "by_weight m vs"
  have "pair_sum ?xs < 2 ^ 128"
    using distinct_votes_weight [OF accounts m(1)] m(2) by (simp add: by_weight_pairs(4))
  then obtain n where n: "n \<le> length ?xs" "sel = map fst (take n ?xs)"
    "\<And>k. 0 < k \<Longrightarrow> k < n \<Longrightarrow> pair_sum (take k ?xs) < unat threshold"
    "unat threshold \<le> pair_sum ?xs \<Longrightarrow> ?xs \<noteq> [] \<Longrightarrow> unat threshold \<le> pair_sum (take n ?xs)"
    using take_until_take [of 0 ?xs threshold] unfolding sel by auto
  have "set sel \<subseteq> fst ` set ?xs"
    using n(2) by (auto dest: in_set_takeD)
  then show "set sel \<subseteq> {v \<in> set vs. sm_has m (nv_account v)}"
    by (simp only: by_weight_pairs(2))
  show "distinct (map nv_account sel)"
    using distinct_take [OF by_weight_pairs(3) [OF accounts], of n m] by (simp add: n(2) take_map)
  have "pair_sum (take n ?xs) = sum_list (map (node_weight m) sel)"
    unfolding n(2) by (rule pair_sum_weighed, rule by_weight_pairs(1), rule in_set_takeD)
  moreover have "?xs \<noteq> [] \<longleftrightarrow> weigh_votes m vs \<noteq> []"
    using by_weight_facts(3) [of m vs] by (metis length_0_conv)
  ultimately show "weigh_votes m vs \<noteq> [] \<Longrightarrow> unat threshold \<le> sum_list (map (node_weight m) vs) \<Longrightarrow>
      unat threshold \<le> sum_list (map (node_weight m) sel)"
    using n(4) unfolding by_weight_pairs(4) by simp
  assume pos: "0 < threshold" and S: "S \<subseteq> set vs" "card S < length sel"
  obtain ys where ys: "mset ys \<subseteq># mset ?xs" "length ys \<le> card S" "pair_sum ys = sum (node_weight m) S"
    using choice_as_pairs [OF S(1)] by blast
  have "pair_sum ys \<le> pair_sum (take (length ys) ?xs)"
    unfolding pair_sum_def by (rule heaviest_first [OF by_weight_facts(4) ys(1)])
  also have "\<dots> < unat threshold"
    using n(1-3) ys(2) S(2) pos by (cases "ys = []") (auto simp: word_less_nat_alt)
  finally show "sum (node_weight m) S < unat threshold"
    by (simp add: ys(3))
qed

section \<open>Justifications built from the pool\<close>

lemma first_duplicate_None:
  "first_duplicate seen vs = None \<longleftrightarrow> distinct (map nv_account vs) \<and> nv_account ` set vs \<inter> seen = {}"
  by (induction vs arbitrary: seen) auto

text \<open>The frozen weights of a state are in order when they add up to the recorded total without overflow.\<close>

definition weights_ok :: "('c, 'sig, 'z) dvf_world_scheme \<Rightarrow> bool" where
  "weights_ok w \<longleftrightarrow> sm_wf (EpochVotingWeight w) \<and> unat (TotalVotingWeight w) = sm_sum (EpochVotingWeight w)"

lemma weights_ok_total:
  assumes "weights_ok w"
  shows "sum_list (map snd (EpochVotingWeight w)) = TotalVotingWeight w"
    and "sm_sum (EpochVotingWeight w) < 2 ^ 128"
proof -
  have "of_nat (sm_sum m) = sum_list (map snd m)" for m :: "(account_id, u128) smap"
    by (induction m) (simp_all add: sm_sum_def)
  moreover have "of_nat (unat (TotalVotingWeight w)) = TotalVotingWeight w"
    by simp
  ultimately show "sum_list (map snd (EpochVotingWeight w)) = TotalVotingWeight w"
    using assms by (simp only: weights_ok_def)
  show "sm_sum (EpochVotingWeight w) < 2 ^ 128"
    using assms unat_lt [of "TotalVotingWeight w"] by (simp add: weights_ok_def)
qed

lemma votes_weight_nat:
  assumes "distinct (map nv_account vs)" and "weights_ok w"
  shows "unat (votes_weight (EpochVotingWeight w) vs) = sum_list (map (node_weight (EpochVotingWeight w)) vs)"
proof -
  have "sum_list (map (node_weight (EpochVotingWeight w)) vs) < 2 ^ 128"
    using distinct_votes_weight [OF assms(1), of "EpochVotingWeight w"] weights_ok_total(2) [OF assms(2)]
      assms(2) unfolding weights_ok_def by linarith
  then show ?thesis
    using votes_weight_exact [of 0 "EpochVotingWeight w" vs] by (simp add: votes_weight_def)
qed

lemma construct_result:
  assumes "construct_justification N c p r h = Inr j" and "best_state c = Some w"
  shows "nj_round_number j = r" and "nj_block_hash j = h"
    and "nj_votes j = take_until (weight_threshold N (EpochVotingWeight w)) 0
           (by_weight (EpochVotingWeight w) (get_votes p r h))"
    and "distinct (map nv_account (nj_votes j))"
    and "weight_threshold N (EpochVotingWeight w) \<le> votes_weight (EpochVotingWeight w) (nj_votes j)"
    and "weigh_votes (EpochVotingWeight w) (get_votes p r h) \<noteq> []"
  using assms select_votes_result [of N c p r h "nj_votes j" w]
    first_duplicate_None [of "{}" "nj_votes j"]
  by (auto simp: construct_justification_def Let_def linorder_not_less
      split: sum.splits option.splits if_splits)

text \<open>
  Conversely, stored votes that reach the threshold are built into a justification when the voters
  are active and the size limit leaves room for as many votes as there are active validators.
\<close>

lemma construct_succeeds:
  assumes w: "best_state c = Some w" "weights_ok w" and p: "pool_ok p"
    and reached: "0 < weight_threshold N (EpochVotingWeight w)"
      "unat (weight_threshold N (EpochVotingWeight w))
         \<le> sum_list (map (node_weight (EpochVotingWeight w)) (get_votes p r h))"
    and active: "nv_account ` set (get_votes p r h) \<subseteq> set (dcf_active_validators (chain_cfg N) w)"
    and size: "\<forall>j. length (nj_votes j) \<le> length (dcf_active_validators (chain_cfg N) w)
         \<longrightarrow> justification_size N j \<le> max_justification_size"
  shows "\<exists>j. construct_justification N c p r h = Inr j"
proof -
  let ?m = "EpochVotingWeight w" and ?vs = "get_votes p r h"
  let ?sel = "take_until (weight_threshold N ?m) 0 (by_weight ?m ?vs)"
  note taken = taken_votes [of ?vs ?m ?sel "weight_threshold N ?m", OF node_pool.one_each [OF p] _
      weights_ok_total(2) [OF w(2)] refl]
  have wf: "sm_wf ?m"
    using w(2) by (simp add: weights_ok_def)
  have weighted: "weigh_votes ?m ?vs \<noteq> []"
  proof
    assume "weigh_votes ?m ?vs = []"
    then have "by_weight ?m ?vs = []"
      using by_weight_facts(3) [of ?m ?vs] by simp
    then have "sum_list (map (node_weight ?m) ?vs) = 0"
      using by_weight_pairs(4) [of ?m ?vs] by simp
    with reached show False
      by (simp add: word_less_nat_alt)
  qed
  then have "?vs \<noteq> []"
    by (auto simp: weigh_votes_def List.map_filter_simps)
  with weighted w(1) have "select_votes N c p r h = Inr ?sel"
    by (simp add: select_votes_def by_weight_def Let_def)
  moreover have "first_duplicate {} ?sel = None"
    using taken(2) [OF wf] by (simp add: first_duplicate_None)
  moreover have "weight_threshold N ?m \<le> votes_weight ?m ?sel"
    using taken(3) [OF wf weighted reached(2)] votes_weight_nat [OF taken(2) [OF wf] w(2)]
    by (simp add: word_le_nat_alt)
  moreover have "length ?sel \<le> length (dcf_active_validators (chain_cfg N) w)"
  proof -
    have "length ?sel = card (nv_account ` set ?sel)"
      using distinct_card [OF taken(2) [OF wf]] by simp
    also have "\<dots> \<le> card (set (dcf_active_validators (chain_cfg N) w))"
      using taken(1) [OF wf] active by (intro card_mono) auto
    also have "\<dots> \<le> length (dcf_active_validators (chain_cfg N) w)"
      by (rule card_length)
    finally show ?thesis .
  qed
  ultimately show ?thesis
    using w(1) size by (auto simp: construct_justification_def enforce_size_limits_def Let_def not_less)
qed

end
