(* ===== verification/Node_Runs.thy ===== *)
theory Node_Runs
  imports Vote_Selection
begin

text \<open>
  What every step of a node's tasks keeps: the invariant of the pool, the messages already seen, and
  the heights at which the aggregator has finalised.
\<close>

section \<open>The pool\<close>

lemma pool_ok_set [simp]: "shared_pool (set_pool p node) = p"
  by (simp add: set_pool_def)

lemma validate_message_pool:
  "pool_ok (shared_pool node) \<Longrightarrow> pool_ok (shared_pool (snd (validate_message N c data node)))"
  using node_pool.inv_insert [of "shared_pool node"]
  by (auto simp: validate_message_def Let_def case_prod_unfold split: sum.split)

lemma broadcast_vote_pool:
  "pool_ok (shared_pool node) \<Longrightarrow> pool_ok (shared_pool (broadcast_vote v node))"
  by (simp add: broadcast_vote_def node_pool.inv_insert)

lemma create_vote_cases:
  "snd (create_and_broadcast_vote N c n h node) = node
     \<or> (\<exists>v. snd (create_and_broadcast_vote N c n h node) = broadcast_vote v node)"
  by (auto simp: create_and_broadcast_vote_def Let_def split: option.splits list.splits)

lemma process_block_cases:
  "snd (process_block N c n h node) = node \<or> (\<exists>v. snd (process_block N c n h node) = broadcast_vote v node)"
  using create_vote_cases [of N c n h node]
  by (auto simp: process_block_def split: option.splits prod.splits sum.splits)

lemma prune_pool: "pool_ok p \<Longrightarrow> pool_ok (prune_after_finalization N c n r p)"
  by (simp add: prune_after_finalization_def Let_def prune_by_round_age_def pool_ok_retain
      pool_ok_finalized pool_ok_size)

text \<open>The aggregator and the synchronisation do not touch the votes, but for pruning old rounds.\<close>

lemma trigger_frame:
  "shared_pool (snd (trigger_justification_construction N c r h node)) = shared_pool node"
  "known_messages (snd (trigger_justification_construction N c r h node)) = known_messages node"
  "last_triggered_block (snd (trigger_justification_construction N c r h node)) = last_triggered_block node"
  by (simp_all add: trigger_justification_construction_def split: sum.split)

lemma trigger_cases:
  "snd (trigger_justification_construction N c r h node) = node
   \<or> (\<exists>j. snd (trigger_justification_construction N c r h node)
      = node\<lparr>finalized_with := finalized_with node @ [(h, Some j)],
             submitted := submitted node @ [to_pallet_justification N j]\<rparr>)"
  by (auto simp: trigger_justification_construction_def split: sum.split)

text \<open>A check of the accumulation does nothing or tries one block, above the last one tried.\<close>

lemma accumulation_tries:
  fixes node :: "('ed, 'sig) node"
  shows "snd (check_vote_accumulation N c node) = node
   \<or> (\<exists>h n r f. header_number c h = Some n \<and> last_triggered_block node < n
        \<and> snd (check_vote_accumulation N c node)
            = (snd (trigger_justification_construction N c r h (node\<lparr>last_triggered_block := n\<rparr>)))
                \<lparr>last_finalized_round := f\<rparr>)"
proof (cases "best_state c")
  case w: (Some w)
  let ?best = "best_candidate (calculate_accumulated_weight c (shared_pool node) (CurrentRound w))
           (weight_threshold N (EpochVotingWeight w)) (None, 0) (open_candidates c w node)"
  show ?thesis
  proof (cases "open_candidates c w node \<noteq> [] \<and> (\<exists>h x. ?best = Inr (Some h, x))")
    case True
    then obtain h x where best: "?best = Inr (Some h, x)" "open_candidates c w node \<noteq> []"
      by blast
    show ?thesis
    proof (cases "\<exists>n. header_number c h = Some n \<and> last_triggered_block node < n \<and> FinalizedBlockNumber w < n")
      case True
      then obtain n where n: "header_number c h = Some n" "last_triggered_block node < n"
        "FinalizedBlockNumber w < n"
        by blast
      let ?t = "trigger_justification_construction N c (CurrentRound w) h (node\<lparr>last_triggered_block := n\<rparr>)"
      have "check_vote_accumulation N c node = (case ?t of
          (Inr _, node2) \<Rightarrow> (Inr (), node2\<lparr>last_finalized_round := CurrentRound w\<rparr>)
        | (Inl _, node2) \<Rightarrow> (Inr (), node2))"
        using n w best n(2,3) [unfolded linorder_not_le [symmetric]]
        by (simp add: check_vote_accumulation_def Let_def max_def)
      then have "\<exists>f. snd (check_vote_accumulation N c node) = (snd ?t)\<lparr>last_finalized_round := f\<rparr>"
        by (auto simp: case_prod_unfold split: sum.split
            intro: exI [of _ "last_finalized_round (snd ?t)"])
      with n show ?thesis
        by blast
    qed (use w best in \<open>auto simp: check_vote_accumulation_def not_less split: option.split\<close>)
  qed (use w in \<open>auto simp: check_vote_accumulation_def split: sum.split option.split\<close>)
qed (simp add: check_vote_accumulation_def)

lemma accumulation_frame:
  "shared_pool (snd (check_vote_accumulation N c node)) = shared_pool node"
  "known_messages (snd (check_vote_accumulation N c node)) = known_messages node"
proof -
  have "shared_pool (snd (check_vote_accumulation N c node)) = shared_pool node
      \<and> known_messages (snd (check_vote_accumulation N c node)) = known_messages node"
    using accumulation_tries [of N c node] by (elim disjE exE conjE) (simp_all add: trigger_frame)
  then show "shared_pool (snd (check_vote_accumulation N c node)) = shared_pool node"
    "known_messages (snd (check_vote_accumulation N c node)) = known_messages node"
    by simp_all
qed

lemma sync_frame:
  "shared_pool (finality_sync c node) = shared_pool node"
  "known_messages (finality_sync c node) = known_messages node"
  "last_triggered_block (finality_sync c node) = last_triggered_block node"
  "submitted (finality_sync c node) = submitted node"
proof -
  have "shared_pool (fold (sync_block c) ns node) = shared_pool node
    \<and> known_messages (fold (sync_block c) ns node) = known_messages node
    \<and> last_triggered_block (fold (sync_block c) ns node) = last_triggered_block node
    \<and> submitted (fold (sync_block c) ns node) = submitted node" for ns
    by (induction ns arbitrary: node) (simp_all add: sync_block_def split: option.split)
  then show "shared_pool (finality_sync c node) = shared_pool node"
    "known_messages (finality_sync c node) = known_messages node"
    "last_triggered_block (finality_sync c node) = last_triggered_block node"
    "submitted (finality_sync c node) = submitted node"
    by (simp_all add: finality_sync_def split: option.split)
qed

lemma set_changes_frame:
  "shared_pool (snd (check_validator_set_changes c node)) = shared_pool node"
  "known_messages (snd (check_validator_set_changes c node)) = known_messages node"
  "last_triggered_block (snd (check_validator_set_changes c node)) = last_triggered_block node"
  "finalized_with (snd (check_validator_set_changes c node)) = finalized_with node"
  "submitted (snd (check_validator_set_changes c node)) = submitted node"
  by (simp_all add: check_validator_set_changes_def split: option.split)

lemma node_step_pool: "pool_ok (shared_pool node) \<Longrightarrow> pool_ok (shared_pool (node_step N e node))"
proof (cases e)
  case (Pair c ev)
  assume ok: "pool_ok (shared_pool node)"
  show ?thesis
  proof (cases ev)
    case (Block_Imported n h)
    then show ?thesis
      using Pair ok process_block_cases [of N c n h node] broadcast_vote_pool by auto
  qed (use Pair ok in \<open>simp_all add: validate_message_pool aggregator_tick_def accumulation_frame
      set_changes_frame finality_sync_tick_def sync_frame prune_older_rounds_def pool_ok_retain prune_pool\<close>)
qed

lemma run_pool: "pool_ok (shared_pool node) \<Longrightarrow> pool_ok (shared_pool (fold (node_step N) es node))"
  by (induction es arbitrary: node) (simp_all add: node_step_pool)

section \<open>Messages seen\<close>

lemma node_step_known: "known_messages node \<subseteq> known_messages (node_step N e node)"
proof (cases e)
  case (Pair c ev)
  show ?thesis
  proof (cases ev)
    case (Block_Imported n h)
    then show ?thesis
      using Pair process_block_cases [of N c n h node] by (auto simp: broadcast_vote_def set_pool_def)
  next
    case (Gossip_Received data)
    then show ?thesis
      using Pair
      by (auto simp: validate_message_def Let_def set_pool_def split: sum.split prod.split)
  qed (use Pair in \<open>simp_all add: aggregator_tick_def accumulation_frame set_changes_frame
      finality_sync_tick_def sync_frame set_pool_def\<close>)
qed

lemma run_known: "known_messages node \<subseteq> known_messages (fold (node_step N) es node)"
  using node_step_known by (induction es arbitrary: node) (simp, fastforce)

section \<open>The heights of the justified blocks\<close>

definition justified :: "('ed, 'sig) node \<Rightarrow> hash list" where
  "justified node = map fst (filter (\<lambda>e. snd e \<noteq> None) (finalized_with node))"

lemma tick_justifies:
  obtains "justified (aggregator_tick N c node) = justified node"
      "last_triggered_block node \<le> last_triggered_block (aggregator_tick N c node)"
  | h n where "justified (aggregator_tick N c node) = justified node @ [h]"
      "header_number c h = Some n" "last_triggered_block node < n"
      "last_triggered_block (aggregator_tick N c node) = n"
proof -
  let ?node = "snd (check_validator_set_changes c node)"
  consider "aggregator_tick N c node = ?node"
    | h n r f where "header_number c h = Some n" "last_triggered_block node < n"
      "aggregator_tick N c node = (snd (trigger_justification_construction N c r h
         (?node\<lparr>last_triggered_block := n\<rparr>)))\<lparr>last_finalized_round := f\<rparr>"
    using accumulation_tries [of N c ?node] by (auto simp: aggregator_tick_def set_changes_frame)
  then show thesis
  proof cases
    case 1
    then show thesis
      using that(1) by (simp add: justified_def set_changes_frame)
  next
    case 2
    then show thesis
      using that trigger_cases [of N c r h "?node\<lparr>last_triggered_block := n\<rparr>"]
      by (auto simp: justified_def set_changes_frame less_imp_le)
  qed
qed

lemma set_pool_frame:
  "justified (set_pool p node) = justified node"
  "last_triggered_block (set_pool p node) = last_triggered_block node"
  by (simp_all add: set_pool_def justified_def)

lemma sync_justified: "justified (finality_sync c node) = justified node"
proof -
  have "justified (fold (sync_block c) ns node) = justified node" for ns
    by (induction ns arbitrary: node) (simp_all add: sync_block_def justified_def split: option.split)
  then show ?thesis
    by (simp add: finality_sync_def split: option.split)
qed

text \<open>From a node on, the heights that are justified rise, above the last one tried.\<close>

definition heights_rise :: "(hash \<Rightarrow> u32 option) \<Rightarrow> ('ed, 'sig) node \<Rightarrow> ('ed, 'sig) node \<Rightarrow> bool" where
  "heights_rise f node node' \<longleftrightarrow> (\<exists>hs ns. justified node' = justified node @ hs \<and> map f hs = map Some ns
     \<and> sorted_wrt (<) (last_triggered_block node # ns)
     \<and> last (last_triggered_block node # ns) \<le> last_triggered_block node')"

lemma heights_same:
  "justified node' = justified node \<Longrightarrow> last_triggered_block node \<le> last_triggered_block node'
     \<Longrightarrow> heights_rise f node node'"
  by (auto simp: heights_rise_def intro: exI [of _ "[]"])

lemma heights_trans:
  assumes "heights_rise f a b" and "heights_rise f b c"
  shows "heights_rise f a c"
proof -
  obtain hs ns where 1: "justified b = justified a @ hs" "map f hs = map Some ns"
    "sorted_wrt (<) (last_triggered_block a # ns)" "last (last_triggered_block a # ns) \<le> last_triggered_block b"
    using assms(1) unfolding heights_rise_def by blast
  obtain ks ms where 2: "justified c = justified b @ ks" "map f ks = map Some ms"
    "sorted_wrt (<) (last_triggered_block b # ms)" "last (last_triggered_block b # ms) \<le> last_triggered_block c"
    using assms(2) unfolding heights_rise_def by blast
  let ?xs = "last_triggered_block a # ns"
  have "x \<le> last ?xs" if "x \<in> set ?xs" for x
    using 1(3) that by (induction ns rule: rev_induct) (auto simp: sorted_wrt_append less_imp_le)
  then have "x < m" if "x \<in> set ?xs" "m \<in> set ms" for x m
    using 1(4) 2(3) that by (meson order.strict_trans1 order.trans sorted_wrt.simps(2))
  then have "sorted_wrt (<) (last_triggered_block a # (ns @ ms))"
    using 1(3) 2(3) by (auto simp: sorted_wrt_append)
  moreover have "last (last_triggered_block a # (ns @ ms)) \<le> last_triggered_block c"
    using 1(4) 2(4) by (cases ms) auto
  ultimately show ?thesis
    using 1(1,2) 2(1,2) unfolding heights_rise_def
    by (intro exI [of _ "hs @ ks"] exI [of _ "ns @ ms"]) simp
qed

lemma node_step_heights: "header_number c = f \<Longrightarrow> heights_rise f node (node_step N (c, ev) node)"
proof (cases ev)
  case Aggregator_Ticks
  assume f: "header_number c = f"
  show ?thesis
  proof (rule tick_justifies [of N c node])
    fix h n
    assume *: "justified (aggregator_tick N c node) = justified node @ [h]"
      "header_number c h = Some n" "last_triggered_block node < n"
      "last_triggered_block (aggregator_tick N c node) = n"
    then show ?thesis
      using f Aggregator_Ticks unfolding heights_rise_def
      by (intro exI [of _ "[h]"] exI [of _ "[n]"]) simp
  qed (simp add: Aggregator_Ticks heights_same)
next
  case Sync_Ticks
  then show ?thesis
    by (intro heights_same) (simp_all add: finality_sync_tick_def sync_frame sync_justified set_pool_frame)
next
  case (Block_Imported n h)
  then show ?thesis
    using process_block_cases [of N c n h node]
    by (intro heights_same) (auto simp: broadcast_vote_def set_pool_def justified_def)
qed (intro heights_same; auto simp: validate_message_def Let_def set_pool_def justified_def
    split: sum.split prod.split)+

lemma run_heights:
  "(\<forall>e \<in> set es. header_number (fst e) = f) \<Longrightarrow> heights_rise f node (fold (node_step N) es node)"
proof (induction es arbitrary: node)
  case (Cons e es)
  then show ?case
    using node_step_heights [of "fst e" f node N "snd e"] heights_trans by fastforce
qed (simp add: heights_same)

end
