(* ===== verification/Node_Properties.thy ===== *)
theory Node_Properties
  imports Node_Runs Quorum
begin

text \<open>
  The properties of the node's side of the finality protocol, each with a concrete instance: what the
  pool holds, what is selected from it, when a quorum becomes a finalised block, and how votes and
  blocks are lost on the way.
\<close>

section \<open>A concrete node\<close>

text \<open>
  A signature is the number of the key that made it; a message has one byte each for the account, the
  key, the validator set, the round, the block number and the block hash.
\<close>

definition sample_message :: "nat \<Rightarrow> nat \<Rightarrow> u32 \<Rightarrow> u32 \<Rightarrow> u32 \<Rightarrow> nat \<Rightarrow> nat node_vote" where
  "sample_message who key set_id round n h = \<lparr>nv_epoch_id = 1, nv_validator_set_id = set_id,
     nv_round_number = round, nv_block_number = n, nv_block_hash = Hash h, nv_account = AccountId who,
     nv_public_key = AccountId key, nv_signature = key\<rparr>"

fun sample_decode :: "8 word list \<Rightarrow> nat node_vote option" where
  "sample_decode [who, key, set_id, round, n, h] =
     Some (sample_message (unat who) (unat key) (ucast set_id) (ucast round) (ucast n) (unat h))"
| "sample_decode _ = None"

definition sample_node_config :: "(account_id \<Rightarrow> u128 \<times> u128, nat, nat) node_config" where
  "sample_node_config = \<lparr>
     chain_cfg = sample_config,
     ed25519_verify = (\<lambda>s payload k. k = AccountId s),
     multi_signature = (\<lambda>s. s),
     decode_vote = sample_decode,
     message_hash = (\<lambda>data. Hash (foldr (\<lambda>b a. unat b + 256 * a) data 0)),
     justification_size = (\<lambda>j. 37 + 180 * length (nj_votes j)),
     dvf_keys = [alice],
     ed25519_sign = (\<lambda>k payload. case k of AccountId s \<Rightarrow> Some s),
     own_account = alice\<rparr>"

definition sample_client :: "'w option \<Rightarrow> u32 \<Rightarrow> 'w node_client" where
  "sample_client st finalized = \<lparr>
     best_state = st,
     best_number = 150,
     finalized_number = finalized,
     header_number = (\<lambda>h. case h of Hash n \<Rightarrow> Some (of_nat n)),
     canonical_hash = (\<lambda>n. Some (Hash (unat n))),
     can_finalize = (\<lambda>h. True)\<rparr>"

definition sample_chain :: "(account_id \<Rightarrow> u128 \<times> u128, nat) dcf_world" where
  "sample_chain = sample_dcf_world\<lparr>ActiveValidators := [alice, bob, charlie]\<rparr>"

definition sample_pool :: "nat vote_pool" where
  "sample_pool = fold (\<lambda>v p. snd (insert_vote v p))
     [sample_message 3 3 0 0 130 130, sample_message 1 1 0 0 130 130, sample_message 2 2 0 0 130 130] new_pool"

lemmas node_sample_defs = sample_node_config_def sample_client_def sample_message_def node_dvf_def

lemma sample_pool_ok: "pool_ok sample_pool"
  unfolding sample_pool_def by (rule node_pool.received_inv)

lemma sample_pool_votes:
  "pool_votes sample_pool = [((0, Hash 130),
     [sample_message 3 3 0 0 130 130, sample_message 1 1 0 0 130 130, sample_message 2 2 0 0 130 130])]"
  by (simp add: sample_pool_def new_pool_def insert_vote_def sample_message_def Let_def map_defs)

lemma sample_chain_fields:
  "EpochVotingWeight sample_chain = [(AccountId 1, 12800), (AccountId 2, 12800), (AccountId 3, 6400)]"
  "TotalVotingWeight sample_chain = 32000" "CurrentRound sample_chain = 0"
  "FinalizedBlockNumber sample_chain = 120" "ValidatorSetId sample_chain = 0"
  "DcfCurrentEpoch sample_chain = 1"
  "dcf_active_validators sample_config sample_chain = [AccountId 1, AccountId 2, AccountId 3]"
  "node_dvf sample_node_config = sample_dvf_config" "chain_cfg sample_node_config = sample_config"
  "FinalityCheckpointInterval sample_dvf_config = 10"
  by (simp_all add: sample_chain_def dcf_sample_defs dcf_active_validators_def bv_truncate_def
      node_dvf_def sample_node_config_def alice_def bob_def charlie_def)

lemma sample_threshold:
  "weight_threshold sample_node_config [(AccountId 1, 12800), (AccountId 2, 12800), (AccountId 3, 6400)]
     = 21440"
  by (simp add: weight_threshold_def sample_chain_fields sample_dvf_config_def runtime_dvf_config_def)

lemma sample_node_fields [simp]:
  "justification_size sample_node_config j = 37 + 180 * length (nj_votes j)"
  "ed25519_verify sample_node_config s payload k \<longleftrightarrow> k = AccountId s"
  "multi_signature sample_node_config s = s" "decode_vote sample_node_config = sample_decode"
  "dvf_keys sample_node_config = [alice]" "own_account sample_node_config = alice"
  "ed25519_sign sample_node_config (AccountId s) payload = Some s"
  "verify sample_dvf_config s payload k \<longleftrightarrow> k = AccountId s"
  by (simp_all add: sample_node_config_def sample_dvf_config_def runtime_dvf_config_def)

lemma sample_weights_ok: "weights_ok sample_chain"
  by (simp add: weights_ok_def sample_chain_fields sm_wf_def sm_sum_def)

lemma sample_built:
  "construct_justification sample_node_config (sample_client (Some sample_chain) 120) sample_pool 0 (Hash 130)
     = Inr \<lparr>nj_round_number = 0, nj_block_hash = Hash 130,
         nj_votes = [sample_message 1 1 0 0 130 130, sample_message 2 2 0 0 130 130]\<rparr>"
  by (simp add: construct_justification_def select_votes_def get_votes_def sample_pool_votes
      sample_client_def sample_chain_fields sample_threshold weigh_votes_def List.map_filter_simps
      sample_message_def sat_add_def votes_weight_def enforce_size_limits_def max_justification_size_def
      sm_val_def sm_get_def del: One_nat_def)

section \<open>The pool\<close>

text \<open>
  C16. In every run of a node, that is after any sequence of gossiped messages, own votes, turns of the
  aggregator and of the synchronisation and pruning passes, in any order and with any views of the
  chain, the stored votes are filed under their own round and block, and no account has two votes in
  a round, be it for one block or for two.
\<close>

theorem pool_one_vote_each:
  "pool_ok (shared_pool (node_run N es))"
  unfolding node_run_def by (rule run_pool) (simp add: new_node_def node_pool.inv_empty)

section \<open>Selection\<close>

text \<open>
  C17. A justification built from a pool in order consists of stored votes of distinct accounts that
  hold frozen weight, reaches the threshold, and is as short as can be: no set of stored votes
  for the block with fewer votes reaches the threshold.
\<close>

theorem justification_minimal:
  assumes "construct_justification N c p r h = Inr j" and "best_state c = Some w"
    and "pool_ok p" and "weights_ok w" and "0 < weight_threshold N (EpochVotingWeight w)"
  shows "set (nj_votes j) \<subseteq> {v \<in> set (get_votes p r h). sm_has (EpochVotingWeight w) (nv_account v)}
    \<and> distinct (map nv_account (nj_votes j))
    \<and> unat (weight_threshold N (EpochVotingWeight w))
        \<le> sum_list (map (node_weight (EpochVotingWeight w)) (nj_votes j))
    \<and> (\<forall>S \<subseteq> set (get_votes p r h). card S < length (nj_votes j) \<longrightarrow>
        sum (node_weight (EpochVotingWeight w)) S < unat (weight_threshold N (EpochVotingWeight w)))"
proof -
  note built = construct_result [OF assms(1,2)]
  have wf: "sm_wf (EpochVotingWeight w)"
    using assms(4) by (simp add: weights_ok_def)
  note taken = taken_votes [OF node_pool.one_each [OF assms(3)] wf weights_ok_total(2) [OF assms(4)] built(3)]
  have "unat (weight_threshold N (EpochVotingWeight w))
      \<le> sum_list (map (node_weight (EpochVotingWeight w)) (nj_votes j))"
    using built(5) votes_weight_nat [OF built(4) assms(4)] by (simp add: word_le_nat_alt)
  with taken(1,2) taken(4) [OF assms(5)] show ?thesis
    by blast
qed

theorem justification_minimal_witness:
  "sum (node_weight (EpochVotingWeight sample_chain)) {sample_message 2 2 0 0 130 130} < 21440
   \<and> 21440 \<le> sum_list (map (node_weight (EpochVotingWeight sample_chain))
       [sample_message 1 1 0 0 130 130, sample_message 2 2 0 0 130 130])"
proof -
  let ?j = "\<lparr>nj_round_number = 0, nj_block_hash = Hash 130,
         nj_votes = [sample_message 1 1 0 0 130 130, sample_message 2 2 0 0 130 130]\<rparr>"
  have client: "best_state (sample_client (Some sample_chain) 120) = Some sample_chain"
    by (simp add: sample_client_def)
  have "0 < weight_threshold sample_node_config (EpochVotingWeight sample_chain)"
    by (simp add: sample_chain_fields sample_threshold del: One_nat_def)
  note minimal = justification_minimal [OF sample_built client sample_pool_ok sample_weights_ok this]
  have "{sample_message 2 2 0 0 130 130} \<subseteq> set (get_votes sample_pool 0 (Hash 130))"
    by (simp add: get_votes_def sample_pool_votes sm_val_def sm_get_def)
  moreover have "card {sample_message 2 2 0 0 130 130} < length (nj_votes ?j)"
    by simp
  ultimately have "sum (node_weight (EpochVotingWeight sample_chain)) {sample_message 2 2 0 0 130 130}
      < unat (weight_threshold sample_node_config (EpochVotingWeight sample_chain))"
    using minimal by blast
  with minimal show ?thesis
    by (simp add: sample_chain_fields sample_threshold del: One_nat_def)
qed

section \<open>A quorum becomes a finalised block\<close>

text \<open>The best candidate is one of those that reach the threshold, and there is one if any does.\<close>

lemma best_candidate_reaches:
  assumes "\<And>h. weight h = Inr (f h)"
    and "(\<exists>h \<in> set hs. threshold \<le> f h) \<or> (\<exists>h. fst best = Some h)"
    and "fst best = None \<Longrightarrow> snd best = 0" and "0 < threshold"
    and "\<And>h. fst best = Some h \<Longrightarrow> P h \<and> threshold \<le> f h"
    and "\<And>h. h \<in> set hs \<Longrightarrow> P h"
  shows "\<exists>h x. best_candidate weight threshold best hs = Inr (Some h, x) \<and> P h \<and> threshold \<le> f h"
  using assms(2-)
proof (induction hs arbitrary: best)
  case Nil
  then show ?case
    by (cases best) auto
next
  case (Cons h hs)
  let ?best = "if threshold \<le> f h \<and> snd best < f h then (Some h, f h) else best"
  have "\<exists>h x. best_candidate weight threshold ?best hs = Inr (Some h, x) \<and> P h \<and> threshold \<le> f h"
  proof (rule Cons.IH)
    show "(\<exists>h \<in> set hs. threshold \<le> f h) \<or> (\<exists>h. fst ?best = Some h)"
      using Cons.prems(1-3) by (cases "fst best") (auto simp: order.strict_trans2)
  qed (use Cons.prems in \<open>auto split: if_splits\<close>)
  moreover have "best_candidate weight threshold best (h # hs) = best_candidate weight threshold ?best hs"
    by (simp only: best_candidate.simps assms(1) sum.case)
  ultimately show ?case
    by (simp only:)
qed

text \<open>A vote of an active validator for a checkpoint, signed with the account's key.\<close>

definition honest_vote ::
  "('c, 'ed, 'sig) node_config \<Rightarrow> ('c, 'sig, 'z) dcf_world_scheme node_client
     \<Rightarrow> ('c, 'sig, 'z) dcf_world_scheme \<Rightarrow> 'ed node_vote \<Rightarrow> bool" where
  "honest_vote N c w v \<longleftrightarrow>
     verify (node_dvf N) (multi_signature N (nv_signature v)) (node_payload v) (nv_account v)
     \<and> nv_validator_set_id v = ValidatorSetId w
     \<and> header_number c (nv_block_hash v) = Some (nv_block_number v)
     \<and> is_checkpoint_block (node_dvf N) (nv_block_number v)
     \<and> nv_account v \<in> set (dcf_active_validators (chain_cfg N) w)"

lemma pallet_vote_fields [simp]:
  "validator_account (to_pallet_vote N v) = nv_account v"
  "payload_of (to_pallet_vote N v) = node_payload v"
  "signature (to_pallet_vote N v) = multi_signature N (nv_signature v)"
  "validator_set_id (to_pallet_vote N v) = nv_validator_set_id v"
  "round_id (to_pallet_vote N v) = nv_round_number v"
  "vote_block_hash (to_pallet_vote N v) = nv_block_hash v"
  "vote_block_number (to_pallet_vote N v) = nv_block_number v"
  by (simp_all add: to_pallet_vote_def payload_of_def node_payload_def)

lemma tally_pallet_votes:
  "tally m acc (map (to_pallet_vote N) vs)
     = fold (\<lambda>v acc. case sm_get m (nv_account v) of None \<Rightarrow> acc | Some x \<Rightarrow> sat_add acc x) vs acc"
  by (induction vs arbitrary: acc) (simp_all add: tally_def sm_val_def split: option.split)

lemma taken_nonempty: "xs \<noteq> [] \<Longrightarrow> take_until threshold acc xs \<noteq> []"
  by (cases xs) (auto simp: Let_def split: if_splits)

text \<open>What is built from honest votes for a block that is still open is valid for the pallet.\<close>

lemma honest_justification_valid:
  assumes built: "construct_justification N c p r h = Inr j" and w: "best_state c = Some w"
    and ok: "pool_ok p" "weights_ok w"
    and honest: "\<forall>v \<in> set (get_votes p r h). honest_vote N c w v"
    and n: "header_number c h = Some n" "FinalizedBlockNumber w < n"
  shows "nj_votes j \<noteq> [] \<and> justification_valid (node_dvf N) w (to_pallet_justification N j)"
proof -
  note result = construct_result [OF built w]
  have wf: "sm_wf (EpochVotingWeight w)"
    using ok(2) by (simp add: weights_ok_def)
  note taken = taken_votes [OF node_pool.one_each [OF ok(1)] wf weights_ok_total(2) [OF ok(2)] result(3)]
  have some: "nj_votes j \<noteq> []"
    using result(3,6) taken_nonempty by_weight_facts(3) by (metis length_0_conv)
  then have hd: "hd (nj_votes j) \<in> set (nj_votes j)"
    by simp
  have vote: "honest_vote N c w v \<and> sm_has (EpochVotingWeight w) (nv_account v)
      \<and> nv_round_number v = r \<and> nv_block_hash v = h \<and> nv_block_number v = n" if "v \<in> set (nj_votes j)" for v
  proof -
    have v: "v \<in> set (get_votes p r h)" "sm_has (EpochVotingWeight w) (nv_account v)"
      using taken(1) that by auto
    with honest node_pool.filed [OF ok(1) v(1)] n(1) show ?thesis
      by (auto simp: honest_vote_def)
  qed
  have "tally (EpochVotingWeight w) 0 (map (to_pallet_vote N) (nj_votes j))
      = votes_weight (EpochVotingWeight w) (nj_votes j)"
    by (simp add: tally_pallet_votes votes_weight_def)
  moreover have "threshold_of (node_dvf N) (TotalVotingWeight w) = weight_threshold N (EpochVotingWeight w)"
    by (simp add: weight_threshold_def weights_ok_total(1) [OF ok(2)])
  ultimately have "justification_valid (node_dvf N) w (to_pallet_justification N j)"
    using some result(1,2,4,5) vote n(2) vote [OF hd]
    by (auto simp: justification_valid_def vote_ok_def honest_vote_def to_pallet_justification_def
        hd_map comp_def)
  with some show ?thesis
    by blast
qed

text \<open>An open block with enough votes makes the aggregator choose one such block, and submit what it builds.\<close>

lemma quorum_chosen:
  assumes w: "weights_ok w" "0 < weight_threshold N (EpochVotingWeight w)" and pool: "pool_ok (shared_pool node)"
    and open_block: "header_number c h = Some n" "last_triggered_block node < n" "FinalizedBlockNumber w < n"
    and quorum: "unat (weight_threshold N (EpochVotingWeight w))
      \<le> sum_list (map (node_weight (EpochVotingWeight w)) (get_votes (shared_pool node) (CurrentRound w) h))"
  obtains h' n' x where "best_candidate
      (\<lambda>h. Inr (votes_weight (EpochVotingWeight w) (get_votes (shared_pool node) (CurrentRound w) h)))
      (weight_threshold N (EpochVotingWeight w)) (None, 0) (open_candidates c w node) = Inr (Some h', x)"
    "header_number c h' = Some n'" "last_triggered_block node < n'" "FinalizedBlockNumber w < n'"
    "unat (weight_threshold N (EpochVotingWeight w))
      \<le> sum_list (map (node_weight (EpochVotingWeight w)) (get_votes (shared_pool node) (CurrentRound w) h'))"
    "open_candidates c w node \<noteq> []"
proof -
  let ?p = "shared_pool node" and ?t = "weight_threshold N (EpochVotingWeight w)"
  let ?f = "\<lambda>h. votes_weight (EpochVotingWeight w) (get_votes ?p (CurrentRound w) h)"
  let ?opens = "\<lambda>h. \<exists>n. header_number c h = Some n \<and> last_triggered_block node < n \<and> FinalizedBlockNumber w < n"
  have weight: "?t \<le> ?f h \<longleftrightarrow> unat ?t
      \<le> sum_list (map (node_weight (EpochVotingWeight w)) (get_votes ?p (CurrentRound w) h))" for h
    using votes_weight_nat [OF node_pool.one_each [OF pool] w(1)] by (simp add: word_le_nat_alt)
  have "get_votes ?p (CurrentRound w) h \<noteq> []"
    using quorum w(2) by (auto simp: word_less_nat_alt)
  then have "(CurrentRound w, h) \<in> set (sm_keys (pool_votes ?p))"
    by (auto simp: get_votes_def sm_val_def smap.set_keys split: option.splits)
  then have cand: "h \<in> set (open_candidates c w node)"
    using open_block by (force simp: open_candidates_def get_candidate_blocks_def)
  have "\<exists>h' x. best_candidate (\<lambda>h. Inr (?f h)) ?t (None, 0) (open_candidates c w node) = Inr (Some h', x)
      \<and> ?opens h' \<and> ?t \<le> ?f h'"
  proof (rule best_candidate_reaches)
    show "(\<exists>h \<in> set (open_candidates c w node). ?t \<le> ?f h) \<or> (\<exists>h. fst (None, 0 :: u128) = Some h)"
      using cand quorum weight by blast
    show "?opens h'" if "h' \<in> set (open_candidates c w node)" for h'
      using that by (auto simp: open_candidates_def split: option.splits)
  qed (use w(2) in auto)
  with that cand weight show thesis
    by (metis empty_iff list.set(1))
qed

lemma tick_submits:
  assumes w: "best_state c = Some w" and cands: "open_candidates c w node \<noteq> []"
    and best: "best_candidate
      (\<lambda>h. Inr (votes_weight (EpochVotingWeight w) (get_votes (shared_pool node) (CurrentRound w) h)))
      (weight_threshold N (EpochVotingWeight w)) (None, 0) (open_candidates c w node) = Inr (Some h, x)"
    and n: "header_number c h = Some n" "last_triggered_block node < n" "FinalizedBlockNumber w < n"
    and built: "construct_justification N c (shared_pool node) (CurrentRound w) h = Inr j" "nj_votes j \<noteq> []"
    and fin: "can_finalize c h"
  shows "submitted (aggregator_tick N c node) = submitted node @ [to_pallet_justification N j]"
proof -
  let ?node = "snd (check_validator_set_changes c node)"
  have "open_candidates c w ?node = open_candidates c w node"
    by (simp only: open_candidates_def set_changes_frame)
  moreover have "calculate_accumulated_weight c (shared_pool node) (CurrentRound w)
      = (\<lambda>h. Inr (votes_weight (EpochVotingWeight w) (get_votes (shared_pool node) (CurrentRound w) h)))"
    using w by (simp add: calculate_accumulated_weight_def fun_eq_iff)
  ultimately show ?thesis
    using w cands best n n(2,3) [unfolded linorder_not_le [symmetric]] built fin
    by (simp add: aggregator_tick_def check_vote_accumulation_def trigger_justification_construction_def
        set_changes_frame Let_def)
qed

text \<open>
  C15. Once the votes of the current round in a node's pool are honest and those for one block that is
  above everything finalised or tried so far reach the threshold, one turn of the aggregator sends a
  justification to the transaction pool, and the pallet accepts it and finalises a later block than
  before. The votes are signed with the voters' own keys, name the current validator set and the
  true number of their block, and come from active validators; the client can finalise the
  candidates, and justifications with a vote per active validator fit the size limit.
\<close>

theorem honest_quorum_finalizes:
  assumes w: "best_state c = Some w" "weights_ok w" "0 < weight_threshold N (EpochVotingWeight w)"
    and pool: "pool_ok (shared_pool node)"
    and honest: "\<forall>v \<in> set (round_votes (shared_pool node) (CurrentRound w)). honest_vote N c w v"
    and open_block: "header_number c h = Some n" "last_triggered_block node < n" "FinalizedBlockNumber w < n"
    and quorum: "unat (weight_threshold N (EpochVotingWeight w))
      \<le> sum_list (map (node_weight (EpochVotingWeight w)) (get_votes (shared_pool node) (CurrentRound w) h))"
    and client: "\<forall>h. can_finalize c h"
      "\<forall>j. length (nj_votes j) \<le> length (dcf_active_validators (chain_cfg N) w)
         \<longrightarrow> justification_size N j \<le> max_justification_size"
  shows "\<exists>j w'. submitted (aggregator_tick N c node) = submitted node @ [j]
    \<and> submit_justification (node_dvf N) Unsigned j w = (Inr (), w')
    \<and> FinalizedBlockNumber w < FinalizedBlockNumber w'"
proof -
  let ?p = "shared_pool node" and ?r = "CurrentRound w"
  obtain h' n' x where h': "best_candidate
      (\<lambda>h. Inr (votes_weight (EpochVotingWeight w) (get_votes ?p ?r h)))
      (weight_threshold N (EpochVotingWeight w)) (None, 0) (open_candidates c w node) = Inr (Some h', x)"
    "header_number c h' = Some n'" "last_triggered_block node < n'" "FinalizedBlockNumber w < n'"
    "unat (weight_threshold N (EpochVotingWeight w))
      \<le> sum_list (map (node_weight (EpochVotingWeight w)) (get_votes ?p ?r h'))"
    "open_candidates c w node \<noteq> []"
    by (rule quorum_chosen [OF w(2,3) pool open_block quorum])
  have votes: "\<forall>v \<in> set (get_votes ?p ?r h'). honest_vote N c w v"
    using honest get_votes_round [of ?p ?r h'] by (auto dest: list_emb_set)
  then have "nv_account ` set (get_votes ?p ?r h') \<subseteq> set (dcf_active_validators (chain_cfg N) w)"
    by (auto simp: honest_vote_def)
  then obtain j where j: "construct_justification N c ?p ?r h' = Inr j"
    using construct_succeeds [OF w(1,2) pool w(3) h'(5) _ client(2)] by blast
  let ?j = "to_pallet_justification N j"
  have valid: "nj_votes j \<noteq> [] \<and> justification_valid (node_dvf N) w ?j"
    by (rule honest_justification_valid [OF j w(1) pool w(2) votes h'(2,4)])
  have "submitted (aggregator_tick N c node) = submitted node @ [?j]"
    using tick_submits [OF w(1) h'(6,1,2,3,4) j] valid client(1) by blast
  moreover obtain w' where "submit_justification (node_dvf N) Unsigned ?j w = (Inr (), w')"
      "FinalizedBlockNumber w < FinalizedBlockNumber w'"
    using justification_accepted [of "node_dvf N" w ?j] valid
    by (auto simp: submit_justification_def justification_valid_def)
  ultimately show ?thesis
    by blast
qed

definition sample_node :: "(nat, nat) node" where
  "sample_node = new_node\<lparr>shared_pool := sample_pool\<rparr>"

theorem honest_quorum_finalizes_witness:
  "\<exists>j w'. submitted (aggregator_tick sample_node_config (sample_client (Some sample_chain) 120) sample_node) = [j]
     \<and> submit_justification sample_dvf_config Unsigned j sample_chain = (Inr (), w')
     \<and> 120 < FinalizedBlockNumber w'"
proof -
  let ?c = "sample_client (Some sample_chain) 120"
  have votes: "get_votes sample_pool 0 (Hash 130) =
      [sample_message 3 3 0 0 130 130, sample_message 1 1 0 0 130 130, sample_message 2 2 0 0 130 130]"
    "round_votes sample_pool 0 = get_votes sample_pool 0 (Hash 130)"
    by (simp_all add: get_votes_def round_votes_def sample_pool_votes sm_val_def sm_get_def)
  have client: "best_state ?c = Some sample_chain" "header_number ?c (Hash 130) = Some 130"
    "\<forall>h. can_finalize ?c h"
    by (simp_all add: sample_client_def)
  have node: "shared_pool sample_node = sample_pool" "last_triggered_block sample_node = 0"
    "submitted sample_node = []"
    by (simp_all add: sample_node_def new_node_def)
  have honest: "honest_vote sample_node_config ?c sample_chain (sample_message k k 0 0 130 130)"
    if "k = 1 \<or> k = 2 \<or> k = 3" for k
    using that by (auto simp: honest_vote_def sample_chain_fields sample_client_def sample_message_def
        is_checkpoint_block_def node_payload_def)
  have "\<forall>v \<in> set (round_votes (shared_pool sample_node) (CurrentRound sample_chain)).
      honest_vote sample_node_config ?c sample_chain v"
    using honest by (simp add: node votes sample_chain_fields)
  moreover have "unat (weight_threshold sample_node_config (EpochVotingWeight sample_chain))
      \<le> sum_list (map (node_weight (EpochVotingWeight sample_chain))
          (get_votes (shared_pool sample_node) (CurrentRound sample_chain) (Hash 130)))"
    by (simp add: node votes sample_chain_fields sample_threshold node_weight_def vote_weight_def
        sample_message_def sm_val_def sm_get_def del: One_nat_def)
  moreover have "0 < weight_threshold sample_node_config (EpochVotingWeight sample_chain)"
    by (simp add: sample_chain_fields sample_threshold del: One_nat_def)
  moreover have "\<forall>j. length (nj_votes j)
      \<le> length (dcf_active_validators (chain_cfg sample_node_config) sample_chain) \<longrightarrow>
      justification_size sample_node_config j \<le> max_justification_size"
    by (simp add: sample_chain_fields max_justification_size_def)
  ultimately show ?thesis
    using honest_quorum_finalizes [OF client(1) sample_weights_ok _ _ _ client(2) _ _ _ client(3),
        of sample_node_config sample_node]
    by (simp add: node sample_pool_ok sample_chain_fields del: One_nat_def)
qed

text \<open>
  A justification whose votes name two validator sets, which the builder does not look for, is refused
  by the pallet; the block has been finalised in the client by then.
\<close>

lemma mixed_sets_refused:
  assumes "u \<in> set (nj_votes j)" and "v \<in> set (nj_votes j)"
    and "nv_validator_set_id u \<noteq> nv_validator_set_id v"
  shows "fst (submit_justification (node_dvf N) Unsigned (to_pallet_justification N j) w) \<noteq> Inr ()"
  using assms
  by (auto simp: submit_justification_def accepted_iff_valid justification_valid_def
      to_pallet_justification_def)

section \<open>Blocks are tried once\<close>

text \<open>
  C19. From any node on, and however its run goes on, the blocks it finalises with a justification have
  strictly rising heights, all above the last height that the aggregator has tried. A
  block whose justification could not be built, could not be finalised or was refused by the pallet is
  therefore not tried again: the height is recorded before the attempt.
\<close>

theorem justified_heights_rise:
  assumes "\<forall>e \<in> set es. header_number (fst e) = f"
  shows "\<exists>hs ns. justified (fold (node_step N) es node) = justified node @ hs \<and> map f hs = map Some ns
    \<and> sorted_wrt (<) (last_triggered_block node # ns)
    \<and> last (last_triggered_block node # ns) \<le> last_triggered_block (fold (node_step N) es node)"
  using run_heights [OF assms] unfolding heights_rise_def .

theorem justified_heights_rise_witness:
  "\<exists>hs ns. justified (fold (node_step sample_node_config)
       [(sample_client (Some sample_chain) 120, Aggregator_Ticks),
        (sample_client (Some sample_chain) 120, Aggregator_Ticks)] sample_node) = hs
     \<and> sorted_wrt (<) (0 # ns) \<and> map (header_number (sample_client (Some sample_chain) 120)) hs = map Some ns"
  using justified_heights_rise [of "[(sample_client (Some sample_chain) 120, Aggregator_Ticks),
        (sample_client (Some sample_chain) 120, Aggregator_Ticks)]"
      "header_number (sample_client (Some sample_chain) 120)" sample_node_config sample_node]
  by (simp add: sample_node_def new_node_def justified_def) blast

section \<open>The synchronisation forgets votes\<close>

text \<open>
  Every turn of the finality synchronisation drops the votes of all rounds whose number is below
  the height of the client's finalised block. While the current round is below that height, nothing
  is left to aggregate: the next turn of the aggregator submits nothing, whatever had been
  collected; and an account that has voted in the round can vote again, also for another block.
\<close>

theorem sync_forgets_votes:
  assumes "CurrentRound w < finalized_number c" and "best_state c' = Some w"
  shows "round_votes (shared_pool (finality_sync_tick c node)) (CurrentRound w) = []
    \<and> submitted (aggregator_tick N c' (finality_sync_tick c node)) = submitted node
    \<and> fst (insert_vote (v\<lparr>nv_round_number := CurrentRound w\<rparr>) (shared_pool (finality_sync_tick c node)))"
proof -
  let ?p = "retain_rounds (finalized_number c) (shared_pool node)"
  have pool: "shared_pool (finality_sync_tick c node) = ?p"
    by (simp add: finality_sync_tick_def sync_frame prune_older_rounds_def)
  have gone: "round_votes ?p (CurrentRound w) = []"
    using assms(1) by (simp add: retain_round_votes)
  have "get_candidate_blocks ?p (CurrentRound w) = []"
    using assms(1) by (auto simp: get_candidate_blocks_def sm_keys_def retain_entries filter_empty_conv)
  then have "open_candidates c' w (snd (check_validator_set_changes c' (finality_sync_tick c node))) = []"
    by (simp add: open_candidates_def set_changes_frame pool)
  then have "submitted (aggregator_tick N c' (finality_sync_tick c node)) = submitted node"
    using assms(2) by (simp add: aggregator_tick_def check_vote_accumulation_def set_changes_frame
        finality_sync_tick_def sync_frame) (simp add: set_pool_def)
  moreover have "sm_val {} (round_participation ?p) (CurrentRound w) = {}"
    using assms(1) by (auto simp: sm_val_def sm_get_def retain_entries split: option.splits
        dest!: map_of_SomeD)
  then have "fst (insert_vote (v\<lparr>nv_round_number := CurrentRound w\<rparr>) ?p)"
    by (simp add: insert_vote_def Let_def)
  ultimately show ?thesis
    using gone pool by simp
qed

theorem sync_forgets_votes_witness:
  "round_votes (shared_pool (finality_sync_tick (sample_client (Some sample_chain) 120) sample_node)) 0 = []
   \<and> submitted (aggregator_tick sample_node_config (sample_client (Some sample_chain) 120)
       (finality_sync_tick (sample_client (Some sample_chain) 120) sample_node)) = []"
  using sync_forgets_votes [of sample_chain "sample_client (Some sample_chain) 120"
      "sample_client (Some sample_chain) 120" sample_node sample_node_config]
  by (simp add: sample_client_def sample_chain_fields sample_node_def new_node_def)

end
