(* ===== verification/Gossip_Properties.thy ===== *)
theory Gossip_Properties
  imports Node_Properties
begin

text \<open>
  The properties of how votes enter a node: the votes it makes pass at other nodes, a vote refused
  once is never taken, and the key that signs is not tied to the account that votes.
\<close>

section \<open>The node's own votes\<close>

text \<open>
  A vote that a validator makes for an imported checkpoint passes the checks of gossip at every
  node that sees the same state of the chain and decodes the message back to the vote, provided
  that what the keystore signs verifies under the key: it names the current epoch, set and round
  and the account of an active validator.
\<close>

theorem created_vote_validates:
  assumes "process_block N c n h node = (Inr (Some v), node')" and "best_state c = Some w"
    and "best_state c' = Some w" and "chain_cfg N' = chain_cfg N" and "decode_vote N' data = Some v"
    and "\<forall>k payload s. ed25519_sign N k payload = Some s \<longrightarrow> ed25519_verify N' s payload k"
  shows "validate_core N' c' data = Inr v \<and> nv_round_number v = CurrentRound w
    \<and> nv_block_number v = n \<and> nv_block_hash v = h \<and> nv_account v = own_account N
    \<and> checkpoint_for_voting N n \<and> finalized_number c < n"
proof -
  have checks: "checkpoint_for_voting N n" "finalized_number c < n"
    "own_account N \<in> set (dcf_active_validators (chain_cfg N) w)"
    and made: "fst (create_and_broadcast_vote N c n h node) = Inr v"
    using assms(1,2) by (auto simp: process_block_def split: if_splits prod.splits sum.splits)
  then obtain key s where v: "v = \<lparr>nv_epoch_id = DcfCurrentEpoch w, nv_validator_set_id = ValidatorSetId w,
      nv_round_number = CurrentRound w, nv_block_number = n, nv_block_hash = h,
      nv_account = own_account N, nv_public_key = key, nv_signature = s\<rparr>"
    and s: "ed25519_sign N key (DcfCurrentEpoch w, ValidatorSetId w, CurrentRound w, n, h, own_account N) = Some s"
    using assms(2) by (auto simp: create_and_broadcast_vote_def Let_def split: option.splits list.splits)
  have "ed25519_verify N' (nv_signature v) (node_payload v) (nv_public_key v)"
    using assms(6) s by (simp add: v node_payload_def)
  then show ?thesis
    using assms(3-5) checks by (simp add: validate_core_def v)
qed

theorem created_vote_validates_witness:
  "validate_core sample_node_config (sample_client (Some sample_chain) 120) [1, 1, 0, 0, 130, 130]
     = Inr (sample_message 1 1 0 0 130 130)"
proof -
  have "process_block sample_node_config (sample_client (Some sample_chain) 120) 130 (Hash 130) new_node
      = (Inr (Some (sample_message 1 1 0 0 130 130)), broadcast_vote (sample_message 1 1 0 0 130 130) new_node)"
    by (simp add: process_block_def create_and_broadcast_vote_def sample_client_def sample_chain_fields
        checkpoint_for_voting_def sample_message_def alice_def Let_def del: One_nat_def)
  note made = this
  have sign: "\<forall>k payload s. ed25519_sign sample_node_config k payload = Some s \<longrightarrow>
      ed25519_verify sample_node_config s payload k"
    by (simp add: sample_node_config_def split: account_id.split)
  have client: "best_state (sample_client (Some sample_chain) 120) = Some sample_chain"
    by (simp add: sample_client_def)
  have "decode_vote sample_node_config [1, 1, 0, 0, 130, 130] = Some (sample_message 1 1 0 0 130 130)"
    by simp
  from created_vote_validates [OF made client client refl this sign] show ?thesis
    by (rule conjunct1)
qed

section \<open>Votes refused once\<close>

text \<open>
  A message that gossip discards is never looked at again, however the run of the node goes on
  and whatever the reason was: the message is recorded as known before it is checked. A valid vote
  that arrives before the node has imported the block that starts its epoch, or while the runtime cannot
  be asked, is lost to this node although it would pass later.
\<close>

theorem refused_vote_lost:
  assumes "fst (validate_message N c data node) = DiscardMessage"
    and "later = fold (node_step N) es (snd (validate_message N c data node))"
  shows "validate_message N c' data later = (ProcessAndDiscard (message_hash N data), later)"
proof -
  have "message_hash N data \<in> known_messages (snd (validate_message N c data node))"
    using assms(1) by (auto simp: validate_message_def Let_def split: if_splits sum.splits prod.splits)
  then have "message_hash N data \<in> known_messages later"
    using run_known unfolding assms(2) by blast
  then show ?thesis
    by (simp add: validate_message_def Let_def)
qed

definition offline_client :: "(account_id \<Rightarrow> u128 \<times> u128, nat) dcf_world node_client" where
  "offline_client = sample_client None 120"

theorem refused_vote_lost_witness:
  "fst (validate_message sample_node_config (sample_client (Some sample_chain) 120) [1, 1, 0, 0, 130, 130]
      (snd (validate_message sample_node_config offline_client [1, 1, 0, 0, 130, 130] new_node)))
     = ProcessAndDiscard (message_hash sample_node_config [1, 1, 0, 0, 130, 130])"
proof -
  have "fst (validate_message sample_node_config offline_client [1, 1, 0, 0, 130, 130] new_node)
      = DiscardMessage"
    by (simp add: validate_message_def validate_core_def new_node_def offline_client_def sample_client_def
        sample_message_def Let_def)
  from refused_vote_lost [OF this refl, of "sample_client (Some sample_chain) 120" "[]"] show ?thesis
    by simp
qed

section \<open>Keys and accounts\<close>

text \<open>
  C18. Gossip checks the signature of a vote under the key that the message itself carries, and nothing
  ties that key to the account. A message signed with any key, whoever holds it, that names an active
  validator as voter and the current epoch and set is stored as the validator's vote if
  the validator has not voted in the round; and then every later vote of the validator in the
  round, the genuine one included, is refused as a double vote.
\<close>

theorem vote_counts_for_any_account:
  assumes "decode_vote N data = Some m" and "message_hash N data \<notin> known_messages node"
    and "ed25519_verify N (nv_signature m) (node_payload m) (nv_public_key m)"
    and "best_state c = Some w" and "nv_account m \<in> set (dcf_active_validators (chain_cfg N) w)"
    and "nv_epoch_id m = DcfCurrentEpoch w" and "nv_validator_set_id m = ValidatorSetId w"
    and "nv_account m \<notin> sm_val {} (round_participation (shared_pool node)) (nv_round_number m)"
    and "node' = snd (validate_message N c data node)"
  shows "fst (validate_message N c data node) = ProcessAndKeep (message_hash N data)
    \<and> m \<in> set (get_votes (shared_pool node') (nv_round_number m) (nv_block_hash m))
    \<and> insert_vote (v\<lparr>nv_account := nv_account m, nv_round_number := nv_round_number m\<rparr>) (shared_pool node')
        = (False, shared_pool node')"
proof -
  have "validate_core N c data = Inr m"
    using assms(1,3-7) by (simp add: validate_core_def)
  then have run: "validate_message N c data node = (ProcessAndKeep (message_hash N data),
      set_pool (snd (insert_vote m (shared_pool node)))
        (node\<lparr>known_messages := insert (message_hash N data) (known_messages node)\<rparr>))"
    using assms(2,8) by (simp add: validate_message_def insert_vote_def Let_def)
  then show ?thesis
    using assms(8) by (simp add: assms(9) insert_vote_def get_votes_def Let_def)
qed

theorem vote_counts_for_any_account_witness:
  "sample_message 2 3 0 0 130 99
     \<in> set (get_votes (shared_pool (snd (validate_message sample_node_config
         (sample_client (Some sample_chain) 120) [2, 3, 0, 0, 130, 99] new_node))) 0 (Hash 99))"
  using vote_counts_for_any_account [of sample_node_config "[2, 3, 0, 0, 130, 99]"
      "sample_message 2 3 0 0 130 99" new_node "sample_client (Some sample_chain) 120" sample_chain]
  by (simp add: sample_message_def sample_client_def sample_chain_fields new_node_def new_pool_def)

end
