(* ===== verification/Runtime_Api.thy ===== *)
theory Runtime_Api
  imports Dcf_Epoch
begin

text \<open>
  The queries of the runtime API of \<open>pallet-cerulea-dcf\<close> (\<open>apis.rs\<close> and the functions of the pallet it
  forwards to), which the node reads at its best block: scores, profiles, uptime, finality, epoch
  history, misbehavior and leave requests; with the lemmas on lists of scores and histories.
\<close>

section \<open>Validators and scores\<close>

definition get_validator_scores ::
  "('c, 'sig) dcf_config \<Rightarrow> ('c, 'sig, 'z) dcf_world_scheme \<Rightarrow> (account_id \<times> u64) list" where
  "get_validator_scores cfg w =
     map (\<lambda>v. (v, case dcf_validator_state cfg w v of Some st \<Rightarrow> final_score (current st) | None \<Rightarrow> 0))
       (dcf_validator_set cfg w)"

definition get_validator_stake_score ::
  "('c, 'sig) dcf_config \<Rightarrow> ('c, 'sig, 'z) dcf_world_scheme \<Rightarrow> account_id \<Rightarrow> u64" where
  "get_validator_stake_score cfg w v =
     (case dcf_validator_state cfg w v of Some st \<Rightarrow> stake_score (current st) | None \<Rightarrow> 0)"

definition get_validator_inference_score ::
  "('c, 'sig) dcf_config \<Rightarrow> ('c, 'sig, 'z) dcf_world_scheme \<Rightarrow> account_id \<Rightarrow> u64" where
  "get_validator_inference_score cfg w v =
     (case dcf_validator_state cfg w v of Some st \<Rightarrow> inference_score (current st) | None \<Rightarrow> 0)"

definition get_consensus_weights :: "('c, 'sig, 'z) dcf_world_scheme \<Rightarrow> u64 \<times> u64" where
  "get_consensus_weights w = (pos_weight_of w, poi_weight_of w)"

definition get_validator_score_history ::
  "('c, 'sig) dcf_config \<Rightarrow> ('c, 'sig, 'z) dcf_world_scheme \<Rightarrow> account_id \<Rightarrow> u64 list" where
  "get_validator_score_history cfg w v =
     (case dcf_validator_state cfg w v of Some st \<Rightarrow> map final_score (vs_history st) | None \<Rightarrow> [])"

text \<open>An unknown validator has \<open>u32::MAX\<close> authored and missed blocks.\<close>

definition get_validator_participation ::
  "('c, 'sig) dcf_config \<Rightarrow> ('c, 'sig, 'z) dcf_world_scheme \<Rightarrow> account_id \<Rightarrow> u32 \<times> u32" where
  "get_validator_participation cfg w v =
     (case dcf_validator_state cfg w v of
        Some st \<Rightarrow> (authored_blocks (current st), missed_blocks (current st))
      | None \<Rightarrow> (- 1, - 1))"

definition get_validator_last_active ::
  "('c, 'sig) dcf_config \<Rightarrow> ('c, 'sig, 'z) dcf_world_scheme \<Rightarrow> account_id \<Rightarrow> u32" where
  "get_validator_last_active cfg w v =
     (case dcf_validator_state cfg w v of Some st \<Rightarrow> last_active_epoch st | None \<Rightarrow> 0)"

definition get_validators_by_score ::
  "('c, 'sig) dcf_config \<Rightarrow> ('c, 'sig, 'z) dcf_world_scheme \<Rightarrow> (account_id \<times> u64) list" where
  "get_validators_by_score cfg w =
     sort_high snd (map (\<lambda>v. (v, score_of cfg w v)) (dcf_active_validators cfg w))"

text \<open>The two products wrap around.\<close>

definition get_validator_consensus_contribution ::
  "('c, 'sig) dcf_config \<Rightarrow> ('c, 'sig, 'z) dcf_world_scheme \<Rightarrow> account_id \<Rightarrow> (u64 \<times> u64 \<times> u64) option" where
  "get_validator_consensus_contribution cfg w v =
     map_option (\<lambda>st.
         (stake_score (current st) * pos_weight_of w div ucast (PercentagePrecision (poi_cfg cfg)),
          inference_score (current st) * poi_weight_of w div ucast (PercentagePrecision (poi_cfg cfg)),
          final_score (current st)))
       (dcf_validator_state cfg w v)"

definition get_validator_epoch_stats ::
  "('c, 'sig) dcf_config \<Rightarrow> ('c, 'sig, 'z) dcf_world_scheme \<Rightarrow> account_id \<Rightarrow> u32 \<Rightarrow> epoch_stats option" where
  "get_validator_epoch_stats cfg w v epoch =
     (case dcf_validator_state cfg w v of
        None \<Rightarrow> None
      | Some st \<Rightarrow> if es_epoch (current st) = epoch then Some (current st)
                   else List.find (\<lambda>s. es_epoch s = epoch) (vs_history st))"

definition get_total_validators_count ::
  "('c, 'sig) dcf_config \<Rightarrow> ('c, 'sig, 'z) dcf_world_scheme \<Rightarrow> u32" where
  "get_total_validators_count cfg w = of_nat (length (dcf_validator_set cfg w))"

definition get_validator_set_info ::
  "('c, 'sig) dcf_config \<Rightarrow> ('c, 'sig, 'z) dcf_world_scheme \<Rightarrow> u32 \<times> u32 \<times> u32" where
  "get_validator_set_info cfg w =
     (of_nat (length (dcf_validator_set cfg w)), of_nat (length (dcf_active_validators cfg w)),
      PosMaxValidators (pos_cfg cfg))"

text \<open>The older pair of functions counts the validator records, and puts the active ones first.\<close>

definition total_validators_count :: "('c, 'sig, 'z) dcf_world_scheme \<Rightarrow> u32" where
  "total_validators_count w = of_nat (length (sm_keys (ValidatorStates w)))"

definition validator_set_info ::
  "('c, 'sig) dcf_config \<Rightarrow> ('c, 'sig, 'z) dcf_world_scheme \<Rightarrow> u32 \<times> u32 \<times> u32" where
  "validator_set_info cfg w =
     (of_nat (length (dcf_active_validators cfg w)), total_validators_count w,
      PosMaxValidators (pos_cfg cfg))"

section \<open>Profiles\<close>

record api_validator_profile =
  ap_stake :: u128
  ap_poi_score :: u32
  ap_final_score :: u64
  ap_trust_score :: u64
  ap_status :: validator_status
  ap_inference_count :: u64
  ap_name :: "8 word list option"
  ap_last_active_block :: u32

record score_breakdown =
  sb_pos_score :: u64
  sb_poi_score :: u64
  sb_pos_weight :: u64
  sb_poi_weight :: u64
  sb_final_score :: u64
  sb_trust_score :: u64

record uptime_stats =
  us_total_epochs :: u32
  us_blocks_authored :: u32
  us_blocks_missed :: u32
  us_uptime_percentage :: u32
  us_participation_rate :: u32

record system_constants =
  sc_min_stake :: u128
  sc_min_score_threshold :: u64
  sc_epoch_length :: u32
  sc_max_validators :: u32
  sc_cooldown_period :: u32

definition dcf_get_validator_profile ::
  "('c, 'sig) dcf_config \<Rightarrow> ('c, 'sig, 'z) dcf_world_scheme \<Rightarrow> account_id
     \<Rightarrow> (u64 \<times> u64 \<times> u64 \<times> u64 \<times> u32 \<times> u32 \<times> u32 \<times> u32) option" where
  "dcf_get_validator_profile cfg w v =
     map_option (\<lambda>st.
       (let pos_score = sat_into (sm_val 0 (Stake w) v);
            poi_score = (case sm_get (InferenceResults w) v of
                Some (result, _) \<Rightarrow> ucast result | None \<Rightarrow> inference_score (current st));
            pos_weight = (case PosWeight w of None \<Rightarrow> DefaultPosWeight cfg | Some x \<Rightarrow> x);
            poi_weight = (case PoiWeight w of None \<Rightarrow> DefaultPoiWeight cfg | Some x \<Rightarrow> x)
        in (combined_score cfg pos_score poi_score pos_weight poi_weight, pos_score, poi_score,
            sm_val 0 (ValidatorTrustScores w) v, sm_val 0 (ValidatorUptime w) v,
            ucast (sm_val 0 (ValidatorInferenceCount w) v), participation_rate st,
            missed_blocks (current st))))
       (dcf_validator_state cfg w v)"

definition get_validator_profile_new ::
  "('c, 'sig) dcf_config \<Rightarrow> ('c, 'sig, 'z) dcf_world_scheme \<Rightarrow> account_id \<Rightarrow> api_validator_profile option" where
  "get_validator_profile_new cfg w v =
     (case dcf_validator_state cfg w v of
        None \<Rightarrow> None
      | Some state \<Rightarrow> Some \<lparr>
          ap_stake = sm_val 0 (Stake w) v,
          ap_poi_score = ucast (inference_score (current state)),
          ap_final_score = final_score (current state),
          ap_trust_score = trust_score state,
          ap_status = (if is_validator_active cfg w v then Active else Inactive),
          ap_inference_count = inference_count state,
          ap_name = map_option (bv_truncate 64) (vs_name state),
          ap_last_active_block = last_active_block state\<rparr>)"

definition get_validator_score_breakdown ::
  "('c, 'sig) dcf_config \<Rightarrow> ('c, 'sig, 'z) dcf_world_scheme \<Rightarrow> account_id \<Rightarrow> score_breakdown option" where
  "get_validator_score_breakdown cfg w v =
     (case dcf_validator_state cfg w v of
        None \<Rightarrow> None
      | Some state \<Rightarrow> Some \<lparr>
          sb_pos_score = stake_score (current state),
          sb_poi_score = inference_score (current state),
          sb_pos_weight = pos_weight_of w,
          sb_poi_weight = poi_weight_of w,
          sb_final_score = final_score (current state),
          sb_trust_score = trust_score state\<rparr>)"

text \<open>The sum of the counters and the product wrap around; a sum of zero counts as no blocks.\<close>

definition calculate_uptime_percentage_api ::
  "('c, 'sig) dcf_config \<Rightarrow> ('c, 'sig, 'z) dcf_world_scheme \<Rightarrow> account_id \<Rightarrow> u32" where
  "calculate_uptime_percentage_api cfg w v =
     (case dcf_validator_state cfg w v of
        None \<Rightarrow> 0
      | Some state \<Rightarrow>
          (let total_blocks = authored_blocks (current state) + missed_blocks (current state)
           in if total_blocks > 0 then authored_blocks (current state) * 10000 div total_blocks
              else 10000))"

definition get_validator_uptime_stats ::
  "('c, 'sig) dcf_config \<Rightarrow> ('c, 'sig, 'z) dcf_world_scheme \<Rightarrow> account_id \<Rightarrow> uptime_stats option" where
  "get_validator_uptime_stats cfg w v =
     (case dcf_validator_state cfg w v of
        None \<Rightarrow> None
      | Some state \<Rightarrow> Some \<lparr>
          us_total_epochs = uptime state,
          us_blocks_authored = authored_blocks (current state),
          us_blocks_missed = missed_blocks (current state),
          us_uptime_percentage = calculate_uptime_percentage_api cfg w v,
          us_participation_rate = participation_rate state\<rparr>)"

definition get_system_constants :: "('c, 'sig) dcf_config \<Rightarrow> system_constants" where
  "get_system_constants cfg = \<lparr>
     sc_min_stake = MinStake (pos_cfg cfg),
     sc_min_score_threshold = ucast (MinValidatorScore (pos_cfg cfg)),
     sc_epoch_length = EpochLength cfg,
     sc_max_validators = PosMaxValidators (pos_cfg cfg),
     sc_cooldown_period = LeaveCooldown (pos_cfg cfg)\<rparr>"

section \<open>Finality, leaving and misbehavior\<close>

definition dcf_is_block_finalized :: "('c, 'sig, 'z) dcf_world_scheme \<Rightarrow> u32 \<Rightarrow> bool" where
  "dcf_is_block_finalized w n \<longleftrightarrow> n \<le> LastFinalizedBlock w"

definition dcf_get_finality_info :: "('c, 'sig, 'z) dcf_world_scheme \<Rightarrow> u32 \<times> u32" where
  "dcf_get_finality_info w = (LastFinalizedBlock w, DcfCurrentEpoch w)"

definition blocks_since_finalization :: "('c, 'sig, 'z) dcf_world_scheme \<Rightarrow> u32 \<Rightarrow> u32" where
  "blocks_since_finalization w current_block = sat_sub current_block (LastFinalizedBlock w)"

text \<open>The end of the cooldown is a plain sum and wraps around.\<close>

definition get_leave_request_status ::
  "('c, 'sig) dcf_config \<Rightarrow> ('c, 'sig, 'z) dcf_world_scheme \<Rightarrow> account_id \<Rightarrow> (u32 \<times> u32 \<times> bool) option" where
  "get_leave_request_status cfg w v =
     map_option (\<lambda>request_block.
       (let expires_at = request_block + LeaveCooldown (pos_cfg cfg)
        in (request_block, expires_at, block_number w \<ge> expires_at)))
       (sm_get (ValidatorLeaveRequests w) v)"

definition get_misbehavior_reporters ::
  "('c, 'sig, 'z) dcf_world_scheme \<Rightarrow> account_id \<Rightarrow> account_id list" where
  "get_misbehavior_reporters w v =
     map snd (filter (\<lambda>(validator, _). validator = v) (sm_keys (MisbehaviorReports w)))"

definition get_misbehavior_evidence ::
  "('c, 'sig, 'z) dcf_world_scheme \<Rightarrow> account_id \<Rightarrow> account_id \<Rightarrow> 8 word list option" where
  "get_misbehavior_evidence w v reporter = sm_get (MisbehaviorReports w) (v, reporter)"

text \<open>
  The strict check of an author; \<open>None\<close> is the panic of \<open>get_expected_author\<close>. The error codes are
  those of the runtime.
\<close>

definition validate_block_author_strict ::
  "('c, 'sig) dcf_config \<Rightarrow> u32 \<Rightarrow> account_id \<Rightarrow> ('c, 'sig, 'z) dcf_world_scheme \<Rightarrow> (8 word + unit) option" where
  "validate_block_author_strict cfg n actual w =
     (if \<not> is_validator_active cfg w actual then Some (Inl 1)
      else map_option (\<lambda>(ok, _). if ok then Inr () else Inl 2) (validate_expected_author cfg n actual w))"

section \<open>Epoch history\<close>

definition runtime_epoch_history :: "epoch_history \<Rightarrow> epoch_history" where
  "runtime_epoch_history e = \<lparr>
     eh_epoch_number = eh_epoch_number e,
     eh_active_validators = bv_truncate 100 (eh_active_validators e),
     eh_score_snapshot = bv_truncate 100 (eh_score_snapshot e),
     eh_inference_summary = bv_truncate 100 (eh_inference_summary e)\<rparr>"

definition get_epoch_history_api ::
  "('c, 'sig, 'z) dcf_world_scheme \<Rightarrow> u32 \<Rightarrow> epoch_history option" where
  "get_epoch_history_api w epoch =
     map_option runtime_epoch_history (List.find (\<lambda>h. eh_epoch_number h = epoch) (EpochHistories w))"

definition get_recent_epochs_api ::
  "('c, 'sig, 'z) dcf_world_scheme \<Rightarrow> u32 \<Rightarrow> epoch_history list" where
  "get_recent_epochs_api w n =
     (let len = min (length (EpochHistories w)) (unat n)
      in rev (map runtime_epoch_history (take len (rev (EpochHistories w)))))"

section \<open>Proposals\<close>

definition get_active_proposals ::
  "('c, 'sig, 'z) dcf_world_scheme \<Rightarrow> (u32 \<times> governance_proposal) list" where
  "get_active_proposals w = filter (\<lambda>(_, p). status p = Pending) (Proposals w)"

section \<open>What the node sees\<close>

text \<open>
  The answers of the runtime API at the best block of the node; \<open>None\<close> is an error of the call. The
  record \<open>runtime_view\<close> is what the code of the node reads; \<open>runtime_api\<close> gives the answers of the
  modelled pallets, where a panic of the runtime is the only error.
\<close>

record runtime_view =
  rv_active_validators :: "account_id list option"
  rv_expected_author :: "u32 \<Rightarrow> account_id option option"
  rv_last_finalized :: "u32 option"
  rv_validator_scores :: "(account_id \<times> u64) list option"
  rv_validator_profile :: "account_id \<Rightarrow> api_validator_profile option option"
  rv_participation :: "account_id \<Rightarrow> (u32 \<times> u32) option"
  rv_uptime :: "account_id \<Rightarrow> uptime_stats option option"
  rv_weights :: "(u64 \<times> u64) option"

definition runtime_api ::
  "('c, 'sig) dcf_config \<Rightarrow> ('c, 'sig, 'z) dcf_world_scheme \<Rightarrow> runtime_view" where
  "runtime_api cfg w = \<lparr>
     rv_active_validators = Some (dcf_active_validators cfg w),
     rv_expected_author = (\<lambda>n. get_expected_author cfg n w),
     rv_last_finalized = Some (LastFinalizedBlock w),
     rv_validator_scores = Some (get_validator_scores cfg w),
     rv_validator_profile = (\<lambda>v. Some (get_validator_profile_new cfg w v)),
     rv_participation = (\<lambda>v. Some (get_validator_participation cfg w v)),
     rv_uptime = (\<lambda>v. Some (get_validator_uptime_stats cfg w v)),
     rv_weights = Some (get_consensus_weights w)\<rparr>"

section \<open>Lemmas\<close>

lemma recent_epochs_suffix:
  "get_recent_epochs_api w n =
     map runtime_epoch_history (drop (length (EpochHistories w) - unat n) (EpochHistories w))"
proof -
  let ?h = "EpochHistories w"
  have "get_recent_epochs_api w n
      = map runtime_epoch_history (rev (take (min (length ?h) (unat n)) (rev ?h)))"
    by (simp add: get_recent_epochs_api_def Let_def rev_map)
  also have "rev (take (min (length ?h) (unat n)) (rev ?h)) = drop (length ?h - unat n) ?h"
    by (simp add: take_rev min_def)
  finally show ?thesis .
qed

lemma sort_high_mset [simp]: "mset (sort_high f xs) = mset xs"
  by (simp add: sort_high_def)

lemma sort_high_sorted: "sorted_wrt (\<lambda>a b. f b \<le> f a) (sort_high f xs)"
proof -
  have "sorted (map (\<lambda>x. - int (unat (f x))) (sort_high f xs))"
    by (simp add: sort_high_def)
  then have "sorted_wrt (\<lambda>a b. - int (unat (f a)) \<le> - int (unat (f b))) (sort_high f xs)"
    by (simp add: sorted_map)
  then show ?thesis
    by (rule sorted_wrt_mono_rel [rotated]) (simp add: word_le_def)
qed

lemma fst_by_score:
  "mset (map fst (get_validators_by_score cfg w)) = mset (dcf_active_validators cfg w)"
  by (simp add: get_validators_by_score_def multiset.map_comp comp_def)

text \<open>The answers to two of the queries, as the node reads them.\<close>

lemma runtime_view_simps [simp]:
  "rv_active_validators (runtime_api cfg w) = Some (dcf_active_validators cfg w)"
  "rv_expected_author (runtime_api cfg w) n = get_expected_author cfg n w"
  "rv_last_finalized (runtime_api cfg w) = Some (LastFinalizedBlock w)"
  by (simp_all add: runtime_api_def)

end
