(* ===== verification/Block_Import.thy ===== *)
theory Block_Import
  imports Runtime_Api
begin

text \<open>
  The import of blocks by the node (\<open>import_queue.rs\<close> and \<open>RealBlockImport\<close> of \<open>dcf.rs\<close>): how the author
  is read from the digest of a header, the verifier in front of the client, and the two block
  imports. The runtime API is a \<open>runtime_view\<close>; reports to it change no state of the chain, since
  the node drops the state of an API call, and are returned as a list.
\<close>

section \<open>Headers, blocks and import parameters\<close>

record header =
  hd_number :: u32
  hd_parent :: hash
  hd_state_root :: hash
  hd_extrinsics_root :: hash
  hd_digest :: "digest_item list"

record 'x block =
  bl_header :: header
  bl_extrinsics :: "'x list"

datatype fork_choice = LongestChain | CustomChoice bool

datatype block_origin =
  GenesisOrigin | NetworkInitialSync | NetworkBroadcast | ConsensusBroadcast | OwnOrigin | FileOrigin

record 'x import_params =
  ip_origin :: block_origin
  ip_header :: header
  ip_body :: "'x list option"
  ip_finalized :: bool
  ip_fork_choice :: "fork_choice option"

text \<open>An imported block carries whether it is the new best block; the other flags the code sets are false.\<close>

datatype import_result = Imported bool | AlreadyInChain | KnownBad | UnknownParent | MissingState

datatype import_error =
    ApiCallFailed
  | NoActiveValidatorsAt u32
  | BlockAuthorNotFound
  | BlockAuthorMismatch u32 "account_id option" account_id
  | InvalidAuthoritiesSet
  | ClientImportFailed

text \<open>The reports a block import makes through the runtime API.\<close>

datatype authorship_report =
    ReportMismatch u32 "account_id option" account_id
  | ReportMissed u32 account_id
  | ReportSuccess u32 account_id

section \<open>The author of a header\<close>

text \<open>\<open>dec\<close> is the decoder of account identifiers, which may leave bytes unread.\<close>

fun queue_author_of_item ::
  "(8 word list \<Rightarrow> account_id option) \<Rightarrow> digest_item \<Rightarrow> account_id option" where
  "queue_author_of_item dec (PreRuntime e data) = (if e = engine_id then dec data else None)"
| "queue_author_of_item dec (Consensus e data) = (if e = engine_id then dec data else None)"
| "queue_author_of_item dec _ = None"

fun queue_block_author ::
  "(8 word list \<Rightarrow> account_id option) \<Rightarrow> digest_item list \<Rightarrow> account_id option" where
  "queue_block_author dec [] = None"
| "queue_block_author dec (d # ds) =
     (case queue_author_of_item dec d of Some author \<Rightarrow> Some author | None \<Rightarrow> queue_block_author dec ds)"

fun real_author_of_item ::
  "(8 word list \<Rightarrow> account_id option) \<Rightarrow> digest_item \<Rightarrow> account_id option" where
  "real_author_of_item dec (Seal e data) =
     (if e = engine_id \<and> length data \<ge> 32 then dec (take 32 data) else None)"
| "real_author_of_item dec (PreRuntime e data) = (if e = engine_id then dec data else None)"
| "real_author_of_item dec (Consensus e data) = (if e = engine_id then dec data else None)"
| "real_author_of_item dec OtherDigest = None"

fun extract_block_author_from_digest ::
  "(8 word list \<Rightarrow> account_id option) \<Rightarrow> digest_item list \<Rightarrow> account_id option" where
  "extract_block_author_from_digest dec [] = None"
| "extract_block_author_from_digest dec (d # ds) =
     (case real_author_of_item dec d of
        Some author \<Rightarrow> Some author
      | None \<Rightarrow> extract_block_author_from_digest dec ds)"

section \<open>The verifier\<close>

text \<open>
  The second component is the counter of author mismatches, when metrics are kept. An error of
  the API call, an empty active list, a missing author and a mismatch refuse the block.
\<close>

definition verify ::
  "(8 word list \<Rightarrow> account_id option) \<Rightarrow> runtime_view \<Rightarrow> 'x import_params
     \<Rightarrow> (import_error, nat option, 'x import_params) op" where
  "verify dec view block mismatches =
     (let n = hd_number (ip_header block)
      in case rv_active_validators view of
           None \<Rightarrow> (Inl ApiCallFailed, mismatches)
         | Some active_validators \<Rightarrow>
             if active_validators = [] then (Inl (NoActiveValidatorsAt n), mismatches)
             else (case queue_block_author dec (hd_digest (ip_header block)) of
               None \<Rightarrow> (Inl BlockAuthorNotFound, mismatches)
             | Some author \<Rightarrow>
                 (case rv_expected_author view n of
                    None \<Rightarrow> (Inl ApiCallFailed, mismatches)
                  | Some expected_author \<Rightarrow>
                      if Some author \<noteq> expected_author
                      then (Inl (BlockAuthorMismatch n expected_author author), map_option Suc mismatches)
                      else (Inr (block\<lparr>ip_fork_choice :=
                              (if ip_fork_choice block = None then Some LongestChain
                               else ip_fork_choice block)\<rparr>), mismatches))))"

section \<open>The import queue as a block import\<close>

definition queue_check_block :: "runtime_view \<Rightarrow> import_error + import_result" where
  "queue_check_block view =
     (case rv_active_validators view of
        None \<Rightarrow> Inl ApiCallFailed
      | Some active_validators \<Rightarrow> Inr (Imported (active_validators \<noteq> [])))"

text \<open>
  The block that comes back has its finality, origin and fork choice set; the code drops it and
  returns the result alone, without importing anything.
\<close>

definition queue_import_block ::
  "(8 word list \<Rightarrow> account_id option) \<Rightarrow> runtime_view \<Rightarrow> 'x import_params \<Rightarrow> nat option
     \<Rightarrow> (import_error + import_result \<times> 'x import_params) \<times> authorship_report list \<times> nat option" where
  "queue_import_block dec view block mismatches =
     (let n = hd_number (ip_header block)
      in case queue_block_author dec (hd_digest (ip_header block)) of
           None \<Rightarrow> (Inl BlockAuthorNotFound, [], mismatches)
         | Some author \<Rightarrow>
             (case rv_active_validators view of
                None \<Rightarrow> (Inl ApiCallFailed, [], mismatches)
              | Some active_validators \<Rightarrow>
                  if active_validators = [] then (Inr (Imported False, block), [], mismatches)
                  else (case rv_expected_author view n of
                    None \<Rightarrow> (Inl ApiCallFailed, [], mismatches)
                  | Some expected_author \<Rightarrow>
                      if Some author \<noteq> expected_author
                      then (Inl (BlockAuthorMismatch n expected_author author),
                            [ReportMismatch n expected_author author], map_option Suc mismatches)
                      else (case rv_last_finalized view of
                        None \<Rightarrow> (Inl ApiCallFailed, [], mismatches)
                      | Some last_finalized \<Rightarrow>
                          (Inr (Imported True, block\<lparr>ip_finalized := n \<le> last_finalized,
                                  ip_origin := OwnOrigin, ip_fork_choice := Some LongestChain\<rparr>),
                           [], mismatches)))))"

section \<open>The real block import\<close>

definition real_check_block :: "runtime_view \<Rightarrow> u32 \<Rightarrow> import_error + import_result" where
  "real_check_block view n =
     (case rv_active_validators view of
        None \<Rightarrow> Inl ApiCallFailed
      | Some active_validators \<Rightarrow>
          if active_validators = [] then Inl (NoActiveValidatorsAt n) else Inr (Imported True))"

text \<open>The checks before the client is asked; an error of \<open>get_expected_author\<close> counts as no author.\<close>

definition real_import_gate ::
  "(8 word list \<Rightarrow> account_id option) \<Rightarrow> runtime_view \<Rightarrow> header
     \<Rightarrow> (import_error + unit) \<times> authorship_report list" where
  "real_import_gate dec view h =
     (let n = hd_number h;
          expected = (case rv_expected_author view n of Some (Some v) \<Rightarrow> Some v | _ \<Rightarrow> None)
      in case extract_block_author_from_digest dec (hd_digest h) of
           Some author \<Rightarrow>
             (case expected of
                Some expected_author \<Rightarrow>
                  if author \<noteq> expected_author
                  then (Inl InvalidAuthoritiesSet,
                        [ReportMismatch n (Some expected_author) author, ReportMissed n expected_author])
                  else (Inr (), [ReportSuccess n author])
              | None \<Rightarrow> (Inr (), [ReportSuccess n author]))
         | None \<Rightarrow>
             (case expected of
                Some expected_author \<Rightarrow> (Inr (), [ReportMissed n expected_author])
              | None \<Rightarrow> (Inr (), [])))"

text \<open>\<open>client_import\<close> is the import of the client, from the library; \<open>None\<close> is its error.\<close>

definition real_import_block ::
  "(8 word list \<Rightarrow> account_id option) \<Rightarrow> ('x import_params \<Rightarrow> import_result option) \<Rightarrow> runtime_view
     \<Rightarrow> 'x import_params \<Rightarrow> (import_error + import_result) \<times> authorship_report list" where
  "real_import_block dec client_import view block =
     (case rv_active_validators view of
        None \<Rightarrow> (Inl ApiCallFailed, [])
      | Some active_validators \<Rightarrow>
          if active_validators = []
          then (Inl (NoActiveValidatorsAt (hd_number (ip_header block))), [])
          else (case real_import_gate dec view (ip_header block) of
            (Inl e, reports) \<Rightarrow> (Inl e, reports)
          | (Inr _, reports) \<Rightarrow>
              (case client_import block of
                 None \<Rightarrow> (Inl ClientImportFailed, reports)
               | Some r \<Rightarrow> (Inr r, reports))))"

section \<open>Readers of a digest\<close>

text \<open>
  Three parts of the program read the author of a block from its digest: the verifier, the block
  import and the pallet. Each takes the first item in which it finds one.
\<close>

locale digest_reader =
  fixes item :: "digest_item \<Rightarrow> account_id option"
    and read :: "digest_item list \<Rightarrow> account_id option"
  assumes read_Nil [simp]: "read [] = None"
    and read_Cons [simp]: "read (d # ds) = (case item d of None \<Rightarrow> read ds | Some v \<Rightarrow> Some v)"
begin

lemma read_append: "read (ds @ es) = (case read ds of None \<Rightarrow> read es | Some v \<Rightarrow> Some v)"
  by (induction ds) (auto split: option.splits)

lemma read_None_iff: "read ds = None \<longleftrightarrow> (\<forall>d\<in>set ds. item d = None)"
  by (induction ds) (auto split: option.splits)

lemma read_Some_item: "read ds = Some v \<Longrightarrow> \<exists>d\<in>set ds. item d = Some v"
  by (induction ds) (auto split: option.splits)

lemma read_filter:
  assumes "\<And>d. d \<in> set ds \<Longrightarrow> \<not> P d \<Longrightarrow> item d = None"
  shows "read (filter P ds) = read ds"
  using assms by (induction ds) (auto split: option.splits)

lemma read_same:
  assumes "digest_reader item' read'" and "\<And>d. d \<in> set ds \<Longrightarrow> item' d = item d"
  shows "read' ds = read ds"
  using assms(2) digest_reader.read_Nil [OF assms(1)] digest_reader.read_Cons [OF assms(1)]
  by (induction ds) (auto split: option.splits)

end

interpretation queue_reader: digest_reader "queue_author_of_item dec" "queue_block_author dec" for dec
  by unfold_locales (auto split: option.splits)

interpretation real_reader: digest_reader "real_author_of_item dec" "extract_block_author_from_digest dec"
  for dec
  by unfold_locales (auto split: option.splits)

definition pallet_reader ::
  "('c, 'sig) dcf_config \<Rightarrow> digest_item list \<Rightarrow> account_id option" where
  "pallet_reader cfg ds = (case List.map_filter (author_of_item cfg) ds of [] \<Rightarrow> None | v # _ \<Rightarrow> Some v)"

lemma pallet_reader: "extract_block_author cfg w = pallet_reader cfg (digest_logs w)"
  by (simp add: extract_block_author_def pallet_reader_def)

interpretation pallet_digest: digest_reader "author_of_item cfg" "pallet_reader cfg" for cfg
  by unfold_locales (auto simp: pallet_reader_def map_filter_simps split: option.splits list.splits)

section \<open>Outcomes\<close>

lemma verify_accepts:
  "fst (verify dec view block m) = Inr block' \<longleftrightarrow>
     (\<exists>vs author. rv_active_validators view = Some vs \<and> vs \<noteq> []
        \<and> queue_block_author dec (hd_digest (ip_header block)) = Some author
        \<and> rv_expected_author view (hd_number (ip_header block)) = Some (Some author))
     \<and> block' = block\<lparr>ip_fork_choice := (if ip_fork_choice block = None then Some LongestChain
                       else ip_fork_choice block)\<rparr>"
  by (auto simp: verify_def Let_def split: option.splits)

lemma verify_header: "fst (verify dec view block m) = Inr block' \<Longrightarrow> ip_header block' = ip_header block"
  by (simp add: verify_accepts)

text \<open>The fixed width of the account decoder, as far as the readers rely on it.\<close>

definition decodes_fixed :: "(8 word list \<Rightarrow> account_id option) \<Rightarrow> bool" where
  "decodes_fixed dec \<longleftrightarrow> (\<forall>data. dec data = (if length data \<ge> 32 then dec (take 32 data) else None))"

fun is_pre_runtime :: "digest_item \<Rightarrow> bool" where
  "is_pre_runtime (PreRuntime e data) = True"
| "is_pre_runtime _ = False"

lemma items_agree:
  assumes "decodes_fixed (decode_account cfg)" and "is_pre_runtime d"
  shows "author_of_item cfg d = queue_author_of_item (decode_account cfg) d"
  using assms by (cases d) (auto simp: decodes_fixed_def)

lemma pallet_reads_pre_runtime:
  assumes "decodes_fixed (decode_account cfg)"
    and "\<And>d. d \<in> set ds \<Longrightarrow> \<not> is_pre_runtime d \<Longrightarrow> queue_author_of_item (decode_account cfg) d = None"
  shows "pallet_reader cfg (filter is_pre_runtime ds) = queue_block_author (decode_account cfg) ds"
proof -
  have "pallet_reader cfg (filter is_pre_runtime ds)
      = queue_block_author (decode_account cfg) (filter is_pre_runtime ds)"
    by (rule queue_reader.read_same [OF pallet_digest.digest_reader_axioms])
      (simp add: items_agree [OF assms(1)])
  also have "\<dots> = queue_block_author (decode_account cfg) ds"
    by (rule queue_reader.read_filter) (use assms(2) in auto)
  finally show ?thesis .
qed

end
