(* ===== verification/Block_Production.thy ===== *)
theory Block_Production
  imports Block_Import
begin

text \<open>
  The production of blocks by a node (\<open>DcfConsensus\<close> of \<open>dcf.rs\<close>, \<open>ProposerFactory\<close> of
  \<open>proposer_factory.rs\<close>, \<open>types.rs\<close>): when a node produces, in whose name, how a proposal is built and
  checked, the emergency block, the import and what the engine remembers of a success and a failure.
\<close>

section \<open>Parameters, state and surroundings\<close>

record consensus_params =
  cp_block_time :: u64
  cp_max_transactions_per_block :: u32
  cp_min_block_time :: u64
  cp_metrics_update_interval :: u64
  cp_score_refresh_interval :: u64

definition service_consensus_params :: consensus_params where
  "service_consensus_params = \<lparr>cp_block_time = 6, cp_max_transactions_per_block = 1000,
     cp_min_block_time = 1000, cp_metrics_update_interval = 10, cp_score_refresh_interval = 50\<rparr>"

record validator_metrics =
  vm_blocks_produced :: u32
  vm_blocks_validated :: u32
  vm_uptime :: u32
  vm_total_blocks :: u32
  vm_total_missed :: u32
  vm_failed_blocks :: u32

definition default_metrics :: validator_metrics where
  "default_metrics = \<lparr>vm_blocks_produced = 0, vm_blocks_validated = 0, vm_uptime = 0,
     vm_total_blocks = 0, vm_total_missed = 0, vm_failed_blocks = 0\<rparr>"

text \<open>
  The engine with its proposer. Durations and instants are in nanoseconds. The last two fields record what
  the engine has handed to the client for import and reported through the runtime API.
\<close>

record 'x engine =
  en_params :: consensus_params
  en_metrics :: validator_metrics
  en_last_block_time :: nat
  en_current_slot :: u64
  en_last_metrics_update_slot :: u64
  en_last_score_refresh_slot :: u64
  en_proposer_time :: "nat option"
  en_handed :: "'x import_params list"
  en_reports :: "authorship_report list"

definition new_engine :: "consensus_params \<Rightarrow> 'x engine" where
  "new_engine params = \<lparr>en_params = params, en_metrics = default_metrics, en_last_block_time = 0,
     en_current_slot = 0, en_last_metrics_update_slot = 0, en_last_score_refresh_slot = 0,
     en_proposer_time = None, en_handed = [], en_reports = []\<rparr>"

text \<open>
  The building of a block by the runtime, from the library: each call of the API changes the state
  of the builder when it succeeds and leaves it otherwise (\<open>None\<close>).
\<close>

record ('x, 's) executive =
  ex_initialize :: "hash \<Rightarrow> header \<Rightarrow> 's option"
  ex_apply :: "'s \<Rightarrow> 'x \<Rightarrow> 's option"
  ex_finalize :: "'s \<Rightarrow> header option"

text \<open>
  What one iteration of the engine meets: the system clock (\<open>None\<close> before the epoch of Unix), a
  monotonic clock, the number of the best block when the iteration starts and when it produces, the
  runtime API and the parent at the best block, its header (\<open>None\<close> for an error of the database,
  \<open>Some None\<close> if it is unknown), whether \<open>validate_block_author\<close> can be called, the inherents, the ready
  transactions in their order, the block builder and the import of the client.
\<close>

record ('x, 's) surroundings =
  sr_now :: "nat option"
  sr_instant :: nat
  sr_best_at_start :: u32
  sr_best :: u32
  sr_view :: runtime_view
  sr_parent :: hash
  sr_parent_number :: "u32 option option"
  sr_can_validate :: bool
  sr_inherents :: "'x list option"
  sr_ready :: "'x list"
  sr_executive :: "('x, 's) executive"
  sr_client_import :: "'x import_params \<Rightarrow> import_result option"

datatype proposer_fault =
    TooSoon | ParentUnavailable | ParentNotFound | InherentsFailed | InitializeFailed
  | CriticalExtrinsicFailed nat | FinalizeFailed | FinalParentMismatch | ZeroStateRoot
  | ZeroExtrinsicsRoot | ZeroParentHash | WrongNumber u32 u32

datatype consensus_error =
    AuthorSelectionError
  | ProposerError proposer_fault
  | BothCreationsFailed consensus_error consensus_error
  | AuthorValidationFailed
  | BlockProductionError proposer_fault
  | ConsensusAuthorMismatch u32 "account_id option" account_id
  | BlockImportError

definition zero_hash :: hash where
  "zero_hash = Hash 0"

definition clock :: "('x, 's) surroundings \<Rightarrow> nat" where
  "clock S = (case sr_now S of None \<Rightarrow> 0 | Some t \<Rightarrow> t)"

section \<open>When and for whom\<close>

definition should_produce_block :: "('x, 's) surroundings \<Rightarrow> 'x engine \<Rightarrow> bool" where
  "should_produce_block S E \<longleftrightarrow>
     unat (cp_block_time (en_params E)) * 10 ^ 9 \<le> clock S - en_last_block_time E"

definition fallback_author_selection ::
  "('x, 's) surroundings \<Rightarrow> account_id list \<Rightarrow> consensus_error + account_id" where
  "fallback_author_selection S active_validators =
     (if active_validators = [] then Inl AuthorSelectionError
      else Inr (active_validators ! (unat (sr_best S) mod length active_validators)))"

definition select_next_author_from_runtime ::
  "('x, 's) surroundings \<Rightarrow> account_id list \<Rightarrow> consensus_error + account_id" where
  "select_next_author_from_runtime S active_validators =
     (case rv_expected_author (sr_view S) (sr_best S + 1) of
        None \<Rightarrow> Inl AuthorSelectionError
      | Some None \<Rightarrow> Inl AuthorSelectionError
      | Some (Some v) \<Rightarrow> if v \<in> set active_validators then Inr v
                         else fallback_author_selection S active_validators)"

section \<open>Metrics\<close>

definition update_validator_score ::
  "u32 \<Rightarrow> validator_metrics \<Rightarrow> validator_metrics" where
  "update_validator_score fs m = m\<lparr>
     vm_blocks_produced := sat_add (vm_blocks_produced m) 1,
     vm_blocks_validated := sat_add (vm_blocks_validated m) 1,
     vm_uptime := fs\<rparr>"

text \<open>\<open>try_into().unwrap_or(0)\<close>\<close>

definition u32_or_zero :: "u64 \<Rightarrow> u32" where
  "u32_or_zero x = (if unat x < 2 ^ 32 then ucast x else 0)"

definition score_metrics :: "u64 \<Rightarrow> 'x engine \<Rightarrow> 'x engine" where
  "score_metrics fs E = E\<lparr>en_metrics := update_validator_score (u32_or_zero fs) (en_metrics E)\<rparr>"

text \<open>The products and the sum wrap around; a failed call gives \<open>u32::MAX\<close> twice.\<close>

definition get_validator_participation_metrics :: "runtime_view \<Rightarrow> account_id \<Rightarrow> u32 \<times> u32" where
  "get_validator_participation_metrics view v =
     (case rv_participation view v of
        None \<Rightarrow> (- 1, - 1)
      | Some (authored, missed) \<Rightarrow>
          (let total_blocks = authored + missed
           in (if total_blocks > 0 then min (authored * 100 div total_blocks) 100 else 100, missed)))"

definition calculate_validator_uptime :: "runtime_view \<Rightarrow> account_id \<Rightarrow> u32" where
  "calculate_validator_uptime view v =
     (case rv_uptime view v of Some (Some stats) \<Rightarrow> us_participation_rate stats | _ \<Rightarrow> 0)"

text \<open>The rest of the loop body only logs.\<close>

definition update_validator_metrics :: "('x, 's) surroundings \<Rightarrow> 'x engine \<Rightarrow> 'x engine" where
  "update_validator_metrics S E =
     (case rv_weights (sr_view S) of
        None \<Rightarrow> E
      | Some _ \<Rightarrow>
          (case rv_validator_scores (sr_view S) of
             None \<Rightarrow> E
           | Some scores \<Rightarrow>
               fold (\<lambda>(v, _) E. case rv_validator_profile (sr_view S) v of
                   Some (Some profile) \<Rightarrow> score_metrics (ap_final_score profile) E
                 | _ \<Rightarrow> E) scores E))"

section \<open>Building a block\<close>

fun apply_extrinsics :: "('x, 's) executive \<Rightarrow> nat \<Rightarrow> 's \<Rightarrow> 'x list \<Rightarrow> 's option" where
  "apply_extrinsics X i s [] = Some s"
| "apply_extrinsics X i s (x # xs) =
     (case ex_apply X s x of
        Some s' \<Rightarrow> apply_extrinsics X (i + 1) s' xs
      | None \<Rightarrow> if i < 1 then None else apply_extrinsics X (i + 1) s xs)"

definition validate_built_block :: "'x block \<Rightarrow> proposer_fault + unit" where
  "validate_built_block b =
     (let h = bl_header b
      in if hd_state_root h = zero_hash then Inl ZeroStateRoot
         else if bl_extrinsics b \<noteq> [] \<and> hd_extrinsics_root h = zero_hash then Inl ZeroExtrinsicsRoot
         else if hd_number h \<noteq> 0 \<and> hd_parent h = zero_hash then Inl ZeroParentHash
         else Inr ())"

text \<open>The block holds all extrinsics that were attempted, with the header the runtime computed.\<close>

definition build_block_with_state_root ::
  "('x, 's) executive \<Rightarrow> hash \<Rightarrow> u32 \<Rightarrow> digest_item list \<Rightarrow> 'x list \<Rightarrow> proposer_fault + 'x block" where
  "build_block_with_state_root X parent_hash n digest xs =
     (let temp_header = \<lparr>hd_number = n, hd_parent = parent_hash, hd_state_root = zero_hash,
            hd_extrinsics_root = zero_hash, hd_digest = digest\<rparr>
      in case ex_initialize X parent_hash temp_header of
           None \<Rightarrow> Inl InitializeFailed
         | Some s \<Rightarrow>
             (case apply_extrinsics X 0 s xs of
                None \<Rightarrow> Inl (CriticalExtrinsicFailed 0)
              | Some s' \<Rightarrow>
                  (case ex_finalize X s' of
                     None \<Rightarrow> Inl FinalizeFailed
                   | Some h \<Rightarrow>
                       if hd_parent h \<noteq> parent_hash then Inl FinalParentMismatch
                       else (let b = \<lparr>bl_header = h, bl_extrinsics = xs\<rparr>
                             in case validate_built_block b of Inl e \<Rightarrow> Inl e | Inr _ \<Rightarrow> Inr b))))"

text \<open>The checks of \<open>validate_final_block\<close> and of \<open>validate_created_block\<close>, with their kinds of error.\<close>

definition validate_final_block :: "'x block \<Rightarrow> u32 \<Rightarrow> proposer_fault + unit" where
  "validate_final_block b expected_block_number =
     (let h = bl_header b
      in if hd_number h \<noteq> expected_block_number then Inl (WrongNumber expected_block_number (hd_number h))
         else if hd_state_root h = zero_hash then Inl ZeroStateRoot
         else if bl_extrinsics b \<noteq> [] \<and> hd_extrinsics_root h = zero_hash then Inl ZeroExtrinsicsRoot
         else Inr ())"

definition validate_created_block :: "'x block \<Rightarrow> u32 \<Rightarrow> consensus_error + unit" where
  "validate_created_block b expected_block_number =
     (let h = bl_header b
      in if hd_number h \<noteq> expected_block_number
         then Inl (BlockProductionError (WrongNumber expected_block_number (hd_number h)))
         else if hd_state_root h = zero_hash then Inl (BlockProductionError ZeroStateRoot)
         else if bl_extrinsics b \<noteq> [] \<and> hd_extrinsics_root h = zero_hash
         then Inl (BlockProductionError ZeroExtrinsicsRoot)
         else Inr ())"

definition collect_transactions_from_pool :: "('x, 's) surroundings \<Rightarrow> 'x engine \<Rightarrow> 'x list" where
  "collect_transactions_from_pool S E =
     take (unat (cp_max_transactions_per_block (en_params E))) (sr_ready S)"

text \<open>The author of a block: the forced one, or the one the runtime expects.\<close>

definition block_author_for ::
  "('x, 's) surroundings \<Rightarrow> account_id option \<Rightarrow> u32 \<Rightarrow> account_id option" where
  "block_author_for S force_author n =
     (case force_author of
        Some a \<Rightarrow> Some a
      | None \<Rightarrow> (case rv_expected_author (sr_view S) n of Some (Some a) \<Rightarrow> Some a | _ \<Rightarrow> None))"

definition too_soon :: "('x, 's) surroundings \<Rightarrow> 'x engine \<Rightarrow> bool" where
  "too_soon S E \<longleftrightarrow>
     (case en_proposer_time E of None \<Rightarrow> False
      | Some t \<Rightarrow> sr_instant S - t < unat (cp_min_block_time (en_params E)) * 10 ^ 6)"

definition create_complete_block ::
  "('x, 's) surroundings \<Rightarrow> digest_item option \<Rightarrow> account_id option
     \<Rightarrow> (consensus_error, 'x engine, 'x block \<times> account_id) op" where
  "create_complete_block S author_digest force_author E =
     (if too_soon S E
      then (Inl (ProposerError TooSoon), E)
      else case sr_parent_number S of
        None \<Rightarrow> (Inl (ProposerError ParentUnavailable), E)
      | Some None \<Rightarrow> (Inl (ProposerError ParentNotFound), E)
      | Some (Some parent_number) \<Rightarrow>
          (let n = parent_number + 1
           in case block_author_for S force_author n of
                None \<Rightarrow> (Inl AuthorSelectionError, E)
              | Some author \<Rightarrow>
                (case sr_inherents S of
                   None \<Rightarrow> (Inl (ProposerError InherentsFailed), E)
                 | Some inherent_extrinsics \<Rightarrow>
                   (case build_block_with_state_root (sr_executive S) (sr_parent S) n
                        (case author_digest of None \<Rightarrow> [] | Some d \<Rightarrow> [d])
                        (inherent_extrinsics @ collect_transactions_from_pool S E) of
                      Inl e \<Rightarrow> (Inl (ProposerError e), E)
                    | Inr b \<Rightarrow>
                      (case validate_final_block b n of
                         Inl e \<Rightarrow> (Inl (ProposerError e), E)
                       | Inr _ \<Rightarrow> (Inr (b, author), E\<lparr>en_proposer_time := Some (sr_instant S)\<rparr>))))))"

text \<open>The emergency block has the inherents alone and an empty digest, and no waiting time.\<close>

definition create_emergency_block ::
  "('x, 's) surroundings \<Rightarrow> account_id \<Rightarrow> (consensus_error, 'x engine, 'x block \<times> account_id) op" where
  "create_emergency_block S author E =
     (case sr_parent_number S of
        None \<Rightarrow> (Inl (ProposerError ParentUnavailable), E)
      | Some None \<Rightarrow> (Inl (ProposerError ParentNotFound), E)
      | Some (Some parent_number) \<Rightarrow>
          (case sr_inherents S of
             None \<Rightarrow> (Inl (ProposerError InherentsFailed), E)
           | Some inherent_extrinsics \<Rightarrow>
             (case build_block_with_state_root (sr_executive S) (sr_parent S) (parent_number + 1) []
                  inherent_extrinsics of
                Inl e \<Rightarrow> (Inl (ProposerError e), E)
              | Inr b \<Rightarrow> (Inr (b, author), E\<lparr>en_proposer_time := Some (sr_instant S)\<rparr>))))"

section \<open>Proposal, import and bookkeeping\<close>

text \<open>\<open>enc\<close> is the encoder of public keys.\<close>

definition create_block_proposal ::
  "(account_id \<Rightarrow> 8 word list) \<Rightarrow> ('x, 's) surroundings \<Rightarrow> account_id \<Rightarrow> u32
     \<Rightarrow> (consensus_error, 'x engine, 'x block) op" where
  "create_block_proposal enc S author n E =
     (let created =
        (case create_complete_block S (Some (PreRuntime engine_id (enc author))) (Some author) E of
           (Inr r, E1) \<Rightarrow> (Inr r, E1)
         | (Inl e, E1) \<Rightarrow>
             (case create_emergency_block S author E1 of
                (Inr r, E2) \<Rightarrow> (Inr r, E2)
              | (Inl e2, E2) \<Rightarrow> (Inl (BothCreationsFailed e e2), E2)))
      in case created of
           (Inl e, E1) \<Rightarrow> (Inl e, E1)
         | (Inr (b, expected_author), E1) \<Rightarrow>
             if author \<noteq> expected_author
             then (Inl (ConsensusAuthorMismatch n (Some expected_author) author), E1)
             else (case validate_created_block b n of
                     Inl e \<Rightarrow> (Inl e, E1)
                   | Inr _ \<Rightarrow> (Inr b, E1)))"

text \<open>Every answer of the client but an error counts as imported.\<close>

definition import_consensus_block ::
  "('x, 's) surroundings \<Rightarrow> 'x block \<Rightarrow> (consensus_error, 'x engine, unit) op" where
  "import_consensus_block S b E =
     (let params = \<lparr>ip_origin = OwnOrigin, ip_header = bl_header b, ip_body = Some (bl_extrinsics b),
            ip_finalized = False, ip_fork_choice = Some LongestChain\<rparr>;
          E1 = E\<lparr>en_handed := en_handed E @ [params]\<rparr>
      in case sr_client_import S params of
           None \<Rightarrow> (Inl BlockImportError, E1)
         | Some r \<Rightarrow> (Inr (), E1))"

definition update_consensus_state ::
  "('x, 's) surroundings \<Rightarrow> u32 \<Rightarrow> account_id \<Rightarrow> 'x engine \<Rightarrow> 'x engine" where
  "update_consensus_state S n author E =
     (let E1 = E\<lparr>en_last_block_time := clock S,
            en_metrics := update_validator_score 1
              ((en_metrics E)\<lparr>vm_total_blocks := sat_add (vm_total_blocks (en_metrics E)) 1\<rparr>),
            en_reports := en_reports E @ [ReportSuccess n author]\<rparr>
      in case rv_validator_profile (sr_view S) author of
           Some (Some profile) \<Rightarrow> score_metrics (ap_final_score profile) E1
         | _ \<Rightarrow> E1)"

definition produce_block_with_validation ::
  "(account_id \<Rightarrow> 8 word list) \<Rightarrow> ('x, 's) surroundings \<Rightarrow> account_id \<Rightarrow> (consensus_error, 'x engine, unit) op" where
  "produce_block_with_validation enc S author E =
     (let n = sr_best S + 1
      in if \<not> sr_can_validate S then (Inl AuthorValidationFailed, E)
         else
           (let E1 = (case rv_validator_scores (sr_view S) of
                  None \<Rightarrow> E
                | Some scores \<Rightarrow>
                    (case List.find (\<lambda>(a, _). a = author) scores of
                       None \<Rightarrow> E
                     | Some (_, fs) \<Rightarrow> score_metrics fs E))
            in case create_block_proposal enc S author n E1 of
                 (Inl e, E2) \<Rightarrow> (Inl e, E2)
               | (Inr b, E2) \<Rightarrow>
                   (case import_consensus_block S b E2 of
                      (Inl e, E3) \<Rightarrow> (Inl e, E3)
                    | (Inr _, E3) \<Rightarrow> (Inr (), update_consensus_state S n author E3))))"

definition handle_block_production_failure ::
  "('x, 's) surroundings \<Rightarrow> account_id \<Rightarrow> 'x engine \<Rightarrow> 'x engine" where
  "handle_block_production_failure S author E =
     E\<lparr>en_current_slot := sat_add (ucast (sr_best S)) 1,
       en_last_block_time := clock S,
       en_metrics := (en_metrics E)\<lparr>vm_failed_blocks := sat_add (vm_failed_blocks (en_metrics E)) 1\<rparr>,
       en_reports := en_reports E @ [ReportMissed (sr_best S + 1) author]\<rparr>"

section \<open>One iteration of the engine\<close>

definition try_produce ::
  "(account_id \<Rightarrow> 8 word list) \<Rightarrow> ('x, 's) surroundings \<Rightarrow> 'x engine \<Rightarrow> 'x engine" where
  "try_produce enc S E =
     (let n = sr_best_at_start S + 1
      in case rv_active_validators (sr_view S) of
           None \<Rightarrow> E
         | Some validators \<Rightarrow>
             if validators = [] then E
             else (case select_next_author_from_runtime S validators of
               Inl _ \<Rightarrow> E
             | Inr author \<Rightarrow>
                 if sr_best S \<ge> n then E\<lparr>en_last_block_time := clock S\<rparr>
                 else (case produce_block_with_validation enc S author E of
                         (Inr _, E1) \<Rightarrow> E1
                       | (Inl _, E1) \<Rightarrow> handle_block_production_failure S author E1)))"

definition due :: "u64 \<Rightarrow> u64 \<Rightarrow> u64 \<Rightarrow> bool option" where
  "due slot interval last_slot =
     (if interval = 0 then None else Some (slot mod interval = 0 \<and> last_slot \<noteq> slot))"

text \<open>\<open>None\<close> is the panic of an interval of zero. Refreshing the scores only reads and logs.\<close>

definition engine_iteration ::
  "(account_id \<Rightarrow> 8 word list) \<Rightarrow> ('x, 's) surroundings \<Rightarrow> 'x engine \<Rightarrow> 'x engine option" where
  "engine_iteration enc S E =
     (let E1 = (if should_produce_block S E then try_produce enc S E else E)
      in Option.bind (due (en_current_slot E1) (cp_metrics_update_interval (en_params E1))
             (en_last_metrics_update_slot E1)) (\<lambda>m.
         let E2 = (if m then (update_validator_metrics S E1)\<lparr>en_last_metrics_update_slot := en_current_slot E1\<rparr>
                   else E1)
         in Option.bind (due (en_current_slot E2) (cp_score_refresh_interval (en_params E2))
             (en_last_score_refresh_slot E2)) (\<lambda>r.
         Some (if r then E2\<lparr>en_last_score_refresh_slot := en_current_slot E2\<rparr> else E2))))"

end
