(* ===== verification/Engine_Runs.thy ===== *)
theory Engine_Runs
  imports Block_Production
begin

text \<open>
  Lemmas on the production of blocks: what a built block consists of, how a proposal comes about, what one
  attempt changes in the engine, and runs of the engine.
\<close>

section \<open>Built blocks\<close>

text \<open>The extrinsics that the block builder applied.\<close>

fun applied :: "('x, 's) executive \<Rightarrow> 's \<Rightarrow> 'x list \<Rightarrow> 'x list" where
  "applied X s [] = []"
| "applied X s (x # xs) =
     (case ex_apply X s x of Some s' \<Rightarrow> x # applied X s' xs | None \<Rightarrow> applied X s xs)"

lemma apply_applied:
  "apply_extrinsics X i s xs = Some s' \<Longrightarrow> apply_extrinsics X j s (applied X s xs) = Some s'"
  by (induction X i s xs arbitrary: j rule: apply_extrinsics.induct)
    (auto split: option.splits if_splits)

lemma applied_Nil:
  assumes "apply_extrinsics X 0 s xs = Some s'"
  shows "applied X s xs = [] \<longleftrightarrow> xs = []"
  using assms by (cases xs) (auto split: option.splits)

lemma apply_all_or_critical:
  "apply_extrinsics X (Suc i) s xs \<noteq> None"
  by (induction xs arbitrary: i s) (auto split: option.splits)

lemma build_block_Inr:
  "build_block_with_state_root X p n ds xs = Inr b \<longleftrightarrow>
     (\<exists>s s' h. ex_initialize X p \<lparr>hd_number = n, hd_parent = p, hd_state_root = zero_hash,
          hd_extrinsics_root = zero_hash, hd_digest = ds\<rparr> = Some s
        \<and> apply_extrinsics X 0 s xs = Some s' \<and> ex_finalize X s' = Some h \<and> hd_parent h = p
        \<and> b = \<lparr>bl_header = h, bl_extrinsics = xs\<rparr> \<and> validate_built_block b = Inr ())"
  by (auto simp: build_block_with_state_root_def Let_def split: option.splits sum.splits if_splits)

lemma validate_built_Inr:
  "validate_built_block b = Inr () \<longleftrightarrow> hd_state_root (bl_header b) \<noteq> zero_hash
     \<and> (bl_extrinsics b = [] \<or> hd_extrinsics_root (bl_header b) \<noteq> zero_hash)
     \<and> (hd_number (bl_header b) = 0 \<or> hd_parent (bl_header b) \<noteq> zero_hash)"
  by (auto simp: validate_built_block_def Let_def)

text \<open>
  The runtime keeps the digest a block is initialised with, and what it deposits itself names no author.
\<close>

definition keeps_digest :: "(8 word list \<Rightarrow> account_id option) \<Rightarrow> ('x, 's) executive \<Rightarrow> bool" where
  "keeps_digest dec X \<longleftrightarrow>
     (\<forall>p t s xs s' h. ex_initialize X p t = Some s \<longrightarrow> apply_extrinsics X 0 s xs = Some s'
        \<longrightarrow> ex_finalize X s' = Some h
        \<longrightarrow> (\<exists>ds. hd_digest h = hd_digest t @ ds \<and> queue_block_author dec ds = None))"

lemma build_block_author:
  assumes "keeps_digest dec X" and "build_block_with_state_root X p n ds xs = Inr b"
  shows "queue_block_author dec (hd_digest (bl_header b)) = queue_block_author dec ds"
proof -
  obtain s s' h where "ex_initialize X p \<lparr>hd_number = n, hd_parent = p, hd_state_root = zero_hash,
          hd_extrinsics_root = zero_hash, hd_digest = ds\<rparr> = Some s"
      and "apply_extrinsics X 0 s xs = Some s'" and "ex_finalize X s' = Some h"
      and b: "b = \<lparr>bl_header = h, bl_extrinsics = xs\<rparr>"
    using assms(2) by (auto simp: build_block_Inr)
  then obtain es where "hd_digest h = ds @ es" and "queue_block_author dec es = None"
    using assms(1) unfolding keeps_digest_def by fastforce
  then show ?thesis
    by (simp add: b queue_reader.read_append split: option.splits)
qed

section \<open>Proposals\<close>

lemma create_complete_block_ok:
  assumes "create_complete_block S (Some d) (Some author) E = (Inr (b, a), E')"
  obtains parent_number inherents where "sr_parent_number S = Some (Some parent_number)"
    and "sr_inherents S = Some inherents" and "a = author"
    and "build_block_with_state_root (sr_executive S) (sr_parent S) (parent_number + 1) [d]
      (inherents @ collect_transactions_from_pool S E) = Inr b"
    and "hd_number (bl_header b) = parent_number + 1" and "E' = E\<lparr>en_proposer_time := Some (sr_instant S)\<rparr>"
  using assms by (auto simp: create_complete_block_def block_author_for_def Let_def validate_final_block_def
      split: if_splits option.splits sum.splits)

lemma create_emergency_block_ok:
  assumes "create_emergency_block S author E = (Inr (b, a), E')"
  obtains parent_number inherents where "sr_parent_number S = Some (Some parent_number)"
    and "sr_inherents S = Some inherents" and "a = author"
    and "build_block_with_state_root (sr_executive S) (sr_parent S) (parent_number + 1) [] inherents = Inr b"
    and "E' = E\<lparr>en_proposer_time := Some (sr_instant S)\<rparr>"
  using assms by (auto simp: create_emergency_block_def split: option.splits sum.splits)

lemma create_complete_block_error: "create_complete_block S d f E = (Inl e, E') \<Longrightarrow> E' = E"
  by (auto simp: create_complete_block_def Let_def split: if_splits option.splits sum.splits)

text \<open>A proposal is the complete block or, when that could not be made, the emergency block.\<close>

lemma proposal_cases:
  assumes "create_block_proposal enc S author n E = (Inr b, E')"
  obtains (complete) "create_complete_block S (Some (PreRuntime engine_id (enc author))) (Some author) E
      = (Inr (b, author), E')"
    | (emergency) e where
      "create_complete_block S (Some (PreRuntime engine_id (enc author))) (Some author) E = (Inl e, E)"
      and "create_emergency_block S author E = (Inr (b, author), E')"
proof (cases "create_complete_block S (Some (PreRuntime engine_id (enc author))) (Some author) E")
  case (Pair r E1)
  show thesis
  proof (cases r)
    case (Inl e)
    then have complete: "create_complete_block S (Some (PreRuntime engine_id (enc author))) (Some author) E
        = (Inl e, E)"
      using Pair create_complete_block_error by force
    show thesis
      using assms by (intro emergency [OF complete])
        (auto simp: create_block_proposal_def complete Let_def split: prod.splits sum.splits if_splits)
  next
    case (Inr p)
    show thesis
      using assms by (intro complete)
        (auto simp: create_block_proposal_def Pair Inr Let_def split: prod.splits sum.splits if_splits)
  qed
qed

lemma proposal_number:
  assumes "create_block_proposal enc S author n E = (Inr b, E')"
  shows "hd_number (bl_header b) = n"
  using assms by (auto simp: create_block_proposal_def Let_def validate_created_block_def
      split: prod.splits sum.splits if_splits)

section \<open>What an attempt changes\<close>

definition engine_core :: "'x engine \<Rightarrow> 'x engine" where
  "engine_core E = E\<lparr>en_proposer_time := None\<rparr>"

lemma engine_core_fields:
  assumes "engine_core E' = engine_core E"
  shows "en_handed E' = en_handed E" "en_params E' = en_params E" "en_metrics E' = en_metrics E"
    "en_last_block_time E' = en_last_block_time E" "en_current_slot E' = en_current_slot E"
    "en_last_metrics_update_slot E' = en_last_metrics_update_slot E"
    "en_last_score_refresh_slot E' = en_last_score_refresh_slot E" "en_reports E' = en_reports E"
  using assms by (cases E; cases E'; simp add: engine_core_def)+

lemma engine_core_time [simp]: "engine_core (E\<lparr>en_proposer_time := t\<rparr>) = engine_core E"
  by (simp add: engine_core_def)

lemma create_complete_block_core [simp]:
  "engine_core (snd (create_complete_block S d f E)) = engine_core E"
  by (simp add: create_complete_block_def Let_def split: option.split sum.split)

lemma create_emergency_block_core [simp]:
  "engine_core (snd (create_emergency_block S a E)) = engine_core E"
  by (simp add: create_emergency_block_def split: option.split sum.split)

lemma create_block_proposal_core [simp]:
  "engine_core (snd (create_block_proposal enc S a n E)) = engine_core E"
proof -
  obtain r E1 where c: "create_complete_block S (Some (PreRuntime engine_id (enc a))) (Some a) E = (r, E1)"
    by force
  obtain q E2 where e: "create_emergency_block S a E1 = (q, E2)"
    by force
  have "engine_core E1 = engine_core E"
    using create_complete_block_core [of S "Some (PreRuntime engine_id (enc a))" "Some a" E] by (simp add: c)
  moreover have "engine_core E2 = engine_core E1"
    using create_emergency_block_core [of S a E1] by (simp add: e)
  moreover have "snd (create_block_proposal enc S a n E) = E1
      \<or> snd (create_block_proposal enc S a n E) = E2"
    by (simp add: create_block_proposal_def c e Let_def split: sum.split prod.split)
  ultimately show ?thesis
    by auto
qed

text \<open>The parts of the engine that an attempt may or may not touch.\<close>

definition scored :: "('x, 's) surroundings \<Rightarrow> account_id \<Rightarrow> 'x engine \<Rightarrow> 'x engine" where
  "scored S author E =
     (case rv_validator_scores (sr_view S) of
        None \<Rightarrow> E
      | Some scores \<Rightarrow> (case List.find (\<lambda>(a, _). a = author) scores of
            None \<Rightarrow> E | Some (_, fs) \<Rightarrow> score_metrics fs E))"

lemma produce_block_unfold:
  "produce_block_with_validation enc S author E =
     (if \<not> sr_can_validate S then (Inl AuthorValidationFailed, E)
      else (case create_block_proposal enc S author (sr_best S + 1) (scored S author E) of
              (Inl e, E2) \<Rightarrow> (Inl e, E2)
            | (Inr b, E2) \<Rightarrow>
                (case import_consensus_block S b E2 of
                   (Inl e, E3) \<Rightarrow> (Inl e, E3)
                 | (Inr _, E3) \<Rightarrow> (Inr (), update_consensus_state S (sr_best S + 1) author E3))))"
  by (simp add: produce_block_with_validation_def scored_def Let_def)

lemma scored_fields [simp]:
  "en_params (scored S a E) = en_params E" "en_handed (scored S a E) = en_handed E"
  "en_last_block_time (scored S a E) = en_last_block_time E"
  "en_current_slot (scored S a E) = en_current_slot E"
  "en_last_metrics_update_slot (scored S a E) = en_last_metrics_update_slot E"
  "en_last_score_refresh_slot (scored S a E) = en_last_score_refresh_slot E"
  "en_proposer_time (scored S a E) = en_proposer_time E" "en_reports (scored S a E) = en_reports E"
  "vm_failed_blocks (en_metrics (scored S a E)) = vm_failed_blocks (en_metrics E)"
  "vm_total_blocks (en_metrics (scored S a E)) = vm_total_blocks (en_metrics E)"
  by (simp_all add: scored_def score_metrics_def update_validator_score_def split: option.split)

lemma update_consensus_state_fields [simp]:
  "en_params (update_consensus_state S n a E) = en_params E"
  "en_handed (update_consensus_state S n a E) = en_handed E"
  "en_last_block_time (update_consensus_state S n a E) = clock S"
  "en_current_slot (update_consensus_state S n a E) = en_current_slot E"
  "en_last_metrics_update_slot (update_consensus_state S n a E) = en_last_metrics_update_slot E"
  "en_last_score_refresh_slot (update_consensus_state S n a E) = en_last_score_refresh_slot E"
  "en_reports (update_consensus_state S n a E) = en_reports E @ [ReportSuccess n a]"
  "vm_failed_blocks (en_metrics (update_consensus_state S n a E)) = vm_failed_blocks (en_metrics E)"
  "vm_total_blocks (en_metrics (update_consensus_state S n a E))
     = sat_add (vm_total_blocks (en_metrics E)) 1"
  by (simp_all add: update_consensus_state_def score_metrics_def update_validator_score_def Let_def
      split: option.split)

lemma import_consensus_block_state:
  "snd (import_consensus_block S b E) = E\<lparr>en_handed := en_handed E @ [\<lparr>ip_origin = OwnOrigin,
     ip_header = bl_header b, ip_body = Some (bl_extrinsics b), ip_finalized = False,
     ip_fork_choice = Some LongestChain\<rparr>]\<rparr>"
  by (simp add: import_consensus_block_def Let_def split: option.split)

lemma produce_cases:
  assumes "produce_block_with_validation enc S author E = (r, E')"
  obtains (refused) "E' = E" and "r = Inl AuthorValidationFailed"
    | (no_block) e where "create_block_proposal enc S author (sr_best S + 1) (scored S author E) = (Inl e, E')"
        and "r = Inl e"
    | (not_imported) b E2 where
        "create_block_proposal enc S author (sr_best S + 1) (scored S author E) = (Inr b, E2)"
        and "E' = snd (import_consensus_block S b E2)" and "r = Inl BlockImportError"
    | (produced) b E2 where
        "create_block_proposal enc S author (sr_best S + 1) (scored S author E) = (Inr b, E2)"
        and "E' = update_consensus_state S (sr_best S + 1) author (snd (import_consensus_block S b E2))"
        and "r = Inr ()"
proof (cases "sr_can_validate S")
  case False
  then show thesis
    using assms by (intro refused) (simp_all add: produce_block_unfold)
next
  case True
  obtain q E2 where p: "create_block_proposal enc S author (sr_best S + 1) (scored S author E) = (q, E2)"
    by force
  show thesis
  proof (cases q)
    case (Inl e)
    then show thesis
      using assms True p by (intro no_block) (auto simp: produce_block_unfold)
  next
    case (Inr b)
    show thesis
    proof (cases "sr_client_import S \<lparr>ip_origin = OwnOrigin, ip_header = bl_header b,
        ip_body = Some (bl_extrinsics b), ip_finalized = False, ip_fork_choice = Some LongestChain\<rparr>")
      case None
      then show thesis
        using assms True p Inr
        by (intro not_imported) (auto simp: produce_block_unfold import_consensus_block_def Let_def)
    next
      case (Some i)
      then show thesis
        using assms True p Inr
        by (intro produced) (auto simp: produce_block_unfold import_consensus_block_def Let_def)
    qed
  qed
qed

lemma proposal_core:
  "create_block_proposal enc S author n E = (q, E2) \<Longrightarrow> engine_core E2 = engine_core E"
  using create_block_proposal_core [of enc S author n E] by simp

lemma produce_time:
  "produce_block_with_validation enc S author E = (Inr (), E') \<Longrightarrow> en_last_block_time E' = clock S"
  by (erule produce_cases) auto

text \<open>What neither success nor failure of an attempt changes.\<close>

definition engine_slots :: "'x engine \<Rightarrow> consensus_params \<times> u64 \<times> u64 \<times> u64 \<times> u32" where
  "engine_slots E = (en_params E, en_current_slot E, en_last_metrics_update_slot E,
     en_last_score_refresh_slot E, vm_failed_blocks (en_metrics E))"

lemma engine_slots_core:
  "engine_core E2 = engine_core E \<Longrightarrow> engine_slots E2 = engine_slots E"
  using engine_core_fields [of E2 E] by (simp add: engine_slots_def)

lemma engine_slots_simps [simp]:
  "engine_slots (scored S a E) = engine_slots E"
  "engine_slots (update_consensus_state S n a E) = engine_slots E"
  "engine_slots (snd (import_consensus_block S b E)) = engine_slots E"
  by (simp_all add: engine_slots_def import_consensus_block_state)

lemma produce_slots:
  assumes "produce_block_with_validation enc S author E = (r, E')"
  shows "engine_slots E' = engine_slots E"
  using assms
proof (cases rule: produce_cases)
  case refused
  then show ?thesis by simp
next
  case (no_block e)
  from engine_slots_core [OF proposal_core [OF no_block(1)]] show ?thesis by simp
next
  case (not_imported b E2)
  from engine_slots_core [OF proposal_core [OF not_imported(1)]] show ?thesis
    by (simp add: not_imported)
next
  case (produced b E2)
  from engine_slots_core [OF proposal_core [OF produced(1)]] show ?thesis
    by (simp add: produced)
qed

section \<open>Runs of the engine\<close>

text \<open>One iteration without the periodic tasks.\<close>

definition produce_step ::
  "(account_id \<Rightarrow> 8 word list) \<Rightarrow> ('x, 's) surroundings \<Rightarrow> 'x engine \<Rightarrow> 'x engine" where
  "produce_step enc S E = (if should_produce_block S E then try_produce enc S E else E)"

fun engine_run ::
  "(account_id \<Rightarrow> 8 word list) \<Rightarrow> ('x, 's) surroundings list \<Rightarrow> 'x engine \<Rightarrow> 'x engine option" where
  "engine_run enc [] E = Some E"
| "engine_run enc (S # Ss) E = Option.bind (engine_iteration enc S E) (engine_run enc Ss)"

lemma try_produce_cases:
  obtains (idle) "try_produce enc S E = E"
    | (overtaken) "try_produce enc S E = E\<lparr>en_last_block_time := clock S\<rparr>"
    | (success) author E1 where "produce_block_with_validation enc S author E = (Inr (), E1)"
        and "try_produce enc S E = E1"
    | (failure) author e E1 where "produce_block_with_validation enc S author E = (Inl e, E1)"
        and "try_produce enc S E = handle_block_production_failure S author E1"
proof (cases "\<exists>author. try_produce enc S E = (case produce_block_with_validation enc S author E of
    (Inr _, E1) \<Rightarrow> E1 | (Inl _, E1) \<Rightarrow> handle_block_production_failure S author E1)")
  case True
  then obtain author where t: "try_produce enc S E = (case produce_block_with_validation enc S author E of
      (Inr _, E1) \<Rightarrow> E1 | (Inl _, E1) \<Rightarrow> handle_block_production_failure S author E1)" ..
  obtain r E1 where p: "produce_block_with_validation enc S author E = (r, E1)"
    by force
  show thesis
    by (cases r) (use t p success failure in auto)
next
  case False
  then have "try_produce enc S E = E \<or> try_produce enc S E = E\<lparr>en_last_block_time := clock S\<rparr>"
    by (auto simp: try_produce_def Let_def split: option.split sum.split)
  then show thesis
    using idle overtaken by blast
qed

lemma try_produce_slots:
  "en_params (try_produce enc S E) = en_params E
   \<and> en_last_metrics_update_slot (try_produce enc S E) = en_last_metrics_update_slot E
   \<and> en_last_score_refresh_slot (try_produce enc S E) = en_last_score_refresh_slot E"
  by (cases rule: try_produce_cases [of enc S E])
    (auto simp: handle_block_production_failure_def engine_slots_def dest!: produce_slots)

lemma produce_step_fields [simp]:
  "en_params (produce_step enc S E) = en_params E"
  "en_last_metrics_update_slot (produce_step enc S E) = en_last_metrics_update_slot E"
  "en_last_score_refresh_slot (produce_step enc S E) = en_last_score_refresh_slot E"
  by (simp_all add: produce_step_def try_produce_slots)

section \<open>Failures and the periodic tasks\<close>

lemma update_validator_metrics_rest:
  "engine_slots (update_validator_metrics S E) = engine_slots E
   \<and> en_handed (update_validator_metrics S E) = en_handed E
   \<and> en_last_block_time (update_validator_metrics S E) = en_last_block_time E"
proof -
  have *: "engine_slots (fold (\<lambda>(v, _) E. case rv_validator_profile (sr_view S) v of
          Some (Some profile) \<Rightarrow> score_metrics (ap_final_score profile) E | _ \<Rightarrow> E) scores E) = engine_slots E
     \<and> en_handed (fold (\<lambda>(v, _) E. case rv_validator_profile (sr_view S) v of
          Some (Some profile) \<Rightarrow> score_metrics (ap_final_score profile) E | _ \<Rightarrow> E) scores E) = en_handed E
     \<and> en_last_block_time (fold (\<lambda>(v, _) E. case rv_validator_profile (sr_view S) v of
          Some (Some profile) \<Rightarrow> score_metrics (ap_final_score profile) E | _ \<Rightarrow> E) scores E)
        = en_last_block_time E" for scores :: "(account_id \<times> u64) list" and E :: "'a engine"
    by (induction scores arbitrary: E)
      (auto simp: engine_slots_def score_metrics_def update_validator_score_def split: option.split)
  show ?thesis
    by (auto simp: update_validator_metrics_def * split: option.split)
qed

text \<open>One iteration is a step of production, followed by the tasks that fall due.\<close>

lemma iteration_rest:
  assumes "engine_iteration enc S E = Some E'"
  shows "vm_failed_blocks (en_metrics E') = vm_failed_blocks (en_metrics (produce_step enc S E))"
    and "en_handed E' = en_handed (produce_step enc S E)"
    and "en_last_block_time E' = en_last_block_time (produce_step enc S E)"
    and "en_current_slot E' = en_current_slot (produce_step enc S E)"
    and "en_params E' = en_params E"
  using assms update_validator_metrics_rest [of S "produce_step enc S E"]
  by (auto simp: engine_iteration_def Let_def produce_step_def [symmetric] bind_eq_Some_conv
      engine_slots_def split: if_splits)

lemma iteration_no_task:
  assumes "engine_iteration enc S E = Some E'" and "en_current_slot (produce_step enc S E) = 0"
    and "en_last_metrics_update_slot E = 0" and "en_last_score_refresh_slot E = 0"
  shows "E' = produce_step enc S E"
  using assms by (auto simp: engine_iteration_def Let_def produce_step_def [symmetric]
      bind_eq_Some_conv due_def split: if_splits)

lemma sat_add_one: "x \<le> sat_add x 1 \<and> sat_add x 1 \<noteq> (0 :: u32)"
proof (cases "unat x + unat (1 :: u32) < 2 ^ 32")
  case True
  then have "unat (x + 1) = unat x + 1"
    by (simp add: unat_word_ariths)
  with True show ?thesis
    by (auto simp: sat_add_def word_le_nat_alt unat_eq_0)
qed (simp add: sat_add_def)

lemma produce_step_failed:
  "vm_failed_blocks (en_metrics (produce_step enc S E)) = vm_failed_blocks (en_metrics E)
     \<and> en_current_slot (produce_step enc S E) = en_current_slot E
   \<or> vm_failed_blocks (en_metrics (produce_step enc S E)) = sat_add (vm_failed_blocks (en_metrics E)) 1"
proof (cases "should_produce_block S E")
  case True
  show ?thesis
    by (cases rule: try_produce_cases [of enc S E])
      (auto simp: produce_step_def True handle_block_production_failure_def engine_slots_def
        dest!: produce_slots)
qed (simp add: produce_step_def)

lemma run_failed_mono:
  "engine_run enc Ss E = Some E' \<Longrightarrow> vm_failed_blocks (en_metrics E) \<le> vm_failed_blocks (en_metrics E')"
proof (induction Ss arbitrary: E)
  case (Cons S Ss)
  then obtain E1 where i: "engine_iteration enc S E = Some E1" and r: "engine_run enc Ss E1 = Some E'"
    by (auto simp: bind_eq_Some_conv)
  have "vm_failed_blocks (en_metrics E) \<le> vm_failed_blocks (en_metrics E1)"
    using produce_step_failed [of enc S E] sat_add_one by (auto simp: iteration_rest [OF i])
  with Cons.IH [OF r] show ?case by simp
qed simp

lemma run_without_failure:
  assumes "engine_run enc Ss E = Some E'" and "vm_failed_blocks (en_metrics E') = 0"
    and "en_current_slot E = 0" and "en_last_metrics_update_slot E = 0"
    and "en_last_score_refresh_slot E = 0"
  shows "E' = fold (produce_step enc) Ss E"
  using assms(1,3-5)
proof (induction Ss arbitrary: E)
  case (Cons S Ss)
  then obtain E1 where i: "engine_iteration enc S E = Some E1" and r: "engine_run enc Ss E1 = Some E'"
    by (auto simp: bind_eq_Some_conv)
  have "vm_failed_blocks (en_metrics E1) = 0"
    using run_failed_mono [OF r] assms(2) by simp
  then have slot: "en_current_slot (produce_step enc S E) = 0"
    using produce_step_failed [of enc S E] Cons.prems(2) sat_add_one
    by (metis iteration_rest(1) [OF i])
  have E1: "E1 = produce_step enc S E"
    by (rule iteration_no_task [OF i slot Cons.prems(3,4)])
  show ?case
    using Cons.IH [OF r] Cons.prems slot by (simp add: E1)
qed simp

section \<open>The times at which blocks are handed over\<close>

fun handing_times ::
  "(account_id \<Rightarrow> 8 word list) \<Rightarrow> ('x, 's) surroundings list \<Rightarrow> 'x engine \<Rightarrow> nat list" where
  "handing_times enc [] E = []"
| "handing_times enc (S # Ss) E =
     (case engine_iteration enc S E of
        None \<Rightarrow> []
      | Some E1 \<Rightarrow> (if length (en_handed E1) > length (en_handed E) then [clock S] else [])
                    @ handing_times enc Ss E1)"

lemma produce_step_time:
  "en_last_block_time (produce_step enc S E) = clock S
   \<or> en_last_block_time (produce_step enc S E) = en_last_block_time E
     \<and> en_handed (produce_step enc S E) = en_handed E"
proof (cases "should_produce_block S E")
  case True
  show ?thesis
    by (cases rule: try_produce_cases [of enc S E])
      (auto simp: produce_step_def True handle_block_production_failure_def dest: produce_time)
qed (simp add: produce_step_def)

lemma handing_due:
  assumes "length (en_handed (produce_step enc S E)) > length (en_handed E)"
  shows "should_produce_block S E" and "en_last_block_time (produce_step enc S E) = clock S"
  using assms produce_step_time [of enc S E] by (auto simp: produce_step_def split: if_splits)

lemma handing_times_after:
  assumes "sorted (map clock Ss)" and "\<forall>S\<in>set Ss. en_last_block_time E \<le> clock S"
    and "t \<in> set (handing_times enc Ss E)"
  shows "en_last_block_time E + unat (cp_block_time (en_params E)) * 10 ^ 9 \<le> t"
  using assms
proof (induction Ss arbitrary: E)
  case (Cons S Ss)
  obtain E1 where i: "engine_iteration enc S E = Some E1"
    using Cons.prems(3) by (cases "engine_iteration enc S E") auto
  let ?gap = "unat (cp_block_time (en_params E)) * 10 ^ 9"
  have last: "en_last_block_time E \<le> en_last_block_time E1"
    "\<forall>S\<in>set Ss. en_last_block_time E1 \<le> clock S"
    using produce_step_time [of enc S E] Cons.prems by (auto simp: iteration_rest [OF i])
  show ?case
  proof (cases "t \<in> set (handing_times enc Ss E1)")
    case True
    then have "en_last_block_time E1 + ?gap \<le> t"
      using Cons.IH [of E1] Cons.prems last by (simp add: iteration_rest [OF i])
    with last show ?thesis by simp
  next
    case False
    then have "t = clock S" and "length (en_handed E1) > length (en_handed E)"
      using Cons.prems(3) by (auto simp: i split: if_splits)
    then have "should_produce_block S E"
      using handing_due [of E enc S] by (simp add: iteration_rest [OF i])
    with \<open>t = clock S\<close> Cons.prems show ?thesis
      by (auto simp: should_produce_block_def)
  qed
qed simp

lemma handing_times_spaced:
  assumes "sorted (map clock Ss)" and "\<forall>S\<in>set Ss. en_last_block_time E \<le> clock S"
  shows "sorted_wrt (\<lambda>t t'. t + unat (cp_block_time (en_params E)) * 10 ^ 9 \<le> t') (handing_times enc Ss E)"
  using assms
proof (induction Ss arbitrary: E)
  case (Cons S Ss)
  show ?case
  proof (cases "engine_iteration enc S E")
    case (Some E1)
    have last: "\<forall>S\<in>set Ss. en_last_block_time E1 \<le> clock S"
      using produce_step_time [of enc S E] Cons.prems by (auto simp: iteration_rest [OF Some])
    have rest: "sorted_wrt (\<lambda>t t'. t + unat (cp_block_time (en_params E)) * 10 ^ 9 \<le> t')
        (handing_times enc Ss E1)"
      using Cons.IH [of E1] Cons.prems last by (simp add: iteration_rest [OF Some])
    have "clock S + unat (cp_block_time (en_params E)) * 10 ^ 9 \<le> t"
      if "length (en_handed E1) > length (en_handed E)" and "t \<in> set (handing_times enc Ss E1)" for t
      using handing_times_after [OF _ last that(2)] handing_due [of E enc S] Cons.prems that(1)
      by (simp add: iteration_rest [OF Some])
    with rest show ?thesis
      by (simp add: Some)
  qed simp
qed simp

end
