(* ===== verification/Block_Properties.thy ===== *)
theory Block_Properties
  imports Engine_Runs Dcf_Config
begin

text \<open>
  The properties of block production and import: what the verifier accepts, that a produced block is
  accepted by peers and credited by the pallet, what becomes of an emergency block, and how often a
  node hands over a block.
\<close>

section \<open>Definitions and lemmas\<close>

text \<open>A block as the node hands it to its own client, and as a peer receives it.\<close>

definition own_params :: "'x block \<Rightarrow> 'x import_params" where
  "own_params b = \<lparr>ip_origin = OwnOrigin, ip_header = bl_header b, ip_body = Some (bl_extrinsics b),
     ip_finalized = False, ip_fork_choice = Some LongestChain\<rparr>"

definition received :: "'x block \<Rightarrow> 'x import_params" where
  "received b = \<lparr>ip_origin = NetworkBroadcast, ip_header = bl_header b, ip_body = Some (bl_extrinsics b),
     ip_finalized = False, ip_fork_choice = None\<rparr>"

lemma received_header [simp]: "ip_header (received b) = bl_header b" "ip_fork_choice (received b) = None"
  by (simp_all add: received_def)

lemma import_hands_over:
  "en_handed (snd (import_consensus_block S b E)) = en_handed E @ [own_params b]"
  by (simp add: import_consensus_block_state own_params_def)

text \<open>What the choice of an author depends on, and the state in which the hook of the pallet looks at a block.\<close>

definition same_authors ::
  "('c, 'sig, 'z) dcf_world_scheme \<Rightarrow> ('c, 'sig, 'z) dcf_world_scheme \<Rightarrow> bool" where
  "same_authors w' w \<longleftrightarrow> ActiveValidators w' = ActiveValidators w
     \<and> EpochConfigStorage w' = EpochConfigStorage w \<and> EpochAuthorSequences w' = EpochAuthorSequences w
     \<and> Stake w' = Stake w \<and> InferenceResults w' = InferenceResults w
     \<and> PosWeight w' = PosWeight w \<and> PoiWeight w' = PoiWeight w \<and> digest_logs w' = digest_logs w"

lemma same_authors_trans: "same_authors w2 w1 \<Longrightarrow> same_authors w1 w \<Longrightarrow> same_authors w2 w"
  by (simp add: same_authors_def)

lemma same_authors_expected:
  assumes "same_authors w' w"
  shows "get_expected_author cfg n w' = get_expected_author cfg n w"
proof -
  have active: "dcf_active_validators cfg w' = dcf_active_validators cfg w"
    using assms by (simp add: same_authors_def dcf_active_validators_def)
  have "fresh_weight cfg w' = fresh_weight cfg w"
    using assms by (intro ext) (simp add: same_authors_def fresh_weight_def get_inference_score_def
      pos_weight_of_def poi_weight_of_def)
  then have "get_expected_author_legacy cfg n w' = get_expected_author_legacy cfg n w"
    by (simp add: get_expected_author_legacy_def active)
  then show ?thesis
    using assms by (simp add: get_expected_author_def active same_authors_def Let_def split: option.split)
qed

definition hook_state ::
  "('c, 'sig) dcf_config \<Rightarrow> u32 \<Rightarrow> ('c, 'sig, 'z) dcf_world_scheme \<Rightarrow> ('c, 'sig, 'z) dcf_world_scheme" where
  "hook_state cfg n w =
     reset_block_counters (progressive_finality cfg n (DcfCurrentEpoch w) (initialize_finality n w))"

lemma validate_same_authors:
  "same_authors (snd (validate_finality_advancement cfg n e w)) w"
  by (simp add: same_authors_def validate_finality_advancement_def Let_def dcf_deposit_event_def)

lemma markers_same_authors: "same_authors (snd (update_finality_markers cfg n e w)) w"
proof -
  obtain r w1 where v: "validate_finality_advancement cfg n e w = (r, w1)"
    by force
  have "same_authors w1 w"
    using validate_same_authors [of cfg n e w] by (simp add: v)
  moreover have "same_authors (snd (update_finality_markers cfg n e w)) w1"
    by (cases r) (simp_all add: update_finality_markers_def v Let_def same_authors_def dcf_deposit_event_def)
  ultimately show ?thesis
    by (rule same_authors_trans [rotated])
qed

lemma hook_same_authors: "same_authors (hook_state cfg n w) w"
proof -
  have "same_authors (initialize_finality n w) w"
    by (simp add: initialize_finality_def same_authors_def dcf_deposit_event_def)
  moreover have "same_authors (progressive_finality cfg n e w1) w1" for e w1
    by (simp add: progressive_finality_def markers_same_authors) (simp add: same_authors_def)
  moreover have "same_authors (reset_block_counters w1) w1" for w1 :: "('a, 'b, 'c) dcf_world_scheme"
    by (simp add: reset_block_counters_def same_authors_def dcf_deposit_event_def)
  ultimately show ?thesis
    unfolding hook_state_def by (blast intro: same_authors_trans)
qed

lemma hook_is_regular:
  assumes "EpochLength cfg \<noteq> 0" and "\<not> is_epoch_boundary cfg n"
  shows "dcf_on_initialize cfg H n w
    = handle_regular_block_processing cfg n (DcfCurrentEpoch w) (hook_state cfg n w)"
  using assms by (simp add: dcf_on_initialize_def hook_state_def Let_def)


lemma hook_misses:
  assumes "get_expected_author cfg n w = Some (Some v)" and "pallet_reader cfg (digest_logs w) = None"
  shows "process_block_authorship cfg n (hook_state cfg n w)
    = Some (snd (record_missed_block cfg v (hook_state cfg n w)))"
  using assms hook_same_authors [of cfg n w]
  by (simp add: process_block_authorship_def same_authors_expected [OF hook_same_authors] pallet_reader)
    (simp add: same_authors_def)

section \<open>Concrete surroundings\<close>

definition sample_dec :: "8 word list \<Rightarrow> account_id option" where
  "sample_dec data = (if length data \<ge> 32 then Some (AccountId (unat (hd data))) else None)"

definition sample_enc :: "account_id \<Rightarrow> 8 word list" where
  "sample_enc a = (case a of AccountId k \<Rightarrow> of_nat k # replicate 31 0)"

definition sample_executive :: "(nat, header) executive" where
  "sample_executive = \<lparr>
     ex_initialize = (\<lambda>p t. Some (t\<lparr>hd_state_root := Hash 1, hd_extrinsics_root := Hash 1\<rparr>)),
     ex_apply = (\<lambda>s x. if x = 13 then None else Some (s\<lparr>hd_state_root := Hash (x + 1)\<rparr>)),
     ex_finalize = Some\<rparr>"

text \<open>A state in which the second validator is expected to author block 101.\<close>

definition block_config :: "(account_id \<Rightarrow> u128 \<times> u128, nat) dcf_config" where
  "block_config = sample_config\<lparr>decode_account := sample_dec\<rparr>"

definition block_world :: "(account_id \<Rightarrow> u128 \<times> u128, nat) dcf_world" where
  "block_world = sample_dcf_world\<lparr>EpochAuthorSequences := [(1, [alice, bob])]\<rparr>"

definition block_surroundings :: "(nat, header) surroundings" where
  "block_surroundings = \<lparr>sr_now = Some (10 ^ 12), sr_instant = 10 ^ 12, sr_best_at_start = 100,
     sr_best = 100, sr_view = runtime_api block_config block_world, sr_parent = Hash 100,
     sr_parent_number = Some (Some 100), sr_can_validate = True, sr_inherents = Some [2],
     sr_ready = [7, 13, 8], sr_executive = sample_executive,
     sr_client_import = (\<lambda>p. Some (Imported True))\<rparr>"

lemma sample_codec: "sample_dec (sample_enc bob) = Some bob" "decodes_fixed sample_dec"
  "decode_account block_config = sample_dec"
  by (simp_all add: sample_dec_def sample_enc_def bob_def decodes_fixed_def block_config_def hd_take)

lemma block_world_fields:
  "dcf_active_validators block_config block_world = [alice, bob]"
  "get_expected_author block_config 101 block_world = Some (Some bob)"
  by (simp_all add: dcf_active_validators_def bv_truncate_def block_world_def dcf_sample_defs
      block_config_def get_expected_author_def sm_get_def)

lemma sample_keeps_digest: "keeps_digest dec sample_executive"
proof -
  have "hd_digest s' = hd_digest s" if "apply_extrinsics sample_executive i s xs = Some s'" for i s xs s'
    using that by (induction sample_executive i s xs rule: apply_extrinsics.induct)
      (auto simp: sample_executive_def split: if_splits)
  then show ?thesis
    by (fastforce simp: keeps_digest_def sample_executive_def)
qed

section \<open>Verification\<close>




section \<open>Production\<close>

text \<open>An iteration in which everything goes well.\<close>

definition slot_ready ::
  "('c, 'sig) dcf_config \<Rightarrow> ('c, 'sig) dcf_world \<Rightarrow> (account_id \<Rightarrow> 8 word list)
     \<Rightarrow> ('x, 's) surroundings \<Rightarrow> 'x engine \<Rightarrow> account_id \<Rightarrow> 'x block \<Rightarrow> bool" where
  "slot_ready cfg w enc S E a b \<longleftrightarrow> should_produce_block S E \<and> sr_view S = runtime_api cfg w
     \<and> sr_best_at_start S = sr_best S \<and> sr_best S < sr_best S + 1
     \<and> sr_parent_number S = Some (Some (sr_best S))
     \<and> get_expected_author cfg (sr_best S + 1) w = Some (Some a)
     \<and> a \<in> set (dcf_active_validators cfg w) \<and> sr_can_validate S \<and> \<not> too_soon S E
     \<and> (\<exists>inherents. sr_inherents S = Some inherents
         \<and> build_block_with_state_root (sr_executive S) (sr_parent S) (sr_best S + 1)
             [PreRuntime engine_id (enc a)] (inherents @ collect_transactions_from_pool S E) = Inr b)
     \<and> hd_number (bl_header b) = sr_best S + 1 \<and> sr_client_import S (own_params b) \<noteq> None"

lemma slot_ready_step:
  assumes "slot_ready cfg w enc S E a b"
  shows "produce_step enc S E = update_consensus_state S (sr_best S + 1) a (snd (import_consensus_block S b
    ((scored S a E)\<lparr>en_proposer_time := Some (sr_instant S)\<rparr>)))"
proof -
  obtain inherents where inherents: "sr_inherents S = Some inherents"
    and built: "build_block_with_state_root (sr_executive S) (sr_parent S) (sr_best S + 1)
        [PreRuntime engine_id (enc a)] (inherents @ collect_transactions_from_pool S E) = Inr b"
    using assms by (auto simp: slot_ready_def)
  have valid: "validate_final_block b (sr_best S + 1) = Inr ()" "validate_created_block b (sr_best S + 1) = Inr ()"
    using built assms by (auto simp: build_block_Inr validate_built_Inr validate_final_block_def
        validate_created_block_def slot_ready_def Let_def)
  have collect: "collect_transactions_from_pool S (scored S a E) = collect_transactions_from_pool S E"
    "too_soon S (scored S a E) = too_soon S E"
    by (simp_all add: collect_transactions_from_pool_def too_soon_def split: option.split)
  let ?E = "(scored S a E)\<lparr>en_proposer_time := Some (sr_instant S)\<rparr>"
  have "create_block_proposal enc S a (sr_best S + 1) (scored S a E) = (Inr b, ?E)"
    using assms inherents built valid by (simp add: create_block_proposal_def create_complete_block_def
        block_author_for_def slot_ready_def collect Let_def)
  then have "produce_block_with_validation enc S a E
      = (Inr (), update_consensus_state S (sr_best S + 1) a (snd (import_consensus_block S b ?E)))"
    using assms by (auto simp: slot_ready_def produce_block_unfold import_consensus_block_def
        own_params_def Let_def)
  moreover have "select_next_author_from_runtime S (dcf_active_validators cfg w) = Inr a"
    using assms by (simp add: slot_ready_def select_next_author_from_runtime_def)
  ultimately show ?thesis
    using assms by (auto simp: slot_ready_def produce_step_def try_produce_def Let_def)
qed


definition sample_built :: "nat block" where
  "sample_built = \<lparr>bl_header = \<lparr>hd_number = 101, hd_parent = Hash 100, hd_state_root = Hash 9,
        hd_extrinsics_root = Hash 1, hd_digest = [PreRuntime engine_id (sample_enc bob)]\<rparr>,
      bl_extrinsics = [2, 7, 13, 8]\<rparr>"

lemma sample_block:
  "build_block_with_state_root sample_executive (Hash 100) 101 [PreRuntime engine_id (sample_enc bob)]
     [2, 7, 13, 8] = Inr sample_built"
  by (simp add: build_block_with_state_root_def sample_executive_def validate_built_block_def zero_hash_def
      sample_built_def)

lemma sample_ready:
  "slot_ready block_config block_world sample_enc block_surroundings (new_engine service_consensus_params)
     bob sample_built"
  by (simp add: slot_ready_def block_surroundings_def should_produce_block_def clock_def new_engine_def
      service_consensus_params_def block_world_fields too_soon_def collect_transactions_from_pool_def
      sample_block word_less_nat_alt) (simp add: sample_built_def)

lemma iteration_Some:
  assumes "cp_metrics_update_interval (en_params E) \<noteq> 0" and "cp_score_refresh_interval (en_params E) \<noteq> 0"
  obtains E' where "engine_iteration enc S E = Some E'"
proof -
  have "en_params (update_validator_metrics S E1) = en_params E1" for E1 :: "'a engine"
    using update_validator_metrics_rest [of S E1] by (simp add: engine_slots_def)
  then have "engine_iteration enc S E \<noteq> None"
    using assms produce_step_fields(1) [of enc S E]
    by (simp add: engine_iteration_def Let_def due_def produce_step_def [symmetric])
  then show thesis
    using that by auto
qed


text \<open>
  A block can name extrinsics that its state root does not reflect: the body keeps every extrinsic
  that was tried, while the header is the one of the block that holds only those the runtime applied.
\<close>

theorem body_keeps_unapplied:
  assumes "build_block_with_state_root X parent n digest xs = Inr b"
  shows "bl_extrinsics b = xs \<and>
    (\<exists>s. ex_initialize X parent \<lparr>hd_number = n, hd_parent = parent, hd_state_root = zero_hash,
          hd_extrinsics_root = zero_hash, hd_digest = digest\<rparr> = Some s
      \<and> build_block_with_state_root X parent n digest (applied X s xs)
        = Inr (b\<lparr>bl_extrinsics := applied X s xs\<rparr>))"
proof -
  obtain s s' h where s: "ex_initialize X parent \<lparr>hd_number = n, hd_parent = parent,
          hd_state_root = zero_hash, hd_extrinsics_root = zero_hash, hd_digest = digest\<rparr> = Some s"
        "apply_extrinsics X 0 s xs = Some s'" "ex_finalize X s' = Some h" "hd_parent h = parent"
      and b: "b = \<lparr>bl_header = h, bl_extrinsics = xs\<rparr>" "validate_built_block b = Inr ()"
    using assms by (auto simp: build_block_Inr)
  have "validate_built_block \<lparr>bl_header = h, bl_extrinsics = applied X s xs\<rparr> = Inr ()"
    using b applied_Nil [OF s(2)] by (simp add: validate_built_Inr)
  then show ?thesis
    using s b apply_applied [OF s(2), of 0] by (auto simp: build_block_Inr)
qed

theorem body_keeps_unapplied_witness:
  "bl_extrinsics sample_built = [2, 7, 13, 8] \<and>
    build_block_with_state_root sample_executive (Hash 100) 101 [PreRuntime engine_id (sample_enc bob)]
      [2, 7, 8] = Inr (sample_built\<lparr>bl_extrinsics := [2, 7, 8]\<rparr>)"
  using body_keeps_unapplied [OF sample_block] by (simp add: sample_executive_def)

section \<open>Emergency blocks\<close>

lemma emergency_no_author:
  assumes "keeps_digest dec (sr_executive S)" and "create_emergency_block S author E = (Inr (b, a), E')"
  shows "queue_block_author dec (hd_digest (bl_header b)) = None"
  using assms(2)
proof (rule create_emergency_block_ok)
  fix parent_number inherents
  assume "build_block_with_state_root (sr_executive S) (sr_parent S) (parent_number + 1) [] inherents = Inr b"
  from build_block_author [OF assms(1) this] show ?thesis
    by simp
qed

lemma pallet_reads_none:
  assumes "decodes_fixed (decode_account cfg)"
    and "queue_block_author (decode_account cfg) ds = None"
  shows "pallet_reader cfg (filter is_pre_runtime ds) = None"
proof -
  have "queue_author_of_item (decode_account cfg) d = None" if "d \<in> set ds" for d
    using assms(2) that by (simp add: queue_reader.read_None_iff)
  then show ?thesis
    using assms(2) by (simp add: pallet_reads_pre_runtime [OF assms(1)])
qed

text \<open>
  When a complete block is refused because the last one is too recent, what the node hands to its
  client instead is an emergency block that names no author. Every peer refuses it, and where it is
  executed, the pallet counts the block as missed by the expected author.
\<close>

theorem emergency_block_refused:
  assumes early: "too_soon S E"
    and attempt: "produce_block_with_validation enc S author E = (r, E')" "en_handed E' \<noteq> en_handed E"
    and library: "keeps_digest (decode_account cfg) (sr_executive S)" "decodes_fixed (decode_account cfg)"
    and peer: "rv_active_validators view = Some vs" "vs \<noteq> []"
    and expected: "get_expected_author cfg (sr_best S + 1) w = Some (Some v)"
  shows "\<exists>b. en_handed E' = en_handed E @ [own_params b]
    \<and> fst (verify (decode_account cfg) view (received b) m) = Inl BlockAuthorNotFound
    \<and> (digest_logs w = filter is_pre_runtime (hd_digest (bl_header b)) \<longrightarrow>
        process_block_authorship cfg (sr_best S + 1) (hook_state cfg (sr_best S + 1) w)
          = Some (snd (record_missed_block cfg v (hook_state cfg (sr_best S + 1) w))))"
proof -
  obtain b E2 where p: "create_block_proposal enc S author (sr_best S + 1) (scored S author E) = (Inr b, E2)"
    and handed: "en_handed E' = en_handed E @ [own_params b]"
    using attempt(1)
  proof (cases rule: produce_cases)
    case (no_block e)
    from engine_core_fields(1) [OF proposal_core [OF no_block(1)]] attempt(2) show thesis by simp
  next
    case (not_imported b E2)
    from engine_core_fields(1) [OF proposal_core [OF not_imported(1)]] show thesis
      by (intro that [OF not_imported(1)]) (simp add: not_imported import_hands_over)
  next
    case (produced b E2)
    from engine_core_fields(1) [OF proposal_core [OF produced(1)]] show thesis
      by (intro that [OF produced(1)]) (simp add: produced import_hands_over)
  qed (use attempt(2) in simp)
  have "too_soon S (scored S author E)"
    using early by (simp add: too_soon_def split: option.splits)
  then have complete: "fst (create_complete_block S d f (scored S author E)) = Inl (ProposerError TooSoon)" for d f
    by (simp add: create_complete_block_def)
  from p have "queue_block_author (decode_account cfg) (hd_digest (bl_header b)) = None"
  proof (cases rule: proposal_cases)
    case complete': complete
    with complete [of "Some (PreRuntime engine_id (enc author))" "Some author"] show ?thesis by simp
  next
    case (emergency e)
    show ?thesis by (rule emergency_no_author [OF library(1) emergency(2)])
  qed
  then have "fst (verify (decode_account cfg) view (received b) m) = Inl BlockAuthorNotFound
      \<and> pallet_reader cfg (filter is_pre_runtime (hd_digest (bl_header b))) = None"
    using peer pallet_reads_none [OF library(2)] by (simp add: verify_def Let_def)
  then show ?thesis
    using handed hook_misses [OF expected] by auto
qed

definition hasty_engine :: "nat engine" where
  "hasty_engine = (new_engine service_consensus_params)\<lparr>en_proposer_time := Some (10 ^ 12 - 1)\<rparr>"

lemma hasty_attempt:
  "en_handed (snd (produce_block_with_validation sample_enc block_surroundings bob hasty_engine)) \<noteq> []"
proof -
  have build: "build_block_with_state_root sample_executive (Hash 100) 101 [] [2]
      = Inr \<lparr>bl_header = \<lparr>hd_number = 101, hd_parent = Hash 100, hd_state_root = Hash 3,
          hd_extrinsics_root = Hash 1, hd_digest = []\<rparr>, bl_extrinsics = [2]\<rparr>"
    by (simp add: build_block_with_state_root_def sample_executive_def validate_built_block_def zero_hash_def)
  let ?E = "scored block_surroundings bob hasty_engine"
  have "too_soon block_surroundings ?E"
    by (simp add: too_soon_def hasty_engine_def block_surroundings_def new_engine_def
        service_consensus_params_def)
  then have early: "create_complete_block block_surroundings d f ?E = (Inl (ProposerError TooSoon), ?E)" for d f
    by (simp add: create_complete_block_def)
  have "sr_parent_number block_surroundings = Some (Some 100)" "sr_inherents block_surroundings = Some [2]"
    "sr_executive block_surroundings = sample_executive" "sr_parent block_surroundings = Hash 100"
    by (simp_all add: block_surroundings_def)
  then have "\<exists>b E. create_block_proposal sample_enc block_surroundings bob 101 ?E = (Inr b, E)"
    by (simp add: create_block_proposal_def early create_emergency_block_def build validate_created_block_def
        zero_hash_def)
  moreover have "sr_can_validate block_surroundings" "sr_best block_surroundings = 100"
    "sr_client_import block_surroundings params = Some (Imported True)" for params
    by (simp_all add: block_surroundings_def)
  ultimately show ?thesis
    by (auto simp: produce_block_unfold import_consensus_block_def Let_def)
qed

theorem emergency_block_refused_witness:
  "\<exists>b. en_handed (snd (produce_block_with_validation sample_enc block_surroundings bob hasty_engine))
        = [own_params b]
    \<and> fst (verify sample_dec (runtime_api block_config block_world) (received b) None)
        = Inl BlockAuthorNotFound"
proof -
  obtain r E' where p: "produce_block_with_validation sample_enc block_surroundings bob hasty_engine = (r, E')"
    by force
  have "too_soon block_surroundings hasty_engine"
    by (simp add: too_soon_def hasty_engine_def block_surroundings_def new_engine_def
        service_consensus_params_def)
  moreover have handed: "en_handed hasty_engine = []"
    by (simp add: hasty_engine_def new_engine_def)
  moreover have "en_handed E' \<noteq> []"
    using hasty_attempt by (simp add: p)
  moreover have "keeps_digest (decode_account block_config) (sr_executive block_surroundings)"
    by (simp add: block_surroundings_def sample_keeps_digest)
  moreover have "get_expected_author block_config (sr_best block_surroundings + 1) block_world = Some (Some bob)"
    by (simp add: block_surroundings_def block_world_fields)
  ultimately show ?thesis
    using emergency_block_refused [of block_surroundings hasty_engine sample_enc bob r E' block_config
      "runtime_api block_config block_world" "[alice, bob]" block_world bob None] p
    by (auto simp: sample_codec block_world_fields)
qed

section \<open>Pace\<close>

text \<open>
  C34. Along every run of the engine under a clock that does not go back, two blocks are handed to the
  client at least the configured block time apart, whether the blocks before were imported or not.
\<close>

theorem blocks_spaced:
  assumes "sorted (map clock Ss)"
  shows "sorted_wrt (\<lambda>t t'. t + unat (cp_block_time params) * 10 ^ 9 \<le> t')
    (handing_times enc Ss (new_engine params))"
  using handing_times_spaced [OF assms, of "new_engine params" enc] by (simp add: new_engine_def)

theorem blocks_spaced_witness:
  "sorted_wrt (\<lambda>t t'. t + 6 * 10 ^ 9 \<le> t')
    (handing_times sample_enc [block_surroundings, block_surroundings\<lparr>sr_now := Some (2 * 10 ^ 12)\<rparr>]
      (new_engine service_consensus_params))"
  using blocks_spaced [of "[block_surroundings, block_surroundings\<lparr>sr_now := Some (2 * 10 ^ 12)\<rparr>]"
    service_consensus_params sample_enc]
  by (simp add: clock_def block_surroundings_def service_consensus_params_def)

text \<open>
  As long as no attempt fails, the periodic tasks of the engine never run: the slot counter by which
  they are scheduled only moves on a failure, so a run without failures does nothing but produce.
\<close>

theorem periodic_tasks_need_failure:
  assumes "engine_run enc Ss (new_engine params) = Some E" and "vm_failed_blocks (en_metrics E) = 0"
  shows "E = fold (produce_step enc) Ss (new_engine params)"
  by (rule run_without_failure [OF assms]) (simp_all add: new_engine_def)

theorem periodic_tasks_need_failure_witness:
  "engine_run sample_enc [block_surroundings] (new_engine service_consensus_params)
    = Some (produce_step sample_enc block_surroundings (new_engine service_consensus_params))"
proof -
  obtain E where E: "engine_iteration sample_enc block_surroundings (new_engine service_consensus_params) = Some E"
    by (rule iteration_Some [of "new_engine service_consensus_params" sample_enc block_surroundings])
      (simp_all add: new_engine_def service_consensus_params_def)
  then have run: "engine_run sample_enc [block_surroundings] (new_engine service_consensus_params) = Some E"
    by simp
  have "vm_failed_blocks (en_metrics E) = 0"
    by (simp add: iteration_rest [OF E] slot_ready_step [OF sample_ready] import_consensus_block_state)
      (simp add: new_engine_def default_metrics_def)
  from periodic_tasks_need_failure [OF run this] run show ?thesis
    by simp
qed

end
