(* ===== verification/Dcf_Checks.thy ===== *)
theory Dcf_Checks
  imports Dcf_Config
begin

text \<open>
  What \<open>pallet-cerulea-dcf\<close> checks about itself: the economic, validator and temporal invariants with the
  report that an epoch transition stores, the current invariants of the runtime API, and the
  migration of the storage version; with lemmas on when the checks are silent.
\<close>

section \<open>Violations and reports\<close>

text \<open>
  The texts of the violations are left out; each fits its bound of 256 bytes, for a violation whose text
  does not fit is dropped by the code.
\<close>

datatype economic_violation =
    ReservedLessThanSlashed u128 u128
  | NegativeReservedBalance account_id u128
  | StakeBelowMinimum account_id u128 u128

datatype validator_violation =
    ActiveSetTooLarge u32 u32
  | ActiveAndInCooldown account_id
  | DuplicateInActiveSet account_id

datatype temporal_violation =
    EpochRegression u32 u32
  | FinalityRegression u32 u32

datatype invariant_violation =
    EconomicInvariant economic_violation
  | ValidatorInvariant validator_violation
  | TemporalInvariant temporal_violation

datatype invariant_severity = LowSeverity | MediumSeverity | HighSeverity | CriticalSeverity

record invariant_report =
  ir_epoch :: u32
  ir_block_number :: u32
  ir_violations :: "invariant_violation list"
  ir_severity :: invariant_severity

datatype check_event =
    InvariantViolationsDetected u32 "invariant_violation list" invariant_severity
  | InvariantReportGenerated u32 u32 u32 invariant_severity
  | StorageMigrationCompleted u32 u32

text \<open>The storage of the reports and of the version; \<open>governance_stored\<close> is \<open>GovernanceConfigStorage::exists()\<close>.\<close>

record ('c, 'sig) dcf_check_world = "('c, 'sig) dcf_world" +
  InvariantReports :: "(u32, invariant_report) smap"
  LatestInvariantReport :: "invariant_report option"
  StorageVersion :: u32
  governance_stored :: bool
  check_events :: "check_event list"

definition check_deposit_event ::
  "check_event \<Rightarrow> ('c, 'sig, 'z) dcf_check_world_scheme \<Rightarrow> ('c, 'sig, 'z) dcf_check_world_scheme" where
  "check_deposit_event e w = w\<lparr>check_events := check_events w @ [e]\<rparr>"

section \<open>The checks\<close>

text \<open>
  The slashed amount is estimated from the scores: the smallest balance of the currency for each point
  that a score is below its maximum.
\<close>

definition estimated_slash ::
  "('c, 'sig) dcf_config \<Rightarrow> u128 \<Rightarrow> account_id \<Rightarrow> ('c, 'sig, 'z) dcf_world_scheme \<Rightarrow> u128" where
  "estimated_slash cfg minimum_balance v w =
     (case dcf_validator_state cfg w v of
        None \<Rightarrow> 0
      | Some state \<Rightarrow>
          (let max_score = MaxValidatorScore (poi_cfg cfg); score = final_score (current state)
           in if score < max_score
              then sat_mul minimum_balance (ucast (ucast (max_score - score) :: u32)) else 0))"

definition reserved_of ::
  "('c, 'sig) dcf_config \<Rightarrow> ('c, 'sig, 'z) dcf_world_scheme \<Rightarrow> account_id \<Rightarrow> u128" where
  "reserved_of cfg w v = reserved_balance (currency_of cfg) (balances w) v"

definition check_economic_invariants ::
  "('c, 'sig) dcf_config \<Rightarrow> u128 \<Rightarrow> ('c, 'sig, 'z) dcf_world_scheme \<Rightarrow> economic_violation list" where
  "check_economic_invariants cfg minimum_balance w =
     (let vs = dcf_validator_set cfg w; active = dcf_active_validators cfg w;
          total_reserved = fold (\<lambda>v t. sat_add t (reserved_of cfg w v)) vs 0;
          total_slashed = fold (\<lambda>v t. sat_add t (estimated_slash cfg minimum_balance v w)) vs 0;
          min_stake = MinStake (pos_cfg cfg)
      in (if total_reserved < total_slashed
          then [ReservedLessThanSlashed total_reserved total_slashed] else [])
         @ map (\<lambda>v. NegativeReservedBalance v (reserved_of cfg w v))
             (filter (\<lambda>v. reserved_of cfg w v = 0 \<and> v \<in> set active) vs)
         @ map (\<lambda>v. StakeBelowMinimum v (reserved_of cfg w v) min_stake)
             (filter (\<lambda>v. reserved_of cfg w v < min_stake) active))"

text \<open>The members of a list that occurred before, in the order of the list.\<close>

fun repeated :: "'x list \<Rightarrow> 'x list \<Rightarrow> 'x list" where
  "repeated seen [] = []"
| "repeated seen (x # xs) =
     (if x \<in> set seen then x # repeated seen xs else repeated (x # seen) xs)"

definition check_validator_invariants ::
  "('c, 'sig) dcf_config \<Rightarrow> ('c, 'sig, 'z) dcf_world_scheme \<Rightarrow> validator_violation list" where
  "check_validator_invariants cfg w =
     (let active = dcf_active_validators cfg w; max_validators = PosMaxValidators (pos_cfg cfg)
      in (if of_nat (length active) > max_validators
          then [ActiveSetTooLarge (of_nat (length active)) max_validators] else [])
         @ map ActiveAndInCooldown (filter (\<lambda>v. sm_has (ValidatorLeaveRequests w) v
               \<or> sm_has (RecentlyRemovedValidators w) v) active)
         @ map DuplicateInActiveSet (repeated [] active))"

definition check_temporal_invariants ::
  "u32 \<Rightarrow> u32 \<Rightarrow> ('c, 'sig, 'z) dcf_world_scheme \<Rightarrow> temporal_violation list" where
  "check_temporal_invariants previous_epoch current_epoch w =
     (let current_finalized = LastFinalizedBlock w;
          previous_finalized = PreviousFinalizedBlock w;
          previous_epoch_best = PreviousEpochBestBlock w
      in (if current_epoch < previous_epoch then [EpochRegression previous_epoch current_epoch] else [])
         @ (if current_finalized < previous_finalized
            then [FinalityRegression previous_finalized current_finalized] else [])
         @ (if current_finalized > block_number w
            then [FinalityRegression (block_number w) current_finalized] else [])
         @ (if current_finalized > previous_epoch_best \<and> previous_epoch_best > 0
            then [FinalityRegression previous_epoch_best current_finalized] else []))"

section \<open>The report of an epoch\<close>

fun is_economic :: "invariant_violation \<Rightarrow> bool" where
  "is_economic (EconomicInvariant v) = True" | "is_economic _ = False"

fun is_validator_violation :: "invariant_violation \<Rightarrow> bool" where
  "is_validator_violation (ValidatorInvariant v) = True" | "is_validator_violation _ = False"

fun is_temporal :: "invariant_violation \<Rightarrow> bool" where
  "is_temporal (TemporalInvariant v) = True" | "is_temporal _ = False"

fun severity_of_kinds :: "bool \<Rightarrow> bool \<Rightarrow> bool \<Rightarrow> invariant_severity" where
  "severity_of_kinds True True True = CriticalSeverity"
| "severity_of_kinds True True False = HighSeverity"
| "severity_of_kinds True False True = HighSeverity"
| "severity_of_kinds False True True = HighSeverity"
| "severity_of_kinds True False False = HighSeverity"
| "severity_of_kinds False True False = MediumSeverity"
| "severity_of_kinds False False True = MediumSeverity"
| "severity_of_kinds False False False = LowSeverity"

definition severity_of :: "invariant_violation list \<Rightarrow> invariant_severity" where
  "severity_of vs = (if vs = [] then LowSeverity
     else severity_of_kinds (list_ex is_economic vs) (list_ex is_validator_violation vs)
            (list_ex is_temporal vs))"

definition check_invariants_at_epoch_boundary ::
  "('c, 'sig) dcf_config \<Rightarrow> u128 \<Rightarrow> u32 \<Rightarrow> ('c, 'sig, 'z) dcf_check_world_scheme
     \<Rightarrow> invariant_report \<times> ('c, 'sig, 'z) dcf_check_world_scheme" where
  "check_invariants_at_epoch_boundary cfg minimum_balance epoch w =
     (let all_violations = map EconomicInvariant (check_economic_invariants cfg minimum_balance w)
            @ map ValidatorInvariant (check_validator_invariants cfg w)
            @ map TemporalInvariant (check_temporal_invariants (sat_sub epoch 1) epoch w);
          sev = severity_of all_violations;
          bounded = bv_truncate 50 all_violations;
          report = \<lparr>ir_epoch = epoch, ir_block_number = block_number w, ir_violations = bounded,
            ir_severity = sev\<rparr>;
          w1 = w\<lparr>InvariantReports := sm_put epoch report (InvariantReports w),
                 LatestInvariantReport := Some report\<rparr>;
          w2 = (if bounded = [] then w1
                else check_deposit_event (InvariantViolationsDetected epoch bounded sev) w1)
      in (report, check_deposit_event (InvariantReportGenerated epoch (block_number w)
            (of_nat (length bounded)) sev) w2))"

text \<open>The runtime API looks at the latest report, the pallet at the last four epochs and at the state.\<close>

definition api_has_invariant_violations :: "('c, 'sig, 'z) dcf_check_world_scheme \<Rightarrow> bool" where
  "api_has_invariant_violations w =
     (case LatestInvariantReport w of None \<Rightarrow> False | Some report \<Rightarrow> ir_violations report \<noteq> [])"

definition reported_violations :: "u32 \<Rightarrow> ('c, 'sig, 'z) dcf_check_world_scheme \<Rightarrow> bool" where
  "reported_violations epoch w =
     (case sm_get (InvariantReports w) epoch of None \<Rightarrow> False | Some report \<Rightarrow> ir_violations report \<noteq> [])"

definition has_invariant_violations ::
  "('c, 'sig) dcf_config \<Rightarrow> ('c, 'sig, 'z) dcf_check_world_scheme \<Rightarrow> bool" where
  "has_invariant_violations cfg w =
     (let current_epoch = DcfCurrentEpoch w; active = dcf_active_validators cfg w
      in list_ex (\<lambda>epoch. reported_violations (of_nat epoch) w)
           [unat (sat_sub current_epoch 3)..<Suc (unat current_epoch)]
         \<or> length active > unat (PosMaxValidators (pos_cfg cfg))
         \<or> list_ex (\<lambda>v. reserved_of cfg w v < MinStake (pos_cfg cfg)) active)"

section \<open>The current invariants\<close>

datatype current_violation =
    CurrentStakeBelowMinimum account_id u128
  | CurrentTooManyActive nat
  | CurrentTooFewActive nat
  | CurrentTrustOutOfBounds account_id u64
  | CurrentWeightsZero
  | CurrentFinalityRegression u32 u32

text \<open>\<open>min_active_validators\<close> is \<open>MinActiveValidators\<close> of the pallet configuration.\<close>

definition validate_current_invariants ::
  "('c, 'sig) dcf_config \<Rightarrow> u32 \<Rightarrow> ('c, 'sig, 'z) dcf_world_scheme \<Rightarrow> current_violation list + unit" where
  "validate_current_invariants cfg min_active_validators w =
     (let active = dcf_active_validators cfg w;
          violations =
            map (\<lambda>v. CurrentStakeBelowMinimum v (sm_val 0 (Stake w) v))
              (filter (\<lambda>v. sm_val 0 (Stake w) v < MinStake (pos_cfg cfg)) active)
            @ (if length active > unat (PosMaxValidators (pos_cfg cfg))
               then [CurrentTooManyActive (length active)] else [])
            @ (if length active < unat min_active_validators
               then [CurrentTooFewActive (length active)] else [])
            @ map (\<lambda>v. CurrentTrustOutOfBounds v (sm_val 0 (ValidatorTrustScores w) v))
                (filter (\<lambda>v. sm_val 0 (ValidatorTrustScores w) v < MinTrustScore cfg
                   \<or> sm_val 0 (ValidatorTrustScores w) v > MaxTrustScore cfg) active)
            @ (if pos_weight_of w + poi_weight_of w = 0 then [CurrentWeightsZero] else [])
            @ (if LastFinalizedBlock w < PreviousFinalizedBlock w
               then [CurrentFinalityRegression (LastFinalizedBlock w) (PreviousFinalizedBlock w)] else [])
      in if violations = [] then Inr () else Inl violations)"

section \<open>Storage migration\<close>

definition current_storage_version :: u32 where
  "current_storage_version = 1"

datatype migration_error = MaxValidatorsExceeded | NoMigrationPath u32 u32

text \<open>The checks of the governance and epoch configuration are compiled in tests and benchmarks only.\<close>

definition validate_storage_integrity ::
  "('c, 'sig) dcf_config \<Rightarrow> ('c, 'sig, 'z) dcf_check_world_scheme \<Rightarrow> migration_error + unit" where
  "validate_storage_integrity cfg w =
     (if length (dcf_active_validators cfg w) > unat (PosMaxValidators (pos_cfg cfg))
      then Inl MaxValidatorsExceeded else Inr ())"

definition perform_storage_migration ::
  "('c, 'sig) dcf_config \<Rightarrow> u32 \<Rightarrow> u32
     \<Rightarrow> (migration_error, ('c, 'sig, 'z) dcf_check_world_scheme, unit) op" where
  "perform_storage_migration cfg from_version to_version w =
     (if from_version = 0 \<and> to_version = 1 then
        (case validate_storage_integrity cfg w of
           Inl e \<Rightarrow> (Inl e, w)
         | Inr _ \<Rightarrow>
             (Inr (), if governance_stored w then w
                else w\<lparr>GovernanceConfigStorage := default_governance_config, governance_stored := True\<rparr>))
      else if from_version = to_version then
        (case validate_storage_integrity cfg w of Inl e \<Rightarrow> (Inl e, w) | Inr _ \<Rightarrow> (Inr (), w))
      else (Inl (NoMigrationPath from_version to_version), w))"

text \<open>\<open>None\<close> is the panic of a failed migration; a failed integrity check only logs.\<close>

definition on_runtime_upgrade ::
  "('c, 'sig) dcf_config \<Rightarrow> ('c, 'sig, 'z) dcf_check_world_scheme
     \<Rightarrow> ('c, 'sig, 'z) dcf_check_world_scheme option" where
  "on_runtime_upgrade cfg w =
     (let current_version = StorageVersion w
      in if current_version \<noteq> current_storage_version then
           (case perform_storage_migration cfg current_version current_storage_version w of
              (Inl e, w1) \<Rightarrow> None
            | (Inr _, w1) \<Rightarrow>
                Some (check_deposit_event (StorageMigrationCompleted current_version current_storage_version)
                  (w1\<lparr>StorageVersion := current_storage_version\<rparr>)))
         else Some w)"

section \<open>Lemmas\<close>

lemma repeated_Nil: "repeated seen xs = [] \<longleftrightarrow> distinct xs \<and> set xs \<inter> set seen = {}"
  by (induction xs arbitrary: seen) auto

lemma active_bounded: "length (dcf_active_validators cfg w) \<le> unat (PosMaxValidators (pos_cfg cfg))"
  by (simp add: dcf_active_validators_def)

lemma of_nat_active_bounded:
  "\<not> PosMaxValidators (pos_cfg cfg) < of_nat (length (dcf_active_validators cfg w))"
proof -
  have "unat (of_nat (length (dcf_active_validators cfg w)) :: u32) \<le> length (dcf_active_validators cfg w)"
    by (simp add: unsigned_of_nat)
  then show ?thesis
    using active_bounded [of cfg w] by (simp add: linorder_not_less word_le_nat_alt)
qed

text \<open>The list is truncated to its bound when it is read, so the check of its size never fires.\<close>

lemma validator_checks_silent:
  "check_validator_invariants cfg w = [] \<longleftrightarrow> distinct (dcf_active_validators cfg w)
     \<and> (\<forall>v\<in>set (dcf_active_validators cfg w).
          \<not> sm_has (ValidatorLeaveRequests w) v \<and> \<not> sm_has (RecentlyRemovedValidators w) v)"
  using of_nat_active_bounded [of cfg w]
  by (auto simp: check_validator_invariants_def Let_def repeated_Nil filter_empty_conv)

lemma temporal_checks_silent:
  "check_temporal_invariants p e w = [] \<longleftrightarrow> p \<le> e
     \<and> PreviousFinalizedBlock w \<le> LastFinalizedBlock w \<and> LastFinalizedBlock w \<le> block_number w
     \<and> (PreviousEpochBestBlock w = 0 \<or> LastFinalizedBlock w \<le> PreviousEpochBestBlock w)"
  by (auto simp: check_temporal_invariants_def Let_def word_gt_0)

lemma unat_fold_sat_add:
  "unat (fold (\<lambda>v t. sat_add t (f v)) vs (a :: 'l::len word))
     = min (unat a + sum_list (map (\<lambda>v. unat (f v)) vs)) (2 ^ LENGTH('l) - 1)"
proof (induction vs arbitrary: a)
  case Nil
  show ?case using unat_le_max [of a] by simp
next
  case (Cons v vs)
  show ?case by (simp add: Cons.IH unat_sat_add)
qed

end
