(* ===== verification/Check_Properties.thy ===== *)
theory Check_Properties
  imports Dcf_Checks Dcf_Hook
begin

text \<open>
  When the checks that \<open>pallet-cerulea-dcf\<close> runs at an epoch boundary are silent and when they are
  not, and the outcome of a runtime upgrade.
\<close>

section \<open>Order of the finality markers\<close>

definition markers_ordered :: "u32 \<Rightarrow> ('c, 'sig, 'z) dcf_world_scheme \<Rightarrow> bool" where
  "markers_ordered n w \<longleftrightarrow> PreviousFinalizedBlock w \<le> LastFinalizedBlock w \<and> LastFinalizedBlock w \<le> n
     \<and> (PreviousEpochBestBlock w = 0 \<or> LastFinalizedBlock w \<le> PreviousEpochBestBlock w)"

lemma ordered_marks: "marks w' = marks w \<Longrightarrow> markers_ordered n w' = markers_ordered n w"
  by (simp add: marks_def markers_ordered_def)

lemma silent_iff_ordered:
  "check_temporal_invariants p e w = [] \<longleftrightarrow> p \<le> e \<and> markers_ordered (block_number w) w"
  by (auto simp: temporal_checks_silent markers_ordered_def)

lemma ordered_update:
  assumes "markers_ordered n w" and "m \<le> n"
  shows "markers_ordered n (snd (update_finality_markers cfg m e w))"
proof -
  obtain r w1 where v: "validate_finality_advancement cfg m e w = (r, w1)"
    by force
  have frame: "LastFinalizedBlock w1 = LastFinalizedBlock w" "block_number w1 = block_number w"
    "PreviousFinalizedBlock w1 = PreviousFinalizedBlock w"
    "PreviousEpochBestBlock w1 = PreviousEpochBestBlock w"
    using validate_frame [of cfg m e w] by (simp_all add: v)
  have accepted: "m \<le> block_number w" if "r = Inr u" for u
    using v that by (auto simp: validate_finality_advancement_def Let_def linorder_not_less split: if_splits)
  show ?thesis
  proof (cases r)
    case (Inr u)
    then show ?thesis
      using assms accepted by (auto simp: update_finality_markers_def v Let_def markers_ordered_def
          frame dcf_deposit_event_def min_le_iff_disj dest: order_less_imp_le)
  qed (use assms in \<open>simp add: update_finality_markers_def v markers_ordered_def frame\<close>)
qed

lemma ordered_steps:
  assumes "markers_ordered (n - 1) w" and "1 < n"
  shows "markers_ordered (n - 1) (progressive_finality cfg n e (initialize_finality n w))"
    and "markers_ordered (n - 1) (w\<lparr>PreviousEpochBestBlock := sat_sub n 1\<rparr>)"
    and "markers_ordered (n - 1) (finalize_previous_epoch cfg n w)"
proof -
  show "markers_ordered (n - 1) (progressive_finality cfg n e (initialize_finality n w))"
    using assms by (simp add: initialize_later progressive_finality_def ordered_update)
  show "markers_ordered (n - 1) (w\<lparr>PreviousEpochBestBlock := sat_sub n 1\<rparr>)"
    using assms by (simp add: markers_ordered_def prev_block)
  have deposit: "markers_ordered m (dcf_deposit_event ev w1) = markers_ordered m w1"
    for m ev and w1 :: "('a, 'b, 'c) dcf_world_scheme"
    by (rule ordered_marks) (rule marks_simps)
  show "markers_ordered (n - 1) (finalize_previous_epoch cfg n w)"
    using assms by (simp add: finalize_previous_epoch_def Let_def deposit prev_block ordered_update)
qed

lemma ordered_later: "markers_ordered m w \<Longrightarrow> m \<le> n \<Longrightarrow> markers_ordered n w"
  by (auto simp: markers_ordered_def)

text \<open>The state of the hook in which an epoch transition starts, and the one it checks.\<close>

definition epoch_start_state ::
  "('c, 'sig) dcf_config \<Rightarrow> ('c, 'sig, 'z) dcf_world_scheme validator_handler \<Rightarrow> u32
     \<Rightarrow> ('c, 'sig, 'z) dcf_world_scheme \<Rightarrow> ('c, 'sig, 'z) dcf_world_scheme" where
  "epoch_start_state cfg H n w =
     (let w1 = reset_block_counters (progressive_finality cfg n (DcfCurrentEpoch w) (initialize_finality n w));
          w2 = dcf_deposit_event (EpochBoundaryDetected n (DcfCurrentEpoch w) (GovernanceModeEnabled w1)) w1
      in process_epoch_proposals cfg H (generate_automatic_validator_proposals cfg
           (run_comprehensive_score_aggregation cfg w2)))"

definition epoch_check_state ::
  "('c, 'sig) dcf_config \<Rightarrow> ('c, 'sig, 'z) dcf_world_scheme validator_handler \<Rightarrow> u32
     \<Rightarrow> ('c, 'sig, 'z) dcf_world_scheme \<Rightarrow> ('c, 'sig, 'z) dcf_world_scheme" where
  "epoch_check_state cfg H n w =
     snd (begin_epoch cfg ((epoch_start_state cfg H n w)\<lparr>PreviousEpochBestBlock := sat_sub n 1\<rparr>))"

lemma epoch_start_marks:
  "marks (epoch_start_state cfg (dvf_handler c) n w)
    = marks (progressive_finality cfg n (DcfCurrentEpoch w) (initialize_finality n w))"
  by (simp add: epoch_start_state_def Let_def marks_simps)

lemma hook_at_boundary:
  assumes "dcf_on_initialize cfg H n w = Some w'" and "is_epoch_boundary cfg n"
  obtains w4 where "handle_deterministic_epoch_transition cfg n (epoch_start_state cfg H n w) = Some w4"
    and "w' = update_epoch_metrics cfg (finalize_previous_epoch cfg n w4)"
  using assms by (auto simp: dcf_on_initialize_def epoch_start_state_def Let_def
      handle_comprehensive_epoch_transition_def split: if_splits option.splits)

lemma hook_keeps_order:
  assumes hook: "dcf_on_initialize cfg (dvf_handler c) n w = Some w'"
    and ordered: "markers_ordered (n - 1) w" and "1 < n"
  shows "markers_ordered (n - 1) w'"
proof (cases "is_epoch_boundary cfg n")
  case True
  with hook obtain w4
    where w4: "handle_deterministic_epoch_transition cfg n (epoch_start_state cfg (dvf_handler c) n w) = Some w4"
      and w': "w' = update_epoch_metrics cfg (finalize_previous_epoch cfg n w4)"
    by (rule hook_at_boundary)
  have "markers_ordered (n - 1) (epoch_start_state cfg (dvf_handler c) n w)"
    using ordered_steps(1) [OF ordered \<open>1 < n\<close>] by (simp add: ordered_marks [OF epoch_start_marks])
  then have "markers_ordered (n - 1) w4"
    unfolding ordered_marks [OF marks_deterministic [OF w4]] by (rule ordered_steps(2) [OF _ \<open>1 < n\<close>])
  then have "markers_ordered (n - 1) (finalize_previous_epoch cfg n w4)"
    by (rule ordered_steps(3) [OF _ \<open>1 < n\<close>])
  then show ?thesis
    unfolding w' by (subst ordered_marks [OF marks_passes(4)])
next
  case False
  then have "handle_regular_block_processing cfg n (DcfCurrentEpoch w) (reset_block_counters
      (progressive_finality cfg n (DcfCurrentEpoch w) (initialize_finality n w))) = Some w'"
    using hook by (simp add: dcf_on_initialize_def Let_def split: if_splits)
  then have "marks w' = marks (progressive_finality cfg n (DcfCurrentEpoch w) (initialize_finality n w))"
    by (simp add: marks_regular marks_simps)
  from ordered_marks [OF this, of "n - 1"] show ?thesis
    using ordered_steps(1) [OF ordered \<open>1 < n\<close>] by simp
qed

lemma block_numbers:
  "block_number (epoch_check_state cfg (dvf_handler c) n w) = block_number w"
proof -
  have step: "block_number w2 = block_number w1" if "marks w2 = marks w1"
    for w1 w2 :: "('a, 'b, 'c) dcf_world_scheme"
    using that by (simp add: marks_def)
  have start: "block_number (progressive_finality cfg n e (initialize_finality n w)) = block_number w" for e
    by (simp add: progressive_finality_def update_finality_markers_dvf initialize_finality_def
        dcf_deposit_event_def)
  have "block_number (epoch_check_state cfg (dvf_handler c) n w)
      = block_number (epoch_start_state cfg (dvf_handler c) n w)"
    unfolding epoch_check_state_def by (simp add: step [OF marks_begin])
  also have "\<dots> = block_number w"
    by (simp add: step [OF epoch_start_marks] start)
  finally show ?thesis .
qed

text \<open>
  C35. The check of the finality markers never reports anything: if it is silent after block \<open>n - 1\<close>, then
  it is silent in the epoch transition that the hook of block \<open>n\<close> runs and after that hook, whatever the
  hook does to the registry and whatever the gadget has finalised meanwhile. (The genesis stores
  block 1 as finalised, so the order holds from block 1 on.)
\<close>

theorem temporal_checks_stay_silent:
  fixes w :: "('c, 'sig, 'z) dcf_world_scheme"
  assumes silent: "check_temporal_invariants p e w = []" and number: "block_number w = n - 1"
    and "1 < n"
    and hook: "dcf_on_initialize cfg (dvf_handler c) n
      (w\<lparr>block_number := n, FinalizedBlockNumber := finalized\<rparr>) = Some w'"
  shows "check_temporal_invariants (sat_sub k 1) k (epoch_check_state cfg (dvf_handler c) n
      (w\<lparr>block_number := n, FinalizedBlockNumber := finalized\<rparr>)) = []
    \<and> markers_ordered n w'"
proof -
  let ?w = "w\<lparr>block_number := n, FinalizedBlockNumber := finalized\<rparr>"
  have below: "n - 1 \<le> n"
    using \<open>1 < n\<close> by (simp add: word_le_nat_alt word_less_nat_alt unat_sub)
  have ordered: "markers_ordered (n - 1) ?w"
    using silent by (simp add: silent_iff_ordered number) (simp add: markers_ordered_def)
  have "markers_ordered (n - 1) (epoch_start_state cfg (dvf_handler c) n ?w)"
    unfolding ordered_marks [OF epoch_start_marks] by (rule ordered_steps(1) [OF ordered \<open>1 < n\<close>])
  from ordered_steps(2) [OF this \<open>1 < n\<close>]
  have "markers_ordered (n - 1) (epoch_check_state cfg (dvf_handler c) n ?w)"
    unfolding epoch_check_state_def ordered_marks [OF marks_begin] .
  then have "markers_ordered n (epoch_check_state cfg (dvf_handler c) n ?w)"
    using below by (rule ordered_later)
  moreover have "sat_sub k 1 \<le> k"
    by (simp add: sat_sub_def word_le_nat_alt unat_sub)
  ultimately show ?thesis
    using ordered_later [OF hook_keeps_order [OF hook ordered \<open>1 < n\<close>] below]
    by (simp add: silent_iff_ordered block_numbers)
qed

theorem temporal_checks_stay_silent_witness:
  "\<exists>w'. dcf_on_initialize sample_config (dvf_handler sample_dvf_config) 200
      ((sample_dcf_world\<lparr>block_number := 199\<rparr>)\<lparr>block_number := 200, FinalizedBlockNumber := 180\<rparr>) = Some w'
    \<and> markers_ordered 200 w'"
proof -
  let ?w = "sample_dcf_world\<lparr>block_number := 199\<rparr>"
  have "intervals_ok sample_config"
    by (simp add: intervals_ok_def config_defs)
  then obtain w' where w': "dcf_on_initialize sample_config (dvf_handler sample_dvf_config) 200
      (?w\<lparr>block_number := 200, FinalizedBlockNumber := 180\<rparr>) = Some w'"
    using hook_returns by (force simp: sample_dcf_world_def empty_dcf_world_def)
  have "check_temporal_invariants 1 2 ?w = []"
    by (simp add: temporal_checks_silent sample_dcf_world_def empty_dcf_world_def)
  from temporal_checks_stay_silent [OF this _ _ w'] w' show ?thesis
    by (simp add: sample_dcf_world_def)
qed

section \<open>The registry\<close>

lemma registry_ok_silent:
  assumes "registry_ok c w"
  shows "check_validator_invariants cfg w = []"
proof -
  have "set (dcf_active_validators cfg w) \<subseteq> set (ActiveValidators w)"
    by (simp add: dcf_active_validators_def bv_truncate_def set_take_subset)
  with assms show ?thesis
    by (auto simp: validator_checks_silent registry_ok_def dcf_active_validators_def bv_truncate_def
        dest: in_set_takeD)
qed

text \<open>
  A member of the set that has queued a join (\<open>join_validator_set\<close>) and then asks to leave keeps its
  queued join: the next epoch makes it active again while it is leaving, which breaks the invariant of
  the registry and is reported by the check, although every call was accepted.
\<close>

theorem queued_join_survives_leave:
  fixes w :: "('c, 'sig, 'z) dcf_world_scheme"
  assumes leave: "leave_validators (pos_cfg cfg) (Signed v) w = (Inr (), w1)"
    and queued: "PendingValidatorActions w = [(v, Join)]"
    and room: "length (ActiveValidators w) < unat (PosMaxValidators (pos_cfg cfg))"
      "length (ActiveValidators w) < unat (DvfMaxValidators (dvf_cfg cfg))"
    and inactive: "v \<notin> set (ActiveValidators w)"
    and score: "score_of cfg w v \<ge> ucast (MinValidatorScore (pos_cfg cfg))"
  shows "ActiveAndInCooldown v \<in> set (check_validator_invariants cfg
      (snd (apply_pending_validator_actions cfg w1)))"
proof -
  have w1: "PendingValidatorActions w1 = [(v, Join)]" "ActiveValidators w1 = ActiveValidators w"
    "ValidatorStates w1 = ValidatorStates w" "sm_has (ValidatorLeaveRequests w1) v"
    using leave queued inactive
    by (auto simp: leave_validators_def Let_def dvf_deposit_event_def remove_active_def
        remove1_idem split: if_splits)
  let ?w2 = "remove_pending_action v w1"
  have active: "dcf_active_validators cfg w1 = ActiveValidators w"
    using room by (simp add: dcf_active_validators_def bv_truncate_def w1)
  have "score_of cfg ?w2 v = score_of cfg w v"
    by (simp add: score_of_def dcf_validator_state_def remove_pending_action_def w1)
  then have "fold (admit_join cfg ?w2) (take (unat (PosMaxValidators (pos_cfg cfg)) - length (ActiveValidators w))
      (sort_high (score_of cfg ?w2) [v])) (ActiveValidators w, []) = (ActiveValidators w @ [v], [v])"
    using room score by (simp add: sort_high_def admit_join_def bv_try_push_def)
  then have after: "snd (apply_pending_validator_actions cfg w1)
      = dcf_put_active cfg (sort (ActiveValidators w @ [v])) ?w2"
    using inactive by (simp add: apply_pending_validator_actions_def Let_def active w1 join_requests_def
        leave_requests_def del: sort_append)
  have "dcf_active_validators cfg (dcf_put_active cfg (sort (ActiveValidators w @ [v])) ?w2)
      = sort (ActiveValidators w @ [v])"
    using room by (simp add: dcf_active_validators_def dcf_put_active_def update_active_validators_def
        bv_truncate_def)
  moreover have "sm_has (ValidatorLeaveRequests (dcf_put_active cfg vs ?w2)) v" for vs
    by (simp add: dcf_put_active_def update_active_validators_def remove_pending_action_def w1)
  ultimately show ?thesis
    unfolding after by (simp add: check_validator_invariants_def Let_def)
qed

text \<open>Charlie, a member that is not active, queues a join and asks to leave.\<close>

definition queued_world :: "(account_id \<Rightarrow> u128 \<times> u128, nat) dcf_world" where
  "queued_world = sample_dcf_world\<lparr>PendingValidatorActions := [(charlie, Join)]\<rparr>"

theorem queued_join_survives_leave_witness:
  "snd (join_validator_set (pos_cfg sample_config) (Signed charlie) sample_dcf_world) \<noteq> sample_dcf_world
    \<and> ActiveAndInCooldown charlie \<in> set (check_validator_invariants sample_config
      (snd (apply_pending_validator_actions sample_config
        (snd (leave_validators (pos_cfg sample_config) (Signed charlie) queued_world)))))"
proof
  have "PendingValidatorActions (snd (join_validator_set (pos_cfg sample_config) (Signed charlie)
      sample_dcf_world)) \<noteq> PendingValidatorActions sample_dcf_world"
    by (simp add: join_validator_set_def dcf_sample_defs map_defs dvf_deposit_event_def)
  then show "snd (join_validator_set (pos_cfg sample_config) (Signed charlie) sample_dcf_world)
      \<noteq> sample_dcf_world"
    by metis
  obtain w1 where "leave_validators (pos_cfg sample_config) (Signed charlie) queued_world = (Inr (), w1)"
    by (simp add: leave_validators_def queued_world_def sample_dcf_world_def map_defs empty_dcf_world_def
        Let_def)
  with queued_join_survives_leave [OF this]
  show "ActiveAndInCooldown charlie \<in> set (check_validator_invariants sample_config
      (snd (apply_pending_validator_actions sample_config
        (snd (leave_validators (pos_cfg sample_config) (Signed charlie) queued_world)))))"
    by (simp add: queued_world_def score_of_def dcf_validator_state_def dcf_sample_defs map_defs)
qed

section \<open>The economic check\<close>

lemma economic_sums:
  "unat (fold (\<lambda>v t. sat_add t (f v)) vs (0 :: u128)) < unat (fold (\<lambda>v t. sat_add t (g v)) vs (0 :: u128))
    \<longleftrightarrow> sum_list (map (\<lambda>v. unat (f v)) vs) < sum_list (map (\<lambda>v. unat (g v)) vs)
      \<and> sum_list (map (\<lambda>v. unat (f v)) vs) < 2 ^ 128 - 1"
  by (auto simp: unat_fold_sat_add min_def)

text \<open>
  The economic check is silent exactly when the reserves of the members cover the estimated slashes
  (or exceed the largest balance), and every active validator that the check reads holds the minimum
  stake in reserve, and more than nothing if it is a member.
\<close>

theorem economic_check_silent:
  "check_economic_invariants cfg minimum_balance w = [] \<longleftrightarrow>
    (sum_list (map (\<lambda>v. unat (estimated_slash cfg minimum_balance v w)) (dcf_validator_set cfg w))
       \<le> sum_list (map (\<lambda>v. unat (reserved_of cfg w v)) (dcf_validator_set cfg w))
     \<or> 2 ^ 128 - 1 \<le> sum_list (map (\<lambda>v. unat (reserved_of cfg w v)) (dcf_validator_set cfg w)))
    \<and> (\<forall>v\<in>set (dcf_active_validators cfg w). MinStake (pos_cfg cfg) \<le> reserved_of cfg w v
         \<and> (reserved_of cfg w v = 0 \<longrightarrow> v \<notin> set (dcf_validator_set cfg w)))"
proof -
  let ?r = "fold (\<lambda>v t. sat_add t (reserved_of cfg w v)) (dcf_validator_set cfg w) 0"
  let ?s = "fold (\<lambda>v t. sat_add t (estimated_slash cfg minimum_balance v w)) (dcf_validator_set cfg w) 0"
  have "check_economic_invariants cfg minimum_balance w = [] \<longleftrightarrow> \<not> unat ?r < unat ?s
    \<and> (\<forall>v\<in>set (dcf_active_validators cfg w). MinStake (pos_cfg cfg) \<le> reserved_of cfg w v
         \<and> (reserved_of cfg w v = 0 \<longrightarrow> v \<notin> set (dcf_validator_set cfg w)))"
    by (auto simp: check_economic_invariants_def Let_def filter_empty_conv word_less_nat_alt linorder_not_less
        word_le_nat_alt)
  then show ?thesis
    unfolding economic_sums by (simp only: linorder_not_less de_Morgan_conj)
qed

theorem economic_check_silent_witness:
  "check_economic_invariants sample_config 0 sample_dcf_world = []"
proof -
  have "estimated_slash sample_config 0 v sample_dcf_world = 0" for v
    by (simp add: estimated_slash_def sat_mul_def Let_def split: option.split)
  moreover have "reserved_of sample_config sample_dcf_world v = 20000" for v
    by (simp add: reserved_of_def dcf_sample_defs)
  ultimately show ?thesis
    unfolding economic_check_silent by (simp add: dcf_sample_defs)
qed

lemma sum_list_lower: "(\<And>x. x \<in> set xs \<Longrightarrow> k \<le> f x) \<Longrightarrow> length xs * k \<le> sum_list (map f xs)" for k :: nat
  by (induction xs) (auto intro: add_mono)

lemma sum_list_upper: "(\<And>x. x \<in> set xs \<Longrightarrow> f x < k) \<Longrightarrow> xs \<noteq> [] \<Longrightarrow> sum_list (map f xs) < length xs * k"
  for k :: nat
proof (induction xs)
  case (Cons x xs)
  then show ?case
    by (cases xs) (auto intro: add_strict_mono)
qed simp

text \<open>
  The estimate counts the smallest balance of the currency for every point below the maximal score,
  although nobody was slashed. As soon as every member is at least a point below the maximum and
  reserves less than the smallest balance, every epoch reports that slashes exceed the reserves.
\<close>

theorem economic_check_false_alarm:
  fixes w :: "('c, 'sig, 'z) dcf_world_scheme"
  assumes members: "dcf_validator_set cfg w \<noteq> []" "length (dcf_validator_set cfg w) \<le> 1000"
    and scores: "\<And>v. v \<in> set (dcf_validator_set cfg w) \<Longrightarrow>
      \<exists>st. dcf_validator_state cfg w v = Some st
        \<and> final_score (current st) < MaxValidatorScore (poi_cfg cfg)"
    and maximum: "MaxValidatorScore (poi_cfg cfg) < 2 ^ 32" and balance: "minimum_balance < 2 ^ 64"
    and reserves: "\<And>v. v \<in> set (dcf_validator_set cfg w) \<Longrightarrow> reserved_of cfg w v < minimum_balance"
  shows "\<exists>r s. ReservedLessThanSlashed r s \<in> set (check_economic_invariants cfg minimum_balance w)"
proof -
  let ?vs = "dcf_validator_set cfg w"
  have slash: "unat minimum_balance \<le> unat (estimated_slash cfg minimum_balance v w)" if v: "v \<in> set ?vs" for v
  proof -
    obtain st where st: "dcf_validator_state cfg w v = Some st"
        "final_score (current st) < MaxValidatorScore (poi_cfg cfg)"
      using scores [OF v] by blast
    let ?d = "MaxValidatorScore (poi_cfg cfg) - final_score (current st)"
    have "unat ?d = unat (MaxValidatorScore (poi_cfg cfg)) - unat (final_score (current st))"
      using st(2) by (simp add: unat_sub order_less_imp_le)
    then have d: "0 < unat ?d" "unat ?d < 2 ^ 32"
      using st(2) maximum by (simp_all add: word_less_nat_alt)
    have narrow: "unat (ucast (ucast ?d :: u32) :: u128) = unat ?d"
      using d(2) by (simp add: unsigned_take_bit_eq unsigned_ucast_eq take_bit_nat_eq_self)
    have "unat minimum_balance * unat ?d < 2 ^ 64 * 2 ^ 32"
      using d balance by (intro mult_strict_mono) (simp_all add: word_less_nat_alt)
    then have "unat (sat_mul minimum_balance (ucast (ucast ?d :: u32))) = unat minimum_balance * unat ?d"
      by (simp add: unat_sat_mul narrow)
    then show ?thesis
      using st d(1) by (simp add: estimated_slash_def)
  qed
  have "length ?vs * unat minimum_balance
      \<le> sum_list (map (\<lambda>v. unat (estimated_slash cfg minimum_balance v w)) ?vs)"
    using slash by (rule sum_list_lower)
  moreover have reserved: "sum_list (map (\<lambda>v. unat (reserved_of cfg w v)) ?vs)
      < length ?vs * unat minimum_balance"
    using members(1) reserves by (intro sum_list_upper) (simp_all add: word_less_nat_alt)
  moreover have "length ?vs * unat minimum_balance \<le> 1000 * 2 ^ 64"
    using members(2) balance by (intro mult_le_mono) (simp_all add: word_less_nat_alt)
  ultimately have "unat (fold (\<lambda>v t. sat_add t (reserved_of cfg w v)) ?vs 0)
      < unat (fold (\<lambda>v t. sat_add t (estimated_slash cfg minimum_balance v w)) ?vs 0)"
    unfolding economic_sums by simp
  then show ?thesis
    by (auto simp: check_economic_invariants_def Let_def word_less_nat_alt)
qed

text \<open>The sample state with the existential deposit of the runtime.\<close>

theorem economic_check_false_alarm_witness:
  "\<exists>r s. ReservedLessThanSlashed r s \<in> set (check_economic_invariants sample_config 1000000000 sample_dcf_world)"
  by (rule economic_check_false_alarm) (auto simp: dcf_validator_set_def dcf_validator_state_def
      reserved_of_def bv_truncate_def dcf_sample_defs map_defs)

section \<open>Runtime upgrade\<close>

lemma integrity_passes: "validate_storage_integrity cfg w = Inr ()"
  using active_bounded [of cfg w] by (simp add: validate_storage_integrity_def)

text \<open>
  A runtime upgrade succeeds from version 0 and from the current version 1 and panics from every other
  one. It leaves the version at 1, keeps a stored governance configuration (and otherwise stores the
  default, whose ranges contain zero only), and a second upgrade changes nothing.
\<close>

theorem runtime_upgrade:
  "(on_runtime_upgrade cfg w = None \<longleftrightarrow> StorageVersion w \<notin> {0, 1})
    \<and> map_option StorageVersion (on_runtime_upgrade cfg w) = (if StorageVersion w \<in> {0, 1} then Some 1 else None)
    \<and> map_option GovernanceConfigStorage (on_runtime_upgrade cfg w) =
        (if StorageVersion w \<notin> {0, 1} then None
         else Some (if StorageVersion w = 1 \<or> governance_stored w
                then GovernanceConfigStorage w else default_governance_config))
    \<and> Option.bind (on_runtime_upgrade cfg w) (on_runtime_upgrade cfg) = on_runtime_upgrade cfg w"
  by (simp add: on_runtime_upgrade_def perform_storage_migration_def current_storage_version_def
      integrity_passes check_deposit_event_def Let_def)

end
