(* ===== verification/Epoch_Replay.thy ===== *)
theory Epoch_Replay
  imports Dcf_Config
begin

text \<open>
  The record that \<open>pallet-cerulea-dcf\<close> keeps of an epoch transition and the replay that is meant to
  validate it: the hashes of inputs and outputs, the changes of the validator set read from the history
  of the epochs, and the comparison.
\<close>

section \<open>Data\<close>

record epoch_processing_output =
  po_epoch :: u32
  po_transition_block :: u32
  po_active_validators :: "account_id list"
  po_added_validators :: "account_id list"
  po_removed_validators :: "account_id list"
  po_validator_scores :: "(account_id \<times> u64) list"
  po_author_sequence :: "account_id list"
  po_randomness_seed :: "8 word list"
  po_input_hash :: "8 word list"
  po_output_hash :: "8 word list"

datatype replay_validation_error =
    MissingOriginalOutput
  | OutputMismatch "8 word list" "8 word list"
  | ValidatorSetMismatch
  | AuthorSequenceMismatch
  | ScoreMismatch
  | InvalidInputs
  | ProcessingFailed

text \<open>The SCALE encoding of lists of accounts and of scores is a parameter.\<close>

record list_codec =
  encode_accounts :: "account_id list \<Rightarrow> 8 word list"
  encode_scores :: "(account_id \<times> u64) list \<Rightarrow> 8 word list"

record ('c, 'sig) dcf_replay_world = "('c, 'sig) dcf_world" +
  EpochProcessingOutputs :: "(u32, epoch_processing_output) smap"
  last_epoch_output_hash :: "8 word list"
  author_sequence_cache :: "8 word list"
  processed_events :: "(u32 \<times> u32 \<times> 8 word list \<times> u32 \<times> 8 word list) list"

section \<open>Hashes and changes\<close>

definition u64_to_le_bytes :: "u64 \<Rightarrow> 8 word list" where
  "u64_to_le_bytes x = map (\<lambda>i. ucast (drop_bit (8 * i) x)) [0, 1, 2, 3, 4, 5, 6, 7]"

definition compute_epoch_input_hash ::
  "('c, 'sig) dcf_config \<Rightarrow> list_codec \<Rightarrow> u32 \<Rightarrow> u32 \<Rightarrow> account_id list \<Rightarrow> 8 word list
     \<Rightarrow> ('c, 'sig, 'z) dcf_world_scheme \<Rightarrow> 8 word list" where
  "compute_epoch_input_hash cfg K epoch n validators seed w =
     blake2_256 cfg (u32_to_le_bytes epoch @ u32_to_le_bytes n @ encode_accounts K validators @ seed
       @ u64_to_le_bytes (pos_weight_of w) @ u64_to_le_bytes (poi_weight_of w))"

definition epoch_output_message ::
  "list_codec \<Rightarrow> u32 \<Rightarrow> account_id list \<Rightarrow> account_id list \<times> account_id list
     \<Rightarrow> (account_id \<times> u64) list \<Rightarrow> account_id list \<Rightarrow> 8 word list" where
  "epoch_output_message K epoch active changes scores sequence =
     u32_to_le_bytes epoch @ encode_accounts K active @ encode_accounts K (fst changes)
       @ encode_accounts K (snd changes) @ encode_scores K scores @ encode_accounts K sequence"

definition compute_epoch_output_hash ::
  "('c, 'sig) dcf_config \<Rightarrow> list_codec \<Rightarrow> u32 \<Rightarrow> account_id list \<Rightarrow> account_id list \<times> account_id list
     \<Rightarrow> (account_id \<times> u64) list \<Rightarrow> account_id list \<Rightarrow> 8 word list" where
  "compute_epoch_output_hash cfg K epoch active changes scores sequence =
     blake2_256 cfg (epoch_output_message K epoch active changes scores sequence)"

definition history_of :: "u32 \<Rightarrow> ('c, 'sig, 'z) dcf_world_scheme \<Rightarrow> epoch_history option" where
  "history_of epoch w = List.find (\<lambda>h. eh_epoch_number h = epoch) (EpochHistories w)"

text \<open>A push beyond the bound is dropped, so the list built is a prefix.\<close>

definition get_epoch_validator_changes ::
  "('c, 'sig) dcf_config \<Rightarrow> u32 \<Rightarrow> ('c, 'sig, 'z) dcf_world_scheme \<Rightarrow> account_id list \<times> account_id list" where
  "get_epoch_validator_changes cfg epoch w =
     (case history_of epoch w of
        None \<Rightarrow> ([], [])
      | Some history \<Rightarrow>
          (let prev_validators = (case history_of (sat_sub epoch 1) w of
                 None \<Rightarrow> [] | Some prev_history \<Rightarrow> eh_active_validators prev_history)
           in (bv_truncate (PosMaxValidators (pos_cfg cfg))
                 (filter (\<lambda>v. v \<notin> set prev_validators) (eh_active_validators history)),
               bv_truncate (PosMaxValidators (pos_cfg cfg))
                 (filter (\<lambda>v. v \<notin> set (eh_active_validators history)) prev_validators))))"

definition get_all_validator_scores ::
  "('c, 'sig) dcf_config \<Rightarrow> account_id list \<Rightarrow> ('c, 'sig, 'z) dcf_world_scheme \<Rightarrow> (account_id \<times> u64) list" where
  "get_all_validator_scores cfg validators w =
     bv_truncate (PosMaxValidators (pos_cfg cfg)) (map (\<lambda>v. (v, score_of cfg w v)) validators)"

section \<open>Recording a transition\<close>

text \<open>
  \<open>handle_deterministic_epoch_transition\<close> with what it records for the replay; without the recording
  it is the definition of theory \<open>Dcf_Epoch\<close> (lemma \<open>recorded_transition\<close>).
\<close>

definition recorded_epoch_transition ::
  "('c, 'sig) dcf_config \<Rightarrow> list_codec \<Rightarrow> u32 \<Rightarrow> ('c, 'sig, 'z) dcf_replay_world_scheme
     \<Rightarrow> ('c, 'sig, 'z) dcf_replay_world_scheme option" where
  "recorded_epoch_transition cfg K n w =
     (let current_epoch = DcfCurrentEpoch w;
          next_epoch = sat_add current_epoch 1;
          w1 = w\<lparr>PreviousEpochBestBlock := sat_sub n 1\<rparr>;
          salt = engine_salt cfg w1;
          esalt = generate_epoch_salt cfg next_epoch salt;
          seed = generate_deterministic_randomness cfg n next_epoch salt esalt w1;
          input_hash = compute_epoch_input_hash cfg K current_epoch n (dcf_active_validators cfg w1) seed w1;
          w2 = handle_epoch_transition cfg w1;
          active = dcf_active_validators cfg w2
      in case generate_deterministic_author_sequence cfg next_epoch active seed w2 of
           None \<Rightarrow> None
         | Some sequence \<Rightarrow>
             (let w3 = w2\<lparr>EpochAuthorSequences := sm_put next_epoch sequence (EpochAuthorSequences w2)\<rparr>;
                  changes = get_epoch_validator_changes cfg current_epoch w3;
                  scores = get_all_validator_scores cfg active w3;
                  output_hash = compute_epoch_output_hash cfg K next_epoch active changes scores sequence;
                  output = \<lparr>po_epoch = next_epoch, po_transition_block = n, po_active_validators = active,
                    po_added_validators = fst changes, po_removed_validators = snd changes,
                    po_validator_scores = scores, po_author_sequence = sequence,
                    po_randomness_seed = seed, po_input_hash = input_hash, po_output_hash = output_hash\<rparr>;
                  w4 = freeze_epoch_weights (dvf_cfg cfg) next_epoch (freeze_input cfg w3) w3;
                  w5 = w4\<lparr>EpochProcessingOutputs := sm_put next_epoch output (EpochProcessingOutputs w4)\<rparr>
              in Some (w5\<lparr>randomness_salt := salt, epoch_salt := esalt, last_processed_epoch := next_epoch,
                  last_epoch_output_hash := output_hash,
                  author_sequence_cache := take 1024 (encode_accounts K sequence),
                  processed_events := processed_events w5
                    @ [(next_epoch, n, seed, of_nat (length sequence), output_hash)]\<rparr>)))"

section \<open>Replay\<close>

definition simulate_epoch_processing_replay ::
  "('c, 'sig) dcf_config \<Rightarrow> list_codec \<Rightarrow> u32 \<Rightarrow> u32 \<Rightarrow> 8 word list \<Rightarrow> 8 word list
     \<Rightarrow> ('c, 'sig, 'z) dcf_replay_world_scheme \<Rightarrow> epoch_processing_output option" where
  "simulate_epoch_processing_replay cfg K epoch n seed input_hash w =
     (let active = dcf_active_validators cfg w; scores = get_all_validator_scores cfg active w
      in case generate_deterministic_author_sequence cfg epoch active seed w of
           None \<Rightarrow> None
         | Some sequence \<Rightarrow>
             (let changes = get_epoch_validator_changes cfg epoch w
              in Some \<lparr>po_epoch = epoch, po_transition_block = n, po_active_validators = active,
                   po_added_validators = fst changes, po_removed_validators = snd changes,
                   po_validator_scores = scores, po_author_sequence = sequence,
                   po_randomness_seed = seed, po_input_hash = input_hash,
                   po_output_hash = compute_epoch_output_hash cfg K epoch active changes scores sequence\<rparr>))"

text \<open>The outer \<open>None\<close> is the panic of the author selection, which never happens.\<close>

definition validate_epoch_replay ::
  "('c, 'sig) dcf_config \<Rightarrow> list_codec \<Rightarrow> u32 \<Rightarrow> ('c, 'sig, 'z) dcf_replay_world_scheme
     \<Rightarrow> (replay_validation_error + unit) option" where
  "validate_epoch_replay cfg K epoch w =
     (case sm_get (EpochProcessingOutputs w) epoch of
        None \<Rightarrow> Some (Inl MissingOriginalOutput)
      | Some original \<Rightarrow>
          (case simulate_epoch_processing_replay cfg K epoch (po_transition_block original)
                  (po_randomness_seed original) (po_input_hash original) w of
             None \<Rightarrow> None
           | Some replay \<Rightarrow>
               Some (if po_output_hash original \<noteq> po_output_hash replay
                     then Inl (OutputMismatch (po_output_hash original) (po_output_hash replay))
                     else if po_active_validators original \<noteq> po_active_validators replay
                     then Inl ValidatorSetMismatch
                     else if po_author_sequence original \<noteq> po_author_sequence replay
                     then Inl AuthorSequenceMismatch
                     else if po_validator_scores original \<noteq> po_validator_scores replay
                     then Inl ScoreMismatch
                     else Inr ())))"

end
