(* ===== verification/Replay_Properties.thy ===== *)
theory Replay_Properties
  imports Epoch_Replay Dcf_Hook "HOL-Library.Countable"
begin

text \<open>
  What the replay of an epoch transition compares: right after the transition it can differ from the
  record in the changes of the validator set only, which the record takes from the epoch that ended
  and the replay from the epoch that began.
\<close>

section \<open>Lemmas\<close>

lemma freeze_keeps [simp]:
  "ActiveValidators (freeze_epoch_weights c e vs w) = ActiveValidators w"
  "ValidatorStates (freeze_epoch_weights c e vs w) = ValidatorStates w"
  by (simp_all add: freeze_epoch_weights_def note_set_change_def dvf_deposit_event_def Let_def
      split: prod.split)

lemma freeze_keeps_dcf [simp]:
  fixes w :: "('c, 'sig, 'z) dcf_world_scheme"
  shows "EpochHistories (freeze_epoch_weights c e vs w) = EpochHistories w"
    "EpochConfigStorage (freeze_epoch_weights c e vs w) = EpochConfigStorage w"
    "EpochScoreSnapshot (freeze_epoch_weights c e vs w) = EpochScoreSnapshot w"
    "DcfCurrentEpoch (freeze_epoch_weights c e vs w) = DcfCurrentEpoch w"
  by (simp_all add: freeze_epoch_weights_def note_set_change_def dvf_deposit_event_def Let_def
      split: prod.split)

text \<open>What the replay reads, unchanged by the recording.\<close>

definition replay_view ::
  "('c, 'sig, 'z) dcf_world_scheme \<Rightarrow> account_id list \<times> (account_id, dvf_validator_state) smap
     \<times> epoch_history list \<times> epoch_config \<times> (u32, (account_id \<times> u64) list) smap" where
  "replay_view w = (ActiveValidators w, ValidatorStates w, EpochHistories w, EpochConfigStorage w,
     EpochScoreSnapshot w)"

lemma same_view:
  assumes "replay_view w' = replay_view w"
  shows "dcf_active_validators cfg w' = dcf_active_validators cfg w"
    "get_all_validator_scores cfg vs w' = get_all_validator_scores cfg vs w"
    "get_epoch_validator_changes cfg e w' = get_epoch_validator_changes cfg e w"
    "generate_deterministic_author_sequence cfg e vs seed w' = generate_deterministic_author_sequence cfg e vs seed w"
proof -
  have parts: "ActiveValidators w' = ActiveValidators w" "ValidatorStates w' = ValidatorStates w"
    "EpochHistories w' = EpochHistories w" "EpochConfigStorage w' = EpochConfigStorage w"
    "EpochScoreSnapshot w' = EpochScoreSnapshot w"
    using assms by (simp_all add: replay_view_def)
  have history: "history_of e w' = history_of e w" for e
    by (simp add: history_of_def parts)
  show "dcf_active_validators cfg w' = dcf_active_validators cfg w"
    "get_all_validator_scores cfg vs w' = get_all_validator_scores cfg vs w"
    "get_epoch_validator_changes cfg e w' = get_epoch_validator_changes cfg e w"
    "generate_deterministic_author_sequence cfg e vs seed w' = generate_deterministic_author_sequence cfg e vs seed w"
    by (simp_all add: dcf_active_validators_def get_all_validator_scores_def score_of_def
        dcf_validator_state_def get_epoch_validator_changes_def generate_deterministic_author_sequence_def
        parts history split: option.split)
qed

text \<open>Without the recording the transition is the one of the block hook.\<close>

lemma recorded_transition:
  "map_option dcf_world.truncate (recorded_epoch_transition cfg K n w)
    = map_option dcf_world.truncate (handle_deterministic_epoch_transition cfg n w)"
  by (simp add: recorded_epoch_transition_def handle_deterministic_epoch_transition_def Let_def
      dcf_world.defs split: option.split)

lemma recorded_parts:
  assumes "recorded_epoch_transition cfg K n w = Some w'"
  obtains original where
    "sm_get (EpochProcessingOutputs w') (sat_add (DcfCurrentEpoch w) 1) = Some original"
    "po_active_validators original = dcf_active_validators cfg w'"
    "po_validator_scores original = get_all_validator_scores cfg (dcf_active_validators cfg w') w'"
    "generate_deterministic_author_sequence cfg (sat_add (DcfCurrentEpoch w) 1) (dcf_active_validators cfg w')
      (po_randomness_seed original) w' = Some (po_author_sequence original)"
    "po_output_hash original = compute_epoch_output_hash cfg K (sat_add (DcfCurrentEpoch w) 1)
      (dcf_active_validators cfg w') (get_epoch_validator_changes cfg (DcfCurrentEpoch w) w')
      (get_all_validator_scores cfg (dcf_active_validators cfg w') w') (po_author_sequence original)"
proof -
  let ?next = "sat_add (DcfCurrentEpoch w) 1"
  let ?w2 = "handle_epoch_transition cfg (w\<lparr>PreviousEpochBestBlock := sat_sub n 1\<rparr>)"
  have view: "replay_view w' = replay_view ?w2"
    using assms by (auto simp: recorded_epoch_transition_def Let_def replay_view_def split: option.splits)
  have view3: "replay_view (?w2\<lparr>EpochAuthorSequences := q\<rparr>) = replay_view ?w2" for q
    by (simp add: replay_view_def)
  show thesis
    using assms
    by (intro that [of "the (sm_get (EpochProcessingOutputs w') ?next)"])
      (auto simp: recorded_epoch_transition_def Let_def same_view [OF view] same_view [OF view3]
        split: option.splits)
qed









lemma bv_truncate_simps [simp]:
  "bv_truncate k (bv_truncate k xs) = bv_truncate k xs" "bv_truncate k [] = []"
  by (simp_all add: bv_truncate_def)


section \<open>Properties\<close>

definition prefix_free :: "('x \<Rightarrow> 8 word list) \<Rightarrow> bool" where
  "prefix_free enc \<longleftrightarrow> (\<forall>a b x y. enc a @ x = enc b @ y \<longrightarrow> a = b)"

lemma output_message_changes:
  assumes enc: "prefix_free (encode_accounts K)"
    and eq: "epoch_output_message K e active changes scores sequence
      = epoch_output_message K e active changes' scores sequence"
  shows "changes = changes'"
proof -
  have "encode_accounts K (fst changes) @ encode_accounts K (snd changes) @ z
      = encode_accounts K (fst changes') @ encode_accounts K (snd changes') @ z"
    if "z = encode_scores K scores @ encode_accounts K sequence" for z
    using eq by (simp add: epoch_output_message_def that)
  with enc have "fst changes = fst changes'" and "snd changes = snd changes'"
    unfolding prefix_free_def by (metis same_append_eq)+
  then show ?thesis
    by (rule prod_eqI)
qed

lemma replay_outcome:
  fixes w w' :: "('c, 'sig, 'z) dcf_replay_world_scheme"
  assumes recorded: "recorded_epoch_transition cfg K n w = Some w'"
    and encoder: "prefix_free (encode_accounts K)"
  shows "\<exists>x y. validate_epoch_replay cfg K (sat_add (DcfCurrentEpoch w) 1) w' =
      Some (if blake2_256 cfg x = blake2_256 cfg y then Inr ()
            else Inl (OutputMismatch (blake2_256 cfg x) (blake2_256 cfg y)))
    \<and> (x = y \<longleftrightarrow> get_epoch_validator_changes cfg (DcfCurrentEpoch w) w'
         = get_epoch_validator_changes cfg (sat_add (DcfCurrentEpoch w) 1) w')"
proof -
  let ?next = "sat_add (DcfCurrentEpoch w) 1"
  obtain original where original:
      "sm_get (EpochProcessingOutputs w') ?next = Some original"
      "po_active_validators original = dcf_active_validators cfg w'"
      "po_validator_scores original = get_all_validator_scores cfg (dcf_active_validators cfg w') w'"
      "generate_deterministic_author_sequence cfg ?next (dcf_active_validators cfg w')
        (po_randomness_seed original) w' = Some (po_author_sequence original)"
      "po_output_hash original = compute_epoch_output_hash cfg K ?next
        (dcf_active_validators cfg w') (get_epoch_validator_changes cfg (DcfCurrentEpoch w) w')
        (get_all_validator_scores cfg (dcf_active_validators cfg w') w') (po_author_sequence original)"
    using recorded by (rule recorded_parts)
  let ?m = "\<lambda>changes. epoch_output_message K ?next (dcf_active_validators cfg w') changes
    (get_all_validator_scores cfg (dcf_active_validators cfg w') w') (po_author_sequence original)"
  let ?c = "get_epoch_validator_changes cfg (DcfCurrentEpoch w) w'"
  let ?c' = "get_epoch_validator_changes cfg ?next w'"
  have "validate_epoch_replay cfg K ?next w' =
      Some (if blake2_256 cfg (?m ?c) = blake2_256 cfg (?m ?c') then Inr ()
        else Inl (OutputMismatch (blake2_256 cfg (?m ?c)) (blake2_256 cfg (?m ?c'))))"
    by (simp add: validate_epoch_replay_def simulate_epoch_processing_replay_def original Let_def
        compute_epoch_output_hash_def)
  moreover have "?m ?c = ?m ?c' \<longleftrightarrow> ?c = ?c'"
    by (rule iffI, erule output_message_changes [OF encoder]) simp
  ultimately show ?thesis
    by blast
qed



text \<open>
  Right after the transition to epoch \<open>e + 1\<close> the replay of that epoch finds the same validators, authors
  and scores, and compares the hashes of two messages that agree exactly when the changes of the
  validator set in epoch \<open>e\<close>, which the record holds, are those in epoch \<open>e + 1\<close>, which the replay reads.
\<close>

theorem replay_after_transition:
  fixes w w' :: "('c, 'sig, 'z) dcf_replay_world_scheme"
  assumes "recorded_epoch_transition cfg K n w = Some w'"
    and "prefix_free (encode_accounts K)"
  shows "\<exists>x y. validate_epoch_replay cfg K (sat_add (DcfCurrentEpoch w) 1) w' =
      Some (if blake2_256 cfg x = blake2_256 cfg y then Inr ()
            else Inl (OutputMismatch (blake2_256 cfg x) (blake2_256 cfg y)))
    \<and> (x = y \<longleftrightarrow> get_epoch_validator_changes cfg (DcfCurrentEpoch w) w'
         = get_epoch_validator_changes cfg (sat_add (DcfCurrentEpoch w) 1) w')"
  by (rule replay_outcome [OF assms])

text \<open>A list of accounts is written in unary, with its number in an enumeration of all lists.\<close>

definition unary :: "nat \<Rightarrow> 8 word list" where
  "unary k = replicate k 1 @ [0]"

lemma unary_prefix_free: "prefix_free unary"
proof -
  have "unary a @ x = unary b @ y \<Longrightarrow> a = b" for a b x y
  proof (induction a arbitrary: b)
    case 0
    then show ?case by (cases b) (simp_all add: unary_def)
  next
    case (Suc a)
    then show ?case by (cases b) (simp_all add: unary_def)
  qed
  then show ?thesis
    unfolding prefix_free_def by blast
qed

fun number_of_accounts :: "account_id list \<Rightarrow> nat" where
  "number_of_accounts [] = 0"
| "number_of_accounts (AccountId k # vs) = Suc (prod_encode (k, number_of_accounts vs))"

lemma number_of_accounts_inj: "number_of_accounts vs = number_of_accounts us \<Longrightarrow> vs = us"
proof (induction vs arbitrary: us rule: number_of_accounts.induct)
  case 1
  then show ?case by (cases us rule: number_of_accounts.cases) simp_all
next
  case (2 k vs)
  then show ?case by (cases us rule: number_of_accounts.cases) (auto simp: prod_encode_eq)
qed

definition sample_codec :: list_codec where
  "sample_codec = \<lparr>encode_accounts = (\<lambda>vs. unary (number_of_accounts vs)), encode_scores = (\<lambda>s. [])\<rparr>"

lemma sample_codec_ok: "prefix_free (encode_accounts sample_codec)"
  unfolding prefix_free_def
proof (intro allI impI)
  fix a b x y
  assume "encode_accounts sample_codec a @ x = encode_accounts sample_codec b @ y"
  then have "unary (number_of_accounts a) @ x = unary (number_of_accounts b) @ y"
    by (simp add: sample_codec_def)
  then have "number_of_accounts a = number_of_accounts b"
    using unary_prefix_free unfolding prefix_free_def by blast
  then show "a = b"
    by (rule number_of_accounts_inj)
qed

definition replay_world :: "(account_id \<Rightarrow> u128 \<times> u128, nat) dcf_replay_world" where
  "replay_world = dcf_world.extend (sample_dcf_world\<lparr>DcfCurrentEpoch := 0\<rparr>) (dcf_replay_world.fields [] [] [] [])"

lemma replay_world_fields:
  "DcfCurrentEpoch replay_world = 0" "EpochHistories replay_world = []"
  "PendingValidatorActions replay_world = []" "ActiveValidators replay_world = [alice, bob]"
  by (simp_all add: replay_world_def dcf_world.defs sample_dcf_world_def empty_dcf_world_def)

lemma recorded_returns: "\<exists>w'. recorded_epoch_transition cfg K n w = Some w'"
  using recorded_transition [of cfg K n w] deterministic_returns [of cfg n w] by force

theorem replay_after_transition_witness:
  "\<exists>w' x y. recorded_epoch_transition sample_config sample_codec 100 replay_world = Some w'
    \<and> validate_epoch_replay sample_config sample_codec 1 w' =
        Some (if x = y then Inr () else Inl (OutputMismatch x y))"
proof -
  have hash: "blake2_256 sample_config z = z" for z
    by (simp add: config_defs)
  obtain w' where w': "recorded_epoch_transition sample_config sample_codec 100 replay_world = Some w'"
    using recorded_returns by blast
  have "sat_add (DcfCurrentEpoch replay_world) 1 = 1"
    by (simp add: replay_world_fields sat_add_def)
  then obtain x y where "validate_epoch_replay sample_config sample_codec 1 w' =
      Some (if x = y then Inr () else Inl (OutputMismatch x y))"
    using replay_after_transition [OF w' sample_codec_ok] unfolding hash by metis
  with w' show ?thesis
    by blast
qed



end
