(* ===== verification/Evm_Events.thy ===== *)
theory Evm_Events
  imports Dcf_Config
begin

text \<open>
  The copies of events that \<open>pallet-cerulea-dcf\<close> keeps for the EVM side (\<open>evm_compatibility.rs\<close>): the
  checks on a payload, the conversion, the bounded storage per block, queries and cleaning up. The
  SCALE encoding of an event and of an account is a parameter. Events that the pallet declares and
  this model has no constructor for are left out of the case distinctions.
\<close>

section \<open>Data\<close>

record evm_compatible_event =
  event_type :: u32
  indexed_fields :: "8 word list list"
  data_fields :: "8 word list"
  raw_data :: "8 word list"

datatype evm_compatibility_error =
    PayloadTooLarge u32 u32
  | ExcessiveNesting u32 u32
  | IndexedFieldTooLarge u32 u32
  | UnsupportedEventType
  | EncodingFailed

record event_codec =
  encode_event :: "dcf_event \<Rightarrow> 8 word list"
  encode_account :: "account_id \<Rightarrow> 8 word list"

record ('c, 'sig) dcf_evm_world = "('c, 'sig) dcf_world" +
  EvmCompatibleEvents :: "(u32, evm_compatible_event list) smap"
  compatibility_tested :: "bool list"

section \<open>Checks on a payload\<close>

definition max_evm_event_payload_size :: u32 where
  "max_evm_event_payload_size = 1024"

text \<open>The levels count brackets among all bytes of the payload, which is binary.\<close>

fun nesting_from :: "u32 \<Rightarrow> u32 \<Rightarrow> 8 word list \<Rightarrow> u32" where
  "nesting_from current_nesting max_nesting [] = max_nesting"
| "nesting_from current_nesting max_nesting (b # bs) =
     (if b \<in> {0x5B, 0x7B, 0x28}
      then nesting_from (current_nesting + 1) (max max_nesting (current_nesting + 1)) bs
      else if b \<in> {0x5D, 0x7D, 0x29} then nesting_from (sat_sub current_nesting 1) max_nesting bs
      else nesting_from current_nesting max_nesting bs)"

definition calculate_nesting_level :: "8 word list \<Rightarrow> u32" where
  "calculate_nesting_level payload = nesting_from 0 0 payload"

definition validate_data_structure :: "8 word list \<Rightarrow> evm_compatibility_error + unit" where
  "validate_data_structure payload =
     (let nesting_level = calculate_nesting_level payload
      in if nesting_level > 10 then Inl (ExcessiveNesting nesting_level 10) else Inr ())"

definition validate_event_payload :: "8 word list \<Rightarrow> evm_compatibility_error + unit" where
  "validate_event_payload payload =
     (if length payload > unat max_evm_event_payload_size
      then Inl (PayloadTooLarge (of_nat (length payload)) max_evm_event_payload_size)
      else validate_data_structure payload)"

section \<open>Conversion\<close>

fun get_event_type_id :: "dcf_event \<Rightarrow> u32" where
  "get_event_type_id (DcfJoined v n) = 1"
| "get_event_type_id (DcfEjected v r) = 5"
| "get_event_type_id (EpochStarted e vs) = 6"
| "get_event_type_id (ProposalSubmitted i v a) = 7"
| "get_event_type_id (ProposalExecuted i s) = 8"
| "get_event_type_id (ValidatorScoreUpdated v s i f) = 9"
| "get_event_type_id (ConsensusWeightsUpdated p i) = 10"
| "get_event_type_id (GovernanceModeToggled b) = 11"
| "get_event_type_id (MisbehaviorReported v r n) = 12"
| "get_event_type_id (PrivateChainModeEnabled n b) = 14"
| "get_event_type_id PrivateChainModeOff = 15"
| "get_event_type_id (AddedToAllowlist v) = 16"
| "get_event_type_id (RemovedFromAllowlist v) = 17"
| "get_event_type_id (ForcedToLeave v) = 18"
| "get_event_type_id _ = 999"

definition field_of :: "8 word list \<Rightarrow> 8 word list list" where
  "field_of encoded = (if length encoded \<le> 32 then [encoded] else [])"

fun extract_indexed_fields :: "event_codec \<Rightarrow> dcf_event \<Rightarrow> 8 word list list" where
  "extract_indexed_fields K (DcfJoined v n) = field_of (encode_account K v)"
| "extract_indexed_fields K (DcfEjected v r) = field_of (encode_account K v)"
| "extract_indexed_fields K (EpochStarted e vs) = field_of (u32_to_le_bytes e)"
| "extract_indexed_fields K (ProposalSubmitted i v a) =
     field_of (u32_to_le_bytes i) @ field_of (encode_account K v)"
| "extract_indexed_fields K (ProposalExecuted i s) = field_of (u32_to_le_bytes i)"
| "extract_indexed_fields K _ = []"

definition extract_data_fields :: "event_codec \<Rightarrow> dcf_event \<Rightarrow> evm_compatibility_error + 8 word list" where
  "extract_data_fields K event =
     (let encoded = encode_event K event
      in case validate_event_payload encoded of
           Inl e \<Rightarrow> Inl e
         | Inr _ \<Rightarrow> if length encoded \<le> 1024 then Inr encoded
                    else Inl (PayloadTooLarge (of_nat (length encoded)) 1024))"

definition convert_to_evm_format ::
  "event_codec \<Rightarrow> dcf_event \<Rightarrow> evm_compatibility_error + evm_compatible_event" where
  "convert_to_evm_format K event =
     (let encoded = encode_event K event
      in case validate_event_payload encoded of
           Inl e \<Rightarrow> Inl e
         | Inr _ \<Rightarrow>
             (case extract_data_fields K event of
                Inl e \<Rightarrow> Inl e
              | Inr data \<Rightarrow>
                  if length encoded \<le> 2048
                  then Inr \<lparr>event_type = get_event_type_id event,
                         indexed_fields = extract_indexed_fields K event, data_fields = data,
                         raw_data = encoded\<rparr>
                  else Inl (PayloadTooLarge (of_nat (length encoded)) 2048)))"

section \<open>Storage\<close>

definition is_evm_enabled :: bool where
  "is_evm_enabled = True"

definition get_evm_events_for_block ::
  "u32 \<Rightarrow> ('c, 'sig, 'z) dcf_evm_world_scheme \<Rightarrow> evm_compatible_event list" where
  "get_evm_events_for_block n w = sm_val [] (EvmCompatibleEvents w) n"

text \<open>A push into a full list is dropped.\<close>

definition store_evm_event ::
  "evm_compatible_event \<Rightarrow> ('c, 'sig, 'z) dcf_evm_world_scheme \<Rightarrow> ('c, 'sig, 'z) dcf_evm_world_scheme" where
  "store_evm_event event w =
     (let n = block_number w; events = get_evm_events_for_block n w
      in w\<lparr>EvmCompatibleEvents := sm_put n
            (case bv_try_push 100 event events of None \<Rightarrow> events | Some events' \<Rightarrow> events')
            (EvmCompatibleEvents w)\<rparr>)"

definition emit_evm_compatible_event ::
  "event_codec \<Rightarrow> dcf_event
     \<Rightarrow> (evm_compatibility_error, ('c, 'sig, 'z) dcf_evm_world_scheme, unit) op" where
  "emit_evm_compatible_event K event w =
     (if \<not> is_evm_enabled then (Inr (), w)
      else case convert_to_evm_format K event of
        Inl e \<Rightarrow> (Inl e, w)
      | Inr evm_event \<Rightarrow> (Inr (), store_evm_event evm_event w))"

definition deposit_event_with_evm_compat ::
  "event_codec \<Rightarrow> dcf_event \<Rightarrow> ('c, 'sig, 'z) dcf_evm_world_scheme
     \<Rightarrow> ('c, 'sig, 'z) dcf_evm_world_scheme" where
  "deposit_event_with_evm_compat K event w =
     snd (emit_evm_compatible_event K event (dcf_deposit_event event w))"

section \<open>Queries and cleaning up\<close>

text \<open>The inclusive range of blocks, empty when it ends before it begins.\<close>

definition block_range :: "u32 \<Rightarrow> u32 \<Rightarrow> u32 list" where
  "block_range from_block to_block = map of_nat [unat from_block..<Suc (unat to_block)]"

definition matches_type :: "u32 option \<Rightarrow> evm_compatible_event \<Rightarrow> bool" where
  "matches_type t event = (case t of None \<Rightarrow> True | Some filter_type \<Rightarrow> event_type event = filter_type)"

definition query_evm_events ::
  "u32 option \<Rightarrow> u32 \<Rightarrow> u32 \<Rightarrow> ('c, 'sig, 'z) dcf_evm_world_scheme \<Rightarrow> (u32 \<times> evm_compatible_event) list" where
  "query_evm_events t from_block to_block w =
     concat (map (\<lambda>n. map (Pair n) (filter (matches_type t) (get_evm_events_for_block n w)))
       (block_range from_block to_block))"

definition query_evm_events_internal ::
  "u32 option \<Rightarrow> u32 \<Rightarrow> u32 \<Rightarrow> ('c, 'sig, 'z) dcf_evm_world_scheme \<Rightarrow> evm_compatible_event list" where
  "query_evm_events_internal t from_block to_block w =
     (if to_block < from_block \<or> to_block - from_block > 100 then []
      else
        (let events = concat (map (\<lambda>n. get_evm_events_for_block n w) (block_range from_block to_block))
         in case t of None \<Rightarrow> events
            | Some filter_type \<Rightarrow> filter (\<lambda>event. event_type event = filter_type) events))"

definition cleanup_old_evm_events ::
  "u32 \<Rightarrow> ('c, 'sig, 'z) dcf_evm_world_scheme \<Rightarrow> ('c, 'sig, 'z) dcf_evm_world_scheme" where
  "cleanup_old_evm_events keep_blocks w =
     (let cutoff_block = sat_sub (block_number w) keep_blocks
      in w\<lparr>EvmCompatibleEvents := fold sm_del (map of_nat [0..<unat cutoff_block])
            (EvmCompatibleEvents w)\<rparr>)"

definition test_evm_event_compatibility_internal ::
  "('c, 'sig) dcf_config \<Rightarrow> event_codec \<Rightarrow> (('c, 'sig, 'z) dcf_evm_world_scheme, unit) call" where
  "test_evm_event_compatibility_internal cfg K w =
     (case dcf_validator_set cfg w of
        [] \<Rightarrow> (Inr (), w\<lparr>compatibility_tested := compatibility_tested w @ [True]\<rparr>)
      | v # _ \<Rightarrow>
          (case convert_to_evm_format K (DcfJoined v (MinStake (pos_cfg cfg))) of
             Inl e \<Rightarrow> (Inl (DcfErr DcfInvalidEpochConfig), w)
           | Inr _ \<Rightarrow> (Inr (), w\<lparr>compatibility_tested := compatibility_tested w @ [True]\<rparr>)))"

section \<open>Lemmas\<close>

text \<open>The second check of the payload and the bounds of the two copies never fail after the first check.\<close>

lemma convert_cases:
  "convert_to_evm_format K event =
     (case validate_event_payload (encode_event K event) of
        Inl e \<Rightarrow> Inl e
      | Inr _ \<Rightarrow> Inr \<lparr>event_type = get_event_type_id event,
          indexed_fields = extract_indexed_fields K event, data_fields = encode_event K event,
          raw_data = encode_event K event\<rparr>)"
  by (auto simp: convert_to_evm_format_def extract_data_fields_def validate_event_payload_def
      max_evm_event_payload_size_def Let_def split: sum.split)

lemma field_of_length: "length (field_of x) \<le> 1"
  by (simp add: field_of_def)

lemma indexed_fields_bounds:
  "length (extract_indexed_fields K event) \<le> 2 \<and> (\<forall>f\<in>set (extract_indexed_fields K event). length f \<le> 32)"
  by (cases event) (simp_all add: field_of_def)

lemma nesting_from_mono: "max_nesting \<le> nesting_from n max_nesting bs"
  by (induction n max_nesting bs rule: nesting_from.induct) auto

lemma smap_folded_del: "sm_get (fold sm_del ks m) k = (if k \<in> set ks then None else sm_get m k)"
  by (induction ks arbitrary: m) (auto simp: smap.lookup_remove)

section \<open>Properties\<close>

text \<open>
  The properties of the copies of events kept for the EVM side: what is copied, that the lists stay
  within their bounds, that the two queries agree, and which events are lost.
\<close>

section \<open>Bounds\<close>

definition evm_event_ok :: "evm_compatible_event \<Rightarrow> bool" where
  "evm_event_ok e \<longleftrightarrow> length (data_fields e) \<le> 1024 \<and> length (raw_data e) \<le> 2048
     \<and> length (indexed_fields e) \<le> 3 \<and> (\<forall>f\<in>set (indexed_fields e). length f \<le> 32)"

definition evm_events_ok :: "('c, 'sig, 'z) dcf_evm_world_scheme \<Rightarrow> bool" where
  "evm_events_ok w \<longleftrightarrow> (\<forall>n. length (get_evm_events_for_block n w) \<le> 100
     \<and> (\<forall>e\<in>set (get_evm_events_for_block n w). evm_event_ok e))"

lemma converted_ok: "convert_to_evm_format K event = Inr e \<Longrightarrow> evm_event_ok e"
  using indexed_fields_bounds [of K event]
  by (auto simp: convert_cases evm_event_ok_def validate_event_payload_def max_evm_event_payload_size_def
      split: sum.splits if_splits)

lemma stored_events:
  "get_evm_events_for_block n (store_evm_event e w) =
    (if n = block_number w \<and> length (get_evm_events_for_block n w) < 100
     then get_evm_events_for_block n w @ [e] else get_evm_events_for_block n w)"
  by (auto simp: store_evm_event_def get_evm_events_for_block_def Let_def sm_val_def smap.lookup_insert
      bv_try_push_def split: option.split)

lemma cleaned_events:
  "get_evm_events_for_block n (cleanup_old_evm_events k w) =
    (if n < sat_sub (block_number w) k then [] else get_evm_events_for_block n w)"
proof -
  have "n \<in> of_nat ` {0..<unat c} \<longleftrightarrow> n < c" for c :: u32
  proof
    assume "n \<in> of_nat ` {0..<unat c}"
    then obtain i where i: "n = of_nat i" "i < unat c"
      by auto
    moreover have "i < 2 ^ 32"
      using i(2) unsigned_less [where w = c and ?'a = nat] by simp
    ultimately show "n < c"
      by (simp add: word_less_nat_alt unsigned_of_nat take_bit_nat_eq_self)
  next
    assume "n < c"
    then have "n = of_nat (unat n)" "unat n < unat c"
      by (simp_all add: word_less_nat_alt)
    then show "n \<in> of_nat ` {0..<unat c}"
      by (metis atLeastLessThan_iff imageI zero_le)
  qed
  then show ?thesis
    by (simp add: cleanup_old_evm_events_def get_evm_events_for_block_def Let_def sm_val_def smap_folded_del)
qed

lemma deposit_keeps_events [simp]:
  "get_evm_events_for_block n (dcf_deposit_event e w) = get_evm_events_for_block n w"
  "block_number (dcf_deposit_event e w) = block_number w"
  by (simp_all add: dcf_deposit_event_def get_evm_events_for_block_def)

text \<open>
  The storage of the copied events stays within its bounds: at most 100 copies per block, each with at
  most 1024 bytes of data and three indexed fields of at most 32 bytes, whatever the encoding.
\<close>

theorem evm_events_bounded:
  assumes "evm_events_ok w"
  shows "evm_events_ok (deposit_event_with_evm_compat K event w) \<and> evm_events_ok (cleanup_old_evm_events k w)"
proof
  show "evm_events_ok (cleanup_old_evm_events k w)"
    using assms by (simp add: evm_events_ok_def cleaned_events)
  show "evm_events_ok (deposit_event_with_evm_compat K event w)"
  proof (cases "convert_to_evm_format K event")
    case (Inr e)
    with assms converted_ok [OF Inr] show ?thesis
      by (auto simp: evm_events_ok_def deposit_event_with_evm_compat_def emit_evm_compatible_event_def
          is_evm_enabled_def stored_events)
  qed (use assms in \<open>simp add: evm_events_ok_def deposit_event_with_evm_compat_def
      emit_evm_compatible_event_def is_evm_enabled_def\<close>)
qed

section \<open>Queries\<close>

text \<open>
  The call that answers queries about ranges of blocks returns, for a range of at most 101 blocks (the
  comment says 100), the events that the exported query returns, in the same order and with the same
  filter, without their block numbers; for a longer range it returns nothing.
\<close>

theorem evm_queries_agree:
  "query_evm_events_internal t from_block to_block w =
    (if to_block - from_block \<le> 100 then map snd (query_evm_events t from_block to_block w) else [])"
proof (cases "to_block < from_block")
  case True
  then have "block_range from_block to_block = []"
    by (simp add: block_range_def word_less_nat_alt)
  with True show ?thesis
    by (simp add: query_evm_events_internal_def query_evm_events_def)
next
  case False
  have all: "filter (matches_type None) es = es" for es
    by (simp add: matches_type_def)
  have some: "filter (matches_type (Some k)) es = filter (\<lambda>e. event_type e = k) es" for k es
    by (rule filter_cong) (simp_all add: matches_type_def)
  have pairs: "map snd (concat (map (\<lambda>n. map (Pair n) (f n)) ns)) = concat (map f ns)"
    for f :: "u32 \<Rightarrow> evm_compatible_event list" and ns
    by (induction ns) (simp_all add: comp_def)
  show ?thesis
  proof (cases "to_block - from_block \<le> 100")
    case True
    then have "\<not> to_block - from_block > 100"
      by simp
    with True False show ?thesis
      by (cases t) (simp_all only: query_evm_events_internal_def query_evm_events_def pairs all some
          filter_concat map_map comp_def if_True if_False simp_thms Let_def option.case)
  next
    case False
    then have "to_block - from_block > 100"
      by simp
    with False show ?thesis
      by (simp only: query_evm_events_internal_def simp_thms if_True if_False)
  qed
qed

section \<open>What is copied\<close>

text \<open>
  An event deposited with the copy is always deposited; it is copied into the list of the current block
  exactly when its encoding has at most 1024 bytes, its bytes nest brackets at most ten deep and the
  block holds fewer than 100 copies. Nothing tells the caller that an event was not copied.
\<close>

theorem evm_copy_outcome:
  "dcf_events (deposit_event_with_evm_compat K event w) = dcf_events w @ [event]
    \<and> get_evm_events_for_block (block_number w) (deposit_event_with_evm_compat K event w) =
      get_evm_events_for_block (block_number w) w
      @ (if length (encode_event K event) \<le> 1024 \<and> calculate_nesting_level (encode_event K event) \<le> 10
           \<and> length (get_evm_events_for_block (block_number w) w) < 100
         then [\<lparr>event_type = get_event_type_id event, indexed_fields = extract_indexed_fields K event,
             data_fields = encode_event K event, raw_data = encode_event K event\<rparr>] else [])"
proof
  show "dcf_events (deposit_event_with_evm_compat K event w) = dcf_events w @ [event]"
    by (simp add: deposit_event_with_evm_compat_def emit_evm_compatible_event_def store_evm_event_def
        Let_def dcf_deposit_event_def split: sum.split)
  show "get_evm_events_for_block (block_number w) (deposit_event_with_evm_compat K event w) =
      get_evm_events_for_block (block_number w) w
      @ (if length (encode_event K event) \<le> 1024 \<and> calculate_nesting_level (encode_event K event) \<le> 10
           \<and> length (get_evm_events_for_block (block_number w) w) < 100
         then [\<lparr>event_type = get_event_type_id event, indexed_fields = extract_indexed_fields K event,
             data_fields = encode_event K event, raw_data = encode_event K event\<rparr>] else [])"
    by (auto simp: deposit_event_with_evm_compat_def emit_evm_compatible_event_def is_evm_enabled_def
        convert_cases validate_event_payload_def validate_data_structure_def max_evm_event_payload_size_def
        Let_def stored_events linorder_not_le)
qed

text \<open>The encoding of the sample: an index, and the members of an epoch with 32 bytes each.\<close>

fun sample_encode_event :: "dcf_event \<Rightarrow> 8 word list" where
  "sample_encode_event (EpochStarted n vs) =
     6 # u32_to_le_bytes n @ [4 * of_nat (length vs)] @ replicate (32 * length vs) 0"
| "sample_encode_event (ConsensusWeightsUpdated p i) = 10 # replicate 16 0x28"
| "sample_encode_event _ = [0]"

definition sample_event_codec :: event_codec where
  "sample_event_codec = \<lparr>encode_event = sample_encode_event, encode_account = (\<lambda>v. replicate 32 0)\<rparr>"

definition evm_world :: "(account_id \<Rightarrow> u128 \<times> u128, nat) dcf_evm_world" where
  "evm_world = dcf_world.extend sample_dcf_world (dcf_evm_world.fields [] [])"

lemma evm_world_events: "get_evm_events_for_block n evm_world = []"
  by (simp add: evm_world_def dcf_world.defs get_evm_events_for_block_def map_defs dcf_evm_world.defs)

theorem evm_events_bounded_witness:
  "evm_events_ok (deposit_event_with_evm_compat sample_event_codec (EpochStarted 2 [alice, bob]) evm_world)"
proof -
  have "evm_events_ok evm_world"
    by (simp add: evm_events_ok_def evm_world_events)
  then show ?thesis
    using evm_events_bounded by blast
qed

text \<open>
  The announcement of an epoch with 32 or more validators is never copied: an encoding that writes each
  account with 32 bytes, after the five bytes of the index and the epoch, exceeds the largest payload. The
  runtime allows 100 validators.
\<close>

theorem large_epoch_never_copied:
  assumes accounts: "\<And>v. v \<in> set vs \<Longrightarrow> length (encode_account K v) = 32"
    and encoding: "5 + sum_list (map (\<lambda>v. length (encode_account K v)) vs)
      \<le> length (encode_event K (EpochStarted e vs))"
    and "32 \<le> length vs"
  shows "emit_evm_compatible_event K (EpochStarted e vs) w
    = (Inl (PayloadTooLarge (of_nat (length (encode_event K (EpochStarted e vs)))) 1024), w)"
proof -
  have "map (\<lambda>v. length (encode_account K v)) vs = replicate (length vs) 32"
    using accounts by (simp add: map_replicate_const [symmetric] cong: map_cong)
  then have "sum_list (map (\<lambda>v. length (encode_account K v)) vs) = 32 * length vs"
    by (simp add: sum_list_replicate)
  with encoding assms(3) have "1024 < length (encode_event K (EpochStarted e vs))"
    by simp
  then show ?thesis
    by (simp add: emit_evm_compatible_event_def is_evm_enabled_def convert_cases validate_event_payload_def
        max_evm_event_payload_size_def)
qed

theorem large_epoch_never_copied_witness:
  "\<exists>n. fst (emit_evm_compatible_event sample_event_codec (EpochStarted 2 (replicate 32 alice)) evm_world)
    = Inl (PayloadTooLarge n 1024)"
proof -
  have account: "length (encode_account sample_event_codec v) = 32" for v
    by (simp add: sample_event_codec_def)
  have "5 + sum_list (map (\<lambda>v. length (encode_account sample_event_codec v)) (replicate 32 alice))
      \<le> length (encode_event sample_event_codec (EpochStarted 2 (replicate 32 alice)))"
    unfolding account by (simp add: sample_event_codec_def u32_to_le_bytes_def sum_list_replicate)
  from large_epoch_never_copied [OF account this] show ?thesis
    by (metis fst_conv length_replicate order_refl)
qed

text \<open>The nesting counts bytes that are no brackets: weights of sixteen bytes 40 are not copied.\<close>

lemma brackets_in_binary_data:
  "calculate_nesting_level (encode_event sample_event_codec (ConsensusWeightsUpdated 0x2828282828282828
     0x2828282828282828)) = 16"
proof -
  have "replicate 16 (0x28 :: 8 word) = [0x28, 0x28, 0x28, 0x28, 0x28, 0x28, 0x28, 0x28,
      0x28, 0x28, 0x28, 0x28, 0x28, 0x28, 0x28, 0x28]"
    by (simp add: eval_nat_numeral)
  then show ?thesis
    by (simp add: calculate_nesting_level_def sample_event_codec_def max_def)
qed

text \<open>
  Cleaning up with \<open>keep_blocks\<close> empties exactly the lists of the blocks before the last \<open>keep_blocks\<close>
  and leaves the others; nothing in the pallet or the runtime calls it, so the copies are kept for ever.
\<close>

theorem evm_cleanup_outcome:
  "get_evm_events_for_block n (cleanup_old_evm_events keep_blocks w) =
    (if unat n + unat keep_blocks < unat (block_number w) then [] else get_evm_events_for_block n w)"
proof -
  have "n < sat_sub (block_number w) keep_blocks \<longleftrightarrow> unat n + unat keep_blocks < unat (block_number w)"
    by (auto simp: sat_sub_def word_less_nat_alt word_le_nat_alt unat_sub)
  then show ?thesis
    by (simp add: cleaned_events)
qed

end
