(* ===== verification/System_Metrics.thy ===== *)
theory System_Metrics
  imports Dcf_Checks Dcf_Hook
begin

text \<open>
  The metrics that \<open>pallet-cerulea-dcf\<close> stores at the end of an epoch transition: counts, totals,
  progress of the epoch, health, and the indicators of performance.
\<close>

section \<open>Data\<close>

datatype invariant_health = Healthy | HealthWarning | HealthCritical

record system_metrics =
  sy_active_validator_count :: u32
  sy_total_validator_count :: u32
  sy_validator_set_capacity :: u32
  sy_total_reserved :: u128
  sy_total_slashed :: u128
  sy_total_rewards :: u128
  sy_average_stake :: u128
  sy_current_epoch :: u32
  sy_blocks_in_current_epoch :: u32
  sy_epoch_progress_percentage :: u32
  sy_average_trust_score :: u64
  sy_invariant_health :: invariant_health
  sy_finality_lag :: u32
  sy_missed_blocks_current_epoch :: u32

record performance_indicators =
  average_block_time :: u64
  block_production_rate :: u32
  consensus_participation_rate :: u32
  score_distribution_variance :: u64
  top_performer_score :: u64
  lowest_performer_score :: u64
  epoch_transition_efficiency :: u32
  governance_activity_level :: u32
  validator_churn_rate :: u32

record ('c, 'sig) dcf_metrics_world = "('c, 'sig) dcf_check_world" +
  SystemMetricsStorage :: system_metrics
  PerformanceIndicatorsStorage :: performance_indicators
  MetricsLastUpdated :: u32

section \<open>Indicators\<close>

text \<open>The final scores of the active validators that have a record, and how many of those authored blocks.\<close>

definition known_states ::
  "('c, 'sig) dcf_config \<Rightarrow> ('c, 'sig, 'z) dcf_world_scheme \<Rightarrow> dvf_validator_state list" where
  "known_states cfg w = List.map_filter (dcf_validator_state cfg w) (dcf_active_validators cfg w)"

definition mean_of :: "u64 list \<Rightarrow> u64" where
  "mean_of scores = (if scores \<noteq> [] then sum_list scores div of_nat (length scores) else 0)"

definition score_variance :: "u64 list \<Rightarrow> u64" where
  "score_variance scores =
     (let mean_score = mean_of scores
      in if scores \<noteq> []
         then sum_list (map (\<lambda>score.
                let diff = (if score > mean_score then score - mean_score else mean_score - score)
                in diff * diff) scores) div of_nat (length scores)
         else 0)"

definition performance_indicators_of ::
  "('c, 'sig) dcf_config \<Rightarrow> ('c, 'sig, 'z) dcf_world_scheme \<Rightarrow> performance_indicators" where
  "performance_indicators_of cfg w =
     (let states = known_states cfg w;
          scores = map (\<lambda>st. final_score (current st)) states;
          participation_count = of_nat (length (filter (\<lambda>st. authored_blocks (current st) > 0) states)) :: u32;
          active = dcf_active_validators cfg w
      in \<lparr>average_block_time = 6000, block_production_rate = 10,
          consensus_participation_rate = (if length active > 0
            then participation_count * 100 div of_nat (length active) else 0),
          score_distribution_variance = score_variance scores,
          top_performer_score = (if scores = [] then 0 else Max (set scores)),
          lowest_performer_score = (if scores = [] then 0 else Min (set scores)),
          epoch_transition_efficiency = 100,
          governance_activity_level = NextProposalId w, validator_churn_rate = 0\<rparr>)"

definition update_performance_indicators ::
  "('c, 'sig) dcf_config \<Rightarrow> ('c, 'sig, 'z) dcf_metrics_world_scheme \<Rightarrow> ('c, 'sig, 'z) dcf_metrics_world_scheme" where
  "update_performance_indicators cfg w = w\<lparr>PerformanceIndicatorsStorage := performance_indicators_of cfg w\<rparr>"

section \<open>Metrics\<close>

definition system_metrics_of ::
  "('c, 'sig) dcf_config \<Rightarrow> ('c, 'sig, 'z) dcf_check_world_scheme \<Rightarrow> system_metrics" where
  "system_metrics_of cfg w =
     (let current_block = block_number w;
          active = dcf_active_validators cfg w;
          active_count = of_nat (length active) :: u32;
          total_reserved = fold (\<lambda>v t. sat_add t (sm_val 0 (Stake w) v)) active 0;
          total_trust_score = fold (\<lambda>v t. sat_add t (sm_val 0 (ValidatorTrustScores w) v)) active 0;
          missed = fold (\<lambda>st t. sat_add t (missed_blocks (current st))) (known_states cfg w) 0;
          blocks_per = blocks_per_epoch (EpochConfigStorage w);
          blocks_in = (if blocks_per > 0 then current_block mod blocks_per else 0)
      in \<lparr>sy_active_validator_count = active_count,
          sy_total_validator_count = of_nat (length (dcf_validator_set cfg w)),
          sy_validator_set_capacity = PosMaxValidators (pos_cfg cfg),
          sy_total_reserved = total_reserved,
          sy_total_slashed = EpochTotalSlashed w,
          sy_total_rewards = EpochTotalRewarded w,
          sy_average_stake = (if active_count > 0 then total_reserved div ucast active_count else 0),
          sy_current_epoch = DcfCurrentEpoch w,
          sy_blocks_in_current_epoch = blocks_in,
          sy_epoch_progress_percentage = (if blocks_per > 0 then blocks_in * 100 div blocks_per else 0),
          sy_average_trust_score = (if active_count > 0 then total_trust_score div ucast active_count else 0),
          sy_invariant_health = (if has_invariant_violations cfg w then HealthCritical else Healthy),
          sy_finality_lag = sat_sub current_block (LastFinalizedBlock w),
          sy_missed_blocks_current_epoch = missed\<rparr>)"

definition update_system_metrics ::
  "('c, 'sig) dcf_config \<Rightarrow> ('c, 'sig, 'z) dcf_metrics_world_scheme \<Rightarrow> ('c, 'sig, 'z) dcf_metrics_world_scheme" where
  "update_system_metrics cfg w =
     (let w1 = update_performance_indicators cfg (w\<lparr>SystemMetricsStorage := system_metrics_of cfg w\<rparr>)
      in w1\<lparr>MetricsLastUpdated := block_number w1\<rparr>)"

text \<open>The epoch transition with the check of the invariants and the metrics.\<close>

definition reported_epoch_transition ::
  "('c, 'sig) dcf_config \<Rightarrow> u128 \<Rightarrow> ('c, 'sig, 'z) dcf_metrics_world_scheme
     \<Rightarrow> ('c, 'sig, 'z) dcf_metrics_world_scheme" where
  "reported_epoch_transition cfg minimum_balance w =
     (case begin_epoch cfg w of ((added, removed), w1) \<Rightarrow>
        update_system_metrics cfg
          (announce_epoch cfg (DcfCurrentEpoch w) added removed
            (snd (check_invariants_at_epoch_boundary cfg minimum_balance (sat_add (DcfCurrentEpoch w) 1) w1))))"

section \<open>Properties\<close>

text \<open>
  The properties of the stored metrics: percentages are percentages, and the health follows the report
  that the same epoch transition stored.
\<close>

section \<open>Percentages\<close>

lemma scaled_percentage:
  assumes "unat part \<le> unat whole" and "unat whole * 100 < 2 ^ 32" and "whole \<noteq> 0"
  shows "unat (part * 100 div whole :: u32) = unat part * 100 div unat whole"
    and "unat part * 100 div unat whole \<le> 100"
proof -
  have "unat part * 100 < 2 ^ 32"
    using assms(1,2) by linarith
  then show "unat (part * 100 div whole) = unat part * 100 div unat whole"
    by (simp add: unat_div unat_word_ariths)
  have "unat part * 100 div unat whole \<le> unat whole * 100 div unat whole"
    using assms(1) by (intro div_le_mono) simp
  then show "unat part * 100 div unat whole \<le> 100"
    using assms(3) by (simp add: unat_eq_zero)
qed

lemma known_states_length: "length (known_states cfg w) \<le> length (dcf_active_validators cfg w)"
  by (simp add: known_states_def List.map_filter_def)

lemma participation_bounded:
  assumes "unat (PosMaxValidators (pos_cfg cfg)) * 100 < 2 ^ 32"
  shows "consensus_participation_rate (performance_indicators_of cfg w) \<le> 100"
proof -
  let ?active = "dcf_active_validators cfg w"
  let ?part = "filter (\<lambda>st. authored_blocks (current st) > 0) (known_states cfg w)"
  have le: "length ?part \<le> length ?active"
    using known_states_length [of cfg w] length_filter_le order.trans by blast
  have bound: "length ?active * 100 < 2 ^ 32"
    using active_bounded [of cfg w] assms by linarith
  have words: "unat (of_nat (length ?part) :: u32) = length ?part"
    "unat (of_nat (length ?active) :: u32) = length ?active"
    using le bound by (simp_all add: unsigned_of_nat take_bit_nat_eq_self)
  show ?thesis
  proof (cases "length ?active > 0")
    case True
    then have nz: "of_nat (length ?active) \<noteq> (0 :: u32)"
      using words(2) by (metis unsigned_0 less_numeral_extra(3))
    have "unat (of_nat (length ?part) * 100 div of_nat (length ?active) :: u32) \<le> 100"
      using scaled_percentage [of "of_nat (length ?part)" "of_nat (length ?active)"] nz le bound
      by (simp add: words)
    with True show ?thesis
      by (simp add: performance_indicators_of_def Let_def word_le_nat_alt)
  qed (simp add: performance_indicators_of_def Let_def)
qed

lemma progress_bounded:
  assumes "unat (blocks_per_epoch (EpochConfigStorage w)) * 100 < 2 ^ 32"
  shows "sy_epoch_progress_percentage (system_metrics_of cfg w) < 100"
proof (cases "blocks_per_epoch (EpochConfigStorage w) > 0")
  case True
  let ?b = "blocks_per_epoch (EpochConfigStorage w)"
  let ?r = "block_number w mod ?b"
  have b: "0 < unat ?b"
    using True by (simp add: word_less_nat_alt)
  then have r: "unat ?r < unat ?b"
    by (simp add: unat_mod)
  then have "unat (?r * 100 div ?b) = unat ?r * 100 div unat ?b"
    using assms True by (intro scaled_percentage) (simp_all add: word_gt_0)
  also have "\<dots> < 100"
    using r b by (simp add: div_less_iff_less_mult)
  finally show ?thesis
    using True by (simp add: system_metrics_of_def Let_def word_less_nat_alt)
qed (simp add: system_metrics_of_def Let_def)

lemma scores_ordered:
  "lowest_performer_score (performance_indicators_of cfg w) \<le> top_performer_score (performance_indicators_of cfg w)"
proof (cases "known_states cfg w = []")
  case False
  then have "Min ((\<lambda>st. final_score (current st)) ` set (known_states cfg w))
      \<le> Max ((\<lambda>st. final_score (current st)) ` set (known_states cfg w))"
    by (intro Min_le_iff [THEN iffD2] bexI [of _ "final_score (current (hd (known_states cfg w)))"])
      (auto intro: Max_ge)
  with False show ?thesis
    by (simp add: performance_indicators_of_def Let_def)
qed (simp add: performance_indicators_of_def Let_def)

text \<open>
  The stored percentages stay in range and the lowest score does not exceed the highest, whatever the
  state, provided that neither the length of an epoch nor the number of validators exceeds a
  hundredth of the machine range.
\<close>

theorem metrics_in_range:
  assumes "unat (blocks_per_epoch (EpochConfigStorage w)) * 100 < 2 ^ 32"
    and "unat (PosMaxValidators (pos_cfg cfg)) * 100 < 2 ^ 32"
  shows "sy_epoch_progress_percentage (SystemMetricsStorage (update_system_metrics cfg w)) < 100
    \<and> consensus_participation_rate (PerformanceIndicatorsStorage (update_system_metrics cfg w)) \<le> 100
    \<and> lowest_performer_score (PerformanceIndicatorsStorage (update_system_metrics cfg w))
        \<le> top_performer_score (PerformanceIndicatorsStorage (update_system_metrics cfg w))"
proof -
  let ?w1 = "w\<lparr>SystemMetricsStorage := system_metrics_of cfg w\<rparr>"
  have "SystemMetricsStorage (update_system_metrics cfg w) = system_metrics_of cfg w"
    "PerformanceIndicatorsStorage (update_system_metrics cfg w) = performance_indicators_of cfg ?w1"
    by (simp_all add: update_system_metrics_def update_performance_indicators_def Let_def)
  then show ?thesis
    using progress_bounded [OF assms(1), of cfg] participation_bounded [OF assms(2), of ?w1]
      scores_ordered [of cfg ?w1] by simp
qed

definition metrics_world :: "(account_id \<Rightarrow> u128 \<times> u128, nat) dcf_metrics_world" where
  "metrics_world = dcf_check_world.extend
     (dcf_world.extend (sample_dcf_world\<lparr>ActiveValidators := []\<rparr>) (dcf_check_world.fields [] None 1 True []))
     (dcf_metrics_world.fields
       \<lparr>sy_active_validator_count = 0, sy_total_validator_count = 0, sy_validator_set_capacity = 0,
        sy_total_reserved = 0, sy_total_slashed = 0, sy_total_rewards = 0, sy_average_stake = 0,
        sy_current_epoch = 0, sy_blocks_in_current_epoch = 0, sy_epoch_progress_percentage = 0,
        sy_average_trust_score = 0, sy_invariant_health = Healthy, sy_finality_lag = 0,
        sy_missed_blocks_current_epoch = 0\<rparr>
       \<lparr>average_block_time = 0, block_production_rate = 0, consensus_participation_rate = 0,
        score_distribution_variance = 0, top_performer_score = 0, lowest_performer_score = 0,
        epoch_transition_efficiency = 0, governance_activity_level = 0, validator_churn_rate = 0\<rparr> 0)"

lemma metrics_world_fields:
  "EpochConfigStorage metrics_world = EpochConfigStorage sample_dcf_world"
  "ActiveValidators metrics_world = []" "PendingValidatorActions metrics_world = []"
  "ValidatorSet metrics_world = [alice, bob, charlie]"
  "ValidatorStates metrics_world = ValidatorStates sample_dcf_world"
  "balances metrics_world = balances sample_dcf_world"
  by (simp_all add: metrics_world_def dcf_check_world.defs dcf_world.defs sample_dcf_world_def
      empty_dcf_world_def)

theorem metrics_in_range_witness:
  "sy_epoch_progress_percentage (SystemMetricsStorage (update_system_metrics sample_config metrics_world)) < 100"
  using metrics_in_range [of metrics_world sample_config]
  by (simp add: metrics_world_fields dcf_sample_defs)

section \<open>Health\<close>

lemma epoch_mutate:
  "DcfCurrentEpoch (snd (mutate_validator cfg v (\<lambda>st w. (Inr (g st w), w)) w)) = DcfCurrentEpoch w"
  by (simp add: mutate_validator_def dcf_put_state_def update_validator_state_def split: option.split)

lemma epoch_trust: "DcfCurrentEpoch (snd (update_trust_score cfg v w)) = DcfCurrentEpoch w"
proof -
  have mutated: "DcfCurrentEpoch w2 = DcfCurrentEpoch w1"
    if "mutate_validator cfg v (\<lambda>st w. (Inr (g st w), w)) w1 = (r, w2)"
    for g r and w1 w2 :: "('a, 'b, 'c) dcf_world_scheme"
    using epoch_mutate [of cfg v g w1] that by simp
  show ?thesis
    by (auto simp: update_trust_score_def Let_def dcf_deposit_event_def dest!: mutated
        split: sum.split prod.split option.split)
qed

lemma epoch_begin: "DcfCurrentEpoch (snd (begin_epoch cfg w)) = sat_add (DcfCurrentEpoch w) 1"
proof -
  have trust: "DcfCurrentEpoch (update_all_trust_scores cfg w1) = DcfCurrentEpoch w1"
    for w1 :: "('a, 'b, 'c) dcf_world_scheme"
    by (simp add: update_all_trust_scores_def update_trust_score_stability_metrics_def Let_def
        each_keeps [where m = DcfCurrentEpoch] epoch_trust)
  have pending: "DcfCurrentEpoch (snd (apply_pending_validator_actions cfg w1)) = DcfCurrentEpoch w1"
    for w1 :: "('a, 'b, 'c) dcf_world_scheme"
    by (simp add: apply_pending_validator_actions_def Let_def dcf_put_active_def update_active_validators_def
        remove_pending_action_def fold_keeps [where m = DcfCurrentEpoch] split: prod.split)
  show ?thesis
    using pending [of "reset_epoch_totals (w\<lparr>DcfCurrentEpoch := sat_add (DcfCurrentEpoch w) 1\<rparr>)"]
    by (auto simp: begin_epoch_def Let_def trust dcf_put_active_def
        update_active_validators_def reset_epoch_totals_def pos_deposit_event_def split: prod.split)
qed

lemma announce_keeps_reports:
  fixes w :: "('a, 'b, 'c) dcf_check_world_scheme"
  shows "InvariantReports (announce_epoch cfg e added removed w) = InvariantReports w"
    and "DcfCurrentEpoch (announce_epoch cfg e added removed w) = DcfCurrentEpoch w"
proof -
  have "InvariantReports (uptime_event cfg e v w1) = InvariantReports w1"
    and "DcfCurrentEpoch (uptime_event cfg e v w1) = DcfCurrentEpoch w1"
    for v and w1 :: "('a, 'b, 'c) dcf_check_world_scheme"
    by (simp_all add: uptime_event_def Let_def dcf_deposit_event_def split: option.split)
  then have "InvariantReports (fold (uptime_event cfg e) vs w1) = InvariantReports w1"
    and "DcfCurrentEpoch (fold (uptime_event cfg e) vs w1) = DcfCurrentEpoch w1"
    for vs and w1 :: "('a, 'b, 'c) dcf_check_world_scheme"
    by (auto intro: fold_keeps [where m = InvariantReports] fold_keeps [where m = DcfCurrentEpoch])
  then show "InvariantReports (announce_epoch cfg e added removed w) = InvariantReports w"
    and "DcfCurrentEpoch (announce_epoch cfg e added removed w) = DcfCurrentEpoch w"
    by (simp_all add: announce_epoch_def Let_def push_epoch_history_def dcf_deposit_event_def split: prod.split)
qed

lemma check_reports:
  "InvariantReports (snd (check_invariants_at_epoch_boundary cfg mb e w))
    = sm_put e (fst (check_invariants_at_epoch_boundary cfg mb e w)) (InvariantReports w)"
  "DcfCurrentEpoch (snd (check_invariants_at_epoch_boundary cfg mb e w)) = DcfCurrentEpoch w"
  by (simp_all add: check_invariants_at_epoch_boundary_def Let_def check_deposit_event_def)

lemma reported_now: "reported_violations (DcfCurrentEpoch w) w \<Longrightarrow> has_invariant_violations cfg w"
  by (force simp: has_invariant_violations_def Let_def list_ex_iff sat_sub_def word_le_nat_alt unat_sub
      intro: bexI [of _ "unat (DcfCurrentEpoch w)"])

text \<open>
  When the checks of an epoch transition find anything, the transition stores the health
  \<open>Critical\<close>, for a false alarm of the economic check as for any other violation.
\<close>

theorem reported_violation_is_critical:
  assumes "check_economic_invariants cfg minimum_balance (snd (begin_epoch cfg w)) \<noteq> []
      \<or> check_validator_invariants cfg (snd (begin_epoch cfg w)) \<noteq> []"
  shows "sy_invariant_health (SystemMetricsStorage (reported_epoch_transition cfg minimum_balance w)) = HealthCritical"
proof -
  let ?next = "sat_add (DcfCurrentEpoch w) 1"
  obtain added removed w1 where start: "begin_epoch cfg w = ((added, removed), w1)"
    by (metis surj_pair)
  let ?c = "check_invariants_at_epoch_boundary cfg minimum_balance ?next w1"
  let ?w2 = "announce_epoch cfg (DcfCurrentEpoch w) added removed (snd ?c)"
  have "ir_violations (fst ?c) \<noteq> []"
    using assms by (auto simp: start check_invariants_at_epoch_boundary_def Let_def bv_truncate_def)
  moreover have "DcfCurrentEpoch w1 = ?next"
    using epoch_begin [of cfg w] by (simp add: start)
  ultimately have "reported_violations (DcfCurrentEpoch ?w2) ?w2"
    by (simp add: reported_violations_def announce_keeps_reports check_reports smap.lookup_insert)
  then have "has_invariant_violations cfg ?w2"
    by (rule reported_now)
  then show ?thesis
    by (simp add: reported_epoch_transition_def start update_system_metrics_def
        update_performance_indicators_def system_metrics_of_def Let_def)
qed

theorem reported_violation_is_critical_witness:
  "sy_invariant_health (SystemMetricsStorage
    (reported_epoch_transition sample_config 1000000000 metrics_world)) = HealthCritical"
proof -
  define u where "u = snd (begin_epoch sample_config metrics_world)"
  have start: "ValidatorSet u = [alice, bob, charlie]" "balances u = balances sample_dcf_world"
    "ValidatorStates u = ValidatorStates sample_dcf_world"
    by (simp_all add: u_def begin_epoch_def Let_def apply_pending_validator_actions_def join_requests_def
        leave_requests_def sort_high_def dcf_active_validators_def bv_truncate_def metrics_world_fields
        update_all_trust_scores_def update_trust_score_stability_metrics_def dcf_put_active_def
        update_active_validators_def reset_epoch_totals_def pos_deposit_event_def)
  have parts: "dcf_validator_set sample_config u = [alice, bob, charlie]"
    "reserved_of sample_config u v = 20000"
    "v \<in> {alice, bob, charlie} \<Longrightarrow> estimated_slash sample_config 1000000000 v u = 50000000000" for v
    by (auto simp: dcf_validator_set_def bv_truncate_def reserved_of_def estimated_slash_def start
        dcf_validator_state_def dcf_sample_defs map_defs sat_mul_def)
  have "check_economic_invariants sample_config 1000000000 u \<noteq> []"
    by (simp add: check_economic_invariants_def Let_def parts sat_add_def)
  then show ?thesis
    unfolding u_def by (intro reported_violation_is_critical disjI1)
qed

end
