(* ===== verification/Validator_Profiles.thy ===== *)
theory Validator_Profiles
  imports Dcf_Config
begin

text \<open>
  The calls of \<open>pallet-cerulea-dcf\<close> by which validators describe themselves and by which their activity is
  recorded, and its checks on leaving and rejoining, which stand beside those of the registry.
  \<open>offchain_time\<close> stands for the clock that \<open>get_current_timestamp\<close> reads.
\<close>

section \<open>Data\<close>

record profile_limits =
  MaxCommissionRate :: u32
  MaxPerformanceHistoryLength :: u32

datatype profile_event =
    ValidatorNameRegistered account_id "8 word list"
  | ValidatorMetadataUpdated account_id "8 word list"
  | ValidatorActivityUpdated account_id u32 u32 u32

record ('c, 'sig) dcf_profile_world = "('c, 'sig) dcf_world" +
  profile_events :: "profile_event list"

definition profile_deposit_event ::
  "profile_event \<Rightarrow> ('c, 'sig, 'z) dcf_profile_world_scheme \<Rightarrow> ('c, 'sig, 'z) dcf_profile_world_scheme" where
  "profile_deposit_event e w = w\<lparr>profile_events := profile_events w @ [e]\<rparr>"

text \<open>\<open>BoundedVec::try_from\<close>, also under an option (\<open>transpose\<close>).\<close>

definition try_bounded :: "nat \<Rightarrow> 'x list \<Rightarrow> 'x list option" where
  "try_bounded n xs = (if length xs \<le> n then Some xs else None)"

fun try_bounded_opt :: "nat \<Rightarrow> 'x list option \<Rightarrow> 'x list option option" where
  "try_bounded_opt n None = Some None"
| "try_bounded_opt n (Some xs) = map_option Some (try_bounded n xs)"

section \<open>Names and metadata\<close>

definition set_validator_name_call ::
  "origin \<Rightarrow> 8 word list \<Rightarrow> (('c, 'sig, 'z) dcf_profile_world_scheme, unit) call" where
  "set_validator_name_call orig name w =
     (case ensure_signed orig of Inl e \<Rightarrow> (Inl e, w) | Inr who \<Rightarrow>
      if \<not> sm_has (ValidatorStates w) who then (Inl (DcfErr DcfValidatorNotFound), w)
      else case try_bounded 32 name of
        None \<Rightarrow> (Inl (DcfErr DcfInvalidEpochConfig), w)
      | Some bounded_name \<Rightarrow>
          (Inr (), profile_deposit_event (ValidatorNameRegistered who bounded_name)
             (set_validator_name who bounded_name w)))"

record metadata_input =
  mi_name :: "8 word list"
  mi_website :: "8 word list option"
  mi_contact :: "8 word list option"
  mi_description :: "8 word list option"
  mi_location :: "8 word list option"
  mi_commission_rate :: "u32 option"
  mi_min_stake_required :: "u128 option"

text \<open>The conversions and checks of the input, in the order of the code; they all give the same error.\<close>

definition check_metadata ::
  "profile_limits \<Rightarrow> metadata_input
     \<Rightarrow> (8 word list \<times> 8 word list option \<times> 8 word list option \<times> 8 word list option \<times> 8 word list option) option" where
  "check_metadata L i =
     Option.bind (try_bounded 32 (mi_name i)) (\<lambda>name.
     Option.bind (try_bounded_opt 64 (mi_website i)) (\<lambda>website.
     Option.bind (try_bounded_opt 64 (mi_contact i)) (\<lambda>contact.
     Option.bind (try_bounded_opt 128 (mi_description i)) (\<lambda>description.
     Option.bind (try_bounded_opt 32 (mi_location i)) (\<lambda>location.
       case mi_commission_rate i of
         None \<Rightarrow> Some (name, website, contact, description, location)
       | Some rate \<Rightarrow> if rate \<le> MaxCommissionRate L
                      then Some (name, website, contact, description, location) else None)))))"

definition get_current_timestamp :: "('c, 'sig, 'z) dcf_world_scheme \<Rightarrow> u64" where
  "get_current_timestamp w = offchain_time w"

definition set_validator_metadata_call ::
  "profile_limits \<Rightarrow> origin \<Rightarrow> metadata_input
     \<Rightarrow> (('c, 'sig, 'z) dcf_profile_world_scheme, unit) call" where
  "set_validator_metadata_call L orig i w =
     (case ensure_signed orig of Inl e \<Rightarrow> (Inl e, w) | Inr who \<Rightarrow>
      if \<not> sm_has (ValidatorStates w) who then (Inl (DcfErr DcfValidatorNotFound), w)
      else case check_metadata L i of
        None \<Rightarrow> (Inl (DcfErr DcfInvalidEpochConfig), w)
      | Some (name, website, contact, description, location) \<Rightarrow>
          (let now = get_current_timestamp w;
               metadata = \<lparr>md_name = name, md_website = website, md_contact = contact,
                 md_description = description, md_location = location,
                 md_commission_rate = mi_commission_rate i,
                 md_min_stake_required = mi_min_stake_required i,
                 md_created_at = (case sm_get (ValidatorMetadata w) who of
                    None \<Rightarrow> now | Some m \<Rightarrow> md_created_at m),
                 md_updated_at = now\<rparr>;
               w1 = profile_deposit_event (ValidatorNameRegistered who name)
                      (set_validator_name who name (set_validator_metadata who metadata w));
               w2 = (if \<not> sm_has (ValidatorJoinTime w1) who
                     then set_validator_join_time who (block_number w1) w1 else w1)
           in (Inr (), profile_deposit_event (ValidatorMetadataUpdated who name) w2)))"

section \<open>Activity\<close>

definition calculate_uptime_percentage ::
  "('c, 'sig) dcf_config \<Rightarrow> account_id \<Rightarrow> ('c, 'sig, 'z) dcf_world_scheme \<Rightarrow> u32" where
  "calculate_uptime_percentage cfg v w =
     (let precision = PercentagePrecision (poi_cfg cfg);
          current_block = block_number w;
          join_time_block = sm_val 0 (ValidatorJoinTime w) v;
          total_blocks_since_join = sat_sub current_block join_time_block;
          blocks_since_last_seen = sat_sub current_block (sm_val 0 (ValidatorLastSeen w) v);
          active_blocks = sat_sub total_blocks_since_join blocks_since_last_seen;
          percentage = ucast active_blocks * ucast precision div ucast total_blocks_since_join :: u64
      in if current_block \<le> join_time_block then precision
         else if total_blocks_since_join = 0 then precision
         else ucast (min percentage (ucast precision)))"

text \<open>Removing from an empty list panics (\<open>None\<close>); it takes a limit of zero.\<close>

definition push_performance ::
  "profile_limits \<Rightarrow> performance_record \<Rightarrow> performance_record list \<Rightarrow> performance_record list option" where
  "push_performance L r history =
     (let full = (length history \<ge> unat (MaxPerformanceHistoryLength L))
      in if full \<and> history = [] then None
         else
           (let rest = (if full then tl history else history)
            in Some (case bv_try_push 100 r rest of None \<Rightarrow> rest | Some h \<Rightarrow> h)))"

definition update_validator_activity ::
  "('c, 'sig) dcf_config \<Rightarrow> profile_limits \<Rightarrow> origin \<Rightarrow> account_id \<Rightarrow> u32 \<Rightarrow> u32
     \<Rightarrow> ('c, 'sig, 'z) dcf_profile_world_scheme
     \<Rightarrow> ((dispatch_error + unit) \<times> ('c, 'sig, 'z) dcf_profile_world_scheme) option" where
  "update_validator_activity cfg L orig v authored missed w =
     (case ensure_root orig of Inl e \<Rightarrow> Some (Inl e, w) | Inr _ \<Rightarrow>
      (let w1 = set_validator_last_seen v (block_number w) w;
           w2 = set_validator_blocks_authored v (sm_val 0 (ValidatorBlocksAuthored w1) v + authored) w1;
           w3 = set_validator_blocks_missed v (sm_val 0 (ValidatorBlocksMissed w2) v + missed) w2
       in case dcf_validator_state cfg w3 v of
            None \<Rightarrow> Some (Inr (), w3)
          | Some state \<Rightarrow>
              (let percentage = calculate_uptime_percentage cfg v w3;
                   r = \<lparr>pr_epoch = DcfCurrentEpoch w3, pr_blocks_authored = authored,
                     pr_blocks_missed = missed, pr_uptime_percentage = percentage,
                     pr_inference_score = inference_score (current state),
                     pr_stake_score = stake_score (current state),
                     pr_final_score = final_score (current state),
                     pr_participation_rate = participation_rate state,
                     pr_timestamp = get_current_timestamp w3\<rparr>
               in case push_performance L r
                         (bv_truncate 100 (sm_val [] (ValidatorPerformanceHistory w3) v)) of
                    None \<Rightarrow> None
                  | Some history \<Rightarrow>
                      Some (Inr (), profile_deposit_event
                        (ValidatorActivityUpdated v authored missed percentage)
                        (set_validator_performance_history v history w3)))))"

section \<open>Eligibility\<close>

text \<open>
  \<open>Currency::can_reserve\<close> is documented to give the result of \<open>reserve\<close> without its effect.
\<close>

definition dcf_validate_rejoin_eligibility ::
  "('c, 'sig) dcf_config \<Rightarrow> account_id \<Rightarrow> (('c, 'sig, 'z) dcf_world_scheme, unit) call" where
  "dcf_validate_rejoin_eligibility cfg who w =
     (let min_stake = MinStake (pos_cfg cfg);
          check_stake = (\<lambda>w1. if free_balance (currency_of cfg) (balances w1) who < min_stake
              \<or> reserve (currency_of cfg) who min_stake (balances w1) = None
            then (Inl (DcfErr DcfValidatorRejoinStakeReservationFailed), w1) else (Inr (), w1))
      in if sm_has (ValidatorLeaveRequests w) who
         then (Inl (DcfErr DcfValidatorHasPendingLeaveRequest), w)
         else case sm_get (RecentlyRemovedValidators w) who of
           None \<Rightarrow> check_stake w
         | Some left_at_block \<Rightarrow>
             if sat_sub (block_number w) left_at_block < LeaveCooldown (pos_cfg cfg)
             then (Inl (DcfErr DcfValidatorRejoinCooldownNotExpired), w)
             else check_stake (remove_recently_removed_validator who w))"

definition validate_leave_request_eligibility ::
  "('c, 'sig) dcf_config \<Rightarrow> account_id \<Rightarrow> (('c, 'sig, 'z) dcf_world_scheme, unit) call" where
  "validate_leave_request_eligibility cfg who w =
     (if sm_has (ValidatorLeaveRequests w) who
      then (Inl (DcfErr DcfConcurrentLeaveRequestNotAllowed), w)
      else if who \<notin> set (dcf_validator_set cfg w) then (Inl (DcfErr DcfValidatorNotInSet), w)
      else (Inr (), w))"

definition dcf_detailed_cooldown_status ::
  "('c, 'sig) dcf_config \<Rightarrow> ('c, 'sig, 'z) dcf_world_scheme \<Rightarrow> account_id \<Rightarrow> (u32 \<times> bool) option" where
  "dcf_detailed_cooldown_status cfg w who =
     (let cooldown_period = LeaveCooldown (pos_cfg cfg)
      in case sm_get (ValidatorLeaveRequests w) who of
           Some leave_request_block \<Rightarrow>
             Some (sat_sub cooldown_period (sat_sub (block_number w) leave_request_block), False)
         | None \<Rightarrow>
             (case sm_get (RecentlyRemovedValidators w) who of
                Some removed_at_block \<Rightarrow>
                  (let blocks_since_removed = sat_sub (block_number w) removed_at_block
                   in if blocks_since_removed < cooldown_period
                      then Some (sat_sub cooldown_period blocks_since_removed, False)
                      else Some (0, True))
              | None \<Rightarrow> None))"

section \<open>Properties\<close>

text \<open>
  The properties of profiles and activity, and that the checks on leaving and rejoining in
  \<open>pallet-cerulea-dcf\<close> agree with those of the registry.
\<close>

section \<open>Metadata\<close>

lemma try_bounded_Some: "try_bounded n xs = Some ys \<longleftrightarrow> ys = xs \<and> length xs \<le> n"
  by (auto simp: try_bounded_def)

lemma try_bounded_opt_Some:
  "try_bounded_opt n x = Some y \<longleftrightarrow> y = x \<and> (\<forall>xs. x = Some xs \<longrightarrow> length xs \<le> n)"
  by (cases x) (auto simp: try_bounded_Some)

lemma check_metadata_Some:
  "check_metadata L i = Some r \<longleftrightarrow>
    r = (mi_name i, mi_website i, mi_contact i, mi_description i, mi_location i)
    \<and> length (mi_name i) \<le> 32 \<and> (\<forall>xs. mi_website i = Some xs \<longrightarrow> length xs \<le> 64)
    \<and> (\<forall>xs. mi_contact i = Some xs \<longrightarrow> length xs \<le> 64)
    \<and> (\<forall>xs. mi_description i = Some xs \<longrightarrow> length xs \<le> 128)
    \<and> (\<forall>xs. mi_location i = Some xs \<longrightarrow> length xs \<le> 32)
    \<and> (\<forall>rate. mi_commission_rate i = Some rate \<longrightarrow> rate \<le> MaxCommissionRate L)"
  by (auto simp: check_metadata_def bind_eq_Some_conv try_bounded_Some try_bounded_opt_Some
      split: option.splits if_splits)

text \<open>
  A successful call stores the description as it was given, with the time of its first creation kept over
  later updates and the current time as the time of the update, registers the name of the
  description as the name of the account, and leaves the entries of all other accounts alone.
\<close>

theorem metadata_roundtrip:
  assumes "set_validator_metadata_call L (Signed v) i w = (Inr (), w')"
  shows "sm_get (ValidatorMetadata w') v = Some \<lparr>md_name = mi_name i, md_website = mi_website i,
      md_contact = mi_contact i, md_description = mi_description i, md_location = mi_location i,
      md_commission_rate = mi_commission_rate i, md_min_stake_required = mi_min_stake_required i,
      md_created_at = (case sm_get (ValidatorMetadata w) v of
        None \<Rightarrow> get_current_timestamp w | Some m \<Rightarrow> md_created_at m),
      md_updated_at = get_current_timestamp w\<rparr>
    \<and> sm_get (ValidatorNames w') v = Some (mi_name i)
    \<and> (u \<noteq> v \<longrightarrow> sm_get (ValidatorMetadata w') u = sm_get (ValidatorMetadata w) u
         \<and> sm_get (ValidatorNames w') u = sm_get (ValidatorNames w) u)"
proof -
  obtain r where r: "check_metadata L i = Some r"
    using assms by (auto simp: set_validator_metadata_call_def split: option.splits if_splits)
  then have parts: "r = (mi_name i, mi_website i, mi_contact i, mi_description i, mi_location i)"
    and "length (mi_name i) \<le> 32"
    unfolding check_metadata_Some by blast+
  then have name: "bv_truncate 32 (mi_name i) = mi_name i"
    by (simp add: bv_truncate_def)
  show ?thesis
    using assms by (auto simp: set_validator_metadata_call_def r parts Let_def name profile_deposit_event_def
        set_validator_name_def set_validator_metadata_def set_validator_join_time_def smap.lookup_insert
        split: if_splits)
qed

definition profile_world :: "(account_id \<Rightarrow> u128 \<times> u128, nat) dcf_profile_world" where
  "profile_world = dcf_world.extend (sample_dcf_world\<lparr>offchain_time := 7000,
     ValidatorMetadata := [(alice, \<lparr>md_name = [65], md_website = None, md_contact = None,
       md_description = None, md_location = None, md_commission_rate = None,
       md_min_stake_required = None, md_created_at = 5000, md_updated_at = 5000\<rparr>)]\<rparr>)
     (dcf_profile_world.fields [])"

definition sample_input :: metadata_input where
  "sample_input = \<lparr>mi_name = [65, 108], mi_website = Some [119], mi_contact = None,
     mi_description = None, mi_location = None, mi_commission_rate = Some 500, mi_min_stake_required = None\<rparr>"

lemma profile_world_fields:
  "ValidatorStates profile_world = ValidatorStates sample_dcf_world" "offchain_time profile_world = 7000"
  "map_option md_created_at (sm_get (ValidatorMetadata profile_world) alice) = Some 5000"
  by (simp_all add: profile_world_def dcf_world.defs map_defs)

theorem metadata_roundtrip_witness:
  "map_option md_created_at (sm_get (ValidatorMetadata (snd (set_validator_metadata_call
      \<lparr>MaxCommissionRate = 10000, MaxPerformanceHistoryLength = 100\<rparr> (Signed alice) sample_input
      profile_world))) alice) = Some 5000"
proof -
  let ?L = "\<lparr>MaxCommissionRate = 10000, MaxPerformanceHistoryLength = 100\<rparr>"
  have "check_metadata ?L sample_input = Some (mi_name sample_input, mi_website sample_input,
      mi_contact sample_input, mi_description sample_input, mi_location sample_input)"
    unfolding check_metadata_Some by (simp add: sample_input_def)
  moreover have "sm_has (ValidatorStates profile_world) alice"
    by (simp add: profile_world_fields sample_dcf_world_def map_defs)
  ultimately obtain w' where w': "set_validator_metadata_call ?L (Signed alice) sample_input profile_world = (Inr (), w')"
    by (simp add: set_validator_metadata_call_def Let_def)
  show ?thesis
    using metadata_roundtrip [OF w'] profile_world_fields(3) by (auto simp: w' split: option.split)
qed

definition bounded_metadata :: "profile_limits \<Rightarrow> validator_metadata_info \<Rightarrow> bool" where
  "bounded_metadata L m \<longleftrightarrow> length (md_name m) \<le> 32
     \<and> (\<forall>xs. md_website m = Some xs \<longrightarrow> length xs \<le> 64)
     \<and> (\<forall>xs. md_contact m = Some xs \<longrightarrow> length xs \<le> 64)
     \<and> (\<forall>xs. md_description m = Some xs \<longrightarrow> length xs \<le> 128)
     \<and> (\<forall>xs. md_location m = Some xs \<longrightarrow> length xs \<le> 32)
     \<and> (\<forall>rate. md_commission_rate m = Some rate \<longrightarrow> rate \<le> MaxCommissionRate L)"

lemma metadata_bounded:
  assumes "\<And>u m. sm_get (ValidatorMetadata w) u = Some m \<Longrightarrow> bounded_metadata L m"
    and stored: "sm_get (ValidatorMetadata (snd (set_validator_metadata_call L orig i w))) u = Some m"
  shows "bounded_metadata L m"
proof (cases orig)
  case (Signed v)
  show ?thesis
  proof (cases "sm_has (ValidatorStates w) v \<and> check_metadata L i \<noteq> None")
    case True
    then obtain r where r: "check_metadata L i = Some r"
      by blast
    then have parts: "r = (mi_name i, mi_website i, mi_contact i, mi_description i, mi_location i)"
      unfolding check_metadata_Some by blast
    have "bounded_metadata L \<lparr>md_name = mi_name i, md_website = mi_website i, md_contact = mi_contact i,
        md_description = mi_description i, md_location = mi_location i,
        md_commission_rate = mi_commission_rate i, md_min_stake_required = s, md_created_at = c,
        md_updated_at = n\<rparr>" for s c n
      using r unfolding check_metadata_Some bounded_metadata_def by simp
    with True stored assms(1) [of u m] show ?thesis
      by (auto simp: Signed set_validator_metadata_call_def r parts Let_def
          profile_deposit_event_def set_validator_name_def set_validator_metadata_def
          set_validator_join_time_def smap.lookup_insert split: if_splits)
  next
    case False
    with stored assms(1) [of u m] show ?thesis
      by (auto simp: Signed set_validator_metadata_call_def split: if_splits option.splits)
  qed
qed (use stored assms(1) [of u m] in \<open>simp_all add: set_validator_metadata_call_def\<close>)

section \<open>Uptime\<close>

text \<open>
  The uptime of a validator that joined before the current block is the share of the blocks since then that
  lie before its last activity, scaled to the precision and rounded down; it is full for a validator that
  just joined, and it never exceeds the precision, so the cap in the code has no effect.
\<close>

theorem uptime_percentage:
  "unat (calculate_uptime_percentage cfg v w) =
    (let precision = unat (PercentagePrecision (poi_cfg cfg));
         joined = unat (sm_val 0 (ValidatorJoinTime w) v);
         seen = min (unat (sm_val 0 (ValidatorLastSeen w) v)) (unat (block_number w));
         now = unat (block_number w)
     in if now \<le> joined then precision else (seen - joined) * precision div (now - joined))
    \<and> calculate_uptime_percentage cfg v w \<le> PercentagePrecision (poi_cfg cfg)"
proof (cases "block_number w \<le> sm_val 0 (ValidatorJoinTime w) v")
  case True
  then show ?thesis
    by (simp add: calculate_uptime_percentage_def Let_def word_le_nat_alt)
next
  case False
  let ?p = "PercentagePrecision (poi_cfg cfg)"
  let ?j = "sm_val 0 (ValidatorJoinTime w) v"
  let ?s = "sm_val 0 (ValidatorLastSeen w) v"
  let ?n = "block_number w"
  define total where "total = sat_sub ?n ?j"
  define active where "active = sat_sub total (sat_sub ?n ?s)"
  have total: "unat total = unat ?n - unat ?j" "0 < unat total"
    using False by (simp_all add: total_def unat_sat_sub word_le_nat_alt)
  have active: "unat active = min (unat ?s) (unat ?n) - unat ?j"
    by (auto simp: active_def unat_sat_sub total min_def)
  have le: "unat active \<le> unat total"
    by (simp add: active_def unat_sat_sub)
  have bound: "unat active * unat ?p < 2 ^ 64"
  proof -
    have "unat active < 2 ^ 32" "unat ?p < 2 ^ 32"
      using unsigned_less [of active, where ?'a = nat] unsigned_less [of ?p, where ?'a = nat] by simp_all
    then have "unat active * unat ?p < 2 ^ 32 * 2 ^ 32"
      by (intro mult_strict_mono) simp_all
    then show ?thesis
      by simp
  qed
  have wide: "unat (ucast x :: u64) = unat x" for x :: u32
    by (simp add: unsigned_ucast_eq take_bit_nat_eq_self_iff) (rule order.strict_trans [OF unsigned_less], simp)
  have quotient: "unat (ucast active * ucast ?p div ucast total :: u64) = unat active * unat ?p div unat total"
    using bound by (simp add: unat_div unat_word_ariths wide)
  have capped: "unat active * unat ?p div unat total \<le> unat ?p"
    using le total(2) by (metis div_le_mono mult.commute mult_le_mono1 nonzero_mult_div_cancel_right
        less_numeral_extra(3))
  have "calculate_uptime_percentage cfg v w = ucast (min (ucast active * ucast ?p div ucast total :: u64) (ucast ?p))"
    using False total(2) by (auto simp: calculate_uptime_percentage_def Let_def total_def active_def)
  moreover have "min (ucast active * ucast ?p div ucast total :: u64) (ucast ?p)
      = ucast active * ucast ?p div ucast total"
    using capped by (simp add: min_def word_le_nat_alt quotient wide)
  ultimately have "unat (calculate_uptime_percentage cfg v w) = unat active * unat ?p div unat total"
    using capped unsigned_less [of ?p, where ?'a = nat]
    by (simp add: unsigned_ucast_eq quotient take_bit_nat_eq_self)
  then show ?thesis
    using False capped by (simp add: Let_def word_le_nat_alt total(1) active)
qed

lemma performance_history_bounded:
  "push_performance L r history = Some h \<Longrightarrow> length history \<le> 100 \<Longrightarrow> length h \<le> 100"
  by (auto simp: push_performance_def Let_def bv_try_push_def split: if_splits)

section \<open>Eligibility\<close>

lemma rejoin_checks_agree:
  "fst (dcf_validate_rejoin_eligibility cfg v w) = Inr () \<longleftrightarrow>
    fst (validate_rejoin_eligibility (pos_cfg cfg) v w) = Inr ()
    \<and> MinStake (pos_cfg cfg) \<le> free_balance (currency_of cfg) (balances w) v
    \<and> reserve (currency_of cfg) v (MinStake (pos_cfg cfg)) (balances w) \<noteq> None"
  by (auto simp: dcf_validate_rejoin_eligibility_def validate_rejoin_eligibility_def Let_def
      remove_recently_removed_validator_def linorder_not_less split: option.split)

lemma rejoin_states_agree:
  "fst (dcf_validate_rejoin_eligibility cfg v w) = Inr () \<Longrightarrow>
    snd (dcf_validate_rejoin_eligibility cfg v w) = snd (validate_rejoin_eligibility (pos_cfg cfg) v w)"
  by (cases "sm_get (RecentlyRemovedValidators w) v"; cases "sm_has (ValidatorLeaveRequests w) v")
    (simp_all add: dcf_validate_rejoin_eligibility_def validate_rejoin_eligibility_def Let_def
      remove_recently_removed_validator_def split: if_split)

lemma status_eligible:
  "fst (validate_rejoin_eligibility (pos_cfg cfg) v w) = Inr () \<longleftrightarrow>
    dcf_detailed_cooldown_status cfg w v = None \<or> dcf_detailed_cooldown_status cfg w v = Some (0, True)"
  by (auto simp: validate_rejoin_eligibility_def dcf_detailed_cooldown_status_def Let_def sm_has_def
      split: option.splits)

text \<open>
  The checks of the consensus pallet on rejoining agree with those of the registry: an account passes if and
  only if it passes there and can reserve the minimum stake, with the same effect on the state; and its
  status, which both pallets compute alike, then shows no cooldown or one that has expired.
\<close>

theorem eligibility_agrees:
  "(fst (dcf_validate_rejoin_eligibility cfg v w) = Inr () \<longleftrightarrow>
      (dcf_detailed_cooldown_status cfg w v = None \<or> dcf_detailed_cooldown_status cfg w v = Some (0, True))
      \<and> MinStake (pos_cfg cfg) \<le> free_balance (currency_of cfg) (balances w) v
      \<and> reserve (currency_of cfg) v (MinStake (pos_cfg cfg)) (balances w) \<noteq> None)
    \<and> (fst (dcf_validate_rejoin_eligibility cfg v w) = Inr () \<longrightarrow>
      validate_rejoin_eligibility (pos_cfg cfg) v w = dcf_validate_rejoin_eligibility cfg v w)
    \<and> dcf_detailed_cooldown_status cfg w v = get_validator_detailed_cooldown_status (pos_cfg cfg) w v"
proof (intro conjI impI)
  show "fst (dcf_validate_rejoin_eligibility cfg v w) = Inr () \<longleftrightarrow>
      (dcf_detailed_cooldown_status cfg w v = None \<or> dcf_detailed_cooldown_status cfg w v = Some (0, True))
      \<and> MinStake (pos_cfg cfg) \<le> free_balance (currency_of cfg) (balances w) v
      \<and> reserve (currency_of cfg) v (MinStake (pos_cfg cfg)) (balances w) \<noteq> None"
    unfolding rejoin_checks_agree status_eligible by blast
  show "validate_rejoin_eligibility (pos_cfg cfg) v w = dcf_validate_rejoin_eligibility cfg v w"
    if "fst (dcf_validate_rejoin_eligibility cfg v w) = Inr ()"
    using that rejoin_checks_agree [of cfg v w] rejoin_states_agree [OF that] by (simp add: prod_eq_iff)
  show "dcf_detailed_cooldown_status cfg w v = get_validator_detailed_cooldown_status (pos_cfg cfg) w v"
    by (simp add: dcf_detailed_cooldown_status_def get_validator_detailed_cooldown_status_def Let_def)
qed

theorem eligibility_agrees_witness:
  "validate_rejoin_eligibility (pos_cfg sample_config) alice sample_dcf_world
    = dcf_validate_rejoin_eligibility sample_config alice sample_dcf_world"
  using eligibility_agrees [of sample_config alice sample_dcf_world]
  by (simp add: dcf_detailed_cooldown_status_def dcf_sample_defs map_defs)

end
