(* ===== verification/Genesis_Checks.thy ===== *)
theory Genesis_Checks
  imports Dcf_Genesis Dcf_Config
begin

text \<open>
  The checks of a genesis configuration that root can have made on a running chain
  (\<open>validate_genesis_configuration\<close>, \<open>dry_run_genesis_configuration\<close>), with the report of the dry run.
  The texts of errors, checks and warnings are constructors here. \<open>MinActiveValidators\<close> of the staking
  pallet is an argument.
\<close>

section \<open>Data\<close>

datatype genesis_error =
    NoGenesisValidators
  | DuplicateGenesisValidator nat account_id
  | TooManyGenesisValidators nat
  | TooFewGenesisValidators nat
  | StakesLengthMismatch nat nat
  | GenesisStakeTooLow nat u128
  | ScoresLengthMismatch nat nat
  | GenesisScoreTooHigh nat u32
  | NamesLengthMismatch nat nat
  | GenesisNameTooLong nat nat
  | GenesisEpochZero
  | GenesisEpochTooLong u32
  | EpochMinStakeMismatch u128
  | EpochMaxValidatorsMismatch u32
  | InitialTrustOutOfBounds u64
  | ConsensusWeightsZero

datatype genesis_warning = SmallValidatorSet nat | StakeInequality u128 u128 | ShortEpoch u32 | LongEpoch u32

datatype genesis_check_name = StakesCheck | SetSizeCheck | EpochLengthCheck | TrustCheck | WeightsCheck

record genesis_validation_report =
  gr_validator_count :: u32
  gr_total_stake :: u128
  gr_average_stake :: u128
  gr_min_stake_validator :: "(account_id \<times> u128) option"
  gr_max_stake_validator :: "(account_id \<times> u128) option"
  gr_epoch_config :: epoch_config
  gr_invariant_checks :: "genesis_check_name list"
  gr_warnings :: "genesis_warning list"
  gr_validation_passed :: bool

datatype genesis_event =
    GenesisValidationSucceeded u32 u128
  | GenesisValidationFailed genesis_error
  | GenesisDryRunCompleted u32 u128 u32 u32
  | GenesisDryRunFailed genesis_error

record ('c, 'sig) dcf_genesis_world = "('c, 'sig) dcf_world" +
  genesis_events :: "genesis_event list"

definition genesis_deposit ::
  "genesis_event \<Rightarrow> ('c, 'sig, 'z) dcf_genesis_world_scheme \<Rightarrow> ('c, 'sig, 'z) dcf_genesis_world_scheme" where
  "genesis_deposit e w = w\<lparr>genesis_events := genesis_events w @ [e]\<rparr>"

section \<open>The comprehensive validation\<close>

text \<open>The first entry, with its index, that does not satisfy a test.\<close>

fun first_bad :: "nat \<Rightarrow> ('x \<Rightarrow> bool) \<Rightarrow> 'x list \<Rightarrow> (nat \<times> 'x) option" where
  "first_bad i ok [] = None"
| "first_bad i ok (x # xs) = (if ok x then first_bad (Suc i) ok xs else Some (i, x))"

fun first_repeated :: "nat \<Rightarrow> 'x list \<Rightarrow> 'x list \<Rightarrow> (nat \<times> 'x) option" where
  "first_repeated i seen [] = None"
| "first_repeated i seen (x # xs) =
     (if x \<in> set seen then Some (i, x) else first_repeated (Suc i) (x # seen) xs)"

definition check_genesis_stakes :: "('c, 'sig) dcf_config \<Rightarrow> dcf_genesis \<Rightarrow> genesis_error + unit" where
  "check_genesis_stakes cfg g =
     (let n = length (dg_validators g); given = dg_validator_stakes g; low = MinStake (pos_cfg cfg)
      in if given \<noteq> [] \<and> length given \<noteq> n then Inl (StakesLengthMismatch (length given) n)
         else case first_bad 0 (\<lambda>s. s \<ge> low) (column_or low g given) of
           Some (i, s) \<Rightarrow> Inl (GenesisStakeTooLow i s)
         | None \<Rightarrow> Inr ())"

definition check_genesis_scores :: "('c, 'sig) dcf_config \<Rightarrow> dcf_genesis \<Rightarrow> genesis_error + unit" where
  "check_genesis_scores cfg g =
     (let n = length (dg_validators g); given = dg_validator_scores g;
          max_score = ucast (MaxValidatorScore (poi_cfg cfg)) :: u32
      in if given = [] then Inr ()
         else if length given \<noteq> n then Inl (ScoresLengthMismatch (length given) n)
         else case first_bad 0 (\<lambda>s. s \<le> max_score) given of
           Some (i, s) \<Rightarrow> Inl (GenesisScoreTooHigh i s)
         | None \<Rightarrow> Inr ())"

definition name_fits :: "('c, 'sig) dcf_config \<Rightarrow> 8 word list option \<Rightarrow> bool" where
  "name_fits cfg nm = (case nm of None \<Rightarrow> True | Some bytes \<Rightarrow> length bytes \<le> unat (DcfMaxValidatorNameSize cfg))"

definition check_genesis_names :: "('c, 'sig) dcf_config \<Rightarrow> dcf_genesis \<Rightarrow> genesis_error + unit" where
  "check_genesis_names cfg g =
     (let n = length (dg_validators g); given = dg_validator_names g
      in if given = [] then Inr ()
         else if length given \<noteq> n then Inl (NamesLengthMismatch (length given) n)
         else case first_bad 0 (name_fits cfg) given of
           Some (i, nm) \<Rightarrow> Inl (GenesisNameTooLong i (case nm of None \<Rightarrow> 0 | Some bytes \<Rightarrow> length bytes))
         | None \<Rightarrow> Inr ())"

definition check_genesis_epoch :: "('c, 'sig) dcf_config \<Rightarrow> epoch_config \<Rightarrow> genesis_error + unit" where
  "check_genesis_epoch cfg ec =
     (if blocks_per_epoch ec = 0 then Inl GenesisEpochZero
      else if blocks_per_epoch ec > 100000 then Inl (GenesisEpochTooLong (blocks_per_epoch ec))
      else if ec_min_stake ec \<noteq> MinStake (pos_cfg cfg) then Inl (EpochMinStakeMismatch (ec_min_stake ec))
      else if ec_max_validators ec \<noteq> PosMaxValidators (pos_cfg cfg)
      then Inl (EpochMaxValidatorsMismatch (ec_max_validators ec))
      else Inr ())"

definition then_check :: "'e + unit \<Rightarrow> 'e + 'r \<Rightarrow> 'e + 'r" where
  "then_check first second = (case first of Inl e \<Rightarrow> Inl e | Inr _ \<Rightarrow> second)"

definition validate_genesis_comprehensive ::
  "('c, 'sig) dcf_config \<Rightarrow> u32 \<Rightarrow> dcf_genesis \<Rightarrow> genesis_error + unit" where
  "validate_genesis_comprehensive cfg min_active g =
     (let n = length (dg_validators g)
      in if n = 0 then Inl NoGenesisValidators
         else case first_repeated 0 [] (dg_validators g) of
           Some (i, v) \<Rightarrow> Inl (DuplicateGenesisValidator i v)
         | None \<Rightarrow>
             if n > unat (PosMaxValidators (pos_cfg cfg)) then Inl (TooManyGenesisValidators n)
             else if n < unat min_active then Inl (TooFewGenesisValidators n)
             else then_check (check_genesis_stakes cfg g)
                   (then_check (check_genesis_scores cfg g)
                     (then_check (check_genesis_names cfg g)
                       (check_genesis_epoch cfg (dg_epoch_config g)))))"

section \<open>The dry run\<close>

text \<open>The first validator with the least and with the greatest stake.\<close>

definition least_stake :: "(account_id \<times> u128) list \<Rightarrow> account_id \<times> u128 \<Rightarrow> account_id \<times> u128" where
  "least_stake entries start = fold (\<lambda>(v, s) (u, m). if s < m then (v, s) else (u, m)) entries start"

definition greatest_stake :: "(account_id \<times> u128) list \<Rightarrow> account_id \<times> u128 \<Rightarrow> account_id \<times> u128" where
  "greatest_stake entries start = fold (\<lambda>(v, s) (u, m). if s > m then (v, s) else (u, m)) entries start"

definition genesis_warnings :: "dcf_genesis \<Rightarrow> u128 \<Rightarrow> u128 \<Rightarrow> genesis_warning list" where
  "genesis_warnings g low high =
     (let n = length (dg_validators g); blocks = blocks_per_epoch (dg_epoch_config g)
      in (if n < 3 then [SmallValidatorSet n] else [])
         @ (if high > low * 10 then [StakeInequality high low] else [])
         @ (if blocks < 100 then [ShortEpoch blocks] else if blocks > 10000 then [LongEpoch blocks] else []))"

definition dry_run_genesis_build ::
  "('c, 'sig) dcf_config \<Rightarrow> u32 \<Rightarrow> dcf_genesis \<Rightarrow> genesis_error + genesis_validation_report" where
  "dry_run_genesis_build cfg min_active g =
     then_check (validate_genesis_comprehensive cfg min_active g)
       (let stakes = column_or (MinStake (pos_cfg cfg)) g (dg_validator_stakes g);
            entries = zip (dg_validators g) stakes;
            start = (hd (dg_validators g), hd stakes);
            total_stake = fold (\<lambda>s t. sat_add t s) (map snd entries) 0;
            least = least_stake entries start;
            greatest = greatest_stake entries start;
            initial_trust_score = MaxTrustScore cfg div 2
        in if \<not> (initial_trust_score \<ge> MinTrustScore cfg \<and> initial_trust_score \<le> MaxTrustScore cfg)
           then Inl (InitialTrustOutOfBounds initial_trust_score)
           else if \<not> DefaultPosWeight cfg + DefaultPoiWeight cfg > 0 then Inl ConsensusWeightsZero
           else Inr \<lparr>gr_validator_count = of_nat (length (dg_validators g)), gr_total_stake = total_stake,
             gr_average_stake = total_stake div ucast (of_nat (length stakes) :: u32),
             gr_min_stake_validator = Some least, gr_max_stake_validator = Some greatest,
             gr_epoch_config = dg_epoch_config g,
             gr_invariant_checks = [StakesCheck, SetSizeCheck, EpochLengthCheck, TrustCheck, WeightsCheck],
             gr_warnings = genesis_warnings g (snd least) (snd greatest),
             gr_validation_passed = True\<rparr>)"

section \<open>The calls\<close>

definition checked_genesis :: "account_id list \<Rightarrow> u128 list \<Rightarrow> epoch_config \<Rightarrow> dcf_genesis" where
  "checked_genesis vs stakes ec = \<lparr>dg_validators = vs, dg_validator_scores = [], dg_validator_stakes = stakes,
     dg_current_epoch = 0, dg_epoch_config = ec, dg_validator_names = [], dg_strict_validation = True\<rparr>"

definition validate_genesis_configuration ::
  "('c, 'sig) dcf_config \<Rightarrow> u32 \<Rightarrow> origin \<Rightarrow> account_id list \<Rightarrow> u128 list \<Rightarrow> epoch_config
     \<Rightarrow> (('c, 'sig, 'z) dcf_genesis_world_scheme, unit) call" where
  "validate_genesis_configuration cfg min_active orig vs stakes ec w =
     (case ensure_root orig of Inl e \<Rightarrow> (Inl e, w) | Inr _ \<Rightarrow>
      (case validate_genesis_comprehensive cfg min_active (checked_genesis vs stakes ec) of
         Inr _ \<Rightarrow> (Inr (), genesis_deposit (GenesisValidationSucceeded (of_nat (length vs))
                     (fold (\<lambda>s t. sat_add t s) stakes 0)) w)
       | Inl e \<Rightarrow> (Inl (DcfErr DcfGenesisValidationFailed), genesis_deposit (GenesisValidationFailed e) w)))"

definition dry_run_genesis_configuration ::
  "('c, 'sig) dcf_config \<Rightarrow> u32 \<Rightarrow> origin \<Rightarrow> account_id list \<Rightarrow> u128 list \<Rightarrow> epoch_config
     \<Rightarrow> (('c, 'sig, 'z) dcf_genesis_world_scheme, unit) call" where
  "dry_run_genesis_configuration cfg min_active orig vs stakes ec w =
     (case ensure_root orig of Inl e \<Rightarrow> (Inl e, w) | Inr _ \<Rightarrow>
      (case dry_run_genesis_build cfg min_active (checked_genesis vs stakes ec) of
         Inr report \<Rightarrow> (Inr (), genesis_deposit (GenesisDryRunCompleted (gr_validator_count report)
             (gr_total_stake report) (of_nat (length (gr_invariant_checks report)))
             (of_nat (length (gr_warnings report)))) w)
       | Inl e \<Rightarrow> (Inl (DcfErr DcfGenesisValidationFailed), genesis_deposit (GenesisDryRunFailed e) w)))"

section \<open>Lemmas\<close>

lemma first_bad_None: "first_bad i ok xs = None \<longleftrightarrow> (\<forall>x\<in>set xs. ok x)"
  by (induction xs arbitrary: i) auto

lemma first_repeated_None: "first_repeated i seen xs = None \<longleftrightarrow> distinct xs \<and> set xs \<inter> set seen = {}"
  by (induction xs arbitrary: i seen) auto

lemma then_check_Inr: "then_check a b = Inr r \<longleftrightarrow> a = Inr () \<and> b = Inr r"
  by (cases a) (auto simp: then_check_def)

lemma first_bad_case: "(case first_bad i ok xs of None \<Rightarrow> Inr () | Some (j, x) \<Rightarrow> Inl (f j x)) = Inr ()
    \<longleftrightarrow> list_all ok xs"
  by (induction xs arbitrary: i) auto

lemma first_repeated_case: "(case first_repeated i [] xs of None \<Rightarrow> r | Some (j, x) \<Rightarrow> Inl (f j x)) = Inr ()
    \<longleftrightarrow> distinct xs \<and> r = Inr ()"
  using first_repeated_None [of i "[]" xs] by (auto split: option.splits)

lemma stakes_ok: "check_genesis_stakes cfg g = Inr () \<longleftrightarrow>
    column_ok g (dg_validator_stakes g) \<and> list_all (\<lambda>s. s \<ge> MinStake (pos_cfg cfg)) (dg_validator_stakes g)"
  by (simp add: check_genesis_stakes_def Let_def first_bad_case column_ok_def column_or_def list_all_iff)

lemma scores_ok: "check_genesis_scores cfg g = Inr () \<longleftrightarrow> column_ok g (dg_validator_scores g)
    \<and> list_all (\<lambda>s. s \<le> ucast (MaxValidatorScore (poi_cfg cfg))) (dg_validator_scores g)"
  by (simp add: check_genesis_scores_def Let_def first_bad_case column_ok_def)

lemma names_ok: "check_genesis_names cfg g = Inr () \<longleftrightarrow> column_ok g (dg_validator_names g)
    \<and> list_all (name_fits cfg) (dg_validator_names g)"
  by (simp add: check_genesis_names_def Let_def first_bad_case column_ok_def)

lemma epoch_ok: "check_genesis_epoch cfg ec = Inr () \<longleftrightarrow> 0 < blocks_per_epoch ec
    \<and> blocks_per_epoch ec \<le> 100000 \<and> ec_min_stake ec = MinStake (pos_cfg cfg)
    \<and> ec_max_validators ec = PosMaxValidators (pos_cfg cfg)"
  by (auto simp: check_genesis_epoch_def word_gt_0)

text \<open>What the comprehensive validation adds to the checks of the genesis itself.\<close>

lemma comprehensive_iff:
  "validate_genesis_comprehensive cfg min_active g = Inr () \<longleftrightarrow>
     genesis_checks cfg (g\<lparr>dg_strict_validation := True\<rparr>)
     \<and> unat min_active \<le> length (dg_validators g)
     \<and> list_all (\<lambda>s. s \<le> ucast (MaxValidatorScore (poi_cfg cfg))) (dg_validator_scores g)
     \<and> blocks_per_epoch (dg_epoch_config g) \<le> 100000
     \<and> ec_min_stake (dg_epoch_config g) = MinStake (pos_cfg cfg)
     \<and> ec_max_validators (dg_epoch_config g) = PosMaxValidators (pos_cfg cfg)"
proof -
  have names: "name_fits cfg = (\<lambda>nm. case nm of None \<Rightarrow> True
      | Some bytes \<Rightarrow> length bytes \<le> unat (DcfMaxValidatorNameSize cfg))"
    by (simp add: fun_eq_iff name_fits_def)
  show ?thesis
    unfolding validate_genesis_comprehensive_def Let_def
    by (simp add: first_repeated_case then_check_Inr stakes_ok scores_ok names_ok epoch_ok
        genesis_checks_def validate_genesis_config_def column_ok_def names word_gt_0) blast
qed

end
