(* ===== verification/Genesis_Presets.thy ===== *)
theory Genesis_Presets
  imports Genesis_Checks Genesis_Properties Epoch_Weights
begin

text \<open>
  The genesis presets of the runtime (\<open>genesis_config_presets.rs\<close>) and the genesis of the consensus
  pallets one after the other. The development keys are a parameter, as is the genesis of the
  balances; the serialisation of a preset is left out.
\<close>

section \<open>Data\<close>

text \<open>The development keyring: some named accounts, and all of them in the order of its iterator.\<close>

record keyring =
  key_alice :: account_id
  key_bob :: account_id
  key_charlie :: account_id
  key_dave :: account_id
  key_eve :: account_id
  key_one :: account_id
  key_two :: account_id
  key_all :: "account_id list"

record runtime_genesis =
  rg_balances :: "(account_id \<times> u128) list"
  rg_sudo :: account_id
  rg_dcf :: dcf_genesis
  rg_pos :: pos_genesis
  rg_poi :: poi_genesis
  rg_dvf :: "(account_id \<times> u128 \<times> u128) list"

definition CBC :: u128 where
  "CBC = 1000000000000"

section \<open>The test networks\<close>

definition default_stakes :: "account_id list \<Rightarrow> u128 list" where
  "default_stakes vs = map (\<lambda>i. if i = 0 then 10000000 * CBC else if i = 1 then 8000000 * CBC
     else if i = 2 then 6000000 * CBC else if i = 3 then 5000000 * CBC else 3000000 * CBC) [0..<length vs]"

definition testnet_genesis_with_stakes_and_names ::
  "account_id list \<Rightarrow> account_id list \<Rightarrow> account_id \<Rightarrow> u128 list option \<Rightarrow> 8 word list option list option
     \<Rightarrow> runtime_genesis" where
  "testnet_genesis_with_stakes_and_names initial_validators endowed_accounts root stakes_opt names_opt =
     (let n = length initial_validators;
          scores = replicate n 80;
          stakes = (case stakes_opt of Some s \<Rightarrow> s | None \<Rightarrow> default_stakes initial_validators);
          names = (case names_opt of Some nms \<Rightarrow> nms | None \<Rightarrow> replicate n None)
      in \<lparr>rg_balances = map (\<lambda>k. (k, 100000000 * CBC)) endowed_accounts,
          rg_sudo = root,
          rg_dcf = \<lparr>dg_validators = initial_validators, dg_validator_scores = scores,
            dg_validator_stakes = stakes, dg_current_epoch = 0,
            dg_epoch_config = \<lparr>blocks_per_epoch = 100, ec_min_stake = 1000000, ec_max_validators = 100\<rparr>,
            dg_validator_names = names, dg_strict_validation = True\<rparr>,
          rg_pos = \<lparr>g_validators = initial_validators, g_validator_scores = scores,
            g_current_epoch = 0, g_slashing_count = []\<rparr>,
          rg_poi = \<lparr>g_inference_results = map (\<lambda>acc. (acc, 80)) initial_validators,
            g_challenges = [], g_poi_epoch = 0\<rparr>,
          rg_dvf = map (\<lambda>((v, stake), score). (v, stake, ucast score))
            (zip (zip initial_validators stakes) scores)\<rparr>)"

definition testnet_genesis_with_stakes ::
  "account_id list \<Rightarrow> account_id list \<Rightarrow> account_id \<Rightarrow> u128 list option \<Rightarrow> runtime_genesis" where
  "testnet_genesis_with_stakes vs endowed root stakes =
     testnet_genesis_with_stakes_and_names vs endowed root stakes None"

definition testnet_genesis :: "account_id list \<Rightarrow> account_id list \<Rightarrow> account_id \<Rightarrow> runtime_genesis" where
  "testnet_genesis vs endowed root = testnet_genesis_with_stakes vs endowed root None"

definition development_config_genesis :: "keyring \<Rightarrow> runtime_genesis" where
  "development_config_genesis K = testnet_genesis [key_alice K] [key_alice K, key_bob K] (key_alice K)"

definition local_config_genesis :: "keyring \<Rightarrow> runtime_genesis" where
  "local_config_genesis K =
     testnet_genesis [key_alice K, key_bob K, key_charlie K]
       (filter (\<lambda>v. v \<noteq> key_one K \<and> v \<noteq> key_two K) (key_all K)) (key_alice K)"

text \<open>The names are ASCII strings, as their bytes.\<close>

definition ascii :: "string \<Rightarrow> 8 word list" where
  "ascii s = map (\<lambda>c. of_nat (of_char c)) s"

definition multi_validator_config_genesis :: "keyring \<Rightarrow> runtime_genesis" where
  "multi_validator_config_genesis K =
     testnet_genesis_with_stakes_and_names
       [key_alice K, key_bob K, key_charlie K, key_dave K, key_eve K] (key_all K) (key_alice K)
       (Some [15000000, 12000000, 8000000, 5000000, 3000000])
       (Some [Some (ascii ''Alice-Validator''), Some (ascii ''Bob-Validator''),
          Some (ascii ''Charlie-Validator''), Some (ascii ''Dave-Validator''), Some (ascii ''Eve-Validator'')])"

definition high_stake_config_genesis :: "keyring \<Rightarrow> runtime_genesis" where
  "high_stake_config_genesis K =
     testnet_genesis_with_stakes_and_names [key_alice K, key_bob K, key_charlie K] (key_all K) (key_alice K)
       (Some [50000000, 45000000, 40000000])
       (Some [Some (ascii ''Alice-HighStake''), Some (ascii ''Bob-HighStake''),
          Some (ascii ''Charlie-HighStake'')])"

section \<open>Presets by name\<close>

definition get_preset :: "keyring \<Rightarrow> string option \<Rightarrow> runtime_genesis option" where
  "get_preset K preset =
     (case preset of
        None \<Rightarrow> Some (development_config_genesis K)
      | Some name \<Rightarrow>
          if name = ''development'' then Some (development_config_genesis K)
          else if name = ''local'' then Some (local_config_genesis K)
          else if name = ''multi_validator'' then Some (multi_validator_config_genesis K)
          else if name = ''high_stake'' then Some (high_stake_config_genesis K)
          else if name = ''bob_sudo'' then Some (local_config_genesis K)
          else if name = ''local_testnet'' then Some (local_config_genesis K)
          else None)"

definition preset_names :: "string list" where
  "preset_names = [''development'', ''local'', ''multi_validator'', ''high_stake'']"

section \<open>The genesis of the runtime\<close>

text \<open>The pallets are built in the order in which the runtime declares them; \<open>None\<close> is a panic.\<close>

definition runtime_genesis_build ::
  "('c, 'sig) dcf_config \<Rightarrow> ((account_id \<times> u128) list \<Rightarrow> 'c \<Rightarrow> 'c) \<Rightarrow> runtime_genesis
     \<Rightarrow> ('c, 'sig, 'z) dcf_world_scheme \<Rightarrow> ('c, 'sig, 'z) dcf_world_scheme option" where
  "runtime_genesis_build cfg endow g w =
     (let w1 = w\<lparr>balances := endow (rg_balances g) (balances w)\<rparr>;
          w2 = pos_genesis_build (rg_pos g) (poi_genesis_build (rg_poi g) w1)
      in case dcf_genesis_build cfg (rg_dcf g) w2 of
           None \<Rightarrow> None
         | Some w3 \<Rightarrow> dvf_genesis_build (dvf_cfg cfg) (rg_dvf g) w3)"

section \<open>Properties\<close>

text \<open>
  What the presets of the runtime start with, and what the checks of the consensus pallet say of them.
\<close>

section \<open>Hypotheses on the balances and the keys\<close>

text \<open>
  The genesis of the balances gives every listed account its amount; a reservation that leaves the
  existential deposit succeeds and touches the free balance of no other account.
\<close>

definition endow_spec :: "'c currency \<Rightarrow> ((account_id \<times> u128) list \<Rightarrow> 'c \<Rightarrow> 'c) \<Rightarrow> bool" where
  "endow_spec C endow \<longleftrightarrow> (\<forall>c entries v amount. distinct (map fst entries) \<longrightarrow> (v, amount) \<in> set entries
     \<longrightarrow> free_balance C (endow entries c) v = amount)"

definition reserve_spec :: "'c currency \<Rightarrow> nat \<Rightarrow> bool" where
  "reserve_spec C deposit \<longleftrightarrow> (\<forall>c v s. unat s + deposit \<le> unat (free_balance C c v) \<longrightarrow>
     (\<exists>c'. reserve C v s c = Some c' \<and> (\<forall>u. u \<noteq> v \<longrightarrow> free_balance C c' u = free_balance C c u)))"

definition existential_deposit :: nat where
  "existential_deposit = 1000000000"

definition keyring_ok :: "keyring \<Rightarrow> bool" where
  "keyring_ok K \<longleftrightarrow> distinct (key_all K)
     \<and> distinct [key_alice K, key_bob K, key_charlie K, key_dave K, key_eve K, key_one K, key_two K]
     \<and> set [key_alice K, key_bob K, key_charlie K, key_dave K, key_eve K] \<subseteq> set (key_all K)"

lemma reserve_specD:
  assumes "reserve_spec C d" and "unat s + d \<le> unat (free_balance C c v)"
  obtains c' where "reserve C v s c = Some c'"
    and "\<And>u. u \<noteq> v \<Longrightarrow> free_balance C c' u = free_balance C c u"
  using assms unfolding reserve_spec_def by meson

section \<open>The loop over the validators\<close>

lemma genesis_loop_Some:
  fixes w :: "('c, 'sig, 'z) dcf_world_scheme"
  assumes "reserve_spec (currency_of cfg) d" and "distinct (map fst es)"
    and "RewardBoostDivisor (pos_cfg cfg) \<noteq> 0" and "PercentagePrecision (poi_cfg cfg) \<noteq> 0"
    and "\<And>v score stake nm. (v, score, stake, nm) \<in> set es
      \<Longrightarrow> unat stake + d \<le> unat (free_balance (currency_of cfg) (balances w) v)"
  shows "genesis_validators cfg g es w \<noteq> None"
  using assms(2,5)
proof (induction es arbitrary: w)
  case Nil
  then show ?case by simp
next
  case (Cons e es)
  obtain v score stake nm where e: "e = (v, score, stake, nm)"
    by (cases e)
  have enough: "unat stake + d \<le> unat (free_balance (currency_of cfg) (balances w) v)"
    using Cons.prems(2) [of v score stake nm] by (simp add: e)
  then obtain c where c: "reserve (currency_of cfg) v stake (balances w) = Some c"
      "\<And>u. u \<noteq> v \<Longrightarrow> free_balance (currency_of cfg) c u = free_balance (currency_of cfg) (balances w) u"
    by (rule reserve_specD [OF assms(1)]) blast
  have "stake \<le> free_balance (currency_of cfg) (balances w) v"
    using enough by (simp add: word_le_nat_alt)
  then obtain w1 where w1: "genesis_validator cfg g (v, score, stake, nm) w = Some w1" "balances w1 = c"
    using genesis_validator_Some [where cfg = cfg and w = w, OF _ c(1) assms(3,4)] by blast
  have "genesis_validators cfg g es w1 \<noteq> None"
  proof (rule Cons.IH)
    show "distinct (map fst es)"
      using Cons.prems(1) by simp
    show "unat s + d \<le> unat (free_balance (currency_of cfg) (balances w1) u)" if "(u, sc, s, nm') \<in> set es" for u sc s nm'
    proof -
      have "u \<noteq> v"
        using Cons.prems(1) that by (force simp: e)
      then show ?thesis
        using Cons.prems(2) [of u sc s nm'] that by (simp add: w1 c(2))
    qed
  qed
  then show ?case
    by (simp add: e w1)
qed

lemma genesis_validator_registered:
  fixes w w' :: "('c, 'sig, 'z) dcf_world_scheme"
  assumes "genesis_validator cfg g e w = Some w'"
  shows "Validators w' = Validators w"
  using assms by (cases e) (auto simp: genesis_validator_def Let_def dcf_put_state_def dcf_put_set_def
      dcf_put_active_def update_validator_state_def update_validator_set_def
      update_active_validators_def split: if_splits option.splits)

lemma genesis_validators_registered:
  fixes w w' :: "('c, 'sig, 'z) dcf_world_scheme"
  assumes "genesis_validators cfg g es w = Some w'"
  shows "Validators w' = Validators w"
  using assms genesis_validator_registered
  by (induction es arbitrary: w) (fastforce split: option.splits)+

lemma dcf_genesis_registered:
  fixes w w' :: "('c, 'sig, 'z) dcf_world_scheme"
  assumes "dcf_genesis_build cfg g w = Some w'"
  shows "Validators w' = Validators w"
  using assms genesis_validators_registered
  by (auto simp: dcf_genesis_build_def genesis_authors_def genesis_storage_def dcf_put_active_def
      update_active_validators_def dcf_put_set_def update_validator_set_def Let_def
      split: if_splits option.splits dest!: genesis_validators_registered)

lemma registered_all:
  "v \<in> set vs \<Longrightarrow> sm_get (fold (\<lambda>v. sm_put v True) vs m) v = Some True"
proof (induction vs arbitrary: m)
  case (Cons u us)
  have "sm_get (fold (\<lambda>v. sm_put v True) us m) u = Some True" if "sm_get m u = Some True" for m
    using that by (induction us arbitrary: m) auto
  with Cons show ?case by auto
qed simp

section \<open>A test network\<close>

text \<open>What the genesis needs of the validators, the stakes and the names of a test network.\<close>

definition testnet_ok ::
  "account_id list \<Rightarrow> account_id list \<Rightarrow> u128 list \<Rightarrow> 8 word list option list \<Rightarrow> bool" where
  "testnet_ok vs endowed stakes nms \<longleftrightarrow> vs \<noteq> [] \<and> distinct vs \<and> length vs \<le> 5
     \<and> distinct endowed \<and> set vs \<subseteq> set endowed
     \<and> length stakes = length vs \<and> length nms = length vs
     \<and> (\<forall>s\<in>set stakes. 1000 \<le> unat s \<and> unat s \<le> 10 ^ 19 \<and> sum_list (map unat stakes) \<le> unat s * 32000)
     \<and> (\<forall>nm\<in>set nms. case nm of None \<Rightarrow> True | Some bytes \<Rightarrow> length bytes \<le> 32)"

lemma testnet_parts:
  assumes "g = testnet_genesis_with_stakes_and_names vs endowed root (Some stakes) (Some nms)"
  shows "rg_balances g = map (\<lambda>k. (k, 100000000 * CBC)) endowed"
    and "rg_dcf g = \<lparr>dg_validators = vs, dg_validator_scores = replicate (length vs) 80,
      dg_validator_stakes = stakes, dg_current_epoch = 0,
      dg_epoch_config = \<lparr>blocks_per_epoch = 100, ec_min_stake = 1000000, ec_max_validators = 100\<rparr>,
      dg_validator_names = nms, dg_strict_validation = True\<rparr>"
    and "g_validators (rg_pos g) = vs"
    and "length stakes = length vs \<Longrightarrow> rg_dvf g = map (\<lambda>(v, s). (v, s, 80)) (zip vs stakes)"
  using assms by (simp_all add: testnet_genesis_with_stakes_and_names_def Let_def zip_replicate2 split_def)

lemma preset_config:
  "PosMaxValidators (pos_cfg (runtime_dcf_config poi dvf C hb dec a b)) = 100"
  "MinStake (pos_cfg (runtime_dcf_config poi dvf C hb dec a b)) = 1000"
  "RewardBoostDivisor (pos_cfg (runtime_dcf_config poi dvf C hb dec a b)) = 1000"
  "DcfMaxValidatorNameSize (runtime_dcf_config poi dvf C hb dec a b) = 32"
  "poi_cfg (runtime_dcf_config poi dvf C hb dec a b) = poi"
  "dvf_cfg (runtime_dcf_config poi dvf C hb dec a b) = dvf"
  "currency_of (runtime_dcf_config poi dvf C hb dec a b) = C"
  by (simp_all add: runtime_dcf_config_def runtime_pos_config_def)

lemma testnet_entries:
  assumes "testnet_ok vs endowed stakes nms"
  shows "genesis_checks (runtime_dcf_config poi dvf C hb dec a b)
      (rg_dcf (testnet_genesis_with_stakes_and_names vs endowed root (Some stakes) (Some nms)))"
    and "(v, score, stake, nm) \<in> set (genesis_entries (runtime_dcf_config poi dvf C hb dec a b)
      (rg_dcf (testnet_genesis_with_stakes_and_names vs endowed root (Some stakes) (Some nms))))
      \<Longrightarrow> v \<in> set vs \<and> stake \<in> set stakes"
proof -
  have "stakes \<noteq> []" "nms \<noteq> []"
    using assms by (auto simp: testnet_ok_def)
  then show "genesis_checks (runtime_dcf_config poi dvf C hb dec a b)
      (rg_dcf (testnet_genesis_with_stakes_and_names vs endowed root (Some stakes) (Some nms)))"
    using assms by (simp add: testnet_parts [OF refl] genesis_checks_def validate_genesis_config_def
        column_ok_def list_all_iff preset_config testnet_ok_def word_le_nat_alt cong: option.case_cong)
  show "(v, score, stake, nm) \<in> set (genesis_entries (runtime_dcf_config poi dvf C hb dec a b)
      (rg_dcf (testnet_genesis_with_stakes_and_names vs endowed root (Some stakes) (Some nms))))
      \<Longrightarrow> v \<in> set vs \<and> stake \<in> set stakes"
    using \<open>stakes \<noteq> []\<close> by (auto simp: testnet_parts [OF refl] genesis_entries_def column_or_def
        dest: set_zip_leftD set_zip_rightD)
qed

lemma testnet_weights:
  assumes "testnet_ok vs endowed stakes nms" and "(v, s) \<in> set (zip vs stakes)"
  shows "0 < sm_val 0 (EpochVotingWeight (freeze_epoch_weights cfg e (map (\<lambda>(v, s). (v, s, x)) (zip vs stakes)) w)) v"
proof -
  let ?vs = "map (\<lambda>(v, s). (v, s, x)) (zip vs stakes)"
  have len: "length stakes = length vs" "distinct vs" "length vs \<le> 5"
    and stakes: "\<And>s. s \<in> set stakes \<Longrightarrow> 1000 \<le> unat s \<and> unat s \<le> 10 ^ 19
      \<and> sum_list (map unat stakes) \<le> unat s * 32000"
    using assms(1) by (auto simp: testnet_ok_def)
  have s: "s \<in> set stakes"
    using assms(2) by (rule set_zip_rightD)
  have total: "stake_sum ?vs = sum_list (map unat stakes)"
  proof -
    have "map (\<lambda>x. unat (fst (snd x))) ?vs = map unat (map snd (zip vs stakes))"
      by (simp add: split_def)
    then show ?thesis
      using len(1) by (simp add: stake_sum_def)
  qed
  have "sum_list (map unat stakes) \<le> length stakes * 10 ^ 19"
    using sum_list_mono [of stakes unat "\<lambda>_. 10 ^ 19"] stakes by (simp add: sum_list_triv)
  also have "\<dots> \<le> 5 * 10 ^ 19"
    using len by simp
  finally have below: "stake_sum ?vs * 32000 < 2 ^ 128"
    by (simp add: total)
  have "unat s \<le> sum_list (map unat stakes)"
    using s by (induction stakes) auto
  then have pos: "0 < stake_sum ?vs"
    using stakes [OF s] by (simp add: total)
  have x: "(v, s, x) \<in> set ?vs"
    using assms(2) by force
  have "unat (normalized_weight ?vs s) = unat s * 32000 div stake_sum ?vs"
    using normalized_exact [OF below pos x] by simp
  also have "0 < unat s * 32000 div stake_sum ?vs"
    using stakes [OF s] pos by (simp add: total div_greater_zero_iff)
  finally have "0 < normalized_weight ?vs s"
    by (simp add: word_less_nat_alt)
  moreover have "distinct (map fst ?vs)"
  proof -
    have "map fst ?vs = map fst (zip vs stakes)"
      by (simp add: split_def)
    then show ?thesis
      using len by simp
  qed
  then have "sm_val 0 (EpochVotingWeight (freeze_epoch_weights cfg e ?vs w)) v = normalized_weight ?vs s"
    using weigh_lookup [of ?vs "(v, s, x)" "\<lambda>x. normalized_weight ?vs (fst (snd x))" "[]" 0] x
      freeze_weigh [of cfg e ?vs w] by (simp add: prod_eq_iff)
  ultimately show ?thesis by simp
qed

section \<open>The genesis of a test network\<close>

lemma testnet_starts:
  fixes w :: "('c, 'sig, 'z) dcf_world_scheme"
  assumes ok: "testnet_ok vs endowed stakes nms"
    and g: "g = testnet_genesis_with_stakes_and_names vs endowed root (Some stakes) (Some nms)"
    and library: "endow_spec C endow" "reserve_spec C existential_deposit"
    and cfg: "cfg = runtime_dcf_config (runtime_poi_config h) (runtime_dvf_config vf ft) C hb dec a b"
    and fresh: "sm_get (EpochScoreSnapshot w) 0 = None"
  shows "\<exists>w'. runtime_genesis_build cfg endow g w = Some w' \<and> ValidatorSet w' = vs \<and> ActiveValidators w' = vs
    \<and> (\<forall>v\<in>set vs. sm_get (Validators w') v = Some True \<and> 1000 \<le> sm_val 0 (Stake w') v
         \<and> 0 < sm_val 0 (EpochVotingWeight w') v)"
proof -
  let ?w1 = "w\<lparr>balances := endow (rg_balances g) (balances w)\<rparr>"
  let ?w2 = "pos_genesis_build (rg_pos g) (poi_genesis_build (rg_poi g) ?w1)"
  note parts = testnet_parts [OF g]
  have len: "length stakes = length vs" "vs \<noteq> []" "distinct endowed" "set vs \<subseteq> set endowed"
    using ok by (simp_all add: testnet_ok_def)
  have checks: "genesis_checks cfg (rg_dcf g)"
    unfolding cfg g by (rule testnet_entries(1) [OF ok])
  have funds: "free_balance C (balances (dcf_put_set cfg (dg_validators (rg_dcf g)) ?w2)) v = 100000000 * CBC"
    if "v \<in> set vs" for v
  proof -
    have "distinct (map fst (rg_balances g))" "(v, 100000000 * CBC) \<in> set (rg_balances g)"
      using len that by (auto simp: parts(1) comp_def)
    then show ?thesis
      using library(1) by (simp add: endow_spec_def pos_genesis_build_def poi_genesis_build_def
          dcf_put_set_def update_validator_set_def)
  qed
  have "genesis_validators cfg (rg_dcf g) (genesis_entries cfg (rg_dcf g))
      (dcf_put_set cfg (dg_validators (rg_dcf g)) ?w2) \<noteq> None"
  proof (rule genesis_loop_Some)
    show "reserve_spec (currency_of cfg) existential_deposit"
      by (simp add: cfg preset_config library)
    show "distinct (map fst (genesis_entries cfg (rg_dcf g)))"
      using genesis_entries_fst(1) [OF checks] checks by (simp add: genesis_checks_def)
    show "RewardBoostDivisor (pos_cfg cfg) \<noteq> 0" "PercentagePrecision (poi_cfg cfg) \<noteq> 0"
      by (simp_all add: cfg preset_config runtime_poi_config_def)
    fix v score stake nm
    assume "(v, score, stake, nm) \<in> set (genesis_entries cfg (rg_dcf g))"
    then have "v \<in> set vs" "stake \<in> set stakes"
      unfolding cfg g by (auto dest: testnet_entries(2) [OF ok])
    then show "unat stake + existential_deposit \<le> unat (free_balance (currency_of cfg)
        (balances (dcf_put_set cfg (dg_validators (rg_dcf g)) ?w2)) v)"
      using ok by (simp add: cfg preset_config funds [unfolded cfg] CBC_def existential_deposit_def testnet_ok_def)
        fastforce
  qed
  then obtain w3 where w3: "dcf_genesis_build cfg (rg_dcf g) ?w2 = Some w3"
    using genesis_build_Some [OF checks] by blast
  have bounds: "PosMaxValidators (pos_cfg cfg) = DvfMaxValidators (dvf_cfg cfg)"
    by (simp add: cfg preset_config runtime_dvf_config_def)
  have "dg_validators (rg_dcf g) \<noteq> []" "sm_get (EpochScoreSnapshot ?w2) 0 = None"
    using len fresh by (simp_all add: parts pos_genesis_build_def poi_genesis_build_def)
  note state = genesis_result [OF w3 this(1) bounds this(2)]
  have registered: "Validators w3 = Validators ?w2"
    by (rule dcf_genesis_registered [OF w3])
  let ?dvf = "map (\<lambda>(v, s). (v, s, 80)) (zip vs stakes)"
  have "\<forall>(v, s, x)\<in>set ?dvf. s > 0 \<and> x \<le> (100 :: u128)"
    using ok by (auto simp: testnet_ok_def word_gt_0 dest!: set_zip_rightD)
  then have built: "dvf_genesis_build (dvf_cfg cfg) (rg_dvf g) w3
      = Some ((freeze_epoch_weights (dvf_cfg cfg) 0 ?dvf (w3\<lparr>ValidatorSetId := 0\<rparr>))\<lparr>ValidatorSetId := 0\<rparr>)"
    using len by (auto simp: dvf_genesis_build_def parts(4) [OF len(1)])
  have frozen: "0 < sm_val 0 (EpochVotingWeight (freeze_epoch_weights (dvf_cfg cfg) 0 ?dvf w')) v"
    if "v \<in> set vs" for v w'
  proof -
    have "v \<in> fst ` set (zip vs stakes)"
      using that len(1) by (metis map_fst_zip set_map)
    then show ?thesis
      using testnet_weights [OF ok] by force
  qed
  have frame: "ValidatorSet (freeze_epoch_weights (dvf_cfg cfg) 0 ?dvf w') = ValidatorSet w'"
    "ActiveValidators (freeze_epoch_weights (dvf_cfg cfg) 0 ?dvf w') = ActiveValidators w'"
    "Validators (freeze_epoch_weights (dvf_cfg cfg) 0 ?dvf w') = Validators w'"
    "Stake (freeze_epoch_weights (dvf_cfg cfg) 0 ?dvf w') = Stake w'" for w'
    by (simp_all add: freeze_epoch_weights_def Let_def dvf_deposit_event_def note_set_change_def split_def)
  let ?w' = "(freeze_epoch_weights (dvf_cfg cfg) 0 ?dvf (w3\<lparr>ValidatorSetId := 0\<rparr>))\<lparr>ValidatorSetId := 0\<rparr>"
  have "runtime_genesis_build cfg endow g w = Some ?w'"
    by (simp add: runtime_genesis_build_def Let_def w3 built)
  moreover have lists: "ValidatorSet ?w' = vs" "ActiveValidators ?w' = vs"
    using state by (simp_all add: frame parts)
  moreover have "sm_get (Validators ?w') v = Some True" "0 < sm_val 0 (EpochVotingWeight ?w') v" if "v \<in> set vs" for v
    using that registered_all [of v vs] by (simp_all add: frame frozen registered pos_genesis_build_def parts)
  moreover have "1000 \<le> sm_val 0 (Stake ?w') v" if "v \<in> set vs" for v
    using state that by (simp add: frame parts) (simp add: cfg preset_config)
  ultimately show ?thesis
    by blast
qed

section \<open>The presets\<close>

lemma default_stakes_given:
  "testnet_genesis_with_stakes_and_names vs endowed root None None
    = testnet_genesis_with_stakes_and_names vs endowed root (Some (default_stakes vs))
        (Some (replicate (length vs) None))"
  by (simp add: testnet_genesis_with_stakes_and_names_def Let_def)

lemma preset_cases:
  assumes "get_preset K name = Some g"
  obtains (development) "name = None \<or> name = Some ''development''" "g = development_config_genesis K"
  | (local) "name \<noteq> None" "name \<noteq> Some ''development''" "g = local_config_genesis K"
  | (multi_validator) "name \<noteq> None" "name \<noteq> Some ''development''" "g = multi_validator_config_genesis K"
  | (high_stake) "name \<noteq> None" "name \<noteq> Some ''development''" "g = high_stake_config_genesis K"
  using assms unfolding get_preset_def by (auto split: option.splits if_splits)

lemma preset_testnet:
  assumes "get_preset K name = Some g" and K: "keyring_ok K"
  obtains vs endowed root stakes nms
    where "g = testnet_genesis_with_stakes_and_names vs endowed root (Some stakes) (Some nms)"
      and "testnet_ok vs endowed stakes nms"
      and "length vs = 1 \<longleftrightarrow> name = None \<or> name = Some ''development''"
      and "length vs = 1 \<or> 3 \<le> length vs"
  using assms(1)
proof (cases rule: preset_cases)
  case development
  show ?thesis
    by (rule that [of "[key_alice K]" "[key_alice K, key_bob K]" "key_alice K" "default_stakes [key_alice K]" "[None]"])
      (use K development in \<open>simp_all add: development_config_genesis_def testnet_genesis_def
        testnet_genesis_with_stakes_def default_stakes_given testnet_ok_def keyring_ok_def
        default_stakes_def CBC_def\<close>)
next
  case local
  show ?thesis
    by (rule that [of "[key_alice K, key_bob K, key_charlie K]"
          "filter (\<lambda>v. v \<noteq> key_one K \<and> v \<noteq> key_two K) (key_all K)" "key_alice K"
          "default_stakes [key_alice K, key_bob K, key_charlie K]" "[None, None, None]"])
      (use K local in \<open>simp_all add: local_config_genesis_def testnet_genesis_def
        testnet_genesis_with_stakes_def default_stakes_given testnet_ok_def keyring_ok_def
        default_stakes_def CBC_def\<close>)
next
  case multi_validator
  show ?thesis
    by (rule that [of "[key_alice K, key_bob K, key_charlie K, key_dave K, key_eve K]" "key_all K" "key_alice K"
          "[15000000, 12000000, 8000000, 5000000, 3000000]"
          "[Some (ascii ''Alice-Validator''), Some (ascii ''Bob-Validator''),
            Some (ascii ''Charlie-Validator''), Some (ascii ''Dave-Validator''), Some (ascii ''Eve-Validator'')]"])
      (use K multi_validator in \<open>simp_all add: multi_validator_config_genesis_def testnet_ok_def
        keyring_ok_def ascii_def\<close>)
next
  case high_stake
  show ?thesis
    by (rule that [of "[key_alice K, key_bob K, key_charlie K]" "key_all K" "key_alice K"
          "[50000000, 45000000, 40000000]"
          "[Some (ascii ''Alice-HighStake''), Some (ascii ''Bob-HighStake''), Some (ascii ''Charlie-HighStake'')]"])
      (use K high_stake in \<open>simp_all add: high_stake_config_genesis_def testnet_ok_def
        keyring_ok_def ascii_def\<close>)
qed

text \<open>
  C37. Every preset of the runtime starts the chain. With balances as documented the genesis of the pallets
  succeeds; afterwards the validators of the preset are the validator set and the active list, each
  registered, with at least the minimum stake and with voting weight. And yet the comprehensive check
  that root can run refuses every preset, for the configured minimum of three active validators or
  because the presets name a minimum stake of 1000000 where the pallets have 1000.
\<close>

theorem presets_start:
  fixes w :: "('c, 'sig, 'z) dcf_world_scheme"
  assumes preset: "get_preset K name = Some g" "keyring_ok K"
    and library: "endow_spec C endow" "reserve_spec C existential_deposit"
    and cfg: "cfg = runtime_dcf_config (runtime_poi_config h) (runtime_dvf_config vf ft) C hb dec a b"
    and fresh: "sm_get (EpochScoreSnapshot w) 0 = None"
  shows "(\<exists>w'. runtime_genesis_build cfg endow g w = Some w'
      \<and> ValidatorSet w' = dg_validators (rg_dcf g) \<and> ActiveValidators w' = dg_validators (rg_dcf g)
      \<and> (\<forall>v\<in>set (dg_validators (rg_dcf g)). sm_get (Validators w') v = Some True
           \<and> 1000 \<le> sm_val 0 (Stake w') v \<and> 0 < sm_val 0 (EpochVotingWeight w') v))
    \<and> dry_run_genesis_build cfg 3 (rg_dcf g)
      = Inl (if name = None \<or> name = Some ''development'' then TooFewGenesisValidators 1
             else EpochMinStakeMismatch 1000000)"
proof -
  obtain vs endowed root stakes nms where
      g: "g = testnet_genesis_with_stakes_and_names vs endowed root (Some stakes) (Some nms)"
      and ok: "testnet_ok vs endowed stakes nms"
      and dev: "length vs = 1 \<longleftrightarrow> name = None \<or> name = Some ''development''"
      and count: "length vs = 1 \<or> 3 \<le> length vs"
    using preset by (rule preset_testnet)
  note parts = testnet_parts [OF g]
  have "genesis_checks cfg (rg_dcf g)"
    unfolding cfg g by (rule testnet_entries(1) [OF ok])
  then have checks: "check_genesis_stakes cfg (rg_dcf g) = Inr ()" "check_genesis_names cfg (rg_dcf g) = Inr ()"
      "first_repeated 0 [] vs = None"
    using ok by (auto simp: stakes_ok names_ok first_repeated_None genesis_checks_def testnet_ok_def parts
        validate_genesis_config_def name_fits_def list_all_iff)
  have fields: "dg_validators (rg_dcf g) = vs" "PosMaxValidators (pos_cfg cfg) = 100"
      "check_genesis_epoch cfg (dg_epoch_config (rg_dcf g)) = Inl (EpochMinStakeMismatch 1000000)"
    by (simp_all add: parts cfg preset_config check_genesis_epoch_def)
  have scores: "check_genesis_scores cfg (rg_dcf g) = Inr ()"
    by (simp add: scores_ok parts column_ok_def list_all_iff cfg preset_config runtime_poi_config_def)
  have "validate_genesis_comprehensive cfg 3 (rg_dcf g)
      = Inl (if length vs = 1 then TooFewGenesisValidators 1 else EpochMinStakeMismatch 1000000)"
    using ok count by (auto simp: validate_genesis_comprehensive_def Let_def checks scores then_check_def
        fields testnet_ok_def)
  then have "dry_run_genesis_build cfg 3 (rg_dcf g)
      = Inl (if length vs = 1 then TooFewGenesisValidators 1 else EpochMinStakeMismatch 1000000)"
    by (simp add: dry_run_genesis_build_def then_check_def)
  with testnet_starts [OF ok g library cfg fresh] show ?thesis
    unfolding fields(1) dev [symmetric] by (rule conjI)
qed

section \<open>A concrete keyring\<close>

definition sample_keyring :: keyring where
  "sample_keyring = \<lparr>key_alice = AccountId 1, key_bob = AccountId 2, key_charlie = AccountId 3,
     key_dave = AccountId 4, key_eve = AccountId 5, key_one = AccountId 6, key_two = AccountId 7,
     key_all = map AccountId [1, 2, 3, 4, 5, 6, 7]\<rparr>"

definition book_endow :: "(account_id \<times> u128) list \<Rightarrow> (account_id \<Rightarrow> u128 \<times> u128) \<Rightarrow> account_id \<Rightarrow> u128 \<times> u128" where
  "book_endow entries c = fold (\<lambda>(v, amount) c. c(v := (amount, 0))) entries c"

lemma book_endow_other: "v \<notin> fst ` set entries \<Longrightarrow> book_endow entries c v = c v"
  by (induction entries arbitrary: c) (auto simp: book_endow_def)

lemma book_endow_spec: "endow_spec book_currency book_endow"
proof -
  have "fst (book_endow entries c v) = amount" if "distinct (map fst entries)" "(v, amount) \<in> set entries"
    for entries c v amount
    using that
  proof (induction entries arbitrary: c)
    case (Cons e entries)
    have step: "book_endow (p # ps) c' = book_endow ps (c'(fst p := (snd p, 0)))" for p ps c'
      by (simp add: book_endow_def split_def)
    show ?case
    proof (cases "e = (v, amount)")
      case True
      show ?thesis
        using Cons.prems(1) book_endow_other [of v entries "c(v := (amount, 0))"]
        unfolding step True by auto
    next
      case False
      then show ?thesis
        using Cons by (simp add: step)
    qed
  qed simp
  then show ?thesis
    by (simp add: endow_spec_def book_currency_def)
qed

lemma book_reserve_spec: "reserve_spec book_currency d"
  by (auto simp: reserve_spec_def book_currency_def word_le_nat_alt)

theorem presets_start_witness:
  "\<exists>w'. runtime_genesis_build sample_config book_endow (multi_validator_config_genesis sample_keyring)
        empty_dcf_world = Some w'
    \<and> ActiveValidators w' = map AccountId [1, 2, 3, 4, 5] \<and> 0 < sm_val 0 (EpochVotingWeight w') (AccountId 5)"
proof -
  let ?g = "multi_validator_config_genesis sample_keyring"
  have g: "get_preset sample_keyring (Some ''multi_validator'') = Some ?g"
    by (simp add: get_preset_def)
  have keys: "keyring_ok sample_keyring"
    by (simp add: keyring_ok_def sample_keyring_def)
  have fresh: "sm_get (EpochScoreSnapshot empty_dcf_world) 0 = None"
    by (simp add: empty_dcf_world_def map_defs)
  have "dg_validators (rg_dcf ?g) = map AccountId [1, 2, 3, 4, 5]"
    by (simp add: multi_validator_config_genesis_def testnet_genesis_with_stakes_and_names_def Let_def
        sample_keyring_def)
  with presets_start [OF g keys book_endow_spec book_reserve_spec
      sample_config_def [unfolded sample_poi_config_def sample_dvf_config_def] fresh]
  show ?thesis by auto
qed

end
