(* ===== verification/Parameter_Api.thy ===== *)
theory Parameter_Api
  imports Dcf_Parameters
begin

text \<open>
  The queries of the runtime API on the parameter store: the value of a parameter and whether a new
  value would do. \<open>dec\<close> decodes a parameter type; both queries know fourteen of the types only.
\<close>

section \<open>The value of a parameter\<close>

fun api_parameter_value :: "scale_codec \<Rightarrow> governance_config \<Rightarrow> parameter_type \<Rightarrow> 8 word list option" where
  "api_parameter_value K c ParamEpochLength = Some (encode_u32 K (range_current (gc_epoch_length c)))"
| "api_parameter_value K c ParamMinStake = Some (encode_u128 K (range_current (gc_min_stake c)))"
| "api_parameter_value K c ParamMaxValidators = Some (encode_u32 K (range_current (gc_max_validators c)))"
| "api_parameter_value K c ParamMinPerformanceScore = Some (encode_u64 K (range_current (gc_min_performance_score c)))"
| "api_parameter_value K c ParamSlashPercent = Some (encode_u32 K (range_current (gc_slash_percent c)))"
| "api_parameter_value K c ParamValidatorReward = Some (encode_u128 K (range_current (gc_validator_reward c)))"
| "api_parameter_value K c ParamLeaveCooldown = Some (encode_u32 K (range_current (gc_leave_cooldown c)))"
| "api_parameter_value K c ParamPosWeight = Some (encode_u64 K (range_current (gc_pos_weight c)))"
| "api_parameter_value K c ParamPoiWeight = Some (encode_u64 K (range_current (gc_poi_weight c)))"
| "api_parameter_value K c ParamBlockAuthorshipBoost = Some (encode_u64 K (range_current (gc_block_authorship_boost c)))"
| "api_parameter_value K c ParamMissedBlockPenalty = Some (encode_u64 K (range_current (gc_missed_block_penalty c)))"
| "api_parameter_value K c ParamInferenceBoostLow = Some (encode_u64 K (range_current (gc_inference_boost_low c)))"
| "api_parameter_value K c ParamInferenceBoostMedium = Some (encode_u64 K (range_current (gc_inference_boost_medium c)))"
| "api_parameter_value K c ParamInferenceBoostHigh = Some (encode_u64 K (range_current (gc_inference_boost_high c)))"
| "api_parameter_value K c _ = None"

definition get_parameter_value_encoded ::
  "scale_codec \<Rightarrow> (8 word list \<Rightarrow> parameter_type option) \<Rightarrow> 8 word list
     \<Rightarrow> ('c, 'sig, 'z) dcf_world_scheme \<Rightarrow> 8 word list option" where
  "get_parameter_value_encoded K dec parameter w =
     (case dec parameter of None \<Rightarrow> None
      | Some p \<Rightarrow> api_parameter_value K (GovernanceConfigStorage w) p)"

section \<open>Whether a value would do\<close>

definition decoded_in_range :: "'n::len word option \<Rightarrow> 'n word parameter_range \<Rightarrow> bool" where
  "decoded_in_range decoded r =
     (case decoded of None \<Rightarrow> False | Some x \<Rightarrow> x \<ge> range_min r \<and> x \<le> range_max r)"

fun api_parameter_valid :: "scale_codec \<Rightarrow> governance_config \<Rightarrow> 8 word list \<Rightarrow> parameter_type \<Rightarrow> bool" where
  "api_parameter_valid K c v ParamEpochLength = decoded_in_range (decode_u32 K v) (gc_epoch_length c)"
| "api_parameter_valid K c v ParamMinStake = decoded_in_range (decode_u128 K v) (gc_min_stake c)"
| "api_parameter_valid K c v ParamMaxValidators = decoded_in_range (decode_u32 K v) (gc_max_validators c)"
| "api_parameter_valid K c v ParamMinPerformanceScore = decoded_in_range (decode_u64 K v) (gc_min_performance_score c)"
| "api_parameter_valid K c v ParamSlashPercent = decoded_in_range (decode_u32 K v) (gc_slash_percent c)"
| "api_parameter_valid K c v ParamValidatorReward = decoded_in_range (decode_u128 K v) (gc_validator_reward c)"
| "api_parameter_valid K c v ParamLeaveCooldown = decoded_in_range (decode_u32 K v) (gc_leave_cooldown c)"
| "api_parameter_valid K c v ParamPosWeight = decoded_in_range (decode_u64 K v) (gc_pos_weight c)"
| "api_parameter_valid K c v ParamPoiWeight = decoded_in_range (decode_u64 K v) (gc_poi_weight c)"
| "api_parameter_valid K c v ParamBlockAuthorshipBoost = decoded_in_range (decode_u64 K v) (gc_block_authorship_boost c)"
| "api_parameter_valid K c v ParamMissedBlockPenalty = decoded_in_range (decode_u64 K v) (gc_missed_block_penalty c)"
| "api_parameter_valid K c v ParamInferenceBoostLow = decoded_in_range (decode_u64 K v) (gc_inference_boost_low c)"
| "api_parameter_valid K c v ParamInferenceBoostMedium = decoded_in_range (decode_u64 K v) (gc_inference_boost_medium c)"
| "api_parameter_valid K c v ParamInferenceBoostHigh = decoded_in_range (decode_u64 K v) (gc_inference_boost_high c)"
| "api_parameter_valid K c v _ = False"

definition validate_parameter_value_encoded ::
  "scale_codec \<Rightarrow> (8 word list \<Rightarrow> parameter_type option) \<Rightarrow> 8 word list \<Rightarrow> 8 word list
     \<Rightarrow> ('c, 'sig, 'z) dcf_world_scheme \<Rightarrow> bool" where
  "validate_parameter_value_encoded K dec parameter v w =
     (case dec parameter of None \<Rightarrow> False
      | Some p \<Rightarrow> api_parameter_valid K (GovernanceConfigStorage w) v p)"

section \<open>Lemmas\<close>

definition known_to_api :: "parameter_type \<Rightarrow> bool" where
  "known_to_api p \<longleftrightarrow> p \<in> {ParamEpochLength, ParamMinStake, ParamMaxValidators, ParamMinPerformanceScore,
     ParamSlashPercent, ParamValidatorReward, ParamLeaveCooldown, ParamPosWeight, ParamPoiWeight,
     ParamBlockAuthorshipBoost, ParamMissedBlockPenalty, ParamInferenceBoostLow,
     ParamInferenceBoostMedium, ParamInferenceBoostHigh}"

text \<open>Where the API knows a parameter, it gives the value that an update would replace.\<close>

lemma api_value_agrees:
  assumes "\<And>x. length (encode_u32 K x) \<le> 64" "\<And>x. length (encode_u64 K x) \<le> 64" "\<And>x. length (encode_u128 K x) \<le> 64"
  shows "api_parameter_value K c p = (if known_to_api p then Some (projr (get_parameter_value K c p)) else None)"
  using assms by (cases p) (simp_all add: known_to_api_def bounded_bytes_def)

lemma update_range_Inr:
  "update_range decoded r allowed err store = Inr c' \<Longrightarrow> decoded_in_range decoded r"
  by (auto simp: update_range_def decoded_in_range_def split: option.splits if_splits)

text \<open>
  A value that the API refuses for a parameter it knows is refused by the update. The converse does not
  hold for the consensus weights, which the update ties to each other.
\<close>

lemma api_refusal_is_final:
  assumes "validate_and_update_parameter K precision p v c = Inr c'" and "known_to_api p"
  shows "api_parameter_valid K c v p"
  using assms by (cases p) (auto simp: known_to_api_def dest: update_range_Inr)

lemma api_accepts_refused_weight:
  assumes "decode_u64 K v = Some x" and "range_min (gc_pos_weight c) \<le> x" "x \<le> range_max (gc_pos_weight c)"
    and "x + range_current (gc_poi_weight c) \<noteq> precision"
  shows "api_parameter_valid K c v ParamPosWeight"
    and "validate_and_update_parameter K precision ParamPosWeight v c = Inl DcfInvalidWeight"
  using assms by (simp_all add: decoded_in_range_def update_range_def)

end
