(* ===== verification/Todo_Pallet.thy ===== *)
theory Todo_Pallet
  imports Pallet_Types
begin

text \<open>
  The example pallet \<open>pallet-todo\<close>: per account a list of items with increasing numbers and a counter
  that caps it. The bounded vectors of the calls arrive within their bounds. The invariant ties the
  counter and the next number to the stored items.
\<close>

section \<open>State\<close>

record todo_item =
  ti_id :: u64
  ti_title :: "8 word list"
  ti_description :: "8 word list"
  ti_completed :: bool
  ti_created_at :: u32

datatype todo_event =
    TodoCreated account_id u64
  | TodoCompleted account_id u64
  | TodoRemoved account_id u64
  | TodoUpdated account_id u64

datatype todo_error = TodoBadOrigin | TodoNotFound | AlreadyCompleted | TooManyTodos | TodoIdOverflow

record todo_world =
  todo_block_number :: u32
  Todos :: "(account_id \<times> u64, todo_item) smap"
  NextTodoId :: "(account_id, u64) smap"
  TodoCount :: "(account_id, u32) smap"
  todo_events :: "todo_event list"

definition todo_deposit :: "todo_event \<Rightarrow> todo_world \<Rightarrow> todo_world" where
  "todo_deposit e w = w\<lparr>todo_events := todo_events w @ [e]\<rparr>"

definition todo_signed :: "origin \<Rightarrow> todo_error + account_id" where
  "todo_signed orig = (case ensure_signed orig of Inl e \<Rightarrow> Inl TodoBadOrigin | Inr who \<Rightarrow> Inr who)"

section \<open>Calls\<close>

definition create_todo ::
  "u32 \<Rightarrow> origin \<Rightarrow> 8 word list \<Rightarrow> 8 word list \<Rightarrow> (todo_error, todo_world, unit) op" where
  "create_todo max_todos orig title description w =
     (case todo_signed orig of Inl e \<Rightarrow> (Inl e, w) | Inr who \<Rightarrow>
      (let count = sm_val 0 (TodoCount w) who
       in if \<not> count < max_todos then (Inl TooManyTodos, w)
          else
            (let todo_id = sm_val 0 (NextTodoId w) who
             in case checked_add todo_id 1 of
                  None \<Rightarrow> (Inl TodoIdOverflow, w)
                | Some next_id \<Rightarrow>
                    (let item = \<lparr>ti_id = todo_id, ti_title = title, ti_description = description,
                           ti_completed = False, ti_created_at = todo_block_number w\<rparr>
                     in (Inr (), todo_deposit (TodoCreated who todo_id)
                          (w\<lparr>Todos := sm_put (who, todo_id) item (Todos w),
                             NextTodoId := sm_put who next_id (NextTodoId w),
                             TodoCount := sm_put who (count + 1) (TodoCount w)\<rparr>))))))"

definition complete_todo :: "origin \<Rightarrow> u64 \<Rightarrow> (todo_error, todo_world, unit) op" where
  "complete_todo orig todo_id w =
     (case todo_signed orig of Inl e \<Rightarrow> (Inl e, w) | Inr who \<Rightarrow>
      (case sm_get (Todos w) (who, todo_id) of
         None \<Rightarrow> (Inl TodoNotFound, w)
       | Some item \<Rightarrow>
           if ti_completed item then (Inl AlreadyCompleted, w)
           else (Inr (), todo_deposit (TodoCompleted who todo_id)
             (w\<lparr>Todos := sm_put (who, todo_id) (item\<lparr>ti_completed := True\<rparr>) (Todos w)\<rparr>))))"

definition remove_todo :: "origin \<Rightarrow> u64 \<Rightarrow> (todo_error, todo_world, unit) op" where
  "remove_todo orig todo_id w =
     (case todo_signed orig of Inl e \<Rightarrow> (Inl e, w) | Inr who \<Rightarrow>
      if \<not> sm_has (Todos w) (who, todo_id) then (Inl TodoNotFound, w)
      else (Inr (), todo_deposit (TodoRemoved who todo_id)
        (w\<lparr>Todos := sm_del (who, todo_id) (Todos w),
           TodoCount := sm_put who (sat_sub (sm_val 0 (TodoCount w) who) 1) (TodoCount w)\<rparr>)))"

definition update_todo ::
  "origin \<Rightarrow> u64 \<Rightarrow> 8 word list \<Rightarrow> 8 word list \<Rightarrow> (todo_error, todo_world, unit) op" where
  "update_todo orig todo_id new_title new_description w =
     (case todo_signed orig of Inl e \<Rightarrow> (Inl e, w) | Inr who \<Rightarrow>
      (case sm_get (Todos w) (who, todo_id) of
         None \<Rightarrow> (Inl TodoNotFound, w)
       | Some item \<Rightarrow> (Inr (), todo_deposit (TodoUpdated who todo_id)
           (w\<lparr>Todos := sm_put (who, todo_id)
                (item\<lparr>ti_title := new_title, ti_description := new_description\<rparr>) (Todos w)\<rparr>))))"

section \<open>Steps\<close>

inductive todo_step :: "u32 \<Rightarrow> todo_world \<Rightarrow> todo_world \<Rightarrow> bool" for max_todos where
  create: "todo_step max_todos w (snd (create_todo max_todos orig title description w))"
| complete: "todo_step max_todos w (snd (complete_todo orig todo_id w))"
| remove: "todo_step max_todos w (snd (remove_todo orig todo_id w))"
| update: "todo_step max_todos w (snd (update_todo orig todo_id title description w))"
| block: "todo_step max_todos w (w\<lparr>todo_block_number := n\<rparr>)"

inductive todo_reachable :: "u32 \<Rightarrow> todo_world \<Rightarrow> bool" for max_todos where
  genesis: "todo_reachable max_todos \<lparr>todo_block_number = n, Todos = [], NextTodoId = [], TodoCount = [],
    todo_events = []\<rparr>"
| step: "todo_reachable max_todos w \<Longrightarrow> todo_step max_todos w w' \<Longrightarrow> todo_reachable max_todos w'"

section \<open>The invariant\<close>

definition numbers_of :: "account_id \<Rightarrow> todo_world \<Rightarrow> u64 set" where
  "numbers_of v w = {i. sm_has (Todos w) (v, i)}"

text \<open>
  Every item carries its own number, which lies below the next one; the counter of an account is the
  number of its items and stays within the cap.
\<close>

definition todo_ok :: "u32 \<Rightarrow> todo_world \<Rightarrow> bool" where
  "todo_ok max_todos w \<longleftrightarrow>
     (\<forall>v i item. sm_get (Todos w) (v, i) = Some item \<longrightarrow> ti_id item = i \<and> i < sm_val 0 (NextTodoId w) v)
     \<and> (\<forall>v. card (numbers_of v w) = unat (sm_val 0 (TodoCount w) v)
          \<and> sm_val 0 (TodoCount w) v \<le> max_todos)"

lemma numbers_finite: "finite (numbers_of v w)"
  by (rule finite_subset [of _ UNIV]) simp_all

lemma todo_item_ok:
  "todo_ok m w \<Longrightarrow> sm_get (Todos w) (v, i) = Some item \<Longrightarrow> ti_id item = i \<and> i < sm_val 0 (NextTodoId w) v"
  by (simp add: todo_ok_def)

lemma replace_item_ok:
  assumes "todo_ok m w" and "sm_get (Todos w) (who, i) = Some item" and "ti_id item' = ti_id item"
  shows "todo_ok m (todo_deposit e (w\<lparr>Todos := sm_put (who, i) item' (Todos w)\<rparr>))"
proof -
  have "numbers_of v (todo_deposit e (w\<lparr>Todos := sm_put (who, i) item' (Todos w)\<rparr>)) = numbers_of v w" for v
    using assms(2) by (auto simp: numbers_of_def todo_deposit_def sm_has_def)
  then show ?thesis
    using assms by (auto simp: todo_ok_def todo_deposit_def)
qed

lemma unat_count_Suc: "c < m \<Longrightarrow> unat (c + 1) = Suc (unat c)" for c m :: u32
proof -
  assume "c < m"
  then have "unat c + 1 < 2 ^ 32"
    using unat_lt [of m] by (simp add: word_less_nat_alt)
  then show ?thesis
    by (simp add: unat_word_ariths)
qed

lemma create_ok:
  assumes "todo_ok m w"
  shows "todo_ok m (snd (create_todo m orig title description w))"
proof (cases "\<exists>who nid. todo_signed orig = Inr who \<and> sm_val 0 (TodoCount w) who < m
    \<and> checked_add (sm_val 0 (NextTodoId w) who) 1 = Some nid")
  case True
  then obtain who nid where call: "todo_signed orig = Inr who" "sm_val 0 (TodoCount w) who < m"
      "checked_add (sm_val 0 (NextTodoId w) who) 1 = Some nid"
    by blast
  let ?i = "sm_val 0 (NextTodoId w) who"
  let ?w = "snd (create_todo m orig title description w)"
  have step: "Todos ?w = sm_put (who, ?i) \<lparr>ti_id = ?i, ti_title = title, ti_description = description,
        ti_completed = False, ti_created_at = todo_block_number w\<rparr> (Todos w)"
      "NextTodoId ?w = sm_put who nid (NextTodoId w)"
      "TodoCount ?w = sm_put who (sm_val 0 (TodoCount w) who + 1) (TodoCount w)"
    using call by (simp_all add: create_todo_def Let_def todo_deposit_def)
  have above: "?i < nid"
    using call(3) by (simp add: checked_add_Some word_less_nat_alt)
  have fresh: "?i \<notin> numbers_of who w"
    using todo_item_ok [OF assms, of who ?i] by (cases "sm_get (Todos w) (who, ?i)") (auto simp: numbers_of_def sm_has_def)
  have "numbers_of v ?w = (if v = who then insert ?i (numbers_of who w) else numbers_of v w)" for v
    by (auto simp: numbers_of_def step)
  moreover have "unat (sm_val 0 (TodoCount w) who + 1) = Suc (unat (sm_val 0 (TodoCount w) who))"
      "sm_val 0 (TodoCount w) who + 1 \<le> m"
    using unat_count_Suc [OF call(2)] call(2) by (simp_all add: word_less_nat_alt word_le_nat_alt)
  ultimately have "card (numbers_of v ?w) = unat (sm_val 0 (TodoCount ?w) v)" "sm_val 0 (TodoCount ?w) v \<le> m" for v
    using assms fresh numbers_finite by (auto simp: todo_ok_def step)
  moreover have "ti_id item = i \<and> i < sm_val 0 (NextTodoId ?w) v"
    if "sm_get (Todos ?w) (v, i) = Some item" for v i item
    using that above todo_item_ok [OF assms] by (force simp: step split: if_splits)
  ultimately show ?thesis
    by (simp add: todo_ok_def)
next
  case False
  then have "snd (create_todo m orig title description w) = w"
    by (auto simp: create_todo_def Let_def split: sum.splits option.splits)
  with assms show ?thesis by simp
qed

lemma remove_ok:
  assumes "todo_ok m w"
  shows "todo_ok m (snd (remove_todo orig i w))"
proof (cases "\<exists>who. todo_signed orig = Inr who \<and> sm_has (Todos w) (who, i)")
  case True
  then obtain who where call: "todo_signed orig = Inr who" "sm_has (Todos w) (who, i)"
    by blast
  let ?w = "snd (remove_todo orig i w)"
  have step: "Todos ?w = sm_del (who, i) (Todos w)" "NextTodoId ?w = NextTodoId w"
      "TodoCount ?w = sm_put who (sat_sub (sm_val 0 (TodoCount w) who) 1) (TodoCount w)"
    using call by (simp_all add: remove_todo_def todo_deposit_def)
  have "numbers_of v ?w = (if v = who then numbers_of who w - {i} else numbers_of v w)" for v
    by (auto simp: numbers_of_def step)
  moreover have "i \<in> numbers_of who w"
    using call(2) by (simp add: numbers_of_def)
  moreover have "unat (sat_sub (sm_val 0 (TodoCount w) who) 1) = unat (sm_val 0 (TodoCount w) who) - 1"
    by (simp add: unat_sat_sub)
  moreover have "sat_sub (sm_val 0 (TodoCount w) who) 1 \<le> sm_val 0 (TodoCount w) who"
    by (simp add: word_le_nat_alt unat_sat_sub)
  ultimately have "card (numbers_of v ?w) = unat (sm_val 0 (TodoCount ?w) v)" "sm_val 0 (TodoCount ?w) v \<le> m" for v
    using assms numbers_finite by (auto simp: todo_ok_def step card_Diff_singleton intro: order_trans)
  moreover have "ti_id item = j \<and> j < sm_val 0 (NextTodoId ?w) v"
    if "sm_get (Todos ?w) (v, j) = Some item" for v j item
    using that todo_item_ok [OF assms] by (auto simp: step split: if_splits)
  ultimately show ?thesis
    by (simp add: todo_ok_def)
next
  case False
  then have "snd (remove_todo orig i w) = w"
    by (auto simp: remove_todo_def split: sum.splits)
  with assms show ?thesis by simp
qed

lemma todo_step_ok: "todo_step m w w' \<Longrightarrow> todo_ok m w \<Longrightarrow> todo_ok m w'"
proof (induction rule: todo_step.induct)
  case (complete w orig i)
  then show ?case
    by (auto simp: complete_todo_def intro!: replace_item_ok split: sum.splits option.splits)
next
  case (update w orig i title description)
  then show ?case
    by (auto simp: update_todo_def intro!: replace_item_ok split: sum.splits option.splits)
next
  case (block w n)
  then show ?case
    by (simp add: todo_ok_def numbers_of_def)
qed (rule create_ok remove_ok, assumption)+

text \<open>
  In every reachable state the counter of an account is the number of its items and within the cap, and
  no number is used twice.
\<close>

theorem todo_invariant: "todo_reachable m w \<Longrightarrow> todo_ok m w"
proof (induction rule: todo_reachable.induct)
  case (genesis n)
  show ?case
    by (simp add: todo_ok_def numbers_of_def sm_val_def)
next
  case (step w w')
  then show ?case
    by (blast intro: todo_step_ok)
qed

end
