(* ===== verification/Node_Rpc.thy ===== *)
theory Node_Rpc
  imports Runtime_Api
begin

text \<open>
  The methods of the node's RPC interface that compute something (\<open>rpc.rs\<close>), the comparison of block
  heights with peers (\<open>rpc.rs\<close>, \<open>fork_detection.rs\<close>, \<open>tools/fork-checker.rs\<close>) and the rate limiter.
  The methods see the state \<open>w\<close> at the best block; \<open>ext\<close> tells whether the extensions are enabled.
  Errors of API calls other than panics of the runtime do not arise.
\<close>

section \<open>Data\<close>

datatype rpc_error = ExtensionsDisabled | ApiCallPanicked | InvalidBlockHash | NoPeerEndpoint | NoFinalizedHash

datatype rpc_validator_status = RpcActive | RpcInactive | RpcSlashed

datatype inference_status = InferencePending | InferenceIsSubmitted | InferenceIsChallenged | InferenceVerified

datatype consensus_health = ConsensusHealthy | ConsensusDegraded | ConsensusCritical

record rpc_validator_profile =
  rp_stake :: u128
  rp_pos_score :: u32
  rp_poi_score :: u64
  rp_trust_score :: u64
  rp_status :: rpc_validator_status
  rp_authored_blocks :: u32
  rp_missed_blocks :: u32

record rpc_trust_score =
  rt_total :: u64
  rt_pos_component :: u64
  rt_poi_component :: u64

record system_status =
  st_current_epoch :: u32
  st_active_validators :: u32
  st_total_validators :: u32
  st_last_finalized_block :: u32
  st_consensus_health :: consensus_health

datatype health_issue = NoActiveValidators | LowValidatorCount nat | BehindFinalized

record block_authoring_stats =
  ba_authored_blocks :: u32
  ba_missed_blocks :: u32
  ba_expected_blocks :: u32
  ba_participation_rate :: u64
  ba_consecutive_misses :: u32
  ba_last_authored_block :: "u32 option"

definition if_extensions :: "bool \<Rightarrow> rpc_error + 'r \<Rightarrow> rpc_error + 'r" where
  "if_extensions ext r = (if ext then r else Inl ExtensionsDisabled)"

section \<open>Stake and inference\<close>

text \<open>\<open>active\<close> is the active list as the staking pallet has it from its handler.\<close>

definition rpc_get_validator_status ::
  "account_id list \<Rightarrow> ('c, 'z) pos_world_scheme \<Rightarrow> account_id \<Rightarrow> rpc_validator_status" where
  "rpc_get_validator_status active w v =
     (if v \<notin> set active then RpcInactive
      else if sm_val 0 (SlashingCount w) v > 0 then RpcSlashed else RpcActive)"

text \<open>The second component of a stored result is its epoch, which this method hands out as confidence.\<close>

definition rpc_get_inference_result ::
  "('c, 'sig, 'z) poi_world_scheme \<Rightarrow> account_id \<Rightarrow> (u32 \<times> u32) option" where
  "rpc_get_inference_result w v = sm_get (InferenceResults w) v"

definition rpc_get_inference_confidence :: "('c, 'sig, 'z) poi_world_scheme \<Rightarrow> account_id \<Rightarrow> u32 option" where
  "rpc_get_inference_confidence w v = map_option snd (sm_get (InferenceResults w) v)"

definition rpc_get_challenge_window :: "('c, 'sig, 'z) poi_world_scheme \<Rightarrow> u32 \<times> u32" where
  "rpc_get_challenge_window w =
     (let start_block = PoiCurrentEpoch w * 100 in (start_block, start_block + 50))"

definition rpc_get_inference_status :: "('c, 'sig, 'z) poi_world_scheme \<Rightarrow> account_id \<Rightarrow> inference_status" where
  "rpc_get_inference_status w v =
     (case (sm_get (InferenceResults w) v, sm_get (Challenges w) v) of
        (None, None) \<Rightarrow> InferencePending
      | (Some _, None) \<Rightarrow> InferenceIsSubmitted
      | (Some _, Some _) \<Rightarrow> InferenceIsChallenged
      | (None, Some _) \<Rightarrow> InferenceVerified)"

section \<open>Consensus\<close>

definition rpc_get_expected_author ::
  "bool \<Rightarrow> ('c, 'sig) dcf_config \<Rightarrow> ('c, 'sig, 'z) dcf_world_scheme \<Rightarrow> u32 \<Rightarrow> rpc_error + account_id option" where
  "rpc_get_expected_author ext cfg w n = if_extensions ext
     (case get_expected_author cfg n w of None \<Rightarrow> Inl ApiCallPanicked | Some author \<Rightarrow> Inr author)"

definition rpc_get_current_author ::
  "bool \<Rightarrow> ('c, 'sig) dcf_config \<Rightarrow> ('c, 'sig, 'z) dcf_world_scheme \<Rightarrow> u32 \<Rightarrow> rpc_error + account_id option" where
  "rpc_get_current_author ext cfg w best_number = if_extensions ext
     (case get_expected_author cfg best_number w of None \<Rightarrow> Inl ApiCallPanicked | Some author \<Rightarrow> Inr author)"

definition rpc_poi_score :: "('c, 'sig, 'z) poi_world_scheme \<Rightarrow> account_id \<Rightarrow> u64" where
  "rpc_poi_score w v = (case sm_get (InferenceResults w) v of None \<Rightarrow> 0 | Some (result, confidence) \<Rightarrow> ucast confidence)"

text \<open>
  Products and sums wrap around; weights of zero are a division by zero, which ends the method with a
  panic that the RPC server reports as an error.
\<close>

definition rpc_get_trust_score ::
  "bool \<Rightarrow> ('c, 'sig, 'z) dcf_world_scheme \<Rightarrow> account_id \<Rightarrow> rpc_error + rpc_trust_score" where
  "rpc_get_trust_score ext w v = if_extensions ext
     (let pos_score = sm_val 0 (ValidatorScores w) v;
          (pw, iw) = get_consensus_weights w;
          pos_component = ucast pos_score * pw;
          poi_component = rpc_poi_score w v * iw
      in if pw + iw = 0 then Inl ApiCallPanicked
         else Inr \<lparr>rt_total = (pos_component + poi_component) div (pw + iw),
           rt_pos_component = pos_component, rt_poi_component = poi_component\<rparr>)"

definition rpc_get_validator_profile ::
  "bool \<Rightarrow> ('c, 'sig) dcf_config \<Rightarrow> account_id list \<Rightarrow> ('c, 'sig, 'z) dcf_world_scheme \<Rightarrow> account_id
     \<Rightarrow> rpc_error + rpc_validator_profile" where
  "rpc_get_validator_profile ext cfg active w v = if_extensions ext
     (let pos_score = sm_val 0 (ValidatorScores w) v;
          poi_score = rpc_poi_score w v;
          (pw, iw) = get_consensus_weights w;
          (authored, missed) = get_validator_participation cfg w v
      in if pw + iw = 0 then Inl ApiCallPanicked
         else Inr \<lparr>rp_stake = sm_val 0 (Stake w) v, rp_pos_score = pos_score, rp_poi_score = poi_score,
           rp_trust_score = (ucast pos_score * pw + poi_score * iw) div (pw + iw),
           rp_status = rpc_get_validator_status active w v,
           rp_authored_blocks = authored, rp_missed_blocks = missed\<rparr>)"

definition rpc_get_status ::
  "bool \<Rightarrow> ('c, 'sig) dcf_config \<Rightarrow> account_id list \<Rightarrow> u32 \<Rightarrow> ('c, 'sig, 'z) dcf_world_scheme
     \<Rightarrow> rpc_error + system_status" where
  "rpc_get_status ext cfg active finalized_number w = if_extensions ext
     (let active_count = of_nat (length active) :: u32
      in Inr \<lparr>st_current_epoch = DcfCurrentEpoch w, st_active_validators = active_count,
           st_total_validators = get_total_validators_count cfg w,
           st_last_finalized_block = finalized_number,
           st_consensus_health = (if active_count \<ge> 3 then ConsensusHealthy
              else if active_count \<ge> 1 then ConsensusDegraded else ConsensusCritical)\<rparr>)"

text \<open>A low number of validators is an issue that leaves the node healthy.\<close>

definition rpc_health :: "bool \<Rightarrow> account_id list \<Rightarrow> u32 \<Rightarrow> u32 \<Rightarrow> rpc_error + bool \<times> health_issue list" where
  "rpc_health ext active best_number finalized_number = if_extensions ext
     (let set_issues = (if active = [] then [NoActiveValidators]
            else if length active < 3 then [LowValidatorCount (length active)] else []);
          sync_issues = (if best_number < finalized_number then [BehindFinalized] else [])
      in Inr (active \<noteq> [] \<and> \<not> best_number < finalized_number, set_issues @ sync_issues))"

section \<open>Authoring statistics\<close>

text \<open>
  Rates are floating point numbers of 64 bits, given by their bit patterns, whose order is the order of
  numbers that are not negative; \<open>percent a e\<close> is \<open>a as f64 / e as f64 * 100.0\<close>.
\<close>

definition f64_100 :: u64 where "f64_100 = 0x4059000000000000"
definition f64_90 :: u64 where "f64_90 = 0x4056800000000000"
definition f64_85 :: u64 where "f64_85 = 0x4055400000000000"

definition rpc_get_block_authoring_stats ::
  "bool \<Rightarrow> (u32 \<Rightarrow> u32 \<Rightarrow> u64) \<Rightarrow> ('c, 'sig) dcf_config \<Rightarrow> ('c, 'sig, 'z) dcf_world_scheme \<Rightarrow> account_id
     \<Rightarrow> rpc_error + block_authoring_stats" where
  "rpc_get_block_authoring_stats ext percent cfg w v = if_extensions ext
     (let (authored, missed) = get_validator_participation cfg w v;
          expected_blocks = authored + missed;
          rate = (if expected_blocks > 0 then percent authored expected_blocks else f64_100);
          last_active = get_validator_last_active cfg w v
      in Inr \<lparr>ba_authored_blocks = authored, ba_missed_blocks = missed, ba_expected_blocks = expected_blocks,
           ba_participation_rate = rate,
           ba_consecutive_misses = (if get_validator_profile_new cfg w v \<noteq> None \<and> rate < f64_90 \<and> missed > 0
              then min missed 5 else 0),
           ba_last_authored_block = (if authored > 0 \<and> last_active > 0 then Some last_active else None)\<rparr>)"

definition rpc_get_all_block_authoring_stats ::
  "bool \<Rightarrow> (u32 \<Rightarrow> u32 \<Rightarrow> u64) \<Rightarrow> ('c, 'sig) dcf_config \<Rightarrow> account_id list \<Rightarrow> ('c, 'sig, 'z) dcf_world_scheme
     \<Rightarrow> rpc_error + (account_id \<times> block_authoring_stats) list" where
  "rpc_get_all_block_authoring_stats ext percent cfg active w = if_extensions ext
     (Inr (sort_high (\<lambda>p. ba_participation_rate (snd p))
        (List.map_filter (\<lambda>v. case rpc_get_block_authoring_stats ext percent cfg w v of
             Inl e \<Rightarrow> None | Inr stats \<Rightarrow> Some (v, stats)) active)))"

section \<open>Finality\<close>

definition rpc_get_finalized_hash ::
  "bool \<Rightarrow> 'sig dvf_config \<Rightarrow> ('c, 'sig, 'z) dvf_world_scheme \<Rightarrow> rpc_error + hash" where
  "rpc_get_finalized_hash ext cfg w = if_extensions ext
     (case finalized_checkpoint_hash (get_finality_info cfg w (FinalizedBlockNumber w)) of
        Some h \<Rightarrow> Inr h | None \<Rightarrow> Inl NoFinalizedHash)"

definition rpc_is_block_finalized ::
  "bool \<Rightarrow> 'sig dvf_config \<Rightarrow> ('c, 'sig, 'z) dvf_world_scheme \<Rightarrow> u32 \<Rightarrow> rpc_error + bool" where
  "rpc_is_block_finalized ext cfg w n = if_extensions ext (Inr (is_finalized (get_finality_info cfg w n)))"

text \<open>\<open>trim_start_matches\<close> removes the prefix as often as it occurs.\<close>

fun trim_0x :: "string \<Rightarrow> string" where
  "trim_0x (a # b # s) = (if [a, b] = ''0x'' then trim_0x s else a # b # s)"
| "trim_0x s = s"

definition hex_value :: "char \<Rightarrow> 8 word option" where
  "hex_value c =
     (let n = of_char c :: nat
      in if 48 \<le> n \<and> n \<le> 57 then Some (of_nat (n - 48))
         else if 97 \<le> n \<and> n \<le> 102 then Some (of_nat (n - 87))
         else if 65 \<le> n \<and> n \<le> 70 then Some (of_nat (n - 55)) else None)"

fun hex_decode :: "string \<Rightarrow> 8 word list option" where
  "hex_decode [] = Some []"
| "hex_decode [c] = None"
| "hex_decode (c # d # s) =
     (case (hex_value c, hex_value d, hex_decode s) of
        (Some x, Some y, Some bytes) \<Rightarrow> Some ((x * 16 + y) # bytes) | _ \<Rightarrow> None)"

definition rpc_get_accumulated_weight ::
  "bool \<Rightarrow> (8 word list \<Rightarrow> hash) \<Rightarrow> ('c, 'sig, 'z) dvf_world_scheme \<Rightarrow> string \<Rightarrow> rpc_error + u128" where
  "rpc_get_accumulated_weight ext hash_of_bytes w block_hash = if_extensions ext
     (case hex_decode (trim_0x block_hash) of
        None \<Rightarrow> Inl InvalidBlockHash
      | Some bytes \<Rightarrow>
          if length bytes \<noteq> 32 then Inl InvalidBlockHash
          else Inr (sm_val 0 (VoteTallies w) (hash_of_bytes bytes)))"

section \<open>Comparison with peers\<close>

record fork_report =
  fr_peer :: nat
  fr_local_best :: u32
  fr_peer_best :: u32
  fr_divergence :: u32

text \<open>\<open>peers\<close> holds the height that each endpoint answers with, \<open>None\<close> where the connection fails.\<close>

definition divergence_of :: "u32 \<Rightarrow> u32 \<Rightarrow> u32" where
  "divergence_of here there = (if here > there then here - there else there - here)"

definition check_for_forks :: "u32 \<Rightarrow> u32 option list \<Rightarrow> fork_report list" where
  "check_for_forks here peers =
     List.map_filter (\<lambda>(i, answer). map_option (\<lambda>there. \<lparr>fr_peer = i, fr_local_best = here,
         fr_peer_best = there, fr_divergence = divergence_of here there\<rparr>) answer)
       (zip [0..<length peers] peers)"

definition rpc_check_peers :: "bool \<Rightarrow> u32 \<Rightarrow> u32 option list \<Rightarrow> rpc_error + fork_report list" where
  "rpc_check_peers ext here peers = if_extensions ext
     (if peers = [] then Inl NoPeerEndpoint else Inr (check_for_forks here peers))"

text \<open>What the command line tool says of the reports: which peers diverge, and whether any does.\<close>

definition forks_detected :: "u32 \<Rightarrow> fork_report list \<Rightarrow> nat list" where
  "forks_detected threshold reports = map fr_peer (filter (\<lambda>r. fr_divergence r > threshold) reports)"

section \<open>Rate limiter\<close>

record rate_limiter =
  rl_window :: nat
  rl_max_requests :: u32
  rl_requests :: "(string, nat list) smap"

definition new_rate_limiter :: "nat \<Rightarrow> u32 \<Rightarrow> rate_limiter" where
  "new_rate_limiter window max_requests =
     \<lparr>rl_window = window, rl_max_requests = max_requests, rl_requests = []\<rparr>"

definition check_rate_limit :: "string \<Rightarrow> nat \<Rightarrow> rate_limiter \<Rightarrow> bool \<times> rate_limiter" where
  "check_rate_limit ip now L =
     (let history = filter (\<lambda>t. now - t \<le> rl_window L) (sm_val [] (rl_requests L) ip)
      in if of_nat (length history) \<ge> rl_max_requests L
         then (False, L\<lparr>rl_requests := sm_put ip history (rl_requests L)\<rparr>)
         else (True, L\<lparr>rl_requests := sm_put ip (history @ [now]) (rl_requests L)\<rparr>))"

end
