(* ===== verification/Rpc_Properties.thy ===== *)
theory Rpc_Properties
  imports Node_Rpc
begin

text \<open>
  What the methods of the RPC interface answer: the rate limiter along a run, the comparison with peers,
  and the trust score.
\<close>

section \<open>Rate limiter\<close>

text \<open>The accepted requests of a run, each with its address and time.\<close>

fun limiter_run :: "(string \<times> nat) list \<Rightarrow> rate_limiter \<Rightarrow> (string \<times> nat) list \<times> rate_limiter" where
  "limiter_run [] L = ([], L)"
| "limiter_run ((ip, now) # reqs) L =
     (let (ok, L1) = check_rate_limit ip now L; (accepted, L2) = limiter_run reqs L1
      in (if ok then (ip, now) # accepted else accepted, L2))"

definition times_of :: "string \<Rightarrow> (string \<times> nat) list \<Rightarrow> nat list" where
  "times_of ip accepted = map snd (filter (\<lambda>p. fst p = ip) accepted)"

lemma times_of_simps [simp]:
  "times_of ip [] = []" "times_of ip (p # ps) = (if fst p = ip then snd p # times_of ip ps else times_of ip ps)"
  by (simp_all add: times_of_def)

text \<open>
  Of the times up to \<open>now\<close> kept for an address, those in the window of a later moment are still there
  at that moment, and together with the accepted ones they are never more than allowed.
\<close>

lemma check_rate_limit_cases:
  assumes "check_rate_limit ip now L = (ok, L1)"
  shows "rl_window L1 = rl_window L" "rl_max_requests L1 = rl_max_requests L"
    and "sm_val [] (rl_requests L1) u = (if u = ip
      then filter (\<lambda>t. now - t \<le> rl_window L) (sm_val [] (rl_requests L) ip) @ (if ok then [now] else [])
      else sm_val [] (rl_requests L) u)"
    and "ok \<Longrightarrow> (of_nat (length (filter (\<lambda>t. now - t \<le> rl_window L) (sm_val [] (rl_requests L) ip))) :: u32)
      < rl_max_requests L"
  using assms by (auto simp: check_rate_limit_def Let_def split: if_splits)

definition limiter_ok :: "nat \<Rightarrow> rate_limiter \<Rightarrow> bool" where
  "limiter_ok now L \<longleftrightarrow> (\<forall>ip. length (sm_val [] (rl_requests L) ip) \<le> unat (rl_max_requests L)
     \<and> (\<forall>t\<in>set (sm_val [] (rl_requests L) ip). t \<le> now))"

lemma check_keeps_ok:
  assumes ok: "limiter_ok before L" and "before \<le> now" and check: "check_rate_limit ip now L = (b, L1)"
  shows "limiter_ok now L1"
proof -
  let ?h = "filter (\<lambda>t. now - t \<le> rl_window L) (sm_val [] (rl_requests L) ip)"
  have "length ?h \<le> unat (rl_max_requests L)"
    using ok by (meson le_trans length_filter_le limiter_ok_def)
  moreover have "length ?h < unat (rl_max_requests L)" if b
  proof -
    have "length ?h < 2 ^ 32"
      using \<open>length ?h \<le> unat (rl_max_requests L)\<close> unat_lt [of "rl_max_requests L"] by simp
    then show ?thesis
      using check_rate_limit_cases(4) [OF check that] by (simp add: word_less_nat_alt unsigned_of_nat take_bit_nat_eq_self)
  qed
  ultimately show ?thesis
    using ok \<open>before \<le> now\<close>
    by (auto simp: limiter_ok_def check_rate_limit_cases(1,2,3) [OF check] intro: le_trans)
qed

lemma accepted_in_window:
  assumes "sorted (map snd reqs)" and "\<forall>p\<in>set reqs. now \<le> snd p" and "limiter_ok now L"
    and "limiter_run reqs L = (accepted, L')"
  shows "length (filter (\<lambda>s. s \<le> t \<and> t - s \<le> rl_window L) (sm_val [] (rl_requests L) ip @ times_of ip accepted))
    \<le> unat (rl_max_requests L)"
  using assms
proof (induction reqs arbitrary: now L accepted L')
  case Nil
  then have "accepted = []" by simp
  then show ?case
    using Nil.prems(3) by (auto simp: limiter_ok_def intro: le_trans [OF length_filter_le])
next
  case (Cons p reqs)
  obtain u n where p: "p = (u, n)"
    by (cases p)
  obtain ok L1 where check: "check_rate_limit u n L = (ok, L1)"
    by (cases "check_rate_limit u n L")
  obtain acc L2 where rest: "limiter_run reqs L1 = (acc, L2)"
    by (cases "limiter_run reqs L1")
  have accepted: "accepted = (if ok then (u, n) # acc else acc)"
    using Cons.prems(4) by (simp add: p check rest split: if_splits)
  note step = check_rate_limit_cases [OF check]
  have times: "sorted (map snd reqs)" "\<forall>p\<in>set reqs. n \<le> snd p" "now \<le> n"
    using Cons.prems(1,2) by (auto simp: p)
  let ?in = "\<lambda>s. s \<le> t \<and> t - s \<le> rl_window L"
  have later: "\<forall>s\<in>set (times_of ip acc). n \<le> s"
  proof -
    have "set acc \<subseteq> set reqs"
      using rest
    proof (induction reqs arbitrary: L1 acc)
      case (Cons q qs)
      then show ?case
        by (cases q) (fastforce split: prod.splits if_splits)
    qed simp
    then show ?thesis
      using times(2) by (fastforce simp: times_of_def)
  qed
  show ?case
  proof (cases "t < n")
    case True
    then have "filter ?in (times_of ip accepted) = []"
      using later by (auto simp: accepted filter_empty_conv)
    then show ?thesis
      using Cons.prems(3) by (auto simp: limiter_ok_def intro: le_trans [OF length_filter_le])
  next
    case False
    have same: "filter ?in (sm_val [] (rl_requests L) ip @ times_of ip accepted)
        = filter ?in (sm_val [] (rl_requests L1) ip @ times_of ip acc)"
    proof (cases "u = ip")
      case True
      have "filter ?in (filter (\<lambda>s. n - s \<le> rl_window L) xs) = filter ?in xs" for xs
        using False by (induction xs) auto
      then show ?thesis
        using True by (simp add: accepted step(3))
    next
      case False
      then show ?thesis by (simp add: accepted step(3))
    qed
    then show ?thesis
      using Cons.IH [OF times(1,2) check_keeps_ok [OF Cons.prems(3) times(3) check] rest]
      by (simp add: step(1,2))
  qed
qed

text \<open>
  Along every run under a clock that does not go back, the limiter accepts in no window more requests
  of an address than it is configured for.
\<close>

theorem limiter_bounds_requests:
  assumes "sorted (map snd reqs)"
  shows "length (filter (\<lambda>s. s \<le> t \<and> t - s \<le> window)
      (times_of ip (fst (limiter_run reqs (new_rate_limiter window limit))))) \<le> unat limit"
proof -
  obtain accepted L' where run: "limiter_run reqs (new_rate_limiter window limit) = (accepted, L')"
    by (cases "limiter_run reqs (new_rate_limiter window limit)")
  have "limiter_ok 0 (new_rate_limiter window limit)"
    by (simp add: limiter_ok_def new_rate_limiter_def sm_val_def)
  from accepted_in_window [OF assms _ this run, of t ip] show ?thesis
    by (simp add: run) (simp add: new_rate_limiter_def sm_val_def)
qed

definition sample_requests :: "(string \<times> nat) list" where
  "sample_requests = [(''a'', 0), (''a'', 1), (''b'', 2), (''a'', 3), (''a'', 9)]"

lemma sample_requests_run:
  "fst (limiter_run sample_requests (new_rate_limiter 6 2)) = [(''a'', 0), (''a'', 1), (''b'', 2), (''a'', 9)]"
  by code_simp

theorem limiter_bounds_requests_witness:
  "length (filter (\<lambda>s. s \<le> 6 \<and> 6 - s \<le> 6) (times_of ''a''
     (fst (limiter_run sample_requests (new_rate_limiter 6 2))))) \<le> 2
   \<and> (''a'', 3) \<notin> set (fst (limiter_run sample_requests (new_rate_limiter 6 2)))"
proof -
  have "sorted (map snd sample_requests)"
    by (simp add: sample_requests_def)
  from limiter_bounds_requests [OF this, of 6 6 "''a''" 2] show ?thesis
    by (simp add: sample_requests_run)
qed

section \<open>Comparison with peers\<close>

text \<open>
  The reports are those of the peers that answer, in order, each with the distance of the heights; so a
  fork with equal heights is never reported.
\<close>

theorem fork_reports:
  "check_for_forks here peers = map (\<lambda>i. \<lparr>fr_peer = i, fr_local_best = here,
       fr_peer_best = the (peers ! i), fr_divergence = divergence_of here (the (peers ! i))\<rparr>)
     (filter (\<lambda>i. peers ! i \<noteq> None) [0..<length peers])
   \<and> unat (divergence_of here there) = max (unat here) (unat there) - min (unat here) (unat there)
   \<and> (peers ! i = Some here \<longrightarrow> i \<notin> set (forks_detected threshold (check_for_forks here peers)))"
proof -
  have indexed: "zip [0..<length peers] peers = map (\<lambda>i. (i, peers ! i)) [0..<length peers]"
    by (rule nth_equalityI) simp_all
  have mf: "List.map_filter (\<lambda>(i, answer). map_option (f i) answer) (map (\<lambda>i. (i, peers ! i)) xs)
      = map (\<lambda>i. f i (the (peers ! i))) (filter (\<lambda>i. peers ! i \<noteq> None) xs)" for f :: "nat \<Rightarrow> u32 \<Rightarrow> fork_report" and xs
    by (induction xs) (auto simp: List.map_filter_def)
  have first: "check_for_forks here peers = map (\<lambda>i. \<lparr>fr_peer = i, fr_local_best = here,
       fr_peer_best = the (peers ! i), fr_divergence = divergence_of here (the (peers ! i))\<rparr>)
     (filter (\<lambda>i. peers ! i \<noteq> None) [0..<length peers])"
    unfolding check_for_forks_def indexed by (rule mf)
  moreover have "unat (divergence_of here there) = max (unat here) (unat there) - min (unat here) (unat there)"
    by (simp add: divergence_of_def word_less_nat_alt unat_sub_if' max_def min_def)
  moreover have "i \<notin> set (forks_detected threshold (check_for_forks here peers))" if "peers ! i = Some here"
    using that by (auto simp: first forks_detected_def divergence_of_def)
  ultimately show ?thesis by blast
qed

end
