(* ===== verification/Epoch_Manager.thy ===== *)
theory Epoch_Manager
  imports Runtime_Api
begin

text \<open>
  The epoch manager of the node (\<open>epoch_manager.rs\<close>): when it wants an epoch transition, what a
  transition computes, and the proposals it derives from scores. It reads the runtime API and returns or
  logs what it computed; a transition changes no state, so its result is a report here.
\<close>

section \<open>What it reads\<close>

record manager_config =
  mc_min_performance_score :: u64
  mc_high_performance_score :: u64
  mc_min_participation_rate :: u32
  mc_high_participation_rate :: u32
  mc_max_missed_blocks :: u32
  mc_max_missed_blocks_high :: u32
  mc_healthy_validator_score :: u64
  mc_healthy_participation_rate :: u32
  mc_healthy_missed_blocks_max :: u32
  mc_leave_cooldown :: u32
  mc_top_validators_display_count :: u32

text \<open>\<open>None\<close> is an error of the API call.\<close>

record manager_view = runtime_view +
  mv_current_epoch :: "u32 option"
  mv_epoch_length :: "u32 option"
  mv_stake_score :: "account_id \<Rightarrow> u64 option"
  mv_last_active :: "account_id \<Rightarrow> u32 option"
  mv_leave_request :: "account_id \<Rightarrow> u32 option option"
  mv_config :: "manager_config option"
  mv_best_number :: u32

record node_epoch_config =
  ne_min_validators :: u32
  ne_max_validators :: u32

definition mgr_get_pos_score :: "manager_view \<Rightarrow> account_id \<Rightarrow> u64" where
  "mgr_get_pos_score view v = (case mv_stake_score view v of None \<Rightarrow> 0 | Some score \<Rightarrow> score)"

definition mgr_calculate_validator_uptime :: "manager_view \<Rightarrow> account_id \<Rightarrow> u32" where
  "mgr_calculate_validator_uptime view v =
     (case rv_uptime view v of Some (Some stats) \<Rightarrow> us_participation_rate stats | _ \<Rightarrow> 0)"

text \<open>Sum and product wrap around.\<close>

definition participation_percent :: "u32 \<Rightarrow> u32 \<Rightarrow> u32" where
  "participation_percent authored missed =
     (let total_blocks = authored + missed
      in if total_blocks > 0 then authored * 100 div total_blocks else 100)"

definition mgr_participation_metrics :: "manager_view \<Rightarrow> account_id \<Rightarrow> u32 \<times> u32" where
  "mgr_participation_metrics view v =
     (case rv_participation view v of
        None \<Rightarrow> (0, 0)
      | Some (authored, missed) \<Rightarrow> (min (participation_percent authored missed) 100, missed))"

section \<open>Epoch transition\<close>

definition mgr_should_transition_epoch :: "manager_view \<Rightarrow> u32 \<Rightarrow> bool option" where
  "mgr_should_transition_epoch view current_block =
     Option.bind (mv_current_epoch view) (\<lambda>current_epoch.
     Option.bind (mv_epoch_length view) (\<lambda>epoch_length.
       Some (current_block \<ge> sat_mul current_epoch epoch_length + epoch_length)))"

text \<open>The validators that it counts as inactive, with the epochs they missed.\<close>

fun mgr_apply_validator_score_decay :: "manager_view \<Rightarrow> u32 \<Rightarrow> (account_id \<times> u64) list \<Rightarrow> (account_id \<times> u32) list option" where
  "mgr_apply_validator_score_decay view current_epoch [] = Some []"
| "mgr_apply_validator_score_decay view current_epoch ((v, score) # vs) =
     Option.bind (mv_last_active view v) (\<lambda>last_active.
     Option.bind (mgr_apply_validator_score_decay view current_epoch vs) (\<lambda>rest.
       let inactive_epochs = sat_sub current_epoch last_active
       in Some (if inactive_epochs > 0 then (v, inactive_epochs) # rest else rest)))"

text \<open>An error while reading a leave request counts as no request.\<close>

definition out_of_cooldown :: "manager_view \<Rightarrow> manager_config \<Rightarrow> account_id \<Rightarrow> bool" where
  "out_of_cooldown view config v =
     (case mv_leave_request view v of
        Some (Some leave_block) \<Rightarrow> \<not> sat_sub (mv_best_number view) leave_block < mc_leave_cooldown config
      | _ \<Rightarrow> True)"

definition update_active_validator_set ::
  "manager_view \<Rightarrow> node_epoch_config \<Rightarrow> (account_id \<times> u64) list option" where
  "update_active_validator_set view ec =
     Option.bind (rv_active_validators view) (\<lambda>current_active.
     Option.bind (rv_validator_scores view) (\<lambda>all_scores.
     Option.bind (mv_config view) (\<lambda>config.
       Some (take (unat (ne_max_validators ec))
         (sort_high snd (filter (\<lambda>(v, score). score \<ge> mc_healthy_validator_score config
            \<and> out_of_cooldown view config v) all_scores))))))"

datatype set_warning = BelowMinimum nat | AboveMaximum nat

definition process_validator_set_changes :: "manager_view \<Rightarrow> node_epoch_config \<Rightarrow> set_warning list option" where
  "process_validator_set_changes view ec =
     map_option (\<lambda>active.
       (if length active < unat (ne_min_validators ec) then [BelowMinimum (length active)] else [])
       @ (if length active > unat (ne_max_validators ec) then [AboveMaximum (length active)] else []))
       (rv_active_validators view)"

text \<open>The validators with a low rate, and the average over those whose counts can be read; its sum wraps around.\<close>

definition mgr_update_validator_participation_rates :: "manager_view \<Rightarrow> (account_id list \<times> u32) option" where
  "mgr_update_validator_participation_rates view =
     Option.bind (mv_config view) (\<lambda>config.
     Option.bind (rv_active_validators view) (\<lambda>active.
       let rates = List.map_filter (\<lambda>v. map_option (\<lambda>(authored, missed).
             (v, participation_percent authored missed)) (rv_participation view v)) active;
           average = (if of_nat (length rates) > (0 :: u32)
             then sum_list (map snd rates) div of_nat (length rates) else 0)
       in Some (map fst (filter (\<lambda>(v, rate). rate < mc_healthy_participation_rate config) rates), average)))"

definition is_underperforming :: "manager_view \<Rightarrow> manager_config \<Rightarrow> account_id \<Rightarrow> bool" where
  "is_underperforming view config v =
     (case rv_validator_profile view v of
        Some (Some profile) \<Rightarrow>
          (let (rate, missed) = mgr_participation_metrics view v
           in ap_final_score profile < mc_min_performance_score config
              \<or> rate < mc_min_participation_rate config \<or> missed > mc_max_missed_blocks config)
      | _ \<Rightarrow> False)"

definition handle_underperforming_validators :: "manager_view \<Rightarrow> account_id list option" where
  "handle_underperforming_validators view =
     Option.bind (mv_config view) (\<lambda>config.
       map_option (filter (is_underperforming view config)) (rv_active_validators view))"

record transition_report =
  tr_inactive :: "(account_id \<times> u32) list"
  tr_eligible :: "(account_id \<times> u64) list"
  tr_warnings :: "set_warning list"
  tr_participation :: "account_id list \<times> u32"
  tr_underperforming :: "account_id list"

definition mgr_handle_epoch_transition :: "manager_view \<Rightarrow> node_epoch_config \<Rightarrow> transition_report option" where
  "mgr_handle_epoch_transition view ec =
     Option.bind (mv_current_epoch view) (\<lambda>current_epoch.
     Option.bind (Option.bind (rv_validator_scores view) (mgr_apply_validator_score_decay view current_epoch)) (\<lambda>inactive.
     Option.bind (update_active_validator_set view ec) (\<lambda>eligible.
     Option.bind (process_validator_set_changes view ec) (\<lambda>warnings.
     Option.bind (mgr_update_validator_participation_rates view) (\<lambda>participation.
     Option.bind (handle_underperforming_validators view) (\<lambda>underperforming.
       Some \<lparr>tr_inactive = inactive, tr_eligible = eligible, tr_warnings = warnings,
         tr_participation = participation, tr_underperforming = underperforming\<rparr>))))))"

definition get_current_epoch_info :: "manager_view \<Rightarrow> (u32 \<times> account_id list) option" where
  "get_current_epoch_info view =
     Option.bind (mv_current_epoch view) (\<lambda>epoch. map_option (Pair epoch) (rv_active_validators view))"

section \<open>Proposals and rankings\<close>

datatype proposal_reason =
    LowCombinedScore u64 | LowParticipation u32 | TooManyMissedBlocks u32 | NoContribution | HighPerformance u64

definition proposal_for :: "manager_view \<Rightarrow> manager_config \<Rightarrow> account_id \<Rightarrow> api_validator_profile \<Rightarrow> proposal_reason option" where
  "proposal_for view config v profile =
     (let combined_score = ap_final_score profile;
          (rate, missed) = mgr_participation_metrics view v
      in if combined_score < mc_min_performance_score config then Some (LowCombinedScore combined_score)
         else if rate < mc_min_participation_rate config then Some (LowParticipation rate)
         else if missed > mc_max_missed_blocks_high config then Some (TooManyMissedBlocks missed)
         else if mgr_get_pos_score view v = 0 \<and> ap_poi_score profile = 0 then Some NoContribution
         else if combined_score \<ge> mc_high_performance_score config then Some (HighPerformance combined_score)
         else None)"

definition generate_validator_management_proposals ::
  "manager_view \<Rightarrow> (account_id \<times> proposal_reason \<times> u64 \<times> u64 \<times> u64) list option" where
  "generate_validator_management_proposals view =
     Option.bind (mv_config view) (\<lambda>config.
     Option.bind (rv_active_validators view) (\<lambda>active.
     Option.bind (rv_weights view) (\<lambda>weights.
       Some (List.map_filter (\<lambda>v. case rv_validator_profile view v of
           Some (Some profile) \<Rightarrow> map_option (\<lambda>reason. (v, reason, ap_final_score profile,
              mgr_get_pos_score view v, ucast (ap_poi_score profile))) (proposal_for view config v profile)
         | _ \<Rightarrow> None) active))))"

text \<open>The ranking by combined score that it logs.\<close>

definition update_validator_set_by_combined_scores ::
  "manager_view \<Rightarrow> (account_id \<times> u64 \<times> u64 \<times> u64) list option" where
  "update_validator_set_by_combined_scores view =
     Option.bind (rv_validator_scores view) (\<lambda>all_validators.
     Option.bind (rv_weights view) (\<lambda>weights.
       let ranked = sort_high (\<lambda>p. fst (snd p)) (List.map_filter (\<lambda>(v, stored).
             case rv_validator_profile view v of
               Some (Some profile) \<Rightarrow> Some (v, ap_final_score profile, mgr_get_pos_score view v, ucast (ap_poi_score profile))
             | _ \<Rightarrow> None) all_validators)
       in Option.bind (mv_config view) (\<lambda>config.
            Some (take (unat (mc_top_validators_display_count config)) ranked))))"

record validator_info =
  vi_account :: account_id
  vi_stake :: u128
  vi_performance_score :: u32
  vi_blocks_produced :: u32
  vi_blocks_missed :: u32

text \<open>The score is truncated, and the uptime is given as the number of produced blocks.\<close>

definition get_validator_info :: "manager_view \<Rightarrow> account_id \<Rightarrow> validator_info option" where
  "get_validator_info view v =
     (case rv_validator_profile view v of
        Some (Some profile) \<Rightarrow> Some \<lparr>vi_account = v, vi_stake = ucast (mgr_get_pos_score view v),
          vi_performance_score = ucast (ap_final_score profile),
          vi_blocks_produced = mgr_calculate_validator_uptime view v,
          vi_blocks_missed = snd (mgr_participation_metrics view v)\<rparr>
      | _ \<Rightarrow> None)"

section \<open>The view of the runtime\<close>

text \<open>What the runtime answers; \<open>epoch_length\<close> is the constant \<open>EpochLength\<close>, \<open>config\<close> the tuple of constants.\<close>

definition manager_api ::
  "('c, 'sig) dcf_config \<Rightarrow> manager_config \<Rightarrow> u32 \<Rightarrow> ('c, 'sig, 'z) dcf_world_scheme \<Rightarrow> manager_view" where
  "manager_api cfg config best_number w = runtime_view.extend (runtime_api cfg w)
     (manager_view.fields (Some (DcfCurrentEpoch w)) (Some (EpochLength cfg))
       (\<lambda>v. Some (get_validator_stake_score cfg w v)) (\<lambda>v. Some (get_validator_last_active cfg w v))
       (\<lambda>v. Some (sm_get (ValidatorLeaveRequests w) v)) (Some config) best_number)"

section \<open>Lemmas\<close>

text \<open>
  Where nothing wraps around, the manager asks for a transition exactly in the blocks that lie in a later
  epoch than the one counted: while the pallet's counter is in step it never does.
\<close>

lemma should_transition_iff:
  assumes "mv_current_epoch view = Some e" "mv_epoch_length view = Some len" and "0 < len"
    and "(unat e + 1) * unat len < 2 ^ 32"
  shows "mgr_should_transition_epoch view n = Some (unat n div unat len > unat e)"
proof -
  have small: "unat e * unat len + unat len < 2 ^ 32"
    using assms(4) by (simp add: algebra_simps)
  then have "unat (sat_mul e len + len) = unat e * unat len + unat len"
    by (simp add: unat_word_ariths unat_sat_mul min_def)
  moreover have "0 < unat len"
    using assms(3) by (simp add: word_less_nat_alt)
  then have "(unat e * unat len + unat len \<le> unat n) \<longleftrightarrow> unat e < unat n div unat len"
    by (metis Suc_le_eq add.commute less_eq_div_iff_mult_less_eq mult_Suc)
  ultimately show ?thesis
    using assms(1,2) by (simp add: mgr_should_transition_epoch_def word_le_nat_alt)
qed

text \<open>The eligible validators: healthy, out of their cooldown, at most as many as allowed, best first.\<close>

lemma eligible_validators:
  assumes "update_active_validator_set view ec = Some vs" and "mv_config view = Some config"
    and "rv_validator_scores view = Some scores"
  shows "length vs \<le> unat (ne_max_validators ec) \<and> sorted_wrt (\<lambda>p q. snd q \<le> snd p) vs
    \<and> set vs \<subseteq> {(v, s) \<in> set scores. mc_healthy_validator_score config \<le> s \<and> out_of_cooldown view config v}"
proof -
  obtain current where vs: "vs = take (unat (ne_max_validators ec)) (sort_high snd
      (filter (\<lambda>(v, s). s \<ge> mc_healthy_validator_score config \<and> out_of_cooldown view config v) scores))"
    using assms by (auto simp: update_active_validator_set_def bind_eq_Some_conv)
  have "set vs \<subseteq> set (sort_high snd (filter (\<lambda>(v, s). s \<ge> mc_healthy_validator_score config
      \<and> out_of_cooldown view config v) scores))"
    unfolding vs by (rule set_take_subset)
  then have "set vs \<subseteq> {(v, s) \<in> set scores. mc_healthy_validator_score config \<le> s \<and> out_of_cooldown view config v}"
    by (auto simp: sort_high_def)
  then show ?thesis
    by (simp add: vs sorted_wrt_take sort_high_sorted)
qed

end
