(* ===== verification/Trace_Log.thy ===== *)
theory Trace_Log
  imports Prelude
begin

text \<open>
  The lifecycle tracer of the node (\<open>lifecycle_tracer.rs\<close> and its modules): entries, the two formats of a
  line, the buffer, and the tracer with its outputs. Text is a list of code points. Locks are left out;
  the iteration order of the custom properties is the order of the list that stands for the map.
\<close>

section \<open>Text\<close>

type_synonym utext = "nat list"

definition utf :: "string \<Rightarrow> utext" where
  "utf s = map of_char s"

abbreviation quote :: nat where "quote \<equiv> 34"
abbreviation backslash :: nat where "backslash \<equiv> 92"
abbreviation comma :: nat where "comma \<equiv> 44"

fun decimal :: "nat \<Rightarrow> utext" where
  "decimal n = (if n < 10 then [48 + n] else decimal (n div 10) @ [48 + n mod 10])"

declare decimal.simps [simp del]

definition padded :: "nat \<Rightarrow> nat \<Rightarrow> utext" where
  "padded width n = replicate (width - length (decimal n)) 48 @ decimal n"

definition hex_digit :: "nat \<Rightarrow> nat" where
  "hex_digit d = (if d < 10 then 48 + d else 87 + d)"

definition is_control :: "nat \<Rightarrow> bool" where
  "is_control c \<longleftrightarrow> c < 32 \<or> 127 \<le> c \<and> c \<le> 159"

definition escape_char :: "nat \<Rightarrow> utext" where
  "escape_char c =
     (if c = quote then [backslash, quote]
      else if c = backslash then [backslash, backslash]
      else if c = 10 then [backslash, 110]
      else if c = 13 then [backslash, 114]
      else if c = 9 then [backslash, 116]
      else if is_control c
      then [backslash, 117, 48, 48, hex_digit (c div 16), hex_digit (c mod 16)]
      else [c])"

definition escape_json :: "utext \<Rightarrow> utext" where
  "escape_json s = concat (map escape_char s)"

section \<open>Entries\<close>

datatype trace_entry_type = TraceStep | TraceMilestone | TraceError

record trace_metadata =
  tm_block_number :: "u32 option"
  tm_block_hash :: "utext option"
  tm_author :: "utext option"
  tm_extrinsic_count :: "nat option"
  tm_custom :: "(utext, utext) smap"

definition new_metadata :: trace_metadata where
  "new_metadata = \<lparr>tm_block_number = None, tm_block_hash = None, tm_author = None,
     tm_extrinsic_count = None, tm_custom = []\<rparr>"

definition with_custom :: "utext \<Rightarrow> utext \<Rightarrow> trace_metadata \<Rightarrow> trace_metadata" where
  "with_custom key val m = m\<lparr>tm_custom := sm_put key val (tm_custom m)\<rparr>"

text \<open>A time is seconds and nanoseconds since the epoch of Unix, \<open>None\<close> for times before it.\<close>

record trace_entry =
  te_step :: "u32 option"
  te_location :: utext
  te_message :: utext
  te_timestamp :: "(nat \<times> nat) option"
  te_thread_id :: "nat option"
  te_metadata :: "trace_metadata option"
  te_entry_type :: trace_entry_type

definition format_timestamp :: "(nat \<times> nat) option \<Rightarrow> utext" where
  "format_timestamp time =
     (case time of
        None \<Rightarrow> utf ''INVALID_TIME''
      | Some (secs, nanos) \<Rightarrow>
          let millis = nanos div 1000000;
              days_since_epoch = secs div 86400;
              secs_today = secs mod 86400;
              year = 1970 + days_since_epoch div 365;
              day_of_year = days_since_epoch mod 365;
              month = day_of_year div 30 + 1;
              day = day_of_year mod 30 + 1
          in padded 4 year @ utf ''-'' @ padded 2 month @ utf ''-'' @ padded 2 day @ utf ''T''
             @ padded 2 (secs_today div 3600) @ utf '':'' @ padded 2 (secs_today mod 3600 div 60) @ utf '':''
             @ padded 2 (secs_today mod 60) @ utf ''.'' @ padded 3 millis @ utf ''Z'')"

definition thread_name :: "nat \<Rightarrow> utext" where
  "thread_name i = utf ''ThreadId('' @ decimal i @ utf '')''"

section \<open>The JSON format\<close>

definition quoted :: "utext \<Rightarrow> utext" where
  "quoted s = [quote] @ s @ [quote]"

definition key :: "string \<Rightarrow> utext" where
  "key name = quoted (utf name) @ utf '':''"

definition entry_type_str :: "trace_entry_type \<Rightarrow> utext" where
  "entry_type_str t =
     (case t of TraceStep \<Rightarrow> utf ''step'' | TraceMilestone \<Rightarrow> utf ''milestone'' | TraceError \<Rightarrow> utf ''error'')"

text \<open>The flag \<open>first\<close> of the code travels with the text.\<close>

definition push_field :: "utext option \<Rightarrow> bool \<times> utext \<Rightarrow> bool \<times> utext" where
  "push_field field acc =
     (case field of
        None \<Rightarrow> acc
      | Some piece \<Rightarrow> (False, snd acc @ (if fst acc then [] else [comma]) @ piece))"

definition metadata_json :: "trace_metadata \<Rightarrow> utext" where
  "metadata_json m =
     (let acc1 = push_field (map_option (\<lambda>n. key ''block_number'' @ decimal (unat n)) (tm_block_number m)) (True, []);
          acc2 = push_field (map_option (\<lambda>h. key ''block_hash'' @ quoted (escape_json h)) (tm_block_hash m)) acc1;
          acc3 = push_field (map_option (\<lambda>a. key ''author'' @ quoted (escape_json a)) (tm_author m)) acc2;
          acc4 = push_field (map_option (\<lambda>n. key ''extrinsic_count'' @ decimal n) (tm_extrinsic_count m)) acc3
      in snd (fold (\<lambda>(k, v). push_field (Some (quoted (escape_json k) @ utf '':'' @ quoted (escape_json v))))
           (tm_custom m) acc4))"

definition json_format :: "trace_entry \<Rightarrow> utext" where
  "json_format entry =
     (let json = utf ''{''
            @ (case te_step entry of Some step \<Rightarrow> key ''step'' @ decimal (unat step) @ [comma] | None \<Rightarrow> [])
            @ key ''type'' @ quoted (entry_type_str (te_entry_type entry)) @ [comma]
            @ key ''location'' @ quoted (escape_json (te_location entry)) @ [comma]
            @ key ''message'' @ quoted (escape_json (te_message entry)) @ [comma]
            @ key ''timestamp'' @ quoted (format_timestamp (te_timestamp entry)) @ [comma]
            @ (case te_thread_id entry of Some i \<Rightarrow> key ''thread_id'' @ quoted (thread_name i) @ [comma] | None \<Rightarrow> [])
            @ (case te_metadata entry of
                 Some m \<Rightarrow> key ''metadata'' @ utf ''{'' @ metadata_json m @ utf ''}'' @ [comma] | None \<Rightarrow> []);
          json = (if last json = comma then butlast json else json)
      in json @ utf ''}'')"

section \<open>The format for readers\<close>

definition human_format :: "trace_entry \<Rightarrow> utext" where
  "human_format entry =
     (let timestamp = format_timestamp (te_timestamp entry);
          thread_info = (case te_thread_id entry of
            Some i \<Rightarrow> utf ''['' @ thread_name i @ utf ''] '' | None \<Rightarrow> []);
          step = (case te_step entry of Some s \<Rightarrow> decimal (unat s) | None \<Rightarrow> utf ''?'');
          head = utf ''['' @ timestamp @ utf ''] '' @ thread_info
      in case te_entry_type entry of
           TraceStep \<Rightarrow> head @ utf ''============== [CBC-TRACE] '' @ step @ utf ''. ['' @ te_location entry
             @ utf ''] '' @ te_message entry @ utf '' ==============''
         | TraceMilestone \<Rightarrow> head @ [0x1F3AF] @ utf '' MILESTONE: '' @ te_message entry
         | TraceError \<Rightarrow> head @ [0x274C] @ utf '' ERROR at STEP '' @ step @ utf '': ['' @ te_location entry
             @ utf ''] '' @ te_message entry)"

section \<open>Buffer\<close>

text \<open>Times are milliseconds of a clock that does not go back.\<close>

record trace_buffer =
  tb_entries :: "utext list"
  tb_max_size :: nat
  tb_last_flush :: nat
  tb_flush_interval :: nat

definition new_buffer :: "nat \<Rightarrow> nat \<Rightarrow> nat \<Rightarrow> trace_buffer" where
  "new_buffer max_size flush_interval now =
     \<lparr>tb_entries = [], tb_max_size = max_size, tb_last_flush = now, tb_flush_interval = flush_interval\<rparr>"

definition buffer_push :: "utext \<Rightarrow> trace_buffer \<Rightarrow> trace_buffer" where
  "buffer_push entry B =
     (let kept = (if length (tb_entries B) \<ge> tb_max_size B then tl (tb_entries B) else tb_entries B)
      in B\<lparr>tb_entries := kept @ [entry]\<rparr>)"

definition should_flush :: "nat \<Rightarrow> trace_buffer \<Rightarrow> bool" where
  "should_flush now B \<longleftrightarrow>
     length (tb_entries B) \<ge> tb_max_size B \<or> now - tb_last_flush B \<ge> tb_flush_interval B"

text \<open>An output with the lines written to it; \<open>accepts\<close> tells which writes succeed.\<close>

datatype output_destination = StdoutDest | FileDest string | MetricsDest

definition output_write :: "(string \<Rightarrow> utext \<Rightarrow> bool) \<Rightarrow> output_destination \<Rightarrow> utext \<Rightarrow> utext list" where
  "output_write accepts dest line =
     (case dest of
        StdoutDest \<Rightarrow> [line]
      | FileDest path \<Rightarrow> if accepts path line then [line] else []
      | MetricsDest \<Rightarrow> [])"

definition flush_to ::
  "(string \<Rightarrow> utext \<Rightarrow> bool) \<Rightarrow> nat \<Rightarrow> output_destination \<times> utext list \<Rightarrow> trace_buffer
     \<Rightarrow> (output_destination \<times> utext list) \<times> trace_buffer" where
  "flush_to accepts now out B =
     ((fst out, snd out @ concat (map (output_write accepts (fst out)) (tb_entries B))),
      B\<lparr>tb_entries := [], tb_last_flush := now\<rparr>)"

section \<open>Tracer\<close>

datatype trace_format = JsonFormat | HumanReadable

record tracer_config =
  tc_enabled :: bool
  tc_format :: trace_format
  tc_output_destinations :: "output_destination list"
  tc_buffer_size :: nat
  tc_flush_interval_ms :: nat
  tc_include_thread_id :: bool
  tc_include_timestamps :: bool
  tc_milestone_only :: bool

definition default_tracer_config :: tracer_config where
  "default_tracer_config = \<lparr>tc_enabled = False, tc_format = HumanReadable,
     tc_output_destinations = [StdoutDest], tc_buffer_size = 1000, tc_flush_interval_ms = 100,
     tc_include_thread_id = True, tc_include_timestamps = True, tc_milestone_only = False\<rparr>"

definition from_cli_flags :: "bool \<Rightarrow> string option \<Rightarrow> string option \<Rightarrow> bool \<Rightarrow> tracer_config" where
  "from_cli_flags enabled fmt output_file milestone_only =
     default_tracer_config\<lparr>
       tc_enabled := enabled,
       tc_format := (case fmt of
         Some f \<Rightarrow> if f = ''json'' then JsonFormat
                   else if f = ''human-readable'' \<or> f = ''human'' then HumanReadable else HumanReadable
       | None \<Rightarrow> HumanReadable),
       tc_output_destinations := [StdoutDest] @ (case output_file of Some path \<Rightarrow> [FileDest path] | None \<Rightarrow> []),
       tc_milestone_only := milestone_only\<rparr>"

record tracer =
  tr_config :: tracer_config
  tr_format :: trace_format
  tr_outputs :: "(output_destination \<times> utext list) list"
  tr_buffer :: trace_buffer

text \<open>\<open>opens\<close> tells which files can be opened; the tracer leaves out a file that cannot.\<close>

definition opened :: "(string \<Rightarrow> bool) \<Rightarrow> output_destination \<Rightarrow> bool" where
  "opened opens dest = (case dest of FileDest path \<Rightarrow> opens path | _ \<Rightarrow> True)"

definition new_tracer :: "(string \<Rightarrow> bool) \<Rightarrow> nat \<Rightarrow> tracer_config \<Rightarrow> tracer" where
  "new_tracer opens now config =
     \<lparr>tr_config = config, tr_format = tc_format config,
      tr_outputs = map (\<lambda>dest. (dest, [])) (filter (opened opens) (tc_output_destinations config)),
      tr_buffer = new_buffer (tc_buffer_size config) (tc_flush_interval_ms config) now\<rparr>"

text \<open>
  \<open>init\<close> replaces configuration and format and then the outputs; a file that cannot be opened ends it
  before the outputs are replaced. The buffer stays.
\<close>

definition tracer_init :: "(string \<Rightarrow> bool) \<Rightarrow> tracer_config \<Rightarrow> tracer \<Rightarrow> (string + unit) \<times> tracer" where
  "tracer_init opens config T =
     (let T1 = T\<lparr>tr_config := config, tr_format := tc_format config\<rparr>
      in if list_all (opened opens) (tc_output_destinations config)
         then (Inr (), T1\<lparr>tr_outputs := map (\<lambda>dest. (dest, [])) (tc_output_destinations config)\<rparr>)
         else (Inl ''InitializationFailed'', T1))"

definition flush_outputs :: "(string \<Rightarrow> utext \<Rightarrow> bool) \<Rightarrow> nat \<Rightarrow> tracer \<Rightarrow> tracer" where
  "flush_outputs accepts now T =
     (let (outs, B) = fold (\<lambda>out (outs, B). let (out', B') = flush_to accepts now out B in (outs @ [out'], B'))
                        (tr_outputs T) ([], tr_buffer T)
      in T\<lparr>tr_outputs := outs, tr_buffer := B\<rparr>)"

definition line_of :: "trace_format \<Rightarrow> trace_entry \<Rightarrow> utext" where
  "line_of fmt entry = (case fmt of JsonFormat \<Rightarrow> json_format entry | HumanReadable \<Rightarrow> human_format entry)"

definition log_entry :: "(string \<Rightarrow> utext \<Rightarrow> bool) \<Rightarrow> nat \<Rightarrow> trace_entry \<Rightarrow> tracer \<Rightarrow> tracer" where
  "log_entry accepts now entry T =
     (let T1 = T\<lparr>tr_buffer := buffer_push (line_of (tr_format T) entry) (tr_buffer T)\<rparr>
      in if should_flush now (tr_buffer T1) then flush_outputs accepts now T1 else T1)"

text \<open>What a caller asks for, with the clock, the time of day and the thread that the call reads.\<close>

record trace_moment =
  mo_now :: nat
  mo_time :: "(nat \<times> nat) option"
  mo_thread :: nat

definition thread_of :: "tracer \<Rightarrow> trace_moment \<Rightarrow> nat option" where
  "thread_of T mo = (if tc_include_thread_id (tr_config T) then Some (mo_thread mo) else None)"

definition trace_step ::
  "(string \<Rightarrow> utext \<Rightarrow> bool) \<Rightarrow> trace_moment \<Rightarrow> u32 \<Rightarrow> utext \<Rightarrow> utext \<Rightarrow> trace_metadata option
     \<Rightarrow> tracer \<Rightarrow> tracer" where
  "trace_step accepts mo step location message metadata T =
     (if \<not> tc_enabled (tr_config T) then T
      else if tc_milestone_only (tr_config T) then T
      else log_entry accepts (mo_now mo) \<lparr>te_step = Some step, te_location = location, te_message = message,
             te_timestamp = mo_time mo, te_thread_id = thread_of T mo, te_metadata = metadata,
             te_entry_type = TraceStep\<rparr> T)"

definition trace_milestone ::
  "(string \<Rightarrow> utext \<Rightarrow> bool) \<Rightarrow> trace_moment \<Rightarrow> utext \<Rightarrow> trace_metadata option \<Rightarrow> tracer \<Rightarrow> tracer" where
  "trace_milestone accepts mo message metadata T =
     (if \<not> tc_enabled (tr_config T) then T
      else log_entry accepts (mo_now mo) \<lparr>te_step = None, te_location = utf ''milestone'', te_message = message,
             te_timestamp = mo_time mo, te_thread_id = thread_of T mo, te_metadata = metadata,
             te_entry_type = TraceMilestone\<rparr> T)"

text \<open>The error and the backtrace are texts.\<close>

definition trace_error ::
  "(string \<Rightarrow> utext \<Rightarrow> bool) \<Rightarrow> trace_moment \<Rightarrow> u32 \<Rightarrow> utext \<Rightarrow> utext \<Rightarrow> utext \<Rightarrow> utext
     \<Rightarrow> tracer \<Rightarrow> tracer" where
  "trace_error accepts mo step location err ctxt backtrace T =
     (if \<not> tc_enabled (tr_config T) then T
      else log_entry accepts (mo_now mo) \<lparr>te_step = Some step, te_location = location,
             te_message = ctxt @ utf '': '' @ err @ utf '' - '' @ backtrace,
             te_timestamp = mo_time mo, te_thread_id = thread_of T mo, te_metadata = None,
             te_entry_type = TraceError\<rparr> T)"

end
