(* ===== verification/Trace_Properties.thy ===== *)
theory Trace_Properties
  imports Trace_Log
begin

text \<open>
  The lines of the JSON format read back as the entry they were made from, and which lines of the tracer
  reach which output.
\<close>

section \<open>A reader for JSON\<close>







definition expect :: "nat \<Rightarrow> utext \<Rightarrow> utext option" where
  "expect c t = (case t of x # r \<Rightarrow> if x = c then Some r else None | [] \<Rightarrow> None)"

definition is_digit :: "nat \<Rightarrow> bool" where
  "is_digit c \<longleftrightarrow> 48 \<le> c \<and> c \<le> 57"



section \<open>Strings and numbers\<close>





lemma decimal_digits: "list_all is_digit (decimal n)"
proof (induction n rule: decimal.induct)
  case (1 n)
  have "n mod 10 \<le> 9"
    using mod_less_divisor [of 10 n] by linarith
  then show ?case
    using 1 by (subst decimal.simps) (simp add: is_digit_def [of "48 + _"])
qed

lemma decimal_nonempty [simp]: "decimal n \<noteq> []"
  by (subst decimal.simps) simp



section \<open>Printing\<close>




lemma not_digit [simp]: "\<not> is_digit quote" "\<not> is_digit 123" "\<not> is_digit 125" "\<not> is_digit comma"
  by (simp_all add: is_digit_def)


lemma expect_head [simp]: "expect c (c # t) = Some t" "c \<noteq> x \<Longrightarrow> expect c (x # t) = None"
  by (simp_all add: expect_def)


section \<open>Lines of the JSON format\<close>



definition plain :: "utext \<Rightarrow> bool" where
  "plain s \<longleftrightarrow> list_all (\<lambda>c. escape_char c = [c]) s"

lemma escape_plain [simp]: "plain s \<Longrightarrow> escape_json s = s"
  by (induction s) (simp_all add: plain_def escape_json_def)

lemma plain_digits: "list_all is_digit s \<Longrightarrow> plain s"
  by (auto simp: plain_def is_digit_def escape_char_def is_control_def list_all_iff)

lemma plain_append [simp]: "plain (s @ t) \<longleftrightarrow> plain s \<and> plain t"
  by (simp add: plain_def)

lemma plain_numbers [simp]: "plain (decimal n)" "plain (padded k n)"
  by (rule plain_digits, use decimal_digits [of n] in \<open>auto simp: padded_def list_all_iff is_digit_def split: if_splits\<close>)+

lemma plain_texts [simp]: "plain (format_timestamp t)" "plain (thread_name i)" "plain (entry_type_str y)"
proof -
  show "plain (format_timestamp t)"
    by (cases t) (simp_all add: format_timestamp_def Let_def split_def,
        simp_all add: plain_def utf_def escape_char_def is_control_def)
  show "plain (thread_name i)"
    by (simp add: thread_name_def) (simp add: plain_def utf_def escape_char_def is_control_def)
  show "plain (entry_type_str y)"
    by (cases y) (simp_all add: entry_type_str_def plain_def utf_def escape_char_def is_control_def)
qed













section \<open>Which lines reach which output\<close>

datatype trace_request =
    StepRequest trace_moment u32 utext utext "trace_metadata option"
  | MilestoneRequest trace_moment utext "trace_metadata option"
  | ErrorRequest trace_moment u32 utext utext utext utext
  | FlushRequest nat

fun serve_request :: "(string \<Rightarrow> utext \<Rightarrow> bool) \<Rightarrow> trace_request \<Rightarrow> tracer \<Rightarrow> tracer" where
  "serve_request accepts (StepRequest mo step location message metadata) =
     trace_step accepts mo step location message metadata"
| "serve_request accepts (MilestoneRequest mo message metadata) = trace_milestone accepts mo message metadata"
| "serve_request accepts (ErrorRequest mo step location err ctxt backtrace) =
     trace_error accepts mo step location err ctxt backtrace"
| "serve_request accepts (FlushRequest now) = flush_outputs accepts now"

definition trace_run :: "(string \<Rightarrow> utext \<Rightarrow> bool) \<Rightarrow> trace_request list \<Rightarrow> tracer \<Rightarrow> tracer" where
  "trace_run accepts reqs T = fold (serve_request accepts) reqs T"

text \<open>The entry that a request asks for under a configuration.\<close>

fun requested_entry :: "tracer_config \<Rightarrow> trace_request \<Rightarrow> trace_entry option" where
  "requested_entry c (StepRequest mo step location message metadata) =
     (if tc_enabled c \<and> \<not> tc_milestone_only c
      then Some \<lparr>te_step = Some step, te_location = location, te_message = message, te_timestamp = mo_time mo,
        te_thread_id = (if tc_include_thread_id c then Some (mo_thread mo) else None), te_metadata = metadata,
        te_entry_type = TraceStep\<rparr>
      else None)"
| "requested_entry c (MilestoneRequest mo message metadata) =
     (if tc_enabled c
      then Some \<lparr>te_step = None, te_location = utf ''milestone'', te_message = message,
        te_timestamp = mo_time mo, te_thread_id = (if tc_include_thread_id c then Some (mo_thread mo) else None),
        te_metadata = metadata, te_entry_type = TraceMilestone\<rparr>
      else None)"
| "requested_entry c (ErrorRequest mo step location err ctxt backtrace) =
     (if tc_enabled c
      then Some \<lparr>te_step = Some step, te_location = location,
        te_message = ctxt @ utf '': '' @ err @ utf '' - '' @ backtrace, te_timestamp = mo_time mo,
        te_thread_id = (if tc_include_thread_id c then Some (mo_thread mo) else None), te_metadata = None,
        te_entry_type = TraceError\<rparr>
      else None)"
| "requested_entry c (FlushRequest now) = None"

definition requested_lines :: "tracer_config \<Rightarrow> trace_request list \<Rightarrow> utext list" where
  "requested_lines c reqs = map (line_of (tc_format c)) (List.map_filter (requested_entry c) reqs)"

text \<open>
  The console comes first among the outputs, the others hold \<open>others\<close>; the console and the buffer hold
  \<open>told\<close>, and the buffer has room.
\<close>

definition console_holds ::
  "tracer_config \<Rightarrow> (output_destination \<times> utext list) list \<Rightarrow> utext list \<Rightarrow> tracer \<Rightarrow> bool" where
  "console_holds c others told T \<longleftrightarrow>
     tr_config T = c \<and> tr_format T = tc_format c
     \<and> (\<exists>ls. tr_outputs T = (StdoutDest, ls) # others \<and> ls @ tb_entries (tr_buffer T) = told)
     \<and> (tb_entries (tr_buffer T) = [] \<or> length (tb_entries (tr_buffer T)) < tb_max_size (tr_buffer T))"

lemma flush_emptied:
  "tb_entries B = [] \<Longrightarrow> \<exists>B'. fold (\<lambda>out (outs, B). let (out', B') = flush_to accepts now out B in (outs @ [out'], B'))
     others (outs, B) = (outs @ others, B') \<and> tb_entries B' = [] \<and> tb_max_size B' = tb_max_size B"
proof (induction others arbitrary: outs B)
  case (Cons out others)
  let ?B = "B\<lparr>tb_entries := [], tb_last_flush := now\<rparr>"
  have "flush_to accepts now out B = (out, ?B)"
    using Cons.prems by (simp add: flush_to_def)
  then show ?case
    using Cons.IH [of ?B "outs @ [out]"] by simp
qed simp

lemma flush_console:
  assumes "console_holds c others told T \<or>
    (\<exists>ls. tr_config T = c \<and> tr_format T = tc_format c \<and> tr_outputs T = (StdoutDest, ls) # others
      \<and> ls @ tb_entries (tr_buffer T) = told)"
  shows "console_holds c others told (flush_outputs accepts now T)"
proof -
  obtain ls where T: "tr_config T = c" "tr_format T = tc_format c" "tr_outputs T = (StdoutDest, ls) # others"
      "ls @ tb_entries (tr_buffer T) = told"
    using assms by (auto simp: console_holds_def)
  have all: "concat (map (output_write accepts StdoutDest) xs) = xs" for xs
    by (induction xs) (simp_all add: output_write_def)
  let ?B = "tr_buffer T\<lparr>tb_entries := [], tb_last_flush := now\<rparr>"
  obtain B' where rest: "fold (\<lambda>out (outs, B). let (out', B') = flush_to accepts now out B in (outs @ [out'], B'))
      others ([(StdoutDest, told)], ?B) = ([(StdoutDest, told)] @ others, B')" "tb_entries B' = []"
    using flush_emptied [of ?B accepts now others "[(StdoutDest, told)]"] by auto
  show ?thesis
    using rest by (simp add: flush_outputs_def T flush_to_def [of _ _ "(StdoutDest, _)"] all console_holds_def)
qed

lemma log_console:
  assumes "console_holds c others told T"
  shows "console_holds c others (told @ [line_of (tc_format c) e]) (log_entry accepts now e T)"
proof -
  obtain ls where T: "tr_config T = c" "tr_format T = tc_format c" "tr_outputs T = (StdoutDest, ls) # others"
      "ls @ tb_entries (tr_buffer T) = told"
      "tb_entries (tr_buffer T) = [] \<or> length (tb_entries (tr_buffer T)) < tb_max_size (tr_buffer T)"
    using assms by (auto simp: console_holds_def)
  let ?T = "T\<lparr>tr_buffer := buffer_push (line_of (tr_format T) e) (tr_buffer T)\<rparr>"
  have pushed: "tb_entries (tr_buffer ?T) = tb_entries (tr_buffer T) @ [line_of (tc_format c) e]"
      "tb_max_size (tr_buffer ?T) = tb_max_size (tr_buffer T)"
    using T(2,5) by (auto simp: buffer_push_def)
  show ?thesis
  proof (cases "should_flush now (tr_buffer ?T)")
    case True
    have "\<exists>ls. tr_config ?T = c \<and> tr_format ?T = tc_format c \<and> tr_outputs ?T = (StdoutDest, ls) # others
        \<and> ls @ tb_entries (tr_buffer ?T) = told @ [line_of (tc_format c) e]"
      using T pushed by auto
    from flush_console [OF disjI2 [OF this]] True show ?thesis
      by (simp add: log_entry_def)
  next
    case False
    then have "length (tb_entries (tr_buffer ?T)) < tb_max_size (tr_buffer ?T)"
      by (auto simp: should_flush_def)
    then show ?thesis
      using False T pushed by (auto simp: log_entry_def console_holds_def)
  qed
qed

lemma request_console:
  assumes "console_holds c others told T"
  shows "console_holds c others (told @ requested_lines c [req]) (serve_request accepts req T)"
proof -
  have c: "tr_config T = c"
    using assms by (simp add: console_holds_def)
  show ?thesis
    using assms log_console [OF assms] flush_console [OF disjI1 [OF assms]] c
    by (cases req) (auto simp: requested_lines_def List.map_filter_simps trace_step_def trace_milestone_def
        trace_error_def thread_of_def)
qed

lemma run_console:
  "console_holds c others told T \<Longrightarrow> console_holds c others (told @ requested_lines c reqs) (trace_run accepts reqs T)"
proof (induction reqs arbitrary: told T)
  case Nil
  then show ?case by (simp add: trace_run_def requested_lines_def List.map_filter_simps)
next
  case (Cons req reqs)
  have "requested_lines c (req # reqs) = requested_lines c [req] @ requested_lines c reqs"
    by (cases "requested_entry c req") (simp_all add: requested_lines_def List.map_filter_simps)
  then show ?case
    using Cons.IH [OF request_console [OF Cons.prems, of req accepts]] by (simp add: trace_run_def)
qed

text \<open>
  C39. A trace file stays empty. When the tracer is initialised with the command line flags for a file, the
  console gets every line that is asked for, in order and none lost but for what is still in the buffer,
  and the file gets none: flushing to the console empties the buffer.
\<close>

theorem trace_file_stays_empty:
  assumes "tracer_init opens (from_cli_flags True fmt (Some path) milestone_only)
      (new_tracer opens now default_tracer_config) = (Inr (), T)"
  shows "\<exists>shown. tr_outputs (trace_run accepts reqs T) = [(StdoutDest, shown), (FileDest path, [])]
    \<and> shown @ tb_entries (tr_buffer (trace_run accepts reqs T))
        = requested_lines (from_cli_flags True fmt (Some path) milestone_only) reqs"
proof -
  let ?c = "from_cli_flags True fmt (Some path) milestone_only"
  have "console_holds ?c [(FileDest path, [])] [] T"
    using assms by (auto simp: tracer_init_def Let_def from_cli_flags_def new_tracer_def new_buffer_def
        console_holds_def split: if_splits)
  from run_console [OF this, of reqs accepts] show ?thesis
    by (auto simp: console_holds_def)
qed

section \<open>Dates\<close>

text \<open>A year of the tracer has a thirteenth month.\<close>

lemma thirteenth_month:
  "\<exists>rest. format_timestamp (Some (31449600, nanos)) = padded 4 1970 @ utf ''-'' @ padded 2 13 @ rest"
  by (simp add: format_timestamp_def)

section \<open>A concrete run\<close>



definition sample_moment :: trace_moment where
  "sample_moment = \<lparr>mo_now = 500, mo_time = None, mo_thread = 1\<rparr>"

definition sample_tracer :: tracer where
  "sample_tracer = snd (tracer_init (\<lambda>_. True) (from_cli_flags True (Some ''json'') (Some ''t.log'') False)
     (new_tracer (\<lambda>_. True) 0 default_tracer_config))"

theorem trace_file_stays_empty_witness:
  "\<exists>shown. tr_outputs (trace_run (\<lambda>_ _. True) [MilestoneRequest sample_moment (utf ''up'') None, FlushRequest 600]
      sample_tracer) = [(StdoutDest, shown), (FileDest ''t.log'', [])]
    \<and> length (shown @ tb_entries (tr_buffer (trace_run (\<lambda>_ _. True)
          [MilestoneRequest sample_moment (utf ''up'') None, FlushRequest 600] sample_tracer))) = 1"
proof -
  let ?c = "from_cli_flags True (Some ''json'') (Some ''t.log'') False"
  let ?reqs = "[MilestoneRequest sample_moment (utf ''up'') None, FlushRequest 600]"
  let ?T = "trace_run (\<lambda>_ _. True) ?reqs sample_tracer"
  have "tracer_init (\<lambda>_. True) ?c (new_tracer (\<lambda>_. True) 0 default_tracer_config) = (Inr (), sample_tracer)"
    by (simp add: sample_tracer_def tracer_init_def from_cli_flags_def opened_def)
  from trace_file_stays_empty [OF this, of "\<lambda>_ _. True" ?reqs]
  show ?thesis
    by (auto simp: requested_lines_def List.map_filter_simps from_cli_flags_def simp del: length_append)
qed

end
