(* ===== verification/Node_Startup.thy ===== *)
theory Node_Startup
  imports Dvf_State Finality_Properties
begin

text \<open>
  The start of a node (\<open>new_full\<close> of \<open>service.rs\<close>): the check of the finality parameters it reads from the
  runtime (\<open>dvf_config_validator.rs\<close>), the choice of the key it votes with, and the tasks it spawns.
  Texts of errors and warnings are constructors. A threshold is given by its parts in a billion;
  the comparisons of percentages as floats are exact on them.
\<close>

section \<open>The check of the finality parameters\<close>

record finality_params =
  fp_checkpoint_interval :: u32
  fp_threshold :: u32
  fp_stake_weight_factor :: u128
  fp_score_weight_factor :: u128
  fp_vote_retention_rounds :: u32

datatype config_validation_error =
    CheckpointIntervalZero
  | ThresholdBelowHalf u32
  | ThresholdAboveAll u32
  | StakeWeightFactorZero
  | ScoreWeightFactorZero
  | VoteRetentionZero

datatype config_warning = ThresholdNotTwoThirds u32 | VoteRetentionOne

definition validate_finality_checkpoint_interval :: "finality_params \<Rightarrow> config_validation_error + unit" where
  "validate_finality_checkpoint_interval p =
     (if fp_checkpoint_interval p = 0 then Inl CheckpointIntervalZero else Inr ())"

definition validate_finality_threshold ::
  "finality_params \<Rightarrow> (config_validation_error + unit) \<times> config_warning list" where
  "validate_finality_threshold p =
     (if fp_threshold p < 500000000 then (Inl (ThresholdBelowHalf (fp_threshold p)), [])
      else if fp_threshold p > 1000000000 then (Inl (ThresholdAboveAll (fp_threshold p)), [])
      else (Inr (), if fp_threshold p < 660000000 \<or> fp_threshold p > 680000000
                    then [ThresholdNotTwoThirds (fp_threshold p)] else []))"

definition validate_weight_factors :: "finality_params \<Rightarrow> config_validation_error + unit" where
  "validate_weight_factors p =
     (if fp_stake_weight_factor p = 0 then Inl StakeWeightFactorZero
      else if fp_score_weight_factor p = 0 then Inl ScoreWeightFactorZero
      else Inr ())"

definition validate_vote_retention_rounds ::
  "finality_params \<Rightarrow> (config_validation_error + unit) \<times> config_warning list" where
  "validate_vote_retention_rounds p =
     (if fp_vote_retention_rounds p = 0 then (Inl VoteRetentionZero, [])
      else (Inr (), if fp_vote_retention_rounds p = 1 then [VoteRetentionOne] else []))"

text \<open>The first error, with the warnings that were logged until then.\<close>

definition validate_finality_params ::
  "finality_params \<Rightarrow> (config_validation_error + unit) \<times> config_warning list" where
  "validate_finality_params p =
     (case validate_finality_checkpoint_interval p of
        Inl e \<Rightarrow> (Inl e, [])
      | Inr _ \<Rightarrow>
          (case validate_finality_threshold p of
             (Inl e, ws) \<Rightarrow> (Inl e, ws)
           | (Inr _, ws) \<Rightarrow>
               (case validate_weight_factors p of
                  Inl e \<Rightarrow> (Inl e, ws)
                | Inr _ \<Rightarrow> let (r, ws') = validate_vote_retention_rounds p in (r, ws @ ws'))))"

section \<open>The voting key\<close>

text \<open>Node names are taken to be ASCII.\<close>

definition lower :: "char \<Rightarrow> char" where
  "lower c = (if 65 \<le> (of_char c :: nat) \<and> (of_char c :: nat) \<le> 90 then char_of (of_char c + 32 :: nat) else c)"

fun contains_text :: "string \<Rightarrow> string \<Rightarrow> bool" where
  "contains_text pat [] \<longleftrightarrow> pat = []"
| "contains_text pat (c # s) \<longleftrightarrow> take (length pat) (c # s) = pat \<or> contains_text pat s"

definition deterministic_seed :: "bool \<Rightarrow> string \<Rightarrow> string option" where
  "deterministic_seed development name =
     (let node_name = map lower name
      in if development then Some ''//Alice''
         else if contains_text ''alice'' node_name then Some ''//Alice''
         else if contains_text ''bob'' node_name then Some ''//Bob''
         else if contains_text ''charlie'' node_name then Some ''//Charlie''
         else if contains_text ''dave'' node_name then Some ''//Dave''
         else if contains_text ''eve'' node_name then Some ''//Eve''
         else if contains_text ''ferdie'' node_name then Some ''//Ferdie''
         else None)"

text \<open>
  The keys of the keystore are the accounts they stand for; \<open>derive\<close> is the key of a seed and \<open>fresh\<close> the
  key that would be generated.
\<close>

definition voting_keys ::
  "(string \<Rightarrow> account_id) \<Rightarrow> account_id \<Rightarrow> bool \<Rightarrow> string \<Rightarrow> account_id list \<Rightarrow> account_id list" where
  "voting_keys derive fresh development name stored =
     (if stored = []
      then (case deterministic_seed development name of Some seed \<Rightarrow> [derive seed] | None \<Rightarrow> [fresh])
      else stored)"

section \<open>The tasks\<close>

datatype service_task =
    DvfGossipEngine
  | DvfVoteCreator account_id
  | DvfVoteAggregator
  | DvfVotePoolPruning
  | OffchainWorkersRunner
  | PosPoiConsensus
  | ConsensusMetricsUpdater
  | BlockAuthoringTracker
  | DvfFinalitySync

text \<open>When an essential task ends, the node stops.\<close>

fun essential :: "service_task \<Rightarrow> bool" where
  "essential (DvfVoteCreator v) = True"
| "essential DvfVoteAggregator = True"
| "essential DvfVotePoolPruning = True"
| "essential PosPoiConsensus = True"
| "essential DvfFinalitySync = True"
| "essential _ = False"

datatype service_error = QueryFailed | InvalidDvfConfiguration config_validation_error

record node_setup =
  ns_authority :: bool
  ns_development :: bool
  ns_node_name :: string
  ns_stored_keys :: "account_id list"
  ns_offchain_enabled :: bool
  ns_metrics :: bool

text \<open>
  What the runtime answers for interval, threshold and retention, \<open>None\<close> for a failed call. The weight
  factors are constants of the node.
\<close>

definition startup_params :: "u32 option \<Rightarrow> u32 option \<Rightarrow> u32 option \<Rightarrow> service_error + finality_params" where
  "startup_params interval threshold retention =
     (case (interval, threshold, retention) of
        (Some i, Some t, Some r) \<Rightarrow>
          Inr \<lparr>fp_checkpoint_interval = i, fp_threshold = t, fp_stake_weight_factor = 1,
                fp_score_weight_factor = 1000, fp_vote_retention_rounds = r\<rparr>
      | _ \<Rightarrow> Inl QueryFailed)"

definition authority_tasks :: "account_id list \<Rightarrow> service_task list" where
  "authority_tasks keys =
     (case keys of
        v # _ \<Rightarrow> [DvfVoteCreator v, DvfVoteAggregator, DvfVotePoolPruning]
      | [] \<Rightarrow> [])"

text \<open>The part of the start that can refuse the configuration.\<close>

definition checked_start :: "u32 option \<Rightarrow> u32 option \<Rightarrow> u32 option \<Rightarrow> service_error + unit" where
  "checked_start interval threshold retention =
     (case startup_params interval threshold retention of
        Inl e \<Rightarrow> Inl e
      | Inr p \<Rightarrow> (case fst (validate_finality_params p) of
             Inl e \<Rightarrow> Inl (InvalidDvfConfiguration e)
           | Inr _ \<Rightarrow> Inr ()))"

definition consensus_tasks :: "node_setup \<Rightarrow> service_task list" where
  "consensus_tasks S =
     (if ns_authority S then [PosPoiConsensus] else [])
     @ (if ns_metrics S then [ConsensusMetricsUpdater] else [])
     @ [BlockAuthoringTracker]"

definition new_full ::
  "(string \<Rightarrow> account_id) \<Rightarrow> account_id \<Rightarrow> u32 option \<Rightarrow> u32 option \<Rightarrow> u32 option \<Rightarrow> node_setup
     \<Rightarrow> service_error + service_task list" where
  "new_full derive fresh interval threshold retention S =
     (case checked_start interval threshold retention of
        Inl e \<Rightarrow> Inl e
      | Inr _ \<Rightarrow> Inr
          ([DvfGossipEngine]
           @ (if ns_authority S
              then authority_tasks (voting_keys derive fresh (ns_development S) (ns_node_name S) (ns_stored_keys S))
              else [])
           @ (if ns_offchain_enabled S then [OffchainWorkersRunner] else [])
           @ consensus_tasks S
           @ [DvfFinalitySync]))"

section \<open>What is checked and what is not\<close>


lemma startup_iff:
  "new_full derive fresh interval threshold retention S = Inl e \<longleftrightarrow>
     (interval = None \<or> threshold = None \<or> retention = None) \<and> e = QueryFailed
     \<or> (\<exists>i t r d. interval = Some i \<and> threshold = Some t \<and> retention = Some r
          \<and> fst (validate_finality_params \<lparr>fp_checkpoint_interval = i, fp_threshold = t,
               fp_stake_weight_factor = 1, fp_score_weight_factor = 1000, fp_vote_retention_rounds = r\<rparr>) = Inl d
          \<and> e = InvalidDvfConfiguration d)"
  by (auto simp: new_full_def checked_start_def startup_params_def split: option.splits sum.splits)

text \<open>
  Names decide keys on every chain: a node without a stored key whose name has the name of a
  well-known account in it votes with the key that everybody knows.
\<close>

lemma steve_votes_as_eve:
  "voting_keys derive fresh False ''Steve-Validator-7'' [] = [derive ''//Eve'']"
  by (simp add: voting_keys_def deterministic_seed_def lower_def)

lemma same_name_same_key:
  "deterministic_seed development name = Some seed \<Longrightarrow>
     voting_keys derive fresh development name [] = voting_keys derive fresh' development name []"
  by (simp add: voting_keys_def)

section \<open>Properties\<close>

text \<open>
  What the check of the finality parameters at the start of a node means for the justifications that the
  pallet accepts.
\<close>

lemma two_thirds_arith: "660000000 * t < 1000000000 * (n + 1) \<Longrightarrow> 7 \<le> t \<Longrightarrow> t < 2 * n" for t n :: nat
  by (simp only: distrib_left)

text \<open>The product of a \<open>Perbill\<close> with a number is exact up to rounding, in whichever direction.\<close>

definition perbill_product :: "u32 \<Rightarrow> (u128 \<Rightarrow> u128) \<Rightarrow> bool" where
  "perbill_product parts product \<longleftrightarrow>
     (\<forall>t. unat parts * unat t < 1000000000 * (unat (product t) + 1)
        \<and> 1000000000 * unat (product t) < unat parts * unat t + 1000000000)"

lemma recommended_threshold:
  assumes "perbill_product parts product" and "660000000 \<le> parts" and "7 \<le> unat t"
  shows "unat t < 2 * unat (product t)"
proof -
  have "660000000 \<le> unat parts"
    using assms(2) by (simp add: word_le_nat_alt)
  then have "660000000 * unat t \<le> unat parts * unat t"
    by (rule mult_le_mono1)
  also have "\<dots> < 1000000000 * (unat (product t) + 1)"
    using assms(1) by (simp add: perbill_product_def)
  finally show ?thesis
    using assms(3) by (rule two_thirds_arith)
qed

text \<open>
  C5. Where the start of a node passes the check of the finality parameters without the warning about the
  threshold, and the pallet multiplies with that threshold, two justifications it accepts under the same
  frozen weights have a validator in common that signed votes for both hashes.
\<close>

theorem recommended_threshold_safe:
  fixes w w' w0 :: "('c, 'sig, 'z) dvf_world_scheme"
  assumes start: "validate_finality_params p = (Inr (), ws)" "ThresholdNotTwoThirds (fp_threshold p) \<notin> set ws"
    and product: "perbill_product (fp_threshold p) (threshold_of cfg)"
    and weight: "7 \<le> unat (TotalVotingWeight w)"
    and accepted: "fst (submit_justification cfg Unsigned j w) = Inr ()"
      "fst (submit_justification cfg Unsigned k w') = Inr ()"
    and frozen: "EpochVotingWeight w = EpochVotingWeight (freeze_epoch_weights cfg e vs w0)"
      "TotalVotingWeight w = TotalVotingWeight (freeze_epoch_weights cfg e vs w0)"
      "EpochVotingWeight w' = EpochVotingWeight w" "TotalVotingWeight w' = TotalVotingWeight w"
    and stakes: "distinct (map fst vs)" "stake_sum vs < 2 ^ 128" "length vs < 2 ^ 32"
  shows "\<exists>a \<in> set (votes j). \<exists>b \<in> set (votes k). validator_account a = validator_account b
    \<and> verify cfg (signature a) (payload_of a) (validator_account a)
    \<and> verify cfg (signature b) (payload_of b) (validator_account b)
    \<and> vote_block_hash a = just_block_hash j \<and> vote_block_hash b = just_block_hash k"
proof -
  have "660000000 \<le> fp_threshold p"
    using start by (auto simp: validate_finality_params_def validate_finality_threshold_def not_less
        split: sum.splits if_splits prod.splits)
  from recommended_threshold [OF product this weight]
  show ?thesis
    using quorum_overlap [OF accepted frozen stakes] by blast
qed

section \<open>The configuration of the runtime\<close>

definition runtime_params :: finality_params where
  "runtime_params = \<lparr>fp_checkpoint_interval = 10, fp_threshold = 670000000, fp_stake_weight_factor = 1,
     fp_score_weight_factor = 1000, fp_vote_retention_rounds = 20\<rparr>"

lemma runtime_params_accepted: "validate_finality_params runtime_params = (Inr (), [])"
  by (simp add: validate_finality_params_def runtime_params_def validate_finality_checkpoint_interval_def
      validate_finality_threshold_def validate_weight_factors_def validate_vote_retention_rounds_def)

definition exact_product :: "nat \<Rightarrow> u128 \<Rightarrow> u128" where
  "exact_product percent t = of_nat (percent * unat t div 100)"

lemma unat_exact_product:
  assumes "percent \<le> 100"
  shows "unat (exact_product percent t) = percent * unat t div 100"
proof -
  have "percent * unat t div 100 \<le> 100 * unat t div 100"
    by (rule div_le_mono, rule mult_le_mono1, rule assms)
  also have "\<dots> < 2 ^ LENGTH(128)"
    using unat_lt [of t] by simp
  finally show ?thesis
    unfolding exact_product_def by (simp only: unsigned_of_nat take_bit_nat_eq_self of_nat_id)
qed

lemma exact_product_perbill: "perbill_product 670000000 (exact_product 67)"
proof -
  have bounds: "670000000 * n < 1000000000 * (67 * n div 100 + 1)"
      "1000000000 * (67 * n div 100) < 670000000 * n + 1000000000" for n :: nat
  proof -
    define d r where "d = 67 * n div 100" and "r = 67 * n mod 100"
    then have "67 * n = 100 * d + r" and r: "r < 100"
      by simp_all
    from arg_cong [OF this(1), of "(*) 10000000"] have "670000000 * n = 1000000000 * d + 10000000 * r"
      by (simp add: distrib_left)
    with r show "670000000 * n < 1000000000 * (67 * n div 100 + 1)"
      and "1000000000 * (67 * n div 100) < 670000000 * n + 1000000000"
      unfolding d_def [symmetric] by simp_all
  qed
  then show ?thesis
    by (simp add: perbill_product_def unat_exact_product bounds)
qed

definition exact_config :: "nat \<Rightarrow> nat dvf_config" where
  "exact_config percent = sample_dvf_config\<lparr>threshold_of := exact_product percent\<rparr>"

lemma exact_config_accepts:
  "fst (submit_justification (exact_config 67) Unsigned (sample_justification [1, 2] 0 10 7) sample_world) = Inr ()"
  "fst (submit_justification (exact_config 67) Unsigned (sample_justification [2, 1, 3] 0 20 8) sample_world) = Inr ()"
proof -
  have "unat (threshold_of (exact_config 67) 32000) = unat (21440 :: u128)"
    by (simp add: exact_config_def unat_exact_product)
  then have "threshold_of (exact_config 67) 32000 = 21440"
    by (simp only: word_unat_eq_iff)
  then have "justification_valid (exact_config 67) sample_world (sample_justification [1, 2] 0 10 7)"
    "justification_valid (exact_config 67) sample_world (sample_justification [2, 1, 3] 0 20 8)"
    by (simp_all add: justification_valid_def vote_ok_def is_checkpoint_block_def tally_def exact_config_def
      sample_weights_fields vote_sample_defs sat_add_def sm_has_def sm_val_def sm_get_def)
  then show
    "fst (submit_justification (exact_config 67) Unsigned (sample_justification [1, 2] 0 10 7) sample_world) = Inr ()"
    "fst (submit_justification (exact_config 67) Unsigned (sample_justification [2, 1, 3] 0 20 8) sample_world) = Inr ()"
    by (simp_all add: submit_justification_def accepted_iff_valid)
qed

lemma exact_config_frozen:
  "EpochVotingWeight sample_world
     = EpochVotingWeight (freeze_epoch_weights (exact_config 67) 0 sample_stakes sample_world)"
  "TotalVotingWeight sample_world
     = TotalVotingWeight (freeze_epoch_weights (exact_config 67) 0 sample_stakes sample_world)"
  by (simp_all add: sample_weights_fields freeze_epoch_weights_def sample_stakes_def Let_def
      dvf_deposit_event_def normalized_weight_def total_stake_of_def vote_weight_scale_def
      sat_mul_def sat_add_def sm_put_def)

theorem recommended_threshold_safe_witness:
  "\<exists>a \<in> set (votes (sample_justification [1, 2] 0 10 7)). \<exists>b \<in> set (votes (sample_justification [2, 1, 3] 0 20 8)).
     validator_account a = validator_account b"
proof -
  have "ThresholdNotTwoThirds (fp_threshold runtime_params) \<notin> set []"
    "perbill_product (fp_threshold runtime_params) (threshold_of (exact_config 67))"
    "7 \<le> unat (TotalVotingWeight sample_world)"
    using exact_product_perbill by (simp_all add: runtime_params_def exact_config_def sample_weights_fields)
  from recommended_threshold_safe [OF runtime_params_accepted this exact_config_accepts exact_config_frozen
      refl refl sample_stakes_ok]
  show ?thesis by blast
qed

section \<open>The least threshold that passes\<close>





end
