(* ===== verification/Block_Tracker.thy ===== *)
theory Block_Tracker
  imports Node_Rpc
begin

text \<open>
  The service of the node that watches authored and missed blocks (\<open>block_tracker.rs\<close>). Rates are the bit
  patterns of floats as in \<open>Node_Rpc\<close>; the iteration order of the map of statistics is the order of the list
  that stands for it. One turn of the service updates, gives the alerts and, when due, the report.
\<close>

section \<open>Statistics of a validator\<close>

record validator_block_stats =
  bs_authored_blocks :: u32
  bs_missed_blocks :: u32
  bs_expected_blocks :: u32
  bs_participation_rate :: u64
  bs_last_authored_block :: "u32 option"
  bs_consecutive_misses :: u32


definition calculate_participation_rate ::
  "(u32 \<Rightarrow> u32 \<Rightarrow> u64) \<Rightarrow> validator_block_stats \<Rightarrow> validator_block_stats" where
  "calculate_participation_rate percent s = s\<lparr>bs_participation_rate :=
     (if bs_expected_blocks s > 0 then percent (bs_authored_blocks s) (bs_expected_blocks s) else f64_100)\<rparr>"

definition is_underperforming_stats :: "u64 \<Rightarrow> validator_block_stats \<Rightarrow> bool" where
  "is_underperforming_stats threshold s \<longleftrightarrow> bs_participation_rate s < threshold \<and> bs_expected_blocks s \<ge> 10"


section \<open>The tracker\<close>

record block_tracker_config =
  bc_underperformance_threshold :: u64
  bc_max_consecutive_misses :: u32
  bc_enable_alerts :: bool


definition default_tracker_config :: block_tracker_config where
  "default_tracker_config = \<lparr>bc_underperformance_threshold = f64_85, bc_max_consecutive_misses = 5,
     bc_enable_alerts = True\<rparr>"


record block_tracker =
  bt_config :: block_tracker_config
  bt_validator_stats :: "(account_id, validator_block_stats) smap"
  bt_last_processed_block :: u32
  bt_total_blocks_tracked :: u32


text \<open>The statistics after a report of authored and missed blocks.\<close>

definition report_stats ::
  "(u32 \<Rightarrow> u32 \<Rightarrow> u64) \<Rightarrow> u32 \<Rightarrow> u32 \<times> u32 \<Rightarrow> validator_block_stats \<Rightarrow> validator_block_stats" where
  "report_stats percent last_processed report s =
     (let (authored, missed) = report;
          new_authored = sat_sub authored (bs_authored_blocks s);
          new_missed = sat_sub missed (bs_missed_blocks s)
      in if new_authored > 0 \<or> new_missed > 0
         then let s1 = s\<lparr>bs_authored_blocks := authored, bs_missed_blocks := missed,
                         bs_expected_blocks := authored + missed\<rparr>;
                  s2 = (if new_authored > 0
                        then s1\<lparr>bs_consecutive_misses := 0, bs_last_authored_block := Some last_processed\<rparr>
                        else if new_missed > 0
                        then s1\<lparr>bs_consecutive_misses := bs_consecutive_misses s1 + new_missed\<rparr>
                        else s1)
              in calculate_participation_rate percent s2
         else s)"



section \<open>Alerts and report\<close>



record block_statistics =
  rep_total_tracked :: u32
  rep_monitored :: nat
  rep_overall :: "(u64 \<times> u32 \<times> u32) option"
  rep_top :: "(account_id \<times> validator_block_stats) list"
  rep_under :: "(account_id \<times> validator_block_stats) list"

definition report_statistics :: "(u32 \<Rightarrow> u32 \<Rightarrow> u64) \<Rightarrow> block_tracker \<Rightarrow> block_statistics" where
  "report_statistics percent T =
     (let stats = bt_validator_stats T;
          total_authored = sum_list (map (bs_authored_blocks \<circ> snd) stats);
          total_missed = sum_list (map (bs_missed_blocks \<circ> snd) stats);
          total_expected = sum_list (map (bs_expected_blocks \<circ> snd) stats);
          sorted_validators = sort_high (bs_participation_rate \<circ> snd) stats
      in \<lparr>rep_total_tracked = bt_total_blocks_tracked T,
          rep_monitored = length stats,
          rep_overall = (if stats = [] then None
            else Some (if total_expected > 0 then percent total_authored total_expected else f64_100,
                       total_authored, total_missed)),
          rep_top = take 3 sorted_validators,
          rep_under = take 5 (filter (\<lambda>p. is_underperforming_stats
            (bc_underperformance_threshold (bt_config T)) (snd p)) sorted_validators)\<rparr>)"


section \<open>Properties\<close>

text \<open>What an alert of the block tracker about a validator tells of its blocks.\<close>

section \<open>Statistics and reports\<close>



lemma sat_sub_pos: "0 < sat_sub a b \<longleftrightarrow> b < a"
  by (simp add: word_less_nat_alt unat_sat_sub)



section \<open>Runs of the service\<close>




















section \<open>Counters that go back\<close>

text \<open>
  A report with no counter above the stored ones changes nothing. The record of a validator that leaves
  and joins again starts at zero: until its counters pass the old ones the tracker shows the old numbers.
\<close>

lemma lower_counters_ignored:
  "a \<le> bs_authored_blocks s \<Longrightarrow> m \<le> bs_missed_blocks s \<Longrightarrow> report_stats percent n (a, m) s = s"
  by (simp add: report_stats_def sat_sub_pos not_less Let_def)

end
