(* ===== verification/Rpc_Module.thy ===== *)
theory Rpc_Module
  imports Node_Rpc
begin

text \<open>
  The RPC module of the node as a whole: the methods it registers (\<open>create_full\<close>), the description it gives of
  them, its security configuration, and the methods that hand on one query.
\<close>

section \<open>Configuration and registered methods\<close>

record rpc_security_config =
  enable_cbc_extensions :: bool
  expose_unsafe_methods :: bool
  rate_limit_window :: nat
  rate_limit_requests :: u32

definition default_rpc_config :: rpc_security_config where
  "default_rpc_config = \<lparr>enable_cbc_extensions = False, expose_unsafe_methods = False,
     rate_limit_window = 60, rate_limit_requests = 100\<rparr>"

definition chain_methods :: "string list" where
  "chain_methods =
    [''chain_getChainName'']"

definition pos_methods :: "string list" where
  "pos_methods =
    [''pos_getValidatorScore'',
     ''pos_getValidatorStake'',
     ''pos_getSlashingCount'',
     ''pos_getValidatorStatus'']"

definition poi_methods :: "string list" where
  "poi_methods =
    [''poi_getInferenceResult'',
     ''poi_getInferenceConfidence'',
     ''poi_getChallengeWindow'',
     ''poi_getInferenceStatus'']"

definition dcf_methods :: "string list" where
  "dcf_methods =
    [''dcf_getCurrentAuthor'',
     ''dcf_getExpectedAuthor'',
     ''dcf_getValidatorScores'',
     ''dcf_getConsensusWeights'']"

definition unified_methods :: "string list" where
  "unified_methods =
    [''cerulea_getCurrentEpoch'',
     ''cerulea_getValidatorProfile'',
     ''cerulea_getTrustScore'',
     ''cerulea_listValidators'',
     ''cerulea_getStatus'',
     ''cerulea_describe'',
     ''cerulea_health'',
     ''cerulea_getBlockAuthoringStats'',
     ''cerulea_getAllBlockAuthoringStats'']"

definition dvf_methods :: "string list" where
  "dvf_methods =
    [''dvf_getFinalizedHead'',
     ''dvf_getFinalizedHash'',
     ''dvf_isBlockFinalized'',
     ''dvf_getCurrentRound'',
     ''dvf_getAccumulatedWeight'',
     ''dvf_getValidatorSetId'',
     ''dvf_getValidatorWeights'']"

definition fork_methods :: "string list" where
  "fork_methods =
    [''fork_checkPeers'',
     ''fork_getStatus'']"

text \<open>
  The methods of the repository that the module serves, and the limiter it creates; the methods of the
  libraries for accounts and fees are registered always.
\<close>

definition create_full :: "rpc_security_config \<Rightarrow> string list \<times> rate_limiter" where
  "create_full config =
     ((if enable_cbc_extensions config
       then chain_methods @ pos_methods @ poi_methods @ dcf_methods @ unified_methods @ dvf_methods @ fork_methods
       else [])
      @ (if expose_unsafe_methods config then [] else []),
      new_rate_limiter (rate_limit_window config) (rate_limit_requests config))"

section \<open>The description\<close>

record rpc_method_description =
  md_name :: string
  md_description :: string
  md_params :: "string list"
  md_returns :: string

definition method_of :: "string \<Rightarrow> string \<Rightarrow> string list \<Rightarrow> string \<Rightarrow> rpc_method_description" where
  "method_of name description params returns =
     \<lparr>md_name = name, md_description = description, md_params = params, md_returns = returns\<rparr>"

definition described_methods :: "rpc_method_description list" where
  "described_methods = [
  method_of ''cerulea_getCurrentEpoch''
    ''Get the current epoch number''
    [] ''u32'',
  method_of ''cerulea_getValidatorProfile''
    ''Get comprehensive validator profile including stake, scores, and status''
    [''AccountId''] ''ValidatorProfile'',
  method_of ''cerulea_getTrustScore''
    ''Get validator trust score with PoS and PoI components''
    [''AccountId''] ''TrustScore'',
  method_of ''cerulea_listValidators''
    ''Get list of all active validators''
    [] ''Vec<AccountId>'',
  method_of ''cerulea_getStatus''
    ''Get system-wide status including epoch, validators, and health''
    [] ''SystemStatus'',
  method_of ''cerulea_describe''
    ''List all available CBC RPC methods''
    [] ''Vec<RpcMethodDescription>'',
  method_of ''cerulea_health''
    ''Get health check status for monitoring''
    [] ''HealthStatus'',
  method_of ''cerulea_getBlockAuthoringStats''
    ''Get block authoring statistics for a specific validator''
    [''AccountId''] ''BlockAuthoringStats'',
  method_of ''cerulea_getAllBlockAuthoringStats''
    ''Get block authoring statistics for all active validators''
    [] ''Vec<(AccountId, BlockAuthoringStats)>'',
  method_of ''pos_getValidatorScore''
    ''Get validator PoS performance score''
    [''AccountId''] ''u32'',
  method_of ''pos_getValidatorStake''
    ''Get validator staked amount''
    [''AccountId''] ''Balance'',
  method_of ''pos_getSlashingCount''
    ''Get number of times validator has been slashed''
    [''AccountId''] ''u32'',
  method_of ''pos_getValidatorStatus''
    ''Get validator status (Active/Inactive/Slashed)''
    [''AccountId''] ''ValidatorStatus'',
  method_of ''poi_getInferenceResult''
    ''Get validator inference result and confidence''
    [''AccountId''] ''Option<InferenceResult>'',
  method_of ''poi_getInferenceConfidence''
    ''Get inference confidence score''
    [''AccountId''] ''Option<u32>'',
  method_of ''poi_getChallengeWindow''
    ''Get current challenge window parameters''
    [] ''ChallengeWindow'',
  method_of ''poi_getInferenceStatus''
    ''Get inference submission status''
    [''AccountId''] ''InferenceStatus'',
  method_of ''dcf_getCurrentAuthor''
    ''Get current block author''
    [] ''Option<AccountId>'',
  method_of ''dcf_getExpectedAuthor''
    ''Get expected author for a specific block''
    [''u32''] ''Option<AccountId>'',
  method_of ''dcf_getValidatorScores''
    ''Get trust scores for all active validators''
    [] ''Vec<(AccountId, u64)>'',
  method_of ''dcf_getConsensusWeights''
    ''Get current PoS and PoI weight distribution''
    [] ''ConsensusWeights'',
  method_of ''dvf_getFinalizedHead''
    ''Get current finalized block number''
    [] ''u32'',
  method_of ''dvf_getFinalizedHash''
    ''Get current finalized block hash''
    [] ''String'',
  method_of ''dvf_isBlockFinalized''
    ''Check if a specific block number is finalized''
    [''u32''] ''bool'',
  method_of ''dvf_getCurrentRound''
    ''Get current DVF voting round''
    [] ''u32'',
  method_of ''dvf_getAccumulatedWeight''
    ''Get accumulated voting weight for a block hash''
    [''String''] ''u128'',
  method_of ''dvf_getValidatorSetId''
    ''Get current validator set ID''
    [] ''u32'',
  method_of ''dvf_getValidatorWeights''
    ''Get voting weights for all validators''
    [] ''Vec<(AccountId, u128)>'',
  method_of ''fork_checkPeers''
    ''Check for forks by comparing local and peer states''
    [''Vec<String>'', ''u32''] ''Vec<ForkReport>'',
  method_of ''fork_getStatus''
    ''Get fork detection service status''
    [] ''HashMap<String, Value>'']"

definition rpc_describe :: "bool \<Rightarrow> rpc_error + rpc_method_description list" where
  "rpc_describe ext = if_extensions ext (Inr described_methods)"

section \<open>Methods that hand on one query\<close>

definition rpc_get_chain_name :: string where
  "rpc_get_chain_name = ''Cerulea''"

definition rpc_get_validator_score :: "('c, 'z) pos_world_scheme \<Rightarrow> account_id \<Rightarrow> u32" where
  "rpc_get_validator_score w v = sm_val 0 (ValidatorScores w) v"

definition rpc_get_validator_stake :: "('c, 'z) pos_world_scheme \<Rightarrow> account_id \<Rightarrow> u128" where
  "rpc_get_validator_stake w v = sm_val 0 (Stake w) v"

definition rpc_get_slashing_count :: "('c, 'z) pos_world_scheme \<Rightarrow> account_id \<Rightarrow> u32" where
  "rpc_get_slashing_count w v = sm_val 0 (SlashingCount w) v"

definition rpc_get_validator_scores ::
  "bool \<Rightarrow> ('c, 'sig) dcf_config \<Rightarrow> ('c, 'sig, 'z) dcf_world_scheme \<Rightarrow> rpc_error + (account_id \<times> u64) list" where
  "rpc_get_validator_scores ext cfg w = if_extensions ext (Inr (get_validator_scores cfg w))"

definition rpc_get_consensus_weights ::
  "bool \<Rightarrow> ('c, 'sig, 'z) dcf_world_scheme \<Rightarrow> rpc_error + u64 \<times> u64" where
  "rpc_get_consensus_weights ext w = if_extensions ext (Inr (get_consensus_weights w))"

definition rpc_get_current_epoch :: "bool \<Rightarrow> ('c, 'sig, 'z) dcf_world_scheme \<Rightarrow> rpc_error + u32" where
  "rpc_get_current_epoch ext w = if_extensions ext (Inr (DcfCurrentEpoch w))"

definition rpc_list_validators :: "bool \<Rightarrow> account_id list \<Rightarrow> rpc_error + account_id list" where
  "rpc_list_validators ext active = if_extensions ext (Inr active)"

definition rpc_get_finalized_head :: "bool \<Rightarrow> ('c, 'sig, 'z) dvf_world_scheme \<Rightarrow> rpc_error + u32" where
  "rpc_get_finalized_head ext w = if_extensions ext (Inr (FinalizedBlockNumber w))"

definition rpc_get_current_round :: "bool \<Rightarrow> ('c, 'sig, 'z) dvf_world_scheme \<Rightarrow> rpc_error + u32" where
  "rpc_get_current_round ext w = if_extensions ext (Inr (CurrentRound w))"

definition rpc_get_validator_set_id :: "bool \<Rightarrow> ('c, 'sig, 'z) dvf_world_scheme \<Rightarrow> rpc_error + u32" where
  "rpc_get_validator_set_id ext w = if_extensions ext (Inr (ValidatorSetId w))"

definition rpc_get_validator_weights ::
  "bool \<Rightarrow> ('c, 'sig, 'z) dvf_world_scheme \<Rightarrow> rpc_error + (account_id \<times> u128) list" where
  "rpc_get_validator_weights ext w = if_extensions ext (Inr (EpochVotingWeight w))"

section \<open>Agreement\<close>

text \<open>
  With the extensions the module serves exactly the described methods and the name of the chain, each once;
  without them it serves none. The switch for unsafe methods changes nothing.
\<close>

lemma served_methods:
  "fst (create_full config) = (if enable_cbc_extensions config
     then ''chain_getChainName'' # pos_methods @ poi_methods @ dcf_methods @ unified_methods @ dvf_methods @ fork_methods
     else [])"
  by (simp add: create_full_def chain_methods_def)

lemma described_as_served:
  "map md_name described_methods = unified_methods @ pos_methods @ poi_methods @ dcf_methods @ dvf_methods @ fork_methods"
  by (simp add: described_methods_def method_of_def unified_methods_def pos_methods_def poi_methods_def
      dcf_methods_def dvf_methods_def fork_methods_def)

end
