(* ===== verification/Node_Services.thy ===== *)
theory Node_Services
  imports Vote_Aggregator Block_Production
begin

text \<open>
  Smaller services of the node library: confirmations of blocks and the finality notifier (\<open>finality.rs\<close>), the
  health log of the engine (\<open>dcf.rs\<close>), the warning about stalled finality (\<open>vote_aggregator.rs\<close>), the
  handling of justifications from the network (\<open>import_queue.rs\<close>), the view of the validator set
  (\<open>validator_set.rs\<close>), inherent data (\<open>inherent_providers.rs\<close>) and the deduplication of log lines (\<open>logging.rs\<close>).
\<close>

section \<open>Confirmations\<close>

record finality_engine =
  fe_confirmations :: "(hash, u32) smap"
  fe_threshold :: u32

definition new_finality_engine :: "u32 \<Rightarrow> finality_engine" where
  "new_finality_engine threshold = \<lparr>fe_confirmations = [], fe_threshold = threshold\<rparr>"

definition add_block :: "hash \<Rightarrow> finality_engine \<Rightarrow> finality_engine" where
  "add_block h E = E\<lparr>fe_confirmations := sm_put h 0 (fe_confirmations E)\<rparr>"

text \<open>The counter wraps around.\<close>

definition update_confirmations :: "hash \<Rightarrow> finality_engine \<Rightarrow> (unit + bool) \<times> finality_engine" where
  "update_confirmations h E =
     (case sm_get (fe_confirmations E) h of
        None \<Rightarrow> (Inl (), E)
      | Some c \<Rightarrow> (Inr (c + 1 \<ge> fe_threshold E), E\<lparr>fe_confirmations := sm_put h (c + 1) (fe_confirmations E)\<rparr>))"

definition fe_is_finalized :: "hash \<Rightarrow> finality_engine \<Rightarrow> bool" where
  "fe_is_finalized h E =
     (case sm_get (fe_confirmations E) h of None \<Rightarrow> False | Some c \<Rightarrow> c \<ge> fe_threshold E)"

definition prune_old_blocks :: "hash list \<Rightarrow> finality_engine \<Rightarrow> finality_engine" where
  "prune_old_blocks hs E = E\<lparr>fe_confirmations := fold sm_del hs (fe_confirmations E)\<rparr>"

section \<open>The notifier\<close>

record finality_notification =
  fin_block_number :: u32
  fin_block_hash :: hash
  fin_round_id :: u32

text \<open>
  A subscriber is what its channel has received so far, or \<open>None\<close> once the receiver is dropped; its number
  is its place in the list.
\<close>

type_synonym finality_notifier = "finality_notification list option list"

definition notifier_subscribe :: "finality_notifier \<Rightarrow> nat \<times> finality_notifier" where
  "notifier_subscribe N = (length N, N @ [Some []])"

definition notifier_notify :: "finality_notification \<Rightarrow> finality_notifier \<Rightarrow> finality_notifier" where
  "notifier_notify note N = map (map_option (\<lambda>received. received @ [note])) N"

lemma notify_all:
  "i < length N \<Longrightarrow> N ! i = Some received \<Longrightarrow>
     fold notifier_notify sent N ! i = Some (received @ sent)"
proof (induction sent arbitrary: N received)
  case (Cons first sent)
  then show ?case
    using Cons.IH [of "notifier_notify first N" "received @ [first]"] by (simp add: notifier_notify_def)
qed simp

text \<open>A subscriber receives exactly what is sent after it subscribed, in order.\<close>

lemma subscriber_receives:
  assumes "notifier_subscribe N = (i, N')"
  shows "fold notifier_notify sent N' ! i = Some sent"
  using assms notify_all [of "length N" "N @ [Some []]" "[]" sent] by (auto simp: notifier_subscribe_def)

section \<open>Stalled finality and justifications from the network\<close>

definition check_finality_stall :: "u32 \<Rightarrow> ('ed, 'sig) node \<Rightarrow> u32 option" where
  "check_finality_stall current_round node =
     (let rounds = sat_sub current_round (last_finalized_round node)
      in if rounds \<ge> 10 then Some rounds else None)"

datatype justification_report = JustificationStatusUnknown | AlreadyFinal | NotYetFinal | OlderThanFinal

text \<open>\<open>final\<close> answers \<open>is_block_finalized\<close>, \<open>None\<close> for a failed call. The result of the code is always \<open>Ok(())\<close>.\<close>

definition import_justifications ::
  "runtime_view \<Rightarrow> (u32 \<Rightarrow> bool option) \<Rightarrow> u32 \<Rightarrow> justification_report" where
  "import_justifications view final n =
     (case rv_last_finalized view of
        None \<Rightarrow> JustificationStatusUnknown
      | Some last_finalized \<Rightarrow>
          if n \<ge> last_finalized
          then (case final n of
                  None \<Rightarrow> JustificationStatusUnknown
                | Some True \<Rightarrow> AlreadyFinal
                | Some False \<Rightarrow> NotYetFinal)
          else OlderThanFinal)"

section \<open>Health of the validators\<close>

record health_params =
  hp_sample_size :: u32
  hp_healthy_score :: u32
  hp_healthy_rate :: u32
  hp_max_missed :: u32

definition service_health_params :: health_params where
  "service_health_params = \<lparr>hp_sample_size = 5, hp_healthy_score = 50, hp_healthy_rate = 80, hp_max_missed = 10\<rparr>"

text \<open>Number of validators, healthy ones among the sample, and average score; \<open>None\<close> when nothing is logged.\<close>

definition log_consensus_health :: "health_params \<Rightarrow> runtime_view \<Rightarrow> (nat \<times> u32 \<times> u64) option option" where
  "log_consensus_health P view =
     (case rv_active_validators view of
        None \<Rightarrow> Some None
      | Some active \<Rightarrow>
          (let profiles = List.map_filter (\<lambda>v. case rv_validator_profile view v of
                 Some (Some profile) \<Rightarrow> Some (v, profile) | _ \<Rightarrow> None) (take (unat (hp_sample_size P)) active);
               total_score = sum_list (map (ap_final_score \<circ> snd) profiles);
               healthy = sum_list (map (\<lambda>(v, profile).
                 let (rate, missed) = get_validator_participation_metrics view v
                 in if ap_final_score profile \<ge> ucast (hp_healthy_score P) \<and> rate \<ge> hp_healthy_rate P - 10
                       \<and> missed \<le> hp_max_missed P then 1 else 0) profiles);
               sample = of_nat (min (length active) (unat (hp_sample_size P)))
           in if length active > 0 \<and> sample = 0 then None
              else Some (Some (length active, healthy,
                     if length active > 0 then total_score div sample else 0))))"

section \<open>The validator set of the library\<close>

record set_validator_info =
  si_stake :: u128
  si_score :: u32
  si_is_active :: bool
  si_participation_rate :: "8 word"

text \<open>The sums and the product wrap around.\<close>

definition set_validator_info_of ::
  "bool \<Rightarrow> u128 \<Rightarrow> u64 \<Rightarrow> u64 \<Rightarrow> u32 \<times> u32 \<Rightarrow> set_validator_info" where
  "set_validator_info_of active stake stake_pts inference_pts participation =
     (let (authored, missed) = participation;
          total_blocks = authored + missed
      in \<lparr>si_stake = stake,
          si_score = ucast ((stake_pts + inference_pts) div 2),
          si_is_active = active,
          si_participation_rate =
            (if total_blocks > 0 then ucast (authored * 100 div total_blocks) else 100)\<rparr>)"

definition is_valid_validator_set :: "'v list \<Rightarrow> u32 \<Rightarrow> u32 \<Rightarrow> bool" where
  "is_valid_validator_set vs min_validators max_validators \<longleftrightarrow>
     (let len = of_nat (length vs) in len \<ge> min_validators \<and> len \<le> max_validators \<and> vs \<noteq> [])"

definition sort_by_score :: "set_validator_info list \<Rightarrow> set_validator_info list" where
  "sort_by_score vs = sort_key (\<lambda>v. - int (unat (si_score v))) vs"

definition filter_active_validators :: "set_validator_info list \<Rightarrow> set_validator_info list" where
  "filter_active_validators vs = filter si_is_active vs"

definition calculate_total_stake :: "set_validator_info list \<Rightarrow> u128" where
  "calculate_total_stake vs = sum_list (map si_stake vs)"

datatype author_error = NoExpectedAuthor | AuthorCallFailed

definition node_get_expected_author :: "runtime_view \<Rightarrow> u32 \<Rightarrow> author_error + account_id" where
  "node_get_expected_author view n =
     (case rv_expected_author view n of
        Some (Some author) \<Rightarrow> Inr author
      | Some None \<Rightarrow> Inl NoExpectedAuthor
      | None \<Rightarrow> Inl AuthorCallFailed)"

section \<open>Inherent data\<close>

text \<open>Identifiers with their values; decoding a value may fail.\<close>

type_synonym inherent_data = "(string, 8 word list) smap"

datatype inherent_error = MissingTimestamp | BadTimestamp | DuplicateInherent

definition create_inherent_data_with_timestamp ::
  "(u64 \<Rightarrow> 8 word list) \<Rightarrow> u64 \<Rightarrow> inherent_error + inherent_data" where
  "create_inherent_data_with_timestamp enc timestamp =
     (let inherent_data = ([] :: inherent_data)
      in if sm_has inherent_data ''timstap0'' then Inl DuplicateInherent
         else Inr (sm_put ''timstap0'' (enc timestamp) inherent_data))"

definition extract_timestamp :: "(8 word list \<Rightarrow> u64 option) \<Rightarrow> inherent_data \<Rightarrow> inherent_error + u64" where
  "extract_timestamp dec d =
     (case sm_get d ''timstap0'' of
        None \<Rightarrow> Inl MissingTimestamp
      | Some bytes \<Rightarrow> (case dec bytes of None \<Rightarrow> Inl BadTimestamp | Some t \<Rightarrow> Inr t))"

definition validate_inherent_data :: "(8 word list \<Rightarrow> u64 option) \<Rightarrow> inherent_data \<Rightarrow> inherent_error + unit" where
  "validate_inherent_data dec d =
     (case sm_get d ''timstap0'' of
        None \<Rightarrow> Inl MissingTimestamp
      | Some bytes \<Rightarrow> (case dec bytes of None \<Rightarrow> Inl BadTimestamp | Some t \<Rightarrow> Inr ()))"

lemma created_data_valid:
  assumes "\<And>t. dec (enc t) = Some t" and "create_inherent_data_with_timestamp enc t = Inr d"
  shows "validate_inherent_data dec d = Inr () \<and> extract_timestamp dec d = Inr t"
  using assms by (auto simp: create_inherent_data_with_timestamp_def validate_inherent_data_def
      extract_timestamp_def split: if_splits)

section \<open>Repeated log lines\<close>

text \<open>Messages with their count and the second they were first seen.\<close>

record log_deduplicator =
  ld_counts :: "(string, u32 \<times> nat) smap"
  ld_window :: nat

text \<open>A time in the future counts as out of the window.\<close>

definition kept_line :: "nat \<Rightarrow> nat \<Rightarrow> nat \<Rightarrow> bool" where
  "kept_line now window seen \<longleftrightarrow> seen \<le> now \<and> now - seen < window"

definition should_deduplicate :: "nat \<Rightarrow> string \<Rightarrow> log_deduplicator \<Rightarrow> u32 option \<times> log_deduplicator" where
  "should_deduplicate now message D =
     (let counts = filter (\<lambda>(_, _, seen). kept_line now (ld_window D) seen) (ld_counts D)
      in case sm_get counts message of
           Some (cnt, seen) \<Rightarrow>
             (if cnt + 1 > 1 then Some (cnt + 1) else None,
              D\<lparr>ld_counts := sm_put message (cnt + 1, seen) counts\<rparr>)
         | None \<Rightarrow> (None, D\<lparr>ld_counts := sm_put message (1, now) counts\<rparr>))"

definition get_summary :: "log_deduplicator \<Rightarrow> (string \<times> u32) list" where
  "get_summary D = map (\<lambda>(m, c, _). (m, c)) (filter (\<lambda>(_, c, _). c > 1) (ld_counts D))"

text \<open>A line is shown when it is not among those kept; repeated at once it is counted.\<close>

lemma first_line_shown:
  "sm_get (ld_counts D) message = None \<Longrightarrow> sm_wf (ld_counts D) \<Longrightarrow> fst (should_deduplicate now message D) = None"
  by (auto simp: should_deduplicate_def Let_def sm_get_def map_of_eq_None_iff split: option.splits
      dest!: map_of_SomeD) force

lemma repeated_line_counted:
  assumes "should_deduplicate now message D = (None, D')" and "0 < ld_window D"
    and "sm_get (ld_counts D) message = None" and "sm_wf (ld_counts D)"
  shows "fst (should_deduplicate now message D') = Some 2"
proof -
  let ?kept = "filter (\<lambda>(_, _, seen). kept_line now (ld_window D) seen)"
  have "sm_get (?kept (ld_counts D)) message = None"
    using assms(3) by (auto simp: sm_get_def map_of_eq_None_iff)
  then have D': "D' = D\<lparr>ld_counts := sm_put message (1, now) (?kept (ld_counts D))\<rparr>"
    using assms(1) by (simp add: should_deduplicate_def Let_def)
  have wf: "sm_wf (?kept (sm_put message (1, now) (?kept (ld_counts D))))"
    and entry: "(message, 1, now) \<in> set (sm_put message (1, now) (?kept (ld_counts D)))"
    using assms(4) smap.wf_insert [of "?kept (ld_counts D)" message "(1, now)"]
      smap.lookup_insert [of message "(1, now)" "?kept (ld_counts D)" message]
    by (auto simp: sm_wf_def distinct_map_filter sm_get_def dest: map_of_SomeD)
  then have "sm_get (?kept (sm_put message (1, now) (?kept (ld_counts D)))) message = Some (1, now)"
    using assms(2) by (auto simp: sm_get_def sm_wf_def kept_line_def)
  then show ?thesis
    by (simp add: should_deduplicate_def D' Let_def)
qed

end
