(* ===== verification/Dcf_Generators.thy ===== *)
theory Dcf_Generators
  imports Dcf_Epoch Dcf_Config
begin

text \<open>
  Functions of \<open>pallet-cerulea-dcf\<close> that the block hook and the calls do not reach, or reach for their log only:
  the proposals that \<open>generate_validator_proposals\<close> would make, the performance analysis of an epoch, the
  inference activity of the pallet itself, the report of a rate limit violation, and the checks of
  configurations that are compiled for tests and benchmarks.
\<close>

section \<open>Proposals from combined scores\<close>

record generator_config =
  gen_high_performance_percentage :: u32

definition runtime_generator_config :: generator_config where
  "runtime_generator_config = \<lparr>gen_high_performance_percentage = 80\<rparr>"

text \<open>The products saturate; their sum wraps around. Raw stake stands for the score of the stake.\<close>

definition wrapped_score :: "('c, 'sig) dcf_config \<Rightarrow> ('c, 'sig, 'z) dcf_world_scheme \<Rightarrow> account_id \<Rightarrow> u64" where
  "wrapped_score cfg w v =
     (let pos_score = sat_into (sm_val 0 (Stake w) v);
          poi = get_inference_score w v;
          combined = (sat_mul pos_score (pos_weight_of w) + sat_mul poi (poi_weight_of w))
                       div ucast (PercentagePrecision (poi_cfg cfg))
      in min combined (MaxValidatorScore (poi_cfg cfg)))"

definition generate_validator_proposals ::
  "generator_config \<Rightarrow> ('c, 'sig) dcf_config \<Rightarrow> ('c, 'sig, 'z) dcf_world_scheme
     \<Rightarrow> (account_id \<times> proposal_action \<times> u64 \<times> u64 \<times> u64) list" where
  "generate_validator_proposals gc cfg w =
     List.map_filter (\<lambda>v.
       let pos_score = sat_into (sm_val 0 (Stake w) v);
           poi = get_inference_score w v;
           combined = wrapped_score cfg w v
       in if combined < ucast (MinValidatorScore (pos_cfg cfg))
          then Some (v, EjectAction v ScoreBelowThreshold, combined, pos_score, poi)
          else if combined \<ge> MaxValidatorScore (poi_cfg cfg) * ucast (gen_high_performance_percentage gc)
                               div ucast (FullPercentage cfg)
          then Some (v, RewardAction v (ValidatorReward (pos_cfg cfg)), combined, pos_score, poi)
          else None)
       (dcf_validator_set cfg w)"

section \<open>Performance analysis\<close>

text \<open>The high and the low performers, which are counted in the log.\<close>

definition generate_performance_proposals ::
  "('c, 'sig) dcf_config \<Rightarrow> ('c, 'sig, 'z) dcf_world_scheme \<Rightarrow> account_id list \<times> account_id list" where
  "generate_performance_proposals cfg w =
     (let known = filter (\<lambda>v. dcf_validator_state cfg w v \<noteq> None) (dcf_active_validators cfg w);
          score = (\<lambda>v. final_score (current (the (dcf_validator_state cfg w v))))
      in (filter (\<lambda>v. score v > HighPerformanceScore (pos_cfg cfg)) known,
          filter (\<lambda>v. \<not> score v > HighPerformanceScore (pos_cfg cfg) \<and> score v < MinPerformanceScore cfg) known))"

section \<open>Inference activity\<close>

definition record_inference_activity_trusted ::
  "('c, 'sig) dcf_config \<Rightarrow> account_id \<Rightarrow> (('c, 'sig, 'z) dcf_world_scheme, unit) call" where
  "record_inference_activity_trusted cfg v w =
     (case mutate_validator cfg v (\<lambda>st w.
             (Inr (touch_activity w (st\<lparr>inference_count := sat_add (inference_count st) 1\<rparr>)), w)) w of
        (Inl e, w1) \<Rightarrow> (Inl e, w1)
      | (Inr _, w1) \<Rightarrow> update_trust_score cfg v w1)"

section \<open>Rate limit violations\<close>

definition handle_rate_limit_violation ::
  "account_id \<Rightarrow> 8 word \<Rightarrow> 8 word \<Rightarrow> u32 \<Rightarrow> u32 \<Rightarrow> (('c, 'sig, 'z) dcf_world_scheme, unit) call" where
  "handle_rate_limit_violation v operation violation_type current_count limit w =
     (let w1 = dcf_deposit_event (RateLimitViolated v (ucast operation) (ucast violation_type) current_count limit) w
      in (Inl (DcfErr
            (if violation_type = 0 then DcfPerBlockRateLimitExceeded
             else if violation_type = 1 then DcfPerAccountRateLimitExceeded
             else if violation_type = 2 then DcfMinimumIntervalViolation
             else if violation_type = 3 then DcfWeightLimitExceeded
             else DcfPerBlockRateLimitExceeded)), w1))"

section \<open>Checks of configurations\<close>

datatype post_validation_rule =
    EpochLengthRange | MaxValidatorsRange | ConsensusWeightsSum
  | EpochLengthIsZero | MaxValidatorsIsZero | MaxValidatorsOverLimit

definition proper_range :: "'n::len word parameter_range \<Rightarrow> bool" where
  "proper_range r \<longleftrightarrow> \<not> (range_min r > range_max r \<or> range_current r < range_min r \<or> range_current r > range_max r)"

definition validate_governance_config :: "governance_config \<Rightarrow> post_validation_rule + unit" where
  "validate_governance_config c =
     (if \<not> proper_range (gc_epoch_length c) then Inl EpochLengthRange
      else if \<not> proper_range (gc_max_validators c) then Inl MaxValidatorsRange
      else if range_current (gc_pos_weight c) + range_current (gc_poi_weight c) = 0 then Inl ConsensusWeightsSum
      else Inr ())"

definition validate_epoch_config :: "u32 \<Rightarrow> epoch_config \<Rightarrow> post_validation_rule + unit" where
  "validate_epoch_config max_validators c =
     (if blocks_per_epoch c = 0 then Inl EpochLengthIsZero
      else if ec_max_validators c = 0 then Inl MaxValidatorsIsZero
      else if ec_max_validators c > max_validators then Inl MaxValidatorsOverLimit
      else Inr ())"

section \<open>Large stakes\<close>

text \<open>
  With the weights of the runtime a stake of 2^64 units makes the weighted stake saturate; adding any
  weighted inference score then wraps around to almost nothing, and the largest staker is the one
  to eject.
\<close>

lemma large_stake_wraps:
  assumes "2 ^ 64 \<le> unat (sm_val 0 (Stake w) v)" and "1 < unat (pos_weight_of w)"
    and "0 < get_inference_score w v" "0 < poi_weight_of w"
    and "unat (get_inference_score w v) * unat (poi_weight_of w) \<le> 10000"
  shows "(sat_mul (sat_into (sm_val 0 (Stake w) v)) (pos_weight_of w)
      + sat_mul (get_inference_score w v) (poi_weight_of w) :: u64)
    = of_nat (unat (get_inference_score w v) * unat (poi_weight_of w) - 1)"
proof -
  have "unat (sat_into (sm_val 0 (Stake w) v) :: u64) = 2 ^ 64 - 1"
    using assms(1) by (simp add: unat_sat_into)
  then have stake: "sat_mul (sat_into (sm_val 0 (Stake w) v)) (pos_weight_of w) = (- 1 :: u64)"
    using assms(2) by (simp add: word_unat_eq_iff unat_sat_mul unat_max min_def)
  have "unat (sat_mul (get_inference_score w v) (poi_weight_of w))
      = unat (get_inference_score w v) * unat (poi_weight_of w)"
    using assms(5) by (simp add: unat_sat_mul min_def)
  then have inference: "sat_mul (get_inference_score w v) (poi_weight_of w)
      = of_nat (unat (get_inference_score w v) * unat (poi_weight_of w))"
    using assms(5) by (simp add: word_unat_eq_iff unsigned_of_nat take_bit_nat_eq_self del: of_nat_mult)
  have "0 < unat (get_inference_score w v) * unat (poi_weight_of w)"
    using assms(3,4) by (simp add: word_less_nat_alt)
  then show ?thesis
    unfolding stake inference by (simp add: of_nat_diff)
qed

end
