(* ===== verification/Spec2Isabelle.thy ===== *)
theory Spec2Isabelle
  imports Pos_Properties Finality_Properties Registry_Properties Score_Properties
    Author_Properties Rate_Properties Governance_Properties Parameter_Properties
    Inference_Properties Hook_Properties Gossip_Properties Block_Properties Check_Properties
    Replay_Properties Evm_Events System_Metrics Validator_Profiles
    Genesis_Presets Parameter_Api Todo_Pallet Rpc_Properties Epoch_Manager
    Trace_Properties Node_Startup Block_Tracker Rpc_Module Node_Services
    Dcf_Generators
begin

text \<open>
  A verification library for Cerulea, a FRAME based blockchain whose consensus combines proof of
  stake with proof of inference. It models the four pallets that make up the consensus, the way
  the runtime wires them together, the services of the node that vote on final blocks, and the engine of
  the node that produces and imports blocks, and proves the properties listed at the end of this text.

  \<^bold>\<open>The program and its parts.\<close> Under \<open>src/cerulea-pallets\<close>:

  \<^item> \<open>pallet-cerulea-pos\<close> keeps registered validators, stakes, scores, and the rewards and slashes of
    the epoch. It tells a \<open>ValidatorHandler\<close> about joins, leaves, slashes and rewards.
  \<^item> \<open>pallet-cerulea-dvf\<close> is the finality gadget and the validator registry: signed votes, tallies,
    justifications, frozen voting weights; the validator set, the active list, leave requests and
    cooldowns. It is the handler of the staking pallet.
  \<^item> \<open>pallet-cerulea-poi\<close> takes inference results and challenges, and an off-chain worker.
  \<^item> \<open>pallet-cerulea-dcf\<close> combines them: final scores, trust scores, epochs, author sequences,
    governance, rate limits, private chain mode, and its own finality markers. It stores
    its validator records in the registry, and reads the finalised block from the gadget. It also reports
    about itself: invariant checks, metrics, replay records, events mirrored for the EVM.

  \<open>src/cerulea-runtime\<close> supplies the constants and the adapter types between the pallets. The node's
  consensus library under \<open>src/cerulea-node/src/cerulea-consensus\<close> makes and gossips votes, keeps them in
  a pool, builds justifications from it, finalises blocks in the client and submits the justifications to
  \<open>pallet-cerulea-dvf\<close>; a task of \<open>service.rs\<close> carries the finality of the pallet over to the client. The
  engine of \<open>dcf.rs\<close> with \<open>proposer_factory.rs\<close> builds the blocks of the expected author, and
  \<open>import_queue.rs\<close> verifies and imports blocks, both through queries of the runtime.

  \<^bold>\<open>How the state is represented.\<close> One record holds the storage of all pallets; each pallet extends
  the record of the pallet below it (\<open>pos_world\<close>, \<open>dvf_world\<close>, \<open>poi_world\<close>, \<open>dcf_score_world\<close>,
  \<open>dcf_world\<close>), so that a function of one pallet runs unchanged on the joint state. A storage map is
  an association list with at most one entry per key (\<open>sm_get\<close>, \<open>sm_put\<close>, \<open>sm_del\<close> of \<open>Prelude\<close>);
  a storage value with a default is a field. Machine integers are words of their width; where
  the code uses \<open>saturating_\<close> or \<open>checked_\<close> operations the model does, and plain operators wrap
  around as they do in a release build. A call returns a sum type, \<open>Inl\<close> an error of the pallet, with
  the state reached so far: the rollback that FRAME performs when a call fails is outside the model,
  which therefore shows what the code itself has written before the error. \<open>None\<close> is a panic.
  A node is the record \<open>node\<close>: the shared pool, the messages seen and the variables of the aggregator. It
  sees the chain through a \<open>node_client\<close>, the state at the best block with headers and finalised head,
  and runs by events (\<open>node_step\<close>, \<open>node_run\<close>), each with the view it happens to get; the iteration order
  of a hash map is the order of the list that stands for it. The engine is the record \<open>engine\<close>; one turn of its
  loop (\<open>engine_iteration\<close>) sees the world as \<open>surroundings\<close> (clock, pool, best block, runtime queries, what
  the import answers) and logs in the record what it hands to the import. Storage that only reports
  extends the record once more (\<open>dcf_check_world\<close>, \<open>dcf_metrics_world\<close>, \<open>dcf_replay_world\<close>,
  \<open>dcf_evm_world\<close>, \<open>dcf_profile_world\<close>).

  \<^bold>\<open>Parameters of the model\<close> stand for code that is not in the repository: the balances
  (\<open>currency\<close>), signature verification and the proportional threshold (\<open>dvf_config\<close>), the
  hash of the inference simulation (\<open>poi_config\<close>), \<open>blake2_256\<close> and the decoder of account
  identifiers (\<open>dcf_config\<close>), the SCALE codec of numbers (\<open>scale_codec\<close>), and the benchmarked weights
  of two calls; for the node, ed25519 signing and verification, the decoder, hash and size of its
  messages (\<open>node_config\<close>); for the engine, the execution of blocks by the runtime (\<open>executive\<close>), the import
  of the client, and the codec of account identifiers; for the reports, the SCALE encodings
  (\<open>event_codec\<close>, \<open>list_codec\<close>), the smallest balance of the currency and the bounds of
  profiles; for the presets, the well-known keys (\<open>keyring\<close>) and the genesis of the balances; for the RPC, the
  conversion of percentages to the bit pattern of a float; for the tracer, whether its file opens and
  accepts a write, the clock and the names of threads; for the start of the node, the derivation of keys.
  Properties that need something of them state it as a hypothesis.

  \<^bold>\<open>Theories of the model\<close>, in the order of the code:

  \<^item> \<open>Prelude\<close>: integers, operations with results, bounded vectors, storage maps; \<open>Pallet_Types\<close>: errors,
    origins, events, the currency and handler interfaces.
  \<^item> \<open>Pos_Pallet\<close> (calls and helpers of the staking pallet), \<open>Pos_Rewards\<close>, \<open>Pos_Safety\<close>,
    \<open>Distribution\<close> (lemmas on rewards, slashes and the bounds per epoch).
  \<^item> \<open>Dvf_State\<close>, \<open>Dvf_Registry\<close>, \<open>Dvf_Finality\<close>, \<open>Dvf_Provider\<close> (the registry pallet),
    \<open>Dvf_Safety\<close>, \<open>Registry_Invariant\<close>, \<open>Quorum\<close>, \<open>Epoch_Weights\<close> (its lemmas), and \<open>Chain\<close> (the steps
    of both pallets together).
  \<^item> \<open>Poi_Pallet\<close>: submissions, challenges, the off-chain worker and the interface to the scores.
  \<^item> \<open>Parameter_Types\<close>, \<open>Dcf_State\<close> (data, configuration, storage, wrappers around the registry),
    \<open>Dcf_Scores\<close> (final scores, decay, aggregation), \<open>Trust_Score\<close>, \<open>Rate_Limits\<close>, \<open>Private_Chain\<close>,
    \<open>Dcf_Governance\<close> (proposals, votes, execution), \<open>Author_Selection\<close>, \<open>Dcf_Finality\<close> (markers),
    \<open>Dcf_Epoch\<close> (epoch transition and the block hook), \<open>Dcf_Handler\<close> (the interfaces of the pallet),
    \<open>Dcf_Parameters\<close>, \<open>Dcf_Genesis\<close>, and \<open>Dcf_Hook\<close> (what the hook does to the markers).
  \<^item> \<open>Vote_Pool\<close> and \<open>Vote_Gossip\<close> (\<open>dvf_gossip.rs\<close>, \<open>vote_creator.rs\<close>), \<open>Justification_Builder\<close>,
    \<open>Vote_Aggregator\<close> (\<open>vote_aggregator.rs\<close>, the synchronisation of \<open>service.rs\<close>, the events of a node),
    \<open>Vote_Selection\<close> and \<open>Node_Runs\<close> (the lemmas on selections and on runs).
  \<^item> \<open>Runtime_Api\<close> (queries of \<open>apis.rs\<close> and the view that the node has of the runtime), \<open>Block_Import\<close>
    (\<open>import_queue.rs\<close>, the import and digest reader of \<open>dcf.rs\<close>), \<open>Block_Production\<close> (\<open>dcf.rs\<close>,
    \<open>proposer_factory.rs\<close>) and \<open>Engine_Runs\<close> (its lemmas).
  \<^item> \<open>Dcf_Checks\<close> (invariant checks, storage migration), \<open>System_Metrics\<close>, \<open>Epoch_Replay\<close> (record and replay of
    a transition), \<open>Evm_Events\<close> (\<open>evm_compatibility.rs\<close>), \<open>Validator_Profiles\<close>: what the consensus
    pallet reports. \<open>reported_epoch_transition\<close> and \<open>recorded_epoch_transition\<close> add the reports and the replay
    record to the transition of \<open>Dcf_Epoch\<close>.
  \<^item> \<open>Genesis_Checks\<close> (the validation and dry run of a genesis that root can ask for), \<open>Genesis_Presets\<close>
    (\<open>genesis_config_presets.rs\<close> and the genesis of the whole runtime), \<open>Parameter_Api\<close> (parameter values
    through the runtime API), \<open>Node_Rpc\<close> (\<open>rpc.rs\<close>, \<open>fork_detection.rs\<close>), \<open>Epoch_Manager\<close>
    (\<open>epoch_manager.rs\<close>), \<open>Todo_Pallet\<close> (\<open>pallet-todo\<close>).
  \<^item> \<open>Node_Startup\<close> (\<open>dvf_config_validator.rs\<close>, the choice of the voting key and of the tasks in
    \<open>service.rs\<close>), \<open>Block_Tracker\<close> (the tracker of imported blocks), \<open>Rpc_Module\<close> (what the RPC serves, its
    security settings and the methods that hand on one query), \<open>Trace_Log\<close> (\<open>lifecycle_tracer.rs\<close>: JSON and
    readable lines, buffer and file), \<open>Node_Services\<close> (finality engine, notifier, stall detection, import of
    justifications, inherent data), \<open>Dcf_Generators\<close> (proposal generators and other functions of the
    consensus pallet outside its hook).
  \<^item> \<open>Runtime_Config\<close> and \<open>Dcf_Config\<close>: the constants of the runtime; \<open>Samples\<close>: a concrete currency and
    concrete states, on which the witnesses evaluate.

  \<^bold>\<open>Interfaces as locales.\<close> \<open>storage_map\<close> (interpreted by the association lists), \<open>pos_client\<close> (what the
  staking pallet needs of its handler) and \<open>pos_transparent\<close> (a property the staking pallet cannot
  touch; interpreted for the registry invariant, the finality storage and the finality markers) are
  interpreted by the handler of the registry pallet; \<open>weighted_quorum\<close> by the frozen weights;
  \<open>ballot_box\<close> by the votes on proposals; \<open>poi_client\<close> by the interface object of the runtime;
  \<open>vote_store\<close> (what the builder of justifications needs of a store of votes) by the pool of the node;
  \<open>digest_reader\<close> (what finding the author in a digest guarantees) by the three readers of the code: the
  import queue, the engine and the pallet.

  \<^bold>\<open>What is proved.\<close> \<open>Finality_Properties\<close>: two accepted justifications overlap in weight, only
  quorums finalise, finality never reverts, votes count once per round, and what a vote can do in later
  rounds. \<open>Registry_Properties\<close>: the invariant of the validator lists, joining, leaving,
  cancelling, ejecting. \<open>Pos_Properties\<close>: the bounds on rewards and slashes, every outcome of the
  operations, and where the returned remainders of the balances are misread.
  \<open>Score_Properties\<close>: trust scores move within their rates. \<open>Author_Properties\<close>: the lottery is
  proportional to weight and the same on every node, and the integer square root is right.
  \<open>Block_Properties\<close>: which blocks are accepted from the network, that produced blocks are among them and
  are credited to their author, that emergency blocks are refused, and the pace of the engine.
  \<open>Check_Properties\<close>: when the checks of the pallet are silent, what they find and when they raise a
  false alarm. \<open>Replay_Properties\<close>: what the replay of an epoch compares. \<open>Evm_Events\<close>,
  \<open>System_Metrics\<close>, \<open>Validator_Profiles\<close>: bounds, agreement of queries, round trip of metadata.
  \<open>Rate_Properties\<close>: the limits hold along every run. \<open>Ballot_Box\<close> and \<open>Governance_Properties\<close>: votes
  refine an abstract ballot box, majorities decide, and what is executed without a vote.
  \<open>Genesis_Properties\<close> and \<open>Parameter_Properties\<close>: the initial state and what root can change in it.
  \<open>Genesis_Presets\<close>: every preset starts the chain. \<open>Rpc_Properties\<close>: the request limiter keeps its
  limit, and what the comparison with peers reports.
  \<open>Node_Startup\<close>: a threshold that passes the start-up check without a warning makes quorums overlap, and
  one half, which passes with a warning, lets two blocks be justified. \<open>Trace_Properties\<close>: a trace line reads
  back to its fields, and with both outputs on the console takes every line and the file stays empty.
  \<open>Block_Tracker\<close>: the alerts of the tracker are about what it has seen. \<open>Parameter_Api\<close>, \<open>Epoch_Manager\<close>, \<open>Todo_Pallet\<close>: agreement
  of API and update, eligibility of validators, the invariant of the items.
  \<open>Inference_Properties\<close>: outcomes of submissions and challenges in the runtime.
  \<open>Hook_Properties\<close>: the announced finality is never ahead of the gadget and catches up with it.
  \<open>Node_Properties\<close>: the pool never holds two votes of an account in a round, selections are minimal, an
  honest quorum in the pool becomes a justification that the pallet accepts, heights are tried once,
  and the synchronisation forgets votes. \<open>Gossip_Properties\<close>: the node's own votes pass, refused
  messages are lost, and keys are not tied to accounts.

  \<^bold>\<open>Bounds and termination.\<close> Every loop of the code is structural recursion over a list or a counter,
  except the bisection of \<open>integer_sqrt\<close>, which is proved to terminate. No fuel is used. Division by an
  interval that is configured as zero panics in the code and is \<open>None\<close> here; divisors that are
  positive constants of the runtime (precision factors) are not guarded in the calls.

  \<^bold>\<open>Not modelled\<close>: weights, benchmarks and metadata; \<open>metrics.rs\<close> and \<open>economic_bounds.rs\<close> of
  the consensus pallet, which no module declares; fees and balances of the runtime; of the node the
  command line, the format of its log lines, the Prometheus metrics, and the part of the start that wires
  services of the libraries together; the texts of reports and logs; the command line tools except for the
  comparison with peers.
\<close>

end
